(* ===== verification/Prelude.thy ===== *)
theory Prelude
  imports Complex_Main "HOL-Library.Char_ord" "HOL-Library.List_Lexorder"
begin

text \<open>
  What every component of the AgentGraph OS backend model shares: Python values as they travel
  through JSON columns and event payloads (\<open>pyobj\<close>), the exception classes of the code
  (\<open>exn\<close>) and the way a function that may raise is written (a value of \<open>exn + 'a\<close>,
  sequenced with \<open>ebind\<close>), the Python string operations the code calls, UUIDs, the outside
  world an operation reads (the clock and \<open>uuid4\<close>), and the two interfaces that several
  components implement: a table of rows addressed by a primary key (\<open>row_table\<close>) and a status
  field whose final values are never left (\<open>status_machine\<close>).

  Strings are Isabelle strings; each character stands for one code point, so the model covers text
  whose code points are below 256, and \<open>length\<close> is Python's \<open>len\<close> on it.
\<close>

named_theorems exn_simps \<open>sequencing of computations that may raise\<close>
named_theorems table_simps \<open>reading a table after an operation on it\<close>

section \<open>Python values\<close>

type_synonym time = int \<comment> \<open>a UTC instant, in microseconds\<close>
type_synonym uuid = nat \<comment> \<open>the 128-bit integer of a \<open>uuid.UUID\<close>\<close>

datatype pyobj =
    PNone
  | PBool bool
  | PInt int
  | PFloat rat
  | PStr string
  | PList "pyobj list"
  | PDict "(string \<times> pyobj) list"
  | PDatetime time
  | POther string \<comment> \<open>any other object, by its \<open>str()\<close>\<close>

type_synonym pydict = "(string \<times> pyobj) list" \<comment> \<open>insertion ordered, as \<open>dict\<close> is\<close>

fun as_str :: "pyobj \<Rightarrow> string option" where
  "as_str (PStr s) = Some s"
| "as_str _ = None"

fun as_list :: "pyobj \<Rightarrow> pyobj list option" where
  "as_list (PList xs) = Some xs"
| "as_list _ = None"

fun as_dict :: "pyobj \<Rightarrow> pydict option" where
  "as_dict (PDict d) = Some d"
| "as_dict _ = None"

definition opt_str :: "string option \<Rightarrow> pyobj" where
  \<comment> \<open>a \<open>str | None\<close> as a Python object\<close>
  "opt_str x = (case x of None \<Rightarrow> PNone | Some s \<Rightarrow> PStr s)"

lemma as_str_Some_iff [simp]: "as_str v = Some s \<longleftrightarrow> v = PStr s"
  by (cases v) auto

lemma as_list_Some_iff [simp]: "as_list v = Some xs \<longleftrightarrow> v = PList xs"
  by (cases v) auto

lemma as_dict_Some_iff [simp]: "as_dict v = Some d \<longleftrightarrow> v = PDict d"
  by (cases v) auto

definition dict_get :: "pydict \<Rightarrow> string \<Rightarrow> pyobj" where
  \<comment> \<open>\<open>d.get(k)\<close>: \<open>None\<close> for a missing key\<close>
  "dict_get d k = (case map_of d k of None \<Rightarrow> PNone | Some v \<Rightarrow> v)"

definition dict_get_or :: "pydict \<Rightarrow> string \<Rightarrow> pyobj \<Rightarrow> pyobj" where
  "dict_get_or d k v0 = (case map_of d k of None \<Rightarrow> v0 | Some v \<Rightarrow> v)"

definition dict_keys_within :: "pydict \<Rightarrow> string list \<Rightarrow> bool" where
  \<comment> \<open>\<open>not (set(d) - {...})\<close>\<close>
  "dict_keys_within d ks = list_all (\<lambda>p. fst p \<in> set ks) d"

fun eq_int :: "pyobj \<Rightarrow> int \<Rightarrow> bool" where
  \<comment> \<open>Python's \<open>==\<close> against an integer literal: booleans and floats compare by value\<close>
  "eq_int (PInt i) n = (i = n)"
| "eq_int (PBool b) n = ((if b then 1 else 0) = n)"
| "eq_int (PFloat r) n = (r = of_int n)"
| "eq_int _ n = False"

section \<open>Exceptions\<close>

datatype model_error_code =
    PROVIDER_UNAVAILABLE | TIMEOUT | CANCELLED | MODEL_NOT_FOUND | AUTHENTICATION_FAILED
  | RATE_LIMITED | INVALID_RESPONSE | CONFIGURATION_ERROR | VISION_CAPABILITY_MISSING

datatype exn =
    TeamGraphError string string
  | OrchestrationError string string
  | ModelRouterError model_error_code string
  | AgentNotFoundError
  | RunNotFoundError
  | LifecycleConflictError string
  | MemoryError string string
  | AuthorizationError string
  | AuthenticationError string
  | AuthenticationConflictError string
  | SecurityAuthorizationError string
  | SecurityConflictError string
  | NodeError string
  | NodeNotFoundError string
  | NodeDisabledError string
  | NodeUnavailableError string
  | NodeControlError string
  | NodeTaskTimeoutError string
  | NodeTaskDisconnectedError string
  | NodeTaskDuplicateError string
  | VisionError string string
  | VaultError string
  | IntegrityError
  | KeyError string
  | ValueError string
  | TypeError string
  | RuntimeError string
  | CancelledError
  | OSError
  | TimeoutError
  | IndexError
  | AttributeError string
  | HttpTimeout \<comment> \<open>\<open>httpx.TimeoutException\<close>\<close>
  | HttpError \<comment> \<open>any other \<open>httpx.HTTPError\<close>\<close>
  | HttpException nat pyobj \<comment> \<open>\<open>fastapi.HTTPException\<close>: status and detail\<close>
  | RequestValidationError

definition ebind :: "exn + 'a \<Rightarrow> ('a \<Rightarrow> exn + 'b) \<Rightarrow> exn + 'b" where
  "ebind m f = (case m of Inl e \<Rightarrow> Inl e | Inr x \<Rightarrow> f x)"

definition guard :: "bool \<Rightarrow> exn \<Rightarrow> exn + unit" where
  \<comment> \<open>\<open>if not b: raise e\<close>\<close>
  "guard b e = (if b then Inr () else Inl e)"

lemma ebind_simps [simp, exn_simps]:
  "ebind (Inl e) f = Inl e"
  "ebind (Inr x) f = f x"
  by (simp_all add: ebind_def)

lemma ebind_Inr_iff [exn_simps]: "ebind m f = Inr y \<longleftrightarrow> (\<exists>x. m = Inr x \<and> f x = Inr y)"
  by (cases m) auto

lemma ebind_Inl_iff [exn_simps]:
  "ebind m f = Inl e \<longleftrightarrow> m = Inl e \<or> (\<exists>x. m = Inr x \<and> f x = Inl e)"
  by (cases m) auto

lemma guard_Inr_iff [simp, exn_simps]: "guard b e = Inr u \<longleftrightarrow> b"
  by (simp add: guard_def)

lemma guard_Inl_iff [simp, exn_simps]: "guard b e = Inl e' \<longleftrightarrow> \<not> b \<and> e' = e"
  by (auto simp: guard_def)

lemma ebind_cong [fundef_cong]:
  "m = m' \<Longrightarrow> (\<And>x. m' = Inr x \<Longrightarrow> f x = g x) \<Longrightarrow> ebind m f = ebind m' g"
  by (cases m') auto

fun emap :: "('a \<Rightarrow> exn + 'b) \<Rightarrow> 'a list \<Rightarrow> exn + 'b list" where
  \<comment> \<open>a comprehension whose element may raise\<close>
  "emap f [] = Inr []"
| "emap f (x # xs) = ebind (f x) (\<lambda>y. ebind (emap f xs) (\<lambda>ys. Inr (y # ys)))"

section \<open>Operations on a state\<close>

type_synonym ('s, 'a) stateful = "'s \<Rightarrow> (exn + 'a) \<times> 's"

definition op_return :: "'a \<Rightarrow> ('s, 'a) stateful" where
  "op_return x m = (Inr x, m)"

definition op_raise :: "exn \<Rightarrow> ('s, 'a) stateful" where
  "op_raise e m = (Inl e, m)"

definition op_bind :: "('s, 'a) stateful \<Rightarrow> ('a \<Rightarrow> ('s, 'b) stateful) \<Rightarrow> ('s, 'b) stateful" where
  "op_bind p f m = (case p m of (Inl e, m') \<Rightarrow> (Inl e, m') | (Inr x, m') \<Rightarrow> f x m')"

definition with_state :: "('s \<Rightarrow> ('s, 'a) stateful) \<Rightarrow> ('s, 'a) stateful" where
  "with_state f m = f m m"

definition op_lift :: "exn + 'a \<Rightarrow> ('s, 'a) stateful" where
  "op_lift x m = (x, m)"

definition op_map :: "('a \<Rightarrow> 'b) \<Rightarrow> ('s, 'a) stateful \<Rightarrow> ('s, 'b) stateful" where
  "op_map f p = op_bind p (\<lambda>x. op_return (f x))"

lemma op_bind_snd:
  "snd (op_bind p f m) = (case fst (p m) of Inl e \<Rightarrow> snd (p m) | Inr x \<Rightarrow> snd (f x (snd (p m))))"
  by (simp add: op_bind_def split: prod.split sum.split)

lemma op_bind_Inr_iff: "op_bind p f m = (Inr y, m') \<longleftrightarrow> (\<exists>x m1. p m = (Inr x, m1) \<and> f x m1 = (Inr y, m'))"
  by (auto simp: op_bind_def split: prod.splits sum.splits)

lemma op_bind_InrE:
  assumes "op_bind p f m = (Inr y, m')"
  obtains x m1 where "p m = (Inr x, m1)" "f x m1 = (Inr y, m')"
  using assms by (auto simp: op_bind_Inr_iff)

lemma op_map_snd [simp]: "snd (op_map f p m) = snd (p m)"
  by (simp add: op_map_def op_bind_snd op_return_def split: sum.split)

lemma op_lift_snd [simp]: "snd (op_lift x m) = m"
  by (simp add: op_lift_def)

lemma bind_snd_id: "snd (p m) = m \<Longrightarrow> (\<And>x. snd (f x m) = m) \<Longrightarrow> snd (op_bind p f m) = m"
  by (simp add: op_bind_snd split: sum.split)

section \<open>Python strings\<close>

definition py_isspace :: "char \<Rightarrow> bool" where
  \<comment> \<open>\<open>str.isspace\<close> below code point 256\<close>
  "py_isspace c = (let n = (of_char c :: nat) in
     (9 \<le> n \<and> n \<le> 13) \<or> (28 \<le> n \<and> n \<le> 32) \<or> n = 133 \<or> n = 160)"

definition py_lower_char :: "char \<Rightarrow> char" where
  \<comment> \<open>\<open>str.lower\<close> below code point 256\<close>
  "py_lower_char c = (let n = (of_char c :: nat) in
     if (65 \<le> n \<and> n \<le> 90) \<or> (192 \<le> n \<and> n \<le> 222 \<and> n \<noteq> 215) then char_of (n + 32) else c)"

definition py_lower :: "string \<Rightarrow> string" where
  "py_lower s = map py_lower_char s"

fun nat_str :: "nat \<Rightarrow> string" where
  \<comment> \<open>\<open>str(n)\<close> for a non-negative integer\<close>
  "nat_str n = (if n < 10 then [char_of (48 + n)] else nat_str (n div 10) @ [char_of (48 + n mod 10)])"

declare nat_str.simps [simp del]

definition py_strip :: "string \<Rightarrow> string" where
  "py_strip s = rev (dropWhile py_isspace (rev (dropWhile py_isspace s)))"

fun py_contains :: "string \<Rightarrow> string \<Rightarrow> bool" where
  \<comment> \<open>\<open>needle in hay\<close>\<close>
  "py_contains needle [] = (needle = [])"
| "py_contains needle (c # hay) =
     (take (length needle) (c # hay) = needle \<or> py_contains needle hay)"

definition ascii :: "string \<Rightarrow> bool" where
  "ascii s = list_all (\<lambda>c. (of_char c :: nat) < 128) s"

definition compare_digest :: "string \<Rightarrow> string \<Rightarrow> exn + bool" where
  \<comment> \<open>\<open>hmac.compare_digest\<close> of two strings\<close>
  "compare_digest a b = (if ascii a \<and> ascii b then Inr (a = b)
     else Inl (TypeError ''comparing strings with non-ASCII characters is not supported''))"

definition utf8_length :: "string \<Rightarrow> nat" where
  \<comment> \<open>\<open>len(s.encode())\<close>: a code point from 128 to 255 takes two bytes\<close>
  "utf8_length s = (\<Sum>c\<leftarrow>s. if (of_char c :: nat) < 128 then 1 else 2)"

fun py_partition :: "string \<Rightarrow> string \<Rightarrow> string \<times> bool \<times> string" where
  \<comment> \<open>\<open>s.partition(sep)\<close>: the text before, whether \<open>sep\<close> occurs, the text after\<close>
  "py_partition sep [] = (if sep = [] then ([], True, []) else ([], False, []))"
| "py_partition sep (c # s) =
     (if take (length sep) (c # s) = sep then ([], True, drop (length sep) (c # s))
      else (case py_partition sep s of (a, found, b) \<Rightarrow> (c # a, found, b)))"

lemma py_partition_found:
  "py_partition sep s = (a, True, b) \<Longrightarrow> s = a @ sep @ b"
proof (induction s arbitrary: a)
  case Nil
  then show ?case by (simp split: if_splits)
next
  case (Cons c s)
  show ?case
  proof (cases "take (length sep) (c # s) = sep")
    case True
    with Cons.prems show ?thesis
      using append_take_drop_id [of "length sep" "c # s"] by simp
  next
    case False
    with Cons show ?thesis by (auto split: prod.splits)
  qed
qed

lemma py_partition_missing: "py_partition sep s = (a, False, b) \<Longrightarrow> a = s \<and> b = []"
  by (induction s arbitrary: a) (auto split: if_splits prod.splits)

lemma dropWhile_Nil_iff: "dropWhile P xs = [] \<longleftrightarrow> (\<forall>x \<in> set xs. P x)"
  by (induction xs) auto

lemma dropWhile_hd: "dropWhile P xs = y # ys \<Longrightarrow> \<not> P y"
  by (induction xs) (auto split: if_splits)

lemma length_py_strip: "length (py_strip s) \<le> length s"
  unfolding py_strip_def
  by (metis length_dropWhile_le length_rev order_trans)

lemma length_py_lower [simp]: "length (py_lower s) = length s"
  by (simp add: py_lower_def)

lemma py_strip_empty_iff: "py_strip s = [] \<longleftrightarrow> (\<forall>c \<in> set s. py_isspace c)"
proof -
  have "(\<forall>c \<in> set (dropWhile py_isspace s). py_isspace c) \<longleftrightarrow> (\<forall>c \<in> set s. py_isspace c)"
    by (metis dropWhile_Nil_iff list.set_intros(1) dropWhile_hd list.exhaust set_dropWhileD)
  then show ?thesis by (simp add: py_strip_def dropWhile_Nil_iff)
qed

section \<open>UUIDs\<close>

definition hex_digit :: "nat \<Rightarrow> char" where
  "hex_digit n = (if n < 10 then char_of (48 + n) else char_of (87 + n))"

fun hex_fixed :: "nat \<Rightarrow> nat \<Rightarrow> string" where
  \<comment> \<open>the \<open>k\<close> low hexadecimal digits, most significant first\<close>
  "hex_fixed 0 n = []"
| "hex_fixed (Suc k) n = hex_fixed k (n div 16) @ [hex_digit (n mod 16)]"

definition uuid_hex :: "uuid \<Rightarrow> string" where
  "uuid_hex u = hex_fixed 32 u"

definition uuid_str :: "uuid \<Rightarrow> string" where
  \<comment> \<open>\<open>str(UUID)\<close>: 8-4-4-4-12\<close>
  "uuid_str u = (let h = uuid_hex u in
     take 8 h @ ''-'' @ take 4 (drop 8 h) @ ''-'' @ take 4 (drop 12 h) @ ''-'' @
     take 4 (drop 16 h) @ ''-'' @ drop 20 h)"

definition hex_value :: "char \<Rightarrow> nat option" where
  "hex_value c = (let n = (of_char c :: nat) in
     if 48 \<le> n \<and> n \<le> 57 then Some (n - 48)
     else if 97 \<le> n \<and> n \<le> 102 then Some (n - 87)
     else if 65 \<le> n \<and> n \<le> 70 then Some (n - 55)
     else None)"

fun hex_digits :: "nat \<Rightarrow> string \<Rightarrow> nat option" where
  \<comment> \<open>the digits of \<open>int(s, 16)\<close>, single underscores between digits allowed\<close>
  "hex_digits acc [] = Some acc"
| "hex_digits acc (c # s) =
     (if c = CHR ''_'' then
        (case s of [] \<Rightarrow> None
         | d # s' \<Rightarrow> (case hex_value d of None \<Rightarrow> None | Some v \<Rightarrow> hex_digits (16 * acc + v) s'))
      else (case hex_value c of None \<Rightarrow> None | Some v \<Rightarrow> hex_digits (16 * acc + v) s))"

definition hex_number :: "string \<Rightarrow> nat option" where
  \<comment> \<open>an optional \<open>0x\<close> (which may be followed by one underscore), then at least one digit\<close>
  "hex_number s =
     (let body = (if take 2 s \<in> {''0x'', ''0X''} then drop 2 s else s);
          body' = (if body \<noteq> s \<and> take 1 body = ''_'' then drop 1 body else body)
      in case body' of [] \<Rightarrow> None | c # _ \<Rightarrow> if c = CHR ''_'' then None else hex_digits 0 body')"

definition py_int16 :: "string \<Rightarrow> int option" where
  \<comment> \<open>\<open>int(s, 16)\<close>: blanks around, a sign, the number\<close>
  "py_int16 s = (let t = py_strip s in
     case t of [] \<Rightarrow> None
     | c # r \<Rightarrow> if c = CHR ''-'' then map_option (\<lambda>n. - int n) (hex_number r)
              else if c = CHR ''+'' then map_option int (hex_number r)
              else map_option int (hex_number t))"

fun remove_all :: "string \<Rightarrow> nat \<Rightarrow> string \<Rightarrow> string" where
  \<comment> \<open>\<open>s.replace(pat, '')\<close> for a non-empty \<open>pat\<close>; the number counts characters of a match still to skip\<close>
  "remove_all pat k [] = []"
| "remove_all pat (Suc k) (c # s) = remove_all pat k s"
| "remove_all pat 0 (c # s) =
     (if take (length pat) (c # s) = pat then remove_all pat (length pat - 1) s
      else c # remove_all pat 0 s)"

definition strip_braces :: "string \<Rightarrow> string" where
  "strip_braces s = (let b = (\<lambda>c. c = CHR ''{'' \<or> c = CHR ''}'') in
     rev (dropWhile b (rev (dropWhile b s))))"

definition uuid_parse :: "string \<Rightarrow> uuid option" where
  \<comment> \<open>\<open>uuid.UUID(s)\<close>; \<open>None\<close> is its \<open>ValueError\<close>\<close>
  "uuid_parse s =
     (let h = filter (\<lambda>c. c \<noteq> CHR ''-'')
                (strip_braces (remove_all ''uuid:'' 0 (remove_all ''urn:'' 0 s)))
      in if length h \<noteq> 32 then None
         else case py_int16 h of None \<Rightarrow> None
              | Some i \<Rightarrow> if 0 \<le> i \<and> i < 2 ^ 128 then Some (nat i) else None)"

subsection \<open>\<open>UUID(str(u))\<close> is \<open>u\<close>\<close>

text \<open>The characters of a hexadecimal number are those with a value; the separators have none.\<close>

lemma not_hex_chars:
  "hex_value (CHR ''_'') = None" "hex_value (CHR ''-'') = None" "hex_value (CHR ''+'') = None"
  "hex_value (CHR ''x'') = None" "hex_value (CHR ''X'') = None" "hex_value (CHR '':'') = None"
  "hex_value (CHR ''{'') = None" "hex_value (CHR ''}'') = None"
  by (simp_all add: hex_value_def Let_def)

lemma hex_value_not_space: "hex_value c \<noteq> None \<Longrightarrow> \<not> py_isspace c"
  by (auto simp: hex_value_def py_isspace_def Let_def split: if_splits)

lemma hex_value_digit: "n < 16 \<Longrightarrow> hex_value (hex_digit n) = Some n"
  by (auto simp: hex_digit_def hex_value_def Let_def)

lemma length_hex_fixed [simp]: "length (hex_fixed k n) = k"
  by (induction k arbitrary: n) auto

lemma hex_fixed_clean: "c \<in> set (hex_fixed k n) \<Longrightarrow> hex_value c \<noteq> None"
  by (induction k arbitrary: n) (auto simp: hex_value_digit)

lemma hex_digits_snoc:
  "\<forall>c \<in> set xs. hex_value c \<noteq> None \<Longrightarrow> d < 16 \<Longrightarrow>
   hex_digits acc (xs @ [hex_digit d]) = map_option (\<lambda>a. 16 * a + d) (hex_digits acc xs)"
proof (induction xs arbitrary: acc)
  case Nil
  then have "hex_digit d \<noteq> CHR ''_''" using hex_value_digit not_hex_chars by force
  with Nil show ?case by (simp add: hex_value_digit)
next
  case (Cons c xs)
  then have "c \<noteq> CHR ''_''" using not_hex_chars by auto
  with Cons show ?case by (auto split: option.splits)
qed

lemma hex_digits_fixed: "hex_digits 0 (hex_fixed k n) = Some (n mod 16 ^ k)"
proof (induction k arbitrary: n)
  case 0
  then show ?case by simp
next
  case (Suc k)
  have "hex_digits 0 (hex_fixed (Suc k) n) = Some (16 * (n div 16 mod 16 ^ k) + n mod 16)"
    by (simp add: hex_digits_snoc hex_fixed_clean Suc.IH)
  also have "16 * (n div 16 mod 16 ^ k) + n mod 16 = n mod 16 ^ Suc k"
    by (simp add: mod_mult2_eq)
  finally show ?case .
qed

lemma dropWhile_none: "\<forall>c \<in> set s. \<not> P c \<Longrightarrow> dropWhile P s = s"
  by (cases s) auto

lemma py_strip_clean: "\<forall>c \<in> set s. \<not> py_isspace c \<Longrightarrow> py_strip s = s"
  by (simp add: py_strip_def dropWhile_none)

lemma strip_braces_clean: "CHR ''{'' \<notin> set s \<Longrightarrow> CHR ''}'' \<notin> set s \<Longrightarrow> strip_braces s = s"
proof -
  assume "CHR ''{'' \<notin> set s" "CHR ''}'' \<notin> set s"
  then have "\<forall>c \<in> set s. \<not> (c = CHR ''{'' \<or> c = CHR ''}'')" by auto
  then show ?thesis unfolding strip_braces_def Let_def by (subst dropWhile_none, simp)+ simp
qed

lemma remove_all_absent: "x \<in> set pat \<Longrightarrow> x \<notin> set s \<Longrightarrow> remove_all pat 0 s = s"
proof (induction s)
  case (Cons c s)
  have "take (length pat) (c # s) \<noteq> pat" using Cons.prems by (metis in_set_takeD)
  with Cons show ?case by simp
qed simp

lemma set_uuid_hex: "c \<in> set (uuid_hex u) \<Longrightarrow> hex_value c \<noteq> None"
  unfolding uuid_hex_def by (rule hex_fixed_clean)

lemma length_uuid_hex: "length (uuid_hex u) = 32"
  by (simp add: uuid_hex_def)

lemma set_uuid_str: "c \<in> set (uuid_str u) \<Longrightarrow> c = CHR ''-'' \<or> hex_value c \<noteq> None"
  using set_uuid_hex by (fastforce simp: uuid_str_def Let_def dest: in_set_takeD in_set_dropD)

lemma split_8_4_4_4: "length h = 32 \<Longrightarrow>
  take 8 h @ take 4 (drop 8 h) @ take 4 (drop 12 h) @ take 4 (drop 16 h) @ drop 20 h = h"
proof -
  have "take 4 (drop n h) @ drop (n + 4) h = drop n h" for n
    by (metis add.commute append_take_drop_id drop_drop)
  from this [of 8] this [of 12] this [of 16] show ?thesis by simp
qed

lemma filter_dash_uuid_str: "filter (\<lambda>c. c \<noteq> CHR ''-'') (uuid_str u) = uuid_hex u"
proof -
  define P where "P = (\<lambda>c. c \<noteq> CHR ''-'')"
  have P: "P c" if "c \<in> set (uuid_hex u)" for c
    using set_uuid_hex [OF that] not_hex_chars by (auto simp: P_def)
  have f: "filter P (take a (drop b (uuid_hex u))) = take a (drop b (uuid_hex u))"
    "filter P (drop b (uuid_hex u)) = drop b (uuid_hex u)"
    "filter P (take a (uuid_hex u)) = take a (uuid_hex u)" for a b
    using P by (auto simp: filter_id_conv dest: in_set_takeD in_set_dropD)
  have "filter P (CHR ''-'' # xs) = filter P xs" for xs by (simp add: P_def)
  then have "filter P (uuid_str u) = uuid_hex u"
    by (simp add: uuid_str_def Let_def f split_8_4_4_4 [OF length_uuid_hex] del: filter.simps)
  then show ?thesis by (simp add: P_def)
qed

lemma uuid_hex_Cons: obtains a b r where "uuid_hex u = a # b # r" "hex_value a \<noteq> None" "hex_value b \<noteq> None"
proof -
  obtain a s where s: "uuid_hex u = a # s" using length_uuid_hex [of u] by (cases "uuid_hex u") auto
  then obtain b r where "s = b # r" using length_uuid_hex [of u] by (cases s) auto
  with s show ?thesis using that set_uuid_hex [of _ u] by auto
qed

lemma hex_number_hex: "hex_number (uuid_hex u) = Some (u mod 16 ^ 32)"
proof -
  obtain a b r where h: "uuid_hex u = a # b # r" and v: "hex_value a \<noteq> None" "hex_value b \<noteq> None"
    by (rule uuid_hex_Cons)
  from v have "a \<noteq> CHR ''_''" "b \<noteq> CHR ''x''" "b \<noteq> CHR ''X''" using not_hex_chars by auto
  with h have "hex_number (uuid_hex u) = hex_digits 0 (uuid_hex u)"
    by (simp add: hex_number_def Let_def del: hex_digits.simps)
  then show ?thesis by (simp only: uuid_hex_def hex_digits_fixed)
qed

lemma py_int16_hex: "py_int16 (uuid_hex u) = Some (int (u mod 16 ^ 32))"
proof -
  obtain a b r where h: "uuid_hex u = a # b # r" and v: "hex_value a \<noteq> None" by (rule uuid_hex_Cons)
  from v have "a \<noteq> CHR ''-''" "a \<noteq> CHR ''+''" using not_hex_chars by auto
  moreover have "py_strip (uuid_hex u) = uuid_hex u"
    using set_uuid_hex hex_value_not_space by (intro py_strip_clean) blast
  ultimately show ?thesis using h hex_number_hex [of u] by (simp add: py_int16_def)
qed

lemma uuid_parse_str:
  assumes "u < 2 ^ 128"
  shows "uuid_parse (uuid_str u) = Some u"
proof -
  have x: "x \<notin> set (uuid_str u)" if "hex_value x = None" "x \<noteq> CHR ''-''" for x
    using set_uuid_str [of x u] that by auto
  have "remove_all ''urn:'' 0 (uuid_str u) = uuid_str u" "remove_all ''uuid:'' 0 (uuid_str u) = uuid_str u"
    by (rule remove_all_absent [where x = "CHR '':''"]; simp add: x not_hex_chars)+
  then have "strip_braces (remove_all ''uuid:'' 0 (remove_all ''urn:'' 0 (uuid_str u))) = uuid_str u"
    by (simp add: strip_braces_clean x not_hex_chars del: remove_all.simps)
  moreover have "length (uuid_hex u) = 32" by (simp add: uuid_hex_def)
  moreover have "u mod 16 ^ 32 = u" using assms by simp
  ultimately show ?thesis
    using assms unfolding uuid_parse_def Let_def
    by (simp add: filter_dash_uuid_str py_int16_hex del: remove_all.simps)
qed

section \<open>Dictionaries\<close>

text \<open>A \<open>dict\<close> or an \<open>OrderedDict\<close> is the list of its items; a key keeps its place when it is set again.\<close>

definition dict_put :: "'k \<Rightarrow> 'v \<Rightarrow> ('k \<times> 'v) list \<Rightarrow> ('k \<times> 'v) list" where
  "dict_put k v d =
     (if map_of d k = None then d @ [(k, v)] else map (\<lambda>p. if fst p = k then (k, v) else p) d)"

definition dict_pop :: "'k \<Rightarrow> ('k \<times> 'v) list \<Rightarrow> ('k \<times> 'v) list" where
  \<comment> \<open>what \<open>d.pop(k, None)\<close> leaves\<close>
  "dict_pop k d = filter (\<lambda>p. fst p \<noteq> k) d"

lemma map_of_dict_put [simp]: "map_of (dict_put k v d) = (map_of d)(k \<mapsto> v)"
proof
  fix x
  have "map_of (map (\<lambda>p. if fst p = k then (k, v) else p) d) x =
      (if x = k then (if map_of d k = None then None else Some v) else map_of d x)"
    by (induction d) auto
  then show "map_of (dict_put k v d) x = ((map_of d)(k \<mapsto> v)) x"
    by (auto simp: dict_put_def map_add_def split: option.split)
qed

lemma map_of_dict_pop [simp]: "map_of (dict_pop k d) = (map_of d)(k := None)"
  by (rule ext) (induction d, auto simp: dict_pop_def)

lemma keys_dict_put: "map fst (dict_put k v d) = (if k \<in> fst ` set d then map fst d else map fst d @ [k])"
  by (auto simp: dict_put_def map_of_eq_None_iff intro: map_cong)

lemma keys_dict_pop: "map fst (dict_pop k d) = filter (\<lambda>x. x \<noteq> k) (map fst d)"
  by (simp add: dict_pop_def filter_map o_def)

lemma length_dict_put: "length (dict_put k v d) = (if map_of d k = None then Suc (length d) else length d)"
  by (simp add: dict_put_def)

lemma length_dict_pop_le: "length (dict_pop k d) \<le> length d"
  by (simp add: dict_pop_def)

lemma distinct_dict [intro]:
  "distinct (map fst d) \<Longrightarrow> distinct (map fst (dict_put k v d))"
  "distinct (map fst d) \<Longrightarrow> distinct (map fst (dict_pop k d))"
  by (auto simp: keys_dict_put keys_dict_pop)

lemma length_dict_pop_present:
  "map_of d k \<noteq> None \<Longrightarrow> length (dict_pop k d) < length d"
  unfolding dict_pop_def by (rule length_filter_less [of "(k, the (map_of d k))"]) (auto dest: map_of_SomeD)

section \<open>Tables\<close>

text \<open>
  A database table is the list of its rows in the order they were created. The repositories reach
  a row by its primary key (\<open>session.get\<close>), write its attributes and flush, add a row, which
  fails when the key is taken, and delete one.
\<close>

definition row_get :: "('r \<Rightarrow> 'k) \<Rightarrow> 'k \<Rightarrow> 'r list \<Rightarrow> 'r option" where
  "row_get key k t = find (\<lambda>r. key r = k) t"

definition row_update :: "('r \<Rightarrow> 'k) \<Rightarrow> 'k \<Rightarrow> ('r \<Rightarrow> 'r) \<Rightarrow> 'r list \<Rightarrow> 'r list" where
  "row_update key k f t = map (\<lambda>r. if key r = k then f r else r) t"

definition row_insert :: "('r \<Rightarrow> 'k) \<Rightarrow> 'r \<Rightarrow> 'r list \<Rightarrow> exn + 'r list" where
  "row_insert key r t = (if row_get key (key r) t = None then Inr (t @ [r]) else Inl IntegrityError)"

definition row_delete :: "('r \<Rightarrow> 'k) \<Rightarrow> 'k \<Rightarrow> 'r list \<Rightarrow> 'r list" where
  "row_delete key k t = filter (\<lambda>r. key r \<noteq> k) t"

lemma row_get_simps [simp, table_simps]:
  "row_get key k [] = None"
  "row_get key k (r # t) = (if key r = k then Some r else row_get key k t)"
  by (simp_all add: row_get_def)

lemma row_get_Some: "row_get key k t = Some r \<Longrightarrow> r \<in> set t \<and> key r = k"
  by (induction t) (auto split: if_splits)

lemma row_get_None_iff: "row_get key k t = None \<longleftrightarrow> k \<notin> key ` set t"
  by (induction t) auto

lemma row_get_eq_iff:
  "distinct (map key t) \<Longrightarrow> row_get key k t = Some r \<longleftrightarrow> r \<in> set t \<and> key r = k"
  by (induction t) (auto simp: rev_image_eqI)

lemma row_get_filter:
  "distinct (map key t) \<Longrightarrow> row_get key k (filter P t) = Some r \<Longrightarrow> row_get key k t = Some r"
  by (simp add: row_get_eq_iff distinct_map_filter)

lemma row_get_append [simp, table_simps]:
  "row_get key k (t @ u) = (case row_get key k t of None \<Rightarrow> row_get key k u | Some r \<Rightarrow> Some r)"
  by (induction t) auto

lemma row_get_update [table_simps]:
  "(\<And>r. key (f r) = key r) \<Longrightarrow>
   row_get key k' (row_update key k f t) =
     (if k' = k then map_option f (row_get key k t) else row_get key k' t)"
  by (induction t) (auto simp: row_update_def)

lemma map_key_row_update [simp, table_simps]:
  "(\<And>r. key (f r) = key r) \<Longrightarrow> map key (row_update key k f t) = map key t"
  by (induction t) (auto simp: row_update_def)

lemma set_row_update: "set (row_update key k f t) = (\<lambda>r. if key r = k then f r else r) ` set t"
  by (auto simp: row_update_def)

lemma row_insert_Inr_iff [table_simps]:
  "row_insert key r t = Inr t' \<longleftrightarrow> row_get key (key r) t = None \<and> t' = t @ [r]"
  by (auto simp: row_insert_def)

lemma row_insert_distinct:
  "row_insert key r t = Inr t' \<Longrightarrow> distinct (map key t) \<Longrightarrow> distinct (map key t')"
  by (auto simp: row_insert_Inr_iff row_get_None_iff)

lemma row_get_delete [table_simps]:
  "row_get key k' (row_delete key k t) = (if k' = k then None else row_get key k' t)"
  by (induction t) (auto simp: row_delete_def)

lemma row_update_absent: "row_get key k t = None \<Longrightarrow> row_update key k f t = t"
  by (induction t) (auto simp: row_update_def split: if_splits)

text \<open>The interface a service relies on when it uses a repository, and what follows from it.\<close>

locale row_table =
  fixes key :: "'r \<Rightarrow> 'k"
    and get :: "'k \<Rightarrow> 'r list \<Rightarrow> 'r option"
    and update :: "'k \<Rightarrow> ('r \<Rightarrow> 'r) \<Rightarrow> 'r list \<Rightarrow> 'r list"
    and insert :: "'r \<Rightarrow> 'r list \<Rightarrow> exn + 'r list"
  assumes get_key: "get k t = Some r \<Longrightarrow> r \<in> set t \<and> key r = k"
    and get_update: "(\<And>r. key (f r) = key r) \<Longrightarrow>
      get k' (update k f t) = (if k' = k then map_option f (get k t) else get k' t)"
    and get_insert: "insert r t = Inr t' \<Longrightarrow>
      get (key r) t = None \<and> get k t' = (if k = key r then Some r else get k t)"
begin

lemma get_update_same: "(\<And>r. key (f r) = key r) \<Longrightarrow> get k t = Some r \<Longrightarrow> get k (update k f t) = Some (f r)"
  by (simp add: get_update)

lemma get_update_other: "(\<And>r. key (f r) = key r) \<Longrightarrow> k' \<noteq> k \<Longrightarrow> get k' (update k f t) = get k' t"
  by (simp add: get_update)

lemma get_insert_same: "insert r t = Inr t' \<Longrightarrow> get (key r) t' = Some r"
  by (simp add: get_insert)

lemma get_insert_kept: "insert r t = Inr t' \<Longrightarrow> get k t = Some x \<Longrightarrow> get k t' = Some x"
  using get_insert [of r t t' k] by auto

lemma insert_new_key: "insert r t = Inr t' \<Longrightarrow> get (key r) t = None"
  by (simp add: get_insert)

end

section \<open>Status fields\<close>

text \<open>
  Runs, approvals, tool invocations and image analyses all carry a status that moves until it
  reaches a final value. The contract is that no operation moves a final status.
\<close>

locale status_machine =
  fixes moves :: "'s \<Rightarrow> 's \<Rightarrow> bool"
    and final :: "'s \<Rightarrow> bool"
  assumes final_stays: "final s \<Longrightarrow> moves s t \<Longrightarrow> t = s"
begin

lemma final_stays_run: "moves\<^sup>*\<^sup>* s t \<Longrightarrow> final s \<Longrightarrow> t = s"
  by (induction rule: rtranclp_induct) (auto dest: final_stays)

lemma final_history: "list_all (\<lambda>(a, b). moves a b) (zip h (tl h)) \<Longrightarrow> h \<noteq> [] \<Longrightarrow> final (hd h) \<Longrightarrow>
   set h = {hd h}"
proof (induction h)
  case (Cons a h)
  then show ?case by (cases h) (auto dest: final_stays)
qed simp

end

section \<open>The outside world of one call\<close>

record world =
  w_now :: time
  w_uuid4 :: "nat \<Rightarrow> uuid" \<comment> \<open>the results of the successive \<open>uuid4()\<close> calls\<close>

end
