(* ===== verification/Entities.thy ===== *)
theory Entities
  imports Prelude
begin

text \<open>
  The records that cross component boundaries: \<open>domain/entities.py\<close> (agents, runs and their
  statuses, the run tree), \<open>runtime/execution.py\<close> (what a runtime workflow is given) and the response
  types of \<open>models/contracts.py\<close>.
\<close>

datatype agent_status = AgentIdle | AgentRunning | AgentError

datatype run_status = Queued | Running | Succeeded | Failed | Cancelled

definition ACTIVE_RUN_STATUSES :: "run_status set" where
  "ACTIVE_RUN_STATUSES = {Queued, Running}"

definition TERMINAL_RUN_STATUSES :: "run_status set" where
  "TERMINAL_RUN_STATUSES = {Succeeded, Failed, Cancelled}"

fun run_status_value :: "run_status \<Rightarrow> string" where
  "run_status_value Queued = ''queued''"
| "run_status_value Running = ''running''"
| "run_status_value Succeeded = ''succeeded''"
| "run_status_value Failed = ''failed''"
| "run_status_value Cancelled = ''cancelled''"

definition all_run_statuses :: "run_status list" where
  "all_run_statuses = [Queued, Running, Succeeded, Failed, Cancelled]"

lemma active_iff_not_terminal: "st \<in> ACTIVE_RUN_STATUSES \<longleftrightarrow> st \<notin> TERMINAL_RUN_STATUSES"
  by (cases st) (auto simp: ACTIVE_RUN_STATUSES_def TERMINAL_RUN_STATUSES_def)

lemma set_all_run_statuses [simp]: "set all_run_statuses = UNIV"
proof -
  have "st \<in> set all_run_statuses" for st by (cases st) (auto simp: all_run_statuses_def)
  then show ?thesis by blast
qed

record agent =
  ag_id :: uuid
  ag_name :: string
  ag_description :: "string option"
  ag_status :: agent_status
  ag_model_ref :: string
  ag_graph :: pydict
  ag_created_at :: time
  ag_updated_at :: time

text \<open>The persisted row: the fields of the domain \<open>AgentRun\<close> and the recorded execution specification.\<close>

record run =
  run_id :: uuid
  run_agent_id :: uuid
  run_status :: run_status
  run_input_text :: string
  run_output_text :: "string option"
  run_error :: "string option"
  run_created_at :: time
  run_started_at :: "time option"
  run_finished_at :: "time option"
  run_provider_id :: "string option"
  run_model_id :: "string option"
  run_finish_reason :: "string option"
  run_input_tokens :: "int option"
  run_output_tokens :: "int option"
  run_total_tokens :: "int option"
  run_latency_ms :: "int option"
  run_execution_spec :: "pydict option"

datatype run_tree_node = RunTreeNode "string option" nat run "run_tree_node list"

record delegation_context =
  dc_parent_run_id :: "uuid option"
  dc_root_run_id :: "uuid option"
  dc_depth :: nat
  dc_ancestry :: "uuid list"

record execution_request =
  ex_agent_id :: uuid
  ex_run_id :: uuid
  ex_input_text :: string
  ex_model_ref :: string
  ex_graph_definition :: pydict
  ex_delegation_context :: "delegation_context option"

record model_usage =
  mu_input_tokens :: "int option"
  mu_output_tokens :: "int option"
  mu_total_tokens :: "int option"

record model_response =
  mr_content :: string
  mr_provider_id :: string
  mr_model_id :: string
  mr_finish_reason :: "string option"
  mr_usage :: model_usage
  mr_latency_ms :: "int option"

definition no_usage :: model_usage where
  "no_usage = \<lparr>mu_input_tokens = None, mu_output_tokens = None, mu_total_tokens = None\<rparr>"

fun model_error_code_value :: "model_error_code \<Rightarrow> string" where
  "model_error_code_value PROVIDER_UNAVAILABLE = ''provider_unavailable''"
| "model_error_code_value TIMEOUT = ''timeout''"
| "model_error_code_value CANCELLED = ''cancelled''"
| "model_error_code_value MODEL_NOT_FOUND = ''model_not_found''"
| "model_error_code_value AUTHENTICATION_FAILED = ''authentication_failed''"
| "model_error_code_value RATE_LIMITED = ''rate_limited''"
| "model_error_code_value INVALID_RESPONSE = ''invalid_response''"
| "model_error_code_value CONFIGURATION_ERROR = ''configuration_error''"
| "model_error_code_value VISION_CAPABILITY_MISSING = ''vision_capability_missing''"

end
