(* ===== verification/Store.thy ===== *)
theory Store
  imports Entities
begin

text \<open>
  The lifecycle tables of \<open>persistence/models.py\<close> and the repositories that read and write them:
  \<open>repositories/agents.py\<close>, \<open>runs.py\<close>, \<open>delegations.py\<close>, \<open>recovery.py\<close>, \<open>tool_invocations.py\<close>.
  A table is the list of its rows in insertion order; ids are UUIDs (their text form appears where
  the code writes it into JSON). Foreign keys are enforced, deletion cascades as the schema says,
  and the unique indexes make an insertion fail with \<open>IntegrityError\<close>. The partial unique index on the
  active run of an agent comes from \<open>alembic/versions/20260811_0001\<close>.
\<close>

section \<open>Rows\<close>

record delegation =
  dg_id :: uuid
  dg_parent_run_id :: uuid
  dg_child_run_id :: uuid
  dg_node_id :: string
  dg_depth :: nat
  dg_created_at :: time

text \<open>
  The stored state of a checkpoint is JSON text: \<open>cp_state\<close> is \<open>None\<close> when it does not parse, and
  \<open>cp_reason\<close> is the stored text of the enumeration.
\<close>

record checkpoint =
  cp_id :: uuid
  cp_run_id :: uuid
  cp_sequence :: int
  cp_format_version :: int
  cp_reason :: string
  cp_state :: "pyobj option"
  cp_checksum :: string
  cp_created_at :: time

record ledger_entry =
  al_id :: uuid
  al_run_id :: uuid
  al_tool_invocation_id :: "uuid option"
  al_action_type :: string
  al_risk :: string
  al_status :: string \<comment> \<open>the stored text of \<open>ActionLedgerStatus\<close>\<close>
  al_details :: pydict
  al_rollback_status :: string
  al_created_at :: time
  al_started_at :: "time option"
  al_finished_at :: "time option"

record recovery_decision =
  rd_id :: uuid
  rd_run_id :: uuid
  rd_checkpoint_id :: "uuid option"
  rd_outcome :: string
  rd_details :: pydict
  rd_created_at :: time

record tool_invocation =
  ti_id :: uuid
  ti_run_id :: uuid
  ti_tool_id :: string
  ti_risk :: string
  ti_status :: string
  ti_approval_id :: "string option"
  ti_input_metadata :: pydict
  ti_output_metadata :: "pydict option"
  ti_error_code :: "string option"
  ti_started_at :: time
  ti_finished_at :: "time option"
  ti_duration_ms :: "int option"

record memory_row =
  me_id :: uuid
  me_project_id :: string
  me_agent_id :: uuid
  me_kind :: string
  me_content :: string
  me_tags :: "string list"
  me_created_at :: time
  me_updated_at :: time
  me_deleted_at :: "time option"

record run_memory =
  rm_id :: uuid
  rm_run_id :: uuid
  rm_memory_id :: "uuid option"
  rm_memory_id_snapshot :: uuid
  rm_rank :: nat
  rm_score :: "rat option"

record store =
  st_agents :: "agent list"
  st_runs :: "run list"
  st_delegations :: "delegation list"
  st_checkpoints :: "checkpoint list"
  st_actions :: "ledger_entry list"
  st_decisions :: "recovery_decision list"
  st_invocations :: "tool_invocation list"
  st_memories :: "memory_row list"
  st_run_memories :: "run_memory list"

definition empty_store :: store where
  "empty_store = \<lparr>st_agents = [], st_runs = [], st_delegations = [], st_checkpoints = [],
     st_actions = [], st_decisions = [], st_invocations = [], st_memories = [], st_run_memories = []\<rparr>"

section \<open>Agents\<close>

definition agent_get :: "uuid \<Rightarrow> store \<Rightarrow> agent option" where
  "agent_get i st = row_get ag_id i (st_agents st)"

definition agent_create :: "uuid \<Rightarrow> time \<Rightarrow> string \<Rightarrow> string option \<Rightarrow> string \<Rightarrow> pydict \<Rightarrow> store \<Rightarrow>
    exn + agent \<times> store" where
  "agent_create u now name description mref graph st =
     (let r = \<lparr>ag_id = u, ag_name = name, ag_description = description, ag_status = AgentIdle,
            ag_model_ref = mref, ag_graph = graph, ag_created_at = now, ag_updated_at = now\<rparr>
      in ebind (row_insert ag_id r (st_agents st)) (\<lambda>t. Inr (r, st\<lparr>st_agents := t\<rparr>)))"

definition agent_list :: "store \<Rightarrow> agent list" where
  "agent_list st = sort_key ag_created_at (st_agents st)"

definition agent_touch :: "time \<Rightarrow> (agent \<Rightarrow> agent) \<Rightarrow> agent \<Rightarrow> agent" where
  \<comment> \<open>an UPDATE is emitted only for a changed row, and then sets \<open>updated_at\<close>\<close>
  "agent_touch now f a = (if f a = a then a else (f a)\<lparr>ag_updated_at := now\<rparr>)"

definition agent_update :: "time \<Rightarrow> uuid \<Rightarrow> (agent \<Rightarrow> agent) \<Rightarrow> store \<Rightarrow> store" where
  "agent_update now i f st = st\<lparr>st_agents := row_update ag_id i (agent_touch now f) (st_agents st)\<rparr>"

definition update_graph :: "time \<Rightarrow> uuid \<Rightarrow> pydict \<Rightarrow> store \<Rightarrow> store" where
  "update_graph now i graph st = agent_update now i (\<lambda>a. a\<lparr>ag_graph := graph\<rparr>) st"

definition set_agent_status :: "time \<Rightarrow> uuid \<Rightarrow> agent_status \<Rightarrow> store \<Rightarrow> store" where
  "set_agent_status now i s st = agent_update now i (\<lambda>a. a\<lparr>ag_status := s\<rparr>) st"

definition null_unless :: "('a \<Rightarrow> bool) \<Rightarrow> 'a option \<Rightarrow> 'a option" where
  \<comment> \<open>\<open>ON DELETE SET NULL\<close>\<close>
  "null_unless P x = (case x of None \<Rightarrow> None | Some i \<Rightarrow> if P i then Some i else None)"

definition agent_delete :: "uuid \<Rightarrow> store \<Rightarrow> store" where
  \<comment> \<open>the row and what its foreign keys cascade to\<close>
  "agent_delete i st =
     (let runs = filter (\<lambda>r. run_agent_id r \<noteq> i) (st_runs st);
          kept = (\<lambda>k. row_get run_id k runs \<noteq> None);
          invs = filter (\<lambda>r. kept (ti_run_id r)) (st_invocations st);
          cps = filter (\<lambda>r. kept (cp_run_id r)) (st_checkpoints st);
          mems = filter (\<lambda>r. me_agent_id r \<noteq> i) (st_memories st)
      in \<lparr>st_agents = row_delete ag_id i (st_agents st), st_runs = runs,
          st_delegations = filter (\<lambda>d. kept (dg_parent_run_id d) \<and> kept (dg_child_run_id d)) (st_delegations st),
          st_checkpoints = cps,
          st_actions = map (\<lambda>r. r\<lparr>al_tool_invocation_id :=
              null_unless (\<lambda>k. row_get ti_id k invs \<noteq> None) (al_tool_invocation_id r)\<rparr>)
            (filter (\<lambda>r. kept (al_run_id r)) (st_actions st)),
          st_decisions = map (\<lambda>r. r\<lparr>rd_checkpoint_id :=
              null_unless (\<lambda>k. row_get cp_id k cps \<noteq> None) (rd_checkpoint_id r)\<rparr>)
            (filter (\<lambda>r. kept (rd_run_id r)) (st_decisions st)),
          st_invocations = invs, st_memories = mems,
          st_run_memories = map (\<lambda>r. r\<lparr>rm_memory_id :=
              null_unless (\<lambda>k. row_get me_id k mems \<noteq> None) (rm_memory_id r)\<rparr>)
            (filter (\<lambda>r. kept (rm_run_id r)) (st_run_memories st))\<rparr>)"

section \<open>Runs\<close>

definition run_active :: "run \<Rightarrow> bool" where
  "run_active r = (run_status r = Queued \<or> run_status r = Running)"

definition has_active :: "uuid \<Rightarrow> store \<Rightarrow> bool" where
  "has_active a st = list_ex (\<lambda>r. run_agent_id r = a \<and> run_active r) (st_runs st)"

definition new_run :: "uuid \<Rightarrow> time \<Rightarrow> uuid \<Rightarrow> string \<Rightarrow> run" where
  "new_run u now a input =
     \<lparr>run_id = u, run_agent_id = a, run_status = Queued, run_input_text = input,
      run_output_text = None, run_error = None, run_created_at = now, run_started_at = None,
      run_finished_at = None, run_provider_id = None, run_model_id = None, run_finish_reason = None,
      run_input_tokens = None, run_output_tokens = None, run_total_tokens = None,
      run_latency_ms = None, run_execution_spec = None\<rparr>"

definition run_create :: "uuid \<Rightarrow> time \<Rightarrow> uuid \<Rightarrow> string \<Rightarrow> store \<Rightarrow> exn + run \<times> store" where
  \<comment> \<open>primary key, foreign key to the agent, and the unique index on an agent's active run\<close>
  "run_create u now a input st =
     (let r = new_run u now a input in
      ebind (guard (agent_get a st \<noteq> None \<and> \<not> has_active a st) IntegrityError) (\<lambda>_.
      ebind (row_insert run_id r (st_runs st)) (\<lambda>t. Inr (r, st\<lparr>st_runs := t\<rparr>))))"

definition run_get :: "uuid \<Rightarrow> store \<Rightarrow> run option" where
  "run_get i st = row_get run_id i (st_runs st)"

definition run_update :: "uuid \<Rightarrow> (run \<Rightarrow> run) \<Rightarrow> store \<Rightarrow> store" where
  "run_update i f st = st\<lparr>st_runs := row_update run_id i f (st_runs st)\<rparr>"

definition list_for_agent :: "uuid \<Rightarrow> store \<Rightarrow> run list" where
  "list_for_agent a st = sort_key (\<lambda>r. - run_created_at r) (filter (\<lambda>r. run_agent_id r = a) (st_runs st))"

definition list_stale :: "store \<Rightarrow> run list" where
  \<comment> \<open>the query has no order: the rows come as they were inserted\<close>
  "list_stale st = filter run_active (st_runs st)"

definition list_by_ids :: "uuid list \<Rightarrow> store \<Rightarrow> run list" where
  "list_by_ids ids st = filter (\<lambda>r. run_id r \<in> set ids) (st_runs st)"

section \<open>Delegations\<close>

definition delegation_create :: "uuid \<Rightarrow> time \<Rightarrow> uuid \<Rightarrow> uuid \<Rightarrow> string \<Rightarrow> nat \<Rightarrow> store \<Rightarrow> exn + store" where
  "delegation_create u now parent child node depth st =
     (let d = \<lparr>dg_id = u, dg_parent_run_id = parent, dg_child_run_id = child, dg_node_id = node,
            dg_depth = depth, dg_created_at = now\<rparr>
      in ebind (guard (run_get parent st \<noteq> None \<and> run_get child st \<noteq> None \<and>
             list_all (\<lambda>e. dg_child_run_id e \<noteq> child \<and> (dg_parent_run_id e, dg_node_id e) \<noteq> (parent, node))
               (st_delegations st)) IntegrityError) (\<lambda>_.
         ebind (row_insert dg_id d (st_delegations st)) (\<lambda>t. Inr (st\<lparr>st_delegations := t\<rparr>))))"

definition list_for_parents :: "uuid list \<Rightarrow> store \<Rightarrow> delegation list" where
  "list_for_parents ids st =
     sort_key dg_created_at (filter (\<lambda>d. dg_parent_run_id d \<in> set ids) (st_delegations st))"

definition list_for_child :: "uuid \<Rightarrow> store \<Rightarrow> delegation list" where
  "list_for_child i st = filter (\<lambda>d. dg_child_run_id d = i) (st_delegations st)"

section \<open>Checkpoints, the action ledger and recovery decisions\<close>

definition checkpoint_sequences :: "uuid \<Rightarrow> checkpoint list \<Rightarrow> int list" where
  "checkpoint_sequences i t = map cp_sequence (filter (\<lambda>c. cp_run_id c = i) t)"

definition max_sequence :: "uuid \<Rightarrow> checkpoint list \<Rightarrow> int" where
  \<comment> \<open>\<open>max(sequence) or 0\<close>\<close>
  "max_sequence i t = (case checkpoint_sequences i t of [] \<Rightarrow> 0 | s # ss \<Rightarrow> foldl max s ss)"

definition checkpoint_create :: "(pyobj \<Rightarrow> string) \<Rightarrow> uuid \<Rightarrow> time \<Rightarrow> uuid \<Rightarrow> string \<Rightarrow> pydict \<Rightarrow> store \<Rightarrow>
    exn + checkpoint \<times> store" where
  \<comment> \<open>the first argument is \<open>checkpoint_checksum\<close>\<close>
  "checkpoint_create checksum u now i reason state st =
     (let c = \<lparr>cp_id = u, cp_run_id = i, cp_sequence = max_sequence i (st_checkpoints st) + 1,
            cp_format_version = 1, cp_reason = reason, cp_state = Some (PDict state),
            cp_checksum = checksum (PDict state), cp_created_at = now\<rparr>
      in ebind (guard (run_get i st \<noteq> None \<and> cp_sequence c \<notin> set (checkpoint_sequences i (st_checkpoints st)))
           IntegrityError) (\<lambda>_.
         ebind (row_insert cp_id c (st_checkpoints st)) (\<lambda>t. Inr (c, st\<lparr>st_checkpoints := t\<rparr>))))"

fun later_checkpoint :: "checkpoint option \<Rightarrow> checkpoint \<Rightarrow> checkpoint option" where
  "later_checkpoint None c = Some c"
| "later_checkpoint (Some b) c = (if cp_sequence b < cp_sequence c then Some c else Some b)"

definition latest_row :: "uuid \<Rightarrow> store \<Rightarrow> checkpoint option" where
  \<comment> \<open>the first row in the order of descending sequence numbers\<close>
  "latest_row i st = foldl later_checkpoint None (filter (\<lambda>c. cp_run_id c = i) (st_checkpoints st))"

definition checkpoint_reasons :: "string list" where
  "checkpoint_reasons = [''created'', ''running'', ''succeeded'', ''failed'', ''cancelled'']"

definition latest_checkpoint :: "uuid \<Rightarrow> store \<Rightarrow> exn + checkpoint option" where
  \<comment> \<open>loading a row decodes its JSON and its enumeration\<close>
  "latest_checkpoint i st =
     (case latest_row i st of
        None \<Rightarrow> Inr None
      | Some c \<Rightarrow> if cp_state c = None then Inl (ValueError ''JSON'')
                 else if cp_reason c \<notin> set checkpoint_reasons then Inl (KeyError (cp_reason c))
                 else Inr (Some c))"

record checkpoint_metadata =
  cm_id :: string
  cm_sequence :: int
  cm_format_version :: int
  cm_reason :: string
  cm_checksum :: string
  cm_created_at :: time

definition list_checkpoint_metadata :: "uuid \<Rightarrow> store \<Rightarrow> checkpoint_metadata list" where
  \<comment> \<open>reads the columns without decoding them, so that it works on damaged rows\<close>
  "list_checkpoint_metadata i st = map
     (\<lambda>c. \<lparr>cm_id = uuid_str (cp_id c), cm_sequence = cp_sequence c, cm_format_version = cp_format_version c,
        cm_reason = cp_reason c, cm_checksum = cp_checksum c, cm_created_at = cp_created_at c\<rparr>)
     (sort_key (\<lambda>c. - cp_sequence c) (filter (\<lambda>c. cp_run_id c = i) (st_checkpoints st)))"

definition action_create :: "uuid \<Rightarrow> time \<Rightarrow> uuid \<Rightarrow> uuid option \<Rightarrow> string \<Rightarrow> string \<Rightarrow> pydict \<Rightarrow> store \<Rightarrow>
    exn + ledger_entry \<times> store" where
  "action_create u now i tool ty risk details st =
     (let e = \<lparr>al_id = u, al_run_id = i, al_tool_invocation_id = tool, al_action_type = ty, al_risk = risk,
            al_status = ''intent_recorded'', al_details = details, al_rollback_status = ''not_supported'',
            al_created_at = now, al_started_at = None, al_finished_at = None\<rparr>
      in ebind (guard (run_get i st \<noteq> None \<and>
             (case tool of None \<Rightarrow> True | Some k \<Rightarrow> row_get ti_id k (st_invocations st) \<noteq> None \<and>
                list_all (\<lambda>a. al_tool_invocation_id a \<noteq> Some k) (st_actions st))) IntegrityError) (\<lambda>_.
         ebind (row_insert al_id e (st_actions st)) (\<lambda>t. Inr (e, st\<lparr>st_actions := t\<rparr>))))"

definition action_get :: "uuid \<Rightarrow> store \<Rightarrow> ledger_entry option" where
  "action_get k st = row_get al_id k (st_actions st)"

definition action_rows :: "uuid \<Rightarrow> store \<Rightarrow> ledger_entry list" where
  "action_rows i st = sort_key al_created_at (filter (\<lambda>a. al_run_id a = i) (st_actions st))"

definition action_statuses :: "string list" where
  "action_statuses = [''intent_recorded'', ''started'', ''confirmed'', ''failed'', ''uncertain'']"

definition list_actions :: "uuid \<Rightarrow> store \<Rightarrow> exn + ledger_entry list" where
  "list_actions i st =
     (let rows = action_rows i st in
      if list_all (\<lambda>a. al_status a \<in> set action_statuses) rows then Inr rows
      else Inl (KeyError ''ActionLedgerStatus''))"

definition decision_create :: "uuid \<Rightarrow> time \<Rightarrow> uuid \<Rightarrow> uuid option \<Rightarrow> string \<Rightarrow> pydict \<Rightarrow> store \<Rightarrow> exn + store" where
  "decision_create u now i cp outcome details st =
     (let d = \<lparr>rd_id = u, rd_run_id = i, rd_checkpoint_id = cp, rd_outcome = outcome,
            rd_details = details, rd_created_at = now\<rparr>
      in ebind (guard (run_get i st \<noteq> None \<and>
             (case cp of None \<Rightarrow> True | Some k \<Rightarrow> row_get cp_id k (st_checkpoints st) \<noteq> None)) IntegrityError) (\<lambda>_.
         ebind (row_insert rd_id d (st_decisions st)) (\<lambda>t. Inr (st\<lparr>st_decisions := t\<rparr>))))"

definition list_decisions :: "uuid \<Rightarrow> store \<Rightarrow> recovery_decision list" where
  "list_decisions i st = sort_key (\<lambda>d. - rd_created_at d) (filter (\<lambda>d. rd_run_id d = i) (st_decisions st))"

section \<open>Tool invocations\<close>

definition invocation_create :: "tool_invocation \<Rightarrow> store \<Rightarrow> exn + store" where
  "invocation_create r st =
     ebind (guard (run_get (ti_run_id r) st \<noteq> None) IntegrityError) (\<lambda>_.
     ebind (row_insert ti_id r (st_invocations st)) (\<lambda>t. Inr (st\<lparr>st_invocations := t\<rparr>)))"

definition invocation_get :: "uuid \<Rightarrow> store \<Rightarrow> tool_invocation option" where
  "invocation_get k st = row_get ti_id k (st_invocations st)"

definition invocation_update :: "uuid \<Rightarrow> (tool_invocation \<Rightarrow> tool_invocation) \<Rightarrow> store \<Rightarrow> store" where
  "invocation_update k f st = st\<lparr>st_invocations := row_update ti_id k f (st_invocations st)\<rparr>"

definition list_for_run :: "uuid \<Rightarrow> store \<Rightarrow> tool_invocation list" where
  "list_for_run i st = sort_key ti_started_at (filter (\<lambda>r. ti_run_id r = i) (st_invocations st))"

section \<open>The tables are tables\<close>

lemma row_insert_get: "row_insert key r t = Inr t' \<Longrightarrow>
  row_get key (key r) t = None \<and> row_get key k t' = (if k = key r then Some r else row_get key k t)"
  by (auto simp: row_insert_Inr_iff split: option.split)

lemma row_table_rows: "row_table key (row_get key) (row_update key) (row_insert key)"
proof (unfold_locales, goal_cases)
  case (1 k t r)
  then show ?case by (rule row_get_Some)
next
  case (2 f k' k t)
  then show ?case by (rule row_get_update)
next
  case (3 r t t' k)
  then show ?case by (rule row_insert_get)
qed

interpretation run_rows: row_table run_id "row_get run_id" "row_update run_id" "row_insert run_id"
  by (rule row_table_rows)

interpretation agent_rows: row_table ag_id "row_get ag_id" "row_update ag_id" "row_insert ag_id"
  by (rule row_table_rows)

interpretation action_rows: row_table al_id "row_get al_id" "row_update al_id" "row_insert al_id"
  by (rule row_table_rows)

interpretation invocation_rows: row_table ti_id "row_get ti_id" "row_update ti_id" "row_insert ti_id"
  by (rule row_table_rows)

section \<open>Lemmas\<close>

named_theorems store_simps \<open>what an operation leaves of the other tables\<close>

lemma run_active_iff: "run_active r \<longleftrightarrow> run_status r \<in> ACTIVE_RUN_STATUSES"
  by (simp add: run_active_def ACTIVE_RUN_STATUSES_def)

lemma has_active_iff: "has_active a st \<longleftrightarrow> (\<exists>r \<in> set (st_runs st). run_agent_id r = a \<and> run_active r)"
  by (simp add: has_active_def list_ex_iff)

lemma agent_update_fields [simp, store_simps]:
  "st_runs (agent_update now i f st) = st_runs st"
  "st_delegations (agent_update now i f st) = st_delegations st"
  "st_checkpoints (agent_update now i f st) = st_checkpoints st"
  "st_actions (agent_update now i f st) = st_actions st"
  "st_decisions (agent_update now i f st) = st_decisions st"
  "st_invocations (agent_update now i f st) = st_invocations st"
  "st_memories (agent_update now i f st) = st_memories st"
  by (simp_all add: agent_update_def)

lemma run_update_fields [simp, store_simps]:
  "st_agents (run_update i f st) = st_agents st"
  "st_delegations (run_update i f st) = st_delegations st"
  "st_checkpoints (run_update i f st) = st_checkpoints st"
  "st_actions (run_update i f st) = st_actions st"
  "st_decisions (run_update i f st) = st_decisions st"
  "st_invocations (run_update i f st) = st_invocations st"
  "st_memories (run_update i f st) = st_memories st"
  by (simp_all add: run_update_def)

lemma agent_touch_id [simp]: "(\<And>a. ag_id (f a) = ag_id a) \<Longrightarrow> ag_id (agent_touch now f a) = ag_id a"
  by (simp add: agent_touch_def)

lemma agent_get_update [simp, store_simps]:
  "(\<And>a. ag_id (f a) = ag_id a) \<Longrightarrow> agent_get k (agent_update now i f st) =
     (if k = i then map_option (agent_touch now f) (agent_get k st) else agent_get k st)"
  unfolding agent_get_def agent_update_def by (simp add: agent_rows.get_update)

lemma run_get_update [simp, store_simps]:
  "(\<And>r. run_id (f r) = run_id r) \<Longrightarrow> run_get k (run_update i f st) =
     (if k = i then map_option f (run_get k st) else run_get k st)"
  unfolding run_get_def run_update_def by (simp add: run_rows.get_update)

lemma run_get_agent_update [simp, store_simps]: "run_get k (agent_update now i f st) = run_get k st"
  by (simp add: run_get_def)

lemma agent_get_run_update [simp, store_simps]: "agent_get k (run_update i f st) = agent_get k st"
  by (simp add: agent_get_def)

lemma run_create_Inr:
  "run_create u now a input st = Inr (r, st') \<longleftrightarrow> agent_get a st \<noteq> None \<and> \<not> has_active a st \<and>
     run_get u st = None \<and> r = new_run u now a input \<and> st' = st\<lparr>st_runs := st_runs st @ [r]\<rparr>"
  by (auto simp: run_create_def Let_def exn_simps row_insert_Inr_iff run_get_def new_run_def)

lemma delegation_create_Inr:
  "delegation_create u now p c n d st = Inr st' \<Longrightarrow> \<exists>e. st' = st\<lparr>st_delegations := st_delegations st @ [e]\<rparr> \<and>
     dg_parent_run_id e = p \<and> dg_child_run_id e = c \<and> dg_depth e = d \<and> dg_node_id e = n \<and> run_get p st \<noteq> None \<and>
     run_get c st \<noteq> None \<and> (\<forall>e' \<in> set (st_delegations st). dg_child_run_id e' \<noteq> c)"
  by (auto simp: delegation_create_def Let_def exn_simps row_insert_Inr_iff list_all_iff)

lemma foldl_max_all: "\<forall>x \<in> set (s # ss). (x::int) \<le> foldl max s ss"
proof (induction ss arbitrary: s)
  case (Cons a ss)
  from Cons.IH [of "max s a"] show ?case by auto
qed simp

lemma foldl_max_ge: "(x::int) \<in> set (s # ss) \<Longrightarrow> x \<le> foldl max s ss"
  using foldl_max_all by blast

lemma max_sequence_ge: "s \<in> set (checkpoint_sequences i t) \<Longrightarrow> s \<le> max_sequence i t"
  using foldl_max_ge by (auto simp: max_sequence_def split: list.split)

lemma checkpoint_create_Inr:
  "checkpoint_create cs u now i reason state st = Inr (c, st') \<longleftrightarrow>
     run_get i st \<noteq> None \<and> row_get cp_id u (st_checkpoints st) = None \<and>
     c = \<lparr>cp_id = u, cp_run_id = i, cp_sequence = max_sequence i (st_checkpoints st) + 1,
        cp_format_version = 1, cp_reason = reason, cp_state = Some (PDict state),
        cp_checksum = cs (PDict state), cp_created_at = now\<rparr> \<and>
     st' = st\<lparr>st_checkpoints := st_checkpoints st @ [c]\<rparr>"
proof -
  have "max_sequence i (st_checkpoints st) + 1 \<notin> set (checkpoint_sequences i (st_checkpoints st))"
    using max_sequence_ge [of "max_sequence i (st_checkpoints st) + 1" i "st_checkpoints st"] by auto
  then show ?thesis by (auto simp: checkpoint_create_def Let_def exn_simps row_insert_Inr_iff)
qed

end
