(* ===== verification/Events.thy ===== *)
theory Events
  imports Entities "HOL-Library.Sublist"
begin

text \<open>
  \<open>runtime/events.py\<close> and \<open>RuntimeEvent\<close> of \<open>domain/remote.py\<close>: what a published event looks like
  once its payload has been sanitised, the bounded history and the bounded queues of the
  subscribers. Publishing has no suspension point, so it is one atomic operation; a subscriber's
  generator is modelled by what its next call takes off its queue.
\<close>

section \<open>Events\<close>

datatype event_type =
    PROJECT_CREATED | RUN_CREATED | RUN_STARTED | RUN_PAUSED | RUN_RESUMED | RUN_COMPLETED
  | RUN_FAILED | RUN_CANCELLED | TASK_CREATED | TASK_STARTED | TASK_PROGRESS | TASK_COMPLETED
  | TASK_FAILED | AGENT_STARTED | AGENT_WAITING | AGENT_COMPLETED | AGENT_FAILED
  | PROVIDER_SELECTED | PROVIDER_CHANGED | PROVIDER_ERROR | TOOL_STARTED | TOOL_COMPLETED
  | TOOL_FAILED | APPROVAL_REQUIRED | APPROVAL_APPROVED | APPROVAL_REJECTED | APPROVAL_EXPIRED
  | LOG_CREATED | VISION_ASSET_CREATED | VISION_ANALYSIS_QUEUED | VISION_ANALYSIS_STARTED
  | VISION_ANALYSIS_COMPLETED | VISION_ANALYSIS_FAILED | VISION_FOLDER_SCAN_STARTED
  | VISION_FOLDER_SCAN_COMPLETED | NODE_REGISTERED | NODE_CONNECTED | NODE_OFFLINE | NODE_DISABLED
  | WORKER_TASK_REQUESTED | WORKER_TASK_COMPLETED | WORKER_TASK_FAILED | WORKER_TASK_TIMED_OUT
  | CHECKPOINT_CREATED | RECOVERY_ASSESSED

primrec event_type_value :: "event_type \<Rightarrow> string" where
  "event_type_value PROJECT_CREATED = ''project.created''"
| "event_type_value RUN_CREATED = ''run.created''"
| "event_type_value RUN_STARTED = ''run.started''"
| "event_type_value RUN_PAUSED = ''run.paused''"
| "event_type_value RUN_RESUMED = ''run.resumed''"
| "event_type_value RUN_COMPLETED = ''run.completed''"
| "event_type_value RUN_FAILED = ''run.failed''"
| "event_type_value RUN_CANCELLED = ''run.cancelled''"
| "event_type_value TASK_CREATED = ''task.created''"
| "event_type_value TASK_STARTED = ''task.started''"
| "event_type_value TASK_PROGRESS = ''task.progress''"
| "event_type_value TASK_COMPLETED = ''task.completed''"
| "event_type_value TASK_FAILED = ''task.failed''"
| "event_type_value AGENT_STARTED = ''agent.started''"
| "event_type_value AGENT_WAITING = ''agent.waiting''"
| "event_type_value AGENT_COMPLETED = ''agent.completed''"
| "event_type_value AGENT_FAILED = ''agent.failed''"
| "event_type_value PROVIDER_SELECTED = ''provider.selected''"
| "event_type_value PROVIDER_CHANGED = ''provider.changed''"
| "event_type_value PROVIDER_ERROR = ''provider.error''"
| "event_type_value TOOL_STARTED = ''tool.started''"
| "event_type_value TOOL_COMPLETED = ''tool.completed''"
| "event_type_value TOOL_FAILED = ''tool.failed''"
| "event_type_value APPROVAL_REQUIRED = ''approval.required''"
| "event_type_value APPROVAL_APPROVED = ''approval.approved''"
| "event_type_value APPROVAL_REJECTED = ''approval.rejected''"
| "event_type_value APPROVAL_EXPIRED = ''approval.expired''"
| "event_type_value LOG_CREATED = ''log.created''"
| "event_type_value VISION_ASSET_CREATED = ''vision.asset.created''"
| "event_type_value VISION_ANALYSIS_QUEUED = ''vision.analysis.queued''"
| "event_type_value VISION_ANALYSIS_STARTED = ''vision.analysis.started''"
| "event_type_value VISION_ANALYSIS_COMPLETED = ''vision.analysis.completed''"
| "event_type_value VISION_ANALYSIS_FAILED = ''vision.analysis.failed''"
| "event_type_value VISION_FOLDER_SCAN_STARTED = ''vision.folder.scan.started''"
| "event_type_value VISION_FOLDER_SCAN_COMPLETED = ''vision.folder.scan.completed''"
| "event_type_value NODE_REGISTERED = ''node.registered''"
| "event_type_value NODE_CONNECTED = ''node.connected''"
| "event_type_value NODE_OFFLINE = ''node.offline''"
| "event_type_value NODE_DISABLED = ''node.disabled''"
| "event_type_value WORKER_TASK_REQUESTED = ''worker.task.requested''"
| "event_type_value WORKER_TASK_COMPLETED = ''worker.task.completed''"
| "event_type_value WORKER_TASK_FAILED = ''worker.task.failed''"
| "event_type_value WORKER_TASK_TIMED_OUT = ''worker.task.timed_out''"
| "event_type_value CHECKPOINT_CREATED = ''checkpoint.created''"
| "event_type_value RECOVERY_ASSESSED = ''recovery.assessed''"

record event =
  ev_id :: string
  ev_type :: event_type
  ev_timestamp :: time
  ev_project_id :: string
  ev_run_id :: "string option"
  ev_task_id :: "string option"
  ev_agent_id :: "string option"
  ev_provider_id :: "string option"
  ev_severity :: string
  ev_payload :: pydict

definition event_create :: "uuid \<Rightarrow> time \<Rightarrow> event_type \<Rightarrow> string \<Rightarrow> string option \<Rightarrow> string option \<Rightarrow>
    string option \<Rightarrow> string option \<Rightarrow> string \<Rightarrow> pydict \<Rightarrow> event" where
  \<comment> \<open>the first two arguments are the \<open>uuid4()\<close> and the \<open>utc_now()\<close> of the call\<close>
  "event_create u now ty project run task agent provider severity payload =
     \<lparr>ev_id = ''evt_'' @ uuid_hex u, ev_type = ty, ev_timestamp = now, ev_project_id = project,
      ev_run_id = run, ev_task_id = task, ev_agent_id = agent, ev_provider_id = provider,
      ev_severity = severity, ev_payload = payload\<rparr>"

section \<open>\<open>datetime.isoformat\<close> of a UTC instant\<close>

definition zfill :: "nat \<Rightarrow> nat \<Rightarrow> string" where
  \<comment> \<open>the decimal digits of the number, padded with zeros to the given width\<close>
  "zfill k n = (let s = nat_str n in replicate (k - length s) (CHR ''0'') @ s)"

definition civil_date :: "int \<Rightarrow> int \<times> int \<times> int" where
  \<comment> \<open>year, month and day of the proleptic Gregorian calendar, from days since 1970-01-01\<close>
  "civil_date days =
     (let z = days + 719468;
          era = z div 146097;
          doe = z mod 146097;
          yoe = (doe - doe div 1460 + doe div 36524 - doe div 146096) div 365;
          doy = doe - (365 * yoe + yoe div 4 - yoe div 100);
          mp = (5 * doy + 2) div 153;
          d = doy - (153 * mp + 2) div 5 + 1;
          m = (if mp < 10 then mp + 3 else mp - 9);
          y = yoe + era * 400 + (if m \<le> 2 then 1 else 0)
      in (y, m, d))"

definition isoformat :: "time \<Rightarrow> string" where
  "isoformat t =
     (let us = t mod 1000000; secs = t div 1000000;
          sod = secs mod 86400;
          (y, m, d) = civil_date (secs div 86400);
          two = (\<lambda>n. zfill 2 (nat n))
      in zfill 4 (nat y) @ ''-'' @ two m @ ''-'' @ two d @ ''T'' @
         two (sod div 3600) @ '':'' @ two (sod div 60 mod 60) @ '':'' @ two (sod mod 60) @
         (if us = 0 then [] else ''.'' @ zfill 6 (nat us)) @ ''+00:00'')"

section \<open>Sanitising\<close>

definition SECRET_MARKERS :: "string list" where
  "SECRET_MARKERS = [''api_key'', ''token'', ''password'', ''authorization'', ''secret'', ''credential'']"

definition is_secret :: "string \<Rightarrow> bool" where
  "is_secret key = list_ex (\<lambda>marker. py_contains marker (py_lower key)) SECRET_MARKERS"

fun sanitize :: "pyobj \<Rightarrow> pyobj" where
  "sanitize (PDict d) =
     PDict (map (\<lambda>(k, v). (k, if is_secret k then PStr ''[redacted]'' else sanitize v)) d)"
| "sanitize (PList xs) = PList (map sanitize xs)"
| "sanitize (PDatetime t) = PStr (isoformat t)"
| "sanitize (POther s) = PStr s"
| "sanitize v = v"

definition sanitize_payload :: "pydict \<Rightarrow> pydict" where
  "sanitize_payload d = map (\<lambda>(k, v). (k, if is_secret k then PStr ''[redacted]'' else sanitize v)) d"

definition sanitize_event :: "event \<Rightarrow> event" where
  "sanitize_event e = e\<lparr>ev_payload := sanitize_payload (ev_payload e)\<rparr>"

fun json_ok :: "pyobj \<Rightarrow> bool" where
  \<comment> \<open>\<open>json.dumps\<close> without a default accepts it\<close>
  "json_ok (PDict d) = list_all (\<lambda>(k, v). json_ok v) d"
| "json_ok (PList xs) = list_all json_ok xs"
| "json_ok (PDatetime t) = False"
| "json_ok (POther s) = False"
| "json_ok v = True"

fun secret_free :: "pyobj \<Rightarrow> bool" where
  "secret_free (PDict d) = list_all (\<lambda>(k, v). if is_secret k then v = PStr ''[redacted]'' else secret_free v) d"
| "secret_free (PList xs) = list_all secret_free xs"
| "secret_free v = True"

definition event_json :: "event \<Rightarrow> exn + pydict" where
  "event_json e =
     (let payload = [(''event_id'', PStr (ev_id e)), (''type'', PStr (event_type_value (ev_type e))),
        (''timestamp'', PStr (isoformat (ev_timestamp e))), (''project_id'', PStr (ev_project_id e)),
        (''run_id'', opt_str (ev_run_id e)), (''task_id'', opt_str (ev_task_id e)),
        (''agent_id'', opt_str (ev_agent_id e)), (''provider_id'', opt_str (ev_provider_id e)),
        (''severity'', PStr (ev_severity e)), (''payload'', PDict (ev_payload e))]
      in ebind (guard (json_ok (PDict payload)) (TypeError ''Object is not JSON serializable'')) (\<lambda>_. Inr payload))"

section \<open>The bus\<close>

record bus =
  bus_limit :: nat
  bus_history :: "event list"
  bus_queues :: "(nat \<times> event list) list" \<comment> \<open>one bounded queue per subscriber\<close>

definition new_bus :: "nat \<Rightarrow> bus" where
  "new_bus limit = \<lparr>bus_limit = limit, bus_history = [], bus_queues = []\<rparr>"

definition queue_limit :: nat where
  "queue_limit = 100"

definition deque_append :: "nat \<Rightarrow> 'a \<Rightarrow> 'a list \<Rightarrow> 'a list" where
  \<comment> \<open>\<open>deque(maxlen=limit).append\<close>\<close>
  "deque_append limit x xs = drop (length xs + 1 - limit) (xs @ [x])"

definition publish :: "event \<Rightarrow> bus \<Rightarrow> bus" where
  "publish e b =
     (let sanitized = sanitize_event e in
      b\<lparr>bus_history := deque_append (bus_limit b) sanitized (bus_history b),
        bus_queues := map (\<lambda>(i, q). (i, if length q \<ge> queue_limit then q else q @ [sanitized])) (bus_queues b)\<rparr>)"

definition history_of :: "string option \<Rightarrow> bus \<Rightarrow> event list" where
  "history_of run b = filter (\<lambda>e. run = None \<or> ev_run_id e = run) (bus_history b)"

definition subscribe :: "nat \<Rightarrow> bus \<Rightarrow> bus" where
  "subscribe i b = b\<lparr>bus_queues := (i, []) # bus_queues b\<rparr>"

definition unsubscribe :: "nat \<Rightarrow> bus \<Rightarrow> bus" where
  "unsubscribe i b = b\<lparr>bus_queues := filter (\<lambda>p. fst p \<noteq> i) (bus_queues b)\<rparr>"

fun next_event :: "string option \<Rightarrow> event list \<Rightarrow> event option \<times> event list" where
  \<comment> \<open>what the generator yields next, and the rest of its queue; \<open>None\<close> when it has to wait\<close>
  "next_event run [] = (None, [])"
| "next_event run (e # q) = (if run = None \<or> ev_run_id e = run then (Some e, q) else next_event run q)"

definition receive :: "nat \<Rightarrow> string option \<Rightarrow> bus \<Rightarrow> event option \<times> bus" where
  "receive i run b =
     (case map_of (bus_queues b) i of
        None \<Rightarrow> (None, b)
      | Some q \<Rightarrow> (case next_event run q of (r, q') \<Rightarrow>
          (r, b\<lparr>bus_queues := map (\<lambda>(j, p). (j, if j = i then q' else p)) (bus_queues b)\<rparr>)))"

datatype bus_op = Publish event | Subscribe nat | Unsubscribe nat | Receive nat "string option"

fun bus_do :: "bus_op \<Rightarrow> bus \<Rightarrow> bus" where
  "bus_do (Publish e) b = publish e b"
| "bus_do (Subscribe i) b = subscribe i b"
| "bus_do (Unsubscribe i) b = unsubscribe i b"
| "bus_do (Receive i run) b = snd (receive i run b)"

definition published :: "bus_op list \<Rightarrow> event list" where
  "published ops = List.map_filter (\<lambda>x. case x of Publish e \<Rightarrow> Some (sanitize_event e) | _ \<Rightarrow> None) ops"

section \<open>Lemmas\<close>

lemma not_secret_redacted [simp]: "secret_free (PStr s)"
  by simp

lemma sanitize_secret_free: "secret_free (sanitize v)"
  by (induction v rule: sanitize.induct) (auto simp: list_all_iff)

lemma sanitize_json_ok: "json_ok (sanitize v)"
  by (induction v rule: sanitize.induct) (auto simp: list_all_iff)

lemma sanitize_idem: "sanitize (sanitize v) = sanitize v"
  by (induction v rule: sanitize.induct) auto

lemma sanitize_payload_dict: "PDict (sanitize_payload d) = sanitize (PDict d)"
  by (simp add: sanitize_payload_def)

lemma sanitize_payload_ok:
  "secret_free (PDict (sanitize_payload d))" "json_ok (PDict (sanitize_payload d))"
  unfolding sanitize_payload_dict by (rule sanitize_secret_free sanitize_json_ok)+

lemma json_ok_opt_str [simp]: "json_ok (opt_str x)"
  by (simp add: opt_str_def split: option.split)

lemma event_json_sanitized:
  "json_ok (PDict (ev_payload e)) \<Longrightarrow> \<exists>d. event_json e = Inr d"
  by (simp add: event_json_def Let_def exn_simps)

definition event_clean :: "event \<Rightarrow> bool" where
  "event_clean e \<longleftrightarrow> secret_free (PDict (ev_payload e)) \<and> json_ok (PDict (ev_payload e))"

lemma event_clean_sanitize: "event_clean (sanitize_event e)"
  using sanitize_payload_ok by (simp add: event_clean_def sanitize_event_def)

lemma length_deque_append: "length (deque_append n x xs) \<le> n"
  by (simp add: deque_append_def)

lemma deque_append_last: "deque_append n x (drop (length ys - n) ys) = drop (length (ys @ [x]) - n) (ys @ [x])"
proof (cases "length ys < n")
  case True
  then show ?thesis by (simp add: deque_append_def)
next
  case False
  then show ?thesis by (cases n) (auto simp: deque_append_def Suc_diff_le Suc_diff_Suc)
qed

lemma published_simps [simp]:
  "published [] = []"
  "published (x # ops) = (case x of Publish e \<Rightarrow> sanitize_event e # published ops | _ \<Rightarrow> published ops)"
  "published (ops @ ops') = published ops @ published ops'"
  by (simp_all add: published_def List.map_filter_simps List.map_filter_def split: bus_op.split)

lemma next_event_suffix: "next_event run q = (r, q') \<Longrightarrow> suffix q' q"
  by (induction run q rule: next_event.induct) (auto split: if_splits intro: suffix_ConsI)

lemma next_event_SomeD: "next_event run q = (Some e, q') \<Longrightarrow> e \<in> set q \<and> (run = None \<or> ev_run_id e = run)"
  by (induction run q rule: next_event.induct) (auto split: if_splits)

text \<open>What holds of a bus after any operations: the specification is the list of all publications.\<close>

definition bus_inv :: "event list \<Rightarrow> bus \<Rightarrow> bool" where
  "bus_inv ps b \<longleftrightarrow> bus_history b = drop (length ps - bus_limit b) ps \<and>
     (\<forall>p \<in> set (bus_queues b). length (snd p) \<le> queue_limit \<and> subseq (snd p) ps)"

lemma subseq_snoc: "subseq q ps \<Longrightarrow> subseq q (ps @ [x])"
  by (metis append_Nil2 list_emb_append_mono list_emb_Nil)

lemma bus_inv_publish: "bus_inv ps b \<Longrightarrow> bus_inv (ps @ [sanitize_event e]) (publish e b)"
  by (fastforce simp: bus_inv_def publish_def Let_def deque_append_last intro: list_emb_append_mono subseq_snoc)

lemma bus_inv_receive: "bus_inv ps b \<Longrightarrow> bus_inv ps (snd (receive i run b))"
proof -
  assume inv: "bus_inv ps b"
  show ?thesis
  proof (cases "map_of (bus_queues b) i")
    case None
    with inv show ?thesis by (simp add: receive_def)
  next
    case (Some q)
    obtain r q' where n: "next_event run q = (r, q')" by fastforce
    from Some have "(i, q) \<in> set (bus_queues b)" by (rule map_of_SomeD)
    with inv have "length q \<le> queue_limit" "subseq q ps" by (fastforce simp: bus_inv_def)+
    moreover have "suffix q' q" using n by (rule next_event_suffix)
    ultimately have "length q' \<le> queue_limit" "subseq q' ps"
      by (auto intro: subseq_order.trans suffix_imp_subseq dest: suffix_length_le)
    with inv Some n show ?thesis by (auto simp: receive_def bus_inv_def)
  qed
qed

lemma bus_inv_do: "bus_inv ps b \<Longrightarrow> bus_inv (ps @ published [x]) (bus_do x b)"
proof (cases x)
  case (Publish e)
  assume "bus_inv ps b"
  with Publish bus_inv_publish show ?thesis by simp
next
  case (Receive i run)
  assume "bus_inv ps b"
  with Receive bus_inv_receive show ?thesis by simp
qed (auto simp: bus_inv_def subscribe_def unsubscribe_def)

lemma bus_inv_fold: "bus_inv ps b \<Longrightarrow> bus_inv (ps @ published ops) (fold bus_do ops b)"
proof (induction ops arbitrary: ps b)
  case (Cons x ops)
  from Cons.IH [OF bus_inv_do [OF Cons.prems, of x]] show ?case by (cases x) simp_all
qed simp

lemma bus_inv_new: "bus_inv [] (new_bus limit)"
  by (simp add: bus_inv_def new_bus_def)

lemma bus_limit_do [simp]: "bus_limit (bus_do x b) = bus_limit b"
  by (cases x) (auto simp: publish_def subscribe_def unsubscribe_def receive_def Let_def split: option.split prod.split)

lemma bus_limit_fold [simp]: "bus_limit (fold bus_do ops b) = bus_limit b"
  by (induction ops arbitrary: b) auto

lemma published_clean: "e \<in> set (published ops) \<Longrightarrow> event_clean e"
  by (induction ops) (auto simp: event_clean_sanitize split: bus_op.splits)

section \<open>Properties\<close>

text \<open>
  After any sequence of publications, subscriptions and reads the history is the last
  \<open>limit\<close> published events in order, and what waits in a subscriber's queue is at most 100 of the
  published events, in order, with some possibly left out.
\<close>

theorem bus_history_and_queues:
  fixes ops :: "bus_op list" and limit :: nat
  defines "b \<equiv> fold bus_do ops (new_bus limit)"
  shows "bus_history b = drop (length (published ops) - limit) (published ops) \<and>
    list_all (\<lambda>(i, q). length q \<le> 100 \<and> subseq q (published ops)) (bus_queues b)"
  using bus_inv_fold [OF bus_inv_new, of ops limit] 
  by (auto simp: b_def bus_inv_def list_all_iff queue_limit_def new_bus_def)

text \<open>
  C37: no event that reaches the history carries a secret: at every depth of its payload, below
  dictionaries and lists, the value of a key that contains one of the markers in any letter case is
  the redaction text; and the event can always be turned into JSON.
\<close>

theorem history_has_no_secrets:
  assumes "e \<in> set (bus_history (fold bus_do ops (new_bus limit)))"
  shows "secret_free (PDict (ev_payload e)) \<and> (\<exists>d. event_json e = Inr d)"
proof -
  from assms bus_inv_fold [OF bus_inv_new, of ops limit] have "e \<in> set (published ops)"
    by (auto simp: bus_inv_def dest: in_set_dropD)
  then show ?thesis using published_clean event_json_sanitized by (auto simp: event_clean_def)
qed

definition sample_event :: event where
  "sample_event = event_create 7 0 RUN_STARTED ''p'' None None None None ''info''
     [(''items'', PList [PDict [(''User_Token'', PInt 4), (''at'', POther ''x'')]])]"

lemma sample_sanitized: "ev_payload (sanitize_event sample_event) =
   [(''items'', PList [PDict [(''User_Token'', PStr ''[redacted]''), (''at'', PStr ''x'')]])]"
  by code_simp

theorem history_has_no_secrets_witness:
  "bus_history (fold bus_do [Publish sample_event] (new_bus 5)) = [sanitize_event sample_event] \<and>
   secret_free (PDict (ev_payload (sanitize_event sample_event)))"
proof -
  have h: "bus_history (fold bus_do [Publish sample_event] (new_bus 5)) = [sanitize_event sample_event]"
    by (simp add: publish_def new_bus_def deque_append_def Let_def)
  with history_has_no_secrets [of "sanitize_event sample_event" "[Publish sample_event]" 5] show ?thesis
    by simp
qed

end
