(* ===== verification/Recovery.thy ===== *)
theory Recovery
  imports Store Events
begin

text \<open>
  \<open>domain/recovery.py\<close> and \<open>services/recovery.py\<close>: the checksum of a checkpoint state, the checkpoints
  written along a run's life, the ledger of external actions, and what is done after a restart with
  the runs that were active: each is assessed, recorded and stopped, never replayed. SHA-256 and
  Python's shortest representation of a float are the parameters of \<open>host\<close>.
\<close>

record host =
  hs_sha256 :: "string \<Rightarrow> string"
  hs_float_repr :: "rat \<Rightarrow> string"

section \<open>The canonical JSON text\<close>

definition backslash :: char where
  "backslash = CHR 0x5C"

definition json_char :: "char \<Rightarrow> string" where
  \<comment> \<open>\<open>ensure_ascii\<close>: everything outside the printable ASCII range is escaped\<close>
  "json_char c = (let n = (of_char c :: nat) in
     if n = 34 \<or> n = 92 then [backslash, c]
     else if n = 10 then [backslash, CHR ''n'']
     else if n = 13 then [backslash, CHR ''r'']
     else if n = 9 then [backslash, CHR ''t'']
     else if n = 8 then [backslash, CHR ''b'']
     else if n = 12 then [backslash, CHR ''f'']
     else if n < 32 \<or> 126 < n then backslash # CHR ''u'' # hex_fixed 4 n
     else [c])"

definition json_string :: "string \<Rightarrow> string" where
  "json_string s = CHR 0x22 # concat (map json_char s) @ [CHR 0x22]"

definition int_str :: "int \<Rightarrow> string" where
  "int_str i = (if i < 0 then CHR ''-'' # nat_str (nat (- i)) else nat_str (nat i))"

definition commas :: "string list \<Rightarrow> string" where
  "commas ss = (case ss of [] \<Rightarrow> [] | s # ss \<Rightarrow> s @ concat (map (\<lambda>t. CHR '','' # t) ss))"

definition datetime_str :: "time \<Rightarrow> string" where
  "datetime_str t = (let s = isoformat t in take 10 s @ '' '' @ drop 11 s)"

fun json_text :: "(rat \<Rightarrow> string) \<Rightarrow> pyobj \<Rightarrow> string" where
  \<comment> \<open>\<open>json.dumps(ensure_ascii=True, separators=(',', ':'), sort_keys=True, default=str)\<close>\<close>
  "json_text fr PNone = ''null''"
| "json_text fr (PBool b) = (if b then ''true'' else ''false'')"
| "json_text fr (PInt i) = int_str i"
| "json_text fr (PFloat r) = fr r"
| "json_text fr (PStr s) = json_string s"
| "json_text fr (PList xs) = ''['' @ commas (map (json_text fr) xs) @ '']''"
| "json_text fr (PDict d) =
     ''{'' @ commas (map (\<lambda>(k, s). json_string k @ '':'' @ s)
       (sort_key fst (map (\<lambda>(k, v). (k, json_text fr v)) d))) @ ''}''"
| "json_text fr (PDatetime t) = json_string (datetime_str t)"
| "json_text fr (POther s) = json_string s"

definition checkpoint_checksum :: "host \<Rightarrow> pyobj \<Rightarrow> string" where
  "checkpoint_checksum h state = hs_sha256 h (json_text (hs_float_repr h) state)"

section \<open>Statuses and outcomes\<close>

datatype action_status = INTENT_RECORDED | STARTED | CONFIRMED | FAILED | UNCERTAIN

fun action_status_value :: "action_status \<Rightarrow> string" where
  "action_status_value INTENT_RECORDED = ''intent_recorded''"
| "action_status_value STARTED = ''started''"
| "action_status_value CONFIRMED = ''confirmed''"
| "action_status_value FAILED = ''failed''"
| "action_status_value UNCERTAIN = ''uncertain''"

datatype recovery_outcome =
  STOPPED_NO_REPLAY | BLOCKED_UNCERTAIN_ACTION | BLOCKED_CORRUPT_CHECKPOINT | BLOCKED_NO_CHECKPOINT

fun recovery_outcome_value :: "recovery_outcome \<Rightarrow> string" where
  "recovery_outcome_value STOPPED_NO_REPLAY = ''stopped_no_replay''"
| "recovery_outcome_value BLOCKED_UNCERTAIN_ACTION = ''blocked_uncertain_action''"
| "recovery_outcome_value BLOCKED_CORRUPT_CHECKPOINT = ''blocked_corrupt_checkpoint''"
| "recovery_outcome_value BLOCKED_NO_CHECKPOINT = ''blocked_no_checkpoint''"

section \<open>Writing checkpoints\<close>

definition create_checkpoint :: "host \<Rightarrow> uuid \<Rightarrow> time \<Rightarrow> uuid \<Rightarrow> string \<Rightarrow> pydict \<Rightarrow> store \<Rightarrow> exn + checkpoint \<times> store" where
  "create_checkpoint h u now i reason state st =
     checkpoint_create (checkpoint_checksum h) u now i reason
       ([(''format_version'', PInt 1), (''run_id'', PStr (uuid_str i))] @ state) st"

definition execution_spec_of :: "host \<Rightarrow> run \<Rightarrow> agent \<Rightarrow> pydict" where
  "execution_spec_of h r a =
     [(''runtime'', dict_get_or (ag_graph a) ''runtime'' (PStr ''model-v1'')),
      (''model_ref'', PStr (ag_model_ref a)), (''graph_definition'', PDict (ag_graph a)),
      (''input_sha256'', PStr (hs_sha256 h (run_input_text r)))]"

definition create_initial_checkpoint :: "host \<Rightarrow> uuid \<Rightarrow> time \<Rightarrow> run \<Rightarrow> agent \<Rightarrow> store \<Rightarrow> exn + checkpoint \<times> store" where
  "create_initial_checkpoint h u now r a st =
     (let spec = execution_spec_of h r a;
          st = run_update (run_id r) (\<lambda>r. r\<lparr>run_execution_spec := Some spec\<rparr>) st
      in create_checkpoint h u now (run_id r) ''created''
           [(''execution_spec'', PDict spec), (''run_status'', PStr (run_status_value (run_status r)))] st)"

definition create_lifecycle_checkpoint :: "host \<Rightarrow> uuid \<Rightarrow> time \<Rightarrow> run \<Rightarrow> string \<Rightarrow> store \<Rightarrow> exn + checkpoint \<times> store" where
  "create_lifecycle_checkpoint h u now r reason st =
     create_checkpoint h u now (run_id r) reason
       [(''execution_spec'', PDict (case run_execution_spec r of None \<Rightarrow> [] | Some d \<Rightarrow> d)),
        (''run_status'', PStr (run_status_value (run_status r)))] st"

definition checkpoint_event :: "uuid \<Rightarrow> time \<Rightarrow> string \<Rightarrow> checkpoint \<Rightarrow> event" where
  \<comment> \<open>\<open>publish_checkpoint\<close>\<close>
  "checkpoint_event u now project c =
     event_create u now CHECKPOINT_CREATED project (Some (uuid_str (cp_run_id c))) None None None ''info''
       [(''checkpoint_id'', PStr (uuid_str (cp_id c))), (''sequence'', PInt (cp_sequence c)),
        (''reason'', PStr (cp_reason c))]"

section \<open>The action ledger\<close>

fun redact :: "pyobj \<Rightarrow> pyobj" where
  \<comment> \<open>\<open>_sanitize_value\<close> here: unlike that of the event bus it keeps values that are not JSON\<close>
  "redact (PDict d) = PDict (map (\<lambda>(k, v). (k, if is_secret k then PStr ''[redacted]'' else redact v)) d)"
| "redact (PList xs) = PList (map redact xs)"
| "redact v = v"

definition redact_dict :: "pydict \<Rightarrow> pydict" where
  \<comment> \<open>\<open>_sanitize\<close>\<close>
  "redact_dict d = map (\<lambda>(k, v). (k, if is_secret k then PStr ''[redacted]'' else redact v)) d"

definition record_action_intent :: "uuid \<Rightarrow> time \<Rightarrow> uuid \<Rightarrow> uuid \<Rightarrow> string \<Rightarrow> string \<Rightarrow> pydict \<Rightarrow> store \<Rightarrow>
    exn + uuid \<times> store" where
  "record_action_intent u now i invocation ty risk details st =
     ebind (action_create u now i (Some invocation) ty risk
         (redact_dict details) st)
       (\<lambda>(e, st). Inr (al_id e, st))"

definition update_action :: "time \<Rightarrow> uuid \<Rightarrow> action_status \<Rightarrow> store \<Rightarrow> store" where
  "update_action now k s st =
     (case action_get k st of
        None \<Rightarrow> st
      | Some _ \<Rightarrow> st\<lparr>st_actions := row_update al_id k (\<lambda>e.
          let e = e\<lparr>al_status := action_status_value s\<rparr> in
          if s = STARTED then e\<lparr>al_started_at := Some now\<rparr>
          else if s \<in> {CONFIRMED, FAILED, UNCERTAIN} then e\<lparr>al_finished_at := Some now\<rparr>
          else e) (st_actions st)\<rparr>)"

section \<open>Assessing an interrupted run\<close>

fun hashable :: "pyobj \<Rightarrow> bool" where
  "hashable (PList xs) = False"
| "hashable (PDict d) = False"
| "hashable v = True"

definition checkpoint_is_valid :: "host \<Rightarrow> uuid \<Rightarrow> checkpoint \<Rightarrow> exn + bool" where
  \<comment> \<open>looking an unhashable value up in a set raises\<close>
  "checkpoint_is_valid h i c =
     (case cp_state c of
        Some (PDict state) \<Rightarrow>
          if cp_format_version c \<noteq> 1 \<or> \<not> eq_int (dict_get state ''format_version'') 1 then Inr False
          else if dict_get state ''run_id'' \<noteq> PStr (uuid_str i) \<or>
                  as_dict (dict_get state ''execution_spec'') = None then Inr False
          else if \<not> hashable (dict_get state ''run_status'') then Inl (TypeError ''unhashable type'')
          else if dict_get state ''run_status'' \<notin> (PStr \<circ> run_status_value) ` set all_run_statuses then Inr False
          else Inr (cp_checksum c = checkpoint_checksum h (PDict state))
      | _ \<Rightarrow> Inr False)"

definition uncertain_actions :: "ledger_entry list \<Rightarrow> string list" where
  "uncertain_actions actions = map al_action_type
     (filter (\<lambda>a. al_status a \<in> action_status_value ` {INTENT_RECORDED, STARTED, UNCERTAIN}) actions)"

definition assess_outcome :: "host \<Rightarrow> uuid \<Rightarrow> checkpoint option \<Rightarrow> ledger_entry list \<Rightarrow> exn + recovery_outcome \<times> pydict" where
  \<comment> \<open>\<open>_recovery_outcome\<close>\<close>
  "assess_outcome h i c actions =
     (case c of
        None \<Rightarrow> Inr (BLOCKED_NO_CHECKPOINT,
          [(''reason'', PStr ''No durable checkpoint exists for this interrupted run.'')])
      | Some c \<Rightarrow> ebind (checkpoint_is_valid h i c) (\<lambda>valid.
          if \<not> valid then Inr (BLOCKED_CORRUPT_CHECKPOINT,
            [(''reason'', PStr ''The latest checkpoint failed integrity validation.'')])
          else if uncertain_actions actions \<noteq> [] then Inr (BLOCKED_UNCERTAIN_ACTION,
            [(''reason'', PStr ''An external action may have occurred before the interruption.''),
             (''uncertain_actions'', PList (map PStr (uncertain_actions actions)))])
          else Inr (STOPPED_NO_REPLAY,
            [(''reason'', PStr ''No uncertain action was recorded; automatic replay remains disabled.'')])))"

definition assess_stale_run :: "host \<Rightarrow> uuid \<Rightarrow> store \<Rightarrow> exn + checkpoint option \<times> recovery_outcome \<times> pydict" where
  "assess_stale_run h i st =
     (case ebind (latest_checkpoint i st) (\<lambda>c. ebind (list_actions i st) (\<lambda>as. Inr (c, as))) of
        Inl _ \<Rightarrow> Inr (None, BLOCKED_CORRUPT_CHECKPOINT,
          [(''reason'', PStr ''A checkpoint could not be decoded or validated.'')])
      | Inr (c, as) \<Rightarrow> ebind (assess_outcome h i c as) (\<lambda>(outcome, details). Inr (c, outcome, details)))"

definition interrupted :: "time \<Rightarrow> run \<Rightarrow> run" where
  "interrupted now r = r\<lparr>run_status := Failed, run_error := Some ''Run interrupted by application restart'',
     run_finished_at := Some now\<rparr>"

definition recover_run :: "host \<Rightarrow> uuid \<Rightarrow> uuid \<Rightarrow> time \<Rightarrow> run \<Rightarrow> store \<Rightarrow>
    exn + (recovery_outcome \<times> checkpoint) \<times> store" where
  \<comment> \<open>one turn of the loop; the first two ids are those of the decision and the checkpoint\<close>
  "recover_run h u v now r st =
     ebind (assess_stale_run h (run_id r) st) (\<lambda>(c, outcome, details).
     ebind (decision_create u now (run_id r) (map_option cp_id c) (recovery_outcome_value outcome) details st) (\<lambda>st.
     let st = set_agent_status now (run_agent_id r) AgentError (run_update (run_id r) (interrupted now) st)
     in ebind (create_lifecycle_checkpoint h v now (interrupted now r) ''failed'' st) (\<lambda>(cp, st).
       Inr ((outcome, cp), st))))"

fun recover_runs :: "host \<Rightarrow> (nat \<Rightarrow> uuid) \<Rightarrow> nat \<Rightarrow> time \<Rightarrow> run list \<Rightarrow> store \<Rightarrow>
    exn + (run \<times> recovery_outcome \<times> checkpoint) list \<times> store" where
  "recover_runs h us n now [] st = Inr ([], st)"
| "recover_runs h us n now (r # rs) st =
     ebind (recover_run h (us n) (us (n + 1)) now r st) (\<lambda>((outcome, cp), st).
     ebind (recover_runs h us (n + 2) now rs st) (\<lambda>(done_runs, st).
       Inr ((r, outcome, cp) # done_runs, st)))"

definition assessed_event :: "uuid \<Rightarrow> time \<Rightarrow> string \<Rightarrow> run \<Rightarrow> recovery_outcome \<Rightarrow> event" where
  "assessed_event u now project r outcome =
     event_create u now RECOVERY_ASSESSED project (Some (uuid_str (run_id r))) None None None ''warning''
       [(''outcome'', PStr (recovery_outcome_value outcome)), (''automatic_resume'', PBool False),
        (''automatic_rollback'', PBool False)]"

fun recovery_events :: "(nat \<Rightarrow> uuid) \<Rightarrow> nat \<Rightarrow> time \<Rightarrow> string \<Rightarrow> (run \<times> recovery_outcome \<times> checkpoint) list \<Rightarrow> event list" where
  "recovery_events us n now project [] = []"
| "recovery_events us n now project ((r, outcome, cp) # rest) =
     checkpoint_event (us n) now project cp # assessed_event (us (n + 1)) now project r outcome #
     recovery_events us (n + 2) now project rest"

definition recover_stale_runs :: "host \<Rightarrow> world \<Rightarrow> string \<Rightarrow> store \<Rightarrow> exn + event list \<times> store" where
  \<comment> \<open>one transaction: an exception leaves the store as it was\<close>
  "recover_stale_runs h w project st =
     ebind (recover_runs h (w_uuid4 w) 0 (w_now w) (list_stale st) st) (\<lambda>(recovered, st).
       Inr (recovery_events (w_uuid4 w) (2 * length recovered) (w_now w) project recovered, st))"

section \<open>The report\<close>

definition checkpoint_row :: "checkpoint_metadata \<Rightarrow> pyobj" where
  "checkpoint_row c = PDict [(''checkpoint_id'', PStr (cm_id c)), (''sequence'', PInt (cm_sequence c)),
     (''format_version'', PInt (cm_format_version c)), (''reason'', PStr (cm_reason c)),
     (''checksum'', PStr (cm_checksum c)), (''created_at'', PDatetime (cm_created_at c))]"

definition opt_time :: "time option \<Rightarrow> pyobj" where
  "opt_time t = (case t of None \<Rightarrow> PNone | Some t \<Rightarrow> PDatetime t)"

definition action_row :: "ledger_entry \<Rightarrow> pyobj" where
  "action_row a = PDict [(''entry_id'', PStr (uuid_str (al_id a))), (''action_type'', PStr (al_action_type a)),
     (''risk'', PStr (al_risk a)), (''status'', PStr (al_status a)),
     (''rollback_status'', PStr (al_rollback_status a)), (''created_at'', PDatetime (al_created_at a)),
     (''started_at'', opt_time (al_started_at a)), (''finished_at'', opt_time (al_finished_at a))]"

definition decision_row :: "recovery_decision \<Rightarrow> pyobj" where
  "decision_row d = PDict [(''decision_id'', PStr (uuid_str (rd_id d))),
     (''checkpoint_id'', opt_str (map_option uuid_str (rd_checkpoint_id d))),
     (''outcome'', PStr (rd_outcome d)), (''details'', PDict (redact_dict (rd_details d))),
     (''created_at'', PDatetime (rd_created_at d))]"

definition limits_row :: "string \<Rightarrow> pyobj" where
  "limits_row description = PDict [(''automatic_resume'', PBool False), (''automatic_rollback'', PBool False),
     (''description'', PStr description)]"

definition recovery_report :: "uuid \<Rightarrow> store \<Rightarrow> exn + pyobj" where
  "recovery_report i st =
     ebind (list_actions i st) (\<lambda>actions. Inr (PDict
       [(''run_id'', PStr (uuid_str i)),
        (''checkpoints'', PList (map checkpoint_row (list_checkpoint_metadata i st))),
        (''actions'', PList (map action_row actions)),
        (''decisions'', PList (map decision_row (list_decisions i st))),
        (''limits'', limits_row
           ''Interrupted runs are assessed and stopped; they are never replayed automatically.'')]))"

end
