(* ===== verification/Orchestration.thy ===== *)
theory Orchestration
  imports Prelude
begin

text \<open>
  \<open>domain/orchestration.py\<close>: the \<open>team-v1\<close> graph a team agent stores in its graph definition,
  the parser that turns untrusted JSON into a \<open>team_graph\<close> and the cycle check. The lemmas
  show that the check accepts exactly the acyclic graphs, that a parsed graph is well formed, and
  that every well-formed graph has a JSON form the parser accepts and reads back unchanged.
\<close>

section \<open>Data\<close>

record team_node =
  tn_id :: string
  tn_label :: string
  tn_agent_id :: uuid
  tn_instructions :: "string option"

record team_edge =
  te_id :: string
  te_source :: string
  te_target :: string

record team_graph =
  tg_nodes :: "team_node list"
  tg_edges :: "team_edge list"

definition predecessors :: "team_graph \<Rightarrow> string \<Rightarrow> string list" where
  "predecessors g node_id = map te_source (filter (\<lambda>e. te_target e = node_id) (tg_edges g))"

definition successors :: "team_graph \<Rightarrow> string \<Rightarrow> string list" where
  "successors g node_id = map te_target (filter (\<lambda>e. te_source e = node_id) (tg_edges g))"

section \<open>The cycle check\<close>

text \<open>
  \<open>_ensure_dag\<close>: the nested \<open>visit\<close> walks depth first. \<open>visit_all g visiting visited xs\<close> is the
  loop \<open>for x in xs: visit(x)\<close>; it returns the \<open>visited\<close> set after the loop. \<open>visit\<close> removes the
  node it added to \<open>visiting\<close> before it returns, and an exception ends the whole walk, so
  \<open>visiting\<close> only grows downwards and is an argument.
\<close>

abbreviation invalid_graph :: "string \<Rightarrow> exn" where
  "invalid_graph m \<equiv> TeamGraphError ''INVALID_TEAM_GRAPH'' m"

function visit_all :: "team_graph \<Rightarrow> string set \<Rightarrow> string set \<Rightarrow> string list \<Rightarrow> exn + string set" where
  "visit_all g visiting visited [] = Inr visited"
| "visit_all g visiting visited (x # xs) =
     (if x \<in> visiting then Inl (invalid_graph ''Team graph must be a DAG'')
      else if x \<in> visited then visit_all g visiting visited xs
      else case visit_all g (insert x visiting) visited (successors g x) of
             Inl e \<Rightarrow> Inl e
           | Inr visited' \<Rightarrow> visit_all g visiting (insert x visited') xs)"
  by pat_completeness auto

definition sources_of :: "team_graph \<Rightarrow> string set" where
  "sources_of g = te_source ` set (tg_edges g)"

lemma finite_sources_of [simp]: "finite (sources_of g)"
  by (simp add: sources_of_def)

lemma successors_Nil: "x \<notin> sources_of g \<Longrightarrow> successors g x = []"
  by (auto simp: successors_def sources_of_def filter_empty_conv)

termination visit_all
proof (relation "(\<lambda>(g, v, w, xs). card (sources_of g - v)) <*mlex*>
                 measure (\<lambda>(g, v, w, xs). length xs)", goal_cases)
  case 1
  show ?case by (intro wf_mlex) simp
next
  case (2 g v w x xs)
  show ?case by (intro mlex_leq) auto
next
  case (3 g v w x xs)
  show ?case
  proof (cases "x \<in> sources_of g")
    case True
    with 3 have "card (sources_of g - insert x v) < card (sources_of g - v)"
      by (intro psubset_card_mono) auto
    then show ?thesis by (intro mlex_less) simp
  next
    case False
    then have "sources_of g - insert x v = sources_of g - v" by auto
    with False show ?thesis by (intro mlex_leq) (auto simp: successors_Nil)
  qed
next
  case (4 g v w x xs vd)
  show ?case by (intro mlex_leq) auto
qed

definition ensure_dag :: "team_graph \<Rightarrow> exn + unit" where
  "ensure_dag g = ebind (visit_all g {} {} (map tn_id (tg_nodes g))) (\<lambda>_. Inr ())"

section \<open>The parser\<close>

definition node_fields :: "string list" where
  "node_fields = [''id'', ''type'', ''label'', ''position'', ''agent_id'', ''instructions'']"

definition edge_fields :: "string list" where
  "edge_fields = [''id'', ''source'', ''target'']"

definition instructions_ok :: "pyobj \<Rightarrow> bool" where
  "instructions_ok v \<longleftrightarrow>
     (v = PNone \<or> (case as_str v of None \<Rightarrow> False | Some s \<Rightarrow> length s \<le> 4000))"

definition parse_node :: "string set \<Rightarrow> pyobj \<Rightarrow> exn + team_node" where
  "parse_node node_ids raw =
     (case as_dict raw of
        None \<Rightarrow> Inl (invalid_graph ''Team node contains unsupported fields'')
      | Some d \<Rightarrow>
          if \<not> dict_keys_within d node_fields
          then Inl (invalid_graph ''Team node contains unsupported fields'')
          else (case (as_str (dict_get d ''id''), as_str (dict_get d ''label'')) of
              (Some node_id, Some label) \<Rightarrow>
                if dict_get d ''type'' \<noteq> PStr ''agent-ref'' \<or> node_id = []
                then Inl (invalid_graph ''Team nodes must be agent-ref nodes'')
                else if node_id \<in> node_ids
                then Inl (invalid_graph ''Team node IDs must be unique'')
                else (case as_str (dict_get d ''agent_id'') of
                    None \<Rightarrow> Inl (invalid_graph ''agent-ref requires an agent_id'')
                  | Some agent_id \<Rightarrow>
                      if \<not> instructions_ok (dict_get d ''instructions'')
                      then Inl (invalid_graph ''Node instructions exceed the allowed size'')
                      else (case uuid_parse agent_id of
                          None \<Rightarrow> Inl (invalid_graph ''agent-ref agent_id must be a UUID'')
                        | Some u \<Rightarrow> Inr \<lparr>tn_id = node_id, tn_label = label, tn_agent_id = u,
                            tn_instructions = as_str (dict_get d ''instructions'')\<rparr>))
            | _ \<Rightarrow> Inl (invalid_graph ''Team nodes must be agent-ref nodes'')))"

fun parse_nodes :: "string set \<Rightarrow> pyobj list \<Rightarrow> exn + team_node list" where
  "parse_nodes node_ids [] = Inr []"
| "parse_nodes node_ids (raw # raws) =
     ebind (parse_node node_ids raw) (\<lambda>n.
     ebind (parse_nodes (insert (tn_id n) node_ids) raws) (\<lambda>ns. Inr (n # ns)))"

fun nonempty_str :: "pyobj \<Rightarrow> string option" where
  \<comment> \<open>\<open>isinstance(value, str) and value\<close>\<close>
  "nonempty_str (PStr (c # s)) = Some (c # s)"
| "nonempty_str _ = None"

definition parse_edge :: "string set \<Rightarrow> string set \<Rightarrow> pyobj \<Rightarrow> exn + team_edge" where
  "parse_edge node_ids edge_ids raw =
     (case as_dict raw of
        None \<Rightarrow> Inl (invalid_graph ''Team edge contains unsupported fields'')
      | Some d \<Rightarrow>
          if \<not> dict_keys_within d edge_fields
          then Inl (invalid_graph ''Team edge contains unsupported fields'')
          else (case (nonempty_str (dict_get d ''id''), nonempty_str (dict_get d ''source''),
                      nonempty_str (dict_get d ''target'')) of
              (Some edge_id, Some source, Some target) \<Rightarrow>
                if edge_id \<in> edge_ids
                then Inl (invalid_graph ''Team edge IDs must be unique'')
                else if source \<notin> node_ids \<or> target \<notin> node_ids
                then Inl (invalid_graph ''Team edge references a missing node'')
                else if source = target
                then Inl (invalid_graph ''Team graph cannot contain a self-cycle'')
                else Inr \<lparr>te_id = edge_id, te_source = source, te_target = target\<rparr>
            | _ \<Rightarrow> Inl (invalid_graph ''Team edges require ID, source, and target'')))"

fun parse_edges :: "string set \<Rightarrow> string set \<Rightarrow> pyobj list \<Rightarrow> exn + team_edge list" where
  "parse_edges node_ids edge_ids [] = Inr []"
| "parse_edges node_ids edge_ids (raw # raws) =
     ebind (parse_edge node_ids edge_ids raw) (\<lambda>e.
     ebind (parse_edges node_ids (insert (te_id e) edge_ids) raws) (\<lambda>es. Inr (e # es)))"

definition graph_fields :: "string list" where
  "graph_fields = [''version'', ''runtime'', ''nodes'', ''edges'']"

definition parse_team_graph :: "pydict \<Rightarrow> nat \<Rightarrow> exn + team_graph" where
  "parse_team_graph graph max_workers =
     (if \<not> dict_keys_within graph graph_fields
      then Inl (invalid_graph ''Team graph contains unsupported fields'')
      else if \<not> eq_int (dict_get graph ''version'') 2 \<or> dict_get graph ''runtime'' \<noteq> PStr ''team-v1''
      then Inl (invalid_graph ''team-v1 requires graph version 2'')
      else (case (as_list (dict_get graph ''nodes''), as_list (dict_get graph ''edges'')) of
          (Some raw_nodes, Some raw_edges) \<Rightarrow>
            if raw_nodes = []
            then Inl (invalid_graph ''Team graph requires at least one worker'')
            else if length raw_nodes > max_workers
            then Inl (TeamGraphError ''WORKER_LIMIT_EXCEEDED''
                       (''Team graph supports at most '' @ nat_str max_workers @ '' workers''))
            else if length raw_edges > 200
            then Inl (invalid_graph ''Team graph has too many edges'')
            else
              ebind (parse_nodes {} raw_nodes) (\<lambda>nodes.
              ebind (parse_edges (set (map tn_id nodes)) {} raw_edges) (\<lambda>edges.
                let graph_value = \<lparr>tg_nodes = nodes, tg_edges = edges\<rparr>
                in ebind (ensure_dag graph_value) (\<lambda>_. Inr graph_value)))
        | _ \<Rightarrow> Inl (invalid_graph ''Team graph nodes and edges must be lists'')))"


section \<open>The cycle check accepts exactly the acyclic graphs\<close>

definition edge_rel :: "team_graph \<Rightarrow> (string \<times> string) set" where
  "edge_rel g = (\<lambda>e. (te_source e, te_target e)) ` set (tg_edges g)"

lemma set_successors [simp]: "set (successors g x) = {y. (x, y) \<in> edge_rel g}"
  by (force simp: successors_def edge_rel_def)

lemma set_predecessors [simp]: "set (predecessors g y) = {x. (x, y) \<in> edge_rel g}"
  by (force simp: predecessors_def edge_rel_def)

text \<open>What is true of the nodes the walk has finished with: nothing leads out of them, no cycle
  goes through them.\<close>

definition closed_acyclic :: "team_graph \<Rightarrow> string set \<Rightarrow> bool" where
  "closed_acyclic g V \<longleftrightarrow> edge_rel g `` V \<subseteq> V \<and> (\<forall>v \<in> V. (v, v) \<notin> (edge_rel g)\<^sup>+)"

lemma closed_trancl: "(a, b) \<in> r\<^sup>+ \<Longrightarrow> r `` V \<subseteq> V \<Longrightarrow> a \<in> V \<Longrightarrow> b \<in> V"
  by (induction rule: trancl_induct) blast+

lemma closed_acyclic_insert:
  assumes V: "closed_acyclic g V" and succ: "set (successors g x) \<subseteq> V" and x: "x \<notin> V"
  shows "closed_acyclic g (insert x V)"
proof -
  have "(x, x) \<notin> (edge_rel g)\<^sup>+"
  proof
    assume "(x, x) \<in> (edge_rel g)\<^sup>+"
    then obtain y where "(x, y) \<in> edge_rel g" "(y, x) \<in> (edge_rel g)\<^sup>*"
      by (meson tranclD)
    with succ have "y \<in> V" "y = x \<or> (y, x) \<in> (edge_rel g)\<^sup>+" by (auto simp: rtrancl_eq_or_trancl)
    with V x show False using closed_trancl by (fastforce simp: closed_acyclic_def)
  qed
  with V succ show ?thesis by (auto simp: closed_acyclic_def)
qed

lemma visit_all_sound:
  "visit_all g visiting visited xs = Inr visited' \<Longrightarrow> closed_acyclic g visited \<Longrightarrow>
   closed_acyclic g visited' \<and> visited \<union> set xs \<subseteq> visited' \<and> visiting \<inter> visited' \<subseteq> visited"
proof (induction g visiting visited xs arbitrary: visited' rule: visit_all.induct)
  case (1 g visiting visited)
  then show ?case by auto
next
  case (2 g visiting visited x xs)
  show ?case
  proof (cases "x \<in> visited")
    case True
    with 2 show ?thesis by (auto split: if_splits)
  next
    case False
    with 2(4) obtain w where x: "x \<notin> visiting"
      and w: "visit_all g (insert x visiting) visited (successors g x) = Inr w"
      and rest: "visit_all g visiting (insert x w) xs = Inr visited'"
      by (auto split: if_splits sum.splits)
    from 2(2) [OF x False w 2(5)] have ih: "closed_acyclic g w"
      "visited \<union> set (successors g x) \<subseteq> w" "insert x visiting \<inter> w \<subseteq> visited" by blast+
    with False have "closed_acyclic g (insert x w)" by (intro closed_acyclic_insert) auto
    from 2(3) [OF x False w rest this] ih x show ?thesis by auto
  qed
qed

lemma visit_all_complete:
  "visit_all g visiting visited xs = Inl e \<Longrightarrow> (\<forall>v \<in> visiting. \<forall>x \<in> set xs. (v, x) \<in> (edge_rel g)\<^sup>+) \<Longrightarrow>
   \<not> acyclic (edge_rel g) \<and> e = invalid_graph ''Team graph must be a DAG''"
proof (induction g visiting visited xs arbitrary: e rule: visit_all.induct)
  case (1 g visiting visited)
  then show ?case by simp
next
  case (2 g visiting visited x xs)
  consider "x \<in> visiting" | "x \<notin> visiting" "x \<in> visited" | "x \<notin> visiting" "x \<notin> visited" by blast
  then show ?case
  proof cases
    case 1
    with 2(4,5) show ?thesis by (auto simp: acyclic_def)
  next
    case 2
    with "2.IH"(1) "2.prems" show ?thesis by auto
  next
    case 3
    have down: "\<forall>v \<in> insert x visiting. \<forall>y \<in> set (successors g x). (v, y) \<in> (edge_rel g)\<^sup>+"
      using 2(5) by (auto intro: trancl_into_trancl)
    show ?thesis
    proof (cases "visit_all g (insert x visiting) visited (successors g x)")
      case (Inl e')
      with 3 2(4) have "e' = e" by simp
      with "2.IH"(2) [OF 3 _ down] Inl show ?thesis by simp
    next
      case (Inr w)
      with 3 "2.IH"(3) [OF 3 Inr] 2(4,5) show ?thesis by auto
    qed
  qed
qed

definition node_ids :: "team_graph \<Rightarrow> string set" where
  "node_ids g = tn_id ` set (tg_nodes g)"

lemma ensure_dag_Inr_iff:
  assumes "sources_of g \<subseteq> node_ids g"
  shows "ensure_dag g = Inr () \<longleftrightarrow> acyclic (edge_rel g)"
proof
  assume "ensure_dag g = Inr ()"
  then obtain V where V: "visit_all g {} {} (map tn_id (tg_nodes g)) = Inr V"
    by (auto simp: ensure_dag_def exn_simps)
  from visit_all_sound [OF V] have "closed_acyclic g V" "node_ids g \<subseteq> V"
    by (auto simp: closed_acyclic_def node_ids_def)
  moreover have "v \<in> sources_of g" if "(v, v) \<in> (edge_rel g)\<^sup>+" for v
    using tranclD [OF that] by (auto simp: edge_rel_def sources_of_def)
  ultimately show "acyclic (edge_rel g)" using assms
    unfolding acyclic_def closed_acyclic_def by blast
next
  assume "acyclic (edge_rel g)"
  then show "ensure_dag g = Inr ()"
    using visit_all_complete [of g "{}" "{}" "map tn_id (tg_nodes g)"]
    by (cases "visit_all g {} {} (map tn_id (tg_nodes g))") (auto simp: ensure_dag_def)
qed

lemma ensure_dag_Inl: "ensure_dag g = Inl e \<Longrightarrow> e = invalid_graph ''Team graph must be a DAG''"
  using visit_all_complete [of g "{}" "{}" "map tn_id (tg_nodes g)"]
  by (auto simp: ensure_dag_def exn_simps)

section \<open>What the parser promises\<close>

text \<open>The specification of a usable team graph, stated without the parser.\<close>

definition node_ok :: "team_node \<Rightarrow> bool" where
  "node_ok n \<longleftrightarrow> tn_id n \<noteq> [] \<and>
     (case tn_instructions n of None \<Rightarrow> True | Some s \<Rightarrow> length s \<le> 4000) \<and> tn_agent_id n < 2 ^ 128"

definition edge_ok :: "string set \<Rightarrow> team_edge \<Rightarrow> bool" where
  "edge_ok ids e \<longleftrightarrow> te_id e \<noteq> [] \<and> te_source e \<in> ids \<and> te_target e \<in> ids \<and> te_source e \<noteq> te_target e"

definition team_graph_ok :: "nat \<Rightarrow> team_graph \<Rightarrow> bool" where
  "team_graph_ok max_workers g \<longleftrightarrow>
     0 < length (tg_nodes g) \<and> length (tg_nodes g) \<le> max_workers \<and> length (tg_edges g) \<le> 200 \<and>
     list_all node_ok (tg_nodes g) \<and> distinct (map tn_id (tg_nodes g)) \<and>
     list_all (edge_ok (node_ids g)) (tg_edges g) \<and> distinct (map te_id (tg_edges g)) \<and>
     acyclic (edge_rel g)"

lemma uuid_parse_bound: "uuid_parse s = Some u \<Longrightarrow> u < 2 ^ 128"
  by (auto simp: uuid_parse_def Let_def nat_less_iff split: if_splits option.splits)

lemma nonempty_str_Some: "nonempty_str v = Some s \<longleftrightarrow> v = PStr s \<and> s \<noteq> []"
  by (cases "v" rule: nonempty_str.cases) auto

lemma parse_node_ok:
  "parse_node ids raw = Inr n \<Longrightarrow> node_ok n \<and> tn_id n \<notin> ids"
  by (auto simp: parse_node_def node_ok_def instructions_ok_def Let_def
      split: option.splits if_splits dest: uuid_parse_bound)

lemma parse_nodes_ok:
  "parse_nodes ids raws = Inr ns \<Longrightarrow>
   length ns = length raws \<and> list_all node_ok ns \<and> distinct (map tn_id ns) \<and>
   set (map tn_id ns) \<inter> ids = {}"
proof (induction raws arbitrary: ids ns)
  case (Cons raw raws)
  from Cons.prems obtain n ns' where n: "parse_node ids raw = Inr n"
    and ns': "parse_nodes (insert (tn_id n) ids) raws = Inr ns'" and ns: "ns = n # ns'"
    by (auto simp: exn_simps)
  from parse_node_ok [OF n] Cons.IH [OF ns'] ns show ?case by auto
qed simp

lemma parse_edge_ok:
  "parse_edge ids eids raw = Inr e \<Longrightarrow> edge_ok ids e \<and> te_id e \<notin> eids"
  by (auto simp: parse_edge_def edge_ok_def nonempty_str_Some split: option.splits if_splits)

lemma parse_edges_ok:
  "parse_edges ids eids raws = Inr es \<Longrightarrow>
   length es = length raws \<and> list_all (edge_ok ids) es \<and> distinct (map te_id es) \<and>
   set (map te_id es) \<inter> eids = {}"
proof (induction raws arbitrary: eids es)
  case (Cons raw raws)
  from Cons.prems obtain e es' where e: "parse_edge ids eids raw = Inr e"
    and es': "parse_edges ids (insert (te_id e) eids) raws = Inr es'" and es: "es = e # es'"
    by (auto simp: exn_simps)
  from parse_edge_ok [OF e] Cons.IH [OF es'] es show ?case by auto
qed simp

lemma edge_ok_sources: "list_all (edge_ok (node_ids g)) (tg_edges g) \<Longrightarrow> sources_of g \<subseteq> node_ids g"
  by (auto simp: sources_of_def edge_ok_def list_all_iff)

lemma parse_team_graph_Inr:
  assumes "parse_team_graph d max_workers = Inr g"
  obtains raw_nodes raw_edges where
    "dict_get d ''nodes'' = PList raw_nodes" "dict_get d ''edges'' = PList raw_edges"
    "raw_nodes \<noteq> []" "length raw_nodes \<le> max_workers" "length raw_edges \<le> 200"
    "parse_nodes {} raw_nodes = Inr (tg_nodes g)"
    "parse_edges (node_ids g) {} raw_edges = Inr (tg_edges g)"
    "ensure_dag g = Inr ()"
  using assms
  by (fastforce simp: parse_team_graph_def exn_simps Let_def node_ids_def linorder_not_less
      split: if_splits option.splits)

lemma parse_team_graph_ok:
  assumes "parse_team_graph d max_workers = Inr g"
  shows "team_graph_ok max_workers g"
proof -
  obtain raw_nodes raw_edges where
    sizes: "raw_nodes \<noteq> []" "length raw_nodes \<le> max_workers" "length raw_edges \<le> 200"
    and ns: "parse_nodes {} raw_nodes = Inr (tg_nodes g)"
    and es: "parse_edges (node_ids g) {} raw_edges = Inr (tg_edges g)"
    and dag: "ensure_dag g = Inr ()"
    using parse_team_graph_Inr [OF assms] by metis
  from parse_nodes_ok [OF ns] parse_edges_ok [OF es] sizes dag show ?thesis
    by (auto simp: team_graph_ok_def ensure_dag_Inr_iff [OF edge_ok_sources])
qed

section \<open>Every usable graph has an accepted JSON form\<close>

definition node_json :: "team_node \<Rightarrow> pyobj" where
  "node_json n = PDict
     [(''id'', PStr (tn_id n)), (''type'', PStr ''agent-ref''), (''label'', PStr (tn_label n)),
      (''agent_id'', PStr (uuid_str (tn_agent_id n))), (''instructions'', opt_str (tn_instructions n))]"

definition edge_json :: "team_edge \<Rightarrow> pyobj" where
  "edge_json e = PDict
     [(''id'', PStr (te_id e)), (''source'', PStr (te_source e)), (''target'', PStr (te_target e))]"

definition graph_json :: "team_graph \<Rightarrow> pydict" where
  "graph_json g =
     [(''version'', PInt 2), (''runtime'', PStr ''team-v1''),
      (''nodes'', PList (map node_json (tg_nodes g))), (''edges'', PList (map edge_json (tg_edges g)))]"

lemma parse_node_json:
  "node_ok n \<Longrightarrow> tn_id n \<notin> ids \<Longrightarrow> parse_node ids (node_json n) = Inr n"
  by (cases n) (auto simp: parse_node_def node_json_def dict_keys_within_def node_fields_def
      dict_get_def node_ok_def instructions_ok_def opt_str_def uuid_parse_str Let_def
      split: option.splits)

lemma parse_nodes_json:
  "list_all node_ok ns \<Longrightarrow> distinct (map tn_id ns) \<Longrightarrow> set (map tn_id ns) \<inter> ids = {} \<Longrightarrow>
   parse_nodes ids (map node_json ns) = Inr ns"
  by (induction ns arbitrary: ids) (auto simp: parse_node_json)

lemma parse_edge_json:
  "edge_ok ids e \<Longrightarrow> te_id e \<notin> eids \<Longrightarrow> [] \<notin> ids \<Longrightarrow> parse_edge ids eids (edge_json e) = Inr e"
proof (cases e)
  fix i s t
  assume e: "e = \<lparr>te_id = i, te_source = s, te_target = t\<rparr>"
    and ok: "edge_ok ids e" "te_id e \<notin> eids" "[] \<notin> ids"
  then have "i \<noteq> []" "s \<noteq> []" "t \<noteq> []" by (auto simp: edge_ok_def)
  then have "nonempty_str (PStr i) = Some i" "nonempty_str (PStr s) = Some s" "nonempty_str (PStr t) = Some t"
    by (simp_all add: nonempty_str_Some)
  with e ok show "parse_edge ids eids (edge_json e) = Inr e"
    by (simp add: parse_edge_def edge_json_def dict_keys_within_def edge_fields_def dict_get_def
        edge_ok_def del: nonempty_str.simps)
qed

lemma parse_edges_json:
  "list_all (edge_ok ids) es \<Longrightarrow> distinct (map te_id es) \<Longrightarrow> set (map te_id es) \<inter> eids = {} \<Longrightarrow>
   [] \<notin> ids \<Longrightarrow> parse_edges ids eids (map edge_json es) = Inr es"
  by (induction es arbitrary: eids) (auto simp: parse_edge_json)

lemma parse_graph_json:
  assumes ok: "team_graph_ok max_workers g"
  shows "parse_team_graph (graph_json g) max_workers = Inr g"
proof -
  let ?ns = "tg_nodes g" and ?es = "tg_edges g"
  from ok have ns: "parse_nodes {} (map node_json ?ns) = Inr ?ns"
    by (intro parse_nodes_json) (auto simp: team_graph_ok_def)
  from ok have "[] \<notin> node_ids g"
    by (auto simp: team_graph_ok_def node_ids_def list_all_iff node_ok_def)
  with ok have es: "parse_edges (node_ids g) {} (map edge_json ?es) = Inr ?es"
    by (intro parse_edges_json) (auto simp: team_graph_ok_def)
  from ok have dag: "ensure_dag g = Inr ()"
    by (simp add: team_graph_ok_def ensure_dag_Inr_iff [OF edge_ok_sources])
  from ok have "?ns \<noteq> []" "length ?ns \<le> max_workers" "length ?es \<le> 200"
    by (auto simp: team_graph_ok_def)
  then show ?thesis
    using ns es dag
    by (cases g) (simp add: parse_team_graph_def graph_json_def dict_keys_within_def graph_fields_def
        dict_get_def Let_def node_ids_def)
qed

section \<open>Properties\<close>

text \<open>A graph with two workers, one feeding the other, for the witnesses.\<close>

definition sample_graph :: team_graph where
  "sample_graph = \<lparr>tg_nodes =
      [\<lparr>tn_id = ''a'', tn_label = ''A'', tn_agent_id = 1, tn_instructions = Some ''draft''\<rparr>,
       \<lparr>tn_id = ''b'', tn_label = ''B'', tn_agent_id = 2, tn_instructions = None\<rparr>],
     tg_edges = [\<lparr>te_id = ''e'', te_source = ''a'', te_target = ''b''\<rparr>]\<rparr>"

lemma sample_graph_dag: "ensure_dag sample_graph = Inr ()"
  by (simp add: sample_graph_def ensure_dag_def successors_def)

lemma sample_graph_ok: "team_graph_ok 4 sample_graph"
proof -
  have "sources_of sample_graph \<subseteq> node_ids sample_graph"
    by (simp add: sample_graph_def sources_of_def node_ids_def)
  from ensure_dag_Inr_iff [OF this] show ?thesis
    using sample_graph_dag
    by (simp add: team_graph_ok_def) (simp add: sample_graph_def node_ok_def edge_ok_def node_ids_def)
qed

text \<open>
  C35: every graph the parser accepts is a usable team graph: between one and the allowed number of
  workers, at most 200 edges, unique non-empty node and edge ids, bounded instructions, edges
  between existing distinct nodes, and no cycle.
\<close>

theorem parse_team_graph_wellformed:
  assumes "parse_team_graph d max_workers = Inr g"
  shows "team_graph_ok max_workers g"
  using assms by (rule parse_team_graph_ok)

theorem parse_team_graph_wellformed_witness:
  "parse_team_graph (graph_json sample_graph) 4 = Inr sample_graph \<and> team_graph_ok 4 sample_graph"
  using parse_graph_json [OF sample_graph_ok]
    parse_team_graph_wellformed [of "graph_json sample_graph" 4 sample_graph] by blast

text \<open>
  Every usable team graph has a JSON form that the parser accepts and reads back unchanged, so
  the checks of the parser reject no graph the specification allows.
\<close>

theorem parse_team_graph_roundtrip:
  assumes "team_graph_ok max_workers g"
  shows "parse_team_graph (graph_json g) max_workers = Inr g"
  using assms by (rule parse_graph_json)

theorem parse_team_graph_roundtrip_witness:
  "team_graph_ok 4 sample_graph \<and> parse_team_graph (graph_json sample_graph) 4 = Inr sample_graph"
  using sample_graph_ok parse_team_graph_roundtrip [OF sample_graph_ok] by blast

text \<open>
  C36: on a graph whose edges start at its nodes, the depth-first cycle check returns normally exactly
  when the edge relation has no cycle, and otherwise raises the DAG error.
\<close>

theorem ensure_dag_decides_acyclicity:
  assumes "\<forall>e \<in> set (tg_edges g). te_source e \<in> tn_id ` set (tg_nodes g)"
  shows "(ensure_dag g = Inr () \<longleftrightarrow> acyclic (edge_rel g)) \<and>
    (ensure_dag g = Inl (TeamGraphError ''INVALID_TEAM_GRAPH'' ''Team graph must be a DAG'')
       \<longleftrightarrow> \<not> acyclic (edge_rel g))"
proof -
  from assms have "sources_of g \<subseteq> node_ids g" by (auto simp: sources_of_def node_ids_def)
  from ensure_dag_Inr_iff [OF this] show ?thesis
    using ensure_dag_Inl [of g] by (cases "ensure_dag g") auto
qed

definition sample_cycle :: team_graph where
  "sample_cycle = sample_graph\<lparr>tg_edges :=
     [\<lparr>te_id = ''e'', te_source = ''a'', te_target = ''b''\<rparr>,
      \<lparr>te_id = ''f'', te_source = ''b'', te_target = ''a''\<rparr>]\<rparr>"

theorem ensure_dag_decides_acyclicity_witness:
  "acyclic (edge_rel sample_graph) \<and> \<not> acyclic (edge_rel sample_cycle)"
proof -
  have "ensure_dag sample_cycle \<noteq> Inr ()"
    by (simp add: sample_cycle_def sample_graph_def ensure_dag_def successors_def)
  then show ?thesis
    using ensure_dag_decides_acyclicity [of sample_graph] ensure_dag_decides_acyclicity [of sample_cycle]
      sample_graph_dag
    by (simp add: sample_cycle_def) (simp add: sample_graph_def)
qed

end
