(* ===== verification/Models.thy ===== *)
theory Models
  imports Entities
begin

text \<open>
  \<open>models/contracts.py\<close> and \<open>models/router.py\<close>: model references and the router that resolves one,
  picks the registered provider, checks its capabilities and hands it the request. A provider is
  what the abstract class \<open>ModelProvider\<close> asks for; the router relies on nothing else, which the
  locale \<open>provider_contract\<close> states.
\<close>

section \<open>Model references\<close>

record model_ref =
  ref_provider :: string
  ref_model_id :: string

definition model_id_char :: "char \<Rightarrow> bool" where
  \<comment> \<open>\<open>[A-Za-z0-9._:/-]\<close>\<close>
  "model_id_char c = (let n = (of_char c :: nat) in
     (65 \<le> n \<and> n \<le> 90) \<or> (97 \<le> n \<and> n \<le> 122) \<or> (48 \<le> n \<and> n \<le> 57) \<or>
     c = CHR ''.'' \<or> c = CHR ''_'' \<or> c = CHR '':'' \<or> c = CHR ''/'' \<or> c = CHR ''-'')"

definition supported_providers :: "string list" where
  "supported_providers = [''auto'', ''ollama'', ''opencode'', ''openrouter'']"

definition parse_model_ref :: "string \<Rightarrow> exn + model_ref" where
  "parse_model_ref value =
     (case py_partition ''://'' value of (provider, separator, model_id) \<Rightarrow>
        if \<not> separator \<or> provider = [] \<or> model_id = []
        then Inl (ModelRouterError CONFIGURATION_ERROR ''Invalid model reference'')
        else if provider \<notin> set supported_providers
        then Inl (ModelRouterError CONFIGURATION_ERROR ''Unsupported model provider'')
        else if provider = ''auto'' \<and> model_id \<noteq> ''default''
        then Inl (ModelRouterError CONFIGURATION_ERROR ''Unsupported automatic model reference'')
        else if \<not> list_all model_id_char model_id \<or> py_contains ''://'' model_id
        then Inl (ModelRouterError CONFIGURATION_ERROR ''Invalid model identifier'')
        else Inr \<lparr>ref_provider = provider, ref_model_id = model_id\<rparr>)"

definition show_model_ref :: "model_ref \<Rightarrow> string" where
  "show_model_ref r = ref_provider r @ ''://'' @ ref_model_id r"

definition model_ref_ok :: "model_ref \<Rightarrow> bool" where
  "model_ref_ok r \<longleftrightarrow> ref_provider r \<in> set supported_providers \<and> ref_model_id r \<noteq> [] \<and>
     list_all model_id_char (ref_model_id r) \<and> \<not> py_contains ''://'' (ref_model_id r) \<and>
     (ref_provider r = ''auto'' \<longrightarrow> ref_model_id r = ''default'')"

section \<open>Requests and providers\<close>

record image_part =
  ip_data :: string
  ip_mime_type :: string

record model_message =
  mm_role :: string
  mm_content :: string
  mm_images :: "image_part list"

record model_request =
  rq_model_ref :: model_ref
  rq_messages :: "model_message list"

record provider_capability =
  cap_chat :: bool
  cap_discovery :: bool
  cap_vision :: bool
  cap_image_captioning :: bool
  cap_ocr :: bool
  cap_grounding :: bool
  cap_ui_understanding :: bool
  cap_multi_image :: bool
  cap_function_calling :: bool

definition default_capability :: provider_capability where
  "default_capability = \<lparr>cap_chat = True, cap_discovery = True, cap_vision = False,
     cap_image_captioning = False, cap_ocr = False, cap_grounding = False,
     cap_ui_understanding = False, cap_multi_image = False, cap_function_calling = False\<rparr>"

record provider_status =
  ps_provider_id :: string
  ps_enabled :: bool
  ps_available :: bool
  ps_models :: "string list"
  ps_capabilities :: provider_capability
  ps_error_code :: "model_error_code option"
  ps_error :: "string option"

record model_provider =
  pv_provider_id :: string
  pv_capabilities :: provider_capability
  pv_complete :: "model_request \<Rightarrow> exn + model_response"
  pv_status :: "exn + provider_status"

definition disabled_provider :: "string \<Rightarrow> model_provider" where
  "disabled_provider provider_id = \<lparr>pv_provider_id = provider_id,
     pv_capabilities = default_capability\<lparr>cap_chat := False, cap_discovery := False\<rparr>,
     pv_complete = (\<lambda>_. Inl (ModelRouterError CONFIGURATION_ERROR ''Provider is disabled'')),
     pv_status = Inr \<lparr>ps_provider_id = provider_id, ps_enabled = False, ps_available = False,
       ps_models = [], ps_capabilities = default_capability, ps_error_code = None, ps_error = None\<rparr>\<rparr>"

section \<open>The router\<close>

record model_router =
  mrt_providers :: "(string \<times> model_provider) list"
  mrt_default :: model_ref

definition new_model_router :: "(string \<times> model_provider) list \<Rightarrow> string \<Rightarrow> exn + model_router" where
  "new_model_router providers default_model_ref =
     ebind (parse_model_ref default_model_ref)
       (\<lambda>d. Inr \<lparr>mrt_providers = providers, mrt_default = d\<rparr>)"

definition compatibility :: "(string \<times> string) list" where
  "compatibility =
     [(''local/default'', ''auto://default''),
      (''qwen3-4b-nothink:latest'', ''ollama://qwen3-4b-nothink:latest''),
      (''qwen3:4B'', ''ollama://qwen3:4B''),
      (''qwen3:0.6B'', ''ollama://qwen3:0.6B'')]"

definition resolve_compatibility :: "string \<Rightarrow> exn + model_ref" where
  "resolve_compatibility value =
     parse_model_ref (case map_of compatibility value of None \<Rightarrow> value | Some v \<Rightarrow> v)"

definition resolve :: "model_router \<Rightarrow> string \<Rightarrow> exn + model_ref" where
  "resolve rt model_ref =
     ebind (resolve_compatibility model_ref) (\<lambda>r.
       Inr (if ref_provider r = ''auto'' \<and> ref_model_id r = ''default'' then mrt_default rt else r))"

definition router_complete ::
  "model_router \<Rightarrow> string \<Rightarrow> model_message list \<Rightarrow> exn + model_response" where
  "router_complete rt model_ref messages =
     ebind (resolve rt model_ref) (\<lambda>reference.
       case map_of (mrt_providers rt) (ref_provider reference) of
         None \<Rightarrow> Inl (ModelRouterError PROVIDER_UNAVAILABLE ''Requested provider is unavailable'')
       | Some provider \<Rightarrow>
           if \<not> cap_chat (pv_capabilities provider)
           then Inl (ModelRouterError CONFIGURATION_ERROR ''Provider does not support chat'')
           else if list_ex (\<lambda>m. mm_images m \<noteq> []) messages \<and> \<not> cap_vision (pv_capabilities provider)
           then Inl (ModelRouterError VISION_CAPABILITY_MISSING ''Provider does not support vision'')
           else pv_complete provider \<lparr>rq_model_ref = reference, rq_messages = messages\<rparr>)"

definition provider_statuses :: "model_router \<Rightarrow> exn + provider_status list" where
  "provider_statuses rt = emap (\<lambda>(k, p). ebind (pv_status p) (\<lambda>status.
     let models = (if cap_discovery (pv_capabilities p) then ps_models status else [])
     in Inr (status\<lparr>ps_models := models, ps_capabilities := pv_capabilities p\<rparr>))) (mrt_providers rt)"

section \<open>Parsing inverts printing\<close>

lemma py_partition_first:
  "CHR '':'' \<notin> set a \<Longrightarrow> py_partition ''://'' (a @ ''://'' @ b) = (a, True, b)"
  by (induction a) auto

lemma supported_no_colon: "p \<in> set supported_providers \<Longrightarrow> CHR '':'' \<notin> set p \<and> p \<noteq> []"
  by (auto simp: supported_providers_def)

lemma parse_model_ref_Inr_iff:
  "parse_model_ref s = Inr r \<longleftrightarrow> s = show_model_ref r \<and> model_ref_ok r"
proof
  assume p: "parse_model_ref s = Inr r"
  obtain a sep b where part: "py_partition ''://'' s = (a, sep, b)" by (cases "py_partition ''://'' s") auto
  with p have "sep" "r = \<lparr>ref_provider = a, ref_model_id = b\<rparr>" "model_ref_ok r"
    by (auto simp: parse_model_ref_def model_ref_ok_def split: if_splits)
  with part show "s = show_model_ref r \<and> model_ref_ok r"
    using py_partition_found [of "''://''" s a b] by (simp add: show_model_ref_def)
next
  assume "s = show_model_ref r \<and> model_ref_ok r"
  then have s: "s = show_model_ref r" and ok: "model_ref_ok r" by blast+
  from ok have "CHR '':'' \<notin> set (ref_provider r)" "ref_provider r \<noteq> []"
    using supported_no_colon by (auto simp: model_ref_ok_def)
  then have "py_partition ''://'' s = (ref_provider r, True, ref_model_id r)"
    using py_partition_first [of "ref_provider r" "ref_model_id r"] by (simp add: s show_model_ref_def)
  with ok \<open>ref_provider r \<noteq> []\<close> show "parse_model_ref s = Inr r"
    by (cases r) (auto simp: parse_model_ref_def model_ref_ok_def)
qed

lemma parse_model_ref_error:
  "parse_model_ref s = Inl e \<Longrightarrow> \<exists>m. e = ModelRouterError CONFIGURATION_ERROR m"
  by (auto simp: parse_model_ref_def split: prod.splits if_splits)

lemma resolve_ok: "model_ref_ok (mrt_default rt) \<Longrightarrow> resolve rt s = Inr r \<Longrightarrow> model_ref_ok r"
  by (auto simp: resolve_def resolve_compatibility_def exn_simps parse_model_ref_Inr_iff split: if_splits)

section \<open>The provider interface\<close>

text \<open>
  What the router needs of a provider: it answers a request with a response or a
  \<open>ModelRouterError\<close>, unless its caller is cancelled; a provider without chat never answers with a response.
\<close>

locale provider_contract =
  fixes capabilities :: provider_capability
    and complete :: "model_request \<Rightarrow> exn + model_response"
  assumes raises_router_error: "complete rq = Inl e \<Longrightarrow> e = CancelledError \<or> (\<exists>c m. e = ModelRouterError c m)"
    and no_chat: "\<not> cap_chat capabilities \<Longrightarrow> \<exists>e. complete rq = Inl e"
begin

lemma answers: "complete rq = Inr r \<Longrightarrow> cap_chat capabilities"
  using no_chat [of rq] by auto

lemma outcome: "(\<exists>r. complete rq = Inr r) \<or> (\<exists>c m. complete rq = Inl (ModelRouterError c m)) \<or> complete rq = Inl CancelledError"
  using raises_router_error by (cases "complete rq") auto

end

interpretation disabled: provider_contract "pv_capabilities (disabled_provider pid)"
    "pv_complete (disabled_provider pid)" for pid
  by unfold_locales (auto simp: disabled_provider_def)

lemma router_complete_Inr:
  assumes "router_complete rt s ms = Inr resp"
  obtains r p where "resolve rt s = Inr r" "map_of (mrt_providers rt) (ref_provider r) = Some p"
    "cap_chat (pv_capabilities p)" "list_ex (\<lambda>m. mm_images m \<noteq> []) ms \<longrightarrow> cap_vision (pv_capabilities p)"
    "pv_complete p \<lparr>rq_model_ref = r, rq_messages = ms\<rparr> = Inr resp"
  using assms by (auto simp: router_complete_def exn_simps split: option.splits if_splits)

lemma router_complete_disabled:
  assumes "resolve rt s = Inr r" "map_of (mrt_providers rt) (ref_provider r) = Some (disabled_provider pid)"
  shows "router_complete rt s ms = Inl (ModelRouterError CONFIGURATION_ERROR ''Provider does not support chat'')"
  using assms by (simp add: router_complete_def disabled_provider_def)

section \<open>Properties\<close>

text \<open>
  A model reference string is accepted exactly when it is the printed form of a reference with
  a supported provider, a non-empty identifier over the allowed characters without a further
  \<open>://\<close>, and \<open>default\<close> as the only identifier of \<open>auto\<close>; parsing then inverts printing.
\<close>

theorem model_ref_parse_print:
  "parse_model_ref s = Inr r \<longleftrightarrow> s = show_model_ref r \<and> model_ref_ok r"
  by (rule parse_model_ref_Inr_iff)

text \<open>
  When the router returns a response, it is the answer of the provider registered under the
  resolved reference to exactly the caller's messages; that provider supports chat, and vision when
  a message carries an image; and an \<open>auto\<close> reference was replaced by the configured default.
\<close>

theorem router_complete_dispatch:
  assumes "router_complete rt s ms = Inr resp"
  shows "\<exists>r p. resolve rt s = Inr r \<and> map_of (mrt_providers rt) (ref_provider r) = Some p \<and>
    cap_chat (pv_capabilities p) \<and> ((\<exists>m \<in> set ms. mm_images m \<noteq> []) \<longrightarrow> cap_vision (pv_capabilities p)) \<and>
    pv_complete p \<lparr>rq_model_ref = r, rq_messages = ms\<rparr> = Inr resp \<and>
    (ref_provider r = ''auto'' \<longrightarrow> r = mrt_default rt)"
proof -
  obtain r p where r: "resolve rt s = Inr r"
    and p: "map_of (mrt_providers rt) (ref_provider r) = Some p" "cap_chat (pv_capabilities p)"
      "list_ex (\<lambda>m. mm_images m \<noteq> []) ms \<longrightarrow> cap_vision (pv_capabilities p)"
      "pv_complete p \<lparr>rq_model_ref = r, rq_messages = ms\<rparr> = Inr resp"
    using assms by (rule router_complete_Inr)
  from r have "ref_provider r = ''auto'' \<longrightarrow> r = mrt_default rt"
    by (auto simp: resolve_def resolve_compatibility_def exn_simps parse_model_ref_Inr_iff
        model_ref_ok_def split: if_splits)
  with r p show ?thesis by (auto simp: list_ex_iff)
qed

definition echo_provider :: model_provider where
  "echo_provider = \<lparr>pv_provider_id = ''ollama'', pv_capabilities = default_capability,
     pv_complete = (\<lambda>rq. Inr \<lparr>mr_content = ''hi'', mr_provider_id = ''ollama'',
        mr_model_id = ref_model_id (rq_model_ref rq), mr_finish_reason = None, mr_usage = no_usage,
        mr_latency_ms = None\<rparr>),
     pv_status = Inr \<lparr>ps_provider_id = ''ollama'', ps_enabled = True, ps_available = True,
       ps_models = [], ps_capabilities = default_capability, ps_error_code = None, ps_error = None\<rparr>\<rparr>"

definition sample_router :: model_router where
  "sample_router = \<lparr>mrt_providers = [(''ollama'', echo_provider), (''opencode'', disabled_provider ''opencode'')],
     mrt_default = \<lparr>ref_provider = ''ollama'', ref_model_id = ''qwen3''\<rparr>\<rparr>"

lemma sample_router_complete:
  "router_complete sample_router ''local/default'' [] = Inr \<lparr>mr_content = ''hi'',
     mr_provider_id = ''ollama'', mr_model_id = ''qwen3'', mr_finish_reason = None,
     mr_usage = no_usage, mr_latency_ms = None\<rparr>"
  by (simp add: router_complete_def resolve_def resolve_compatibility_def compatibility_def
      parse_model_ref_def supported_providers_def model_id_char_def Let_def sample_router_def
      echo_provider_def default_capability_def)

theorem router_complete_dispatch_witness:
  "\<exists>r p. resolve sample_router ''local/default'' = Inr r \<and>
     map_of (mrt_providers sample_router) (ref_provider r) = Some p \<and> cap_chat (pv_capabilities p)"
  using router_complete_dispatch [OF sample_router_complete] by blast

end
