(* ===== verification/Manager.thy ===== *)
theory Manager
  imports Recovery Team
begin

text \<open>
  \<open>services/manager.py\<close> with \<open>runtime/registry.py\<close>: the durable life of agents and runs and the live
  tasks. An operation takes the state and returns its result and the state it leaves; what happens
  between a session's first statement and its commit is one step, and an exception inside it leaves
  the store unchanged. The clock and the ids an operation draws come from a \<open>world\<close>; for operations
  made of several steps the world, the ending of cancelled tasks and the waiting for a child are
  given by an environment.
\<close>

section \<open>State\<close>

record config =
  cf_host :: host
  cf_project :: string
  cf_recovery :: bool \<comment> \<open>a recovery service is present\<close>
  cf_events :: bool \<comment> \<open>an event bus is present\<close>
  cf_max_workers :: nat
  cf_max_depth :: nat

record manager =
  mg_store :: store
  mg_registry :: "(uuid \<times> bool) list" \<comment> \<open>the live tasks, and whether they have begun\<close>
  mg_contexts :: "uuid \<rightharpoonup> delegation_context"
  mg_bus :: bus

type_synonym 'a op = "(manager, 'a) stateful"

definition catch_conflict :: "'a op \<Rightarrow> unit op" where
  \<comment> \<open>\<open>try: ... except LifecycleConflictError: pass\<close>\<close>
  "catch_conflict p m = (case p m of
     (Inl (LifecycleConflictError _), m') \<Rightarrow> (Inr (), m')
   | (Inl e, m') \<Rightarrow> (Inl e, m')
   | (Inr _, m') \<Rightarrow> (Inr (), m'))"

definition transact :: "(store \<Rightarrow> exn + 'a \<times> store) \<Rightarrow> 'a op" where
  \<comment> \<open>\<open>async with session_factory() as session: ...; commit()\<close>\<close>
  "transact f m = (case f (mg_store m) of
     Inl e \<Rightarrow> (Inl e, m)
   | Inr (x, st) \<Rightarrow> (Inr x, m\<lparr>mg_store := st\<rparr>))"

definition query :: "(store \<Rightarrow> exn + 'a) \<Rightarrow> 'a op" where
  "query f m = (f (mg_store m), m)"

definition emit :: "config \<Rightarrow> event list \<Rightarrow> unit op" where
  "emit cf es m = (Inr (), if cf_events cf then m\<lparr>mg_bus := fold publish es (mg_bus m)\<rparr> else m)"

section \<open>The registry of live tasks\<close>

definition registry_register :: "uuid \<Rightarrow> (uuid \<times> bool) list \<Rightarrow> (uuid \<times> bool) list" where
  "registry_register i reg =
     (if map_of reg i = None then reg @ [(i, False)]
      else map (\<lambda>p. if fst p = i then (i, False) else p) reg)"

definition registry_get :: "uuid \<Rightarrow> (uuid \<times> bool) list \<Rightarrow> bool option" where
  "registry_get i reg = map_of reg i"

definition registry_remove :: "uuid \<Rightarrow> (uuid \<times> bool) list \<Rightarrow> (uuid \<times> bool) list" where
  "registry_remove i reg = filter (\<lambda>p. fst p \<noteq> i) reg"

definition registry_begin :: "uuid \<Rightarrow> (uuid \<times> bool) list \<Rightarrow> (uuid \<times> bool) list" where
  "registry_begin i reg = map (\<lambda>(j, b). (j, b \<or> j = i)) reg"

section \<open>Records and events\<close>

definition run_from_record :: "run \<Rightarrow> run" where
  \<comment> \<open>the domain \<open>AgentRun\<close> does not carry the recorded specification\<close>
  "run_from_record r = r\<lparr>run_execution_spec := None\<rparr>"

definition run_event :: "config \<Rightarrow> uuid \<Rightarrow> time \<Rightarrow> event_type \<Rightarrow> uuid \<Rightarrow> uuid \<Rightarrow> string option \<Rightarrow> pydict \<Rightarrow> string \<Rightarrow> event" where
  \<comment> \<open>\<open>_publish\<close>\<close>
  "run_event cf u now ty i a provider payload severity =
     event_create u now ty (cf_project cf) (Some (uuid_str i)) (Some (''task_'' @ uuid_str i))
       (Some (uuid_str a)) provider severity payload"

definition status_payload :: "run_status \<Rightarrow> pydict" where
  "status_payload s = [(''status'', PStr (run_status_value s))]"

definition checkpoint_events :: "config \<Rightarrow> uuid \<Rightarrow> time \<Rightarrow> checkpoint option \<Rightarrow> event list" where
  "checkpoint_events cf u now c = (case c of None \<Rightarrow> [] | Some c \<Rightarrow> [checkpoint_event u now (cf_project cf) c])"

section \<open>Agents\<close>

fun validate_nodes :: "uuid option \<Rightarrow> store \<Rightarrow> team_node list \<Rightarrow> exn + unit" where
  "validate_nodes owner st [] = Inr ()"
| "validate_nodes owner st (n # ns) =
     (if owner = Some (tn_agent_id n)
      then Inl (OrchestrationError ''INVALID_TEAM_GRAPH'' ''A team cannot delegate to itself'')
      else if agent_get (tn_agent_id n) st = None
      then Inl (OrchestrationError ''MISSING_AGENT_REFERENCE'' ''Team graph references an unknown agent'')
      else validate_nodes owner st ns)"

definition validate_team_graph :: "config \<Rightarrow> pydict \<Rightarrow> uuid option \<Rightarrow> store \<Rightarrow> exn + unit" where
  "validate_team_graph cf graph owner st =
     (if dict_get_or graph ''runtime'' (PStr ''model-v1'') \<noteq> PStr ''team-v1'' then Inr ()
      else case parse_team_graph graph (cf_max_workers cf) of
          Inl (TeamGraphError code message) \<Rightarrow> Inl (OrchestrationError code message)
        | Inl e \<Rightarrow> Inl e
        | Inr g \<Rightarrow> validate_nodes owner st (tg_nodes g))"

definition create_agent :: "config \<Rightarrow> world \<Rightarrow> string \<Rightarrow> string option \<Rightarrow> string \<Rightarrow> pydict \<Rightarrow> agent op" where
  "create_agent cf w name description mref graph = transact (\<lambda>st.
     ebind (validate_team_graph cf graph None st) (\<lambda>_.
     ebind (agent_create (w_uuid4 w 0) (w_now w) name description mref graph st) (\<lambda>(a, st).
     ebind (validate_team_graph cf graph (Some (ag_id a)) st) (\<lambda>_. Inr (a, st)))))"

definition list_agents :: "agent list op" where
  "list_agents = query (\<lambda>st. Inr (agent_list st))"

definition get_agent :: "uuid \<Rightarrow> agent op" where
  "get_agent i = query (\<lambda>st. case agent_get i st of None \<Rightarrow> Inl AgentNotFoundError | Some a \<Rightarrow> Inr a)"

definition update_agent_graph :: "config \<Rightarrow> world \<Rightarrow> uuid \<Rightarrow> pydict \<Rightarrow> agent op" where
  "update_agent_graph cf w i graph = transact (\<lambda>st.
     case agent_get i st of
       None \<Rightarrow> Inl AgentNotFoundError
     | Some a \<Rightarrow> ebind (validate_team_graph cf graph (Some i) st) (\<lambda>_.
         Inr (agent_touch (w_now w) (\<lambda>a. a\<lparr>ag_graph := graph\<rparr>) a, update_graph (w_now w) i graph st)))"

definition team_references :: "config \<Rightarrow> uuid \<Rightarrow> agent \<Rightarrow> bool" where
  "team_references cf i candidate =
     (case parse_team_graph (ag_graph candidate) (cf_max_workers cf) of
        Inl _ \<Rightarrow> False
      | Inr team \<Rightarrow> list_ex (\<lambda>n. tn_agent_id n = i) (tg_nodes team))"

definition delete_agent :: "config \<Rightarrow> uuid \<Rightarrow> unit op" where
  "delete_agent cf i = transact (\<lambda>st.
     case agent_get i st of
       None \<Rightarrow> Inl AgentNotFoundError
     | Some a \<Rightarrow>
         if has_active i st then Inl (LifecycleConflictError ''An active run prevents deleting this agent'')
         else if list_ex (\<lambda>c. ag_id c \<noteq> i \<and> team_references cf i c) (agent_list st)
         then Inl (LifecycleConflictError ''A team graph references this agent'')
         else Inr ((), agent_delete i st))"

section \<open>Starting a run\<close>

definition initial_checkpoint :: "config \<Rightarrow> world \<Rightarrow> run \<Rightarrow> agent \<Rightarrow> store \<Rightarrow> exn + checkpoint option \<times> store" where
  "initial_checkpoint cf w r ag st =
     (if cf_recovery cf
      then ebind (create_initial_checkpoint (cf_host cf) (w_uuid4 w 1) (w_now w) r ag st) (\<lambda>(c, st). Inr (Some c, st))
      else Inr (None, st))"

definition record_delegation :: "world \<Rightarrow> delegation_context option \<Rightarrow> uuid option \<Rightarrow> string option \<Rightarrow> uuid \<Rightarrow>
    store \<Rightarrow> exn + store" where
  "record_delegation w ctx parent node i st =
     (case (parent, node, ctx) of
        (Some p, Some n, Some d) \<Rightarrow> delegation_create (w_uuid4 w 2) (w_now w) p i n (dc_depth d) st
      | _ \<Rightarrow> Inr st)"

definition insert_run :: "config \<Rightarrow> world \<Rightarrow> uuid \<Rightarrow> string \<Rightarrow> delegation_context option \<Rightarrow> uuid option \<Rightarrow>
    string option \<Rightarrow> store \<Rightarrow> exn + (run \<times> checkpoint option) \<times> store" where
  \<comment> \<open>the transaction of \<open>_start_run\<close>\<close>
  "insert_run cf w a input ctx parent node st =
     (case agent_get a st of
        None \<Rightarrow> Inl AgentNotFoundError
      | Some ag \<Rightarrow>
          ebind (validate_team_graph cf (ag_graph ag) (Some a) st) (\<lambda>_.
          if has_active a st then Inl (LifecycleConflictError ''This agent already has an active run'')
          else case run_create (w_uuid4 w 0) (w_now w) a input st of
              Inl _ \<Rightarrow> Inl (LifecycleConflictError ''This agent already has an active run'')
            | Inr (r, st) \<Rightarrow>
                ebind (initial_checkpoint cf w r ag (set_agent_status (w_now w) a AgentRunning st)) (\<lambda>(c, st).
                ebind (record_delegation w ctx parent node (run_id r) st) (\<lambda>st.
                Inr ((the (run_get (run_id r) st), c), st)))))"

definition start_run_as :: "config \<Rightarrow> world \<Rightarrow> uuid \<Rightarrow> string \<Rightarrow> delegation_context option \<Rightarrow> uuid option \<Rightarrow>
    string option \<Rightarrow> run op" where
  \<comment> \<open>\<open>_start_run\<close>\<close>
  "start_run_as cf w a input ctx parent node =
     op_bind (transact (insert_run cf w a input ctx parent node)) (\<lambda>(r, c) m.
     let m = m\<lparr>mg_contexts := (case ctx of None \<Rightarrow> mg_contexts m
                              | Some d \<Rightarrow> (mg_contexts m)(run_id r \<mapsto> d)),
               mg_registry := registry_register (run_id r) (mg_registry m)\<rparr>
     in op_bind (emit cf (run_event cf (w_uuid4 w 3) (w_now w) RUN_CREATED (run_id r) a None
                   (status_payload (run_status r)) ''info'' # checkpoint_events cf (w_uuid4 w 4) (w_now w) c))
          (\<lambda>_. op_return (run_from_record r)) m)"

definition start_run :: "config \<Rightarrow> world \<Rightarrow> uuid \<Rightarrow> string \<Rightarrow> run op" where
  "start_run cf w a input = start_run_as cf w a input None None None"

definition get_run :: "uuid \<Rightarrow> run op" where
  "get_run i = query (\<lambda>st. case run_get i st of None \<Rightarrow> Inl RunNotFoundError | Some r \<Rightarrow> Inr (run_from_record r))"

definition list_runs :: "uuid \<Rightarrow> run list op" where
  "list_runs a = op_bind (get_agent a) (\<lambda>_. query (\<lambda>st. Inr (map run_from_record (list_for_agent a st))))"

section \<open>The transitions of a run\<close>

definition lifecycle_checkpoint :: "config \<Rightarrow> world \<Rightarrow> run \<Rightarrow> string \<Rightarrow> store \<Rightarrow> exn + checkpoint option \<times> store" where
  "lifecycle_checkpoint cf w r reason st =
     (if cf_recovery cf
      then ebind (create_lifecycle_checkpoint (cf_host cf) (w_uuid4 w 0) (w_now w) r reason st)
             (\<lambda>(c, st). Inr (Some c, st))
      else Inr (None, st))"

definition mark_running :: "config \<Rightarrow> world \<Rightarrow> uuid \<Rightarrow> run op" where
  "mark_running cf w i =
     op_bind (transact (\<lambda>st. case run_get i st of
         None \<Rightarrow> Inl RunNotFoundError
       | Some r \<Rightarrow>
           if \<not> run_active r then Inl (LifecycleConflictError ''Run is no longer active'')
           else let f = (\<lambda>r. r\<lparr>run_status := Running, run_started_at := Some (w_now w)\<rparr>) in
             ebind (lifecycle_checkpoint cf w (f r) ''running'' (run_update i f st)) (\<lambda>(c, st).
             Inr ((f r, c), st)))) (\<lambda>(r, c).
     op_bind (emit cf (checkpoint_events cf (w_uuid4 w 1) (w_now w) c @
         [run_event cf (w_uuid4 w 2) (w_now w) RUN_STARTED i (run_agent_id r) None
            (status_payload Running) ''info''])) (\<lambda>_.
     op_return (run_from_record r)))"

definition finish_run :: "config \<Rightarrow> world \<Rightarrow> uuid \<Rightarrow> (run \<Rightarrow> run) \<Rightarrow> agent_status \<Rightarrow> string \<Rightarrow> event_type \<Rightarrow>
    string option \<Rightarrow> pydict \<Rightarrow> string \<Rightarrow> unit op" where
  \<comment> \<open>what the three \<open>_finish_\<close> operations share: only an active run is finished\<close>
  "finish_run cf w i f agent_status reason ty provider payload severity m =
     (case run_get i (mg_store m) of
        None \<Rightarrow> (Inr (), m)
      | Some r \<Rightarrow>
          if run_status r \<in> TERMINAL_RUN_STATUSES then (Inr (), m)
          else op_bind (transact (\<lambda>st.
                 lifecycle_checkpoint cf w (f r) reason
                   (set_agent_status (w_now w) (run_agent_id r) agent_status (run_update i f st)))) (\<lambda>c.
               emit cf (checkpoint_events cf (w_uuid4 w 1) (w_now w) c @
                 [run_event cf (w_uuid4 w 2) (w_now w) ty i (run_agent_id r) provider payload severity])) m)"

definition succeeded :: "time \<Rightarrow> model_response \<Rightarrow> run \<Rightarrow> run" where
  "succeeded now resp r = r\<lparr>run_status := Succeeded, run_output_text := Some (mr_content resp),
     run_provider_id := Some (mr_provider_id resp), run_model_id := Some (mr_model_id resp),
     run_finish_reason := mr_finish_reason resp, run_input_tokens := mu_input_tokens (mr_usage resp),
     run_output_tokens := mu_output_tokens (mr_usage resp), run_total_tokens := mu_total_tokens (mr_usage resp),
     run_latency_ms := mr_latency_ms resp, run_finished_at := Some now\<rparr>"

definition cancelled :: "time \<Rightarrow> run \<Rightarrow> run" where
  "cancelled now r = r\<lparr>run_status := Cancelled, run_finished_at := Some now\<rparr>"

definition failed :: "time \<Rightarrow> string \<Rightarrow> run \<Rightarrow> run" where
  "failed now error r = r\<lparr>run_status := Failed, run_error := Some error, run_finished_at := Some now\<rparr>"

definition finish_succeeded :: "config \<Rightarrow> world \<Rightarrow> uuid \<Rightarrow> model_response \<Rightarrow> unit op" where
  "finish_succeeded cf w i resp =
     finish_run cf w i (succeeded (w_now w) resp) AgentIdle ''succeeded'' RUN_COMPLETED (Some (mr_provider_id resp))
       (status_payload Succeeded @ [(''model_id'', PStr (mr_model_id resp))]) ''info''"

definition finish_cancelled :: "config \<Rightarrow> world \<Rightarrow> uuid \<Rightarrow> unit op" where
  "finish_cancelled cf w i =
     finish_run cf w i (cancelled (w_now w)) AgentIdle ''cancelled'' RUN_CANCELLED None
       (status_payload Cancelled) ''info''"

definition finish_failed :: "config \<Rightarrow> world \<Rightarrow> uuid \<Rightarrow> string \<Rightarrow> unit op" where
  "finish_failed cf w i error =
     finish_run cf w i (failed (w_now w) error) AgentError ''failed'' RUN_FAILED None
       (status_payload Failed @ [(''error'', PStr error)]) ''error''"

definition recover :: "config \<Rightarrow> world \<Rightarrow> unit op" where
  "recover cf w m =
     (if cf_recovery cf
      then op_bind (transact (recover_stale_runs (cf_host cf) w (cf_project cf))) (emit cf) m
      else transact (\<lambda>st. Inr ((), fold (\<lambda>r st.
             set_agent_status (w_now w) (run_agent_id r) AgentError (run_update (run_id r) (interrupted (w_now w)) st))
           (list_stale st) st)) m)"

section \<open>The task of a run\<close>

text \<open>
  A cancellation reaches a task where it waits: before its transaction has taken effect, in the commit,
  which takes effect although the task does not get past it, or after it, when the session is closed.
  Publishing an event does not wait.
\<close>

datatype stage = Marking | Loading | Concluding
datatype cut = BeforeCommit | InCommit | AfterCommit

definition unpublished :: "config \<Rightarrow> config" where
  "unpublished cf = cf\<lparr>cf_events := False\<rparr>"

definition cut_short :: "config \<Rightarrow> cut option \<Rightarrow> (config \<Rightarrow> 'a op) \<Rightarrow> 'a op" where
  \<comment> \<open>an operation made of one transaction and its events, and a cancellation that may arrive in it\<close>
  "cut_short cf c p m = (case c of
       None \<Rightarrow> p cf m
     | Some BeforeCommit \<Rightarrow> (Inl CancelledError, m)
     | Some InCommit \<Rightarrow> op_bind (p (unpublished cf)) (\<lambda>_. op_raise CancelledError) m
     | Some AfterCommit \<Rightarrow> op_bind (p cf) (\<lambda>_. op_raise CancelledError) m)"

record environment =
  en_world :: "manager \<Rightarrow> world"
  en_cancel :: "uuid \<Rightarrow> manager \<Rightarrow> bool" \<comment> \<open>the cancelled task ends within the timeout\<close>
  en_wait :: "uuid \<Rightarrow> manager \<Rightarrow> exn option \<times> manager"
    \<comment> \<open>waiting for a child's task: how it ended, and what the other tasks did meanwhile\<close>
  en_cut :: "stage \<Rightarrow> uuid \<Rightarrow> manager \<Rightarrow> cut option" \<comment> \<open>a cancellation that arrives at a stage of a run's task\<close>
  en_result :: "uuid \<Rightarrow> manager \<Rightarrow> exn + model_response"
    \<comment> \<open>how the \<open>try\<close> block of a task that is cancelled by another one ends: with the \<open>CancelledError\<close>, or it
      had already ended with another result, which the task is recording\<close>

fun exn_name :: "exn \<Rightarrow> string" where
  "exn_name (TeamGraphError _ _) = ''TeamGraphError''"
| "exn_name (OrchestrationError _ _) = ''OrchestrationError''"
| "exn_name (ModelRouterError _ _) = ''ModelRouterError''"
| "exn_name AgentNotFoundError = ''AgentNotFoundError''"
| "exn_name RunNotFoundError = ''RunNotFoundError''"
| "exn_name (LifecycleConflictError _) = ''LifecycleConflictError''"
| "exn_name (MemoryError _ _) = ''MemoryError''"
| "exn_name (AuthorizationError _) = ''AuthorizationError''"
| "exn_name (AuthenticationError _) = ''AuthenticationError''"
| "exn_name (AuthenticationConflictError _) = ''AuthenticationConflictError''"
| "exn_name (SecurityAuthorizationError _) = ''SecurityAuthorizationError''"
| "exn_name (SecurityConflictError _) = ''SecurityConflictError''"
| "exn_name (NodeError _) = ''NodeError''"
| "exn_name (NodeNotFoundError _) = ''NodeNotFoundError''"
| "exn_name (NodeDisabledError _) = ''NodeDisabledError''"
| "exn_name (NodeUnavailableError _) = ''NodeUnavailableError''"
| "exn_name (NodeControlError _) = ''NodeControlError''"
| "exn_name (NodeTaskTimeoutError _) = ''NodeTaskTimeoutError''"
| "exn_name (NodeTaskDisconnectedError _) = ''NodeTaskDisconnectedError''"
| "exn_name (NodeTaskDuplicateError _) = ''NodeTaskDuplicateError''"
| "exn_name (VisionError _ _) = ''VisionError''"
| "exn_name (VaultError _) = ''VaultError''"
| "exn_name CancelledError = ''CancelledError''"
| "exn_name IntegrityError = ''IntegrityError''"
| "exn_name (KeyError _) = ''KeyError''"
| "exn_name (ValueError _) = ''ValueError''"
| "exn_name (TypeError _) = ''TypeError''"
| "exn_name (RuntimeError _) = ''RuntimeError''"
| "exn_name OSError = ''OSError''"
| "exn_name TimeoutError = ''TimeoutError''"
| "exn_name IndexError = ''IndexError''"
| "exn_name (AttributeError _) = ''AttributeError''"
| "exn_name HttpTimeout = ''TimeoutException''"
| "exn_name HttpError = ''HTTPError''"
| "exn_name (HttpException _ _) = ''HTTPException''"
| "exn_name RequestValidationError = ''RequestValidationError''"

fun error_text :: "exn \<Rightarrow> string" where
  "error_text (ModelRouterError code message) = model_error_code_value code @ '': '' @ message"
| "error_text (OrchestrationError code message) = code @ '': '' @ message"
| "error_text e = ''Run execution failed: '' @ exn_name e"

definition begin_task :: "uuid \<Rightarrow> unit op" where
  "begin_task i m = (Inr (), m\<lparr>mg_registry := registry_begin i (mg_registry m)\<rparr>)"

definition end_task :: "uuid \<Rightarrow> unit op" where
  \<comment> \<open>the \<open>finally\<close> block\<close>
  "end_task i m = (Inr (), m\<lparr>mg_registry := registry_remove i (mg_registry m),
     mg_contexts := (mg_contexts m)(i := None)\<rparr>)"

definition run_task :: "config \<Rightarrow> environment \<Rightarrow> (execution_request \<Rightarrow> model_response op) \<Rightarrow> uuid \<Rightarrow> model_response op" where
  \<comment> \<open>the body of the \<open>try\<close> block of \<open>_execute_run\<close>\<close>
  "run_task cf env runtime i =
     op_bind (with_state (\<lambda>m. cut_short cf (en_cut env Marking i m) (\<lambda>cf. mark_running cf (en_world env m) i))) (\<lambda>r.
     op_bind (with_state (\<lambda>m. cut_short cf (en_cut env Loading i m) (\<lambda>cf. op_bind (get_agent (run_agent_id r)) (\<lambda>a.
       op_bind (query (validate_team_graph cf (ag_graph a) (Some (ag_id a)))) (\<lambda>_. op_return a))))) (\<lambda>a.
     with_state (\<lambda>m. runtime \<lparr>ex_agent_id = run_agent_id r, ex_run_id = run_id r,
       ex_input_text = run_input_text r, ex_model_ref = ag_model_ref a, ex_graph_definition = ag_graph a,
       ex_delegation_context = mg_contexts m i\<rparr>)))"

definition conclude_run :: "config \<Rightarrow> environment \<Rightarrow> uuid \<Rightarrow> exn + model_response \<Rightarrow> unit op" where
  \<comment> \<open>the handlers and the \<open>else\<close> branch of \<open>_execute_run\<close>; a cancellation that arrives in them is caught by none of them\<close>
  "conclude_run cf env i result = with_state (\<lambda>m. case result of
       Inl CancelledError \<Rightarrow> op_bind (cut_short cf (en_cut env Concluding i m) (\<lambda>cf. finish_cancelled cf (en_world env m) i))
         (\<lambda>_. op_raise CancelledError)
     | Inl e \<Rightarrow> cut_short cf (en_cut env Concluding i m) (\<lambda>cf. finish_failed cf (en_world env m) i (error_text e))
     | Inr resp \<Rightarrow> cut_short cf (en_cut env Concluding i m) (\<lambda>cf. finish_succeeded cf (en_world env m) i resp))"

definition leave_task :: "config \<Rightarrow> environment \<Rightarrow> uuid \<Rightarrow> exn + model_response \<Rightarrow> unit op" where
  \<comment> \<open>what follows the \<open>try\<close> block: a handler or the \<open>else\<close> branch, and in every case the \<open>finally\<close> block\<close>
  "leave_task cf env i result m = (case conclude_run cf env i result m of (outcome, m') \<Rightarrow> (outcome, snd (end_task i m')))"

definition execute_run :: "config \<Rightarrow> environment \<Rightarrow> (execution_request \<Rightarrow> model_response op) \<Rightarrow> uuid \<Rightarrow> unit op" where
  "execute_run cf env runtime i m =
     (case run_task cf env runtime i (snd (begin_task i m)) of (result, m1) \<Rightarrow> leave_task cf env i result m1)"

section \<open>Stopping\<close>

definition task_ends :: "config \<Rightarrow> environment \<Rightarrow> uuid \<Rightarrow> unit op" where
  \<comment> \<open>the end of a cancelled task: what follows the \<open>try\<close> block of \<open>_execute_run\<close> if the task had begun;
    a task cancelled before it began ends without running any of its code, so its handle stays\<close>
  "task_ends cf env i m =
     (if registry_get i (mg_registry m) = Some True
      then (Inr (), snd (leave_task cf env i (en_result env i m) m))
      else (Inr (), m))"

definition cancel_task :: "config \<Rightarrow> environment \<Rightarrow> uuid \<Rightarrow> bool op" where
  \<comment> \<open>\<open>RunRegistry.cancel\<close> of a live task; while it waits only the cancelled task moves\<close>
  "cancel_task cf env i m =
     (if en_cancel env i m then op_bind (task_ends cf env i) (\<lambda>_. op_return True) m else (Inr False, m))"

fun stop_run :: "config \<Rightarrow> environment \<Rightarrow> nat \<Rightarrow> uuid \<Rightarrow> run op"
  and stop_children :: "config \<Rightarrow> environment \<Rightarrow> nat \<Rightarrow> delegation list \<Rightarrow> unit op" where
  \<comment> \<open>the number bounds the depth of the recursion; running out of it is the \<open>RecursionError\<close>\<close>
  "stop_run cf env 0 i = op_raise (RuntimeError ''RecursionError'')"
| "stop_run cf env (Suc fuel) i =
     op_bind (get_run i) (\<lambda>r.
     if run_status r \<in> TERMINAL_RUN_STATUSES then op_raise (LifecycleConflictError ''This run is already terminal'')
     else op_bind (with_state (\<lambda>m. stop_children cf env fuel (list_for_parents [i] (mg_store m)))) (\<lambda>_.
     with_state (\<lambda>m. case registry_get i (mg_registry m) of
         None \<Rightarrow> op_bind (finish_failed cf (en_world env m) i ''Live execution handle unavailable'') (\<lambda>_.
                   op_raise (LifecycleConflictError ''This run has no live execution handle''))
       | Some _ \<Rightarrow> op_bind (cancel_task cf env i) (\<lambda>ended.
                   if \<not> ended then op_raise (LifecycleConflictError ''Run cancellation timed out'')
                   else op_bind (with_state (\<lambda>m. finish_cancelled cf (en_world env m) i)) (\<lambda>_. get_run i)))))"
| "stop_children cf env 0 ds = (if ds = [] then op_return () else op_raise (RuntimeError ''RecursionError''))"
| "stop_children cf env (Suc fuel) [] = op_return ()"
| "stop_children cf env (Suc fuel) (d # ds) =
     op_bind (get_run (dg_child_run_id d)) (\<lambda>r.
     if run_status r \<in> TERMINAL_RUN_STATUSES then stop_children cf env (Suc fuel) ds
     else op_bind (with_state (\<lambda>m. stop_children cf env fuel (list_for_parents [dg_child_run_id d] (mg_store m)))) (\<lambda>_.
       op_bind (catch_conflict (stop_run cf env fuel (dg_child_run_id d))) (\<lambda>_. stop_children cf env (Suc fuel) ds)))"

definition stop_descendants :: "config \<Rightarrow> environment \<Rightarrow> nat \<Rightarrow> uuid \<Rightarrow> unit op" where
  "stop_descendants cf env fuel i = with_state (\<lambda>m. stop_children cf env fuel (list_for_parents [i] (mg_store m)))"

fun finish_all :: "(uuid \<Rightarrow> unit op) \<Rightarrow> uuid list \<Rightarrow> unit op" where
  "finish_all f [] = op_return ()"
| "finish_all f (i # is) = op_bind (f i) (\<lambda>_. finish_all f is)"

definition cancel_all :: "config \<Rightarrow> environment \<Rightarrow> (uuid list \<times> uuid list) op" where
  "cancel_all cf env m =
     (let ids = map fst (mg_registry m);
          completed = filter (\<lambda>i. en_cancel env i m) ids;
          timed_out = filter (\<lambda>i. \<not> en_cancel env i m) ids
      in op_bind (finish_all (task_ends cf env) completed) (\<lambda>_. op_return (completed, timed_out)) m)"

definition shutdown :: "config \<Rightarrow> environment \<Rightarrow> bool op" where
  "shutdown cf env =
     op_bind (cancel_all cf env) (\<lambda>(completed, timed_out).
     op_bind (finish_all (\<lambda>i. with_state (\<lambda>m. finish_cancelled cf (en_world env m) i)) completed) (\<lambda>_.
     op_bind (finish_all (\<lambda>i. with_state (\<lambda>m. finish_failed cf (en_world env m) i
                 ''Run cancellation timed out during shutdown'')) timed_out) (\<lambda>_.
     op_return (timed_out = []))))"

section \<open>Delegation\<close>

definition stop_child :: "config \<Rightarrow> environment \<Rightarrow> nat \<Rightarrow> uuid \<Rightarrow> unit op" where
  "stop_child cf env fuel i = op_bind (stop_descendants cf env fuel i) (\<lambda>_. catch_conflict (stop_run cf env fuel i))"

definition await_child :: "environment \<Rightarrow> uuid \<Rightarrow> exn option op" where
  "await_child env i m = (case en_wait env i m of (ended, m') \<Rightarrow> (Inr ended, m'))"

definition run_child :: "config \<Rightarrow> environment \<Rightarrow> nat \<Rightarrow> child_request \<Rightarrow> run op" where
  "run_child cf env fuel cr =
     (if dc_depth (cr_context cr) > cf_max_depth cf
      then op_raise (OrchestrationError ''MAX_DEPTH_EXCEEDED'' ''Maximum delegation depth exceeded'')
      else if cr_agent_id cr \<in> set (dc_ancestry (cr_context cr))
      then op_raise (OrchestrationError ''DELEGATION_CYCLE'' ''Team delegation references an ancestor'')
      else
        op_bind (with_state (\<lambda>m. start_run_as cf (en_world env m) (cr_agent_id cr) (cr_input_text cr)
          (Some (cr_context cr)) (Some (cr_parent_run_id cr)) (Some (cr_node_id cr)))) (\<lambda>child.
        with_state (\<lambda>m.
          if registry_get (run_id child) (mg_registry m) = None
          then op_raise (OrchestrationError ''CHILD_START_FAILED'' ''Child execution handle unavailable'')
          else op_bind (await_child env (run_id child)) (\<lambda>ended. case ended of
              None \<Rightarrow> get_run (run_id child)
            | Some TimeoutError \<Rightarrow> op_bind (stop_child cf env fuel (run_id child)) (\<lambda>_.
                op_raise (OrchestrationError ''CHILD_TIMEOUT'' ''Child execution timed out''))
            | Some CancelledError \<Rightarrow> op_bind (stop_child cf env fuel (run_id child)) (\<lambda>_. op_raise CancelledError)
            | Some e \<Rightarrow> op_raise e))))"

section \<open>The tree of runs\<close>

fun root_of :: "nat \<Rightarrow> uuid \<Rightarrow> store \<Rightarrow> uuid option" where
  "root_of 0 i st = None"
| "root_of (Suc fuel) i st =
     (case list_for_child i st of [] \<Rightarrow> Some i | d # _ \<Rightarrow> root_of fuel (dg_parent_run_id d) st)"

fun collect :: "nat \<Rightarrow> uuid list \<Rightarrow> store \<Rightarrow> (delegation list \<times> run list) option" where
  "collect fuel [] st = Some ([], [])"
| "collect 0 (i # is) st = None"
| "collect (Suc fuel) (i # is) st =
     (let batch = list_for_parents (i # is) st;
          child_ids = map dg_child_run_id batch
      in case collect fuel child_ids st of
           None \<Rightarrow> None
         | Some (relations, records) \<Rightarrow> Some (batch @ relations, list_by_ids child_ids st @ records))"

fun those_sum :: "(exn + 'a) list \<Rightarrow> exn + 'a list" where
  "those_sum [] = Inr []"
| "those_sum (x # xs) = ebind x (\<lambda>v. ebind (those_sum xs) (\<lambda>vs. Inr (v # vs)))"

fun build_tree :: "nat \<Rightarrow> run list \<Rightarrow> delegation list \<Rightarrow> uuid \<Rightarrow> string option \<Rightarrow> nat \<Rightarrow> exn + run_tree_node" where
  "build_tree 0 records relations i node depth = Inl (RuntimeError ''RecursionError'')"
| "build_tree (Suc fuel) records relations i node depth =
     ebind (those_sum (map (\<lambda>d. build_tree fuel records relations (dg_child_run_id d) (Some (dg_node_id d)) (dg_depth d))
              (filter (\<lambda>d. dg_parent_run_id d = i) relations))) (\<lambda>children.
     case row_get run_id i records of
       None \<Rightarrow> Inl (KeyError (uuid_str i))
     | Some r \<Rightarrow> Inr (RunTreeNode node depth (run_from_record r) children))"

definition run_tree :: "nat \<Rightarrow> uuid \<Rightarrow> store \<Rightarrow> (exn + run_tree_node) option" where
  \<comment> \<open>\<open>get_run_tree\<close>; \<open>None\<close> when one of its two loops would not have ended within the bound\<close>
  "run_tree fuel i st =
     (case root_of fuel i st of
        None \<Rightarrow> None
      | Some origin \<Rightarrow> (case run_get origin st of
          None \<Rightarrow> Some (Inl RunNotFoundError)
        | Some r \<Rightarrow> (case collect fuel [origin] st of
            None \<Rightarrow> None
          | Some (relations, records) \<Rightarrow> Some (build_tree fuel (r # records) relations origin None 0))))"

section \<open>The recovery report\<close>

definition get_recovery_report :: "config \<Rightarrow> uuid \<Rightarrow> pyobj op" where
  "get_recovery_report cf i = op_bind (get_run i) (\<lambda>_.
     if \<not> cf_recovery cf
     then op_return (PDict [(''run_id'', PStr (uuid_str i)), (''checkpoints'', PList []), (''actions'', PList []),
       (''decisions'', PList []), (''limits'', limits_row ''Recovery is unavailable.'')])
     else query (recovery_report i))"

end
