(* ===== verification/Recovery_Correct.thy ===== *)
theory Recovery_Correct
  imports Recovery "HOL-Library.Multiset"
begin

text \<open>
  What recovery promises: checkpoints that were just written are valid and the latest of their run,
  their checksum does not depend on the order of keys, an interrupted run is called safely stopped
  only when no external action is in doubt, and recovery stops every interrupted run, touches no
  other, and records one decision for each; with the one damaged checkpoint on which it raises.
\<close>

section \<open>The canonical text\<close>

lemma sort_key_unique:
  "mset xs = mset ys \<Longrightarrow> distinct (map f xs) \<Longrightarrow> sort_key f xs = sort_key f (ys :: 'a list)"
  by (rule sort_key_inj_key_eq) (simp_all add: distinct_map)

lemma json_text_perm:
  assumes "mset d = mset d'" "distinct (map fst d)"
  shows "json_text fr (PDict d) = json_text fr (PDict d')"
proof -
  let ?f = "\<lambda>(k, v). (k, json_text fr v)"
  have m: "mset (map ?f d) = mset (map ?f d')" using assms(1) by simp
  have "map fst (map ?f d) = map fst d" by auto
  then have "distinct (map fst (map ?f d))" using assms(2) by (simp only:)
  with m have "sort_key fst (map ?f d) = sort_key fst (map ?f d')" by (rule sort_key_unique)
  then show ?thesis by simp
qed

section \<open>Fresh checkpoints\<close>

lemma foldl_later_in: "foldl later_checkpoint b xs = Some c \<Longrightarrow> b = Some c \<or> c \<in> set xs"
proof (induction xs arbitrary: b)
  case (Cons x xs)
  from Cons.IH [of "later_checkpoint b x"] Cons.prems show ?case by (cases b) (auto split: if_splits)
qed simp

lemma latest_row_in: "latest_row i st = Some c \<Longrightarrow> c \<in> set (st_checkpoints st) \<and> cp_run_id c = i"
  using foldl_later_in [of None "filter (\<lambda>c. cp_run_id c = i) (st_checkpoints st)" c]
  by (auto simp: latest_row_def)

lemma latest_row_append:
  assumes "cp_run_id c = i" "max_sequence i (st_checkpoints st) < cp_sequence c"
  shows "latest_row i (st\<lparr>st_checkpoints := st_checkpoints st @ [c]\<rparr>) = Some c"
proof (cases "latest_row i st")
  case None
  with assms show ?thesis by (simp add: latest_row_def)
next
  case (Some b)
  then have "cp_sequence b \<in> set (checkpoint_sequences i (st_checkpoints st))"
    using latest_row_in by (fastforce simp: checkpoint_sequences_def)
  with assms(2) have "cp_sequence b < cp_sequence c" using max_sequence_ge by fastforce
  with Some assms(1) show ?thesis by (simp add: latest_row_def)
qed

lemma latest_row_other:
  assumes "cp_run_id c \<noteq> i"
  shows "latest_row i (st\<lparr>st_checkpoints := st_checkpoints st @ [c]\<rparr>) = latest_row i st"
  using assms by (simp add: latest_row_def)

lemma create_checkpoint_valid:
  assumes "create_checkpoint h u now i reason
      [(''execution_spec'', PDict spec), (''run_status'', PStr (run_status_value s))] st = Inr (c, st')"
    and "reason \<in> set checkpoint_reasons"
  shows "latest_checkpoint i st' = Inr (Some c) \<and> checkpoint_is_valid h i c = Inr True"
proof -
  from assms(1) have c: "cp_run_id c = i" "cp_sequence c = max_sequence i (st_checkpoints st) + 1"
    "cp_reason c = reason" and st': "st' = st\<lparr>st_checkpoints := st_checkpoints st @ [c]\<rparr>"
    and rest: "cp_format_version c = 1" "cp_state c = Some (PDict ([(''format_version'', PInt 1),
       (''run_id'', PStr (uuid_str i))] @ [(''execution_spec'', PDict spec), (''run_status'', PStr (run_status_value s))]))"
     "cp_checksum c = checkpoint_checksum h (PDict ([(''format_version'', PInt 1),
       (''run_id'', PStr (uuid_str i))] @ [(''execution_spec'', PDict spec), (''run_status'', PStr (run_status_value s))]))"
    by (auto simp: create_checkpoint_def checkpoint_create_Inr)
  have "latest_row i st' = Some c" unfolding st' using c by (intro latest_row_append) auto
  with rest c assms(2) show ?thesis
    by (simp add: latest_checkpoint_def checkpoint_is_valid_def dict_get_def)
qed

section \<open>The outcome of an assessment\<close>

lemma assess_outcome_stopped:
  "assess_outcome h i c actions = Inr (STOPPED_NO_REPLAY, details) \<Longrightarrow>
   \<exists>cp. c = Some cp \<and> checkpoint_is_valid h i cp = Inr True \<and> uncertain_actions actions = []"
  by (auto simp: assess_outcome_def exn_simps split: option.splits if_splits)

lemma uncertain_actions_Nil:
  "uncertain_actions actions = [] \<longleftrightarrow>
   (\<forall>a \<in> set actions. al_status a \<notin> {''intent_recorded'', ''started'', ''uncertain''})"
  by (auto simp: uncertain_actions_def filter_empty_conv)

lemma assess_stale_run_Inl:
  "assess_stale_run h i st = Inl e \<Longrightarrow>
   \<exists>c. latest_checkpoint i st = Inr (Some c) \<and> checkpoint_is_valid h i c = Inl e"
  by (auto simp: assess_stale_run_def assess_outcome_def exn_simps
      split: sum.splits option.splits if_splits prod.splits)

lemma assess_stale_run_checkpoint:
  "assess_stale_run h i st = Inr (Some c, outcome, details) \<Longrightarrow> c \<in> set (st_checkpoints st) \<and> cp_run_id c = i"
  by (auto simp: assess_stale_run_def latest_checkpoint_def exn_simps dest!: latest_row_in
      split: sum.splits option.splits if_splits)

section \<open>Recovery as one equation\<close>

lemma interrupted_id [simp]: "run_id (interrupted now r) = run_id r"
  by (simp add: interrupted_def)

lemma interrupted_idem [simp]: "interrupted now (interrupted now r) = interrupted now r"
  by (simp add: interrupted_def)

abbreviation fail_agent :: "time \<Rightarrow> agent \<Rightarrow> agent" where
  "fail_agent now \<equiv> agent_touch now (\<lambda>a. a\<lparr>ag_status := AgentError\<rparr>)"

lemma fail_agent_idem [simp]: "fail_agent now (fail_agent now a) = fail_agent now a"
  by (simp add: agent_touch_def)

lemma fail_agent_id [simp]: "ag_id (fail_agent now a) = ag_id a"
  by (simp add: agent_touch_def)

definition kept_tables :: "store \<Rightarrow> store \<Rightarrow> bool" where
  \<comment> \<open>recovery leaves these alone\<close>
  "kept_tables st st' \<longleftrightarrow> st_delegations st' = st_delegations st \<and> st_actions st' = st_actions st \<and>
     st_invocations st' = st_invocations st \<and> st_memories st' = st_memories st"

lemma decision_create_Inr:
  "decision_create u now i cp outcome details st = Inr st' \<longleftrightarrow>
     run_get i st \<noteq> None \<and> (\<forall>k. cp = Some k \<longrightarrow> row_get cp_id k (st_checkpoints st) \<noteq> None) \<and>
     row_get rd_id u (st_decisions st) = None \<and>
     st' = st\<lparr>st_decisions := st_decisions st @ [\<lparr>rd_id = u, rd_run_id = i, rd_checkpoint_id = cp,
        rd_outcome = outcome, rd_details = details, rd_created_at = now\<rparr>]\<rparr>"
  by (auto simp: decision_create_def Let_def exn_simps row_insert_Inr_iff split: option.splits)

lemma recover_run_Inr:
  assumes "recover_run h u v now r st = Inr ((outcome, cp), st')"
  shows "st_runs st' = row_update run_id (run_id r) (interrupted now) (st_runs st) \<and>
    st_agents st' = row_update ag_id (run_agent_id r) (fail_agent now) (st_agents st) \<and>
    (\<exists>d. st_decisions st' = st_decisions st @ [d] \<and> rd_run_id d = run_id r \<and> rd_id d = u \<and>
       rd_outcome d = recovery_outcome_value outcome) \<and>
    st_checkpoints st' = st_checkpoints st @ [cp] \<and> cp_run_id cp = run_id r \<and> cp_id cp = v \<and>
    cp_reason cp = ''failed'' \<and> kept_tables st st'"
  using assms
  by (auto simp: recover_run_def exn_simps decision_create_Inr create_lifecycle_checkpoint_def
      create_checkpoint_def checkpoint_create_Inr kept_tables_def set_agent_status_def agent_update_def
      run_update_def Let_def split: prod.splits)

lemma recover_runs_effect:
  "recover_runs h us n now rs st = Inr (recovered, st') \<Longrightarrow>
   st_runs st' = map (\<lambda>r. if run_id r \<in> run_id ` set rs then interrupted now r else r) (st_runs st) \<and>
   st_agents st' = map (\<lambda>a. if ag_id a \<in> run_agent_id ` set rs then fail_agent now a else a) (st_agents st) \<and>
   map rd_run_id (st_decisions st') = map rd_run_id (st_decisions st) @ map run_id rs \<and>
   map (\<lambda>c. (cp_run_id c, cp_reason c)) (st_checkpoints st') =
     map (\<lambda>c. (cp_run_id c, cp_reason c)) (st_checkpoints st) @ map (\<lambda>r. (run_id r, ''failed'')) rs \<and>
   map fst recovered = rs \<and> kept_tables st st'"
proof (induction rs arbitrary: n st recovered)
  case Nil
  then show ?case by (simp add: kept_tables_def)
next
  case (Cons r rs)
  from Cons.prems obtain outcome cp st1 rest where
    one: "recover_run h (us n) (us (n + 1)) now r st = Inr ((outcome, cp), st1)" and
    more: "recover_runs h us (n + 2) now rs st1 = Inr (rest, st')" and
    rec: "recovered = (r, outcome, cp) # rest"
    by (auto simp: exn_simps)
  note IH = Cons.IH [OF more]
  note eff = recover_run_Inr [OF one]
  have "st_runs st' = map (\<lambda>r'. if run_id r' \<in> run_id ` set (r # rs) then interrupted now r' else r') (st_runs st)"
    using IH eff by (auto simp: row_update_def)
  moreover have "st_agents st' =
      map (\<lambda>a. if ag_id a \<in> run_agent_id ` set (r # rs) then fail_agent now a else a) (st_agents st)"
    using IH eff by (auto simp: row_update_def)
  ultimately show ?case using IH eff rec by (auto simp: kept_tables_def)
qed

lemma list_stale_ids: "distinct (map run_id (st_runs st)) \<Longrightarrow> r \<in> set (st_runs st) \<Longrightarrow>
   run_id r \<in> run_id ` set (list_stale st) \<longleftrightarrow> run_active r"
  by (auto simp: list_stale_def distinct_map dest: inj_onD)

lemma recover_stale_runs_effect:
  assumes "recover_stale_runs h w project st = Inr (evs, st')" "distinct (map run_id (st_runs st))"
  shows "st_runs st' = map (\<lambda>r. if run_active r then interrupted (w_now w) r else r) (st_runs st)"
    and "st_agents st' = map (\<lambda>a. if has_active (ag_id a) st then fail_agent (w_now w) a else a) (st_agents st)"
    and "map rd_run_id (st_decisions st') = map rd_run_id (st_decisions st) @ map run_id (list_stale st)"
    and "kept_tables st st'"
proof -
  from assms(1) obtain recovered where
    "recover_runs h (w_uuid4 w) 0 (w_now w) (list_stale st) st = Inr (recovered, st')"
    by (auto simp: recover_stale_runs_def exn_simps)
  note eff = recover_runs_effect [OF this]
  show "st_runs st' = map (\<lambda>r. if run_active r then interrupted (w_now w) r else r) (st_runs st)"
    using eff list_stale_ids [OF assms(2)] by auto
  have "a \<in> run_agent_id ` set (list_stale st) \<longleftrightarrow> has_active a st" for a
    by (auto simp: list_stale_def has_active_iff)
  with eff show "st_agents st' = map (\<lambda>a. if has_active (ag_id a) st then fail_agent (w_now w) a else a) (st_agents st)"
    by simp
  from eff show "map rd_run_id (st_decisions st') = map rd_run_id (st_decisions st) @ map run_id (list_stale st)"
    "kept_tables st st'" by auto
qed

section \<open>When recovery raises\<close>

text \<open>
  Recovery raises only when an assessment does, given fresh ids: looking the recorded run status up
  among the status values fails on a list or a dictionary.
\<close>

definition status_unhashable :: "uuid \<Rightarrow> store \<Rightarrow> bool" where
  "status_unhashable i st \<longleftrightarrow> (case latest_row i st of
      Some c \<Rightarrow> (case cp_state c of
          Some (PDict state) \<Rightarrow> \<not> hashable (dict_get state ''run_status'')
        | _ \<Rightarrow> False)
    | None \<Rightarrow> False)"

lemma assess_total: "\<not> status_unhashable i st \<Longrightarrow> \<exists>x. assess_stale_run h i st = Inr x"
  by (cases "assess_stale_run h i st")
    (auto dest!: assess_stale_run_Inl simp: status_unhashable_def latest_checkpoint_def
      checkpoint_is_valid_def split: option.splits if_splits pyobj.splits)

definition ids_fresh :: "(nat \<Rightarrow> uuid) \<Rightarrow> nat \<Rightarrow> store \<Rightarrow> bool" where
  "ids_fresh us n st \<longleftrightarrow> inj us \<and>
     (\<forall>k \<ge> n. us k \<notin> rd_id ` set (st_decisions st) \<and> us k \<notin> cp_id ` set (st_checkpoints st))"

lemma recover_run_total:
  assumes fresh: "ids_fresh us n st" and run: "run_get (run_id r) st \<noteq> None"
    and ok: "\<not> status_unhashable (run_id r) st"
  shows "\<exists>x. recover_run h (us n) (us (n + 1)) now r st = Inr x"
proof -
  from assess_total [OF ok, of h] obtain c outcome details where
    a: "assess_stale_run h (run_id r) st = Inr (c, outcome, details)" by auto
  from fresh have f: "row_get rd_id (us n) (st_decisions st) = None"
    "row_get cp_id (us (n + 1)) (st_checkpoints st) = None"
    by (auto simp: ids_fresh_def row_get_None_iff)
  have "row_get cp_id (cp_id c') (st_checkpoints st) \<noteq> None" if "c = Some c'" for c'
    using assess_stale_run_checkpoint [of h "run_id r" st c' outcome details] a that
    by (auto simp: row_get_None_iff)
  with f run have d: "\<exists>st1. decision_create (us n) now (run_id r) (map_option cp_id c)
      (recovery_outcome_value outcome) details st = Inr st1 \<and> st_runs st1 = st_runs st \<and>
      st_checkpoints st1 = st_checkpoints st"
    by (auto simp: decision_create_Inr)
  then obtain st1 where st1: "decision_create (us n) now (run_id r) (map_option cp_id c)
      (recovery_outcome_value outcome) details st = Inr st1" "st_runs st1 = st_runs st"
      "st_checkpoints st1 = st_checkpoints st" by blast
  have "run_get (run_id r) (set_agent_status now (run_agent_id r) AgentError
      (run_update (run_id r) (interrupted now) st1)) \<noteq> None"
    using run st1(2) by (simp add: set_agent_status_def) (simp add: run_get_def)
  then have "\<exists>y. create_lifecycle_checkpoint h (us (n + 1)) now (interrupted now r) ''failed''
      (set_agent_status now (run_agent_id r) AgentError (run_update (run_id r) (interrupted now) st1)) = Inr y"
    using f(2) st1(3)
    by (auto simp: create_lifecycle_checkpoint_def create_checkpoint_def checkpoint_create_Inr set_agent_status_def)
  then show ?thesis using a st1(1) by (auto simp: recover_run_def)
qed

lemma recover_runs_total:
  "ids_fresh us n st \<Longrightarrow> distinct (map run_id rs) \<Longrightarrow>
   (\<And>r. r \<in> set rs \<Longrightarrow> run_get (run_id r) st \<noteq> None \<and> \<not> status_unhashable (run_id r) st) \<Longrightarrow>
   \<exists>x. recover_runs h us n now rs st = Inr x"
proof (induction rs arbitrary: n st)
  case (Cons r rs)
  have "\<exists>x. recover_run h (us n) (us (n + 1)) now r st = Inr x"
    using Cons.prems by (intro recover_run_total) auto
  then obtain outcome cp st1 where one: "recover_run h (us n) (us (n + 1)) now r st = Inr ((outcome, cp), st1)"
    by auto
  note eff = recover_run_Inr [OF one]
  have fresh: "ids_fresh us (n + 2) st1"
  proof -
    have "us k \<noteq> us n" "us k \<noteq> us (n + 1)" if "k \<ge> n + 2" for k
      using Cons.prems(1) that by (auto simp: ids_fresh_def dest: injD)
    with Cons.prems(1) eff show ?thesis by (fastforce simp: ids_fresh_def)
  qed
  have "run_get (run_id r') st1 \<noteq> None \<and> \<not> status_unhashable (run_id r') st1" if "r' \<in> set rs" for r'
  proof -
    from that Cons.prems(2) have ne: "run_id r' \<noteq> run_id r" by (auto simp: image_iff)
    have "run_get (run_id r') st1 = run_get (run_id r') st"
      using eff ne by (simp add: run_get_def run_rows.get_update_other)
    moreover have "latest_row (run_id r') st1 = latest_row (run_id r') st"
      using eff ne by (simp add: latest_row_def)
    ultimately show ?thesis using Cons.prems(3) [of r'] that by (simp add: status_unhashable_def)
  qed
  with fresh Cons.prems(2) have "\<exists>x. recover_runs h us (n + 2) now rs st1 = Inr x"
    by (intro Cons.IH) auto
  then show ?case using one by auto
qed simp

section \<open>Properties\<close>

text \<open>An agent with one interrupted run, its checkpoint, and a damaged copy of that checkpoint.\<close>

definition sample_host :: host where
  "sample_host = \<lparr>hs_sha256 = (\<lambda>s. s), hs_float_repr = (\<lambda>_. ''0.0'')\<rparr>"

definition sample_world :: world where
  "sample_world = \<lparr>w_now = 9, w_uuid4 = (\<lambda>n. n + 100)\<rparr>"

definition sample_agent :: agent where
  "sample_agent = \<lparr>ag_id = 1, ag_name = ''a'', ag_description = None, ag_status = AgentRunning,
     ag_model_ref = ''local/default'', ag_graph = [], ag_created_at = 0, ag_updated_at = 0\<rparr>"

definition sample_run :: run where
  "sample_run = new_run 5 0 1 ''hello''"

definition sample_state :: "pyobj \<Rightarrow> pydict" where
  "sample_state status = [(''format_version'', PInt 1), (''run_id'', PStr (uuid_str 5)),
     (''execution_spec'', PDict []), (''run_status'', status)]"

definition sample_checkpoint :: "pyobj \<Rightarrow> checkpoint" where
  "sample_checkpoint status = \<lparr>cp_id = 7, cp_run_id = 5, cp_sequence = 1, cp_format_version = 1,
     cp_reason = ''created'', cp_state = Some (PDict (sample_state status)),
     cp_checksum = checkpoint_checksum sample_host (PDict (sample_state status)), cp_created_at = 0\<rparr>"

definition sample_store :: "pyobj \<Rightarrow> store" where
  "sample_store status = empty_store\<lparr>st_agents := [sample_agent], st_runs := [sample_run],
     st_checkpoints := [sample_checkpoint status]\<rparr>"

lemmas sample_recovery = sample_host_def sample_world_def sample_agent_def sample_run_def
  sample_state_def sample_checkpoint_def sample_store_def new_run_def empty_store_def

lemma sample_latest: "latest_checkpoint 5 (sample_store status) = Inr (Some (sample_checkpoint status))"
  by (simp add: latest_checkpoint_def latest_row_def checkpoint_reasons_def sample_recovery)

text \<open>
  C27: after a restart recovery always comes through when the ids it draws are new and no checkpoint
  records an unhashable run status. Then exactly the active runs are marked failed with the restart
  message, their agents are put in error, one decision per interrupted run is recorded in order, and
  every other run, all delegations, ledger entries, tool invocations and memories are untouched:
  nothing is replayed.
\<close>

theorem recovery_stops_every_interrupted_run:
  assumes "distinct (map run_id (st_runs st))" "ids_fresh (w_uuid4 w) 0 st"
    and "\<And>r. r \<in> set (st_runs st) \<Longrightarrow> run_active r \<Longrightarrow> \<not> status_unhashable (run_id r) st"
  shows "\<exists>evs st'. recover_stale_runs h w project st = Inr (evs, st') \<and>
    st_runs st' = map (\<lambda>r. if run_active r then interrupted (w_now w) r else r) (st_runs st) \<and>
    list_stale st' = [] \<and>
    st_agents st' = map (\<lambda>a. if has_active (ag_id a) st then fail_agent (w_now w) a else a) (st_agents st) \<and>
    map rd_run_id (st_decisions st') = map rd_run_id (st_decisions st) @ map run_id (list_stale st) \<and>
    kept_tables st st'"
proof -
  have "run_get (run_id r) st \<noteq> None" if "r \<in> set (list_stale st)" for r
    using that by (auto simp: list_stale_def run_get_def row_get_None_iff)
  with assms have "\<exists>x. recover_runs h (w_uuid4 w) 0 (w_now w) (list_stale st) st = Inr x"
    by (intro recover_runs_total) (auto simp: list_stale_def distinct_map_filter)
  then obtain evs st' where r: "recover_stale_runs h w project st = Inr (evs, st')"
    by (auto simp: recover_stale_runs_def)
  note eff = recover_stale_runs_effect [OF r assms(1)]
  moreover have "list_stale st' = []"
    unfolding list_stale_def eff(1) by (auto simp: filter_empty_conv run_active_def interrupted_def)
  ultimately show ?thesis using r by blast
qed

theorem recovery_stops_every_interrupted_run_witness:
  "\<exists>evs st'. recover_stale_runs sample_host sample_world ''p'' (sample_store (PStr ''queued'')) = Inr (evs, st') \<and>
     st_runs st' = [interrupted 9 sample_run] \<and> map rd_run_id (st_decisions st') = [5]"
proof -
  let ?st = "sample_store (PStr ''queued'')"
  have d: "distinct (map run_id (st_runs ?st))" by (simp add: sample_recovery)
  have f: "ids_fresh (w_uuid4 sample_world) 0 ?st" by (simp add: ids_fresh_def sample_recovery inj_def)
  have u: "\<not> status_unhashable (run_id r) ?st" if "r \<in> set (st_runs ?st)" "run_active r" for r
    using that by (simp add: status_unhashable_def latest_row_def sample_recovery dict_get_def)
  have "run_active sample_run" by (simp add: run_active_def sample_run_def new_run_def)
  with recovery_stops_every_interrupted_run [OF d f u, of sample_host "''p''"] show ?thesis
    by (auto simp: list_stale_def sample_store_def sample_world_def empty_store_def)
       (auto simp: sample_run_def new_run_def)
qed

text \<open>
  An interrupted run is reported as stopped without replay only if its latest checkpoint exists,
  decodes, belongs to the run and matches its checksum, and every external action in the run's ledger
  is confirmed or failed; an action that may have happened always blocks.
\<close>

theorem stopped_only_without_doubt:
  assumes "assess_stale_run h i st = Inr (c, STOPPED_NO_REPLAY, details)"
  shows "\<exists>cp state. c = Some cp \<and> cp \<in> set (st_checkpoints st) \<and> cp_run_id cp = i \<and>
    cp_state cp = Some (PDict state) \<and> dict_get state ''run_id'' = PStr (uuid_str i) \<and>
    cp_checksum cp = checkpoint_checksum h (PDict state) \<and>
    (\<forall>a \<in> set (st_actions st). al_run_id a = i \<longrightarrow> al_status a \<in> {''confirmed'', ''failed''})"
proof -
  from assms obtain actions where l: "latest_checkpoint i st = Inr c" "list_actions i st = Inr actions"
    and o: "assess_outcome h i c actions = Inr (STOPPED_NO_REPLAY, details)"
    by (auto simp: assess_stale_run_def exn_simps split: sum.splits prod.splits)
  from assess_outcome_stopped [OF o] obtain cp where c: "c = Some cp"
    and v: "checkpoint_is_valid h i cp = Inr True" and u: "uncertain_actions actions = []" by blast
  from assess_stale_run_checkpoint [of h i st cp] assms c have cp: "cp \<in> set (st_checkpoints st)" "cp_run_id cp = i"
    by auto
  from v obtain state where s: "cp_state cp = Some (PDict state)" "dict_get state ''run_id'' = PStr (uuid_str i)"
    "cp_checksum cp = checkpoint_checksum h (PDict state)"
    by (auto simp: checkpoint_is_valid_def split: option.splits pyobj.splits if_splits)
  from l(2) have "\<forall>a \<in> set actions. al_status a \<in> set action_statuses"
    and "set actions = {a \<in> set (st_actions st). al_run_id a = i}"
    by (auto simp: list_actions_def action_rows_def Let_def list_all_iff split: if_splits)
  with u have "\<forall>a \<in> set (st_actions st). al_run_id a = i \<longrightarrow> al_status a \<in> {''confirmed'', ''failed''}"
    unfolding uncertain_actions_Nil by (auto simp: action_statuses_def)
  with c cp s show ?thesis by blast
qed

lemma sample_assess:
  "assess_stale_run sample_host 5 (sample_store (PStr ''queued'')) = Inr (Some (sample_checkpoint (PStr ''queued'')),
     STOPPED_NO_REPLAY, [(''reason'', PStr ''No uncertain action was recorded; automatic replay remains disabled.'')])"
proof -
  have "checkpoint_is_valid sample_host 5 (sample_checkpoint (PStr ''queued'')) = Inr True"
    by (simp add: checkpoint_is_valid_def sample_checkpoint_def sample_state_def dict_get_def
        all_run_statuses_def image_iff)
  moreover have "list_actions 5 (sample_store (PStr ''queued'')) = Inr []"
    by (simp add: list_actions_def action_rows_def sample_store_def empty_store_def)
  ultimately show ?thesis
    by (simp add: assess_stale_run_def sample_latest assess_outcome_def uncertain_actions_def)
qed

theorem stopped_only_without_doubt_witness:
  "sample_checkpoint (PStr ''queued'') \<in> set (st_checkpoints (sample_store (PStr ''queued''))) \<and>
   cp_run_id (sample_checkpoint (PStr ''queued'')) = 5"
  using stopped_only_without_doubt [OF sample_assess] by simp

text \<open>
  A lifecycle checkpoint that has just been written is the one recovery finds first, passes the
  validation of recovery, and has the next sequence number of its run.
\<close>

theorem written_checkpoint_is_valid_and_latest:
  assumes "create_lifecycle_checkpoint h u now r reason st = Inr (c, st')" "reason \<in> set checkpoint_reasons"
  shows "latest_checkpoint (run_id r) st' = Inr (Some c) \<and> checkpoint_is_valid h (run_id r) c = Inr True \<and>
    cp_sequence c = max_sequence (run_id r) (st_checkpoints st) + 1"
proof -
  from assms(1) have "cp_sequence c = max_sequence (run_id r) (st_checkpoints st) + 1"
    by (auto simp: create_lifecycle_checkpoint_def create_checkpoint_def checkpoint_create_Inr)
  with create_checkpoint_valid [OF assms(1) [unfolded create_lifecycle_checkpoint_def] assms(2)]
  show ?thesis by simp
qed

theorem written_checkpoint_is_valid_and_latest_witness:
  "\<exists>c st'. create_lifecycle_checkpoint sample_host 8 3 sample_run ''running'' (sample_store (PStr ''queued'')) = Inr (c, st') \<and>
     latest_checkpoint 5 st' = Inr (Some c)"
proof -
  have "\<exists>x. create_lifecycle_checkpoint sample_host 8 3 sample_run ''running'' (sample_store (PStr ''queued'')) = Inr x"
    by (auto simp: create_lifecycle_checkpoint_def create_checkpoint_def checkpoint_create_Inr run_get_def
        sample_store_def sample_run_def new_run_def empty_store_def sample_checkpoint_def)
  then obtain c st' where
    w: "create_lifecycle_checkpoint sample_host 8 3 sample_run ''running'' (sample_store (PStr ''queued'')) = Inr (c, st')"
    by auto
  moreover have "''running'' \<in> set checkpoint_reasons" "run_id sample_run = 5"
    by (simp_all add: checkpoint_reasons_def sample_run_def new_run_def)
  ultimately show ?thesis using written_checkpoint_is_valid_and_latest [OF w] by auto
qed

text \<open>
  The checksum of a checkpoint state depends on its keys and values only: two dictionaries with
  the same items in another order have the same checksum, whatever the hash function is.
\<close>

theorem checksum_ignores_key_order:
  assumes "mset d = mset d'" "distinct (map fst d)"
  shows "checkpoint_checksum h (PDict d) = checkpoint_checksum h (PDict d')"
  using json_text_perm [OF assms] by (simp add: checkpoint_checksum_def)

theorem checksum_ignores_key_order_witness:
  "checkpoint_checksum sample_host (PDict [(''b'', PInt 1), (''a'', PNone)]) =
   checkpoint_checksum sample_host (PDict [(''a'', PNone), (''b'', PInt 1)])"
  by (rule checksum_ignores_key_order) (simp_all add: add_mset_commute)

text \<open>
  One damaged checkpoint stops recovery as a whole. If the latest checkpoint of the first
  interrupted run decodes and carries the right version, run id and specification but a list as its
  run status, recovery raises a \<open>TypeError\<close> before it has stopped any run.
\<close>

theorem recovery_raises_on_list_status:
  assumes "list_stale st = r # rs" "latest_checkpoint (run_id r) st = Inr (Some c)"
    and "list_actions (run_id r) st = Inr actions"
    and "cp_format_version c = 1" "cp_state c = Some (PDict state)" "dict_get state ''format_version'' = PInt 1"
    and "dict_get state ''run_id'' = PStr (uuid_str (run_id r))" "dict_get state ''execution_spec'' = PDict spec"
    and "dict_get state ''run_status'' = PList xs"
  shows "recover_stale_runs h w project st = Inl (TypeError ''unhashable type'')"
  using assms
  by (simp add: recover_stale_runs_def recover_run_def assess_stale_run_def assess_outcome_def
      checkpoint_is_valid_def)

theorem recovery_raises_on_list_status_witness:
  "recover_stale_runs sample_host sample_world ''p'' (sample_store (PList [])) = Inl (TypeError ''unhashable type'')"
proof -
  have stale: "list_stale (sample_store (PList [])) = [sample_run]"
    by (simp add: list_stale_def sample_store_def run_active_def sample_run_def new_run_def)
  have id: "run_id sample_run = 5" by (simp add: sample_run_def new_run_def)
  show ?thesis
    by (rule recovery_raises_on_list_status [OF stale, unfolded id, OF sample_latest,
          where state = "sample_state (PList [])" and spec = "[]" and xs = "[]"])
      (simp_all add: list_actions_def action_rows_def sample_store_def empty_store_def
        sample_checkpoint_def sample_state_def dict_get_def)
qed

end
