(* ===== verification/Manager_Inv.thy ===== *)
theory Manager_Inv
  imports Manager Recovery_Correct
begin

text \<open>
  The invariant of the lifecycle tables, that every operation of the run manager keeps it, and the
  step relation of the manager: any operation, with any arguments, at any time. Everything proved of
  the reachable states therefore holds under every interleaving of the live tasks with requests.
\<close>

section \<open>The invariant\<close>

definition one_active :: "run list \<Rightarrow> bool" where
  "one_active rs \<longleftrightarrow> (\<forall>r \<in> set rs. \<forall>r' \<in> set rs.
     run_active r \<and> run_active r' \<and> run_agent_id r = run_agent_id r' \<longrightarrow> run_id r = run_id r')"

definition run_shape :: "run \<Rightarrow> bool" where
  \<comment> \<open>what a status says about the other columns\<close>
  "run_shape r \<longleftrightarrow> (run_finished_at r \<noteq> None \<longleftrightarrow> run_status r \<in> TERMINAL_RUN_STATUSES) \<and>
     (run_output_text r \<noteq> None \<longleftrightarrow> run_status r = Succeeded) \<and>
     (run_error r \<noteq> None \<longleftrightarrow> run_status r = Failed) \<and>
     (run_status r = Queued \<longrightarrow> run_started_at r = None) \<and>
     (run_status r = Running \<longrightarrow> run_started_at r \<noteq> None)"

definition precedes :: "uuid \<Rightarrow> uuid \<Rightarrow> run list \<Rightarrow> bool" where
  "precedes p c rs \<longleftrightarrow> (\<exists>xs r ys. rs = xs @ r # ys \<and> run_id r = c \<and> p \<in> run_id ` set xs)"

definition delegations_ok :: "store \<Rightarrow> bool" where
  "delegations_ok st \<longleftrightarrow> distinct (map dg_child_run_id (st_delegations st)) \<and>
     (\<forall>d \<in> set (st_delegations st). precedes (dg_parent_run_id d) (dg_child_run_id d) (st_runs st))"

definition sequences_ok :: "checkpoint list \<Rightarrow> bool" where
  "sequences_ok cps \<longleftrightarrow> (\<forall>i. checkpoint_sequences i cps = map int [1..<Suc (length (checkpoint_sequences i cps))])"

definition status_ok :: "store \<Rightarrow> bool" where
  "status_ok st \<longleftrightarrow> (\<forall>a \<in> set (st_agents st). ag_status a = AgentRunning \<longleftrightarrow> has_active (ag_id a) st)"

definition store_inv :: "store \<Rightarrow> bool" where
  "store_inv st \<longleftrightarrow> distinct (map ag_id (st_agents st)) \<and> distinct (map run_id (st_runs st)) \<and>
     (\<forall>r \<in> set (st_runs st). run_agent_id r \<in> ag_id ` set (st_agents st)) \<and>
     one_active (st_runs st) \<and> (\<forall>r \<in> set (st_runs st). run_shape r) \<and> status_ok st \<and>
     delegations_ok st \<and> sequences_ok (st_checkpoints st)"

lemma store_inv_empty: "store_inv empty_store"
  by (simp add: store_inv_def empty_store_def one_active_def status_ok_def delegations_ok_def
      sequences_ok_def checkpoint_sequences_def)

section \<open>Order of runs\<close>

lemma precedes_append: "precedes p c rs \<Longrightarrow> precedes p c (rs @ rs')"
  unfolding precedes_def by (metis append.assoc append_Cons)

lemma precedes_map: "(\<And>r. run_id (g r) = run_id r) \<Longrightarrow> precedes p c rs \<Longrightarrow> precedes p c (map g rs)"
proof -
  assume g: "\<And>r. run_id (g r) = run_id r" and "precedes p c rs"
  then obtain xs r ys where "rs = xs @ r # ys" "run_id r = c" "p \<in> run_id ` set xs"
    by (auto simp: precedes_def)
  with g have "map g rs = map g xs @ g r # map g ys" "run_id (g r) = c" "p \<in> run_id ` set (map g xs)"
    by (auto simp: image_image)
  then show ?thesis unfolding precedes_def by blast
qed

lemma precedes_filter:
  assumes "precedes p c rs" "distinct (map run_id rs)"
    and "p \<in> run_id ` set (filter P rs)" "c \<in> run_id ` set (filter P rs)"
  shows "precedes p c (filter P rs)"
proof -
  from assms(1) obtain xs r ys where rs: "rs = xs @ r # ys" "run_id r = c" "p \<in> run_id ` set xs"
    by (auto simp: precedes_def)
  from assms(4) obtain r' where r': "r' \<in> set rs" "P r'" "run_id r' = c" by auto
  with rs assms(2) have "r' = r" by (metis distinct_map inj_onD in_set_conv_decomp)
  with r' have Pr: "P r" by simp
  from assms(3) obtain q where q: "q \<in> set rs" "P q" "run_id q = p" by auto
  from rs(3) obtain q' where q': "q' \<in> set xs" "run_id q' = p" by auto
  with q rs(1) assms(2) have "q' = q" by (metis Un_iff distinct_map inj_onD set_append)
  with q q' have "p \<in> run_id ` set (filter P xs)" by auto
  moreover have "filter P rs = filter P xs @ r # filter P ys" using rs(1) Pr by simp
  ultimately show ?thesis using rs(2) unfolding precedes_def by blast
qed

lemma precedes_snoc: "p \<in> run_id ` set rs \<Longrightarrow> precedes p (run_id r) (rs @ [r])"
  unfolding precedes_def by blast

section \<open>Sequence numbers\<close>

lemma foldl_max_ints: "foldl max (int (Suc 0)) (map int [Suc (Suc 0)..<Suc (Suc n)]) = int (Suc n)"
proof (induction n)
  case (Suc n)
  have "[Suc (Suc 0)..<Suc (Suc (Suc n))] = [Suc (Suc 0)..<Suc (Suc n)] @ [Suc (Suc n)]" by simp
  with Suc show ?case by (simp del: upt_Suc)
qed simp

lemma max_sequence_ok:
  assumes "sequences_ok cps"
  shows "max_sequence i cps = int (length (checkpoint_sequences i cps))"
proof -
  let ?n = "length (checkpoint_sequences i cps)"
  from assms have eq: "checkpoint_sequences i cps = map int [1..<Suc ?n]" by (simp add: sequences_ok_def)
  show ?thesis
  proof (cases ?n)
    case 0
    then show ?thesis by (simp add: max_sequence_def)
  next
    case (Suc n)
    have "[1..<Suc (Suc n)] = Suc 0 # [Suc (Suc 0)..<Suc (Suc n)]" by (simp add: upt_conv_Cons)
    with eq Suc have "checkpoint_sequences i cps = int (Suc 0) # map int [Suc (Suc 0)..<Suc (Suc n)]"
      by (metis list.simps(9))
    then have "max_sequence i cps = foldl max (int (Suc 0)) (map int [Suc (Suc 0)..<Suc (Suc n)])"
      by (simp add: max_sequence_def del: upt_Suc)
    then show ?thesis unfolding foldl_max_ints using Suc by simp
  qed
qed

lemma sequences_ok_snoc:
  assumes "sequences_ok cps" "cp_sequence c = max_sequence (cp_run_id c) cps + 1"
  shows "sequences_ok (cps @ [c])"
  unfolding sequences_ok_def
proof
  fix i
  let ?n = "length (checkpoint_sequences i cps)"
  from assms(1) have eq: "checkpoint_sequences i cps = map int [1..<Suc ?n]" by (simp add: sequences_ok_def)
  show "checkpoint_sequences i (cps @ [c]) = map int [1..<Suc (length (checkpoint_sequences i (cps @ [c])))]"
  proof (cases "cp_run_id c = i")
    case True
    then have "checkpoint_sequences i (cps @ [c]) = checkpoint_sequences i cps @ [int (Suc ?n)]"
      using assms by (simp add: checkpoint_sequences_def) (simp add: max_sequence_ok checkpoint_sequences_def)
    then show ?thesis using eq by simp
  next
    case False
    then have "checkpoint_sequences i (cps @ [c]) = checkpoint_sequences i cps"
      by (simp add: checkpoint_sequences_def)
    then show ?thesis using eq by simp
  qed
qed

lemma sequences_ok_filter: "sequences_ok cps \<Longrightarrow> sequences_ok (filter (\<lambda>c. P (cp_run_id c)) cps)"
  unfolding sequences_ok_def
proof
  fix i
  assume ok: "\<forall>i. checkpoint_sequences i cps = map int [1..<Suc (length (checkpoint_sequences i cps))]"
  have "checkpoint_sequences i (filter (\<lambda>c. P (cp_run_id c)) cps) = (if P i then checkpoint_sequences i cps else [])"
    by (induction cps) (auto simp: checkpoint_sequences_def)
  with ok show "checkpoint_sequences i (filter (\<lambda>c. P (cp_run_id c)) cps) =
      map int [1..<Suc (length (checkpoint_sequences i (filter (\<lambda>c. P (cp_run_id c)) cps)))]" by auto
qed

section \<open>Changing runs and agents in place\<close>

lemma store_inv_change:
  assumes inv: "store_inv st"
    and runs: "st_runs st' = map g (st_runs st)" "\<And>r. run_id (g r) = run_id r"
      "\<And>r. run_agent_id (g r) = run_agent_id r"
    and act: "\<And>r. r \<in> set (st_runs st) \<Longrightarrow> run_active (g r) \<Longrightarrow> run_active r"
    and shape: "\<And>r. r \<in> set (st_runs st) \<Longrightarrow> run_shape r \<Longrightarrow> run_shape (g r)"
    and agents: "map ag_id (st_agents st') = map ag_id (st_agents st)" and status: "status_ok st'"
    and rest: "st_delegations st' = st_delegations st" "sequences_ok (st_checkpoints st')"
  shows "store_inv st'"
proof -
  from agents have ids: "ag_id ` set (st_agents st') = ag_id ` set (st_agents st)" by (metis set_map)
  from inv have d: "distinct (map ag_id (st_agents st))" "distinct (map run_id (st_runs st))"
    and fk: "\<forall>r \<in> set (st_runs st). run_agent_id r \<in> ag_id ` set (st_agents st)"
    and one: "one_active (st_runs st)" and sh: "\<forall>r \<in> set (st_runs st). run_shape r"
    and del: "delegations_ok st"
    by (simp_all add: store_inv_def)
  have "map run_id (st_runs st') = map run_id (st_runs st)" using runs by simp
  moreover have "one_active (st_runs st')"
    unfolding one_active_def runs(1)
  proof (intro ballI impI)
    fix x y
    assume xy: "x \<in> set (map g (st_runs st))" "y \<in> set (map g (st_runs st))"
      and h: "run_active x \<and> run_active y \<and> run_agent_id x = run_agent_id y"
    from xy obtain r r' where r: "r \<in> set (st_runs st)" "x = g r" and r': "r' \<in> set (st_runs st)" "y = g r'"
      by auto
    with h act have "run_active r" "run_active r'" "run_agent_id r = run_agent_id r'"
      by (simp_all add: runs(3))
    with one r r' have "run_id r = run_id r'" unfolding one_active_def by blast
    then show "run_id x = run_id y" using r r' by (simp add: runs(2))
  qed
  moreover have "delegations_ok st'"
    using del precedes_map [of g, OF runs(2)] by (simp add: delegations_ok_def runs(1) rest(1))
  moreover have "\<forall>r \<in> set (st_runs st'). run_agent_id r \<in> ag_id ` set (st_agents st')"
    unfolding ids runs(1) using fk by (simp add: runs(3))
  moreover have "\<forall>r \<in> set (st_runs st'). run_shape r"
    unfolding runs(1) using sh shape by simp
  ultimately show ?thesis
    using d status rest(2) agents by (simp add: store_inv_def)
qed

lemma run_get_in: "run_get i st = Some r \<Longrightarrow> r \<in> set (st_runs st) \<and> run_id r = i"
  unfolding run_get_def by (rule row_get_Some)

lemma run_get_unique:
  "store_inv st \<Longrightarrow> run_get i st = Some r \<Longrightarrow> r' \<in> set (st_runs st) \<Longrightarrow> run_id r' = i \<Longrightarrow> r' = r"
  by (auto simp: store_inv_def distinct_map dest!: run_get_in dest: inj_onD)

lemma lifecycle_checkpoint_Inr:
  assumes "lifecycle_checkpoint cf w r reason st = Inr (c, st')"
  shows "\<exists>cps. st' = st\<lparr>st_checkpoints := cps\<rparr> \<and> (sequences_ok (st_checkpoints st) \<longrightarrow> sequences_ok cps)"
proof (cases "cf_recovery cf")
  case True
  with assms obtain c' where "create_lifecycle_checkpoint (cf_host cf) (w_uuid4 w 0) (w_now w) r reason st = Inr (c', st')"
    by (auto simp: lifecycle_checkpoint_def exn_simps)
  then have "st' = st\<lparr>st_checkpoints := st_checkpoints st @ [c']\<rparr>" "cp_run_id c' = run_id r"
    "cp_sequence c' = max_sequence (run_id r) (st_checkpoints st) + 1"
    by (auto simp: create_lifecycle_checkpoint_def create_checkpoint_def checkpoint_create_Inr)
  then show ?thesis by (intro exI conjI) (auto intro: sequences_ok_snoc)
next
  case False
  with assms have "st' = st\<lparr>st_checkpoints := st_checkpoints st\<rparr>" by (simp add: lifecycle_checkpoint_def)
  then show ?thesis by blast
qed

text \<open>The transaction of \<open>mark_running\<close> and of the three ways a run is finished.\<close>

definition move_run :: "config \<Rightarrow> world \<Rightarrow> run \<Rightarrow> (run \<Rightarrow> run) \<Rightarrow> agent_status option \<Rightarrow> string \<Rightarrow> store \<Rightarrow>
    exn + checkpoint option \<times> store" where
  "move_run cf w r f s reason st =
     lifecycle_checkpoint cf w (f r) reason
       (let st = run_update (run_id r) f st in
        case s of None \<Rightarrow> st | Some s \<Rightarrow> set_agent_status (w_now w) (run_agent_id r) s st)"

lemma move_run_fields:
  assumes "move_run cf w r f s reason st = Inr (c, st')"
  shows "st_runs st' = map (\<lambda>r'. if run_id r' = run_id r then f r' else r') (st_runs st)"
    and "st_agents st' = (case s of None \<Rightarrow> st_agents st | Some s \<Rightarrow>
      map (\<lambda>a. if ag_id a = run_agent_id r then agent_touch (w_now w) (\<lambda>a. a\<lparr>ag_status := s\<rparr>) a else a) (st_agents st))"
    and "st_delegations st' = st_delegations st" "st_actions st' = st_actions st"
    and "sequences_ok (st_checkpoints st) \<Longrightarrow> sequences_ok (st_checkpoints st')"
proof -
  from lifecycle_checkpoint_Inr [OF assms [unfolded move_run_def Let_def]] obtain cps where
    st': "st' = (case s of None \<Rightarrow> run_update (run_id r) f st
      | Some s \<Rightarrow> set_agent_status (w_now w) (run_agent_id r) s (run_update (run_id r) f st))\<lparr>st_checkpoints := cps\<rparr>"
    and seq: "sequences_ok (st_checkpoints st) \<longrightarrow> sequences_ok cps"
    by (cases s) (auto simp: set_agent_status_def)
  show "st_runs st' = map (\<lambda>r'. if run_id r' = run_id r then f r' else r') (st_runs st)"
    "st_agents st' = (case s of None \<Rightarrow> st_agents st | Some s \<Rightarrow>
      map (\<lambda>a. if ag_id a = run_agent_id r then agent_touch (w_now w) (\<lambda>a. a\<lparr>ag_status := s\<rparr>) a else a) (st_agents st))"
    "st_delegations st' = st_delegations st" "st_actions st' = st_actions st"
    "sequences_ok (st_checkpoints st) \<Longrightarrow> sequences_ok (st_checkpoints st')"
    using st' seq by (cases s; simp add: run_update_def set_agent_status_def agent_update_def row_update_def)+
qed

definition run_move :: "(run \<Rightarrow> run) \<Rightarrow> bool" where
  "run_move f \<longleftrightarrow> (\<forall>r. run_id (f r) = run_id r \<and> run_agent_id (f r) = run_agent_id r)"

lemma run_moveD: "run_move f \<Longrightarrow> run_id (f r) = run_id r" "run_move f \<Longrightarrow> run_agent_id (f r) = run_agent_id r"
  by (simp_all add: run_move_def)

lemma ag_status_touch [simp]: "ag_status (agent_touch now (\<lambda>a. a\<lparr>ag_status := s\<rparr>) a) = s"
  by (auto simp: agent_touch_def dest: arg_cong [where f = ag_status])

lemma move_run_inv:
  assumes inv: "store_inv st" and r: "run_get i st = Some r" and active: "run_active r"
    and move: "move_run cf w r f s reason st = Inr (c, st')" and f: "run_move f"
    and shape: "run_shape r \<Longrightarrow> run_shape (f r)"
    and s: "case s of None \<Rightarrow> run_active (f r) | Some s \<Rightarrow> \<not> run_active (f r) \<and> s \<noteq> AgentRunning"
  shows "store_inv st'"
proof -
  define g where "g = (\<lambda>r'. if run_id r' = run_id r then f r' else r')"
  note fields = move_run_fields [OF move]
  have g: "run_id (g r') = run_id r'" "run_agent_id (g r') = run_agent_id r'" for r'
    using f by (simp_all add: g_def run_moveD)
  from r have rin: "r \<in> set (st_runs st)" "run_id r = i" by (auto dest: run_get_in)
  have eq: "r' = r" if "r' \<in> set (st_runs st)" "run_id r' = run_id r" for r'
    using run_get_unique [OF inv r that(1)] that(2) rin(2) by simp
  have runs: "st_runs st' = map g (st_runs st)" using fields(1) by (simp add: g_def)
  have act: "run_active r'" if "r' \<in> set (st_runs st)" "run_active (g r')" for r'
    using that active eq by (auto simp: g_def split: if_splits)
  have sh: "run_shape (g r')" if "r' \<in> set (st_runs st)" "run_shape r'" for r'
    using that shape eq by (auto simp: g_def)
  have agents: "map ag_id (st_agents st') = map ag_id (st_agents st)"
    unfolding fields(2) by (cases s) auto
  have "status_ok st'"
  proof (cases s)
    case None
    with s have af: "run_active (f r)" by simp
    have "run_active (g r') = run_active r'" if "r' \<in> set (st_runs st)" for r'
      using eq [OF that] active af by (auto simp: g_def)
    then have "has_active a st' \<longleftrightarrow> has_active a st" for a
      by (simp add: has_active_iff runs g cong: bex_cong)
    then show ?thesis using inv None by (simp add: status_ok_def store_inv_def fields(2))
  next
    case (Some s')
    with s have nf: "\<not> run_active (f r)" "s' \<noteq> AgentRunning" by auto
    have ga: "run_active (g r') \<longleftrightarrow> run_active r' \<and> r' \<noteq> r" if "r' \<in> set (st_runs st)" for r'
      using eq [OF that] nf(1) by (auto simp: g_def)
    from inv have one: "one_active (st_runs st)" by (simp add: store_inv_def)
    have "r' = r" if "r' \<in> set (st_runs st)" "run_active r'" "run_agent_id r' = run_agent_id r" for r'
      using one [unfolded one_active_def, rule_format, OF that(1) rin(1)] that active eq by blast
    then have "has_active a st' \<longleftrightarrow> has_active a st \<and> a \<noteq> run_agent_id r" for a
      using ga by (auto simp: has_active_iff runs g)
    then show ?thesis using inv nf(2) by (auto simp: status_ok_def store_inv_def fields(2) Some)
  qed
  from store_inv_change [OF inv runs g act sh agents this fields(3)] fields(5) inv show ?thesis
    by (simp add: store_inv_def)
qed

section \<open>Agents\<close>

lemma store_invD:
  assumes "store_inv st"
  shows "distinct (map ag_id (st_agents st))" "distinct (map run_id (st_runs st))"
    "\<forall>r \<in> set (st_runs st). run_agent_id r \<in> ag_id ` set (st_agents st)" "one_active (st_runs st)"
    "\<forall>r \<in> set (st_runs st). run_shape r" "status_ok st" "delegations_ok st" "sequences_ok (st_checkpoints st)"
  using assms by (simp_all add: store_inv_def)

lemma agent_create_inv:
  assumes inv: "store_inv st" and "agent_create u now name description mref graph st = Inr (a, st')"
  shows "store_inv st'"
proof -
  from assms(2) have st': "st' = st\<lparr>st_agents := st_agents st @ [a]\<rparr>" and new: "ag_id a \<notin> ag_id ` set (st_agents st)"
    and idle: "ag_status a = AgentIdle"
    by (auto simp: agent_create_def Let_def exn_simps row_insert_Inr_iff row_get_None_iff)
  note i = store_invD [OF inv]
  have "\<not> has_active (ag_id a) st" using i(3) new unfolding has_active_iff by (metis imageI)
  moreover have "has_active b st' = has_active b st" for b by (simp add: has_active_iff st')
  ultimately have "status_ok st'" using i(6) idle by (auto simp: status_ok_def st')
  then show ?thesis using i new by (auto simp: store_inv_def st' delegations_ok_def)
qed

lemma update_graph_inv:
  assumes inv: "store_inv st"
  shows "store_inv (update_graph now i graph st)"
proof -
  let ?st = "update_graph now i graph st"
  have ids: "map ag_id (st_agents ?st) = map ag_id (st_agents st)"
    by (auto simp: update_graph_def agent_update_def row_update_def agent_touch_def)
  have "has_active b ?st = has_active b st" for b by (simp add: has_active_iff update_graph_def)
  moreover have "ag_status (agent_touch now (\<lambda>a. a\<lparr>ag_graph := graph\<rparr>) a) = ag_status a" for a
    by (simp add: agent_touch_def)
  ultimately have "status_ok ?st"
    using store_invD(6) [OF inv]
    by (auto simp: status_ok_def update_graph_def agent_update_def row_update_def)
  from store_inv_change [OF inv _ _ _ _ _ ids this, of id] store_invD(8) [OF inv] show ?thesis
    by (simp add: update_graph_def)
qed

lemma agent_delete_inv:
  assumes inv: "store_inv st"
  shows "store_inv (agent_delete i st)"
proof -
  let ?st = "agent_delete i st"
  note d = store_invD [OF inv]
  let ?P = "\<lambda>r. run_agent_id r \<noteq> i"
  have runs: "st_runs ?st = filter ?P (st_runs st)" and agents: "st_agents ?st = filter (\<lambda>a. ag_id a \<noteq> i) (st_agents st)"
    and cps: "st_checkpoints ?st = filter (\<lambda>c. row_get run_id (cp_run_id c) (filter ?P (st_runs st)) \<noteq> None) (st_checkpoints st)"
    and dels: "st_delegations ?st = filter (\<lambda>d. row_get run_id (dg_parent_run_id d) (filter ?P (st_runs st)) \<noteq> None \<and>
       row_get run_id (dg_child_run_id d) (filter ?P (st_runs st)) \<noteq> None) (st_delegations st)"
    by (simp_all add: agent_delete_def Let_def row_delete_def)
  have "has_active b ?st = has_active b st" if "b \<noteq> i" for b
    using that by (auto simp: has_active_iff runs)
  then have "status_ok ?st" using d(6) by (auto simp: status_ok_def agents)
  moreover have "delegations_ok ?st"
    using d(7) unfolding delegations_ok_def dels runs
    by (auto simp: distinct_map_filter row_get_None_iff intro!: precedes_filter [OF _ d(2)])
  moreover have "one_active (st_runs ?st)" using d(4) by (simp add: one_active_def runs)
  moreover have "sequences_ok (st_checkpoints ?st)" unfolding cps using d(8) by (rule sequences_ok_filter)
  ultimately show ?thesis
    using d(1,2,3,5) by (auto simp: store_inv_def runs agents distinct_map_filter)
qed

section \<open>Starting a run\<close>

lemma insert_run_Inr:
  assumes "insert_run cf w a input ctx parent node st = Inr ((r, c), st')" "parent \<noteq> Some (w_uuid4 w 0)"
  shows "agent_get a st \<noteq> None \<and> \<not> has_active a st \<and> run_get (w_uuid4 w 0) st = None \<and>
    (\<exists>spec. r = (new_run (w_uuid4 w 0) (w_now w) a input)\<lparr>run_execution_spec := spec\<rparr>) \<and>
    st_runs st' = st_runs st @ [r] \<and>
    st_agents st' = map (\<lambda>b. if ag_id b = a then agent_touch (w_now w) (\<lambda>a. a\<lparr>ag_status := AgentRunning\<rparr>) b else b) (st_agents st) \<and>
    (st_delegations st' = st_delegations st \<or>
      (\<exists>d. st_delegations st' = st_delegations st @ [d] \<and> dg_child_run_id d = run_id r \<and>
         parent = Some (dg_parent_run_id d) \<and> dg_parent_run_id d \<in> run_id ` set (st_runs st) \<and>
         (\<forall>d' \<in> set (st_delegations st). dg_child_run_id d' \<noteq> run_id r))) \<and>
    (sequences_ok (st_checkpoints st) \<longrightarrow> sequences_ok (st_checkpoints st'))"
proof -
  let ?u = "w_uuid4 w 0" and ?now = "w_now w"
  let ?r0 = "new_run ?u ?now a input"
  let ?st1 = "set_agent_status ?now a AgentRunning (st\<lparr>st_runs := st_runs st @ [?r0]\<rparr>)"
  from assms(1) obtain ag where ag: "agent_get a st = Some ag" "\<not> has_active a st"
    and new: "run_get ?u st = None"
    by (auto simp: insert_run_def exn_simps run_create_Inr split: option.splits if_splits sum.splits)
  then have cr: "run_create ?u ?now a input st = Inr (?r0, st\<lparr>st_runs := st_runs st @ [?r0]\<rparr>)"
    by (simp add: run_create_Inr)
  from assms(1) ag cr obtain c2 st2 st3 where cpt: "initial_checkpoint cf w ?r0 ag ?st1 = Inr (c2, st2)"
    and del: "record_delegation w ctx parent node (run_id ?r0) st2 = Inr st3"
    and res: "st' = st3" "r = the (run_get (run_id ?r0) st3)"
    by (auto simp: insert_run_def exn_simps)
  have u: "run_id ?r0 = ?u" by (simp add: new_run_def)
  have st2: "\<exists>spec cps. st2 = ?st1\<lparr>st_runs := st_runs st @ [?r0\<lparr>run_execution_spec := spec\<rparr>], st_checkpoints := cps\<rparr> \<and>
      (sequences_ok (st_checkpoints st) \<longrightarrow> sequences_ok cps)"
  proof (cases "cf_recovery cf")
    case True
    with cpt obtain c' where "create_initial_checkpoint (cf_host cf) (w_uuid4 w 1) ?now ?r0 ag ?st1 = Inr (c', st2)"
      by (auto simp: initial_checkpoint_def exn_simps)
    then have s: "st2 = (run_update ?u (\<lambda>r. r\<lparr>run_execution_spec := Some (execution_spec_of (cf_host cf) ?r0 ag)\<rparr>) ?st1)
        \<lparr>st_checkpoints := st_checkpoints st @ [c']\<rparr>"
      and c': "cp_run_id c' = ?u" "cp_sequence c' = max_sequence ?u (st_checkpoints st) + 1"
      by (auto simp: create_initial_checkpoint_def create_checkpoint_def checkpoint_create_Inr Let_def
          new_run_def set_agent_status_def)
    have "row_update run_id ?u (\<lambda>r. r\<lparr>run_execution_spec := Some (execution_spec_of (cf_host cf) ?r0 ag)\<rparr>) (st_runs st) = st_runs st"
      using new by (simp add: run_get_def row_update_absent)
    then have "row_update run_id ?u (\<lambda>r. r\<lparr>run_execution_spec := Some (execution_spec_of (cf_host cf) ?r0 ag)\<rparr>)
        (st_runs st @ [?r0]) = st_runs st @ [?r0\<lparr>run_execution_spec := Some (execution_spec_of (cf_host cf) ?r0 ag)\<rparr>]"
      by (simp add: row_update_def new_run_def)
    with s c' show ?thesis
      by (intro exI [of _ "Some (execution_spec_of (cf_host cf) ?r0 ag)"] exI [of _ "st_checkpoints st @ [c']"])
        (simp add: run_update_def set_agent_status_def agent_update_def sequences_ok_snoc)
  next
    case False
    with cpt have "st2 = ?st1" by (simp add: initial_checkpoint_def)
    then show ?thesis
      by (intro exI [of _ None] exI [of _ "st_checkpoints st"])
        (simp only: simp_thms, simp add: new_run_def set_agent_status_def agent_update_def)
  qed
  then obtain spec cps where st2: "st2 = ?st1\<lparr>st_runs := st_runs st @ [?r0\<lparr>run_execution_spec := spec\<rparr>], st_checkpoints := cps\<rparr>"
    and seq: "sequences_ok (st_checkpoints st) \<longrightarrow> sequences_ok cps" by blast
  have runs3: "st_runs st3 = st_runs st2" "st_agents st3 = st_agents st2" "st_checkpoints st3 = st_checkpoints st2"
    and del3: "st_delegations st3 = st_delegations st \<or>
      (\<exists>d p. parent = Some p \<and> st_delegations st3 = st_delegations st @ [d] \<and> dg_child_run_id d = ?u \<and> dg_parent_run_id d = p \<and>
         run_get p st2 \<noteq> None \<and> (\<forall>d' \<in> set (st_delegations st). dg_child_run_id d' \<noteq> ?u))"
    using del st2 unfolding u
    by (auto simp: record_delegation_def set_agent_status_def split: option.splits dest!: delegation_create_Inr)
  have "run_get ?u st3 = Some (?r0\<lparr>run_execution_spec := spec\<rparr>)"
    using new runs3(1) st2 by (simp add: run_get_def new_run_def)
  with res u have r: "r = ?r0\<lparr>run_execution_spec := spec\<rparr>" by simp
  have "dg_parent \<in> run_id ` set (st_runs st)" if "parent = Some dg_parent" "run_get dg_parent st2 \<noteq> None" for dg_parent
  proof (rule ccontr)
    assume "dg_parent \<notin> run_id ` set (st_runs st)"
    then have "row_get run_id dg_parent (st_runs st) = None" by (simp add: row_get_None_iff)
    then have "run_get dg_parent st2 = None" using that(1) assms(2) st2 by (simp add: run_get_def new_run_def)
    with that(2) show False ..
  qed
  with del3 r have del4: "st_delegations st3 = st_delegations st \<or>
      (\<exists>d. st_delegations st3 = st_delegations st @ [d] \<and> dg_child_run_id d = run_id r \<and>
         parent = Some (dg_parent_run_id d) \<and> dg_parent_run_id d \<in> run_id ` set (st_runs st) \<and>
         (\<forall>d' \<in> set (st_delegations st). dg_child_run_id d' \<noteq> run_id r))"
    by (auto simp: new_run_def)
  have "st_runs st' = st_runs st @ [r]" using runs3(1) res(1) st2 r by simp
  moreover have "st_agents st' =
      map (\<lambda>b. if ag_id b = a then agent_touch (w_now w) (\<lambda>a. a\<lparr>ag_status := AgentRunning\<rparr>) b else b) (st_agents st)"
    using runs3(2) res(1) st2 by (simp add: set_agent_status_def agent_update_def row_update_def)
  moreover have "sequences_ok (st_checkpoints st) \<longrightarrow> sequences_ok (st_checkpoints st')"
    using runs3(3) res(1) st2 seq by simp
  moreover have "\<exists>spec. r = ?r0\<lparr>run_execution_spec := spec\<rparr>" using r by blast
  moreover have "agent_get a st \<noteq> None" using ag(1) by simp
  ultimately show ?thesis using ag(2) new del4 [folded res(1)] by blast
qed

lemma insert_run_inv:
  assumes inv: "store_inv st" and "insert_run cf w a input ctx parent node st = Inr ((r, c), st')"
    and "parent \<noteq> Some (w_uuid4 w 0)"
  shows "store_inv st'"
proof -
  note i = store_invD [OF inv]
  from insert_run_Inr [OF assms(2,3)] obtain spec where
    ag: "agent_get a st \<noteq> None" and na: "\<not> has_active a st" and new: "run_get (w_uuid4 w 0) st = None"
    and r: "r = (new_run (w_uuid4 w 0) (w_now w) a input)\<lparr>run_execution_spec := spec\<rparr>"
    and runs: "st_runs st' = st_runs st @ [r]"
    and agents: "st_agents st' = map (\<lambda>b. if ag_id b = a then agent_touch (w_now w) (\<lambda>a. a\<lparr>ag_status := AgentRunning\<rparr>) b else b) (st_agents st)"
    and dels: "st_delegations st' = st_delegations st \<or>
      (\<exists>d. st_delegations st' = st_delegations st @ [d] \<and> dg_child_run_id d = run_id r \<and>
         dg_parent_run_id d \<in> run_id ` set (st_runs st) \<and>
         (\<forall>d' \<in> set (st_delegations st). dg_child_run_id d' \<noteq> run_id r))"
    and seq: "sequences_ok (st_checkpoints st) \<longrightarrow> sequences_ok (st_checkpoints st')" by blast
  have rf: "run_agent_id r = a" "run_active r" "run_shape r" "run_id r = w_uuid4 w 0"
    by (simp_all add: r new_run_def run_active_def run_shape_def TERMINAL_RUN_STATUSES_def)
  have ids: "map ag_id (st_agents st') = map ag_id (st_agents st)" by (auto simp: agents)
  then have idset: "ag_id ` set (st_agents st') = ag_id ` set (st_agents st)" by (metis set_map)
  have act: "has_active b st' \<longleftrightarrow> has_active b st \<or> b = a" for b
    using rf by (auto simp: has_active_iff runs)
  have "\<not> run_active r'" if "r' \<in> set (st_runs st)" "run_agent_id r' = a" for r'
    using na that by (auto simp: has_active_iff)
  then have "one_active (st_runs st')"
    using i(4) rf unfolding one_active_def runs by fastforce
  moreover have "status_ok st'" using i(6) by (auto simp: status_ok_def agents act)
  moreover have "delegations_ok st'"
    using dels
  proof
    assume "st_delegations st' = st_delegations st"
    then show ?thesis using i(7) by (simp add: delegations_ok_def runs precedes_append)
  next
    assume "\<exists>d. st_delegations st' = st_delegations st @ [d] \<and> dg_child_run_id d = run_id r \<and>
         dg_parent_run_id d \<in> run_id ` set (st_runs st) \<and>
         (\<forall>d' \<in> set (st_delegations st). dg_child_run_id d' \<noteq> run_id r)"
    then obtain d where d: "st_delegations st' = st_delegations st @ [d]" "dg_child_run_id d = run_id r"
      "dg_parent_run_id d \<in> run_id ` set (st_runs st)"
      "\<forall>d' \<in> set (st_delegations st). dg_child_run_id d' \<noteq> run_id r" by blast
    from d(4) have "run_id r \<notin> dg_child_run_id ` set (st_delegations st)" by force
    moreover have "precedes (dg_parent_run_id d) (dg_child_run_id d) (st_runs st @ [r])"
      unfolding d(2) using d(3) by (rule precedes_snoc)
    ultimately show ?thesis using i(7) d(1,2) by (simp add: delegations_ok_def runs precedes_append)
  qed
  moreover have "a \<in> ag_id ` set (st_agents st)" using ag by (auto simp: agent_get_def row_get_None_iff)
  moreover have "distinct (map run_id (st_runs st'))"
    using i(2) new rf(4) by (auto simp: runs run_get_def row_get_None_iff)
  ultimately show ?thesis
    using i(1,3,5,8) seq ids idset rf by (simp add: store_inv_def runs)
qed

section \<open>Recovery\<close>

lemma recover_runs_sequences:
  "recover_runs h us n now rs st = Inr (recovered, st') \<Longrightarrow> sequences_ok (st_checkpoints st) \<Longrightarrow>
   sequences_ok (st_checkpoints st')"
proof (induction rs arbitrary: n st recovered)
  case (Cons r rs)
  from Cons.prems(1) obtain outcome cp st1 rest where
    one: "recover_run h (us n) (us (n + 1)) now r st = Inr ((outcome, cp), st1)" and
    more: "recover_runs h us (n + 2) now rs st1 = Inr (rest, st')"
    by (auto simp: exn_simps)
  from recover_run_Inr [OF one] one have "st_checkpoints st1 = st_checkpoints st @ [cp]"
    "cp_sequence cp = max_sequence (cp_run_id cp) (st_checkpoints st) + 1"
    by (auto simp: recover_run_def exn_simps decision_create_Inr create_lifecycle_checkpoint_def
        create_checkpoint_def checkpoint_create_Inr set_agent_status_def Let_def split: prod.splits)
  with Cons.prems(2) have "sequences_ok (st_checkpoints st1)" by (simp add: sequences_ok_snoc)
  with Cons.IH [OF more] show ?case by blast
qed simp

definition all_stopped :: "time \<Rightarrow> store \<Rightarrow> store \<Rightarrow> bool" where
  "all_stopped now st st' \<longleftrightarrow>
     st_runs st' = map (\<lambda>r. if run_active r then interrupted now r else r) (st_runs st) \<and>
     st_agents st' = map (\<lambda>a. if has_active (ag_id a) st then fail_agent now a else a) (st_agents st) \<and>
     st_delegations st' = st_delegations st"

lemma interrupted_inactive [simp]: "\<not> run_active (interrupted now r)"
  by (simp add: interrupted_def run_active_def)

lemma all_stopped_inv:
  assumes inv: "store_inv st" and st: "all_stopped now st st'" and seq: "sequences_ok (st_checkpoints st')"
  shows "store_inv st'"
proof -
  let ?g = "\<lambda>r. if run_active r then interrupted now r else r"
  have runs: "st_runs st' = map ?g (st_runs st)" and dels: "st_delegations st' = st_delegations st"
    and agents: "st_agents st' = map (\<lambda>a. if has_active (ag_id a) st then fail_agent now a else a) (st_agents st)"
    using st by (simp_all add: all_stopped_def)
  have "\<not> has_active a st'" for a by (auto simp: has_active_iff runs)
  then have "status_ok st'"
    using store_invD(6) [OF inv] by (auto simp: status_ok_def agents)
  moreover have "map ag_id (st_agents st') = map ag_id (st_agents st)" by (auto simp: agents)
  moreover have "run_shape (?g r)" if "run_shape r" for r
    using that by (auto simp: run_shape_def interrupted_def run_active_def TERMINAL_RUN_STATUSES_def)
  ultimately show ?thesis
    by (intro store_inv_change [OF inv runs _ _ _ _ _ _ dels seq]) (auto simp: interrupted_def split: if_splits)
qed

end
