(* ===== verification/Manager_Steps.thy ===== *)
theory Manager_Steps
  imports Manager_Inv
begin

text \<open>
  The manager as a transition system. Its atomic operations, with any arguments and any world, are
  the steps; the operations made of several of them (running a task, stopping a run with its
  descendants, shutting down, running a child) are sequences of steps, so that the invariant of the
  lifecycle tables holds after, and between, all of them.
\<close>

section \<open>Steps\<close>

datatype mg_op =
    OpCreateAgent string "string option" string pydict
  | OpUpdateGraph uuid pydict
  | OpDeleteAgent uuid
  | OpStart uuid string "delegation_context option" "uuid option" "string option"
  | OpMarkRunning uuid
  | OpSucceed uuid model_response
  | OpCancel uuid
  | OpFail uuid string
  | OpRecover
  | OpBegin uuid
  | OpEnd uuid

fun mg_do :: "config \<Rightarrow> world \<Rightarrow> mg_op \<Rightarrow> manager \<Rightarrow> manager" where
  "mg_do cf w (OpCreateAgent n d r g) m = snd (create_agent cf w n d r g m)"
| "mg_do cf w (OpUpdateGraph i g) m = snd (update_agent_graph cf w i g m)"
| "mg_do cf w (OpDeleteAgent i) m = snd (delete_agent cf i m)"
| "mg_do cf w (OpStart a s c p n) m = snd (start_run_as cf w a s c p n m)"
| "mg_do cf w (OpMarkRunning i) m = snd (mark_running cf w i m)"
| "mg_do cf w (OpSucceed i r) m = snd (finish_succeeded cf w i r m)"
| "mg_do cf w (OpCancel i) m = snd (finish_cancelled cf w i m)"
| "mg_do cf w (OpFail i e) m = snd (finish_failed cf w i e m)"
| "mg_do cf w OpRecover m = snd (recover cf w m)"
| "mg_do cf w (OpBegin i) m = snd (begin_task i m)"
| "mg_do cf w (OpEnd i) m = snd (end_task i m)"

fun op_allowed :: "world \<Rightarrow> mg_op \<Rightarrow> bool" where
  \<comment> \<open>the id drawn for a child is not that of its parent\<close>
  "op_allowed w (OpStart a s c p n) = (p \<noteq> Some (w_uuid4 w 0))"
| "op_allowed w _ = True"

inductive mg_step :: "config \<Rightarrow> manager \<Rightarrow> manager \<Rightarrow> bool" for cf where
  step: "op_allowed w x \<Longrightarrow> mg_step cf m (mg_do cf w x m)"
| silent_step: "op_allowed w x \<Longrightarrow> mg_step cf m (mg_do (unpublished cf) w x m)"
    \<comment> \<open>the transaction has taken effect, but its task was cancelled in the commit and published nothing\<close>

inductive_cases mg_stepE: "mg_step cf m m'"

definition new_manager :: "nat \<Rightarrow> manager" where
  "new_manager history = \<lparr>mg_store = empty_store, mg_registry = [], mg_contexts = Map.empty, mg_bus = new_bus history\<rparr>"

definition reachable :: "config \<Rightarrow> manager \<Rightarrow> bool" where
  "reachable cf m \<longleftrightarrow> (\<exists>history. (mg_step cf)\<^sup>*\<^sup>* (new_manager history) m)"

section \<open>What a step does to the store\<close>

lemma emit_store [simp]: "mg_store (snd (emit cf es m)) = mg_store m"
  by (simp add: emit_def)

lemma emit_Inr [simp]: "fst (emit cf es m) = Inr ()"
  by (simp add: emit_def)

lemma transact_store: "mg_store (snd (transact f m)) = (case f (mg_store m) of Inl e \<Rightarrow> mg_store m | Inr (x, st) \<Rightarrow> st)"
  by (simp add: transact_def split: sum.split)

lemma op_bind_store:
  "(\<And>x m'. mg_store (snd (f x m')) = mg_store m') \<Longrightarrow> mg_store (snd (op_bind p f m)) = mg_store (snd (p m))"
  by (simp add: op_bind_snd split: sum.split)

lemma begin_end_store [simp]:
  "mg_store (snd (begin_task i m)) = mg_store m" "mg_store (snd (end_task i m)) = mg_store m"
  by (simp_all add: begin_task_def end_task_def)

definition moved :: "config \<Rightarrow> world \<Rightarrow> uuid \<Rightarrow> (run \<Rightarrow> run) \<Rightarrow> agent_status option \<Rightarrow> string \<Rightarrow> store \<Rightarrow> store \<Rightarrow> bool" where
  "moved cf w i f s reason st st' \<longleftrightarrow> st' = st \<or>
     (\<exists>r c. run_get i st = Some r \<and> run_active r \<and> move_run cf w r f s reason st = Inr (c, st'))"

lemma finish_run_moved:
  "moved cf w i f (Some s) reason (mg_store m) (mg_store (snd (finish_run cf w i f s reason ty p pl sev m)))"
proof (cases "run_get i (mg_store m)")
  case None
  then show ?thesis by (simp add: finish_run_def moved_def)
next
  case (Some r)
  then have id: "run_id r = i" by (auto dest: run_get_in)
  show ?thesis
  proof (cases "run_status r \<in> TERMINAL_RUN_STATUSES")
    case True
    with Some show ?thesis by (simp add: finish_run_def moved_def)
  next
    case False
    then have act: "run_active r" by (simp add: run_active_iff active_iff_not_terminal)
    have "mg_store (snd (finish_run cf w i f s reason ty p pl sev m)) =
        (case move_run cf w r f (Some s) reason (mg_store m) of Inl e \<Rightarrow> mg_store m | Inr (x, st) \<Rightarrow> st)"
      using Some False id by (simp add: finish_run_def op_bind_store transact_store move_run_def)
    then show ?thesis using Some act by (auto simp: moved_def split: sum.split)
  qed
qed

lemma mark_running_moved:
  "moved cf w i (\<lambda>r. r\<lparr>run_status := Running, run_started_at := Some (w_now w)\<rparr>) None ''running'' (mg_store m)
     (mg_store (snd (mark_running cf w i m)))"
proof (cases "run_get i (mg_store m)")
  case None
  then show ?thesis by (simp add: mark_running_def moved_def op_bind_snd transact_def)
next
  case (Some r)
  then have id: "run_id r = i" by (auto dest: run_get_in)
  let ?f = "\<lambda>r. r\<lparr>run_status := Running, run_started_at := Some (w_now w)\<rparr>"
  have "mg_store (snd (mark_running cf w i m)) = (if \<not> run_active r then mg_store m else
      (case move_run cf w r ?f None ''running'' (mg_store m) of Inl e \<Rightarrow> mg_store m | Inr (x, st) \<Rightarrow> st))"
    using Some id
    by (simp add: mark_running_def op_bind_store op_return_def transact_store move_run_def Let_def
        ebind_def split: sum.split prod.split)
  with Some show ?thesis by (auto simp: moved_def split: sum.split)
qed

lemma plain_recover:
  "st_runs (fold (\<lambda>r st. set_agent_status now (run_agent_id r) AgentError (run_update (run_id r) (interrupted now) st)) rs st) =
     map (\<lambda>r. if run_id r \<in> run_id ` set rs then interrupted now r else r) (st_runs st) \<and>
   st_agents (fold (\<lambda>r st. set_agent_status now (run_agent_id r) AgentError (run_update (run_id r) (interrupted now) st)) rs st) =
     map (\<lambda>a. if ag_id a \<in> run_agent_id ` set rs then fail_agent now a else a) (st_agents st) \<and>
   st_delegations (fold (\<lambda>r st. set_agent_status now (run_agent_id r) AgentError (run_update (run_id r) (interrupted now) st)) rs st) =
     st_delegations st \<and>
   st_checkpoints (fold (\<lambda>r st. set_agent_status now (run_agent_id r) AgentError (run_update (run_id r) (interrupted now) st)) rs st) =
     st_checkpoints st"
proof (induction rs arbitrary: st)
  case (Cons r rs)
  then show ?case
    by (auto simp: set_agent_status_def agent_update_def run_update_def row_update_def)
qed simp

lemma recover_store:
  assumes "store_inv (mg_store m)"
  shows "mg_store (snd (recover cf w m)) = mg_store m \<or>
    all_stopped (w_now w) (mg_store m) (mg_store (snd (recover cf w m))) \<and>
    sequences_ok (st_checkpoints (mg_store (snd (recover cf w m))))"
proof (cases "cf_recovery cf")
  case True
  let ?res = "recover_stale_runs (cf_host cf) w (cf_project cf) (mg_store m)"
  have st: "mg_store (snd (recover cf w m)) = (case ?res of Inl e \<Rightarrow> mg_store m | Inr (x, st) \<Rightarrow> st)"
    using True by (simp add: recover_def op_bind_store transact_store)
  show ?thesis
  proof (cases ?res)
    case (Inl e)
    with st show ?thesis by simp
  next
    case (Inr y)
    then obtain evs st' where res: "?res = Inr (evs, st')" by (cases y) auto
    from res obtain recovered where "recover_runs (cf_host cf) (w_uuid4 w) 0 (w_now w) (list_stale (mg_store m)) (mg_store m) = Inr (recovered, st')"
      by (auto simp: recover_stale_runs_def exn_simps)
    from recover_runs_sequences [OF this store_invD(8) [OF assms]]
      recover_stale_runs_effect [OF res store_invD(2) [OF assms]] res st show ?thesis
      by (simp add: all_stopped_def kept_tables_def)
  qed
next
  case False
  let ?st = "mg_store m"
  have "mg_store (snd (recover cf w m)) = fold (\<lambda>r st. set_agent_status (w_now w) (run_agent_id r) AgentError
      (run_update (run_id r) (interrupted (w_now w)) st)) (list_stale ?st) ?st"
    using False by (simp add: recover_def transact_store)
  note eff = plain_recover [of "w_now w" "list_stale ?st" ?st, folded this]
  have "run_id r \<in> run_id ` set (list_stale ?st) \<longleftrightarrow> run_active r" if "r \<in> set (st_runs ?st)" for r
    using list_stale_ids [OF store_invD(2) [OF assms] that] .
  moreover have "a \<in> run_agent_id ` set (list_stale ?st) \<longleftrightarrow> has_active a ?st" for a
    by (auto simp: list_stale_def has_active_iff)
  ultimately show ?thesis using eff store_invD(8) [OF assms] by (simp add: all_stopped_def)
qed

section \<open>The invariant holds in every reachable state\<close>

lemma moved_inv:
  assumes "store_inv st" "moved cf w i f s reason st st'" "run_move f"
    and "\<And>r. run_shape r \<Longrightarrow> run_active r \<Longrightarrow> run_shape (f r)"
    and "\<And>r. case s of None \<Rightarrow> run_active (f r) | Some s \<Rightarrow> \<not> run_active (f r) \<and> s \<noteq> AgentRunning"
  shows "store_inv st'"
  using assms(2) unfolding moved_def
proof
  assume "\<exists>r c. run_get i st = Some r \<and> run_active r \<and> move_run cf w r f s reason st = Inr (c, st')"
  then obtain r c where r: "run_get i st = Some r" "run_active r" and mv: "move_run cf w r f s reason st = Inr (c, st')"
    by blast
  show ?thesis by (rule move_run_inv [OF assms(1) r mv assms(3) assms(4) [OF _ r(2)] assms(5)])
qed (use assms(1) in simp)

lemma run_moves [simp]:
  "run_move (succeeded now resp)" "run_move (cancelled now)" "run_move (failed now e)"
  "run_move (\<lambda>r. r\<lparr>run_status := Running, run_started_at := t\<rparr>)"
  by (simp_all add: run_move_def succeeded_def cancelled_def failed_def)

lemmas finish_defs = finish_succeeded_def finish_cancelled_def finish_failed_def

lemma finish_shapes:
  "run_shape r \<Longrightarrow> run_active r \<Longrightarrow> run_shape (succeeded now resp r)"
  "run_shape r \<Longrightarrow> run_active r \<Longrightarrow> run_shape (cancelled now r)"
  "run_shape r \<Longrightarrow> run_active r \<Longrightarrow> run_shape (failed now e r)"
  "run_shape r \<Longrightarrow> run_active r \<Longrightarrow> run_shape (r\<lparr>run_status := Running, run_started_at := Some now\<rparr>)"
  by (auto simp: run_shape_def run_active_def succeeded_def cancelled_def failed_def TERMINAL_RUN_STATUSES_def)

lemma finish_inactive [simp]:
  "\<not> run_active (succeeded now resp r)" "\<not> run_active (cancelled now r)" "\<not> run_active (failed now e r)"
  by (simp_all add: run_active_def succeeded_def cancelled_def failed_def)

lemma finish_inv:
  assumes "store_inv (mg_store m)"
  shows "store_inv (mg_store (snd (finish_succeeded cf w i resp m)))"
    "store_inv (mg_store (snd (finish_cancelled cf w i m)))"
    "store_inv (mg_store (snd (finish_failed cf w i e m)))"
  unfolding finish_defs
  by (rule moved_inv [OF assms finish_run_moved]; simp add: finish_shapes)+

lemma mg_do_inv:
  assumes inv: "store_inv (mg_store m)" and ok: "op_allowed w x"
  shows "store_inv (mg_store (mg_do cf w x m))"
proof (cases x)
  case (OpCreateAgent n d r g)
  then show ?thesis
    using inv by (auto simp: create_agent_def transact_store exn_simps split: sum.split dest: agent_create_inv)
next
  case (OpUpdateGraph i g)
  then show ?thesis
    using inv by (auto simp: update_agent_graph_def transact_store exn_simps update_graph_inv split: sum.split option.splits)
next
  case (OpDeleteAgent i)
  then show ?thesis
    using inv by (auto simp: delete_agent_def transact_store agent_delete_inv split: sum.split option.splits if_splits)
next
  case (OpStart a s c p n)
  then show ?thesis
    using inv ok by (auto simp: start_run_as_def op_bind_store op_return_def transact_store Let_def
        split: sum.split prod.split dest: insert_run_inv)
next
  case (OpMarkRunning i)
  then show ?thesis
    using moved_inv [OF inv mark_running_moved] by (simp add: finish_shapes run_active_def)
next
  case OpRecover
  then show ?thesis using recover_store [OF inv, of cf w] all_stopped_inv [OF inv] inv by auto
qed (use inv finish_inv in simp_all)

lemma steps_inv: "(mg_step cf)\<^sup>*\<^sup>* m m' \<Longrightarrow> store_inv (mg_store m) \<Longrightarrow> store_inv (mg_store m')"
  by (induction rule: rtranclp_induct) (auto elim!: mg_stepE intro: mg_do_inv)

lemma reachable_inv: "reachable cf m \<Longrightarrow> store_inv (mg_store m)"
  using steps_inv store_inv_empty by (fastforce simp: reachable_def new_manager_def)

section \<open>Finished runs stay as they are\<close>

definition terminal :: "run \<Rightarrow> bool" where
  "terminal r \<longleftrightarrow> run_status r \<in> TERMINAL_RUN_STATUSES"

definition settled :: "store \<Rightarrow> store \<Rightarrow> bool" where
  \<comment> \<open>a finished run that is still there is unchanged; any other keeps its agent and its input, and moves forward\<close>
  "settled st st' \<longleftrightarrow> (\<forall>i r r'. run_get i st = Some r \<and> run_get i st' = Some r' \<longrightarrow>
     (terminal r \<longrightarrow> r' = r) \<and> run_agent_id r' = run_agent_id r \<and> run_input_text r' = run_input_text r \<and>
     (run_status r' = Queued \<longrightarrow> run_status r = Queued))"

lemma terminal_not_active: "terminal r \<longleftrightarrow> \<not> run_active r"
  by (simp add: terminal_def run_active_iff active_iff_not_terminal)

lemma settled_refl: "settled st st"
  by (auto simp: settled_def)

lemma settled_runs: "st_runs st' = st_runs st \<Longrightarrow> settled st st'"
  by (auto simp: settled_def run_get_def)

lemma settled_append: "st_runs st' = st_runs st @ rs \<Longrightarrow> settled st st'"
  by (auto simp: settled_def run_get_def)

lemma row_get_map: "(\<And>r. key (g r) = key r) \<Longrightarrow> row_get key k (map g t) = map_option g (row_get key k t)"
  by (induction t) auto

lemma settled_map:
  assumes "st_runs st' = map g (st_runs st)" "\<And>r. run_id (g r) = run_id r" "\<And>r. run_agent_id (g r) = run_agent_id r"
    and "\<And>r. run_input_text (g r) = run_input_text r" "\<And>r. run_status (g r) = Queued \<Longrightarrow> run_status r = Queued"
    and "\<And>r. r \<in> set (st_runs st) \<Longrightarrow> terminal r \<Longrightarrow> g r = r"
  shows "settled st st'"
  unfolding settled_def
proof (intro allI impI)
  fix i r r'
  assume h: "run_get i st = Some r \<and> run_get i st' = Some r'"
  then have "r' = g r" by (auto simp: run_get_def assms(1) row_get_map [of run_id g, OF assms(2)])
  moreover from h have "r \<in> set (st_runs st)" by (auto dest: run_get_in)
  ultimately show "(terminal r \<longrightarrow> r' = r) \<and> run_agent_id r' = run_agent_id r \<and>
      run_input_text r' = run_input_text r \<and> (run_status r' = Queued \<longrightarrow> run_status r = Queued)"
    using assms(3) [of r] assms(4) [of r] assms(5) [of r] assms(6) [of r] by blast
qed

lemma settled_delete: "store_inv st \<Longrightarrow> settled st (agent_delete i st)"
  using row_get_filter [OF store_invD(2)]
  by (fastforce simp: settled_def run_get_def agent_delete_def Let_def)

lemma moved_settled:
  assumes "store_inv st" "moved cf w i f s reason st st'" "run_move f"
    and "\<And>r. run_input_text (f r) = run_input_text r" "\<And>r. run_status (f r) \<noteq> Queued"
  shows "settled st st'"
  using assms(2) unfolding moved_def
proof
  assume "\<exists>r c. run_get i st = Some r \<and> run_active r \<and> move_run cf w r f s reason st = Inr (c, st')"
  then obtain r c where r: "run_get i st = Some r" "run_active r" and mv: "move_run cf w r f s reason st = Inr (c, st')"
    by blast
  then have id: "run_id r = i" by (auto dest: run_get_in)
  show ?thesis
  proof (rule settled_map [OF move_run_fields(1) [OF mv]])
    fix r'
    assume "r' \<in> set (st_runs st)" "terminal r'"
    then show "(if run_id r' = run_id r then f r' else r') = r'"
      using run_get_unique [OF assms(1) r(1), of r'] r(2) id by (auto simp: terminal_not_active)
  qed (use assms(3-5) in \<open>auto simp: run_moveD split: if_splits\<close>)
qed (simp add: settled_refl)

lemma finish_fields [simp]:
  "run_input_text (succeeded now resp r) = run_input_text r" "run_status (succeeded now resp r) = Succeeded"
  "run_input_text (cancelled now r) = run_input_text r" "run_status (cancelled now r) = Cancelled"
  "run_input_text (failed now e r) = run_input_text r" "run_status (failed now e r) = Failed"
  by (simp_all add: succeeded_def cancelled_def failed_def)

lemma finish_settled:
  assumes "store_inv (mg_store m)"
  shows "settled (mg_store m) (mg_store (snd (finish_succeeded cf w i resp m)))"
    "settled (mg_store m) (mg_store (snd (finish_cancelled cf w i m)))"
    "settled (mg_store m) (mg_store (snd (finish_failed cf w i e m)))"
  unfolding finish_defs
  by (rule moved_settled [OF assms finish_run_moved]; simp)+

lemma all_stopped_settled: "all_stopped now st st' \<Longrightarrow> settled st st'"
  by (rule settled_map [of st' "\<lambda>r. if run_active r then interrupted now r else r"])
    (auto simp: all_stopped_def interrupted_def terminal_not_active split: if_splits)

lemma mg_do_settled:
  assumes inv: "store_inv (mg_store m)" and ok: "op_allowed w x"
  shows "settled (mg_store m) (mg_store (mg_do cf w x m))"
proof (cases x)
  case (OpCreateAgent n d r g)
  then show ?thesis
    by (auto simp: create_agent_def transact_store exn_simps agent_create_def Let_def settled_refl
        split: sum.split intro!: settled_runs)
next
  case (OpUpdateGraph i g)
  then show ?thesis
    by (auto simp: update_agent_graph_def transact_store exn_simps update_graph_def settled_refl
        split: sum.split option.splits intro!: settled_runs)
next
  case (OpDeleteAgent i)
  then show ?thesis
    using inv by (auto simp: delete_agent_def transact_store settled_delete settled_refl split: sum.split option.splits if_splits)
next
  case (OpStart a s c p n)
  then show ?thesis
    using ok by (auto simp: start_run_as_def op_bind_store op_return_def transact_store Let_def settled_refl
        split: sum.split prod.split dest!: insert_run_Inr intro: settled_append)
next
  case (OpMarkRunning i)
  then show ?thesis using moved_settled [OF inv mark_running_moved] by simp
next
  case OpRecover
  then show ?thesis using recover_store [OF inv, of cf w] all_stopped_settled settled_refl by auto
qed (use inv finish_settled settled_refl in simp_all)

text \<open>The statuses a run can go through are a status machine.\<close>

definition status_moves :: "run_status \<Rightarrow> run_status \<Rightarrow> bool" where
  "status_moves s t \<longleftrightarrow> (\<exists>cf m m' i r r'. reachable cf m \<and> mg_step cf m m' \<and> run_get i (mg_store m) = Some r \<and>
     run_get i (mg_store m') = Some r' \<and> run_status r = s \<and> run_status r' = t)"

lemma step_settled: "reachable cf m \<Longrightarrow> mg_step cf m m' \<Longrightarrow> settled (mg_store m) (mg_store m')"
  by (auto elim!: mg_stepE intro: mg_do_settled reachable_inv)

interpretation run_life: status_machine status_moves "\<lambda>s. s \<in> TERMINAL_RUN_STATUSES"
proof
  fix s t
  assume "s \<in> TERMINAL_RUN_STATUSES" "status_moves s t"
  then obtain cf m m' i r r' where "reachable cf m" "mg_step cf m m'" "run_get i (mg_store m) = Some r"
    "run_get i (mg_store m') = Some r'" "run_status r = s" "run_status r' = t"
    unfolding status_moves_def by blast
  with step_settled [of cf m m'] \<open>s \<in> TERMINAL_RUN_STATUSES\<close> show "t = s"
    by (auto simp: settled_def terminal_def)
qed

section \<open>Operations made of several steps\<close>

definition op_steps :: "config \<Rightarrow> 'a op \<Rightarrow> bool" where
  "op_steps cf p \<longleftrightarrow> (\<forall>m. (mg_step cf)\<^sup>*\<^sup>* m (snd (p m)))"

named_theorems op_steps_intros \<open>operations that are sequences of steps\<close>

lemma op_stepsI [intro]: "(\<And>m. (mg_step cf)\<^sup>*\<^sup>* m (snd (p m))) \<Longrightarrow> op_steps cf p"
  by (simp add: op_steps_def)

lemma op_stepsD: "op_steps cf p \<Longrightarrow> (mg_step cf)\<^sup>*\<^sup>* m (snd (p m))"
  by (simp add: op_steps_def)

lemma op_steps_same [op_steps_intros]: "op_steps cf (op_return x)" "op_steps cf (op_raise e)" "op_steps cf (query f)"
  "op_steps cf (get_run i)" "op_steps cf (get_agent a)"
  by (auto simp: op_steps_def op_return_def op_raise_def query_def get_run_def get_agent_def)

lemma op_steps_bind [op_steps_intros]:
  assumes "op_steps cf p" "\<And>x. op_steps cf (f x)"
  shows "op_steps cf (op_bind p f)"
proof
  fix m
  show "(mg_step cf)\<^sup>*\<^sup>* m (snd (op_bind p f m))"
  proof (cases "fst (p m)")
    case (Inl e)
    then show ?thesis using op_stepsD [OF assms(1)] by (simp add: op_bind_snd)
  next
    case (Inr x)
    then show ?thesis
      using rtranclp_trans [OF op_stepsD [OF assms(1)] op_stepsD [OF assms(2)]] by (simp add: op_bind_snd)
  qed
qed

lemma one_step: "op_allowed w x \<Longrightarrow> (mg_step cf)\<^sup>*\<^sup>* m (mg_do cf w x m)"
  by (intro r_into_rtranclp mg_step.step)

lemma one_silent_step: "op_allowed w x \<Longrightarrow> (mg_step cf)\<^sup>*\<^sup>* m (mg_do (unpublished cf) w x m)"
  by (intro r_into_rtranclp mg_step.silent_step)

lemma op_steps_silent [op_steps_intros]:
  "op_steps cf (mark_running (unpublished cf) w i)" "op_steps cf (finish_succeeded (unpublished cf) w i resp)"
  "op_steps cf (finish_cancelled (unpublished cf) w i)" "op_steps cf (finish_failed (unpublished cf) w i e)"
  using one_silent_step [of w "OpMarkRunning i" cf] one_silent_step [of w "OpSucceed i resp" cf]
    one_silent_step [of w "OpCancel i" cf] one_silent_step [of w "OpFail i e" cf]
  by (auto simp: op_steps_def)

lemma op_steps_atomic [op_steps_intros]:
  "op_steps cf (mark_running cf w i)" "op_steps cf (finish_succeeded cf w i resp)"
  "op_steps cf (finish_cancelled cf w i)" "op_steps cf (finish_failed cf w i e)"
  "op_steps cf (begin_task i)" "op_steps cf (end_task i)"
  "p \<noteq> Some (w_uuid4 w 0) \<Longrightarrow> op_steps cf (start_run_as cf w a s c p n)"
  using one_step [of w "OpMarkRunning i" cf] one_step [of w "OpSucceed i resp" cf] one_step [of w "OpCancel i" cf]
    one_step [of w "OpFail i e" cf] one_step [of w "OpBegin i" cf] one_step [of w "OpEnd i" cf]
    one_step [of w "OpStart a s c p n" cf]
  by (auto simp: op_steps_def)

lemma op_steps_state [op_steps_intros]: "(\<And>m. op_steps cf (p m)) \<Longrightarrow> op_steps cf (with_state p)"
  by (simp add: op_steps_def with_state_def)

lemma catch_conflict_snd: "snd (catch_conflict p m) = snd (p m)"
  by (auto simp: catch_conflict_def split: prod.split sum.split exn.split)

lemma op_steps_catch [op_steps_intros]: "op_steps cf p \<Longrightarrow> op_steps cf (catch_conflict p)"
  by (simp add: op_steps_def catch_conflict_snd)

lemma op_steps_cut [op_steps_intros]:
  assumes "op_steps cf (p cf)" "op_steps cf (p (unpublished cf))"
  shows "op_steps cf (cut_short cf c p)"
proof
  fix m
  have raise: "(mg_step cf)\<^sup>*\<^sup>* m (snd (op_bind (p cf') (\<lambda>_. op_raise CancelledError) m))" if "op_steps cf (p cf')" for cf'
    by (rule op_stepsD [OF op_steps_bind [OF that op_steps_same(2)]])
  show "(mg_step cf)\<^sup>*\<^sup>* m (snd (cut_short cf c p m))"
    using raise [OF assms(1)] raise [OF assms(2)] op_stepsD [OF assms(1)]
    by (auto simp: cut_short_def split: option.split cut.split)
qed

lemma conclude_run_steps [op_steps_intros]: "op_steps cf (conclude_run cf env i result)"
  by (auto simp: conclude_run_def intro!: op_steps_intros split: sum.split exn.split)

lemma leave_task_steps [op_steps_intros]: "op_steps cf (leave_task cf env i result)"
proof
  fix m
  have "(mg_step cf)\<^sup>*\<^sup>* m (snd (conclude_run cf env i result m))" by (rule op_stepsD [OF conclude_run_steps])
  also have "(mg_step cf)\<^sup>*\<^sup>* \<dots> (snd (end_task i \<dots>))" by (rule op_stepsD [OF op_steps_atomic(6)])
  finally show "(mg_step cf)\<^sup>*\<^sup>* m (snd (leave_task cf env i result m))"
    by (simp add: leave_task_def case_prod_beta)
qed

lemma task_ends_steps [op_steps_intros]: "op_steps cf (task_ends cf env i)"
  using op_stepsD [OF leave_task_steps] by (auto simp: op_steps_def task_ends_def)

lemma cancel_task_steps [op_steps_intros]: "op_steps cf (cancel_task cf env i)"
  using op_stepsD [OF op_steps_bind [OF task_ends_steps op_steps_same(1)]]
  by (auto simp: op_steps_def cancel_task_def)

lemma finish_all_steps [op_steps_intros]: "(\<And>i. op_steps cf (f i)) \<Longrightarrow> op_steps cf (finish_all f is)"
  by (induction "is") (auto intro: op_steps_intros)

lemma stop_steps:
  "op_steps cf (stop_run cf env fuel i) \<and> op_steps cf (stop_children cf env fuel ds)"
proof (induction fuel arbitrary: i ds)
  case 0
  show ?case by (auto intro: op_steps_intros)
next
  case (Suc fuel)
  have "op_steps cf (stop_run cf env (Suc fuel) i)" for i
    using Suc.IH by (auto intro!: op_steps_intros split: option.split)
  moreover have "op_steps cf (stop_children cf env (Suc fuel) ds)" for ds
  proof (induction ds)
    case (Cons d ds)
    with Suc.IH show ?case by (auto intro!: op_steps_intros)
  qed (auto intro: op_steps_intros)
  ultimately show ?case by blast
qed

lemma stop_child_steps [op_steps_intros]: "op_steps cf (stop_child cf env fuel i)"
  using stop_steps [of cf env fuel]
  by (auto simp: stop_child_def stop_descendants_def intro!: op_steps_intros)

lemma shutdown_steps: "op_steps cf (shutdown cf env)"
proof -
  have "op_steps cf (cancel_all cf env)"
    using op_stepsD [OF op_steps_bind [OF finish_all_steps [OF task_ends_steps] op_steps_same(1)]]
    by (auto simp: op_steps_def cancel_all_def Let_def)
  then show ?thesis by (auto simp: shutdown_def intro!: op_steps_intros)
qed

lemma execute_run_steps:
  assumes "\<And>ex. op_steps cf (runtime ex)"
  shows "op_steps cf (execute_run cf env runtime i)"
proof
  fix m
  have task: "op_steps cf (run_task cf env runtime i)"
    using assms by (auto simp: run_task_def intro!: op_steps_intros)
  have "(mg_step cf)\<^sup>*\<^sup>* m (snd (begin_task i m))" by (rule op_stepsD [OF op_steps_atomic(5)])
  also have "(mg_step cf)\<^sup>*\<^sup>* \<dots> (snd (run_task cf env runtime i \<dots>))" by (rule op_stepsD [OF task])
  also have "(mg_step cf)\<^sup>*\<^sup>* \<dots> (snd (leave_task cf env i (fst (run_task cf env runtime i (snd (begin_task i m)))) \<dots>))"
    by (rule op_stepsD [OF leave_task_steps])
  finally show "(mg_step cf)\<^sup>*\<^sup>* m (snd (execute_run cf env runtime i m))"
    by (simp add: execute_run_def case_prod_beta)
qed

definition env_ok :: "config \<Rightarrow> environment \<Rightarrow> bool" where
  \<comment> \<open>while a child is awaited the other tasks take steps of the manager\<close>
  "env_ok cf env \<longleftrightarrow> (\<forall>i m. (mg_step cf)\<^sup>*\<^sup>* m (snd (en_wait env i m)))"

lemma run_child_steps:
  assumes "env_ok cf env" "\<And>m. w_uuid4 (en_world env m) 0 \<noteq> cr_parent_run_id cr"
  shows "op_steps cf (run_child cf env fuel cr)"
proof -
  have "op_steps cf (await_child env i)" for i
    using assms(1) by (auto simp: op_steps_def env_ok_def await_child_def case_prod_beta)
  with assms(2) show ?thesis
    by (auto simp: run_child_def intro!: op_steps_intros split: option.split exn.split) metis
qed

section \<open>What stopping a run leaves\<close>

lemma finish_run_row:
  assumes "fst (finish_run cf w i f s reason ty p pl sev m) = Inr ()" "\<And>r. run_id (f r) = run_id r"
  shows "run_get i (mg_store (snd (finish_run cf w i f s reason ty p pl sev m))) =
    map_option (\<lambda>r. if terminal r then r else f r) (run_get i (mg_store m))"
proof (cases "run_get i (mg_store m)")
  case None
  then show ?thesis by (simp add: finish_run_def)
next
  case (Some r)
  then have id: "run_id r = i" by (auto dest: run_get_in)
  show ?thesis
  proof (cases "terminal r")
    case True
    with Some show ?thesis by (simp add: finish_run_def terminal_def)
  next
    case False
    have "mg_store (snd (finish_run cf w i f s reason ty p pl sev m)) =
        (case move_run cf w r f (Some s) reason (mg_store m) of Inl e \<Rightarrow> mg_store m | Inr (x, st) \<Rightarrow> st)"
      using Some False id by (simp add: finish_run_def op_bind_store transact_store move_run_def terminal_def)
    moreover have "\<exists>x. move_run cf w r f (Some s) reason (mg_store m) = Inr x"
      using assms(1) Some False id
      by (cases "move_run cf w r f (Some s) reason (mg_store m)")
        (auto simp: finish_run_def op_bind_def transact_def move_run_def terminal_def)
    ultimately obtain c st' where st': "mg_store (snd (finish_run cf w i f s reason ty p pl sev m)) = st'"
      and mv: "move_run cf w r f (Some s) reason (mg_store m) = Inr (c, st')" by auto
    have "st_runs st' = map (\<lambda>r'. if run_id r' = i then f r' else r') (st_runs (mg_store m))"
      using move_run_fields(1) [OF mv] id by simp
    then have "run_get i st' = Some (f r)"
      using Some id assms(2) by (simp add: run_get_def row_get_map)
    then show ?thesis using st' Some False by simp
  qed
qed

lemma lifecycle_finish_terminal:
  assumes "fst (finish_run cf w i f s reason ty p pl sev m) = Inr ()" "\<And>r. run_id (f r) = run_id r" "\<And>r. terminal (f r)"
  shows "\<forall>r. run_get i (mg_store (snd (finish_run cf w i f s reason ty p pl sev m))) = Some r \<longrightarrow> terminal r"
  using finish_run_row [OF assms(1,2)] assms(3) by (auto split: if_splits) (metis assms(3))

lemma finish_cancelled_terminal:
  "fst (finish_cancelled cf w i m) = Inr () \<Longrightarrow> run_get i (mg_store (snd (finish_cancelled cf w i m))) = Some r \<Longrightarrow>
   terminal r"
  unfolding finish_cancelled_def
  using lifecycle_finish_terminal [of cf w i "cancelled (w_now w)"]
  by (fastforce simp: terminal_def TERMINAL_RUN_STATUSES_def cancelled_def)

lemma stop_run_result:
  assumes "stop_run cf env fuel i m = (Inr r, m')"
  shows "run_id r = i \<and> terminal r \<and> (\<exists>r0. run_get i (mg_store m') = Some r0 \<and> r = run_from_record r0)"
proof -
  from assms obtain n where fuel: "fuel = Suc n" by (cases fuel) (auto simp: op_raise_def)
  let ?kids = "with_state (\<lambda>m. stop_children cf env n (list_for_parents [i] (mg_store m)))"
  let ?rest = "\<lambda>m. case registry_get i (mg_registry m) of
         None \<Rightarrow> op_bind (finish_failed cf (en_world env m) i ''Live execution handle unavailable'') (\<lambda>_.
                   op_raise (LifecycleConflictError ''This run has no live execution handle''))
       | Some _ \<Rightarrow> op_bind (cancel_task cf env i) (\<lambda>ended.
                   if \<not> ended then op_raise (LifecycleConflictError ''Run cancellation timed out'')
                   else op_bind (with_state (\<lambda>m. finish_cancelled cf (en_world env m) i)) (\<lambda>_. get_run i))"
  from assms [unfolded fuel stop_run.simps] obtain r1 :: run and m0 where "(if run_status r1 \<in> TERMINAL_RUN_STATUSES
      then op_raise (LifecycleConflictError ''This run is already terminal'')
      else op_bind ?kids (\<lambda>_. with_state ?rest)) m0 = (Inr r, m')"
    by (rule op_bind_InrE)
  then have "op_bind ?kids (\<lambda>_. with_state ?rest) m0 = (Inr r, m')"
    by (simp add: op_raise_def split: if_splits)
  then obtain m1 where "with_state ?rest m1 = (Inr r, m')" by (rule op_bind_InrE)
  then have "?rest m1 m1 = (Inr r, m')" by (simp only: with_state_def)
  then obtain m2 ended where "(if \<not> ended then op_raise (LifecycleConflictError ''Run cancellation timed out'')
      else op_bind (with_state (\<lambda>m. finish_cancelled cf (en_world env m) i)) (\<lambda>_. get_run i)) m2 = (Inr r, m')"
    by (auto simp: op_raise_def split: option.splits elim!: op_bind_InrE)
  then have "op_bind (with_state (\<lambda>m. finish_cancelled cf (en_world env m) i)) (\<lambda>_. get_run i) m2 = (Inr r, m')"
    by (simp add: op_raise_def split: if_splits)
  then obtain w m1 m2 where f: "finish_cancelled cf w i m1 = (Inr (), m2)" and g: "get_run i m2 = (Inr r, m')"
    by (rule op_bind_InrE) (auto simp: with_state_def)
  obtain r0 where r0: "run_get i (mg_store m2) = Some r0" "r = run_from_record r0" "m' = m2"
    using g by (cases "run_get i (mg_store m2)") (simp_all add: get_run_def query_def)
  from f have "fst (finish_cancelled cf w i m1) = Inr ()" "snd (finish_cancelled cf w i m1) = m2" by simp_all
  from finish_cancelled_terminal [OF this(1), of r0] this(2) r0(1) have t: "terminal r0" by simp
  from r0(1) have "run_id r0 = i" by (rule conjunct2 [OF run_get_in])
  with t have "run_id r = i" "terminal r" unfolding r0(2) by (simp_all add: run_from_record_def terminal_def)
  then show ?thesis using r0 by blast
qed

end
