(* ===== verification/Manager_Tree.thy ===== *)
theory Manager_Tree
  imports Manager_Steps
begin

text \<open>
  Delegations form a forest in every reachable state: a child is created after its parent and has
  only one. The rank of a run, counted from the end of the table, therefore falls along every
  delegation; it bounds the recursion that stops a run with its descendants and the two loops that
  collect a run tree, and the tree that is built consists of exactly the runs below the root.
\<close>

section \<open>Ranks\<close>

definition rank :: "uuid list \<Rightarrow> uuid \<Rightarrow> nat" where
  "rank ids i = length (dropWhile (\<lambda>j. j \<noteq> i) ids)"

definition run_ids :: "store \<Rightarrow> uuid list" where
  "run_ids st = map run_id (st_runs st)"

lemma rank_le: "rank ids i \<le> length ids"
  by (simp add: rank_def length_dropWhile_le)

lemma rank_split: "c \<notin> set xs \<Longrightarrow> rank (xs @ c # ys) c = Suc (length ys)"
proof -
  assume "c \<notin> set xs"
  then have "dropWhile (\<lambda>j. j \<noteq> c) (xs @ c # ys) = c # ys" by (subst dropWhile_append2) auto
  then show ?thesis by (simp add: rank_def)
qed

lemma rank_before: "p \<in> set xs \<Longrightarrow> length ys < rank (xs @ ys) p"
  by (induction xs) (auto simp: rank_def)

lemma precedes_rank: "precedes p c rs \<Longrightarrow> distinct (map run_id rs) \<Longrightarrow> rank (map run_id rs) c < rank (map run_id rs) p"
proof -
  assume "precedes p c rs" and d: "distinct (map run_id rs)"
  then obtain xs r ys where rs: "rs = xs @ r # ys" "run_id r = c" "p \<in> run_id ` set xs" by (auto simp: precedes_def)
  from d rs have "c \<notin> set (map run_id xs)" by auto
  then have "rank (map run_id rs) c = Suc (length (map run_id ys))"
    unfolding rs(1) using rs(2) by (simp add: rank_split)
  moreover have "length (map run_id (r # ys)) < rank (map run_id xs @ map run_id (r # ys)) p"
    using rs(3) by (intro rank_before) simp
  ultimately show ?thesis unfolding rs(1) by simp
qed

definition falling :: "uuid list \<Rightarrow> delegation list \<Rightarrow> bool" where
  "falling ids ds \<longleftrightarrow> (\<forall>d \<in> set ds. rank ids (dg_child_run_id d) < rank ids (dg_parent_run_id d))"

lemma store_inv_falling: "store_inv st \<Longrightarrow> falling (run_ids st) (st_delegations st)"
  using store_invD(2,7) by (auto simp: falling_def run_ids_def delegations_ok_def intro!: precedes_rank)

section \<open>The recursion of \<open>stop_run\<close>\<close>

definition same_forest :: "uuid list \<Rightarrow> delegation list \<Rightarrow> manager \<Rightarrow> bool" where
  "same_forest ids ds m \<longleftrightarrow> run_ids (mg_store m) = ids \<and> st_delegations (mg_store m) = ds"

definition keeps_forest :: "'a op \<Rightarrow> bool" where
  "keeps_forest p \<longleftrightarrow> (\<forall>ids ds m. same_forest ids ds m \<longrightarrow> same_forest ids ds (snd (p m)))"

named_theorems forest_intros \<open>operations that keep runs and delegations\<close>

lemma keeps_same [forest_intros]: "keeps_forest (op_return x)" "keeps_forest (op_raise e)" "keeps_forest (get_run i)"
  by (auto simp: keeps_forest_def op_return_def op_raise_def get_run_def query_def)

lemma keeps_bind [forest_intros]: "keeps_forest p \<Longrightarrow> (\<And>x. keeps_forest (f x)) \<Longrightarrow> keeps_forest (op_bind p f)"
  by (auto simp: keeps_forest_def op_bind_snd split: sum.split)

lemma keeps_state [forest_intros]: "(\<And>m. keeps_forest (p m)) \<Longrightarrow> keeps_forest (with_state p)"
  by (simp add: keeps_forest_def with_state_def)

lemma keeps_catch [forest_intros]: "keeps_forest p \<Longrightarrow> keeps_forest (catch_conflict p)"
  by (simp add: keeps_forest_def catch_conflict_snd)

lemma keeps_finish: "run_move f \<Longrightarrow> keeps_forest (finish_run cf w i f s reason ty p pl sev)"
  unfolding keeps_forest_def same_forest_def
proof (intro allI impI)
  fix ids ds and m :: manager
  assume f: "run_move f" and h: "run_ids (mg_store m) = ids \<and> st_delegations (mg_store m) = ds"
  let ?st = "mg_store (snd (finish_run cf w i f s reason ty p pl sev m))"
  from finish_run_moved [of cf w i f s reason m ty p pl sev] show "run_ids ?st = ids \<and> st_delegations ?st = ds"
    unfolding moved_def
  proof
    assume "\<exists>r c. run_get i (mg_store m) = Some r \<and> run_active r \<and> move_run cf w r f (Some s) reason (mg_store m) = Inr (c, ?st)"
    then obtain r c where mv: "move_run cf w r f (Some s) reason (mg_store m) = Inr (c, ?st)" by blast
    have "run_ids ?st = run_ids (mg_store m)"
      using move_run_fields(1) [OF mv] f by (simp add: run_ids_def run_moveD)
    with h move_run_fields(3) [OF mv] show ?thesis by simp
  qed (use h in simp)
qed

lemma keeps_finishes [forest_intros]:
  "keeps_forest (finish_cancelled cf w i)" "keeps_forest (finish_failed cf w i e)"
  "keeps_forest (finish_succeeded cf w i resp)"
  unfolding finish_defs by (simp_all add: keeps_finish)

lemma keeps_cut [forest_intros]:
  assumes "\<And>cf. keeps_forest (p cf)"
  shows "keeps_forest (cut_short cf c p)"
proof -
  have "keeps_forest (op_bind (p cf') (\<lambda>_. op_raise CancelledError))" for cf'
    by (rule keeps_bind [OF assms keeps_same(2)])
  then show ?thesis using assms by (auto simp: keeps_forest_def cut_short_def split: option.split cut.split)
qed

lemma keeps_conclude [forest_intros]: "keeps_forest (conclude_run cf env i result)"
  by (auto simp: conclude_run_def intro!: forest_intros split: sum.split exn.split)

lemma keeps_task_ends [forest_intros]: "keeps_forest (task_ends cf env i)"
  using keeps_conclude by (auto simp: keeps_forest_def task_ends_def leave_task_def same_forest_def case_prod_beta)

lemma keeps_cancel_task [forest_intros]: "keeps_forest (cancel_task cf env i)"
  using keeps_bind [OF keeps_task_ends keeps_same(1), of cf env i "\<lambda>_. True"]
  by (auto simp: keeps_forest_def cancel_task_def)

lemma keeps_stop: "keeps_forest (stop_run cf env fuel i) \<and> keeps_forest (stop_children cf env fuel ds)"
proof (induction fuel arbitrary: i ds)
  case 0
  show ?case by (auto intro: forest_intros)
next
  case (Suc fuel)
  have "keeps_forest (stop_run cf env (Suc fuel) i)" for i
    using Suc.IH by (auto intro!: forest_intros split: option.split)
  moreover have "keeps_forest (stop_children cf env (Suc fuel) ds)" for ds
  proof (induction ds)
    case (Cons d ds)
    with Suc.IH show ?case by (auto intro!: forest_intros)
  qed (auto intro: forest_intros)
  ultimately show ?case by blast
qed

definition no_overflow :: "'a op \<Rightarrow> manager \<Rightarrow> bool" where
  "no_overflow p m \<longleftrightarrow> fst (p m) \<noteq> Inl (RuntimeError ''RecursionError'')"

lemma no_overflow_simple:
  "no_overflow (op_return x) m" "no_overflow (get_run i) m"
  "e \<noteq> RuntimeError ''RecursionError'' \<Longrightarrow> no_overflow (op_raise e) m"
  by (auto simp: no_overflow_def op_return_def op_raise_def get_run_def query_def split: option.split)

lemma no_overflow_bind:
  "no_overflow p m \<Longrightarrow> (\<And>x m1. p m = (Inr x, m1) \<Longrightarrow> no_overflow (f x) m1) \<Longrightarrow> no_overflow (op_bind p f) m"
  by (auto simp: no_overflow_def op_bind_def split: prod.split sum.split)

lemma no_overflow_catch: "no_overflow p m \<Longrightarrow> no_overflow (catch_conflict p) m"
  by (auto simp: no_overflow_def catch_conflict_def split: prod.split sum.split exn.split)

lemma lifecycle_checkpoint_Inl: "lifecycle_checkpoint cf w r reason st = Inl e \<Longrightarrow> e = IntegrityError"
  by (auto simp: lifecycle_checkpoint_def create_lifecycle_checkpoint_def create_checkpoint_def
      checkpoint_create_def Let_def row_insert_def exn_simps split: if_splits)

lemma finish_run_Inl: "fst (finish_run cf w i f s reason ty p pl sev m) = Inl e \<Longrightarrow> e = IntegrityError"
  by (auto simp: finish_run_def op_bind_def transact_def emit_def dest!: lifecycle_checkpoint_Inl
      split: option.splits if_splits prod.splits sum.splits)

lemma no_overflow_finish:
  "no_overflow (finish_cancelled cf w i) m" "no_overflow (finish_failed cf w i e) m"
  unfolding no_overflow_def finish_defs by (auto dest: finish_run_Inl)

lemma no_overflow_cancel: "no_overflow (cancel_task cf env i) m"
  by (auto simp: no_overflow_def cancel_task_def op_bind_def task_ends_def op_return_def split: prod.split)

lemma keeps_forestD: "keeps_forest p \<Longrightarrow> same_forest ids ds m \<Longrightarrow> p m = (x, m1) \<Longrightarrow> same_forest ids ds m1"
  unfolding keeps_forest_def by (metis snd_conv)

lemma stop_rest_no_overflow: "no_overflow (case registry_get i (mg_registry m) of
         None \<Rightarrow> op_bind (finish_failed cf (en_world env m) i ''Live execution handle unavailable'') (\<lambda>_.
                   op_raise (LifecycleConflictError ''This run has no live execution handle''))
       | Some _ \<Rightarrow> op_bind (cancel_task cf env i) (\<lambda>ended.
                   if \<not> ended then op_raise (LifecycleConflictError ''Run cancellation timed out'')
                   else op_bind (with_state (\<lambda>m. finish_cancelled cf (en_world env m) i)) (\<lambda>_. get_run i))) m"
proof (cases "registry_get i (mg_registry m)")
  case None
  then show ?thesis
    by (auto intro!: no_overflow_bind no_overflow_finish no_overflow_simple)
next
  case (Some b)
  have "no_overflow (with_state (\<lambda>m. finish_cancelled cf (en_world env m) i)) m1" for m1
    using no_overflow_finish(1) by (simp add: no_overflow_def with_state_def)
  with Some show ?thesis
    by (auto intro!: no_overflow_bind no_overflow_cancel no_overflow_simple)
qed

lemma list_for_parents_in: "d \<in> set (list_for_parents [i] st) \<longleftrightarrow> d \<in> set (st_delegations st) \<and> dg_parent_run_id d = i"
  by (auto simp: list_for_parents_def)

lemma stop_no_overflow:
  assumes fall: "falling ids dels"
  shows "(same_forest ids dels m \<longrightarrow> 2 * rank ids i + 1 \<le> fuel \<longrightarrow> no_overflow (stop_run cf env fuel i) m) \<and>
    (same_forest ids dels m \<longrightarrow> (\<forall>d \<in> set ds. 2 * rank ids (dg_child_run_id d) + 2 \<le> fuel) \<longrightarrow>
       no_overflow (stop_children cf env fuel ds) m)"
proof (induction fuel arbitrary: i ds m)
  case 0
  show ?case by (auto intro: no_overflow_simple)
next
  case (Suc fuel)
  have kids: "no_overflow (with_state (\<lambda>m. stop_children cf env fuel (list_for_parents [i] (mg_store m)))) m"
    if "same_forest ids dels m" "2 * rank ids i \<le> fuel" for i m
  proof -
    have "2 * rank ids (dg_child_run_id d) + 2 \<le> fuel" if "d \<in> set (list_for_parents [i] (mg_store m))" for d
      using that \<open>same_forest ids dels m\<close> \<open>2 * rank ids i \<le> fuel\<close> fall
      by (fastforce simp: list_for_parents_in same_forest_def falling_def)
    then show ?thesis using Suc.IH [of m i "list_for_parents [i] (mg_store m)"] that(1)
      by (simp add: no_overflow_def with_state_def)
  qed
  have keep: "same_forest ids dels m1" if "same_forest ids dels m" "with_state (\<lambda>m. stop_children cf env fuel (list_for_parents [i] (mg_store m))) m = (x, m1)" for i m x m1
    using that keeps_state [of "\<lambda>m. stop_children cf env fuel (list_for_parents [i] (mg_store m))"] keeps_stop
    by (metis keeps_forestD)
  have run: "no_overflow (stop_run cf env (Suc fuel) i) m" if h: "same_forest ids dels m" "2 * rank ids i + 1 \<le> Suc fuel" for i m
  proof -
    have "no_overflow (op_bind (with_state (\<lambda>m. stop_children cf env fuel (list_for_parents [i] (mg_store m)))) (\<lambda>_.
       with_state (\<lambda>m. case registry_get i (mg_registry m) of
         None \<Rightarrow> op_bind (finish_failed cf (en_world env m) i ''Live execution handle unavailable'') (\<lambda>_.
                   op_raise (LifecycleConflictError ''This run has no live execution handle''))
       | Some _ \<Rightarrow> op_bind (cancel_task cf env i) (\<lambda>ended.
                   if \<not> ended then op_raise (LifecycleConflictError ''Run cancellation timed out'')
                   else op_bind (with_state (\<lambda>m. finish_cancelled cf (en_world env m) i)) (\<lambda>_. get_run i))))) m1"
      if "same_forest ids dels m1" for m1
    proof (rule no_overflow_bind [OF kids])
      show "2 * rank ids i \<le> fuel" using h(2) by simp
      show "no_overflow (with_state (\<lambda>m. case registry_get i (mg_registry m) of
         None \<Rightarrow> op_bind (finish_failed cf (en_world env m) i ''Live execution handle unavailable'') (\<lambda>_.
                   op_raise (LifecycleConflictError ''This run has no live execution handle''))
       | Some _ \<Rightarrow> op_bind (cancel_task cf env i) (\<lambda>ended.
                   if \<not> ended then op_raise (LifecycleConflictError ''Run cancellation timed out'')
                   else op_bind (with_state (\<lambda>m. finish_cancelled cf (en_world env m) i)) (\<lambda>_. get_run i)))) m2" for m2
        using stop_rest_no_overflow by (simp add: no_overflow_def with_state_def)
    qed (rule that)
    then show ?thesis
      using keeps_forestD [OF keeps_same(3) h(1)]
      by (auto intro!: no_overflow_bind no_overflow_simple)
  qed
  moreover have "no_overflow (stop_children cf env (Suc fuel) ds) m"
    if "same_forest ids dels m" "\<forall>d \<in> set ds. 2 * rank ids (dg_child_run_id d) + 2 \<le> Suc fuel" for ds m
    using that
  proof (induction ds arbitrary: m)
    case (Cons d ds)
    let ?c = "dg_child_run_id d"
    have rest: "no_overflow (stop_children cf env (Suc fuel) ds) m1" if "same_forest ids dels m1" for m1
      using Cons.IH [OF that] Cons.prems(2) by simp
    have stop: "no_overflow (catch_conflict (stop_run cf env fuel ?c)) m1" if "same_forest ids dels m1" for m1
      using Suc.IH [of m1 ?c] that Cons.prems(2) by (auto intro: no_overflow_catch)
    have keep_stop: "same_forest ids dels m2" if "same_forest ids dels m1" "catch_conflict (stop_run cf env fuel ?c) m1 = (x, m2)" for m1 m2 x
      using that keeps_catch [of "stop_run cf env fuel ?c"] keeps_stop by (metis keeps_forestD)
    have "no_overflow (op_bind (with_state (\<lambda>m. stop_children cf env fuel (list_for_parents [?c] (mg_store m)))) (\<lambda>_.
        op_bind (catch_conflict (stop_run cf env fuel ?c)) (\<lambda>_. stop_children cf env (Suc fuel) ds))) m1"
      if m1: "same_forest ids dels m1" for m1
    proof (rule no_overflow_bind [OF kids [OF m1]])
      show "2 * rank ids ?c \<le> fuel" using Cons.prems(2) by simp
      fix x m2
      assume "with_state (\<lambda>m. stop_children cf env fuel (list_for_parents [?c] (mg_store m))) m1 = (Inr x, m2)"
      with m1 have m2: "same_forest ids dels m2" by (rule keep)
      then show "no_overflow (op_bind (catch_conflict (stop_run cf env fuel ?c)) (\<lambda>_. stop_children cf env (Suc fuel) ds)) m2"
        using stop rest keep_stop by (intro no_overflow_bind) blast+
    qed
    then show ?case
      using rest keeps_forestD [OF keeps_same(3) Cons.prems(1)]
      by (auto intro!: no_overflow_bind no_overflow_simple)
  qed (simp add: no_overflow_simple)
  ultimately show ?case by blast
qed

section \<open>The tree of runs\<close>

definition child_rel :: "store \<Rightarrow> (uuid \<times> uuid) set" where
  "child_rel st = (\<lambda>d. (dg_parent_run_id d, dg_child_run_id d)) ` set (st_delegations st)"

fun tree_ids :: "run_tree_node \<Rightarrow> uuid set" where
  "tree_ids (RunTreeNode node depth r children) = insert (run_id r) (\<Union> (tree_ids ` set children))"

lemma child_rel_iff: "(p, c) \<in> child_rel st \<longleftrightarrow> (\<exists>d \<in> set (st_delegations st). dg_parent_run_id d = p \<and> dg_child_run_id d = c)"
  by (auto simp: child_rel_def)

lemma root_of_total:
  assumes "falling (run_ids st) (st_delegations st)"
  shows "length (run_ids st) < fuel + rank (run_ids st) i \<Longrightarrow>
    \<exists>t. root_of fuel i st = Some t \<and> (t, i) \<in> (child_rel st)\<^sup>* \<and> list_for_child t st = []"
proof (induction fuel arbitrary: i)
  case 0
  then show ?case using rank_le [of "run_ids st" i] by simp
next
  case (Suc fuel)
  show ?case
  proof (cases "list_for_child i st")
    case (Cons d ds)
    then have "d \<in> set (list_for_child i st)" by simp
    then have d: "d \<in> set (st_delegations st)" "dg_child_run_id d = i" by (auto simp: list_for_child_def)
    with assms have "rank (run_ids st) i < rank (run_ids st) (dg_parent_run_id d)" by (auto simp: falling_def)
    with Suc.prems have "length (run_ids st) < fuel + rank (run_ids st) (dg_parent_run_id d)" by simp
    from Suc.IH [OF this] obtain t where t: "root_of fuel (dg_parent_run_id d) st = Some t"
      "(t, dg_parent_run_id d) \<in> (child_rel st)\<^sup>*" "list_for_child t st = []" by blast
    from d have "(dg_parent_run_id d, i) \<in> child_rel st" by (auto simp: child_rel_iff)
    with t(2) have "(t, i) \<in> (child_rel st)\<^sup>*" by simp
    with t Cons show ?thesis by simp
  qed simp
qed

lemma star_step: "(\<exists>i \<in> F. (i, x) \<in> R\<^sup>*) \<longleftrightarrow> x \<in> F \<or> (\<exists>c \<in> R `` F. (c, x) \<in> R\<^sup>*)"
  by (blast intro: converse_rtrancl_into_rtrancl elim: converse_rtranclE)

lemma plus_step: "(\<exists>i \<in> F. (i, x) \<in> R\<^sup>+) \<longleftrightarrow> x \<in> R `` F \<or> (\<exists>c \<in> R `` F. (c, x) \<in> R\<^sup>+)"
  by (blast intro: trancl_into_trancl2 elim: converse_tranclE)

lemma collect_total:
  assumes fall: "falling (run_ids st) (st_delegations st)"
  shows "\<forall>i \<in> set front. rank (run_ids st) i < fuel \<Longrightarrow>
    \<exists>relations records. collect fuel front st = Some (relations, records) \<and>
      set relations = {d \<in> set (st_delegations st). \<exists>i \<in> set front. (i, dg_parent_run_id d) \<in> (child_rel st)\<^sup>*} \<and>
      set records = {r \<in> set (st_runs st). \<exists>i \<in> set front. (i, run_id r) \<in> (child_rel st)\<^sup>+}"
proof (induction fuel arbitrary: front)
  case 0
  then show ?case by (cases front) auto
next
  case (Suc fuel)
  show ?case
  proof (cases front)
    case Nil
    then show ?thesis by simp
  next
    case (Cons i0 is0)
    let ?batch = "list_for_parents front st"
    let ?kids = "map dg_child_run_id ?batch"
    let ?R = "child_rel st"
    have batch: "set ?batch = {d \<in> set (st_delegations st). dg_parent_run_id d \<in> set front}"
      by (auto simp: list_for_parents_def)
    have kids: "set ?kids = ?R `` set front"
      unfolding set_map batch by (force simp: child_rel_def)
    have "\<forall>c \<in> set ?kids. rank (run_ids st) c < fuel"
    proof
      fix c
      assume "c \<in> set ?kids"
      then obtain i where "i \<in> set front" "(i, c) \<in> ?R" unfolding kids by blast
      with fall Suc.prems show "rank (run_ids st) c < fuel" by (fastforce simp: child_rel_iff falling_def)
    qed
    from Suc.IH [OF this] obtain relations records where
      c: "collect fuel ?kids st = Some (relations, records)" and
      rel: "set relations = {d \<in> set (st_delegations st). \<exists>c \<in> set ?kids. (c, dg_parent_run_id d) \<in> ?R\<^sup>*}" and
      rec: "set records = {r \<in> set (st_runs st). \<exists>c \<in> set ?kids. (c, run_id r) \<in> ?R\<^sup>+}" by blast
    have step: "collect (Suc fuel) front st = Some (?batch @ relations, list_by_ids ?kids st @ records)"
      using c by (simp add: Cons Let_def)
    have "set (?batch @ relations) =
        {d \<in> set (st_delegations st). \<exists>i \<in> set front. (i, dg_parent_run_id d) \<in> ?R\<^sup>*}"
      by (simp only: star_step [of "set front"] set_append batch rel kids Un_def mem_Collect_eq conj_disj_distribL)
    moreover have "set (list_by_ids ?kids st @ records) =
        {r \<in> set (st_runs st). \<exists>i \<in> set front. (i, run_id r) \<in> ?R\<^sup>+}"
      by (simp only: plus_step [of "set front"] set_append rec list_by_ids_def set_filter kids Un_def mem_Collect_eq
          conj_disj_distribL)
    ultimately show ?thesis using step by blast
  qed
qed

lemma those_sum_Inr: "(\<forall>x \<in> set xs. \<exists>v. x = Inr v) \<Longrightarrow> those_sum xs = Inr (map projr xs)"
  by (induction xs) auto

lemma build_tree_ids:
  assumes fall: "falling (run_ids st) (st_delegations st)"
    and closed: "\<And>p c. p \<in> R \<Longrightarrow> (p, c) \<in> child_rel st \<Longrightarrow> c \<in> R"
    and recs: "\<And>i. i \<in> R \<Longrightarrow> \<exists>r. row_get run_id i records = Some r"
    and rels: "\<And>i. i \<in> R \<Longrightarrow> {d \<in> set relations. dg_parent_run_id d = i} = {d \<in> set (st_delegations st). dg_parent_run_id d = i}"
  shows "i \<in> R \<Longrightarrow> rank (run_ids st) i < fuel \<Longrightarrow>
    \<exists>t. build_tree fuel records relations i node depth = Inr t \<and> tree_ids t = {j. (i, j) \<in> (child_rel st)\<^sup>*}"
proof (induction fuel arbitrary: i node depth)
  case (Suc fuel)
  let ?R = "child_rel st"
  define kids where "kids = filter (\<lambda>d. dg_parent_run_id d = i) relations"
  have kset: "set kids = {d \<in> set (st_delegations st). dg_parent_run_id d = i}"
    using rels [OF Suc.prems(1)] by (auto simp: kids_def)
  let ?build = "\<lambda>d. build_tree fuel records relations (dg_child_run_id d) (Some (dg_node_id d)) (dg_depth d)"
  have each: "\<exists>t. ?build d = Inr t \<and> tree_ids t = {j. (dg_child_run_id d, j) \<in> ?R\<^sup>*}" if "d \<in> set kids" for d
  proof (rule Suc.IH)
    from that kset have d: "d \<in> set (st_delegations st)" "dg_parent_run_id d = i" by auto
    then have "(i, dg_child_run_id d) \<in> ?R" by (auto simp: child_rel_iff)
    with closed Suc.prems(1) show "dg_child_run_id d \<in> R" by blast
    from d fall Suc.prems(2) show "rank (run_ids st) (dg_child_run_id d) < fuel" by (fastforce simp: falling_def)
  qed
  then have "\<forall>x \<in> set (map ?build kids). \<exists>v. x = Inr v" by auto
  then have sum: "those_sum (map ?build kids) = Inr (map projr (map ?build kids))" by (rule those_sum_Inr)
  from recs [OF Suc.prems(1)] obtain r where r: "row_get run_id i records = Some r" by blast
  then have id: "run_id r = i" by (rule conjunct2 [OF row_get_Some])
  let ?t = "RunTreeNode node depth (run_from_record r) (map projr (map ?build kids))"
  have build: "build_tree (Suc fuel) records relations i node depth = Inr ?t"
    using sum r by (simp add: kids_def)
  have "tree_ids (projr (?build d)) = {j. (dg_child_run_id d, j) \<in> ?R\<^sup>*}" if "d \<in> set kids" for d
  proof -
    from each [OF that] obtain t where "?build d = Inr t" "tree_ids t = {j. (dg_child_run_id d, j) \<in> ?R\<^sup>*}" by blast
    then show ?thesis by (simp only: sum.sel)
  qed
  then have "tree_ids ?t = insert i (\<Union>d \<in> set kids. {j. (dg_child_run_id d, j) \<in> ?R\<^sup>*})"
    using id by (simp add: run_from_record_def)
  also have "\<dots> = {j. (i, j) \<in> ?R\<^sup>*}"
  proof (rule set_eqI)
    fix j
    have "j \<in> insert i (\<Union>d \<in> set kids. {j. (dg_child_run_id d, j) \<in> ?R\<^sup>*}) \<longleftrightarrow>
        j = i \<or> (\<exists>c. (i, c) \<in> ?R \<and> (c, j) \<in> ?R\<^sup>*)"
      using kset by (auto simp: child_rel_iff)
    also have "\<dots> \<longleftrightarrow> (i, j) \<in> ?R\<^sup>*" by (blast intro: converse_rtrancl_into_rtrancl elim: converse_rtranclE)
    finally show "j \<in> insert i (\<Union>d \<in> set kids. {j. (dg_child_run_id d, j) \<in> ?R\<^sup>*}) \<longleftrightarrow> j \<in> {j. (i, j) \<in> ?R\<^sup>*}"
      by simp
  qed
  finally show ?case using build by blast
qed simp

lemma child_exists: "store_inv st \<Longrightarrow> (p, c) \<in> child_rel st \<Longrightarrow> p \<in> set (run_ids st) \<and> c \<in> set (run_ids st)"
  using store_invD(7) by (fastforce simp: child_rel_iff delegations_ok_def precedes_def run_ids_def)

lemma run_tree_correct:
  assumes inv: "store_inv st" and i: "i \<in> set (run_ids st)"
  shows "\<exists>t origin. run_tree (Suc (length (st_runs st))) i st = Some (Inr t) \<and>
    (origin, i) \<in> (child_rel st)\<^sup>* \<and> list_for_child origin st = [] \<and> tree_ids t = {j. (origin, j) \<in> (child_rel st)\<^sup>*}"
proof -
  let ?n = "Suc (length (st_runs st))" and ?R = "child_rel st"
  note fall = store_inv_falling [OF inv]
  have len: "length (run_ids st) = length (st_runs st)" by (simp add: run_ids_def)
  with root_of_total [OF fall, of ?n i] obtain t where
    t: "root_of ?n i st = Some t" "(t, i) \<in> ?R\<^sup>*" "list_for_child t st = []" by auto
  from t(2) i have tin: "t \<in> set (run_ids st)"
    by (metis child_exists converse_rtranclE inv)
  then obtain r where r: "run_get t st = Some r"
    by (cases "run_get t st") (auto simp: run_get_def row_get_None_iff run_ids_def)
  have rank: "rank (run_ids st) j < ?n" for j using rank_le [of "run_ids st" j] len by simp
  with collect_total [OF fall, of "[t]" ?n] obtain relations records where
    c: "collect ?n [t] st = Some (relations, records)" and
    rel: "set relations = {d \<in> set (st_delegations st). (t, dg_parent_run_id d) \<in> ?R\<^sup>*}" and
    rec: "set records = {r \<in> set (st_runs st). (t, run_id r) \<in> ?R\<^sup>+}" by auto
  let ?D = "{j. (t, j) \<in> ?R\<^sup>*}"
  have recs: "\<exists>r'. row_get run_id j (r # records) = Some r'" if "j \<in> ?D" for j
  proof (cases "j = t")
    case True
    with r show ?thesis using run_get_in by fastforce
  next
    case False
    with that have plus: "(t, j) \<in> ?R\<^sup>+" by (metis mem_Collect_eq rtranclD)
    then have "j \<in> set (run_ids st)" by (metis child_exists inv tranclE)
    then obtain r' where "r' \<in> set (st_runs st)" "run_id r' = j" by (auto simp: run_ids_def)
    with rec plus have "j \<in> run_id ` set records" by auto
    then have "row_get run_id j records \<noteq> None" by (simp add: row_get_None_iff)
    then show ?thesis by auto
  qed
  have "\<exists>tr. build_tree ?n (r # records) relations t None 0 = Inr tr \<and> tree_ids tr = {j. (t, j) \<in> ?R\<^sup>*}"
  proof (rule build_tree_ids [OF fall, where R = ?D])
    show "c \<in> ?D" if "p \<in> ?D" "(p, c) \<in> ?R" for p c using that by auto
    show "\<exists>r'. row_get run_id j (r # records) = Some r'" if "j \<in> ?D" for j using recs [OF that] .
    show "{d \<in> set relations. dg_parent_run_id d = j} = {d \<in> set (st_delegations st). dg_parent_run_id d = j}"
      if "j \<in> ?D" for j using that rel by auto
    show "t \<in> ?D" by simp
    show "rank (run_ids st) t < ?n" by (rule rank)
  qed
  then obtain tr where "build_tree ?n (r # records) relations t None 0 = Inr tr" "tree_ids tr = {j. (t, j) \<in> ?R\<^sup>*}" by blast
  with t r c show ?thesis by (auto simp: run_tree_def simp del: build_tree.simps root_of.simps collect.simps)
qed

end
