(* ===== verification/Team_Correct.thy ===== *)
theory Team_Correct
  imports Team
begin

text \<open>
  Correctness of the team scheduler: the bound the worker text keeps (and the one it does not), the
  dataflow equations the outputs of a team satisfy, progress on every graph the parser accepts, and
  the tasks of one wave as a step relation under the semaphore that implements \<open>run_ready\<close>.
\<close>

section \<open>The length of the context\<close>

definition section_value :: "nat \<Rightarrow> string \<Rightarrow> string" where
  "section_value available output =
     (if length output > available \<and> available \<ge> 16
      then take (available - 15) (take available output) @ ''[truncated]'' else take available output)"

lemma length_section_value: "length (section_value available output) \<le> available"
  by (auto simp: section_value_def min_def)

lemma context_sections_Cons:
  "context_sections remaining ((k, v) # rs) =
     (let h = int (length (result_header k)) + int (length result_footer);
          sec = result_header k @ section_value (nat (max 0 (remaining - h))) v @ result_footer
      in sec @ (if remaining - int (length sec) \<le> 0 then []
                else context_sections (remaining - int (length sec)) rs))"
  by (simp add: Let_def section_value_def diff_diff_eq)

lemma context_sections_length:
  "\<forall>(k, v) \<in> set results. int (length (result_header k)) + int (length result_footer) \<le> K \<Longrightarrow> 0 \<le> K \<Longrightarrow>
   int (length (context_sections remaining results)) \<le> max 0 remaining + K"
proof (induction results arbitrary: remaining)
  case Nil
  then show ?case by simp
next
  case (Cons kv rs)
  obtain k v where kv: "kv = (k, v)" by (cases kv)
  define h where "h = int (length (result_header k)) + int (length result_footer)"
  define sec where "sec = result_header k @ section_value (nat (max 0 (remaining - h))) v @ result_footer"
  from Cons.prems kv have hK: "0 \<le> h" "h \<le> K" by (auto simp: h_def)
  have "int (length (section_value (nat (max 0 (remaining - h))) v)) \<le> max 0 (remaining - h)"
    using length_section_value [of "nat (max 0 (remaining - h))" v] by linarith
  then have sec: "h \<le> int (length sec)" "int (length sec) \<le> h + max 0 (remaining - h)"
    by (auto simp: sec_def h_def)
  have eq: "context_sections remaining (kv # rs) =
      sec @ (if remaining - int (length sec) \<le> 0 then [] else context_sections (remaining - int (length sec)) rs)"
    unfolding kv context_sections_Cons Let_def h_def [symmetric] sec_def [symmetric] ..
  show ?case
  proof (cases "remaining - int (length sec) \<le> 0")
    case True
    with eq sec hK show ?thesis by (simp add: max_def split: if_splits)
  next
    case False
    from Cons.IH [of "remaining - int (length sec)"] Cons.prems
    have "int (length (context_sections (remaining - int (length sec)) rs)) \<le> remaining - int (length sec) + K"
      using False by simp
    with False eq show ?thesis by simp
  qed
qed

lemma bounded_context_length:
  assumes "\<forall>(k, v) \<in> set results. length k \<le> L"
  shows "length (bounded_context base results maximum) \<le> max maximum (length base + 61) + L + 28"
proof -
  have c: "length nl = 1" "length dquote = 1" "length result_footer = 10"
    by (simp_all add: nl_def dquote_def result_footer_def)
  have "\<forall>(k, v) \<in> set results. int (length (result_header k)) + int (length result_footer) \<le> int (L + 28)"
    using assms by (auto simp: result_header_def c)
  from context_sections_length [OF this, of "max 0 (int maximum - int (length base) - 61)"] show ?thesis
    by (simp add: bounded_context_def Let_def c max_def split: if_splits)
qed

section \<open>Dataflow\<close>

lemma read_outputs_ok:
  "list_all (\<lambda>k. outs k \<noteq> None) ks \<Longrightarrow> read_outputs outs ks = Inr (map (\<lambda>k. (k, the (outs k))) ks)"
  by (induction ks) auto

lemma read_outputs_extend:
  "list_all (\<lambda>k. outs k \<noteq> None) ks \<Longrightarrow> (\<And>k. k \<in> dom outs \<Longrightarrow> outs' k = outs k) \<Longrightarrow>
   read_outputs outs' ks = read_outputs outs ks"
  by (induction ks) (auto simp: domIff)

lemma run_node_extend:
  assumes "is_ready g outs n" "\<And>k. k \<in> dom outs \<Longrightarrow> outs' k = outs k"
  shows "run_node settings delegate g ex ctx outs' n = run_node settings delegate g ex ctx outs n"
  using read_outputs_extend [OF assms [unfolded is_ready_def]] by (simp add: run_node_def)

lemma failures_Nil_iff: "failures rs = [] \<longleftrightarrow> (\<forall>r \<in> set rs. \<exists>x. r = Inr x)"
  by (induction rs) (auto simp: failures_def List.map_filter_simps split: sum.splits)

lemma set_failures: "set (failures rs) = {e. Inl e \<in> set rs}"
  by (induction rs) (auto simp: failures_def List.map_filter_simps split: sum.splits)

lemma run_ready_Inr:
  "run_ready pick outcome ready = Inr results \<Longrightarrow>
   results = map (\<lambda>n. projr (outcome n)) ready \<and> (\<forall>n \<in> set ready. outcome n = Inr (projr (outcome n)))"
  by (auto simp: run_ready_def Let_def failures_Nil_iff split: if_splits)

lemma run_ready_Inl:
  "run_ready pick outcome ready = Inl e \<Longrightarrow>
   failures (map outcome ready) \<noteq> [] \<and> e = wave_error (pick (failures (map outcome ready)))"
  by (auto simp: run_ready_def Let_def split: if_splits)

text \<open>
  Between two waves: every node is either done or pending, a done node's predecessors are done, and
  its output is what running it on the present outputs gives.
\<close>

definition schedule_inv :: "team_settings \<Rightarrow> delegation_port \<Rightarrow> team_graph \<Rightarrow> execution_request \<Rightarrow>
    delegation_context \<Rightarrow> team_node list \<Rightarrow> outputs \<Rightarrow> bool" where
  "schedule_inv settings delegate g ex ctx pending outs \<longleftrightarrow>
     set pending \<subseteq> set (tg_nodes g) \<and>
     dom outs = node_ids g - tn_id ` set pending \<and>
     (\<forall>n \<in> set (tg_nodes g). tn_id n \<in> dom outs \<longrightarrow>
        is_ready g outs n \<and> run_node settings delegate g ex ctx outs n = Inr (the (outs (tn_id n))))"

lemma schedule_inv_init: "schedule_inv settings delegate g ex ctx (tg_nodes g) Map.empty"
  by (auto simp: schedule_inv_def node_ids_def)

lemma is_ready_mono: "is_ready g outs n \<Longrightarrow> dom outs \<subseteq> dom outs' \<Longrightarrow> is_ready g outs' n"
  by (auto simp: is_ready_def list_all_iff dom_def)

lemma store_results_ready:
  assumes "distinct (map tn_id ready)" "results = map f ready" "tn_id ` set ready \<inter> dom outs = {}"
  shows "dom (store_results outs ready results) = dom outs \<union> tn_id ` set ready"
    and "n \<in> set ready \<Longrightarrow> store_results outs ready results (tn_id n) = Some (f n)"
    and "k \<in> dom outs \<Longrightarrow> store_results outs ready results k = outs k"
proof -
  have zip: "zip (map tn_id ready) (map f ready) = map (\<lambda>n. (tn_id n, f n)) ready"
    by (induction ready) auto
  have keys: "dom (map_of (map (\<lambda>n. (tn_id n, f n)) ready)) = tn_id ` set ready"
    by (simp add: dom_map_of_conv_image_fst image_image)
  show "dom (store_results outs ready results) = dom outs \<union> tn_id ` set ready"
    using assms(2) by (auto simp: store_results_def zip keys)
  show "store_results outs ready results k = outs k" if "k \<in> dom outs"
  proof -
    from that assms(3) keys have "map_of (map (\<lambda>n. (tn_id n, f n)) ready) k = None" by blast
    then show ?thesis using assms(2) by (simp add: store_results_def zip map_add_def)
  qed
  show "store_results outs ready results (tn_id n) = Some (f n)" if "n \<in> set ready"
  proof -
    have "map_of (map (\<lambda>n. (tn_id n, f n)) ready) (tn_id n) = Some (f n)"
      using that assms(1) by (intro map_of_is_SomeI) (auto simp: comp_def)
    then show ?thesis using assms(2) by (simp add: store_results_def zip)
  qed
qed

lemma schedule_inv_wave:
  assumes inv: "schedule_inv settings delegate g ex ctx pending outs"
    and dist: "distinct (map tn_id (tg_nodes g))" "distinct (map tn_id pending)"
    and ready: "ready = filter (is_ready g outs) pending"
    and res: "run_ready pick (run_node settings delegate g ex ctx outs) ready = Inr results"
  shows "schedule_inv settings delegate g ex ctx (filter (\<lambda>n. tn_id n \<notin> tn_id ` set ready) pending)
           (store_results outs ready results)"
proof -
  let ?run = "run_node settings delegate g ex ctx"
  let ?outs = "store_results outs ready results"
  let ?f = "\<lambda>n. projr (?run outs n)"
  have sub: "set ready \<subseteq> set pending" by (auto simp: ready)
  have rdist: "distinct (map tn_id ready)" using dist(2) by (simp add: ready distinct_map_filter)
  from inv have nodes: "set pending \<subseteq> set (tg_nodes g)"
    and dom: "dom outs = node_ids g - tn_id ` set pending"
    and fin: "\<And>n. n \<in> set (tg_nodes g) \<Longrightarrow> tn_id n \<in> dom outs \<Longrightarrow>
       is_ready g outs n \<and> ?run outs n = Inr (the (outs (tn_id n)))"
    unfolding schedule_inv_def by blast+
  from dom sub have disj: "tn_id ` set ready \<inter> dom outs = {}" by blast
  from run_ready_Inr [OF res] have results: "results = map ?f ready"
    and ok: "\<And>n. n \<in> set ready \<Longrightarrow> ?run outs n = Inr (?f n)" by blast+
  note st = store_results_ready [OF rdist results disj]
  have keep: "is_ready g ?outs n \<and> ?run ?outs n = ?run outs n" if "is_ready g outs n" for n
    using is_ready_mono [OF that] run_node_extend [OF that, of ?outs] st(1,3) by blast
  have all: "is_ready g ?outs n \<and> ?run ?outs n = Inr (the (?outs (tn_id n)))"
    if n: "n \<in> set (tg_nodes g)" and k: "tn_id n \<in> dom ?outs" for n
  proof (cases "tn_id n \<in> dom outs")
    case True
    from fin [OF n True] keep [of n] st(3) [OF True] show ?thesis by simp
  next
    case False
    from k [unfolded st(1)] False have "tn_id n \<in> tn_id ` set ready" by blast
    then obtain m where m: "m \<in> set ready" "tn_id m = tn_id n" by (auto elim!: imageE)
    with sub nodes have "m \<in> set (tg_nodes g)" by blast
    with m n dist(1) have "m = n" by (metis distinct_map inj_onD)
    with m have r: "n \<in> set ready" "is_ready g outs n" by (auto simp: ready)
    from keep [OF r(2)] ok [OF r(1)] st(2) [OF r(1)] show ?thesis by simp
  qed
  have "dom ?outs = node_ids g - tn_id ` set (filter (\<lambda>n. tn_id n \<notin> tn_id ` set ready) pending)"
    unfolding st(1) dom using sub nodes by (auto simp: node_ids_def)
  with all nodes show ?thesis unfolding schedule_inv_def by auto
qed

lemma distinct_filter_ids: "distinct (map tn_id ns) \<Longrightarrow> distinct (map tn_id (filter P ns))"
  by (simp add: distinct_map_filter)

lemma run_graph_Nil [simp]: "run_graph pick settings delegate g ex ctx [] outs = Inr outs"
  by (simp add: run_graph.simps)

lemma run_graph_dataflow:
  "run_graph pick settings delegate g ex ctx pending outs = Inr outs' \<Longrightarrow>
   schedule_inv settings delegate g ex ctx pending outs \<Longrightarrow>
   distinct (map tn_id (tg_nodes g)) \<Longrightarrow> distinct (map tn_id pending) \<Longrightarrow>
   schedule_inv settings delegate g ex ctx [] outs'"
proof (induction pick settings delegate g ex ctx pending outs rule: run_graph.induct)
  case (1 pick settings delegate g ex ctx pending outs)
  show ?case
  proof (cases "pending = []")
    case True
    with 1(2,3) show ?thesis by simp
  next
    case False
    define ready where "ready = filter (is_ready g outs) pending"
    have ne: "ready \<noteq> []"
      using 1(2) False by (auto simp: run_graph.simps [of pick _ _ _ _ _ pending] Let_def ready_def)
    with 1(2) False obtain results where
      res: "run_ready pick (run_node settings delegate g ex ctx outs) ready = Inr results" and
      rest: "run_graph pick settings delegate g ex ctx (filter (\<lambda>n. tn_id n \<notin> tn_id ` set ready) pending)
        (store_results outs ready results) = Inr outs'"
      by (auto simp: run_graph.simps [of pick _ _ _ _ _ pending] Let_def ready_def [symmetric] exn_simps)
    show ?thesis
      by (rule "1.IH" [OF False ready_def ne res rest schedule_inv_wave [OF 1(3,4,5) ready_def res]
            1(4) distinct_filter_ids [OF 1(5)]])
  qed
qed

section \<open>Progress\<close>

lemma acyclic_has_source:
  assumes "acyclic r" "finite r" "S \<noteq> {}"
  shows "\<exists>x \<in> S. \<forall>y \<in> S. (y, x) \<notin> r"
proof -
  from assms have "wf r" by (simp add: finite_acyclic_wf)
  moreover from \<open>S \<noteq> {}\<close> obtain z where "z \<in> S" by blast
  ultimately show ?thesis by (rule wfE_min) blast
qed

lemma finite_edge_rel [simp]: "finite (edge_rel g)"
  by (simp add: edge_rel_def)

lemma some_node_ready:
  assumes ok: "team_graph_ok m g"
    and inv: "schedule_inv settings delegate g ex ctx pending outs" and ne: "pending \<noteq> []"
  shows "filter (is_ready g outs) pending \<noteq> []"
proof -
  from ok have "acyclic (edge_rel g)" by (simp add: team_graph_ok_def)
  then have "\<exists>x \<in> tn_id ` set pending. \<forall>y \<in> tn_id ` set pending. (y, x) \<notin> edge_rel g"
    using ne by (intro acyclic_has_source) simp_all
  then obtain n where n: "n \<in> set pending"
    and src: "\<And>y. y \<in> tn_id ` set pending \<Longrightarrow> (y, tn_id n) \<notin> edge_rel g" by blast
  from inv have dom: "dom outs = node_ids g - tn_id ` set pending" by (simp add: schedule_inv_def)
  have "p \<in> dom outs" if e: "(p, tn_id n) \<in> edge_rel g" for p
  proof -
    from ok have "\<forall>e \<in> set (tg_edges g). te_source e \<in> node_ids g"
      by (simp add: team_graph_ok_def list_all_iff edge_ok_def)
    with e have "p \<in> node_ids g" by (auto simp: edge_rel_def)
    with e src dom show ?thesis by blast
  qed
  then have "\<forall>p \<in> set (predecessors g (tn_id n)). outs p \<noteq> None" by (simp add: domIff)
  then have "is_ready g outs n" by (simp add: is_ready_def list_all_iff)
  with n show ?thesis by (auto simp only: filter_empty_conv)
qed

lemma run_graph_failure:
  "run_graph pick settings delegate g ex ctx pending outs = Inl e \<Longrightarrow>
   schedule_inv settings delegate g ex ctx pending outs \<Longrightarrow> team_graph_ok m g \<Longrightarrow>
   distinct (map tn_id pending) \<Longrightarrow> (\<And>es. es \<noteq> [] \<Longrightarrow> pick es \<in> set es) \<Longrightarrow>
   \<exists>n \<in> set (tg_nodes g). \<exists>outs' e'. is_ready g outs' n \<and>
     run_node settings delegate g ex ctx outs' n = Inl e' \<and> e = wave_error e'"
proof (induction pick settings delegate g ex ctx pending outs rule: run_graph.induct)
  case (1 pick settings delegate g ex ctx pending outs)
  let ?run = "run_node settings delegate g ex ctx"
  define ready where "ready = filter (is_ready g outs) pending"
  have ne: "pending \<noteq> []" using 1(2) by auto
  then have rne: "ready \<noteq> []" using some_node_ready [OF 1(4,3)] by (simp add: ready_def)
  have dist: "distinct (map tn_id (tg_nodes g))" using 1(4) by (simp add: team_graph_ok_def)
  show ?case
  proof (cases "run_ready pick (?run outs) ready")
    case (Inl e')
    with ne rne 1(2) have "e' = e"
      by (simp add: run_graph.simps [of pick _ _ _ _ _ pending] Let_def ready_def)
    with run_ready_Inl [OF Inl] 1(6) have "pick (failures (map (?run outs) ready)) \<in> set (failures (map (?run outs) ready))"
      and e: "e = wave_error (pick (failures (map (?run outs) ready)))" by auto
    then obtain n where n: "n \<in> set ready" "?run outs n = Inl (pick (failures (map (?run outs) ready)))"
      by (auto simp: set_failures)
    moreover from n 1(3) have "n \<in> set (tg_nodes g)" "is_ready g outs n"
      unfolding schedule_inv_def ready_def by auto
    ultimately show ?thesis using e by blast
  next
    case (Inr results)
    with ne rne 1(2) have rest: "run_graph pick settings delegate g ex ctx
        (filter (\<lambda>n. tn_id n \<notin> tn_id ` set ready) pending) (store_results outs ready results) = Inl e"
      by (simp add: run_graph.simps [of pick _ _ _ _ _ pending] Let_def ready_def)
    show ?thesis
      by (rule "1.IH" [OF ne ready_def rne Inr rest schedule_inv_wave [OF 1(3) dist 1(5) ready_def Inr]
            1(4) distinct_filter_ids [OF 1(5)] 1(6)])
  qed
qed

section \<open>One wave under the semaphore\<close>

text \<open>
  \<open>_run_ready\<close> starts one task per ready node; each waits for the semaphore (first come first
  served), delegates, and ends with its outcome. The first failure cancels the rest
  (\<open>FIRST_EXCEPTION\<close>, then \<open>cancel\<close> and \<open>gather\<close>).
\<close>

record wave =
  wv_waiting :: "team_node list"
  wv_running :: "team_node list"
  wv_done :: "team_node list"
  wv_failure :: "exn option"

definition wave_start :: "team_node list \<Rightarrow> wave" where
  "wave_start ready = \<lparr>wv_waiting = ready, wv_running = [], wv_done = [], wv_failure = None\<rparr>"

inductive wave_step :: "nat \<Rightarrow> (team_node \<Rightarrow> exn + string) \<Rightarrow> wave \<Rightarrow> wave \<Rightarrow> bool"
  for max_parallel outcome where
  acquire: "wv_waiting w = n # ns \<Longrightarrow> wv_failure w = None \<Longrightarrow> length (wv_running w) < max_parallel \<Longrightarrow>
     wave_step max_parallel outcome w (w\<lparr>wv_waiting := ns, wv_running := n # wv_running w\<rparr>)"
| finish: "n \<in> set (wv_running w) \<Longrightarrow> wv_failure w = None \<Longrightarrow> outcome n = Inr v \<Longrightarrow>
     wave_step max_parallel outcome w
       (w\<lparr>wv_running := remove1 n (wv_running w), wv_done := n # wv_done w\<rparr>)"
| fail: "n \<in> set (wv_running w) \<Longrightarrow> wv_failure w = None \<Longrightarrow> outcome n = Inl e \<Longrightarrow>
     wave_step max_parallel outcome w (w\<lparr>wv_waiting := [], wv_running := [], wv_failure := Some e\<rparr>)"

inductive_cases wave_stepE: "wave_step max_parallel outcome w w'"

definition wave_result :: "(team_node \<Rightarrow> exn + string) \<Rightarrow> team_node list \<Rightarrow> wave \<Rightarrow> exn + string list" where
  "wave_result outcome ready w =
     (case wv_failure w of Some e \<Rightarrow> Inl (wave_error e) | None \<Rightarrow> Inr (map (\<lambda>n. projr (outcome n)) ready))"

definition wave_inv :: "nat \<Rightarrow> (team_node \<Rightarrow> exn + string) \<Rightarrow> team_node list \<Rightarrow> wave \<Rightarrow> bool" where
  "wave_inv max_parallel outcome ready w \<longleftrightarrow>
     length (wv_running w) \<le> max_parallel \<and>
     (\<forall>n \<in> set (wv_done w). \<exists>v. outcome n = Inr v) \<and>
     (case wv_failure w of
        None \<Rightarrow> set (wv_waiting w) \<union> set (wv_running w) \<union> set (wv_done w) = set ready
      | Some e \<Rightarrow> wv_waiting w = [] \<and> wv_running w = [] \<and> (\<exists>n \<in> set ready. outcome n = Inl e))"

lemma wave_inv_start: "wave_inv max_parallel outcome ready (wave_start ready)"
  by (simp add: wave_inv_def wave_start_def)

lemma insert_set_remove1: "n \<in> set xs \<Longrightarrow> insert n (set (remove1 n xs)) = set xs"
  by (induction xs) auto

lemma wave_step_inv:
  "wave_step max_parallel outcome w w' \<Longrightarrow> wave_inv max_parallel outcome ready w \<Longrightarrow>
   wave_inv max_parallel outcome ready w'"
proof (induction rule: wave_step.induct)
  case (acquire w n ns)
  then show ?case by (auto simp: wave_inv_def)
next
  case (finish n w v)
  from finish(1) have "insert n (set (remove1 n (wv_running w))) = set (wv_running w)"
    by (rule insert_set_remove1)
  then have "set (wv_waiting w) \<union> set (remove1 n (wv_running w)) \<union> insert n (set (wv_done w)) =
      set (wv_waiting w) \<union> set (wv_running w) \<union> set (wv_done w)" by blast
  with finish show ?case by (auto simp: wave_inv_def length_remove1)
next
  case (fail n w e)
  then show ?case by (auto simp: wave_inv_def)
qed

lemma wave_steps_inv:
  "(wave_step max_parallel outcome)\<^sup>*\<^sup>* (wave_start ready) w \<Longrightarrow> wave_inv max_parallel outcome ready w"
  by (induction rule: rtranclp_induct) (auto intro: wave_inv_start wave_step_inv)

text \<open>Every step uses up fuel, so a wave always comes to an end.\<close>

definition wave_fuel :: "wave \<Rightarrow> nat" where
  "wave_fuel w = 2 * length (wv_waiting w) + length (wv_running w)"

lemma wave_step_fuel: "wave_step max_parallel outcome w w' \<Longrightarrow> wave_fuel w' < wave_fuel w"
  by (induction rule: wave_step.induct) (auto simp: wave_fuel_def length_remove1 dest: length_pos_if_in_set)

lemma wave_stuck:
  assumes "\<not> (\<exists>w'. wave_step max_parallel outcome w w')" "0 < max_parallel" "wv_failure w = None"
  shows "wv_waiting w = [] \<and> wv_running w = []"
proof -
  have "wv_running w = []"
  proof (rule ccontr)
    assume "wv_running w \<noteq> []"
    then obtain n where "n \<in> set (wv_running w)" by (cases "wv_running w") auto
    with assms show False by (cases "outcome n") (blast intro: wave_step.intros)+
  qed
  moreover have "wv_waiting w = []"
  proof (rule ccontr)
    assume "wv_waiting w \<noteq> []"
    then obtain n ns where "wv_waiting w = n # ns" by (cases "wv_waiting w") auto
    from wave_step.acquire [OF this assms(3)] calculation assms(1,2) show False by auto
  qed
  ultimately show ?thesis by blast
qed

lemma wave_refines:
  assumes run: "(wave_step max_parallel outcome)\<^sup>*\<^sup>* (wave_start ready) w"
    and stuck: "\<not> (\<exists>w'. wave_step max_parallel outcome w w')" and par: "0 < max_parallel"
  shows "\<exists>pick. (\<forall>es. es \<noteq> [] \<longrightarrow> pick es \<in> set es) \<and>
    wave_result outcome ready w = run_ready pick outcome ready"
proof (cases "wv_failure w")
  case None
  from wave_steps_inv [OF run] wave_stuck [OF stuck par None] None
  have "\<forall>n \<in> set ready. \<exists>v. outcome n = Inr v" by (auto simp: wave_inv_def)
  then have "failures (map outcome ready) = []" by (auto simp: failures_Nil_iff)
  with None have "wave_result outcome ready w = run_ready hd outcome ready"
    by (simp add: wave_result_def run_ready_def)
  then show ?thesis using list.set_sel(1) by blast
next
  case (Some e)
  with wave_steps_inv [OF run] obtain n where "n \<in> set ready" "outcome n = Inl e"
    by (auto simp: wave_inv_def)
  then have "Inl e \<in> set (map outcome ready)" by (metis image_eqI set_map)
  then have e: "e \<in> set (failures (map outcome ready))" by (simp add: set_failures)
  then have ne: "failures (map outcome ready) \<noteq> []" by force
  define pick where "pick = (\<lambda>es :: exn list. if e \<in> set es then e else hd es)"
  from e have "pick (failures (map outcome ready)) = e" by (simp only: pick_def if_True)
  with ne Some have "wave_result outcome ready w = run_ready pick outcome ready"
    by (simp add: wave_result_def run_ready_def)
  moreover have "\<forall>es. es \<noteq> [] \<longrightarrow> pick es \<in> set es" by (simp add: pick_def)
  ultimately show ?thesis by blast
qed

section \<open>Properties\<close>

text \<open>A port whose children succeed, one whose worker \<open>b\<close> fails, and the request of a team run.\<close>

definition sample_child :: "run_status \<Rightarrow> string option \<Rightarrow> run" where
  "sample_child status output = \<lparr>run_id = 9, run_agent_id = 1, run_status = status, run_input_text = ''x'',
     run_output_text = output, run_error = None, run_created_at = 0, run_started_at = None,
     run_finished_at = None, run_provider_id = None, run_model_id = None, run_finish_reason = None,
     run_input_tokens = None, run_output_tokens = None, run_total_tokens = None, run_latency_ms = None,
     run_execution_spec = None\<rparr>"

definition sample_port :: delegation_port where
  "sample_port cr = Inr (sample_child Succeeded (Some (''done by '' @ cr_node_id cr)))"

definition failing_port :: delegation_port where
  "failing_port cr = (if cr_node_id cr = ''b'' then Inr (sample_child Failed None) else sample_port cr)"

definition sample_execution :: execution_request where
  "sample_execution = \<lparr>ex_agent_id = 5, ex_run_id = 6, ex_input_text = ''go'',
     ex_model_ref = ''local/default'', ex_graph_definition = graph_json sample_graph,
     ex_delegation_context = None\<rparr>"

definition sample_context :: delegation_context where
  "sample_context = \<lparr>dc_parent_run_id = None, dc_root_run_id = Some 6, dc_depth = 0, dc_ancestry = []\<rparr>"

definition sample_settings :: team_settings where
  "sample_settings = \<lparr>ts_max_workers = 4, ts_max_parallel = 2, ts_max_depth = 2, ts_max_context_chars = 500\<rparr>"

lemmas sample_team = sample_child_def sample_port_def failing_port_def sample_execution_def
  sample_context_def sample_settings_def sample_graph_def child_request_of_def

lemma sample_run_ok: "\<exists>outs. run_graph hd sample_settings sample_port sample_graph sample_execution
    sample_context (tg_nodes sample_graph) Map.empty = Inr outs"
  by (simp add: run_graph.simps is_ready_def predecessors_def run_ready_def failures_def
      List.map_filter_simps run_node_def store_results_def Let_def sample_team)

lemma sample_run_fails: "run_graph hd sample_settings failing_port sample_graph sample_execution
    sample_context (tg_nodes sample_graph) Map.empty =
    Inl (OrchestrationError ''CHILD_FAILED'' ''Worker B did not succeed'')"
  by (simp add: run_graph.simps is_ready_def predecessors_def run_ready_def failures_def wave_error_def
      List.map_filter_simps run_node_def store_results_def Let_def sample_team)

text \<open>
  C17: when a team whose node ids are distinct runs to its end, every node has exactly one output, and
  that output is what delegating the node gives when it is handed the request, its instructions and
  the final outputs of all its predecessors: the waves and their order leave no trace.
\<close>

theorem team_outputs_satisfy_dataflow:
  assumes "distinct (map tn_id (tg_nodes g))"
    and "run_graph pick settings delegate g ex ctx (tg_nodes g) Map.empty = Inr outs"
  shows "dom outs = node_ids g \<and> (\<forall>n \<in> set (tg_nodes g).
    is_ready g outs n \<and> run_node settings delegate g ex ctx outs n = Inr (the (outs (tn_id n))))"
proof -
  from run_graph_dataflow [OF assms(2) schedule_inv_init assms(1,1)] show ?thesis
    by (auto simp: schedule_inv_def node_ids_def)
qed

theorem team_outputs_satisfy_dataflow_witness:
  "\<exists>outs. dom outs = {''a'', ''b''} \<and> run_node sample_settings sample_port sample_graph sample_execution
     sample_context outs (hd (tg_nodes sample_graph)) = Inr (the (outs ''a''))"
proof -
  obtain outs where r: "run_graph hd sample_settings sample_port sample_graph sample_execution
      sample_context (tg_nodes sample_graph) Map.empty = Inr outs" using sample_run_ok by blast
  have "distinct (map tn_id (tg_nodes sample_graph))" by (simp add: sample_graph_def)
  from team_outputs_satisfy_dataflow [OF this r] show ?thesis
    by (intro exI [of _ outs]) (simp add: sample_graph_def node_ids_def)
qed

text \<open>
  C30: on a usable team graph the scheduler always comes to an end, with the outputs of every node or
  with the error of a worker that really failed on a ready node; it never reports that no worker can
  be scheduled.
\<close>

theorem team_run_ends_or_worker_failed:
  assumes "team_graph_ok max_workers g" "\<And>es. es \<noteq> [] \<Longrightarrow> pick es \<in> set es"
  shows "(\<exists>outs. run_graph pick settings delegate g ex ctx (tg_nodes g) Map.empty = Inr outs \<and>
      dom outs = node_ids g) \<or>
    (\<exists>n \<in> set (tg_nodes g). \<exists>outs e. is_ready g outs n \<and> run_node settings delegate g ex ctx outs n = Inl e \<and>
      run_graph pick settings delegate g ex ctx (tg_nodes g) Map.empty = Inl (wave_error e))"
proof (cases "run_graph pick settings delegate g ex ctx (tg_nodes g) Map.empty")
  case (Inl e)
  from assms(1) have "distinct (map tn_id (tg_nodes g))" by (simp add: team_graph_ok_def)
  from run_graph_failure [OF Inl schedule_inv_init assms(1) this assms(2)] Inl show ?thesis by fastforce
next
  case (Inr outs)
  from assms(1) have "distinct (map tn_id (tg_nodes g))" by (simp add: team_graph_ok_def)
  from run_graph_dataflow [OF Inr schedule_inv_init this this] Inr show ?thesis
    by (simp add: schedule_inv_def)
qed

theorem team_run_ends_or_worker_failed_witness:
  "\<exists>n \<in> set (tg_nodes sample_graph). \<exists>outs e. is_ready sample_graph outs n \<and>
     run_node sample_settings failing_port sample_graph sample_execution sample_context outs n = Inl e \<and>
     wave_error e = OrchestrationError ''CHILD_FAILED'' ''Worker B did not succeed''"
proof -
  have "hd es \<in> set es" if "es \<noteq> []" for es :: "exn list" using that by simp
  from team_run_ends_or_worker_failed [OF sample_graph_ok this, of sample_settings failing_port
      sample_execution sample_context] show ?thesis
    unfolding sample_run_fails by fastforce
qed

text \<open>
  The text a worker or the synthesis is given is never longer than the larger of the configured
  limit and the request with the two markers around the results (61 characters), plus the frame of
  one result (28 characters and the node id). The limit itself is not kept.
\<close>

theorem worker_input_length:
  assumes "\<forall>(k, v) \<in> set results. length k \<le> L"
  shows "length (worker_input request instructions results maximum) \<le>
    max maximum (length (worker_base request instructions) + 61) + L + 28"
  unfolding worker_input_def using assms by (rule bounded_context_length)

theorem worker_input_length_witness:
  "length (worker_input ''go'' None [(''a'', replicate 400 CHR ''x'')] 200) \<le> 229"
  using worker_input_length [of "[(''a'', replicate 400 CHR ''x'')]" 1 "''go''" None 200]
  by (simp add: worker_base_def nl_def)

text \<open>
  The configured limit is no bound. For every limit there is a request, without any upstream
  result, whose worker text is longer: the request itself is never shortened.
\<close>

theorem worker_input_exceeds_limit:
  "maximum < length (worker_input (replicate maximum CHR ''x'') None [] maximum)"
  by (simp add: worker_input_def worker_base_def bounded_context_def nl_def)

text \<open>
  The tasks of one wave, in any interleaving, never hold more slots than the parallel limit; a
  wave always comes to an end; and when no task can take another step its result is the one the
  scheduler's big step gives for some choice among the failed tasks.
\<close>

theorem wave_runs_refine_run_ready:
  assumes "0 < max_parallel" "(wave_step max_parallel outcome)\<^sup>*\<^sup>* (wave_start ready) w"
  shows "length (wv_running w) \<le> max_parallel \<and>
    ((\<exists>w'. wave_step max_parallel outcome w w' \<and> wave_fuel w' < wave_fuel w) \<or>
     (\<exists>pick. (\<forall>es. es \<noteq> [] \<longrightarrow> pick es \<in> set es) \<and> wave_result outcome ready w = run_ready pick outcome ready))"
proof -
  from wave_steps_inv [OF assms(2)] have "length (wv_running w) \<le> max_parallel" by (simp add: wave_inv_def)
  then show ?thesis using wave_step_fuel wave_refines [OF assms(2) _ assms(1)] by blast
qed

lemma wave_acquire_sample:
  "wave_step 1 outcome (wave_start [n]) ((wave_start [n])\<lparr>wv_waiting := [], wv_running := [n]\<rparr>)"
  using wave_step.acquire [of "wave_start [n]" n "[]" 1 outcome] by (simp add: wave_start_def)

theorem wave_runs_refine_run_ready_witness:
  "(wave_step 1 (\<lambda>n. Inr (tn_id n)))\<^sup>*\<^sup>* (wave_start [hd (tg_nodes sample_graph)])
     ((wave_start [hd (tg_nodes sample_graph)])\<lparr>wv_waiting := [], wv_running := [hd (tg_nodes sample_graph)]\<rparr>)
   \<and> length [hd (tg_nodes sample_graph)] \<le> 1"
proof -
  let ?w = "(wave_start [hd (tg_nodes sample_graph)])\<lparr>wv_waiting := [], wv_running := [hd (tg_nodes sample_graph)]\<rparr>"
  have step: "(wave_step 1 (\<lambda>n. Inr (tn_id n)))\<^sup>*\<^sup>* (wave_start [hd (tg_nodes sample_graph)]) ?w"
    using wave_acquire_sample by (rule r_into_rtranclp)
  from wave_runs_refine_run_ready [OF _ step] step show ?thesis by simp
qed

end
