(* ===== verification/Delegation.thy ===== *)
theory Delegation
  imports Manager_Tree Team_Correct
begin

text \<open>
  The contract between the team scheduler and the run manager: \<open>DelegationPort\<close> of
  \<open>runtime/execution.py\<close>. The scheduler is proved safe for any port that respects the depth limit and
  the ancestry it is handed; the run manager's \<open>run_child\<close> is such a port, in whatever states the
  requests reach it.
\<close>

locale delegation_contract =
  fixes port :: delegation_port
    and max_depth :: nat
  assumes respects_depth: "port cr = Inr r \<Longrightarrow> dc_depth (cr_context cr) \<le> max_depth"
    and respects_ancestry: "port cr = Inr r \<Longrightarrow> cr_agent_id cr \<notin> set (dc_ancestry (cr_context cr))"
begin

lemma node_safe:
  assumes "run_node settings port g ex ctx outs n = Inr v"
  shows "dc_depth ctx < max_depth \<and> tn_agent_id n \<noteq> ex_agent_id ex \<and> tn_agent_id n \<notin> set (dc_ancestry ctx)"
proof -
  from assms obtain input r where p: "port (child_request_of ex ctx n input) = Inr r"
    by (auto simp: run_node_def exn_simps Let_def)
  from respects_depth [OF p] respects_ancestry [OF p] show ?thesis
    by (auto simp: child_request_of_def)
qed

lemma team_safe:
  assumes "run_graph pick settings port g ex ctx (tg_nodes g) Map.empty = Inr outs"
    and "distinct (map tn_id (tg_nodes g))" "n \<in> set (tg_nodes g)"
  shows "dc_depth ctx < max_depth \<and> tn_agent_id n \<noteq> ex_agent_id ex \<and> tn_agent_id n \<notin> set (dc_ancestry ctx)"
proof -
  from run_graph_dataflow [OF assms(1) schedule_inv_init assms(2,2)]
  have "schedule_inv settings port g ex ctx [] outs" .
  with assms(3) have "run_node settings port g ex ctx outs n = Inr (the (outs (tn_id n)))"
    by (auto simp: schedule_inv_def node_ids_def)
  then show ?thesis by (rule node_safe)
qed

end

definition manager_port :: "config \<Rightarrow> environment \<Rightarrow> nat \<Rightarrow> (child_request \<Rightarrow> manager) \<Rightarrow> delegation_port" where
  \<comment> \<open>the port a running team sees, given the state in which each of its requests arrives\<close>
  "manager_port cf env fuel state_at cr = fst (run_child cf env fuel cr (state_at cr))"

lemma run_child_Inr:
  assumes "fst (run_child cf env fuel cr m) = Inr r"
  shows "dc_depth (cr_context cr) \<le> cf_max_depth cf \<and> cr_agent_id cr \<notin> set (dc_ancestry (cr_context cr))"
  using assms by (auto simp: run_child_def op_raise_def split: if_splits)

interpretation manager_delegation: delegation_contract "manager_port cf env fuel state_at" "cf_max_depth cf"
  for cf env fuel state_at
  by unfold_locales (auto simp: manager_port_def dest: run_child_Inr)

end
