(* ===== verification/Manager_Props.thy ===== *)
theory Manager_Props
  imports Delegation
begin

text \<open>
  What the run manager promises: the invariant of its tables in every reachable state, finished runs
  that never change, the operations made of several steps, what starting, stopping, executing and
  deleting leave behind on every path, the run tree, and the safety of delegated teams.
\<close>

section \<open>Outcomes of operations\<close>

lemma transact_Inl: "transact f m = (Inl e, m') \<Longrightarrow> m' = m"
  by (auto simp: transact_def split: sum.splits)

lemma start_run_as_Inl:
  "start_run_as cf w a s c p n m = (Inl e, m') \<Longrightarrow> m' = m \<and> insert_run cf w a s c p n (mg_store m) = Inl e"
  by (auto simp: start_run_as_def op_bind_def transact_def emit_def op_return_def Let_def
      split: sum.splits prod.splits)

lemma map_of_reset: "map_of reg i \<noteq> None \<Longrightarrow> map_of (map (\<lambda>p. if fst p = i then (i, b) else p) reg) i \<noteq> None"
  by (induction reg) auto

lemma registry_get_register [simp]: "\<exists>y. registry_get i (registry_register i reg) = Some y"
  using map_of_reset [of reg i False]
  by (cases "map_of reg i") (auto simp: registry_get_def registry_register_def map_add_def)

lemma emit_registry [simp]: "mg_registry (snd (emit cf es m)) = mg_registry m"
  by (simp add: emit_def)

lemma start_run_as_Inr:
  assumes "start_run_as cf w a s ctx p n m = (Inr r, m')"
  shows "\<exists>r0 c. insert_run cf w a s ctx p n (mg_store m) = Inr ((r0, c), mg_store m') \<and> r = run_from_record r0 \<and>
    registry_get (run_id r) (mg_registry m') \<noteq> None"
proof -
  from assms obtain r0 c st where ins: "insert_run cf w a s ctx p n (mg_store m) = Inr ((r0, c), st)"
    by (auto simp: start_run_as_def op_bind_def transact_def split: sum.splits)
  with assms have "r = run_from_record r0" "mg_store m' = st" "registry_get (run_id r0) (mg_registry m') \<noteq> None"
    by (auto simp: start_run_as_def op_bind_def transact_def emit_def op_return_def Let_def
        split: if_splits)
  with ins show ?thesis by (auto simp: run_from_record_def)
qed

lemma lifecycle_finish_terminal':
  assumes "fst (finish_run cf w i f s reason ty p pl sev m) \<noteq> Inl IntegrityError"
    "\<And>r. run_id (f r) = run_id r" "\<And>r. terminal (f r)"
    and "run_get i (mg_store (snd (finish_run cf w i f s reason ty p pl sev m))) = Some r"
  shows "terminal r"
proof -
  have "fst (finish_run cf w i f s reason ty p pl sev m) = Inr ()"
    using assms(1) finish_run_Inl by (cases "fst (finish_run cf w i f s reason ty p pl sev m)") auto
  with lifecycle_finish_terminal [OF this assms(2,3)] assms(4) show ?thesis by blast
qed

lemma terminal_finish [simp]:
  "terminal (succeeded now resp r)" "terminal (cancelled now r)" "terminal (failed now e r)"
  "run_id (succeeded now resp r) = run_id r" "run_id (cancelled now r) = run_id r" "run_id (failed now e r) = run_id r"
  by (simp_all add: terminal_def TERMINAL_RUN_STATUSES_def succeeded_def cancelled_def failed_def)

text \<open>
  How a finishing operation ends: the run is finished, or the database has refused the checkpoint and
  nothing has changed. A cancellation in it adds one more way: before the commit nothing has changed.
\<close>

definition finishes :: "uuid \<Rightarrow> unit op \<Rightarrow> bool" where
  "finishes i p \<longleftrightarrow> (\<forall>m. (fst (p m) = Inr () \<and> (\<forall>r. run_get i (mg_store (snd (p m))) = Some r \<longrightarrow> terminal r)) \<or>
     (fst (p m) = Inl IntegrityError \<and> snd (p m) = m))"

lemma finish_run_finishes:
  assumes "\<And>r. run_id (f r) = run_id r" "\<And>r. terminal (f r)"
  shows "finishes i (finish_run cf w i f s reason ty p pl sev)"
  unfolding finishes_def
proof
  fix m
  let ?out = "finish_run cf w i f s reason ty p pl sev m"
  show "(fst ?out = Inr () \<and> (\<forall>r. run_get i (mg_store (snd ?out)) = Some r \<longrightarrow> terminal r)) \<or>
     (fst ?out = Inl IntegrityError \<and> snd ?out = m)"
  proof (cases "fst ?out")
    case (Inl e)
    then have "snd ?out = m"
      by (auto simp: finish_run_def op_bind_def transact_def emit_def split: option.splits if_splits prod.splits sum.splits)
    with Inl finish_run_Inl [OF Inl] show ?thesis by simp
  next
    case (Inr u)
    then have "fst ?out = Inr ()" by simp
    with lifecycle_finish_terminal [OF this assms] show ?thesis by blast
  qed
qed

lemma finishes_each:
  "finishes i (finish_succeeded cf w i resp)" "finishes i (finish_cancelled cf w i)" "finishes i (finish_failed cf w i e)"
  unfolding finish_defs by (intro finish_run_finishes; simp)+

definition ended_run :: "uuid \<Rightarrow> cut option \<Rightarrow> manager \<Rightarrow> (exn + unit) \<times> manager \<Rightarrow> bool" where
  "ended_run i c m out \<longleftrightarrow> (\<forall>r. run_get i (mg_store (snd out)) = Some r \<longrightarrow> terminal r) \<or>
     (mg_store (snd out) = mg_store m \<and>
      (fst out = Inl IntegrityError \<or> (fst out = Inl CancelledError \<and> c = Some BeforeCommit)))"

lemma cut_short_ended:
  assumes "\<And>cf. finishes i (p cf)"
  shows "ended_run i c m (cut_short cf c p m)"
proof -
  have f: "(fst (p cf m) = Inr () \<and> (\<forall>r. run_get i (mg_store (snd (p cf m))) = Some r \<longrightarrow> terminal r)) \<or>
     (fst (p cf m) = Inl IntegrityError \<and> snd (p cf m) = m)" for cf
    using assms unfolding finishes_def by blast
  from f [of cf] f [of "unpublished cf"] show ?thesis
    by (cases c; cases "the c")
      (auto simp: ended_run_def cut_short_def op_bind_def op_raise_def split: prod.splits sum.splits)
qed

lemma conclude_run_ended: "ended_run i (en_cut env Concluding i m) m (conclude_run cf env i result m)"
proof -
  let ?c = "en_cut env Concluding i m" and ?w = "en_world env m"
  have raised: "ended_run i ?c m (op_bind (cut_short cf ?c p) (\<lambda>_. op_raise CancelledError) m)"
    if "ended_run i ?c m (cut_short cf ?c p m)" for p :: "config \<Rightarrow> unit op"
    using that by (auto simp: ended_run_def op_bind_def op_raise_def split: prod.split sum.split)
  have ended: "ended_run i ?c m (cut_short cf ?c (\<lambda>cf. finish_succeeded cf ?w i resp) m)"
    "ended_run i ?c m (cut_short cf ?c (\<lambda>cf. finish_cancelled cf ?w i) m)"
    "ended_run i ?c m (cut_short cf ?c (\<lambda>cf. finish_failed cf ?w i msg) m)" for resp msg
    by (intro cut_short_ended finishes_each)+
  show ?thesis
  proof (cases result)
    case (Inl e)
    then show ?thesis using raised [OF ended(2)] ended(3)
      by (cases e) (simp_all add: conclude_run_def with_state_def)
  next
    case (Inr resp)
    then show ?thesis using ended(1) by (simp add: conclude_run_def with_state_def)
  qed
qed

text \<open>Which rows an operation may change: unfinished ones of the given runs.\<close>

definition touches :: "uuid set \<Rightarrow> 'a op \<Rightarrow> bool" where
  "touches A p \<longleftrightarrow> (\<forall>m j. run_get j (mg_store (snd (p m))) = run_get j (mg_store m) \<or>
     (j \<in> A \<and> (\<exists>r. run_get j (mg_store m) = Some r \<and> \<not> terminal r)))"

named_theorems touches_intros \<open>operations that change only unfinished rows of the given runs\<close>

lemma touchesD: "touches A p \<Longrightarrow> j \<notin> A \<Longrightarrow> run_get j (mg_store (snd (p m))) = run_get j (mg_store m)"
  "touches A p \<Longrightarrow> run_get j (mg_store m) = Some r \<Longrightarrow> terminal r \<Longrightarrow> run_get j (mg_store (snd (p m))) = Some r"
  "touches A p \<Longrightarrow> run_get j (mg_store m) = None \<Longrightarrow> run_get j (mg_store (snd (p m))) = None"
  unfolding touches_def by (blast, metis option.inject, metis option.distinct(1))

lemma touches_mono: "touches A p \<Longrightarrow> A \<subseteq> B \<Longrightarrow> touches B p"
  unfolding touches_def by blast

lemma touches_same [touches_intros]: "touches A (op_return x)" "touches A (op_raise e)"
  by (simp_all add: touches_def op_return_def op_raise_def)

lemma touches_bind [touches_intros]:
  assumes "touches A p" "\<And>x. touches A (f x)"
  shows "touches A (op_bind p f)"
  unfolding touches_def
proof (intro allI)
  fix m j
  show "run_get j (mg_store (snd (op_bind p f m))) = run_get j (mg_store m) \<or>
     (j \<in> A \<and> (\<exists>r. run_get j (mg_store m) = Some r \<and> \<not> terminal r))"
  proof (cases "fst (p m)")
    case (Inl e)
    then show ?thesis using assms(1) by (simp add: op_bind_snd touches_def)
  next
    case (Inr x)
    then have "snd (op_bind p f m) = snd (f x (snd (p m)))" by (simp add: op_bind_snd)
    then show ?thesis using assms unfolding touches_def by metis
  qed
qed

lemma touches_state [touches_intros]: "(\<And>m. touches A (p m)) \<Longrightarrow> touches A (with_state p)"
  by (simp add: touches_def with_state_def)

lemma touches_cut [touches_intros]:
  assumes "\<And>cf. touches A (p cf)"
  shows "touches A (cut_short cf c p)"
proof -
  have "touches A (op_bind (p cf') (\<lambda>_. op_raise CancelledError))" for cf'
    by (rule touches_bind [OF assms touches_same(2)])
  with assms show ?thesis
    by (cases c; cases "the c") (simp_all add: touches_def cut_short_def touches_same(2) [unfolded touches_def])
qed

lemma touches_finish_run:
  assumes "\<And>r. run_id (f r) = run_id r" "i \<in> A"
  shows "touches A (finish_run cf w i f s reason ty p pl sev)"
  unfolding touches_def
proof (intro allI)
  fix m j
  let ?m' = "snd (finish_run cf w i f s reason ty p pl sev m)"
  show "run_get j (mg_store ?m') = run_get j (mg_store m) \<or>
     (j \<in> A \<and> (\<exists>r. run_get j (mg_store m) = Some r \<and> \<not> terminal r))"
  proof (cases "mg_store ?m' = mg_store m")
    case False
    then obtain r c where r: "run_get i (mg_store m) = Some r" "run_active r"
      "move_run cf w r f (Some s) reason (mg_store m) = Inr (c, mg_store ?m')"
      using finish_run_moved [of cf w i f s reason m ty p pl sev] unfolding moved_def by blast
    have "run_id r = i" using run_get_in [OF r(1)] by blast
    with move_run_fields(1) [OF r(3)] have rows: "st_runs (mg_store ?m') =
        map (\<lambda>r'. if run_id r' = i then f r' else r') (st_runs (mg_store m))" by simp
    have "run_get j (mg_store ?m') = map_option (\<lambda>r'. if run_id r' = i then f r' else r') (run_get j (mg_store m))"
      unfolding run_get_def rows by (rule row_get_map) (simp add: assms(1))
    then have row: "run_get j (mg_store ?m') = run_get j (mg_store m)" if "j \<noteq> i"
      using that by (cases "run_get j (mg_store m)") (auto dest: run_get_in)
    show ?thesis
    proof (cases "j = i")
      case True
      with r(1,2) assms(2) show ?thesis by (simp add: terminal_not_active)
    qed (use row in simp)
  qed simp
qed

lemma touches_finish [touches_intros]:
  "i \<in> A \<Longrightarrow> touches A (finish_succeeded cf w i resp)" "i \<in> A \<Longrightarrow> touches A (finish_cancelled cf w i)"
  "i \<in> A \<Longrightarrow> touches A (finish_failed cf w i e)"
  unfolding finish_defs by (intro touches_finish_run; simp)+

lemma touches_task_ends [touches_intros]:
  assumes "i \<in> A"
  shows "touches A (task_ends cf env i)"
proof -
  have "touches A (conclude_run cf env i result)" for result
    using assms by (auto simp: conclude_run_def intro!: touches_intros split: sum.split exn.split)
  then show ?thesis by (simp add: touches_def task_ends_def leave_task_def case_prod_beta)
qed

lemma touches_finish_all [touches_intros]:
  "(\<And>i. i \<in> A \<Longrightarrow> touches A (f i)) \<Longrightarrow> set is \<subseteq> A \<Longrightarrow> touches A (finish_all f is)"
  by (induction "is") (auto intro!: touches_intros)

lemma finish_all_rows:
  assumes "\<And>i. finishes i (f i)" "\<And>i. touches {i} (f i)"
  shows "case finish_all f is m of (Inl e, m') \<Rightarrow> e = IntegrityError
    | (Inr u, m') \<Rightarrow> \<forall>i \<in> set is. \<forall>r. run_get i (mg_store m') = Some r \<longrightarrow> terminal r"
proof (induction "is" arbitrary: m)
  case Nil
  then show ?case by (simp add: op_return_def)
next
  case (Cons i "is")
  show ?case
  proof (cases "fst (f i m)")
    case (Inl e)
    with assms(1) [of i] have "e = IntegrityError" unfolding finishes_def by (metis sum.distinct(1) sum.inject(1))
    with Inl show ?thesis by (simp add: op_bind_def case_prod_beta)
  next
    case (Inr u)
    then obtain m1 where m1: "f i m = (Inr (), m1)" by (cases "f i m") simp
    with assms(1) [of i] have fin: "run_get i (mg_store m1) = Some r \<Longrightarrow> terminal r" for r
      unfolding finishes_def by (metis fst_conv snd_conv sum.distinct(1))
    have all: "touches UNIV (finish_all f is)" for "is"
      by (rule touches_finish_all) (use assms(2) touches_mono in blast)+
    have stays: "terminal r" if "run_get i (mg_store (snd (finish_all f is m1))) = Some r" for r
      using that fin touchesD(2,3) [OF all] by (cases "run_get i (mg_store m1)") (metis option.distinct(1) option.inject)+
    show ?thesis using Cons.IH [of m1] stays m1
      by (auto simp: op_bind_def split: prod.splits sum.splits)
  qed
qed

lemma finish_all_failed:
  assumes "run_get j (mg_store m) = Some r" "\<not> terminal r" "j \<in> set is"
    and "finish_all (\<lambda>i. with_state (\<lambda>m. finish_failed cf (en_world env m) i e)) is m = (Inr (), m')"
  shows "\<exists>now. run_get j (mg_store m') = Some (failed now e r)"
  using assms
proof (induction "is" arbitrary: m)
  case (Cons i "is")
  let ?f = "\<lambda>i. with_state (\<lambda>m. finish_failed cf (en_world env m) i e)"
  have t: "touches {i} (?f i)" for i by (intro touches_intros) simp
  from Cons.prems(4) obtain m1 where m1: "?f i m = (Inr (), m1)" and rest: "finish_all ?f is m1 = (Inr (), m')"
    by (auto simp: op_bind_def split: prod.splits sum.splits)
  show ?case
  proof (cases "j = i")
    case True
    have "fst (finish_failed cf (en_world env m) i e m) = Inr ()" using m1 by (simp add: with_state_def)
    from finish_run_row [OF this [unfolded finish_failed_def]] Cons.prems(1,2) True m1
    have "run_get j (mg_store m1) = Some (failed (w_now (en_world env m)) e r)"
      by (simp add: with_state_def finish_failed_def)
    moreover have "touches UNIV (finish_all ?f is)"
      by (rule touches_finish_all) (use t touches_mono in blast)+
    ultimately have "run_get j (mg_store (snd (finish_all ?f is m1))) = Some (failed (w_now (en_world env m)) e r)"
      using touchesD(2) terminal_finish(3) by blast
    with rest show ?thesis by auto
  next
    case False
    with touchesD(1) [OF t, of j i m] m1 Cons.prems(1) have "run_get j (mg_store m1) = Some r" by simp
    with Cons.IH [OF this Cons.prems(2) _ rest] Cons.prems(3) False show ?thesis by simp
  qed
qed simp

lemma finish_all_ends: "\<exists>m'. finish_all (task_ends cf env) is m = (Inr (), m')"
proof (induction "is" arbitrary: m)
  case (Cons i "is")
  have "\<exists>m1. task_ends cf env i m = (Inr (), m1)" by (simp add: task_ends_def)
  with Cons.IH show ?case by (auto simp: op_bind_def)
qed (simp add: op_return_def)

lemma end_task_gone: "registry_get i (mg_registry (snd (end_task i m))) = None" "mg_contexts (snd (end_task i m)) i = None"
  by (auto simp: end_task_def registry_get_def registry_remove_def map_of_eq_None_iff)

lemma parse_references: "list_ex (\<lambda>c. ag_id c \<noteq> i \<and> team_references cf i c) (agent_list st) \<longleftrightarrow>
   (\<exists>c \<in> set (st_agents st). ag_id c \<noteq> i \<and> team_references cf i c)"
  by (auto simp: list_ex_iff agent_list_def)

section \<open>A sample state\<close>

definition sample_config :: config where
  "sample_config = \<lparr>cf_host = sample_host, cf_project = ''p'', cf_recovery = False, cf_events = True,
     cf_max_workers = 4, cf_max_depth = 2\<rparr>"

definition world1 :: world where
  "world1 = \<lparr>w_now = 4, w_uuid4 = (\<lambda>n. n + 5)\<rparr>"

definition world2 :: world where
  "world2 = \<lparr>w_now = 6, w_uuid4 = (\<lambda>n. n + 20)\<rparr>"

definition idle_agent :: agent where
  "idle_agent = \<lparr>ag_id = 5, ag_name = ''a'', ag_description = None, ag_status = AgentIdle,
     ag_model_ref = ''local/default'', ag_graph = [], ag_created_at = 4, ag_updated_at = 4\<rparr>"

definition busy_store :: store where
  "busy_store = empty_store\<lparr>st_agents := [idle_agent\<lparr>ag_status := AgentRunning, ag_updated_at := 6\<rparr>],
     st_runs := [new_run 20 6 5 ''hi'']\<rparr>"

definition sample_m1 :: manager where
  "sample_m1 = mg_do sample_config world1 (OpCreateAgent ''a'' None ''local/default'' []) (new_manager 10)"

definition sample_m2 :: manager where
  "sample_m2 = mg_do sample_config world2 (OpStart 5 ''hi'' None None None) sample_m1"

lemma sample_m1_store: "mg_store sample_m1 = empty_store\<lparr>st_agents := [idle_agent]\<rparr>"
  by (simp add: sample_m1_def create_agent_def transact_store validate_team_graph_def dict_get_or_def
      agent_create_def row_insert_def new_manager_def empty_store_def idle_agent_def world1_def Let_def)

lemma sample_insert:
  "insert_run sample_config world2 5 ''hi'' None None None (mg_store sample_m1) =
   Inr ((new_run 20 6 5 ''hi'', None), busy_store)"
  by (simp add: insert_run_def sample_m1_store empty_store_def agent_get_def idle_agent_def
      validate_team_graph_def dict_get_or_def has_active_def run_create_def new_run_def row_insert_def
      set_agent_status_def agent_update_def row_update_def agent_touch_def initial_checkpoint_def
      record_delegation_def run_get_def sample_config_def world2_def busy_store_def guard_def Let_def)

lemma sample_start:
  "\<exists>m'. start_run sample_config world2 5 ''hi'' sample_m1 = (Inr (new_run 20 6 5 ''hi''), m') \<and> m' = sample_m2"
  by (simp add: sample_m2_def start_run_def start_run_as_def op_bind_def transact_def sample_insert
      emit_def op_return_def run_from_record_def new_run_def Let_def)

lemma sample_m2_store: "mg_store sample_m2 = busy_store"
  using sample_start start_run_as_Inr [of sample_config world2 5 "''hi''" None None None sample_m1]
  by (fastforce simp: start_run_def sample_insert)

lemma sample_reachable: "reachable sample_config sample_m1" "reachable sample_config sample_m2"
proof -
  have a: "mg_step sample_config (new_manager 10) sample_m1"
    unfolding sample_m1_def by (rule mg_step.step) simp
  have b: "mg_step sample_config sample_m1 sample_m2"
    unfolding sample_m2_def by (rule mg_step.step) simp
  from a show r: "reachable sample_config sample_m1" unfolding reachable_def by blast
  from r b show "reachable sample_config sample_m2"
    unfolding reachable_def by (meson rtranclp.rtrancl_into_rtrancl)
qed

definition quiet_env :: environment where
  "quiet_env = \<lparr>en_world = (\<lambda>m. world2), en_cancel = (\<lambda>i m. True), en_wait = (\<lambda>i m. (None, m)),
     en_cut = (\<lambda>_ _ _. None), en_result = (\<lambda>_ _. Inl CancelledError)\<rparr>"

lemma sample_marked:
  assumes "mg_store m = busy_store"
  shows "\<exists>r m1. run_task sample_config quiet_env (\<lambda>ex m. (Inl TimeoutError, m)) 20 m = (Inl TimeoutError, m1) \<and>
    run_get 20 (mg_store m1) = Some r \<and> run_status r = Running \<and> agent_get (run_agent_id r) (mg_store m1) \<noteq> None"
  using assms by (simp add: run_task_def with_state_def cut_short_def quiet_env_def mark_running_def op_bind_def transact_def
      busy_store_def run_get_def new_run_def run_active_def run_update_def row_update_def lifecycle_checkpoint_def
      sample_config_def emit_def op_return_def get_agent_def query_def agent_get_def idle_agent_def run_from_record_def
      validate_team_graph_def dict_get_or_def empty_store_def checkpoint_events_def ebind_def)

lemma sample_failed:
  assumes "run_get 20 (mg_store m) = Some r" "run_status r \<notin> TERMINAL_RUN_STATUSES"
  shows "\<exists>m'. finish_failed sample_config w 20 e m = (Inr (), m') \<and> run_get 20 (mg_store m') = Some (failed (w_now w) e r)"
  using assms conjunct2 [OF run_get_in [OF assms(1)]]
  by (simp add: finish_failed_def finish_run_def op_bind_def transact_def
      lifecycle_checkpoint_def sample_config_def emit_def set_agent_status_def agent_update_def run_update_def
      row_update_def run_get_def row_get_map failed_def)

definition late_env :: environment where
  \<comment> \<open>no cancelled task ends in time\<close>
  "late_env = quiet_env\<lparr>en_cancel := (\<lambda>i m. False)\<rparr>"

lemma sample_m2_registry: "mg_registry sample_m2 = [(20, False)]"
  by (simp add: sample_m2_def start_run_as_def op_bind_def transact_def sample_insert emit_def op_return_def
      registry_register_def new_run_def Let_def)
    (simp add: sample_m1_def create_agent_def transact_def new_manager_def split: sum.split)

section \<open>Properties\<close>

text \<open>
  C1: in every state the manager can reach, under any interleaving of requests, tasks and recovery:
  ids are unique and every run has its agent; an agent has at most one active run, and its status is
  running exactly when it has one; a run is finished exactly when it carries a finishing time, has an
  output exactly when it succeeded and an error exactly when it failed; delegations go from older to
  younger runs and give each run at most one parent; the checkpoints of a run are numbered 1, 2, 3
  and so on without a gap.
\<close>

theorem reachable_tables_consistent:
  assumes "reachable cf m"
  shows "store_inv (mg_store m)"
  using assms by (rule reachable_inv)

theorem reachable_tables_consistent_witness:
  "store_inv (mg_store sample_m2) \<and> map run_id (st_runs (mg_store sample_m2)) = [20]"
  using reachable_tables_consistent [OF sample_reachable(2)]
  by (simp add: sample_m2_store busy_store_def new_run_def)

text \<open>
  C2: no step of the manager changes a finished run in any column as long as its row exists, and no
  step changes the agent or the input of any run or puts a run back into the queue.
\<close>

theorem finished_runs_never_change:
  assumes "reachable cf m" "mg_step cf m m'"
    and "run_get i (mg_store m) = Some r" "run_get i (mg_store m') = Some r'"
  shows "(run_status r \<in> TERMINAL_RUN_STATUSES \<longrightarrow> r' = r) \<and> run_agent_id r' = run_agent_id r \<and>
    run_input_text r' = run_input_text r \<and> (run_status r' = Queued \<longrightarrow> run_status r = Queued)"
  using step_settled [OF assms(1,2)] assms(3,4) by (simp add: settled_def terminal_def)

theorem finished_runs_never_change_witness:
  "\<exists>r'. run_get 20 (mg_store (mg_do sample_config world2 (OpCancel 20) sample_m2)) = Some r' \<and>
     run_agent_id r' = 5 \<and> run_input_text r' = ''hi''"
proof -
  have s: "mg_step sample_config sample_m2 (mg_do sample_config world2 (OpCancel 20) sample_m2)"
    by (rule mg_step.step) simp
  have r: "run_get 20 (mg_store sample_m2) = Some (new_run 20 6 5 ''hi'')"
    by (simp add: sample_m2_store busy_store_def run_get_def new_run_def)
  have "\<exists>r'. run_get 20 (mg_store (mg_do sample_config world2 (OpCancel 20) sample_m2)) = Some r'"
    using r by (simp add: finish_cancelled_def finish_run_def new_run_def TERMINAL_RUN_STATUSES_def op_bind_store
        transact_store lifecycle_checkpoint_def sample_config_def set_agent_status_def cancelled_def)
  then show ?thesis
    using finished_runs_never_change [OF sample_reachable(2) s r] by (auto simp: new_run_def)
qed

text \<open>
  The history of a run's status never leaves a final status: along any sequence of status changes
  the manager's steps can make, a succeeded, failed or cancelled status stays what it is.
\<close>

theorem final_status_is_final:
  assumes "status_moves\<^sup>*\<^sup>* s t" "s \<in> TERMINAL_RUN_STATUSES"
  shows "t = s"
  using assms by (rule run_life.final_stays_run)

theorem final_status_is_final_witness:
  "{t. status_moves\<^sup>*\<^sup>* Cancelled t} = {Cancelled}"
  using final_status_is_final [of Cancelled] by (auto simp: TERMINAL_RUN_STATUSES_def)

text \<open>
  C4: shutting down cancels every live task. Unless the database refuses a checkpoint, afterwards every run
  that had a live task is finished, also one whose task never began, was cut short while it recorded its
  end, or did not end in time, and the answer is whether all tasks ended in time; a run whose task did not
  is failed with that reason. No other run changes, and no finished one.
\<close>

theorem shutdown_finishes_every_live_run:
  assumes "shutdown cf env m = (outcome, m')"
  shows "(\<forall>j. run_get j (mg_store m') \<noteq> run_get j (mg_store m) \<longrightarrow> registry_get j (mg_registry m) \<noteq> None \<and>
      (\<exists>r. run_get j (mg_store m) = Some r \<and> run_status r \<notin> TERMINAL_RUN_STATUSES)) \<and>
    (case outcome of
       Inl e \<Rightarrow> e = IntegrityError
     | Inr in_time \<Rightarrow>
         in_time = (\<forall>j. registry_get j (mg_registry m) \<noteq> None \<longrightarrow> en_cancel env j m) \<and>
         (\<forall>j r'. registry_get j (mg_registry m) \<noteq> None \<and> run_get j (mg_store m') = Some r' \<longrightarrow>
            run_status r' \<in> TERMINAL_RUN_STATUSES \<and>
            (\<forall>r. \<not> en_cancel env j m \<and> run_get j (mg_store m) = Some r \<and> run_status r \<notin> TERMINAL_RUN_STATUSES \<longrightarrow>
               (\<exists>now. r' = failed now ''Run cancellation timed out during shutdown'' r))))"
proof -
  let ?ids = "map fst (mg_registry m)" and ?e = "''Run cancellation timed out during shutdown''"
  let ?done = "filter (\<lambda>i. en_cancel env i m) ?ids" and ?late = "filter (\<lambda>i. \<not> en_cancel env i m) ?ids"
  let ?fc = "\<lambda>i. with_state (\<lambda>m. finish_cancelled cf (en_world env m) i)"
  let ?ff = "\<lambda>i. with_state (\<lambda>m. finish_failed cf (en_world env m) i ?e)"
  have live: "registry_get j (mg_registry m) \<noteq> None \<longleftrightarrow> j \<in> set ?ids" for j
    by (simp add: registry_get_def map_of_eq_None_iff)
  have touch: "touches (set ?ids) (finish_all (task_ends cf env) ?done)" "touches (set ?done) (finish_all (task_ends cf env) ?done)"
    "touches (set ?ids) (finish_all ?fc ?done)" "touches (set ?done) (finish_all ?fc ?done)"
    "touches (set ?ids) (finish_all ?ff ?late)"
    by (rule touches_finish_all; auto intro!: touches_intros)+
  have one: "touches {i} (?fc i)" "touches {i} (?ff i)" "finishes i (?fc i)" "finishes i (?ff i)" for i
    using finishes_each by (auto intro!: touches_intros simp: finishes_def with_state_def)
  obtain m1 where m1: "finish_all (task_ends cf env) ?done m = (Inr (), m1)" using finish_all_ends by blast
  obtain o2 m2 where m2: "finish_all ?fc ?done m1 = (o2, m2)" by fastforce
  obtain o3 m3 where m3: "finish_all ?ff ?late m2 = (o3, m3)" by fastforce
  have res: "(outcome, m') = (case o2 of Inl e \<Rightarrow> (Inl e, m2) | Inr _ \<Rightarrow> (case o3 of Inl e \<Rightarrow> (Inl e, m3)
      | Inr _ \<Rightarrow> (Inr (?late = []), m3)))"
    using assms m1 m2 m3
    by (cases o2; cases o3) (simp_all add: shutdown_def cancel_all_def Let_def op_bind_def op_return_def)
  have change: "run_get j (mg_store m') = run_get j (mg_store m) \<or>
      j \<in> set ?ids \<and> (\<exists>r. run_get j (mg_store m) = Some r \<and> \<not> terminal r)" for j
  proof -
    have "m' = m2 \<or> m' = m3" using res by (auto split: sum.splits)
    moreover have "run_get j (mg_store m1) = run_get j (mg_store m) \<or>
        j \<in> set ?ids \<and> (\<exists>r. run_get j (mg_store m) = Some r \<and> \<not> terminal r)"
      using touch(1) m1 unfolding touches_def by (metis snd_conv)
    moreover have "run_get j (mg_store m2) = run_get j (mg_store m1) \<or>
        j \<in> set ?ids \<and> (\<exists>r. run_get j (mg_store m1) = Some r \<and> \<not> terminal r)"
      using touch(3) m2 unfolding touches_def by (metis snd_conv)
    moreover have "run_get j (mg_store m3) = run_get j (mg_store m2) \<or>
        j \<in> set ?ids \<and> (\<exists>r. run_get j (mg_store m2) = Some r \<and> \<not> terminal r)"
      using touch(5) m3 unfolding touches_def by (metis snd_conv)
    ultimately show ?thesis by metis
  qed
  have refused: "e = IntegrityError" if "outcome = Inl e" for e
    using that res finish_all_rows [OF one(3,1), of ?done m1] finish_all_rows [OF one(4,2), of ?late m2] m2 m3
    by (auto split: sum.splits)
  have finished: "in_time = (?late = []) \<and> (\<forall>j \<in> set ?ids. \<forall>r'. run_get j (mg_store m') = Some r' \<longrightarrow> terminal r' \<and>
      (\<forall>r. \<not> en_cancel env j m \<and> run_get j (mg_store m) = Some r \<and> \<not> terminal r \<longrightarrow> (\<exists>now. r' = failed now ?e r)))"
    if "outcome = Inr in_time" for in_time
  proof -
    from that res have o: "o2 = Inr ()" "o3 = Inr ()" "in_time = (?late = [])" "m' = m3" by (auto split: sum.splits)
    have ends: "terminal r'" if "j \<in> set ?ids" "run_get j (mg_store m3) = Some r'" for j r'
    proof (cases "j \<in> set ?done")
      case True
      with finish_all_rows [OF one(3,1), of ?done m1] m2 o(1)
      have "\<forall>r. run_get j (mg_store m2) = Some r \<longrightarrow> terminal r" by simp
      with touchesD(2,3) [OF touch(5), of j m2] m3 \<open>run_get j (mg_store m3) = Some r'\<close> show ?thesis
        by (cases "run_get j (mg_store m2)") auto
    next
      case False
      with that(1) have "j \<in> set ?late" by auto
      with finish_all_rows [OF one(4,2), of ?late m2] m3 o(2) that(2) show ?thesis by simp
    qed
    have fails: "\<exists>now. run_get j (mg_store m3) = Some (failed now ?e r)"
      if "j \<in> set ?ids" "\<not> en_cancel env j m" "run_get j (mg_store m) = Some r" "\<not> terminal r" for j r
    proof -
      from that(1,2) have "j \<notin> set ?done" "j \<in> set ?late" by auto
      with touchesD(1) [OF touch(2), of j m] touchesD(1) [OF touch(4), of j m1] m1 m2 that(3)
      have "run_get j (mg_store m2) = Some r" by simp
      from finish_all_failed [OF this that(4) \<open>j \<in> set ?late\<close>] m3 o(2) show ?thesis by simp
    qed
    show ?thesis using o(3,4) ends fails by (metis option.inject)
  qed
  show ?thesis
  proof (rule conjI)
    show "\<forall>j. run_get j (mg_store m') \<noteq> run_get j (mg_store m) \<longrightarrow> registry_get j (mg_registry m) \<noteq> None \<and>
        (\<exists>r. run_get j (mg_store m) = Some r \<and> run_status r \<notin> TERMINAL_RUN_STATUSES)"
      unfolding live terminal_def [symmetric] using change by blast
    show "case outcome of
        Inl e \<Rightarrow> e = IntegrityError
      | Inr in_time \<Rightarrow>
          in_time = (\<forall>j. registry_get j (mg_registry m) \<noteq> None \<longrightarrow> en_cancel env j m) \<and>
          (\<forall>j r'. registry_get j (mg_registry m) \<noteq> None \<and> run_get j (mg_store m') = Some r' \<longrightarrow>
             run_status r' \<in> TERMINAL_RUN_STATUSES \<and>
             (\<forall>r. \<not> en_cancel env j m \<and> run_get j (mg_store m) = Some r \<and> run_status r \<notin> TERMINAL_RUN_STATUSES \<longrightarrow>
                (\<exists>now. r' = failed now ?e r)))"
    proof (cases outcome)
      case (Inl e)
      with refused [OF Inl] show ?thesis by simp
    next
      case (Inr in_time)
      have "(?late = []) = (\<forall>j. registry_get j (mg_registry m) \<noteq> None \<longrightarrow> en_cancel env j m)"
        unfolding live filter_empty_conv by auto
      with finished [OF Inr] show ?thesis unfolding Inr sum.case live terminal_def by blast
    qed
  qed
qed

theorem shutdown_finishes_every_live_run_witness:
  "\<exists>m'. shutdown sample_config late_env sample_m2 = (Inr False, m') \<and>
     map_option run_error (run_get 20 (mg_store m')) = Some (Some ''Run cancellation timed out during shutdown'')"
proof -
  let ?e = "''Run cancellation timed out during shutdown''"
  have row: "run_get 20 (mg_store sample_m2) = Some (new_run 20 6 5 ''hi'')"
    "run_status (new_run 20 6 5 ''hi'') \<notin> TERMINAL_RUN_STATUSES"
    by (simp_all add: sample_m2_store busy_store_def run_get_def new_run_def TERMINAL_RUN_STATUSES_def)
  obtain m' where f: "finish_failed sample_config world2 20 ?e sample_m2 = (Inr (), m')"
    "run_get 20 (mg_store m') = Some (failed (w_now world2) ?e (new_run 20 6 5 ''hi''))" using sample_failed [OF row] by blast
  have s: "shutdown sample_config late_env sample_m2 = (Inr False, m')"
    using f(1) by (simp add: shutdown_def cancel_all_def sample_m2_registry late_env_def quiet_env_def op_bind_def
        op_return_def with_state_def)
  have "registry_get 20 (mg_registry sample_m2) \<noteq> None" "\<not> en_cancel late_env 20 sample_m2"
    by (simp_all add: sample_m2_registry registry_get_def late_env_def)
  with shutdown_finishes_every_live_run [OF s] row f(2)
  obtain now where "run_get 20 (mg_store m') = Some (failed now ?e (new_run 20 6 5 ''hi''))" by fastforce
  with s show ?thesis by (simp add: failed_def)
qed

text \<open>
  C11: stopping a run from a reachable state never recurses deeper than twice the number of runs; and
  when it returns a run, that run is the one asked for, it is finished, and it is what the table
  holds.
\<close>

theorem stop_run_returns_finished_run:
  assumes "reachable cf m" "2 * length (st_runs (mg_store m)) < fuel"
  shows "fst (stop_run cf env fuel i m) \<noteq> Inl (RuntimeError ''RecursionError'') \<and>
    (\<forall>r m'. stop_run cf env fuel i m = (Inr r, m') \<longrightarrow> run_id r = i \<and> run_status r \<in> TERMINAL_RUN_STATUSES \<and>
       (\<exists>r0. run_get i (mg_store m') = Some r0 \<and> r = run_from_record r0))"
proof -
  let ?st = "mg_store m"
  have "2 * rank (run_ids ?st) i + 1 \<le> fuel"
    using assms(2) rank_le [of "run_ids ?st" i] by (simp add: run_ids_def)
  moreover have "same_forest (run_ids ?st) (st_delegations ?st) m" by (simp add: same_forest_def)
  ultimately have "no_overflow (stop_run cf env fuel i) m"
    using stop_no_overflow [OF store_inv_falling [OF reachable_inv [OF assms(1)]]] by blast
  then show ?thesis using stop_run_result by (simp add: no_overflow_def terminal_def)
qed

theorem stop_run_returns_finished_run_witness:
  "fst (stop_run sample_config quiet_env 9 20 sample_m2) \<noteq> Inl (RuntimeError ''RecursionError'')"
  using stop_run_returns_finished_run [OF sample_reachable(2), of 9]
  by (simp add: sample_m2_store busy_store_def)

text \<open>
  C8: once the task of a run has begun and has ended, its handle and its delegation context are gone.
  The run is finished, whatever the body of the task did, in whatever way it ended and wherever in it a
  cancellation arrived, with two exceptions, in which its row is as the body left it: the database
  refused the last checkpoint, or a cancellation arrived while the end was being recorded, before its
  commit (such a run is finished by the one that cancels: C4 and C11; so is a run whose task was
  cancelled before it began, which runs no code and keeps its handle).
\<close>

theorem executed_run_is_finished:
  assumes "execute_run cf env runtime i m = (outcome, m')"
    and "run_task cf env runtime i (snd (begin_task i m)) = (result, m1)"
  shows "registry_get i (mg_registry m') = None \<and> mg_contexts m' i = None \<and>
    ((\<forall>r. run_get i (mg_store m') = Some r \<longrightarrow> run_status r \<in> TERMINAL_RUN_STATUSES) \<or>
     (mg_store m' = mg_store m1 \<and> (outcome = Inl IntegrityError \<or>
       (outcome = Inl CancelledError \<and> en_cut env Concluding i m1 = Some BeforeCommit))))"
proof -
  from assms have c: "outcome = fst (conclude_run cf env i result m1)"
    "m' = snd (end_task i (snd (conclude_run cf env i result m1)))"
    by (auto simp: execute_run_def leave_task_def case_prod_beta)
  have "registry_get i (mg_registry m') = None" "mg_contexts m' i = None" unfolding c(2) by (rule end_task_gone)+
  with conclude_run_ended [of i env m1 cf result] c show ?thesis by (simp add: ended_run_def terminal_def)
qed

theorem executed_run_is_finished_witness:
  "\<exists>m'. execute_run sample_config quiet_env (\<lambda>ex m. (Inl TimeoutError, m)) 20 sample_m2 = (Inr (), m') \<and>
     registry_get 20 (mg_registry m') = None \<and> map_option run_status (run_get 20 (mg_store m')) = Some Failed"
proof -
  let ?rt = "\<lambda>ex m. (Inl TimeoutError, m)" and ?m0 = "snd (begin_task 20 sample_m2)"
  have "mg_store ?m0 = busy_store" by (simp add: sample_m2_store)
  from sample_marked [OF this] obtain r m1 where t: "run_task sample_config quiet_env ?rt 20 ?m0 = (Inl TimeoutError, m1)"
    and r: "run_get 20 (mg_store m1) = Some r" "run_status r = Running" by blast
  obtain m2 where f: "finish_failed sample_config world2 20 (error_text TimeoutError) m1 = (Inr (), m2)"
    "run_get 20 (mg_store m2) = Some (failed 6 (error_text TimeoutError) r)"
    using sample_failed [OF r(1), of world2] r(2) by (auto simp: world2_def TERMINAL_RUN_STATUSES_def)
  then have c: "conclude_run sample_config quiet_env 20 (Inl TimeoutError) m1 = (Inr (), m2)"
    by (simp add: conclude_run_def with_state_def quiet_env_def cut_short_def)
  let ?m' = "snd (end_task 20 m2)"
  have e: "execute_run sample_config quiet_env ?rt 20 sample_m2 = (Inr (), ?m')"
    by (simp only: execute_run_def t prod.case leave_task_def c)
  have "map_option run_status (run_get 20 (mg_store ?m')) = Some Failed" using f(2) by simp
  with executed_run_is_finished [OF e t] e show ?thesis by blast
qed

text \<open>
  C12: starting a run fails without any effect, or else the agent exists, had no active run and now
  runs; exactly one run is added, queued, with the given input; and a live task is registered for it.
\<close>

theorem start_run_all_or_nothing:
  assumes "start_run cf w a input m = (result, m')"
  shows "case result of
      Inl e \<Rightarrow> m' = m
    | Inr r \<Rightarrow> agent_get a (mg_store m) \<noteq> None \<and> \<not> has_active a (mg_store m) \<and> has_active a (mg_store m') \<and>
        (\<exists>spec. st_runs (mg_store m') = st_runs (mg_store m) @
           [(new_run (run_id r) (w_now w) a input)\<lparr>run_execution_spec := spec\<rparr>]) \<and>
        (\<forall>ag. agent_get a (mg_store m') = Some ag \<longrightarrow> ag_status ag = AgentRunning) \<and>
        registry_get (run_id r) (mg_registry m') \<noteq> None"
proof (cases result)
  case (Inl e)
  from start_run_as_Inl [OF assms [unfolded start_run_def Inl]] Inl show ?thesis by simp
next
  case (Inr r)
  from start_run_as_Inr [OF assms [unfolded start_run_def Inr]] obtain r0 c where
    ins: "insert_run cf w a input None None None (mg_store m) = Inr ((r0, c), mg_store m')"
    and r: "r = run_from_record r0" and reg: "registry_get (run_id r) (mg_registry m') \<noteq> None"
    by blast
  from insert_run_Inr [OF ins option.distinct(1)] obtain spec where
    e: "agent_get a (mg_store m) \<noteq> None" "\<not> has_active a (mg_store m)"
      "r0 = (new_run (w_uuid4 w 0) (w_now w) a input)\<lparr>run_execution_spec := spec\<rparr>"
      "st_runs (mg_store m') = st_runs (mg_store m) @ [r0]"
      "st_agents (mg_store m') = map (\<lambda>b. if ag_id b = a then agent_touch (w_now w) (\<lambda>a. a\<lparr>ag_status := AgentRunning\<rparr>) b else b)
         (st_agents (mg_store m))" by blast
  have id: "run_id r = w_uuid4 w 0" using r e(3) by (simp add: run_from_record_def new_run_def)
  have "ag_status ag = AgentRunning" if "agent_get a (mg_store m') = Some ag" for ag
  proof -
    note g = row_get_Some [OF that [unfolded agent_get_def]]
    from conjunct1 [OF g] obtain b where "ag = (if ag_id b = a
        then agent_touch (w_now w) (\<lambda>a. a\<lparr>ag_status := AgentRunning\<rparr>) b else b)"
      unfolding e(5) set_map by (rule imageE)
    then show ?thesis using conjunct2 [OF g] by (simp split: if_splits)
  qed
  moreover have "has_active a (mg_store m')"
    using e(3,4) by (auto simp: has_active_iff new_run_def run_active_def)
  moreover have "st_runs (mg_store m') = st_runs (mg_store m) @
      [(new_run (run_id r) (w_now w) a input)\<lparr>run_execution_spec := spec\<rparr>]"
    using e(3,4) id by simp
  ultimately show ?thesis using e(1,2) reg unfolding Inr sum.case by blast
qed

theorem start_run_all_or_nothing_witness:
  "\<exists>m'. start_run sample_config world2 5 ''hi'' sample_m1 = (Inr (new_run 20 6 5 ''hi''), m') \<and> has_active 5 (mg_store m')"
proof -
  from sample_start have s: "start_run sample_config world2 5 ''hi'' sample_m1 = (Inr (new_run 20 6 5 ''hi''), sample_m2)"
    by blast
  from start_run_all_or_nothing [OF s] s show ?thesis by auto
qed

text \<open>
  An agent is deleted exactly when it exists, has no active run and is no worker of a team graph
  of another agent; then no row of it or of its runs is left, and otherwise nothing changes.
\<close>

theorem delete_agent_exactly_when_unused:
  assumes "delete_agent cf i m = (result, m')"
  shows "(result = Inr () \<longleftrightarrow> agent_get i (mg_store m) \<noteq> None \<and> \<not> has_active i (mg_store m) \<and>
      (\<forall>c \<in> set (st_agents (mg_store m)). ag_id c \<noteq> i \<longrightarrow> \<not> team_references cf i c)) \<and>
    (result = Inr () \<longrightarrow> agent_get i (mg_store m') = None \<and> (\<forall>r \<in> set (st_runs (mg_store m')). run_agent_id r \<noteq> i) \<and>
      (\<forall>d \<in> set (st_delegations (mg_store m')). run_get (dg_child_run_id d) (mg_store m') \<noteq> None)) \<and>
    (result \<noteq> Inr () \<longrightarrow> m' = m)"
proof -
  let ?st = "mg_store m"
  have res: "(result, m') = (case agent_get i ?st of None \<Rightarrow> (Inl AgentNotFoundError, m)
      | Some a \<Rightarrow> if has_active i ?st then (Inl (LifecycleConflictError ''An active run prevents deleting this agent''), m)
         else if \<exists>c \<in> set (st_agents ?st). ag_id c \<noteq> i \<and> team_references cf i c
         then (Inl (LifecycleConflictError ''A team graph references this agent''), m)
         else (Inr (), m\<lparr>mg_store := agent_delete i ?st\<rparr>))"
    using assms by (auto simp: delete_agent_def transact_def parse_references split: option.splits if_splits)
  have gone: "agent_get i (agent_delete i ?st) = None" "\<forall>r \<in> set (st_runs (agent_delete i ?st)). run_agent_id r \<noteq> i"
    "\<forall>d \<in> set (st_delegations (agent_delete i ?st)). run_get (dg_child_run_id d) (agent_delete i ?st) \<noteq> None"
    by (auto simp: agent_delete_def Let_def agent_get_def run_get_def row_get_delete)
  show ?thesis using res gone by (auto split: option.splits if_splits)
qed

theorem delete_agent_exactly_when_unused_witness:
  "\<exists>m'. delete_agent sample_config 5 sample_m1 = (Inr (), m') \<and> agent_get 5 (mg_store m') = None"
proof -
  obtain result m' where d: "delete_agent sample_config 5 sample_m1 = (result, m')" by fastforce
  from delete_agent_exactly_when_unused [OF d] d show ?thesis
    by (auto simp: sample_m1_store agent_get_def has_active_def empty_store_def idle_agent_def)
qed

text \<open>
  C16: in a reachable state the tree of an existing run is always found: both loops end within as many
  turns as there are runs, no row is missing, the tree is rooted at the topmost ancestor, and its
  nodes are exactly the runs reachable from there by delegations, the given run among them.
\<close>

theorem run_tree_is_the_family:
  assumes "reachable cf m" "run_get i (mg_store m) \<noteq> None"
  shows "\<exists>t origin. run_tree (Suc (length (st_runs (mg_store m)))) i (mg_store m) = Some (Inr t) \<and>
    list_for_child origin (mg_store m) = [] \<and> (origin, i) \<in> (child_rel (mg_store m))\<^sup>* \<and>
    tree_ids t = {j. (origin, j) \<in> (child_rel (mg_store m))\<^sup>*} \<and> i \<in> tree_ids t"
proof -
  have "i \<in> set (run_ids (mg_store m))"
    using assms(2) by (auto simp: run_get_def row_get_None_iff run_ids_def)
  from run_tree_correct [OF reachable_inv [OF assms(1)] this] show ?thesis by blast
qed

theorem run_tree_is_the_family_witness:
  "\<exists>t. run_tree 2 20 (mg_store sample_m2) = Some (Inr t) \<and> 20 \<in> tree_ids t"
proof -
  have "run_get 20 (mg_store sample_m2) \<noteq> None" "length (st_runs (mg_store sample_m2)) = 1"
    by (simp_all add: sample_m2_store busy_store_def run_get_def new_run_def)
  with run_tree_is_the_family [OF sample_reachable(2), of 20] show ?thesis
    by (auto simp: numeral_2_eq_2 simp del: run_tree_def)
qed

text \<open>
  A team whose workers are run by the manager succeeds only below the depth limit and only if
  none of its workers is the team's own agent or one of its ancestors: delegation cannot loop.
\<close>

theorem successful_team_never_delegates_back:
  assumes "distinct (map tn_id (tg_nodes g))"
    and "run_graph pick settings (manager_port cf env fuel state_at) g ex ctx (tg_nodes g) Map.empty = Inr outs"
    and "n \<in> set (tg_nodes g)"
  shows "dc_depth ctx < cf_max_depth cf \<and> tn_agent_id n \<noteq> ex_agent_id ex \<and> tn_agent_id n \<notin> set (dc_ancestry ctx)"
  using assms(2,1,3) by (rule manager_delegation.team_safe)

text \<open>A team run of agent 7 with one worker, agent 5, whose task succeeds.\<close>

definition family :: manager where
  "family = (new_manager 10)\<lparr>mg_store := empty_store\<lparr>st_agents := [idle_agent, idle_agent\<lparr>ag_id := 7\<rparr>],
     st_runs := [new_run 6 0 7 ''team'']\<rparr>\<rparr>"

definition done_response :: model_response where
  "done_response = \<lparr>mr_content = ''ok'', mr_provider_id = ''ollama'', mr_model_id = ''m'', mr_finish_reason = None,
     mr_usage = no_usage, mr_latency_ms = None\<rparr>"

definition done_env :: environment where
  "done_env = quiet_env\<lparr>en_wait := (\<lambda>i m. (None, m\<lparr>mg_store := run_update i (succeeded 8 done_response) (mg_store m)\<rparr>))\<rparr>"

definition family_execution :: execution_request where
  "family_execution = sample_execution\<lparr>ex_agent_id := 7, ex_run_id := 6\<rparr>"

definition family_team :: team_graph where
  "family_team = \<lparr>tg_nodes = [\<lparr>tn_id = ''w'', tn_label = ''W'', tn_agent_id = 5, tn_instructions = None\<rparr>], tg_edges = []\<rparr>"

lemma family_insert:
  "\<exists>st. insert_run sample_config world2 5 input (Some c) (Some 6) (Some node) (mg_store family) =
     Inr ((new_run 20 6 5 input, None), st) \<and> run_get 20 st = Some (new_run 20 6 5 input)"
  by (simp add: insert_run_def family_def empty_store_def agent_get_def idle_agent_def
      validate_team_graph_def dict_get_or_def has_active_def run_create_def new_run_def row_insert_def
      set_agent_status_def agent_update_def row_update_def agent_touch_def initial_checkpoint_def
      record_delegation_def delegation_create_def run_get_def sample_config_def world2_def guard_def Let_def)

lemma family_child:
  assumes "cr_agent_id cr = 5" "cr_parent_run_id cr = 6" "dc_depth (cr_context cr) = 1" "dc_ancestry (cr_context cr) = [7]"
  shows "\<exists>r. manager_port sample_config done_env 0 (\<lambda>_. family) cr = Inr r \<and> run_status r = Succeeded \<and>
    run_output_text r = Some ''ok''"
proof -
  obtain st where ins: "insert_run sample_config world2 5 (cr_input_text cr) (Some (cr_context cr)) (Some 6)
      (Some (cr_node_id cr)) (mg_store family) = Inr ((new_run 20 6 5 (cr_input_text cr), None), st)"
    and got: "run_get 20 st = Some (new_run 20 6 5 (cr_input_text cr))" using family_insert by blast
  obtain m' where start: "start_run_as sample_config world2 5 (cr_input_text cr) (Some (cr_context cr)) (Some 6)
      (Some (cr_node_id cr)) family = (Inr (run_from_record (new_run 20 6 5 (cr_input_text cr))), m')"
    using ins by (auto simp: start_run_as_def op_bind_def transact_def emit_def op_return_def Let_def)
  from start_run_as_Inr [OF start] ins have st: "mg_store m' = st"
    and reg: "registry_get 20 (mg_registry m') \<noteq> None" by (auto simp: run_from_record_def new_run_def)
  have w: "en_world done_env m = world2" for m by (simp add: done_env_def quiet_env_def)
  have id: "run_id (run_from_record (new_run 20 6 5 (cr_input_text cr))) = 20" by (simp add: run_from_record_def new_run_def)
  have ok: "\<not> cf_max_depth sample_config < dc_depth (cr_context cr)" "cr_agent_id cr \<notin> set (dc_ancestry (cr_context cr))"
    using assms by (simp_all add: sample_config_def)
  have "await_child done_env 20 m' = (Inr None, m'\<lparr>mg_store := run_update 20 (succeeded 8 done_response) st\<rparr>)"
    by (simp add: await_child_def done_env_def st)
  then have "run_child sample_config done_env 0 cr family =
      get_run 20 (m'\<lparr>mg_store := run_update 20 (succeeded 8 done_response) st\<rparr>)"
    using ok start reg assms(1,2) id by (auto simp: run_child_def with_state_def w op_bind_def)
  then show ?thesis
    using got by (simp add: manager_port_def get_run_def query_def)
      (simp add: run_from_record_def succeeded_def done_response_def)
qed

theorem successful_team_never_delegates_back_witness:
  "\<exists>outs. run_graph hd sample_settings (manager_port sample_config done_env 0 (\<lambda>_. family)) family_team
     family_execution sample_context (tg_nodes family_team) Map.empty = Inr outs \<and> (5::nat) \<noteq> 7"
proof -
  let ?port = "manager_port sample_config done_env 0 (\<lambda>_. family)"
  let ?n = "hd (tg_nodes family_team)"
  have "\<exists>r. ?port (child_request_of family_execution sample_context ?n input) = Inr r \<and> run_status r = Succeeded \<and>
      run_output_text r = Some ''ok''" for input
    by (rule family_child) (simp_all add: child_request_of_def family_execution_def family_team_def sample_context_def)
  then obtain r where "?port (child_request_of family_execution sample_context ?n (worker_input
        (ex_input_text family_execution) (tn_instructions ?n) [] (ts_max_context_chars sample_settings))) = Inr r"
      "run_status r = Succeeded" "run_output_text r = Some ''ok''" by blast
  then have "run_node sample_settings ?port family_team family_execution sample_context Map.empty ?n = Inr ''ok''"
    by (simp add: run_node_def predecessors_def) (simp add: family_team_def)
  then have "\<exists>outs. run_graph hd sample_settings ?port family_team
     family_execution sample_context (tg_nodes family_team) Map.empty = Inr outs"
    by (simp add: run_graph.simps is_ready_def predecessors_def family_team_def run_ready_def failures_def
        List.map_filter_simps)
  then obtain outs where r: "run_graph hd sample_settings ?port family_team
     family_execution sample_context (tg_nodes family_team) Map.empty = Inr outs" ..
  have "distinct (map tn_id (tg_nodes family_team))" "?n \<in> set (tg_nodes family_team)" by (simp_all add: family_team_def)
  from successful_team_never_delegates_back [OF this(1) r this(2)] have "tn_agent_id ?n \<noteq> ex_agent_id family_execution"
    by blast
  with r show ?thesis by (auto simp: family_team_def family_execution_def)
qed

end
