(* ===== verification/Distributed.thy ===== *)
theory Distributed
  imports Events
begin

text \<open>
  \<open>domain/distributed.py\<close>: the protocol between the core and its worker nodes. A message is a value of
  one datatype with a constructor per class; \<open>message_ok\<close> collects the field constraints that pydantic
  enforces whenever a message is parsed or constructed. The structural part of parsing (JSON text to
  the fields of a class) is pydantic's and is the parameter \<open>decode\<close>.
\<close>

definition MAX_MESSAGE_BYTES :: nat where
  "MAX_MESSAGE_BYTES = 64000"

definition PROTOCOL_VERSION :: int where
  "PROTOCOL_VERSION = 1"

datatype node_role = CoreRole | WorkerRole

datatype node_status = NodeRegistered | NodeOnline | NodeOffline | NodeDisabled

fun node_status_value :: "node_status \<Rightarrow> string" where
  "node_status_value NodeRegistered = ''registered''"
| "node_status_value NodeOnline = ''online''"
| "node_status_value NodeOffline = ''offline''"
| "node_status_value NodeDisabled = ''disabled''"

record resource_snapshot =
  rs_cpu_count :: int
  rs_load_average :: "rat option"
  rs_memory_total :: "int option"
  rs_memory_available :: "int option"

record worker_capabilities =
  wc_platform :: string
  wc_architecture :: string
  wc_version :: string
  wc_features :: "string list"
  wc_resources :: resource_snapshot

datatype message =
    WorkerHello string string worker_capabilities
  | WorkerHeartbeat resource_snapshot
  | WorkerCapabilitiesUpdate worker_capabilities
  | TaskRequest string rat \<comment> \<open>the task id and the timeout; the operation is always \<open>system.probe\<close>\<close>
  | TaskResult string pydict
  | TaskError string string string
  | TaskCancel string
  | WorkerRegistered string node_status

section \<open>Field constraints\<close>

definition length_within :: "nat \<Rightarrow> nat \<Rightarrow> 'a list \<Rightarrow> bool" where
  "length_within lo hi s = (lo \<le> length s \<and> length s \<le> hi)"

definition id_char :: "char \<Rightarrow> bool" where
  \<comment> \<open>\<open>[A-Za-z0-9_-]\<close>\<close>
  "id_char c = (let n = (of_char c :: nat) in
     (65 \<le> n \<and> n \<le> 90) \<or> (97 \<le> n \<and> n \<le> 122) \<or> (48 \<le> n \<and> n \<le> 57) \<or> n = 95 \<or> n = 45)"

definition opaque_id :: "string \<Rightarrow> bool" where
  \<comment> \<open>\<open>min_length=8, max_length=100, pattern="^[A-Za-z0-9_-]+$"\<close>\<close>
  "opaque_id s = (length_within 8 100 s \<and> list_all id_char s)"

definition resources_ok :: "resource_snapshot \<Rightarrow> bool" where
  "resources_ok r = (0 \<le> rs_cpu_count r \<and> rs_cpu_count r \<le> 1024 \<and>
     (case rs_load_average r of None \<Rightarrow> True | Some x \<Rightarrow> 0 \<le> x \<and> x \<le> 10000) \<and>
     (case rs_memory_total r of None \<Rightarrow> True | Some n \<Rightarrow> 0 \<le> n) \<and>
     (case rs_memory_available r of None \<Rightarrow> True | Some n \<Rightarrow> 0 \<le> n))"

definition capabilities_ok :: "worker_capabilities \<Rightarrow> bool" where
  "capabilities_ok c = (length_within 1 120 (wc_platform c) \<and> length_within 1 120 (wc_architecture c) \<and>
     length_within 1 40 (wc_version c) \<and> length (wc_features c) \<le> 20 \<and> resources_ok (wc_resources c))"

fun message_ok :: "message \<Rightarrow> bool" where
  "message_ok (WorkerHello node name caps) = (opaque_id node \<and> length_within 1 200 name \<and> capabilities_ok caps)"
| "message_ok (WorkerHeartbeat r) = resources_ok r"
| "message_ok (WorkerCapabilitiesUpdate caps) = capabilities_ok caps"
| "message_ok (TaskRequest i timeout) = (opaque_id i \<and> 0 < timeout \<and> timeout \<le> 60)"
| "message_ok (TaskResult i r) = length_within 8 100 i"
| "message_ok (TaskError i code text) = (length_within 8 100 i \<and> length_within 1 80 code \<and> length_within 1 300 text)"
| "message_ok (TaskCancel i) = length_within 8 100 i"
| "message_ok (WorkerRegistered node st) = True"

fun client_message :: "message \<Rightarrow> bool" where
  \<comment> \<open>\<open>ClientMessage\<close>\<close>
  "client_message (TaskRequest _ _) = False"
| "client_message (WorkerRegistered _ _) = False"
| "client_message _ = True"

fun server_message :: "message \<Rightarrow> bool" where
  \<comment> \<open>\<open>ServerMessage\<close>\<close>
  "server_message (WorkerRegistered _ _) = True"
| "server_message (TaskRequest _ _) = True"
| "server_message (TaskCancel _) = True"
| "server_message _ = False"

definition construct :: "message \<Rightarrow> exn + message" where
  \<comment> \<open>calling a message class: the constraints are checked\<close>
  "construct m = (if message_ok m then Inr m else Inl (ValueError ''ValidationError''))"

definition validate_json :: "(string \<Rightarrow> message option) \<Rightarrow> (message \<Rightarrow> bool) \<Rightarrow> string \<Rightarrow> exn + message" where
  \<comment> \<open>a type adapter's \<open>validate_json\<close>; \<open>ValidationError\<close> is a \<open>ValueError\<close>\<close>
  "validate_json decode accepts raw =
     (case decode raw of
        Some m \<Rightarrow> if accepts m then construct m else Inl (ValueError ''ValidationError'')
      | None \<Rightarrow> Inl (ValueError ''ValidationError''))"

lemma construct_Inr_iff: "construct m = Inr m' \<longleftrightarrow> m' = m \<and> message_ok m"
  by (auto simp: construct_def)

lemma validate_json_Inr: "validate_json decode accepts raw = Inr m \<Longrightarrow> accepts m \<and> message_ok m \<and> decode raw = Some m"
  by (auto simp: validate_json_def construct_Inr_iff split: option.splits if_splits)

section \<open>What a host reports about itself\<close>

record host_facts =
  hf_page_size :: "int option" \<comment> \<open>\<open>os.sysconf\<close>; \<open>None\<close> when it raises\<close>
  hf_phys_pages :: "int option"
  hf_free_pages :: "int option"
  hf_load :: "rat option"
  hf_system :: string
  hf_machine :: string
  hf_cpu_count :: "int option"

definition memory_facts :: "host_facts \<Rightarrow> int option \<times> int option" where
  \<comment> \<open>the \<open>try\<close> block: an exception keeps what was assigned before it\<close>
  "memory_facts f = (case (hf_page_size f, hf_phys_pages f) of
     (Some p, Some n) \<Rightarrow> (Some (p * n), map_option (\<lambda>k. p * k) (hf_free_pages f))
   | _ \<Rightarrow> (None, None))"

definition host_capabilities :: "host_facts \<Rightarrow> rat option \<Rightarrow> exn + worker_capabilities" where
  "host_capabilities f load =
     (let c = \<lparr>wc_platform = (if hf_system f = [] then ''unknown'' else hf_system f),
            wc_architecture = (if hf_machine f = [] then ''unknown'' else hf_machine f),
            wc_version = ''0.1.0'', wc_features = [''system.probe''],
            wc_resources = \<lparr>rs_cpu_count = (case hf_cpu_count f of None \<Rightarrow> 0 | Some n \<Rightarrow> n), rs_load_average = load,
              rs_memory_total = fst (memory_facts f), rs_memory_available = snd (memory_facts f)\<rparr>\<rparr>
      in if capabilities_ok c then Inr c else Inl (ValueError ''ValidationError''))"

definition local_capabilities :: "host_facts \<Rightarrow> exn + worker_capabilities" where
  "local_capabilities f = host_capabilities f None"

definition safe_capabilities :: "host_facts \<Rightarrow> exn + worker_capabilities" where
  "safe_capabilities f = host_capabilities f (hf_load f)"

end
