(* ===== verification/Nodes.thy ===== *)
theory Nodes
  imports Distributed
begin

text \<open>
  \<open>services/nodes.py\<close>, \<open>repositories/nodes.py\<close> and the worker socket of \<open>api/workers.py\<close>: the registry of
  worker nodes and their in-memory sessions. Sessions and futures are Python objects with identity, so
  they live in stores addressed by an allocation counter; a future is kept with the local variables of
  the \<open>probe\<close> call that waits on it. An operation is atomic between two awaits: \<open>probe\<close> is its dispatch,
  what other tasks do while it waits, and its conclusion.
\<close>

section \<open>State\<close>

record node_row =
  nr_id :: string
  nr_name :: string
  nr_role :: node_role
  nr_status :: node_status
  nr_enabled :: bool
  nr_enrollment_hash :: string
  nr_capabilities :: worker_capabilities \<comment> \<open>what \<open>model_validate\<close> reads back from the JSON column\<close>
  nr_created_at :: time
  nr_updated_at :: time
  nr_last_seen_at :: "time option"

record node_info =
  ni_node_id :: string
  ni_name :: string
  ni_role :: node_role
  ni_status :: node_status
  ni_enabled :: bool
  ni_capabilities :: worker_capabilities
  ni_created_at :: string
  ni_updated_at :: string
  ni_last_seen_at :: "string option"

record session =
  wk_queue :: "message list"
  wk_pending :: "(string \<times> nat) list" \<comment> \<open>task id to future\<close>

datatype future = Waiting | Returned pydict | Raised exn | Abandoned

record probe_call =
  pc_node :: string
  pc_task :: string
  pc_session :: nat
  pc_future :: future

record nodes =
  nd_rows :: "node_row list"
  nd_connections :: "(string \<times> nat) list"
  nd_sessions :: "nat \<Rightarrow> session"
  nd_next_session :: nat
  nd_probes :: "nat \<Rightarrow> probe_call"
  nd_next_probe :: nat
  nd_recent :: "(string \<times> unit) list"
  nd_bus :: bus

record node_config =
  nc_project :: string
  nc_role :: node_role
  nc_proof :: "string \<Rightarrow> string \<Rightarrow> string" \<comment> \<open>HMAC-SHA-256 of the node id under the secret, in hexadecimal\<close>
  nc_secret :: "string option"
  nc_max_connections :: nat
  nc_max_messages :: nat
  nc_max_tasks :: nat
  nc_task_timeout :: rat
  nc_heartbeat_timeout :: time

type_synonym 'a nop = "(nodes, 'a) stateful"

definition no_nodes :: "bus \<Rightarrow> nodes" where
  "no_nodes b = \<lparr>nd_rows = [], nd_connections = [],
     nd_sessions = (\<lambda>_. \<lparr>wk_queue = [], wk_pending = []\<rparr>), nd_next_session = 0,
     nd_probes = (\<lambda>_. \<lparr>pc_node = [], pc_task = [], pc_session = 0, pc_future = Abandoned\<rparr>),
     nd_next_probe = 0, nd_recent = [], nd_bus = b\<rparr>"

section \<open>The repository and its rows\<close>

definition node_get :: "string \<Rightarrow> nodes \<Rightarrow> node_row option" where
  "node_get i s = row_get nr_id i (nd_rows s)"

definition node_list :: "nodes \<Rightarrow> node_row list" where
  "node_list s = sort_key nr_created_at (nd_rows s)"

definition node_create :: "node_row \<Rightarrow> nodes \<Rightarrow> exn + nodes" where
  "node_create r s = ebind (row_insert nr_id r (nd_rows s)) (\<lambda>t. Inr (s\<lparr>nd_rows := t\<rparr>))"

definition node_touch :: "time \<Rightarrow> (node_row \<Rightarrow> node_row) \<Rightarrow> node_row \<Rightarrow> node_row" where
  \<comment> \<open>\<open>onupdate\<close>: a changed row gets a new \<open>updated_at\<close>\<close>
  "node_touch now f r = (if f r = r then r else (f r)\<lparr>nr_updated_at := now\<rparr>)"

definition node_update :: "time \<Rightarrow> string \<Rightarrow> (node_row \<Rightarrow> node_row) \<Rightarrow> nodes \<Rightarrow> nodes" where
  "node_update now i f s = s\<lparr>nd_rows := row_update nr_id i (node_touch now f) (nd_rows s)\<rparr>"

definition node_info_of :: "node_row \<Rightarrow> node_info" where
  "node_info_of r = \<lparr>ni_node_id = nr_id r, ni_name = nr_name r, ni_role = nr_role r, ni_status = nr_status r,
     ni_enabled = nr_enabled r, ni_capabilities = nr_capabilities r, ni_created_at = isoformat (nr_created_at r),
     ni_updated_at = isoformat (nr_updated_at r), ni_last_seen_at = map_option isoformat (nr_last_seen_at r)\<rparr>"

definition info_of_stored :: "string \<Rightarrow> nodes \<Rightarrow> exn + node_info" where
  \<comment> \<open>\<open>session.refresh(record)\<close> and \<open>_node_info(record)\<close>\<close>
  "info_of_stored i s = (case node_get i s of
     None \<Rightarrow> Inl (NodeNotFoundError ''Node was not found'') | Some r \<Rightarrow> Inr (node_info_of r))"

section \<open>Events\<close>

definition node_publish :: "node_config \<Rightarrow> world \<Rightarrow> nat \<Rightarrow> event_type \<Rightarrow> string \<Rightarrow> pydict \<Rightarrow> nodes \<Rightarrow> nodes" where
  \<comment> \<open>\<open>_publish\<close>; the number says which of the operation's events it is\<close>
  "node_publish cf w k ty i payload s =
     s\<lparr>nd_bus := publish (event_create (w_uuid4 w k) (w_now w) ty (nc_project cf) None None None None ''info''
        ((''node_id'', PStr i) # payload)) (nd_bus s)\<rparr>"

definition status_entry :: "node_status \<Rightarrow> pydict" where
  "status_entry st = [(''status'', PStr (node_status_value st))]"

section \<open>Enrollment\<close>

definition enrollment_proof :: "node_config \<Rightarrow> string \<Rightarrow> string \<Rightarrow> string" where
  "enrollment_proof cf secret i = nc_proof cf secret i"

definition falsy :: "string option \<Rightarrow> bool" where
  "falsy x = (x = None \<or> x = Some [])"

definition verify_enrollment :: "node_config \<Rightarrow> string \<Rightarrow> string option \<Rightarrow> exn + bool" where
  "verify_enrollment cf i proof =
     (if falsy (nc_secret cf) \<or> falsy proof then Inr False
      else compare_digest (enrollment_proof cf (the (nc_secret cf)) i) (the proof))"

definition enroll_known :: "world \<Rightarrow> node_row \<Rightarrow> string \<Rightarrow> worker_capabilities \<Rightarrow> string \<Rightarrow> nodes \<Rightarrow> exn + nodes" where
  \<comment> \<open>the branch for a node that has a record\<close>
  "enroll_known w r name caps proof s =
     ebind (compare_digest (nr_enrollment_hash r) proof) (\<lambda>same.
     if \<not> same then Inl (NodeError ''Worker enrollment was denied'')
     else Inr (node_update (w_now w) (nr_id r) (\<lambda>r. r\<lparr>nr_name := name, nr_capabilities := caps,
        nr_last_seen_at := Some (w_now w), nr_status := NodeOnline\<rparr>) s))"

definition new_worker :: "node_config \<Rightarrow> world \<Rightarrow> string \<Rightarrow> string \<Rightarrow> worker_capabilities \<Rightarrow> node_row" where
  "new_worker cf w i name caps = \<lparr>nr_id = i, nr_name = name, nr_role = WorkerRole, nr_status = NodeOnline,
     nr_enabled = True, nr_enrollment_hash = enrollment_proof cf (case nc_secret cf of None \<Rightarrow> [] | Some x \<Rightarrow> x) i,
     nr_capabilities = caps, nr_created_at = w_now w, nr_updated_at = w_now w, nr_last_seen_at = Some (w_now w)\<rparr>"

definition enroll_row :: "node_config \<Rightarrow> world \<Rightarrow> string \<Rightarrow> string \<Rightarrow> worker_capabilities \<Rightarrow> string option \<Rightarrow> nodes \<Rightarrow>
    exn + event_type \<times> nodes" where
  "enroll_row cf w i name caps proof s =
     ebind (verify_enrollment cf i proof) (\<lambda>ok.
     if \<not> ok then Inl (NodeError ''Worker enrollment was denied'')
     else case node_get i s of
        None \<Rightarrow> ebind (node_create (new_worker cf w i name caps) s) (\<lambda>s. Inr (NODE_REGISTERED, s))
      | Some r \<Rightarrow>
          if \<not> nr_enabled r then Inl (NodeDisabledError ''Worker is disabled'')
          else ebind (enroll_known w r name caps (the proof) s) (\<lambda>s. Inr (NODE_CONNECTED, s)))"

definition enroll :: "node_config \<Rightarrow> world \<Rightarrow> string \<Rightarrow> string \<Rightarrow> worker_capabilities \<Rightarrow> string option \<Rightarrow> node_info nop" where
  \<comment> \<open>\<open>enroll\<close> of \<open>WorkerHello(node_id, node_name, capabilities)\<close>\<close>
  "enroll cf w i name caps proof s =
     (case enroll_row cf w i name caps proof s of
        Inl e \<Rightarrow> (Inl e, s)
      | Inr (ty, s1) \<Rightarrow> (info_of_stored i s1, node_publish cf w 0 ty i (status_entry NodeOnline) s1))"

definition ensure_core :: "world \<Rightarrow> host_facts \<Rightarrow> string \<Rightarrow> node_info nop" where
  "ensure_core w f name s =
     (case node_get ''core_local'' s of
        None \<Rightarrow> (case ebind (local_capabilities f) (\<lambda>caps. node_create \<lparr>nr_id = ''core_local'', nr_name = name,
             nr_role = CoreRole, nr_status = NodeOnline, nr_enabled = True, nr_enrollment_hash = [],
             nr_capabilities = caps, nr_created_at = w_now w, nr_updated_at = w_now w,
             nr_last_seen_at = Some (w_now w)\<rparr> s) of
           Inl e \<Rightarrow> (Inl e, s) | Inr s1 \<Rightarrow> (info_of_stored ''core_local'' s1, s1))
      | Some r \<Rightarrow> let s1 = node_update (w_now w) ''core_local'' (\<lambda>r. r\<lparr>nr_name := name, nr_status := NodeOnline,
             nr_last_seen_at := Some (w_now w)\<rparr>) s in (info_of_stored ''core_local'' s1, s1))"

section \<open>Sessions\<close>

definition set_future :: "nat \<Rightarrow> future \<Rightarrow> nodes \<Rightarrow> nodes" where
  \<comment> \<open>\<open>set_result\<close>, \<open>set_exception\<close> or \<open>cancel\<close> of a future that is not done\<close>
  "set_future f v s = (if pc_future (nd_probes s f) = Waiting
     then s\<lparr>nd_probes := (nd_probes s)(f := (nd_probes s f)\<lparr>pc_future := v\<rparr>)\<rparr> else s)"

definition update_session :: "nat \<Rightarrow> (session \<Rightarrow> session) \<Rightarrow> nodes \<Rightarrow> nodes" where
  "update_session n f s = s\<lparr>nd_sessions := (nd_sessions s)(n := f (nd_sessions s n))\<rparr>"

definition fail_pending :: "nat \<Rightarrow> exn \<Rightarrow> nodes \<Rightarrow> nodes" where
  "fail_pending n e s = update_session n (\<lambda>x. x\<lparr>wk_pending := []\<rparr>)
     (fold (\<lambda>(i, f). set_future f (Raised e)) (wk_pending (nd_sessions s n)) s)"

definition close_session :: "string \<Rightarrow> exn \<Rightarrow> nodes \<Rightarrow> nodes" where
  \<comment> \<open>take the node's session out of the connections, if it has one, and fail what is pending on it\<close>
  "close_session i e s = (case map_of (nd_connections s) i of
     None \<Rightarrow> s
   | Some n \<Rightarrow> fail_pending n e (s\<lparr>nd_connections := dict_pop i (nd_connections s)\<rparr>))"

definition connect :: "node_config \<Rightarrow> string \<Rightarrow> nat nop" where
  \<comment> \<open>returns the session whose queue the caller reads\<close>
  "connect cf i s =
     (if map_of (nd_connections s) i = None \<and> length (nd_connections s) \<ge> nc_max_connections cf
      then (Inl (NodeUnavailableError ''Worker connection limit reached''), s)
      else let s = close_session i (NodeTaskDisconnectedError ''Worker session was replaced'') s;
               n = nd_next_session s
           in (Inr n, s\<lparr>nd_connections := dict_put i n (nd_connections s),
                 nd_sessions := (nd_sessions s)(n := \<lparr>wk_queue = [], wk_pending = []\<rparr>), nd_next_session := Suc n\<rparr>))"

definition set_status_if_enabled :: "node_config \<Rightarrow> world \<Rightarrow> nat \<Rightarrow> string \<Rightarrow> node_status \<Rightarrow> nodes \<Rightarrow> nodes" where
  "set_status_if_enabled cf w k i st s = (case node_get i s of
     None \<Rightarrow> s
   | Some r \<Rightarrow> if \<not> nr_enabled r then s
       else node_publish cf w k NODE_OFFLINE i (status_entry st) (node_update (w_now w) i (\<lambda>r. r\<lparr>nr_status := st\<rparr>) s))"

definition drop_session :: "string \<Rightarrow> nodes \<Rightarrow> nodes" where
  "drop_session i s = close_session i (NodeTaskDisconnectedError ''Worker disconnected'') s"

definition disconnect :: "node_config \<Rightarrow> world \<Rightarrow> nat \<Rightarrow> string \<Rightarrow> nodes \<Rightarrow> nodes" where
  "disconnect cf w k i s = set_status_if_enabled cf w k i NodeOffline (drop_session i s)"

section \<open>Liveness\<close>

definition heartbeat :: "world \<Rightarrow> string \<Rightarrow> worker_capabilities option \<Rightarrow> unit nop" where
  "heartbeat w i caps s = (case node_get i s of
     None \<Rightarrow> (Inl (NodeNotFoundError ''Worker was not registered''), s)
   | Some r \<Rightarrow> if \<not> nr_enabled r then (Inl (NodeDisabledError ''Worker is disabled''), s)
       else (Inr (), node_update (w_now w) i (\<lambda>r. r\<lparr>nr_status := NodeOnline, nr_last_seen_at := Some (w_now w),
          nr_capabilities := (case caps of None \<Rightarrow> nr_capabilities r | Some c \<Rightarrow> c)\<rparr>) s))"

definition is_stale :: "node_config \<Rightarrow> time \<Rightarrow> node_row \<Rightarrow> bool" where
  "is_stale cf now r = (nr_role r = WorkerRole \<and> nr_enabled r \<and>
     (case nr_last_seen_at r of None \<Rightarrow> False | Some t \<Rightarrow> t < now - nc_heartbeat_timeout cf))"

definition stale_nodes :: "node_config \<Rightarrow> world \<Rightarrow> nodes \<Rightarrow> string list" where
  "stale_nodes cf w s = map nr_id (filter (is_stale cf (w_now w)) (node_list s))"

definition write_offline :: "world \<Rightarrow> string list \<Rightarrow> nodes \<Rightarrow> nodes" where
  \<comment> \<open>no lock is held between reading the stale rows and this write\<close>
  "write_offline w is s = fold (\<lambda>i. node_update (w_now w) i (\<lambda>r. r\<lparr>nr_status := NodeOffline\<rparr>)) is s"

fun announce_stale :: "node_config \<Rightarrow> world \<Rightarrow> nat \<Rightarrow> string list \<Rightarrow> nodes \<Rightarrow> nodes" where
  "announce_stale cf w k [] s = s"
| "announce_stale cf w k (i # is) s = announce_stale cf w (k + 2) is
     (node_publish cf w (k + 1) NODE_OFFLINE i (status_entry NodeOffline) (disconnect cf w k i s))"

definition mark_stale_offline :: "node_config \<Rightarrow> world \<Rightarrow> nodes \<Rightarrow> nodes" where
  "mark_stale_offline cf w s =
     (let is = stale_nodes cf w s in announce_stale cf w 0 is (write_offline w is s))"

definition list_nodes :: "node_config \<Rightarrow> world \<Rightarrow> node_info list nop" where
  "list_nodes cf w s = (let s = mark_stale_offline cf w s in (Inr (map node_info_of (node_list s)), s))"

definition get_node :: "node_config \<Rightarrow> world \<Rightarrow> string \<Rightarrow> node_info nop" where
  "get_node cf w i s = (let s = mark_stale_offline cf w s in (info_of_stored i s, s))"

definition enable_row :: "world \<Rightarrow> string \<Rightarrow> bool \<Rightarrow> node_info nop" where
  \<comment> \<open>the session of \<open>set_enabled\<close>\<close>
  "enable_row w i on s = (case node_get i s of
     None \<Rightarrow> (Inl (NodeNotFoundError ''Node was not found''), s)
   | Some r \<Rightarrow> if nr_role r \<noteq> WorkerRole then (Inl (NodeControlError ''Core node cannot be enabled or disabled''), s)
       else let s = node_update (w_now w) i (\<lambda>r. r\<lparr>nr_enabled := on,
              nr_status := (if on then NodeRegistered else NodeDisabled)\<rparr>) s
            in (info_of_stored i s, s))"

definition set_enabled :: "node_config \<Rightarrow> world \<Rightarrow> string \<Rightarrow> bool \<Rightarrow> node_info nop" where
  "set_enabled cf w i on = op_bind (enable_row w i on) (\<lambda>info s.
     (Inr info, if on then s
      else node_publish cf w 1 NODE_DISABLED i [(''status'', PStr ''disabled'')] (disconnect cf w 0 i s)))"

section \<open>Probes\<close>

definition put_nowait :: "nat \<Rightarrow> message \<Rightarrow> session \<Rightarrow> session option" where
  \<comment> \<open>\<open>None\<close> is \<open>QueueFull\<close>; a queue made with \<open>maxsize=0\<close> has no bound\<close>
  "put_nowait limit m x =
     (if 0 < limit \<and> limit \<le> length (wk_queue x) then None else Some (x\<lparr>wk_queue := wk_queue x @ [m]\<rparr>))"

definition recent_after :: "nat \<Rightarrow> string \<Rightarrow> (string \<times> unit) list \<Rightarrow> (string \<times> unit) list" where
  \<comment> \<open>the id is put last, then the oldest ones go until the bound is met\<close>
  "recent_after limit i recent = (let r = dict_pop i recent @ [(i, ())] in drop (length r - limit) r)"

definition effective_timeout :: "node_config \<Rightarrow> rat option \<Rightarrow> rat" where
  \<comment> \<open>\<open>timeout_seconds or self._settings.worker_task_timeout_seconds\<close>\<close>
  "effective_timeout cf timeout = (case timeout of None \<Rightarrow> nc_task_timeout cf
     | Some t \<Rightarrow> if t = 0 then nc_task_timeout cf else t)"

definition register_probe :: "node_config \<Rightarrow> string \<Rightarrow> string \<Rightarrow> rat \<Rightarrow> nat nop" where
  \<comment> \<open>the block under the lock; the result is the number of the probe call\<close>
  "register_probe cf node i timeout s =
     (if map_of (nd_recent s) i \<noteq> None then (Inl (NodeTaskDuplicateError ''Task id has already been dispatched''), s)
      else case map_of (nd_connections s) node of
        None \<Rightarrow> (Inl (NodeUnavailableError ''Worker is unavailable''), s)
      | Some n \<Rightarrow>
          if nc_max_tasks cf \<le> length (wk_pending (nd_sessions s n))
          then (Inl (NodeUnavailableError ''Worker task limit reached''), s)
          else let f = nd_next_probe s;
                   s1 = update_session n (\<lambda>x. x\<lparr>wk_pending := dict_put i f (wk_pending x)\<rparr>)
                     (s\<lparr>nd_probes := (nd_probes s)(f := \<lparr>pc_node = node, pc_task = i, pc_session = n, pc_future = Waiting\<rparr>),
                        nd_next_probe := Suc f\<rparr>)
               in case construct (TaskRequest i timeout) of
                 Inl e \<Rightarrow> (Inl e, s1)
               | Inr m \<Rightarrow> (case put_nowait (nc_max_messages cf) m (nd_sessions s1 n) of
                     None \<Rightarrow> (Inl (NodeUnavailableError ''Worker command queue is full''),
                        update_session n (\<lambda>x. x\<lparr>wk_pending := dict_pop i (wk_pending x)\<rparr>) (set_future f Abandoned s1))
                   | Some x \<Rightarrow> (Inr f, (update_session n (\<lambda>_. x) s1)
                        \<lparr>nd_recent := recent_after (nc_max_tasks cf * nc_max_connections cf) i (nd_recent s1)\<rparr>)))"

definition task_identifier :: "world \<Rightarrow> string option \<Rightarrow> string" where
  "task_identifier w task = (if falsy task then ''tsk_'' @ uuid_hex (w_uuid4 w 0) else the task)"

definition require_online :: "node_info \<Rightarrow> exn + unit" where
  "require_online info =
     (if \<not> ni_enabled info \<or> ni_status info = NodeDisabled then Inl (NodeDisabledError ''Worker is disabled'')
      else guard (ni_status info = NodeOnline) (NodeUnavailableError ''Worker is offline''))"

definition dispatch_probe :: "node_config \<Rightarrow> world \<Rightarrow> world \<Rightarrow> string \<Rightarrow> rat option \<Rightarrow> string option \<Rightarrow> nat nop" where
  \<comment> \<open>\<open>probe\<close> up to the wait; the two worlds are those of \<open>get\<close> and of the rest\<close>
  "dispatch_probe cf w w' node timeout task =
     op_bind (get_node cf w node) (\<lambda>info.
     op_bind (op_lift (require_online info)) (\<lambda>_.
     let i = task_identifier w' task in
     op_bind (register_probe cf node i (effective_timeout cf timeout)) (\<lambda>f s.
       (Inr f, node_publish cf w' 1 WORKER_TASK_REQUESTED node
          [(''task_id'', PStr i), (''operation'', PStr ''system.probe'')] s))))"

record probe_result =
  pb_task_id :: string
  pb_node_id :: string
  pb_result :: pydict

definition give_up :: "node_config \<Rightarrow> nat \<Rightarrow> nodes \<Rightarrow> nodes" where
  \<comment> \<open>the handler's block under the lock, after \<open>wait_for\<close> cancelled the future\<close>
  "give_up cf f s = (let p = nd_probes s f in
     update_session (pc_session p) (\<lambda>x.
       let x = x\<lparr>wk_pending := dict_pop (pc_task p) (wk_pending x)\<rparr> in
       case put_nowait (nc_max_messages cf) (TaskCancel (pc_task p)) x of None \<Rightarrow> x | Some y \<Rightarrow> y)
     (set_future f Abandoned s))"

definition conclude_probe :: "node_config \<Rightarrow> world \<Rightarrow> nat \<Rightarrow> probe_result nop" where
  \<comment> \<open>\<open>probe\<close> from the moment it is resumed, by its future or by the timeout\<close>
  "conclude_probe cf w f s = (let p = nd_probes s f in
     case pc_future p of
       Waiting \<Rightarrow> (Inl (NodeTaskTimeoutError ''Worker did not return a result before timeout''),
          node_publish cf w 0 WORKER_TASK_TIMED_OUT (pc_node p) [(''task_id'', PStr (pc_task p))] (give_up cf f s))
     | Returned r \<Rightarrow> (Inr \<lparr>pb_task_id = pc_task p, pb_node_id = pc_node p, pb_result = r\<rparr>,
          node_publish cf w 0 WORKER_TASK_COMPLETED (pc_node p) [(''task_id'', PStr (pc_task p))] s)
     | Raised e \<Rightarrow> (Inl e, s)
     | Abandoned \<Rightarrow> (Inl CancelledError, s))"

definition cancel_probe :: "nat \<Rightarrow> nodes \<Rightarrow> nodes" where
  \<comment> \<open>the caller of \<open>probe\<close> is cancelled while it waits: \<open>wait_for\<close> cancels the future, no handler runs\<close>
  "cancel_probe f s = set_future f Abandoned s"

definition probe :: "node_config \<Rightarrow> world \<Rightarrow> world \<Rightarrow> world \<Rightarrow> (nodes \<Rightarrow> nodes) \<Rightarrow> string \<Rightarrow> rat option \<Rightarrow> string option \<Rightarrow> probe_result nop" where
  \<comment> \<open>\<open>others\<close> is what the other tasks do while it waits\<close>
  "probe cf w w' w'' others node timeout task =
     op_bind (dispatch_probe cf w w' node timeout task) (\<lambda>f s. conclude_probe cf w'' f (others s))"

definition receive_result :: "node_config \<Rightarrow> world \<Rightarrow> string \<Rightarrow> message \<Rightarrow> nodes \<Rightarrow> nodes" where
  \<comment> \<open>for a \<open>TaskResult\<close> or a \<open>TaskError\<close>\<close>
  "receive_result cf w node m s =
     (let take = (\<lambda>i. case map_of (nd_connections s) node of
            None \<Rightarrow> (None, s)
          | Some n \<Rightarrow> (map_of (wk_pending (nd_sessions s n)) i,
              update_session n (\<lambda>x. x\<lparr>wk_pending := dict_pop i (wk_pending x)\<rparr>) s));
          waiting = (\<lambda>s f. pc_future (nd_probes s f) = Waiting)
      in case m of
        TaskResult i r \<Rightarrow> (case take i of
            (Some f, s) \<Rightarrow> set_future f (Returned r) s
          | (None, s) \<Rightarrow> s)
      | TaskError i code text \<Rightarrow> (case take i of
            (Some f, s) \<Rightarrow> if \<not> waiting s f then s
              else node_publish cf w 0 WORKER_TASK_FAILED node [(''task_id'', PStr i), (''code'', PStr code)]
                (set_future f (Raised (NodeError text)) s)
          | (None, s) \<Rightarrow> s)
      | _ \<Rightarrow> s)"

section \<open>The worker socket\<close>

definition next_command :: "nat \<Rightarrow> nodes \<Rightarrow> message option \<times> nodes" where
  \<comment> \<open>\<open>queue.get()\<close> of a session; \<open>None\<close> when it has to wait\<close>
  "next_command n s = (case wk_queue (nd_sessions s n) of
     [] \<Rightarrow> (None, s)
   | m # ms \<Rightarrow> (Some m, update_session n (\<lambda>x. x\<lparr>wk_queue := ms\<rparr>) s))"

fun sent_to_worker :: "message \<Rightarrow> message option" where
  \<comment> \<open>what the socket's loop does with an item of the queue\<close>
  "sent_to_worker (WorkerRegistered node st) = Some (WorkerRegistered node st)"
| "sent_to_worker (TaskRequest i timeout) = Some (TaskRequest i timeout)"
| "sent_to_worker _ = None"

definition receive_message :: "(string \<Rightarrow> message option) \<Rightarrow> string \<Rightarrow> exn + message" where
  \<comment> \<open>\<open>_receive\<close>\<close>
  "receive_message decode raw =
     (if MAX_MESSAGE_BYTES < utf8_length raw then Inl (ValueError ''Worker message exceeds limit'')
      else validate_json decode client_message raw)"

definition handle_text :: "node_config \<Rightarrow> (string \<Rightarrow> message option) \<Rightarrow> world \<Rightarrow> string \<Rightarrow> string \<Rightarrow> unit nop" where
  \<comment> \<open>\<open>_handle\<close>\<close>
  "handle_text cf decode w node raw = op_bind (op_lift (receive_message decode raw)) (\<lambda>m.
     case m of
       WorkerHeartbeat r \<Rightarrow> heartbeat w node None
     | WorkerCapabilitiesUpdate caps \<Rightarrow> heartbeat w node (Some caps)
     | TaskResult i r \<Rightarrow> (\<lambda>s. (Inr (), receive_result cf w node m s))
     | TaskError i code text \<Rightarrow> (\<lambda>s. (Inr (), receive_result cf w node m s))
     | _ \<Rightarrow> op_return ())"

definition greet_worker :: "node_config \<Rightarrow> (string \<Rightarrow> message option) \<Rightarrow> world \<Rightarrow> string option \<Rightarrow> string \<Rightarrow> node_info nop" where
  \<comment> \<open>the first text of a worker's socket: anything but a hello ends the socket as a refused enrollment does\<close>
  "greet_worker cf decode w proof raw = op_bind (op_lift (receive_message decode raw)) (\<lambda>m. case m of
        WorkerHello i name caps \<Rightarrow> enroll cf w i name caps proof
      | _ \<Rightarrow> op_raise (NodeError ''the first message is not a hello''))"

definition open_socket :: "node_config \<Rightarrow> (string \<Rightarrow> message option) \<Rightarrow> world \<Rightarrow> string option \<Rightarrow> string \<Rightarrow> (string \<times> nat \<times> message) nop" where
  \<comment> \<open>\<open>_serve_worker_socket\<close> up to its loop, when nothing fails: the node, its session and the acknowledgement\<close>
  "open_socket cf decode w proof raw =
     op_bind (greet_worker cf decode w proof raw) (\<lambda>info.
     op_bind (connect cf (ni_node_id info)) (\<lambda>n.
     op_return (ni_node_id info, n, WorkerRegistered (ni_node_id info) (ni_status info))))"

definition close_socket :: "node_config \<Rightarrow> world \<Rightarrow> string \<Rightarrow> nodes \<Rightarrow> nodes" where
  \<comment> \<open>the \<open>finally\<close> block of a socket that enrolled the node\<close>
  "close_socket cf w i s = disconnect cf w 0 i s"

section \<open>Steps\<close>

text \<open>What one task does between two suspensions, as an action on the state.\<close>

datatype node_action =
    Enroll world string string worker_capabilities "string option"
  | Connect string
  | Drop string
  | SetOffline world nat string
  | Heartbeat world string "worker_capabilities option"
  | WriteOffline world "string list"
  | EnableRow world string bool
  | EnsureCore world host_facts string
  | Register string string rat
  | Conclude world nat
  | CancelProbe nat
  | Receive world string message
  | NextCommand nat
  | Announce world nat event_type string pydict

fun node_do :: "node_config \<Rightarrow> node_action \<Rightarrow> nodes \<Rightarrow> nodes" where
  "node_do cf (Enroll w i name caps proof) s = snd (enroll cf w i name caps proof s)"
| "node_do cf (Connect i) s = snd (connect cf i s)"
| "node_do cf (Drop i) s = drop_session i s"
| "node_do cf (SetOffline w k i) s = set_status_if_enabled cf w k i NodeOffline s"
| "node_do cf (Heartbeat w i caps) s = snd (heartbeat w i caps s)"
| "node_do cf (WriteOffline w is) s = write_offline w is s"
| "node_do cf (EnableRow w i on) s = snd (enable_row w i on s)"
| "node_do cf (EnsureCore w f name) s = snd (ensure_core w f name s)"
| "node_do cf (Register node i timeout) s = snd (register_probe cf node i timeout s)"
| "node_do cf (Conclude w f) s = snd (conclude_probe cf w f s)"
| "node_do cf (CancelProbe f) s = cancel_probe f s"
| "node_do cf (Receive w node m) s = receive_result cf w node m s"
| "node_do cf (NextCommand n) s = snd (next_command n s)"
| "node_do cf (Announce w k ty i payload) s = node_publish cf w k ty i payload s"

end
