(* ===== verification/Nodes_Correct.thy ===== *)
theory Nodes_Correct
  imports Nodes
begin

text \<open>
  What holds of the node service after any interleaving of its atomic steps: its bounds, which futures
  are pending where, that a probe is answered only by the worker it was sent to, that a disabled worker
  is served nothing, and that closing a session ends every probe that waits on it. The last section
  shows what the end of a replaced socket does to its successor.
\<close>

named_theorems node_simps \<open>what an operation leaves of the parts of the state\<close>

section \<open>Operations on rows leave the sessions alone\<close>

definition same_sessions :: "nodes \<Rightarrow> nodes \<Rightarrow> bool" where
  "same_sessions s s' \<longleftrightarrow> nd_connections s' = nd_connections s \<and> nd_sessions s' = nd_sessions s \<and>
     nd_next_session s' = nd_next_session s \<and> nd_probes s' = nd_probes s \<and>
     nd_next_probe s' = nd_next_probe s \<and> nd_recent s' = nd_recent s"

lemma same_sessions_refl [intro!, simp]: "same_sessions s s"
  by (simp add: same_sessions_def)

lemma same_sessions_trans: "same_sessions s t \<Longrightarrow> same_sessions t u \<Longrightarrow> same_sessions s u"
  by (simp add: same_sessions_def)

lemma same_sessions_update [simp]:
  "same_sessions s (node_update now i f s)" "same_sessions s (node_publish cf w k ty i payload s)"
  by (simp_all add: same_sessions_def node_update_def node_publish_def)

lemma same_sessions_create: "node_create r s = Inr s' \<Longrightarrow> same_sessions s s'"
  by (auto simp: node_create_def same_sessions_def exn_simps)

lemma same_sessions_status: "same_sessions s (set_status_if_enabled cf w k i st s)"
  unfolding set_status_if_enabled_def
  by (auto split: option.split intro: same_sessions_trans [OF same_sessions_update(1) same_sessions_update(2)])

lemma same_sessions_offline: "same_sessions s (write_offline w is s)"
  unfolding write_offline_def
proof (induction "is" arbitrary: s)
  case (Cons i "is")
  then show ?case using same_sessions_trans [OF same_sessions_update(1)] by fastforce
qed simp

lemma same_sessions_enroll: "same_sessions s (snd (enroll cf w i name caps proof s))"
proof (cases "enroll_row cf w i name caps proof s")
  case (Inr p)
  obtain ty s1 where p: "p = (ty, s1)" by fastforce
  have "same_sessions s s1"
    using Inr p
    by (auto simp: enroll_row_def enroll_known_def exn_simps split: if_splits option.splits dest: same_sessions_create)
  with Inr p show ?thesis using same_sessions_trans [OF _ same_sessions_update(2)] by (simp add: enroll_def)
qed (simp add: enroll_def)

lemma same_sessions_core: "same_sessions s (snd (ensure_core w f name s))"
proof (cases "node_get ''core_local'' s")
  case None
  then show ?thesis
    by (auto simp: ensure_core_def exn_simps split: sum.splits dest: same_sessions_create)
qed (simp add: ensure_core_def Let_def)

lemma same_sessions_row_ops:
  "same_sessions s (snd (heartbeat w i caps s))" "same_sessions s (snd (enable_row w i on s))"
  by (auto simp: heartbeat_def enable_row_def Let_def split: option.split)

lemmas same_sessions_rules = same_sessions_status same_sessions_offline same_sessions_enroll same_sessions_core
  same_sessions_row_ops same_sessions_update

section \<open>The invariant of the sessions\<close>

definition session_ok :: "node_config \<Rightarrow> nodes \<Rightarrow> nat \<Rightarrow> session \<Rightarrow> bool" where
  "session_ok cf s n x \<longleftrightarrow> distinct (map fst (wk_pending x)) \<and> length (wk_pending x) \<le> nc_max_tasks cf \<and>
     (0 < nc_max_messages cf \<longrightarrow> length (wk_queue x) \<le> nc_max_messages cf) \<and>
     (\<forall>(i, f) \<in> set (wk_pending x). f < nd_next_probe s \<and> pc_task (nd_probes s f) = i \<and>
        pc_session (nd_probes s f) = n \<and> (pc_node (nd_probes s f), n) \<in> set (nd_connections s))"

definition nodes_inv :: "node_config \<Rightarrow> nodes \<Rightarrow> bool" where
  "nodes_inv cf s \<longleftrightarrow> distinct (map fst (nd_connections s)) \<and> distinct (map snd (nd_connections s)) \<and>
     length (nd_connections s) \<le> nc_max_connections cf \<and>
     (\<forall>n \<in> snd ` set (nd_connections s). n < nd_next_session s) \<and>
     length (nd_recent s) \<le> nc_max_tasks cf * nc_max_connections cf \<and>
     (\<forall>n. session_ok cf s n (nd_sessions s n))"

lemma nodes_inv_same: "nodes_inv cf s \<Longrightarrow> same_sessions s s' \<Longrightarrow> nodes_inv cf s'"
  by (simp add: nodes_inv_def same_sessions_def session_ok_def)

lemma nodes_inv_empty: "nodes_inv cf (no_nodes b)"
  by (simp add: nodes_inv_def no_nodes_def session_ok_def)

lemma set_future_parts [simp, node_simps]:
  "nd_connections (set_future f v s) = nd_connections s" "nd_sessions (set_future f v s) = nd_sessions s"
  "nd_next_session (set_future f v s) = nd_next_session s" "nd_next_probe (set_future f v s) = nd_next_probe s"
  "nd_recent (set_future f v s) = nd_recent s" "nd_rows (set_future f v s) = nd_rows s"
  "pc_task (nd_probes (set_future f v s) g) = pc_task (nd_probes s g)"
  "pc_node (nd_probes (set_future f v s) g) = pc_node (nd_probes s g)"
  "pc_session (nd_probes (set_future f v s) g) = pc_session (nd_probes s g)"
  "pc_future (nd_probes (set_future f v s) g) =
     (if g = f \<and> pc_future (nd_probes s f) = Waiting then v else pc_future (nd_probes s g))"
  by (simp_all add: set_future_def)

lemma update_session_parts [simp, node_simps]:
  "nd_connections (update_session n g s) = nd_connections s" "nd_probes (update_session n g s) = nd_probes s"
  "nd_next_session (update_session n g s) = nd_next_session s" "nd_next_probe (update_session n g s) = nd_next_probe s"
  "nd_recent (update_session n g s) = nd_recent s" "nd_rows (update_session n g s) = nd_rows s"
  "nd_sessions (update_session n g s) = (nd_sessions s)(n := g (nd_sessions s n))"
  by (simp_all add: update_session_def)

lemma session_ok_set_future [simp]: "session_ok cf (set_future f v s) n x = session_ok cf s n x"
  by (simp add: session_ok_def)

lemma nodes_inv_set_future [simp]: "nodes_inv cf (set_future f v s) = nodes_inv cf s"
  by (simp add: nodes_inv_def)

lemma nodes_inv_update_session:
  assumes "nodes_inv cf s" "session_ok cf s n (nd_sessions s n) \<Longrightarrow> session_ok cf s n (g (nd_sessions s n))"
  shows "nodes_inv cf (update_session n g s)"
proof -
  have "session_ok cf (update_session n g s) m x = session_ok cf s m x" for m x by (simp add: session_ok_def)
  with assms show ?thesis by (simp add: nodes_inv_def)
qed

lemma session_ok_pop: "session_ok cf s n x \<Longrightarrow> session_ok cf s n (x\<lparr>wk_pending := dict_pop i (wk_pending x)\<rparr>)"
  using distinct_dict(2) [of "wk_pending x" i] le_trans [OF length_dict_pop_le [of i "wk_pending x"]]
  by (auto simp: session_ok_def dict_pop_def)

lemma session_ok_put_nowait: "session_ok cf s n x \<Longrightarrow> put_nowait (nc_max_messages cf) m x = Some y \<Longrightarrow> session_ok cf s n y"
  by (auto simp: session_ok_def put_nowait_def split: if_splits)

section \<open>Closing and opening sessions\<close>

lemma fold_set_future_parts [node_simps]:
  "nd_connections (fold (\<lambda>(i, f). set_future f v) d s) = nd_connections s \<and>
   nd_sessions (fold (\<lambda>(i, f). set_future f v) d s) = nd_sessions s \<and>
   nd_next_session (fold (\<lambda>(i, f). set_future f v) d s) = nd_next_session s \<and>
   nd_next_probe (fold (\<lambda>(i, f). set_future f v) d s) = nd_next_probe s \<and>
   nd_recent (fold (\<lambda>(i, f). set_future f v) d s) = nd_recent s \<and>
   nd_rows (fold (\<lambda>(i, f). set_future f v) d s) = nd_rows s \<and>
   pc_task (nd_probes (fold (\<lambda>(i, f). set_future f v) d s) g) = pc_task (nd_probes s g) \<and>
   pc_node (nd_probes (fold (\<lambda>(i, f). set_future f v) d s) g) = pc_node (nd_probes s g) \<and>
   pc_session (nd_probes (fold (\<lambda>(i, f). set_future f v) d s) g) = pc_session (nd_probes s g)"
  by (induction d arbitrary: s) auto

lemma fold_set_future_future:
  "v \<noteq> Waiting \<Longrightarrow> pc_future (nd_probes (fold (\<lambda>(i, f). set_future f v) d s) g) =
     (if g \<in> snd ` set d \<and> pc_future (nd_probes s g) = Waiting then v else pc_future (nd_probes s g))"
proof (induction d arbitrary: s)
  case (Cons p d)
  obtain i f where p: "p = (i, f)" by fastforce
  from Cons.prems have "pc_future (nd_probes (fold (\<lambda>(i, f). set_future f v) d (set_future f v s)) g) =
     (if g \<in> snd ` set d \<and> pc_future (nd_probes (set_future f v s) g) = Waiting then v
      else pc_future (nd_probes (set_future f v s) g))" by (rule Cons.IH)
  with Cons.prems p show ?case by auto
qed simp

lemma fail_pending_parts [simp, node_simps]:
  "nd_connections (fail_pending n e s) = nd_connections s"
  "nd_sessions (fail_pending n e s) = (nd_sessions s)(n := (nd_sessions s n)\<lparr>wk_pending := []\<rparr>)"
  "nd_next_session (fail_pending n e s) = nd_next_session s" "nd_next_probe (fail_pending n e s) = nd_next_probe s"
  "nd_recent (fail_pending n e s) = nd_recent s" "nd_rows (fail_pending n e s) = nd_rows s"
  "pc_task (nd_probes (fail_pending n e s) g) = pc_task (nd_probes s g)"
  "pc_node (nd_probes (fail_pending n e s) g) = pc_node (nd_probes s g)"
  "pc_session (nd_probes (fail_pending n e s) g) = pc_session (nd_probes s g)"
  "pc_future (nd_probes (fail_pending n e s) g) =
     (if g \<in> snd ` set (wk_pending (nd_sessions s n)) \<and> pc_future (nd_probes s g) = Waiting then Raised e
      else pc_future (nd_probes s g))"
  by (simp_all add: fail_pending_def fold_set_future_parts fold_set_future_future)

lemma nodes_inv_close:
  assumes "nodes_inv cf s"
  shows "nodes_inv cf (close_session i e s)"
proof (cases "map_of (nd_connections s) i")
  case None
  with assms show ?thesis by (simp add: close_session_def)
next
  case (Some n)
  let ?c = "dict_pop i (nd_connections s)"
  let ?s = "fail_pending n e (s\<lparr>nd_connections := ?c\<rparr>)"
  note inv = assms [unfolded nodes_inv_def]
  have d: "distinct (map fst (nd_connections s))" using inv by blast
  from Some have n: "(i, n) \<in> set (nd_connections s)" by (rule map_of_SomeD)
  have kept: "(j, m) \<in> set ?c" if "(j, m) \<in> set (nd_connections s)" "m \<noteq> n" for j m
    using that d n by (auto simp: dict_pop_def eq_key_imp_eq_value)
  have sub: "set ?c \<subseteq> set (nd_connections s)" by (auto simp: dict_pop_def)
  have "session_ok cf ?s m (nd_sessions ?s m)" for m
  proof (cases "m = n")
    case True
    have "session_ok cf s n (nd_sessions s n)" using inv by blast
    with True show ?thesis by (simp add: session_ok_def)
  next
    case False
    have "session_ok cf s m (nd_sessions s m)" using inv by blast
    with False show ?thesis using kept by (fastforce simp: session_ok_def)
  qed
  moreover have "length ?c \<le> nc_max_connections cf" using inv length_dict_pop_le [of i "nd_connections s"] by simp
  moreover have "distinct (map snd ?c)" using inv by (simp add: dict_pop_def distinct_map_filter)
  moreover have "distinct (map fst ?c)" using d by blast
  ultimately have "nodes_inv cf ?s" using inv sub by (auto simp: nodes_inv_def)
  with Some show ?thesis by (simp add: close_session_def)
qed

lemma close_session_parts:
  "nd_next_session (close_session i e s) = nd_next_session s" "nd_next_probe (close_session i e s) = nd_next_probe s"
  "nd_recent (close_session i e s) = nd_recent s" "nd_rows (close_session i e s) = nd_rows s"
  "map_of (nd_connections (close_session i e s)) j = (if j = i then None else map_of (nd_connections s) j)"
  "pc_task (nd_probes (close_session i e s) g) = pc_task (nd_probes s g)"
  "pc_node (nd_probes (close_session i e s) g) = pc_node (nd_probes s g)"
  "pc_session (nd_probes (close_session i e s) g) = pc_session (nd_probes s g)"
  by (auto simp: close_session_def split: option.split)

lemma length_close_session:
  "length (nd_connections (close_session i e s)) \<le> length (nd_connections s) \<and>
   (map_of (nd_connections s) i \<noteq> None \<longrightarrow> length (nd_connections (close_session i e s)) < length (nd_connections s))"
  using length_dict_pop_present [of "nd_connections s" i] by (auto simp: close_session_def split: option.split)

lemma nodes_inv_add_session:
  assumes "nodes_inv cf s" "map_of (nd_connections s) i = None" "length (nd_connections s) < nc_max_connections cf"
  shows "nodes_inv cf (s\<lparr>nd_connections := dict_put i (nd_next_session s) (nd_connections s),
     nd_sessions := (nd_sessions s)(nd_next_session s := \<lparr>wk_queue = [], wk_pending = []\<rparr>),
     nd_next_session := Suc (nd_next_session s)\<rparr>)"
  using assms by (auto simp: nodes_inv_def dict_put_def session_ok_def map_of_eq_None_iff)

lemma nodes_inv_connect:
  assumes "nodes_inv cf s"
  shows "nodes_inv cf (snd (connect cf i s))"
proof (cases "map_of (nd_connections s) i = None \<and> length (nd_connections s) \<ge> nc_max_connections cf")
  case True
  with assms show ?thesis by (simp add: connect_def)
next
  case False
  let ?s = "close_session i (NodeTaskDisconnectedError ''Worker session was replaced'') s"
  have "length (nd_connections s) \<le> nc_max_connections cf" using assms by (simp add: nodes_inv_def)
  with False length_close_session [of i _ s] have "length (nd_connections ?s) < nc_max_connections cf"
    by (meson le_less_trans less_le_trans not_le)
  moreover have "map_of (nd_connections ?s) i = None" by (simp add: close_session_parts)
  ultimately have "nodes_inv cf (snd (Inr (nd_next_session ?s) :: exn + nat, ?s\<lparr>nd_connections := dict_put i (nd_next_session ?s) (nd_connections ?s),
     nd_sessions := (nd_sessions ?s)(nd_next_session ?s := \<lparr>wk_queue = [], wk_pending = []\<rparr>),
     nd_next_session := Suc (nd_next_session ?s)\<rparr>))"
    using nodes_inv_add_session [OF nodes_inv_close [OF assms]] by simp
  then show ?thesis unfolding connect_def Let_def if_not_P [OF False] .
qed

section \<open>Probes and results\<close>

definition add_pending :: "string \<Rightarrow> string \<Rightarrow> nat \<Rightarrow> nodes \<Rightarrow> nodes" where
  \<comment> \<open>a new future under the task's id in the pending dictionary of the session\<close>
  "add_pending node i n s = update_session n (\<lambda>x. x\<lparr>wk_pending := dict_put i (nd_next_probe s) (wk_pending x)\<rparr>)
     (s\<lparr>nd_probes := (nd_probes s)(nd_next_probe s := \<lparr>pc_node = node, pc_task = i, pc_session = n, pc_future = Waiting\<rparr>),
        nd_next_probe := Suc (nd_next_probe s)\<rparr>)"

lemma nodes_inv_add_pending:
  assumes "nodes_inv cf s" "(node, n) \<in> set (nd_connections s)" "length (wk_pending (nd_sessions s n)) < nc_max_tasks cf"
  shows "nodes_inv cf (add_pending node i n s)"
proof -
  let ?t = "s\<lparr>nd_probes := (nd_probes s)(nd_next_probe s := \<lparr>pc_node = node, pc_task = i, pc_session = n, pc_future = Waiting\<rparr>),
        nd_next_probe := Suc (nd_next_probe s)\<rparr>"
  have same: "session_ok cf s m x \<Longrightarrow> session_ok cf ?t m x" for m x
    by (fastforce simp: session_ok_def)
  with assms(1) have "nodes_inv cf ?t" by (simp add: nodes_inv_def)
  moreover have "session_ok cf ?t n (x\<lparr>wk_pending := dict_put i (nd_next_probe s) (wk_pending x)\<rparr>)"
    if "x = nd_sessions s n" "session_ok cf ?t n x" for x
  proof -
    have "set (dict_put i (nd_next_probe s) (wk_pending x)) \<subseteq> insert (i, nd_next_probe s) (set (wk_pending x))"
      by (auto simp: dict_put_def)
    moreover have "length (dict_put i (nd_next_probe s) (wk_pending x)) \<le> nc_max_tasks cf"
      using assms(3) that(1) by (simp add: length_dict_put)
    moreover have "distinct (map fst (dict_put i (nd_next_probe s) (wk_pending x)))"
      using that(2) by (auto simp: session_ok_def)
    ultimately show ?thesis using that(2) assms(2) by (fastforce simp: session_ok_def)
  qed
  ultimately show ?thesis unfolding add_pending_def by (intro nodes_inv_update_session) auto
qed

lemma recent_after_length: "length (recent_after m i r) \<le> m"
  by (simp add: recent_after_def Let_def)

lemma nodes_inv_recent [simp]:
  "nodes_inv cf s \<Longrightarrow> length r \<le> nc_max_tasks cf * nc_max_connections cf \<Longrightarrow> nodes_inv cf (s\<lparr>nd_recent := r\<rparr>)"
  by (simp add: nodes_inv_def session_ok_def)

text \<open>The cases of a registration: refused, queue full, ids that are no task ids, and done.\<close>

lemma register_probe_cases:
  obtains (refused) e where "register_probe cf node i timeout s = (Inl e, s)"
  | (invalid) n e where "map_of (nd_connections s) node = Some n" "length (wk_pending (nd_sessions s n)) < nc_max_tasks cf"
      "register_probe cf node i timeout s = (Inl e, add_pending node i n s)"
  | (full) n e where "map_of (nd_connections s) node = Some n" "length (wk_pending (nd_sessions s n)) < nc_max_tasks cf"
      "register_probe cf node i timeout s = (Inl e, update_session n (\<lambda>x. x\<lparr>wk_pending := dict_pop i (wk_pending x)\<rparr>)
         (set_future (nd_next_probe s) Abandoned (add_pending node i n s)))"
  | (sent) n x where "map_of (nd_connections s) node = Some n" "length (wk_pending (nd_sessions s n)) < nc_max_tasks cf"
      "put_nowait (nc_max_messages cf) (TaskRequest i timeout) (nd_sessions (add_pending node i n s) n) = Some x"
      "register_probe cf node i timeout s = (Inr (nd_next_probe s),
         (update_session n (\<lambda>_. x) (add_pending node i n s))
           \<lparr>nd_recent := recent_after (nc_max_tasks cf * nc_max_connections cf) i (nd_recent s)\<rparr>)"
      "map_of (nd_recent s) i = None"
proof (cases "map_of (nd_recent s) i = None")
  case False
  then show thesis using refused by (simp add: register_probe_def)
next
  case new: True
  show thesis
  proof (cases "map_of (nd_connections s) node")
    case None
    with new show thesis using refused by (simp add: register_probe_def)
  next
    case (Some n)
    show thesis
    proof (cases "nc_max_tasks cf \<le> length (wk_pending (nd_sessions s n))")
      case True
      with new Some show thesis using refused by (simp add: register_probe_def)
    next
      case room: False
      have r: "register_probe cf node i timeout s = (case construct (TaskRequest i timeout) of
            Inl e \<Rightarrow> (Inl e, add_pending node i n s)
          | Inr m \<Rightarrow> (case put_nowait (nc_max_messages cf) m (nd_sessions (add_pending node i n s) n) of
              None \<Rightarrow> (Inl (NodeUnavailableError ''Worker command queue is full''),
                update_session n (\<lambda>x. x\<lparr>wk_pending := dict_pop i (wk_pending x)\<rparr>)
                  (set_future (nd_next_probe s) Abandoned (add_pending node i n s)))
            | Some x \<Rightarrow> (Inr (nd_next_probe s), (update_session n (\<lambda>_. x) (add_pending node i n s))
                \<lparr>nd_recent := recent_after (nc_max_tasks cf * nc_max_connections cf) i (nd_recent s)\<rparr>)))"
        using new Some room
        by (simp add: register_probe_def Let_def add_pending_def split: sum.split option.split)
      from room have room: "length (wk_pending (nd_sessions s n)) < nc_max_tasks cf" by simp
      show thesis
      proof (cases "construct (TaskRequest i timeout)")
        case (Inl e)
        with r show thesis using invalid [OF Some room] by simp
      next
        case (Inr m)
        then have m: "m = TaskRequest i timeout" by (simp add: construct_Inr_iff)
        show thesis
        proof (cases "put_nowait (nc_max_messages cf) m (nd_sessions (add_pending node i n s) n)")
          case None
          with r Inr show thesis using full [OF Some room] by simp
        next
          case (Some x)
          with r Inr m new show thesis using sent [OF \<open>map_of (nd_connections s) node = Some n\<close> room] by simp
        qed
      qed
    qed
  qed
qed

lemma nodes_inv_pop:
  "nodes_inv cf s \<Longrightarrow> nodes_inv cf (update_session n (\<lambda>x. x\<lparr>wk_pending := dict_pop i (wk_pending x)\<rparr>) s)"
  by (rule nodes_inv_update_session) (assumption, rule session_ok_pop)

lemma nodes_inv_register:
  assumes "nodes_inv cf s"
  shows "nodes_inv cf (snd (register_probe cf node i timeout s))"
proof (cases rule: register_probe_cases [of cf node i timeout s])
  case (refused e)
  with assms show ?thesis by simp
next
  case (invalid n e)
  with nodes_inv_add_pending [OF assms map_of_SomeD [OF invalid(1)]] show ?thesis by simp
next
  case (full n e)
  with nodes_inv_add_pending [OF assms map_of_SomeD [OF full(1)] full(2)] show ?thesis
    by (simp add: nodes_inv_pop)
next
  case (sent n x)
  from nodes_inv_add_pending [OF assms map_of_SomeD [OF sent(1)] sent(2)]
  have "nodes_inv cf (update_session n (\<lambda>_. x) (add_pending node i n s))"
    by (rule nodes_inv_update_session) (rule session_ok_put_nowait [OF _ sent(3)])
  with sent show ?thesis by (simp add: recent_after_length)
qed

lemma session_ok_give_up:
  "session_ok cf s n x \<Longrightarrow> session_ok cf s n (let x = x\<lparr>wk_pending := dict_pop i (wk_pending x)\<rparr> in
     case put_nowait (nc_max_messages cf) m x of None \<Rightarrow> x | Some y \<Rightarrow> y)"
  by (auto simp: Let_def session_ok_pop intro: session_ok_put_nowait [OF session_ok_pop] split: option.split)

lemma nodes_inv_conclude: "nodes_inv cf s \<Longrightarrow> nodes_inv cf (snd (conclude_probe cf w f s))"
proof -
  assume inv: "nodes_inv cf s"
  then have "nodes_inv cf (give_up cf f s)"
    unfolding give_up_def Let_def [of "nd_probes s f"]
    by (intro nodes_inv_update_session) (simp_all add: session_ok_give_up)
  with inv show ?thesis
    by (auto simp: conclude_probe_def Let_def split: future.split intro: nodes_inv_same [OF _ same_sessions_update(2)])
qed

text \<open>The cases of a result: nothing to do, or the future it was pending for is set.\<close>

lemma receive_result_cases:
  obtains (ignored) "receive_result cf w node m s = s"
  | (popped) n i where "map_of (nd_connections s) node = Some n"
      "\<forall>f. map_of (wk_pending (nd_sessions s n)) i = Some f \<longrightarrow> pc_future (nd_probes s f) \<noteq> Waiting"
      "receive_result cf w node m s = update_session n (\<lambda>x. x\<lparr>wk_pending := dict_pop i (wk_pending x)\<rparr>) s"
  | (resulted) n i f r where "map_of (nd_connections s) node = Some n" "map_of (wk_pending (nd_sessions s n)) i = Some f"
      "m = TaskResult i r"
      "receive_result cf w node m s = set_future f (Returned r) (update_session n (\<lambda>x. x\<lparr>wk_pending := dict_pop i (wk_pending x)\<rparr>) s)"
  | (failed) n i f code detail where "map_of (nd_connections s) node = Some n" "map_of (wk_pending (nd_sessions s n)) i = Some f"
      "m = TaskError i code detail"
      "receive_result cf w node m s = node_publish cf w 0 WORKER_TASK_FAILED node [(''task_id'', PStr i), (''code'', PStr code)]
         (set_future f (Raised (NodeError detail)) (update_session n (\<lambda>x. x\<lparr>wk_pending := dict_pop i (wk_pending x)\<rparr>) s))"
proof (cases "map_of (nd_connections s) node")
  case None
  then show thesis using ignored by (cases m) (simp_all add: receive_result_def)
next
  case conn: (Some n)
  show thesis
  proof (cases m)
    case (TaskResult i r)
    then show thesis
      using conn popped [of n i] resulted [of n i _ r]
      by (cases "map_of (wk_pending (nd_sessions s n)) i") (simp_all add: receive_result_def)
  next
    case (TaskError i code detail)
    show thesis
    proof (cases "map_of (wk_pending (nd_sessions s n)) i")
      case None
      with TaskError conn show thesis using popped [of n i] by (simp add: receive_result_def)
    next
      case (Some f)
      with TaskError conn show thesis
        using popped [of n i] failed [of n i f code detail]
        by (cases "pc_future (nd_probes s f) = Waiting") (simp_all add: receive_result_def)
    qed
  qed (use ignored in \<open>simp_all add: receive_result_def\<close>)
qed

lemma nodes_inv_receive:
  assumes "nodes_inv cf s"
  shows "nodes_inv cf (receive_result cf w node m s)"
  using assms
  by (cases rule: receive_result_cases [of cf w node m s])
    (auto simp: nodes_inv_pop intro: nodes_inv_same [OF _ same_sessions_update(2)])

lemma nodes_inv_next:
  assumes "nodes_inv cf s"
  shows "nodes_inv cf (snd (next_command n s))"
proof (cases "wk_queue (nd_sessions s n)")
  case (Cons m ms)
  have "session_ok cf s n (nd_sessions s n) \<Longrightarrow> session_ok cf s n ((nd_sessions s n)\<lparr>wk_queue := ms\<rparr>)"
    using Cons by (auto simp: session_ok_def)
  with assms Cons show ?thesis by (simp add: next_command_def nodes_inv_update_session)
qed (use assms in \<open>simp add: next_command_def\<close>)

lemma nodes_inv_do:
  assumes "nodes_inv cf s"
  shows "nodes_inv cf (node_do cf a s)"
proof (cases a)
  case (Connect i)
  with nodes_inv_connect [OF assms] show ?thesis by simp
next
  case (Drop i)
  with nodes_inv_close [OF assms] show ?thesis by (simp add: drop_session_def)
next
  case (Register node i timeout)
  with nodes_inv_register [OF assms] show ?thesis by simp
next
  case (Conclude w f)
  with nodes_inv_conclude [OF assms] show ?thesis by simp
next
  case (CancelProbe f)
  with assms show ?thesis by (simp add: cancel_probe_def)
next
  case (Receive w node m)
  with nodes_inv_receive [OF assms] show ?thesis by simp
next
  case (NextCommand n)
  with nodes_inv_next [OF assms] show ?thesis by simp
qed (use assms in \<open>simp_all add: nodes_inv_same [OF _ same_sessions_enroll] nodes_inv_same [OF _ same_sessions_status]
    nodes_inv_same [OF _ same_sessions_offline] nodes_inv_same [OF _ same_sessions_core]
    nodes_inv_same [OF _ same_sessions_row_ops(1)] nodes_inv_same [OF _ same_sessions_row_ops(2)]
    nodes_inv_same [OF _ same_sessions_update(2)]\<close>)

lemma nodes_inv_run: "nodes_inv cf s \<Longrightarrow> nodes_inv cf (fold (node_do cf) acts s)"
  by (induction acts arbitrary: s) (simp_all add: nodes_inv_do)

section \<open>Who answers a probe\<close>

definition kept_call :: "probe_call \<Rightarrow> probe_call \<Rightarrow> bool" where
  \<comment> \<open>the locals are kept, and a future that is done stays as it is\<close>
  "kept_call p p' \<longleftrightarrow> pc_node p' = pc_node p \<and> pc_task p' = pc_task p \<and> pc_session p' = pc_session p \<and>
     (pc_future p \<noteq> Waiting \<longrightarrow> pc_future p' = pc_future p)"

definition keeps_calls :: "nodes \<Rightarrow> nodes \<Rightarrow> bool" where
  "keeps_calls s s' \<longleftrightarrow> nd_next_probe s \<le> nd_next_probe s' \<and>
     (\<forall>f < nd_next_probe s. kept_call (nd_probes s f) (nd_probes s' f))"

definition unanswered_call :: "probe_call \<Rightarrow> probe_call \<Rightarrow> bool" where
  "unanswered_call p p' \<longleftrightarrow> kept_call p p' \<and> (\<forall>r. pc_future p' = Returned r \<longrightarrow> pc_future p = Returned r)"

definition unanswered :: "nodes \<Rightarrow> nodes \<Rightarrow> bool" where
  \<comment> \<open>the step gives no call a result\<close>
  "unanswered s s' \<longleftrightarrow> nd_next_probe s \<le> nd_next_probe s' \<and>
     (\<forall>f < nd_next_probe s. unanswered_call (nd_probes s f) (nd_probes s' f))"

lemmas call_defs = keeps_calls_def kept_call_def unanswered_def unanswered_call_def

lemma unanswered_refl [intro!, simp]: "unanswered s s"
  by (simp add: call_defs)

lemma unanswered_call_trans: "unanswered_call p q \<Longrightarrow> unanswered_call q r \<Longrightarrow> unanswered_call p r"
  unfolding unanswered_call_def kept_call_def by metis

lemma unanswered_trans [trans]:
  assumes "unanswered s t" "unanswered t u"
  shows "unanswered s u"
proof -
  have "unanswered_call (nd_probes s f) (nd_probes u f)" if "f < nd_next_probe s" for f
  proof (rule unanswered_call_trans)
    show "unanswered_call (nd_probes s f) (nd_probes t f)" using assms(1) that by (simp add: unanswered_def)
    show "unanswered_call (nd_probes t f) (nd_probes u f)" using assms that by (simp add: unanswered_def)
  qed
  with assms show ?thesis by (simp add: unanswered_def)
qed

lemma unanswered_same: "same_sessions s s' \<Longrightarrow> unanswered s s'"
  by (simp add: same_sessions_def call_defs)

lemma unanswered_set_future: "(\<And>r. v \<noteq> Returned r) \<Longrightarrow> unanswered s (set_future f v s)"
  by (auto simp: call_defs)

lemma unanswered_update_session [simp]: "unanswered s (update_session n g s)"
  by (simp add: call_defs)

lemma unanswered_add_pending: "unanswered s (add_pending node i n s)"
  by (simp add: add_pending_def call_defs)

lemma unanswered_recent [simp]: "unanswered s (t\<lparr>nd_recent := r\<rparr>) = unanswered s t"
  by (simp add: call_defs)

lemma unanswered_close: "unanswered s (close_session i e s)"
  by (auto simp: close_session_def call_defs split: option.split)

lemma unanswered_connect: "unanswered s (snd (connect cf i s))"
proof -
  have "unanswered s (t\<lparr>nd_connections := c, nd_sessions := x, nd_next_session := k\<rparr>) = unanswered s t" for t c x k
    by (simp add: call_defs)
  then show ?thesis by (simp add: connect_def Let_def unanswered_close)
qed

lemma unanswered_register: "unanswered s (snd (register_probe cf node i timeout s))"
proof (cases rule: register_probe_cases [of cf node i timeout s])
  case (full n e)
  have "unanswered (add_pending node i n s) (set_future (nd_next_probe s) Abandoned (add_pending node i n s))"
    by (rule unanswered_set_future) simp
  with full show ?thesis by (auto intro: unanswered_trans [OF unanswered_add_pending unanswered_trans])
next
  case (sent n x)
  have "unanswered s (update_session n (\<lambda>_. x) (add_pending node i n s))"
    by (rule unanswered_trans [OF unanswered_add_pending unanswered_update_session])
  with sent show ?thesis by simp
qed (auto intro: unanswered_add_pending)

lemma unanswered_conclude: "unanswered s (snd (conclude_probe cf w f s))"
proof -
  have "unanswered s (give_up cf f s)"
    unfolding give_up_def Let_def [of "nd_probes s f"]
    by (rule unanswered_trans [OF unanswered_set_future unanswered_update_session]) simp
  moreover have "unanswered t (node_publish cf w 0 ty i payload t)" for t ty i payload by (rule unanswered_same) simp
  ultimately show ?thesis
    by (auto simp: conclude_probe_def Let_def split: future.split intro: unanswered_trans)
qed

lemma unanswered_do:
  assumes "\<And>w node i r. a \<noteq> Receive w node (TaskResult i r)"
  shows "unanswered s (node_do cf a s)"
proof (cases a)
  case (Receive w node m)
  have "unanswered t (node_publish cf w 0 ty i payload (set_future f (Raised e) t))" for t ty i payload f e
    by (rule unanswered_trans [OF unanswered_set_future [of "Raised e"] unanswered_same [OF same_sessions_update(2)]]) simp
  then have "unanswered s (node_publish cf w 0 ty j payload (set_future f (Raised e)
      (update_session n (\<lambda>x. x\<lparr>wk_pending := dict_pop i (wk_pending x)\<rparr>) s)))" for ty j payload f e n i
    by (rule unanswered_trans [OF unanswered_update_session])
  then show ?thesis
    using Receive assms by (cases rule: receive_result_cases [of cf w node m s]) auto
next
  case (Connect i)
  then show ?thesis by (simp add: unanswered_connect)
next
  case (Drop i)
  then show ?thesis by (simp add: drop_session_def unanswered_close)
next
  case (Register node i timeout)
  then show ?thesis by (simp add: unanswered_register)
next
  case (Conclude w f)
  then show ?thesis by (simp add: unanswered_conclude)
next
  case (CancelProbe f)
  then show ?thesis by (simp add: cancel_probe_def unanswered_set_future)
next
  case (NextCommand n)
  then show ?thesis by (simp add: next_command_def split: list.split)
qed (simp_all add: unanswered_same same_sessions_rules)

lemma receive_answers:
  fixes cf :: node_config and s :: nodes and w :: world and node i :: string and r :: pydict
  assumes "nodes_inv cf s" "f < nd_next_probe s"
  defines "s' \<equiv> receive_result cf w node (TaskResult i r) s"
  shows "keeps_calls s s'"
    and "pc_future (nd_probes s' f) = Returned r' \<Longrightarrow> pc_future (nd_probes s f) = Waiting \<Longrightarrow>
      pc_node (nd_probes s f) = node \<and> pc_task (nd_probes s f) = i \<and> r' = r"
proof -
  show "keeps_calls s s'" unfolding s'_def
    by (cases rule: receive_result_cases [of cf w node "TaskResult i r" s]) (auto simp: call_defs)
  assume new: "pc_future (nd_probes s' f) = Returned r'" "pc_future (nd_probes s f) = Waiting"
  show "pc_node (nd_probes s f) = node \<and> pc_task (nd_probes s f) = i \<and> r' = r"
  proof (cases rule: receive_result_cases [of cf w node "TaskResult i r" s])
    case (resulted n j g q)
    with new have g: "g = f" "q = r'" by (auto simp: s'_def split: if_splits)
    have "session_ok cf s n (nd_sessions s n)" using assms(1) by (simp add: nodes_inv_def)
    with map_of_SomeD [OF resulted(2)] have t: "pc_task (nd_probes s g) = j" "(pc_node (nd_probes s g), n) \<in> set (nd_connections s)"
      by (auto simp: session_ok_def)
    from assms(1) have d: "distinct (map snd (nd_connections s))" by (simp add: nodes_inv_def)
    have "pc_node (nd_probes s g) = node"
      using t(2) map_of_SomeD [OF resulted(1)] d by (metis distinct_map fst_conv inj_onD snd_conv)
    with t(1) resulted(3) g show ?thesis by simp
  qed (use new in \<open>auto simp: s'_def\<close>)
qed

section \<open>No probe is lost\<close>

text \<open>
  When no task id is used twice, every call that waits is pending, under its id, in the session of its
  node: whoever closes that session fails it.
\<close>

definition tracked :: "string set \<Rightarrow> nodes \<Rightarrow> bool" where
  "tracked ids s \<longleftrightarrow> (\<forall>f < nd_next_probe s. pc_task (nd_probes s f) \<in> ids) \<and>
     inj_on (\<lambda>f. pc_task (nd_probes s f)) {..<nd_next_probe s} \<and>
     (\<forall>f. pc_future (nd_probes s f) = Waiting \<longrightarrow> f < nd_next_probe s \<and>
        map_of (wk_pending (nd_sessions s (pc_session (nd_probes s f)))) (pc_task (nd_probes s f)) = Some f)"

lemma tracked_waiting:
  assumes "tracked ids s" "pc_future (nd_probes s f) = Waiting"
  shows "f < nd_next_probe s"
    and "map_of (wk_pending (nd_sessions s (pc_session (nd_probes s f)))) (pc_task (nd_probes s f)) = Some f"
  using assms by (simp_all add: tracked_def)

lemma tracked_mono: "tracked ids s \<Longrightarrow> ids \<subseteq> ids' \<Longrightarrow> tracked ids' s"
  by (auto simp: tracked_def)

lemma tracked_same: "tracked ids s \<Longrightarrow> same_sessions s s' \<Longrightarrow> tracked ids s'"
  by (simp add: tracked_def same_sessions_def)

lemma tracked_set_future: "tracked ids s \<Longrightarrow> v \<noteq> Waiting \<Longrightarrow> tracked ids (set_future f v s)"
  unfolding tracked_def by (simp add: inj_on_def)

lemma tracked_recent [simp]: "tracked ids (s\<lparr>nd_recent := r\<rparr>) = tracked ids s"
  by (simp add: tracked_def)

lemma tracked_update_session:
  assumes "tracked ids s" "wk_pending (g (nd_sessions s n)) = wk_pending (nd_sessions s n)"
  shows "tracked ids (update_session n g s)"
  using assms by (auto simp: tracked_def inj_on_def)

lemma tracked_new_session:
  "tracked ids s \<Longrightarrow> (\<And>f. pc_future (nd_probes s f) = Waiting \<Longrightarrow> pc_session (nd_probes s f) \<noteq> n) \<Longrightarrow>
   tracked ids (s\<lparr>nd_connections := c, nd_sessions := (nd_sessions s)(n := x), nd_next_session := k\<rparr>)"
  by (auto simp: tracked_def inj_on_def)

lemma tracked_pop:
  assumes "tracked ids s" "wk_pending (g (nd_sessions s n)) = dict_pop i (wk_pending (nd_sessions s n))"
    and "\<And>f. pc_future (nd_probes s f) = Waiting \<Longrightarrow> pc_session (nd_probes s f) = n \<Longrightarrow> pc_task (nd_probes s f) \<noteq> i"
  shows "tracked ids (update_session n g s)"
  using assms by (auto simp: tracked_def inj_on_def)

lemma tracked_close: "tracked ids s \<Longrightarrow> tracked ids (close_session i e s)"
proof (cases "map_of (nd_connections s) i")
  case (Some n)
  assume t: "tracked ids s"
  let ?s = "fail_pending n e (s\<lparr>nd_connections := dict_pop i (nd_connections s)\<rparr>)"
  have "map_of (wk_pending (nd_sessions ?s (pc_session (nd_probes ?s f)))) (pc_task (nd_probes ?s f)) = Some f \<and>
      f < nd_next_probe ?s" if w: "pc_future (nd_probes ?s f) = Waiting" for f
  proof -
    from w have old: "pc_future (nd_probes s f) = Waiting" "f \<notin> snd ` set (wk_pending (nd_sessions s n))"
      by (auto split: if_splits)
    note p = tracked_waiting [OF t old(1)]
    from map_of_SomeD [OF p(2)] old(2) have "pc_session (nd_probes s f) \<noteq> n" by force
    with p show ?thesis by simp
  qed
  moreover have "inj_on (\<lambda>f. pc_task (nd_probes ?s f)) {..<nd_next_probe ?s}" "\<forall>f < nd_next_probe ?s. pc_task (nd_probes ?s f) \<in> ids"
    using t by (simp_all add: tracked_def)
  ultimately have "tracked ids ?s" by (simp add: tracked_def)
  with Some show ?thesis by (simp add: close_session_def)
qed (simp add: close_session_def)

lemma waiting_connected:
  assumes "nodes_inv cf s" "tracked ids s" "pc_future (nd_probes s f) = Waiting"
  shows "(pc_node (nd_probes s f), pc_session (nd_probes s f)) \<in> set (nd_connections s)"
    and "pc_session (nd_probes s f) < nd_next_session s"
proof -
  let ?n = "pc_session (nd_probes s f)"
  have "session_ok cf s ?n (nd_sessions s ?n)" using assms(1) by (simp add: nodes_inv_def)
  with map_of_SomeD [OF tracked_waiting(2) [OF assms(2,3)]]
  show c: "(pc_node (nd_probes s f), ?n) \<in> set (nd_connections s)" unfolding session_ok_def by blast
  have "\<forall>n \<in> snd ` set (nd_connections s). n < nd_next_session s" using assms(1) by (simp add: nodes_inv_def)
  then show "?n < nd_next_session s" using c by force
qed

lemma tracked_connect:
  assumes "nodes_inv cf s" "tracked ids s"
  shows "tracked ids (snd (connect cf i s))"
proof (cases "map_of (nd_connections s) i = None \<and> length (nd_connections s) \<ge> nc_max_connections cf")
  case True
  with assms(2) show ?thesis by (simp add: connect_def)
next
  case False
  define t where "t = close_session i (NodeTaskDisconnectedError ''Worker session was replaced'') s"
  have "nodes_inv cf t" "tracked ids t" unfolding t_def by (rule nodes_inv_close tracked_close, fact assms)+
  then have "tracked ids (t\<lparr>nd_connections := c, nd_sessions := (nd_sessions t)(nd_next_session t := x), nd_next_session := k\<rparr>)" for c x k
    by (intro tracked_new_session) (auto dest: waiting_connected(2))
  then show ?thesis unfolding connect_def Let_def if_not_P [OF False] t_def by simp
qed

lemma tracked_add_pending:
  assumes "tracked ids s" "i \<notin> ids"
  shows "tracked (insert i ids) (add_pending node i n s)"
proof -
  have new: "pc_task (nd_probes s f) \<noteq> i" if "f < nd_next_probe s" for f using assms that by (auto simp: tracked_def)
  have "inj_on (\<lambda>f. pc_task (nd_probes (add_pending node i n s) f)) {..<Suc (nd_next_probe s)}"
    using assms(1) new unfolding tracked_def inj_on_def by (fastforce simp: add_pending_def less_Suc_eq)
  with assms new show ?thesis by (auto simp: tracked_def add_pending_def less_Suc_eq)
qed

lemma tracked_register:
  assumes "tracked ids s" "i \<notin> ids"
  shows "tracked (insert i ids) (snd (register_probe cf node i timeout s))"
proof (cases rule: register_probe_cases [of cf node i timeout s])
  case (full n e)
  let ?f = "nd_next_probe s"
  let ?t = "set_future ?f Abandoned (add_pending node i n s)"
  have t: "tracked (insert i ids) ?t" using tracked_add_pending [OF assms] by (simp add: tracked_set_future)
  have "pc_task (nd_probes ?t g) \<noteq> i" if "pc_future (nd_probes ?t g) = Waiting" for g
  proof -
    from that have "g \<noteq> ?f" by (auto simp: add_pending_def)
    with tracked_waiting(1) [OF t that] have "g < ?f" "pc_task (nd_probes ?t g) = pc_task (nd_probes s g)"
      by (auto simp: add_pending_def)
    with assms show ?thesis by (auto simp: tracked_def)
  qed
  then have "tracked (insert i ids) (update_session n (\<lambda>x. x\<lparr>wk_pending := dict_pop i (wk_pending x)\<rparr>) ?t)"
    by (intro tracked_pop [OF t]) auto
  with full show ?thesis by simp
next
  case (sent n x)
  from sent(3) have "wk_pending x = wk_pending (nd_sessions (add_pending node i n s) n)"
    by (auto simp: put_nowait_def split: if_splits)
  with tracked_add_pending [OF assms] have "tracked (insert i ids) (update_session n (\<lambda>_. x) (add_pending node i n s))"
    by (intro tracked_update_session) auto
  with sent(4) show ?thesis by simp
qed (use assms in \<open>auto intro: tracked_add_pending tracked_mono\<close>)

lemma tracked_conclude:
  assumes "tracked ids s"
  shows "tracked ids (snd (conclude_probe cf w f s))"
proof (cases "pc_future (nd_probes s f)")
  case Waiting
  let ?p = "nd_probes s f"
  let ?t = "set_future f Abandoned s"
  have t: "tracked ids ?t" using assms by (simp add: tracked_set_future)
  have "pc_task (nd_probes s g) \<noteq> pc_task ?p" if "g \<noteq> f" "pc_future (nd_probes s g) = Waiting" for g
    using tracked_waiting(1) [OF assms] that Waiting assms by (auto simp: tracked_def inj_on_def)
  then have "tracked ids (give_up cf f s)" unfolding give_up_def Let_def [of "nd_probes s f"]
    by (intro tracked_pop [OF t]) (auto simp: put_nowait_def Let_def Waiting split: if_splits)
  with Waiting show ?thesis
    by (simp add: conclude_probe_def Let_def tracked_same [OF _ same_sessions_update(2)])
qed (use assms in \<open>simp_all add: conclude_probe_def Let_def tracked_same [OF _ same_sessions_update(2)]\<close>)

lemma tracked_taken:
  assumes "nodes_inv cf s" "tracked ids s" "map_of (wk_pending (nd_sessions s n)) i = Some f" "v \<noteq> Waiting"
  shows "tracked ids (set_future f v (update_session n (\<lambda>x. x\<lparr>wk_pending := dict_pop i (wk_pending x)\<rparr>) s))"
proof -
  have "tracked ids (update_session n (\<lambda>x. x\<lparr>wk_pending := dict_pop i (wk_pending x)\<rparr>) (set_future f v s))"
  proof (rule tracked_pop)
    show "tracked ids (set_future f v s)" using assms(2,4) by (rule tracked_set_future)
    fix g assume w: "pc_future (nd_probes (set_future f v s) g) = Waiting"
      "pc_session (nd_probes (set_future f v s) g) = n"
    show "pc_task (nd_probes (set_future f v s) g) \<noteq> i"
    proof
      assume i: "pc_task (nd_probes (set_future f v s) g) = i"
      from w(1) assms(4) have g: "pc_future (nd_probes s g) = Waiting" "g = f \<Longrightarrow> pc_future (nd_probes s f) \<noteq> Waiting"
        by (simp_all split: if_splits)
      from tracked_waiting(2) [OF assms(2) g(1)] w(2) i assms(3) have "g = f" by simp
      with g show False by simp
    qed
  qed simp
  moreover have "set_future f v (update_session n h s) = update_session n h (set_future f v s)" for h
    by (simp add: set_future_def update_session_def)
  ultimately show ?thesis by simp
qed

lemma tracked_receive:
  assumes "nodes_inv cf s" "tracked ids s"
  shows "tracked ids (receive_result cf w node m s)"
proof (cases rule: receive_result_cases [of cf w node m s])
  case (popped n i)
  have "tracked ids (update_session n (\<lambda>x. x\<lparr>wk_pending := dict_pop i (wk_pending x)\<rparr>) s)"
    using assms(2) popped(2) by (intro tracked_pop [OF assms(2)]) (auto dest: tracked_waiting(2))
  with popped(3) show ?thesis by simp
next
  case (resulted n i f r)
  with tracked_taken [OF assms] show ?thesis by simp
next
  case (failed n i f code detail)
  with tracked_same [OF tracked_taken [OF assms failed(2)] same_sessions_update(2)] show ?thesis by simp
qed (use assms in simp)

fun registered_by :: "node_action \<Rightarrow> string list" where
  "registered_by (Register node i timeout) = [i]"
| "registered_by _ = []"

definition registered :: "node_action list \<Rightarrow> string list" where
  "registered acts = concat (map registered_by acts)"

lemma tracked_do:
  assumes "nodes_inv cf s" "tracked ids s" "set (registered_by a) \<inter> ids = {}"
  shows "tracked (ids \<union> set (registered_by a)) (node_do cf a s)"
proof (cases a)
  case (Register node i timeout)
  with assms tracked_register [of ids s i] show ?thesis by simp
next
  case (Connect i)
  with tracked_connect [OF assms(1,2)] show ?thesis by simp
next
  case (Drop i)
  with tracked_close [OF assms(2)] show ?thesis by (simp add: drop_session_def)
next
  case (Conclude w f)
  with tracked_conclude [OF assms(2)] show ?thesis by simp
next
  case (CancelProbe f)
  with assms(2) show ?thesis by (simp add: cancel_probe_def tracked_set_future)
next
  case (Receive w node m)
  with tracked_receive [OF assms(1,2)] show ?thesis by simp
next
  case (NextCommand n)
  with assms(2) show ?thesis by (simp add: next_command_def tracked_update_session split: list.split)
qed (use assms(2) in \<open>simp_all add: tracked_same [OF _ same_sessions_enroll] tracked_same [OF _ same_sessions_status]
    tracked_same [OF _ same_sessions_offline] tracked_same [OF _ same_sessions_core]
    tracked_same [OF _ same_sessions_row_ops(1)] tracked_same [OF _ same_sessions_row_ops(2)]
    tracked_same [OF _ same_sessions_update(2)]\<close>)

lemma tracked_run:
  "nodes_inv cf s \<Longrightarrow> tracked ids s \<Longrightarrow> distinct (registered acts) \<Longrightarrow> set (registered acts) \<inter> ids = {} \<Longrightarrow>
   tracked (ids \<union> set (registered acts)) (fold (node_do cf) acts s)"
proof (induction acts arbitrary: s ids)
  case (Cons a acts)
  have d: "set (registered_by a) \<inter> ids = {}" "distinct (registered acts)"
    "set (registered acts) \<inter> (ids \<union> set (registered_by a)) = {}"
    using Cons.prems(3,4) by (auto simp: registered_def)
  from Cons.IH [OF nodes_inv_do [OF Cons.prems(1)] tracked_do [OF Cons.prems(1,2) d(1)] d(2,3)]
  show ?case by (simp add: registered_def Un_assoc)
qed (simp add: registered_def)

lemma tracked_empty: "tracked {} (no_nodes b)"
  by (simp add: tracked_def no_nodes_def)

lemma disconnect_ends_waiting:
  assumes "nodes_inv cf s" "tracked ids s" "pc_future (nd_probes s f) = Waiting" "pc_node (nd_probes s f) = i"
  shows "pc_future (nd_probes (disconnect cf w k i s) f) = Raised (NodeTaskDisconnectedError ''Worker disconnected'')"
proof -
  note c = waiting_connected(1) [OF assms(1-3)]
  have "distinct (map fst (nd_connections s))" using assms(1) by (simp add: nodes_inv_def)
  with c assms(4) have m: "map_of (nd_connections s) i = Some (pc_session (nd_probes s f))" by (simp add: map_of_eq_Some_iff)
  have "f \<in> snd ` set (wk_pending (nd_sessions s (pc_session (nd_probes s f))))"
    using map_of_SomeD [OF tracked_waiting(2) [OF assms(2,3)]] by force
  with m assms(3) have "pc_future (nd_probes (drop_session i s) f) = Raised (NodeTaskDisconnectedError ''Worker disconnected'')"
    by (simp add: drop_session_def close_session_def)
  moreover have "nd_probes (disconnect cf w k i s) = nd_probes (drop_session i s)"
    using same_sessions_status [of "drop_session i s" cf w k i NodeOffline] by (simp add: disconnect_def same_sessions_def)
  ultimately show ?thesis by simp
qed

end
