(* ===== verification/Nodes_Props.thy ===== *)
theory Nodes_Props
  imports Nodes_Correct
begin

text \<open>
  The properties of the node service, over every sequence of its atomic steps, and the facts about the
  node table they need: a disabled worker stays disabled until it is enabled again.
\<close>

section \<open>Disabled workers\<close>

definition blocked :: "string \<Rightarrow> nodes \<Rightarrow> bool" where
  "blocked i s \<longleftrightarrow> (\<exists>r. node_get i s = Some r \<and> \<not> nr_enabled r \<and> nr_role r = WorkerRole)"

lemma blocked_rows: "nd_rows s' = nd_rows s \<Longrightarrow> blocked i s' = blocked i s"
  by (simp add: blocked_def node_get_def)

lemma node_get_update:
  assumes "\<And>r. nr_id (f r) = nr_id r"
  shows "node_get i (node_update now j f s) = (if i = j then map_option (node_touch now f) (node_get i s) else node_get i s)"
proof -
  have "nr_id (node_touch now f r) = nr_id r" for r using assms by (simp add: node_touch_def)
  then show ?thesis by (simp add: node_get_def node_update_def row_get_update)
qed

lemma node_touch_fields:
  "nr_enabled (node_touch now f r) = nr_enabled (f r)" "nr_role (node_touch now f r) = nr_role (f r)"
  "nr_status (node_touch now f r) = nr_status (f r)"
  by (simp_all add: node_touch_def)

lemma blocked_update:
  assumes "blocked i s" "\<And>r. nr_id (f r) = nr_id r"
    and "i = j \<Longrightarrow> \<forall>r. nr_role (f r) = nr_role r \<and> (nr_enabled (f r) \<longrightarrow> nr_enabled r)"
  shows "blocked i (node_update now j f s)"
  using assms(1,3) by (auto simp: blocked_def node_get_update [OF assms(2)] node_touch_fields)

lemma blocked_publish [simp]: "blocked i (node_publish cf w k ty j payload s) = blocked i s"
  by (rule blocked_rows) (simp add: node_publish_def)

lemma blocked_create: "node_create r s = Inr s' \<Longrightarrow> blocked i s \<Longrightarrow> blocked i s'"
  by (auto simp: node_create_def blocked_def node_get_def exn_simps row_insert_Inr_iff)

lemma blocked_status: "blocked i s \<Longrightarrow> blocked i (set_status_if_enabled cf w k j st s)"
  by (auto simp: set_status_if_enabled_def split: option.split intro: blocked_update)

lemma blocked_offline: "blocked i s \<Longrightarrow> blocked i (write_offline w is s)"
  unfolding write_offline_def
proof (induction "is" arbitrary: s)
  case (Cons j "is")
  have "blocked i (node_update (w_now w) j (nr_status_update (\<lambda>_. NodeOffline)) s)"
    by (rule blocked_update [OF Cons.prems]) simp_all
  from Cons.IH [OF this] show ?case by simp
qed simp

lemma blocked_close: "blocked i s \<Longrightarrow> blocked i (close_session j e s)"
  by (simp add: blocked_rows [OF close_session_parts(4)])

lemma blocked_disconnect: "blocked i s \<Longrightarrow> blocked i (disconnect cf w k j s)"
  by (simp add: disconnect_def drop_session_def blocked_status blocked_close)

lemma blocked_announce: "blocked i s \<Longrightarrow> blocked i (announce_stale cf w k is s)"
  by (induction "is" arbitrary: s k) (simp_all add: blocked_disconnect)

lemma blocked_stale: "blocked i s \<Longrightarrow> blocked i (mark_stale_offline cf w s)"
  by (simp add: mark_stale_offline_def Let_def blocked_announce blocked_offline)

lemma enroll_row_Inr:
  assumes "enroll_row cf w i name caps proof s = Inr (ty, s')"
  obtains (new) "node_get i s = None" "node_create (new_worker cf w i name caps) s = Inr s'" "ty = NODE_REGISTERED"
  | (known) r where "node_get i s = Some r" "nr_enabled r" "nr_enrollment_hash r = the proof" "ty = NODE_CONNECTED"
      "s' = node_update (w_now w) i (\<lambda>r. r\<lparr>nr_name := name, nr_capabilities := caps,
        nr_last_seen_at := Some (w_now w), nr_status := NodeOnline\<rparr>) s"
proof (cases "node_get i s")
  case None
  with assms new show thesis by (auto simp: enroll_row_def exn_simps split: if_splits)
next
  case (Some r)
  then have "nr_id r = i" using row_get_Some [of nr_id i "nd_rows s" r] by (simp add: node_get_def)
  with assms Some known show thesis
    by (auto simp: enroll_row_def enroll_known_def compare_digest_def exn_simps split: if_splits)
qed

lemma blocked_enroll:
  assumes "blocked i s"
  shows "blocked i (snd (enroll cf w j name caps proof s))"
proof (cases "enroll_row cf w j name caps proof s")
  case (Inr p)
  obtain ty s1 where p: "p = (ty, s1)" by fastforce
  from Inr p have "enroll_row cf w j name caps proof s = Inr (ty, s1)" by simp
  then have "blocked i s1"
  proof (cases rule: enroll_row_Inr)
    case new
    with assms show ?thesis by (blast intro: blocked_create)
  next
    case (known r)
    then have "i \<noteq> j" using assms by (auto simp: blocked_def)
    then show ?thesis unfolding known(5) by (intro blocked_update [OF assms]) simp_all
  qed
  with Inr p show ?thesis by (simp add: enroll_def)
qed (use assms in \<open>simp add: enroll_def\<close>)

lemma blocked_core:
  assumes "blocked i s"
  shows "blocked i (snd (ensure_core w f name s))"
proof (cases "node_get ''core_local'' s")
  case None
  then show ?thesis
    using assms by (auto simp: ensure_core_def exn_simps split: sum.splits intro: blocked_create)
next
  case (Some r)
  have "blocked i (node_update (w_now w) ''core_local'' (\<lambda>r. r\<lparr>nr_name := name, nr_status := NodeOnline,
     nr_last_seen_at := Some (w_now w)\<rparr>) s)"
    by (rule blocked_update [OF assms]) simp_all
  with Some show ?thesis by (simp add: ensure_core_def Let_def)
qed

lemma blocked_heartbeat:
  assumes "blocked i s"
  shows "blocked i (snd (heartbeat w j caps s))"
proof -
  have "blocked i (node_update (w_now w) j (\<lambda>r. r\<lparr>nr_status := NodeOnline, nr_last_seen_at := Some (w_now w),
      nr_capabilities := (case caps of None \<Rightarrow> nr_capabilities r | Some c \<Rightarrow> c)\<rparr>) s)"
    by (rule blocked_update [OF assms]) simp_all
  with assms show ?thesis by (simp add: heartbeat_def split: option.split)
qed

lemma blocked_enable:
  assumes "blocked i s" "on \<longrightarrow> j \<noteq> i"
  shows "blocked i (snd (enable_row w j on s))"
proof -
  have "blocked i (node_update (w_now w) j (\<lambda>r. r\<lparr>nr_enabled := on, nr_status := (if on then NodeRegistered else NodeDisabled)\<rparr>) s)"
    by (rule blocked_update [OF assms(1)]) (use assms(2) in auto)
  with assms(1) show ?thesis by (cases "on") (simp_all add: enable_row_def Let_def split: option.split)
qed

text \<open>Steps on sessions leave the node table alone.\<close>

fun session_step :: "node_action \<Rightarrow> bool" where
  "session_step (Connect i) = True"
| "session_step (Drop i) = True"
| "session_step (Register node i timeout) = True"
| "session_step (Conclude w f) = True"
| "session_step (CancelProbe f) = True"
| "session_step (Receive w node m) = True"
| "session_step (NextCommand n) = True"
| "session_step (Announce w k ty i payload) = True"
| "session_step _ = False"

lemma rows_publish [simp]: "nd_rows (node_publish cf w k ty i payload s) = nd_rows s"
  by (simp add: node_publish_def)

lemma rows_add_pending [simp]: "nd_rows (add_pending node i n s) = nd_rows s"
  by (simp add: add_pending_def)

lemma rows_receive: "nd_rows (receive_result cf w node m s) = nd_rows s"
  by (cases rule: receive_result_cases [of cf w node m s]) simp_all

lemma rows_register: "nd_rows (snd (register_probe cf node i timeout s)) = nd_rows s"
  by (cases rule: register_probe_cases [of cf node i timeout s]) simp_all

lemma rows_conclude: "nd_rows (snd (conclude_probe cf w f s)) = nd_rows s"
  by (simp add: conclude_probe_def give_up_def Let_def split: future.split)

lemma rows_session_step: "session_step a \<Longrightarrow> nd_rows (node_do cf a s) = nd_rows s"
  by (cases a) (simp_all add: connect_def drop_session_def cancel_probe_def next_command_def Let_def close_session_parts
    rows_receive rows_register rows_conclude split: list.split)

lemma blocked_do:
  assumes "blocked i s" "\<And>w. a \<noteq> EnableRow w i True"
  shows "blocked i (node_do cf a s)"
proof (cases "session_step a")
  case True
  with assms(1) show ?thesis by (simp add: blocked_rows [OF rows_session_step])
next
  case False
  with assms show ?thesis
    by (cases a) (auto simp: blocked_enroll blocked_status blocked_offline blocked_core blocked_heartbeat intro: blocked_enable)
qed

lemma blocked_run:
  "blocked i s \<Longrightarrow> (\<And>w. EnableRow w i True \<notin> set acts) \<Longrightarrow> blocked i (fold (node_do cf) acts s)"
proof (induction acts arbitrary: s)
  case (Cons a acts)
  have "blocked i (node_do cf a s)" using Cons.prems by (intro blocked_do) auto
  with Cons show ?case by simp
qed simp

lemma blocked_refused:
  assumes "blocked i s"
  shows "fst (dispatch_probe cf w w' i timeout task s) = Inl (NodeDisabledError ''Worker is disabled'')"
    and "fst (heartbeat w i caps s) = Inl (NodeDisabledError ''Worker is disabled'')"
    and "\<exists>e. fst (enroll cf w i name caps' proof s) = Inl e"
proof -
  from blocked_stale [OF assms, of cf w] obtain r where "node_get i (mark_stale_offline cf w s) = Some r" "\<not> nr_enabled r"
    by (auto simp: blocked_def)
  then show "fst (dispatch_probe cf w w' i timeout task s) = Inl (NodeDisabledError ''Worker is disabled'')"
    by (simp add: dispatch_probe_def op_bind_def get_node_def Let_def info_of_stored_def op_lift_def require_online_def node_info_of_def)
  from assms obtain r where r: "node_get i s = Some r" "\<not> nr_enabled r" by (auto simp: blocked_def)
  then show "fst (heartbeat w i caps s) = Inl (NodeDisabledError ''Worker is disabled'')" by (simp add: heartbeat_def)
  show "\<exists>e. fst (enroll cf w i name caps' proof s) = Inl e"
  proof (cases "enroll_row cf w i name caps' proof s")
    case (Inr p)
    obtain ty s1 where "p = (ty, s1)" by fastforce
    with Inr have "enroll_row cf w i name caps' proof s = Inr (ty, s1)" by simp
    then show ?thesis by (cases rule: enroll_row_Inr) (use r in auto)
  qed (simp add: enroll_def)
qed

lemma disconnect_closes: "map_of (nd_connections (disconnect cf w k i s)) i = None"
  using same_sessions_status [of "drop_session i s" cf w k i NodeOffline]
  by (simp add: disconnect_def same_sessions_def drop_session_def close_session_parts)

lemma set_enabled_blocks:
  assumes "fst (set_enabled cf w i False s) = Inr info"
  shows "blocked i (snd (set_enabled cf w i False s))"
    and "map_of (nd_connections (snd (set_enabled cf w i False s))) i = None"
proof -
  from assms obtain x where x: "fst (enable_row w i False s) = Inr x"
    by (cases "fst (enable_row w i False s)") (auto simp: set_enabled_def op_bind_def split: prod.splits)
  then obtain r where r: "node_get i s = Some r" "nr_role r = WorkerRole"
    by (auto simp: enable_row_def split: option.splits if_splits)
  then have "blocked i (snd (enable_row w i False s))"
    by (simp add: enable_row_def Let_def blocked_def node_get_update node_touch_fields)
  moreover have s': "snd (set_enabled cf w i False s) = node_publish cf w 1 NODE_DISABLED i [(''status'', PStr ''disabled'')]
      (disconnect cf w 0 i (snd (enable_row w i False s)))"
    using x by (simp add: set_enabled_def op_bind_snd)
  ultimately show "blocked i (snd (set_enabled cf w i False s))" by (simp add: blocked_disconnect)
  show "map_of (nd_connections (snd (set_enabled cf w i False s))) i = None"
    unfolding s' using disconnect_closes by (simp add: node_publish_def)
qed

section \<open>The socket\<close>

lemma enroll_enabled:
  assumes "enroll cf w i name caps proof s = (Inr info, s')"
  shows "ni_node_id info = i \<and> (\<exists>r. node_get i s' = Some r \<and> nr_enabled r)"
proof -
  from assms obtain ty s1 where e: "enroll_row cf w i name caps proof s = Inr (ty, s1)" and
    info: "info_of_stored i s1 = Inr info" and s': "s' = node_publish cf w 0 ty i (status_entry NodeOnline) s1"
    by (auto simp: enroll_def split: sum.splits)
  from info obtain r where r: "node_get i s1 = Some r" "info = node_info_of r"
    by (auto simp: info_of_stored_def split: option.splits)
  have "nr_enabled r" using e
  proof (cases rule: enroll_row_Inr)
    case new
    then show ?thesis using r(1)
      by (auto simp: node_create_def node_get_def new_worker_def exn_simps row_insert_Inr_iff)
  next
    case (known r0)
    with r(1) show ?thesis by (auto simp: node_get_update node_touch_fields)
  qed
  moreover have "nr_id r = i" using r(1) row_get_Some [of nr_id i "nd_rows s1" r] by (simp add: node_get_def)
  moreover have "node_get i s' = node_get i s1" by (simp add: s' node_get_def)
  ultimately show ?thesis using r by (simp add: node_info_of_def)
qed

lemma connect_result:
  assumes "connect cf i s = (Inr n, s')"
  shows "map_of (nd_connections s') i = Some n \<and> nd_rows s' = nd_rows s"
  using assms by (auto simp: connect_def Let_def close_session_parts split: if_splits)

lemma verify_enrollment_True:
  assumes "verify_enrollment cf i proof = Inr True"
  shows "\<exists>secret. nc_secret cf = Some secret \<and> secret \<noteq> [] \<and> proof = Some (nc_proof cf secret i)"
  using assms by (cases "nc_secret cf"; cases "proof")
    (auto simp: verify_enrollment_def falsy_def compare_digest_def enrollment_proof_def split: if_splits)

lemma greet_worker_result:
  assumes "greet_worker cf decode w proof raw s = (Inr info, s1)"
  obtains name caps secret where "receive_message decode raw = Inr (WorkerHello (ni_node_id info) name caps)"
    "enroll cf w (ni_node_id info) name caps proof s = (Inr info, s1)"
    "nc_secret cf = Some secret" "secret \<noteq> []" "proof = Some (nc_proof cf secret (ni_node_id info))"
    "\<forall>r. node_get (ni_node_id info) s = Some r \<longrightarrow> nr_enabled r \<and> nr_enrollment_hash r = nc_proof cf secret (ni_node_id info)"
proof -
  from assms obtain m where m: "receive_message decode raw = Inr m"
    by (auto simp: greet_worker_def op_bind_Inr_iff op_lift_def)
  with assms obtain i name caps where hello: "m = WorkerHello i name caps"
    by (cases m) (auto simp: greet_worker_def op_raise_def op_bind_Inr_iff op_lift_def)
  with m assms have e: "enroll cf w i name caps proof s = (Inr info, s1)"
    by (auto simp: greet_worker_def op_bind_Inr_iff op_lift_def)
  then have id: "ni_node_id info = i" using enroll_enabled by blast
  from e obtain ty s2 where row: "enroll_row cf w i name caps proof s = Inr (ty, s2)"
    by (auto simp: enroll_def split: sum.splits)
  then have "verify_enrollment cf i proof = Inr True" by (auto simp: enroll_row_def exn_simps split: if_splits)
  from verify_enrollment_True [OF this] obtain secret where sec: "nc_secret cf = Some secret" "secret \<noteq> []"
    "proof = Some (nc_proof cf secret i)" by blast
  have "\<forall>r. node_get i s = Some r \<longrightarrow> nr_enabled r \<and> nr_enrollment_hash r = nc_proof cf secret i"
    using row by (cases rule: enroll_row_Inr) (use sec(3) in auto)
  with that m hello e id sec show thesis by blast
qed

lemma open_socket_result:
  assumes "open_socket cf decode w proof raw s = (Inr (i, n, ack), s1)"
  shows "map_of (nd_connections s1) i = Some n \<and> (\<exists>r. node_get i s1 = Some r \<and> nr_enabled r)"
proof -
  from assms obtain info sa where g: "greet_worker cf decode w proof raw s = (Inr info, sa)"
    and c: "connect cf (ni_node_id info) sa = (Inr n, s1)" "i = ni_node_id info"
    by (auto simp: open_socket_def op_bind_Inr_iff op_return_def)
  from g obtain name caps where "enroll cf w (ni_node_id info) name caps proof s = (Inr info, sa)"
    by (rule greet_worker_result)
  note enroll_enabled [OF this] and connect_result [OF c(1)]
  with c(2) show ?thesis by (simp add: node_get_def)
qed

lemma disconnect_enabled:
  assumes "node_get i s = Some r" "nr_enabled r"
  shows "\<exists>r. node_get i (disconnect cf w k i s) = Some r \<and> nr_enabled r"
proof -
  have "node_get i (drop_session i s) = Some r"
    using assms(1) by (simp add: node_get_def drop_session_def close_session_parts)
  moreover have "node_get i (node_publish cf w k ty j payload t) = node_get i t" for ty j payload t by (simp add: node_get_def)
  ultimately show ?thesis
    using assms(2) by (simp add: disconnect_def set_status_if_enabled_def node_get_update node_touch_fields)
qed

lemma heartbeat_online:
  assumes "node_get i s = Some r" "nr_enabled r"
  shows "\<exists>r. node_get i (snd (heartbeat w i caps s)) = Some r \<and> nr_status r = NodeOnline"
  using assms by (simp add: heartbeat_def node_get_update node_touch_fields)

section \<open>A sample service\<close>

definition sample_node_config :: node_config where
  "sample_node_config = \<lparr>nc_project = ''p'', nc_role = CoreRole, nc_proof = (\<lambda>secret i. secret @ i), nc_secret = Some ''k'',
     nc_max_connections = 2, nc_max_messages = 2, nc_max_tasks = 2, nc_task_timeout = 10, nc_heartbeat_timeout = 30000000\<rparr>"

definition sample_world :: world where
  "sample_world = \<lparr>w_now = 1000000, w_uuid4 = (\<lambda>k. k + 2)\<rparr>"

definition sample_capabilities :: worker_capabilities where
  "sample_capabilities = \<lparr>wc_platform = ''Linux'', wc_architecture = ''x86_64'', wc_version = ''0.1.0'',
     wc_features = [''system.probe''],
     wc_resources = \<lparr>rs_cpu_count = 4, rs_load_average = None, rs_memory_total = None, rs_memory_available = None\<rparr>\<rparr>"

definition sample_connected :: "node_action list" where
  \<comment> \<open>a worker enrolls and connects, and a probe is sent to it\<close>
  "sample_connected = [Enroll sample_world ''worker_1'' ''n'' sample_capabilities (Some ''kworker_1''),
     Connect ''worker_1'', Register ''worker_1'' ''task_0001'' 10]"

definition sample_nodes :: nodes where
  "sample_nodes = fold (node_do sample_node_config) sample_connected (no_nodes (new_bus 5))"

lemmas sample_node_defs = sample_node_config_def sample_world_def sample_capabilities_def sample_connected_def sample_nodes_def

lemma sample_enrolled:
  "enroll_row sample_node_config sample_world ''worker_1'' ''n'' sample_capabilities (Some ''kworker_1'') (no_nodes b) =
     Inr (NODE_REGISTERED, (no_nodes b)\<lparr>nd_rows :=
       [new_worker sample_node_config sample_world ''worker_1'' ''n'' sample_capabilities]\<rparr>)"
  by (simp add: enroll_row_def verify_enrollment_def falsy_def compare_digest_def ascii_def enrollment_proof_def
      sample_node_config_def node_get_def no_nodes_def node_create_def row_insert_def new_worker_def)

definition sample_idle :: nodes where
  \<comment> \<open>before the probe\<close>
  "sample_idle = fold (node_do sample_node_config) [Enroll sample_world ''worker_1'' ''n'' sample_capabilities (Some ''kworker_1''),
     Connect ''worker_1''] (no_nodes (new_bus 5))"

lemma sample_idle_state:
  "nd_connections sample_idle = [(''worker_1'', 0)]" "nd_next_probe sample_idle = 0" "nd_recent sample_idle = []"
  "nd_sessions sample_idle 0 = \<lparr>wk_queue = [], wk_pending = []\<rparr>"
  "nd_rows sample_idle = [new_worker sample_node_config sample_world ''worker_1'' ''n'' sample_capabilities]"
proof -
  let ?s1 = "(no_nodes (new_bus 5))\<lparr>nd_rows := [new_worker sample_node_config sample_world ''worker_1'' ''n'' sample_capabilities]\<rparr>"
  define s1 where "s1 = node_publish sample_node_config sample_world 0 NODE_REGISTERED ''worker_1'' (status_entry NodeOnline) ?s1"
  have s1: "nd_connections s1 = []" "nd_next_probe s1 = 0" "nd_recent s1 = []" "nd_next_session s1 = 0" "nd_rows s1 = nd_rows ?s1"
    by (simp_all add: s1_def node_publish_def no_nodes_def)
  have "snd (enroll sample_node_config sample_world ''worker_1'' ''n'' sample_capabilities (Some ''kworker_1'') (no_nodes (new_bus 5))) = s1"
    by (simp add: enroll_def sample_enrolled s1_def)
  then have s: "sample_idle = snd (connect sample_node_config ''worker_1'' s1)" by (simp add: sample_idle_def)
  show "nd_connections sample_idle = [(''worker_1'', 0)]" "nd_next_probe sample_idle = 0" "nd_recent sample_idle = []"
    "nd_sessions sample_idle 0 = \<lparr>wk_queue = [], wk_pending = []\<rparr>"
    "nd_rows sample_idle = [new_worker sample_node_config sample_world ''worker_1'' ''n'' sample_capabilities]"
    unfolding s using s1 by (simp_all add: connect_def close_session_def dict_put_def sample_node_config_def Let_def)
qed

lemma sample_nodes_registered: "sample_nodes = snd (register_probe sample_node_config ''worker_1'' ''task_0001'' 10 sample_idle)"
  by (simp add: sample_nodes_def sample_connected_def sample_idle_def)

lemma sample_request: "construct (TaskRequest ''task_0001'' 10) = Inr (TaskRequest ''task_0001'' 10)"
  by (simp add: construct_def opaque_id_def length_within_def id_char_def)

lemma sample_nodes_state:
  "nd_connections sample_nodes = [(''worker_1'', 0)]" "nd_next_probe sample_nodes = 1"
  "nd_probes sample_nodes 0 = \<lparr>pc_node = ''worker_1'', pc_task = ''task_0001'', pc_session = 0, pc_future = Waiting\<rparr>"
  "wk_pending (nd_sessions sample_nodes 0) = [(''task_0001'', 0)]"
  "nd_rows sample_nodes = [new_worker sample_node_config sample_world ''worker_1'' ''n'' sample_capabilities]"
  unfolding sample_nodes_registered
  by (simp_all add: rows_register sample_idle_state register_probe_def Let_def sample_request put_nowait_def dict_put_def
      sample_node_config_def [THEN arg_cong [of _ _ nc_max_tasks]] sample_node_config_def [THEN arg_cong [of _ _ nc_max_messages]])

section \<open>Properties\<close>

text \<open>
  C18: whatever the workers and the callers do, the service keeps to its configured limits: one session
  per node and at most \<open>worker_max_connections\<close> of them, at most \<open>worker_max_tasks\<close> tasks pending and
  \<open>worker_max_messages\<close> messages queued in each, and a bounded memory of recent task ids.
\<close>

theorem node_service_is_bounded:
  fixes cf :: node_config and acts :: "node_action list" and b :: bus
  defines "s \<equiv> fold (node_do cf) acts (no_nodes b)"
  shows "distinct (map fst (nd_connections s)) \<and> length (nd_connections s) \<le> nc_max_connections cf \<and>
    length (nd_recent s) \<le> nc_max_tasks cf * nc_max_connections cf \<and>
    list_all (\<lambda>(i, n). length (wk_pending (nd_sessions s n)) \<le> nc_max_tasks cf \<and>
      (nc_max_messages cf = 0 \<or> length (wk_queue (nd_sessions s n)) \<le> nc_max_messages cf)) (nd_connections s)"
proof -
  have "nodes_inv cf s" unfolding s_def by (rule nodes_inv_run [OF nodes_inv_empty])
  then show ?thesis by (auto simp: nodes_inv_def session_ok_def list_all_iff)
qed

text \<open>
  C20: a probe is answered by the worker it was sent to, under its own task id, or not at all: the only
  step that gives a waiting call a result is the receipt of that result from the session of its node.
  An outcome, once there, is never changed.
\<close>

theorem probe_answered_by_its_worker:
  fixes cf :: node_config and acts :: "node_action list" and b :: bus and a :: node_action
  defines "s \<equiv> fold (node_do cf) acts (no_nodes b)"
  assumes "f < nd_next_probe s"
  shows "(pc_future (nd_probes s f) \<noteq> Waiting \<longrightarrow> pc_future (nd_probes (node_do cf a s) f) = pc_future (nd_probes s f)) \<and>
    (\<forall>r. pc_future (nd_probes s f) = Waiting \<and> pc_future (nd_probes (node_do cf a s) f) = Returned r \<longrightarrow>
       (\<exists>w. a = Receive w (pc_node (nd_probes s f)) (TaskResult (pc_task (nd_probes s f)) r)))"
proof -
  have inv: "nodes_inv cf s" unfolding s_def by (rule nodes_inv_run [OF nodes_inv_empty])
  show ?thesis
  proof (cases "\<exists>w node i r. a = Receive w node (TaskResult i r)")
    case True
    then obtain w node i r where a: "a = Receive w node (TaskResult i r)" by blast
    note ans = receive_answers [OF inv assms(2), of w node i r]
    from ans(1) assms(2) have "pc_future (nd_probes s f) \<noteq> Waiting \<longrightarrow>
        pc_future (nd_probes (node_do cf a s) f) = pc_future (nd_probes s f)"
      unfolding a by (simp add: keeps_calls_def kept_call_def)
    moreover have "\<exists>w'. a = Receive w' (pc_node (nd_probes s f)) (TaskResult (pc_task (nd_probes s f)) q)"
      if "pc_future (nd_probes s f) = Waiting" "pc_future (nd_probes (node_do cf a s) f) = Returned q" for q
      using ans(2) [of q] that unfolding a node_do.simps by blast
    ultimately show ?thesis by blast
  next
    case False
    then have "unanswered s (node_do cf a s)" by (intro unanswered_do) blast
    with assms(2) show ?thesis unfolding unanswered_def unanswered_call_def kept_call_def by (metis future.distinct(1))
  qed
qed

theorem probe_answered_by_its_worker_witness:
  "pc_future (nd_probes sample_nodes 0) = Waiting \<and>
   (\<exists>w. Receive sample_world ''worker_1'' (TaskResult ''task_0001'' [(''x'', PInt 1)]) =
     Receive w (pc_node (nd_probes sample_nodes 0)) (TaskResult (pc_task (nd_probes sample_nodes 0)) [(''x'', PInt 1)]))"
proof -
  let ?a = "Receive sample_world ''worker_1'' (TaskResult ''task_0001'' [(''x'', PInt 1)])"
  have "pc_future (nd_probes (node_do sample_node_config ?a sample_nodes) 0) = Returned [(''x'', PInt 1)]"
    by (simp add: receive_result_def sample_nodes_state)
  with probe_answered_by_its_worker [of 0 sample_node_config sample_connected "new_bus 5" ?a,
      folded sample_nodes_def]
  show ?thesis by (simp add: sample_nodes_state)
qed

text \<open>
  C21: when no task id is dispatched twice, the end of a worker's session ends every probe that was sent
  to it: a call that still waits is failed with the disconnection, and none waits afterwards.
\<close>

theorem disconnect_ends_every_probe:
  fixes cf :: node_config and acts :: "node_action list" and b :: bus
  defines "s \<equiv> fold (node_do cf) acts (no_nodes b)"
  assumes "distinct (registered acts)" "f < nd_next_probe s" "pc_node (nd_probes s f) = i"
  shows "pc_future (nd_probes (disconnect cf w k i s) f) =
    (if pc_future (nd_probes s f) = Waiting then Raised (NodeTaskDisconnectedError ''Worker disconnected'')
     else pc_future (nd_probes s f))"
proof -
  have inv: "nodes_inv cf s" unfolding s_def by (rule nodes_inv_run [OF nodes_inv_empty])
  have "tracked ({} \<union> set (registered acts)) s"
    unfolding s_def by (rule tracked_run [OF nodes_inv_empty tracked_empty assms(2)]) simp
  from disconnect_ends_waiting [OF inv this _ assms(4)]
  have "pc_future (nd_probes s f) = Waiting \<Longrightarrow>
    pc_future (nd_probes (disconnect cf w k i s) f) = Raised (NodeTaskDisconnectedError ''Worker disconnected'')" by blast
  moreover have "unanswered s (disconnect cf w k i s)" unfolding disconnect_def drop_session_def
    by (rule unanswered_trans [OF unanswered_close unanswered_same [OF same_sessions_status]])
  then have "pc_future (nd_probes s f) \<noteq> Waiting \<Longrightarrow> pc_future (nd_probes (disconnect cf w k i s) f) = pc_future (nd_probes s f)"
    using assms(3) unfolding unanswered_def unanswered_call_def kept_call_def by blast
  ultimately show ?thesis by (simp only: split: if_split) blast
qed

theorem disconnect_ends_every_probe_witness:
  "pc_future (nd_probes (disconnect sample_node_config sample_world 0 ''worker_1'' sample_nodes) 0) =
     Raised (NodeTaskDisconnectedError ''Worker disconnected'')"
proof -
  have "distinct (registered sample_connected)" by (simp add: registered_def sample_connected_def)
  from disconnect_ends_every_probe [OF this, of 0 sample_node_config "new_bus 5" "''worker_1''" sample_world 0,
      folded sample_nodes_def]
  show ?thesis by (simp add: sample_nodes_state)
qed

text \<open>
  Disabling a worker takes effect at once and lasts: its session is gone, and until it is enabled
  again, whatever else happens, no probe is sent to it, its heartbeats are refused and it cannot enroll,
  not even with a valid proof.
\<close>

theorem disabled_worker_is_served_nothing:
  fixes cf :: node_config and w :: world and i :: string and s :: nodes and acts :: "node_action list"
  defines "s1 \<equiv> snd (set_enabled cf w i False s)"
  defines "s2 \<equiv> fold (node_do cf) acts s1"
  assumes "fst (set_enabled cf w i False s) = Inr info" "\<And>w. EnableRow w i True \<notin> set acts"
  shows "map_of (nd_connections s1) i = None \<and>
    fst (dispatch_probe cf w1 w2 i timeout task s2) = Inl (NodeDisabledError ''Worker is disabled'') \<and>
    fst (heartbeat w1 i caps s2) = Inl (NodeDisabledError ''Worker is disabled'') \<and>
    (\<exists>e. fst (enroll cf w1 i name caps' proof s2) = Inl e)"
proof -
  note off = set_enabled_blocks [OF assms(3)]
  from off(1) assms(4) have "blocked i s2" unfolding s2_def s1_def by (rule blocked_run)
  from blocked_refused [OF this] off(2) show ?thesis unfolding s1_def by blast
qed

theorem disabled_worker_is_served_nothing_witness:
  "fst (dispatch_probe sample_node_config sample_world sample_world ''worker_1'' None None
     (fold (node_do sample_node_config) [Connect ''worker_1'']
       (snd (set_enabled sample_node_config sample_world ''worker_1'' False sample_nodes)))) =
   Inl (NodeDisabledError ''Worker is disabled'')"
proof -
  have "\<exists>info. fst (enable_row sample_world ''worker_1'' False sample_nodes) = Inr info"
    by (simp add: enable_row_def node_get_def sample_nodes_state new_worker_def Let_def info_of_stored_def
        node_update_def row_update_def node_touch_def)
  then obtain info s where "enable_row sample_world ''worker_1'' False sample_nodes = (Inr info, s)"
    by (metis prod.collapse)
  then have "fst (set_enabled sample_node_config sample_world ''worker_1'' False sample_nodes) = Inr info"
    by (simp add: set_enabled_def op_bind_def)
  from disabled_worker_is_served_nothing [OF this, of "[Connect ''worker_1'']" sample_world sample_world None None]
  show ?thesis by simp
qed

end
