(* ===== verification/Remote.thy ===== *)
theory Remote
  imports Manager_Steps Models
begin

text \<open>
  Authorisation and the dispatch of runtime commands, \<open>AuthorizationService\<close> and
  \<open>RemoteCommandService\<close> of \<open>services/remote.py\<close>: every command names the permission it needs, and
  only then reaches the run manager. \<open>json.loads\<close> and \<open>str\<close> of a value that is not a string are
  parameters.
\<close>

datatype permission = READ | EXECUTE | CONTROL | APPROVE | ADMIN

fun permission_value :: "permission \<Rightarrow> string" where
  "permission_value READ = ''read''"
| "permission_value EXECUTE = ''execute''"
| "permission_value CONTROL = ''control''"
| "permission_value APPROVE = ''approve''"
| "permission_value ADMIN = ''admin''"

definition all_permissions :: "permission list" where
  "all_permissions = [READ, EXECUTE, CONTROL, APPROVE, ADMIN]"

datatype command_type =
    CREATE_AGENT | UPDATE_AGENT_GRAPH | START_RUN | PAUSE_RUN | RESUME_RUN | STOP_RUN | RETRY_RUN
  | SUBMIT_APPROVAL | REJECT_APPROVAL | GET_STATUS | GET_AGENT | GET_RUN | LIST_RUNS | GET_LOGS
  | LIST_PROVIDERS | LIST_AGENTS | LIST_PROJECTS | GET_RUN_TREE

record principal =
  pr_identity :: string
  pr_permissions :: "permission set"

record runtime_command =
  rc_id :: string
  rc_type :: command_type
  rc_principal :: principal
  rc_target_id :: "string option"
  rc_payload :: pydict

section \<open>Authorisation\<close>

definition permission_of :: "pyobj \<Rightarrow> permission option" where
  \<comment> \<open>\<open>Permission(item)\<close>; \<open>None\<close> is the \<open>ValueError\<close>\<close>
  "permission_of v = List.find (\<lambda>p. v = PStr (permission_value p)) all_permissions"

fun permissions_of :: "pyobj list \<Rightarrow> permission list option" where
  "permissions_of [] = Some []"
| "permissions_of (v # vs) =
     (case (permission_of v, permissions_of vs) of (Some p, Some ps) \<Rightarrow> Some (p # ps) | _ \<Rightarrow> None)"

definition parse_policies :: "(string \<Rightarrow> pyobj option) \<Rightarrow> string \<Rightarrow> (string \<times> permission set) list" where
  \<comment> \<open>\<open>_parse_policies\<close>: an entry that is not a list of permissions is skipped\<close>
  "parse_policies json_loads text =
     (case json_loads text of
        Some (PDict d) \<Rightarrow> List.map_filter (\<lambda>(identity, v). case v of
            PList items \<Rightarrow> (case permissions_of items of Some ps \<Rightarrow> Some (identity, set ps) | None \<Rightarrow> None)
          | _ \<Rightarrow> None) d
      | _ \<Rightarrow> [])"

definition request_principal :: "principal option \<Rightarrow> exn + principal" where
  \<comment> \<open>\<open>AuthorizationService.principal\<close>: the argument is the context variable of the request\<close>
  "request_principal p = (case p of None \<Rightarrow> Inl (AuthorizationError ''Authentication is required'') | Some p \<Rightarrow> Inr p)"

definition require :: "principal \<Rightarrow> permission \<Rightarrow> exn + unit" where
  "require p perm =
     (if perm \<notin> pr_permissions p \<and> ADMIN \<notin> pr_permissions p
      then Inl (AuthorizationError ''Principal lacks required permission'') else Inr ())"

section \<open>Dispatch\<close>

fun command_permission :: "command_type \<Rightarrow> permission option" where
  "command_permission CREATE_AGENT = Some EXECUTE"
| "command_permission UPDATE_AGENT_GRAPH = Some EXECUTE"
| "command_permission START_RUN = Some EXECUTE"
| "command_permission STOP_RUN = Some CONTROL"
| "command_permission GET_AGENT = Some READ"
| "command_permission GET_RUN = Some READ"
| "command_permission GET_RUN_TREE = Some READ"
| "command_permission LIST_RUNS = Some READ"
| "command_permission LIST_PROVIDERS = Some READ"
| "command_permission LIST_AGENTS = Some READ"
| "command_permission _ = None"

definition text_of :: "(pyobj \<Rightarrow> string) \<Rightarrow> pyobj \<Rightarrow> string" where
  \<comment> \<open>\<open>str(v)\<close>\<close>
  "text_of other v = (case v of PStr s \<Rightarrow> s | _ \<Rightarrow> other v)"

definition payload_item :: "pydict \<Rightarrow> string \<Rightarrow> exn + pyobj" where
  "payload_item d k = (case map_of d k of None \<Rightarrow> Inl (KeyError k) | Some v \<Rightarrow> Inr v)"

definition required :: "string option \<Rightarrow> exn + string" where
  "required v = (case v of None \<Rightarrow> Inl (ValueError ''Command target is required'') | Some s \<Rightarrow> Inr s)"

definition target_uuid :: "string option \<Rightarrow> exn + uuid" where
  "target_uuid v = ebind (required v) (\<lambda>s. case uuid_parse s of
     None \<Rightarrow> Inl (ValueError ''badly formed hexadecimal UUID string'') | Some u \<Rightarrow> Inr u)"

definition graph_argument :: "pyobj \<Rightarrow> exn + pydict" where
  \<comment> \<open>\<open>_graph_definition\<close>\<close>
  "graph_argument v = (case as_dict v of None \<Rightarrow> Inl (ValueError ''Graph definition must be an object'') | Some d \<Rightarrow> Inr d)"

datatype command_result =
    AgentResult agent | AgentsResult "agent list" | RunResult run | RunsResult "run list"
  | TreeResult run_tree_node | ProvidersResult "provider_status list"

definition tree_query :: "nat \<Rightarrow> uuid \<Rightarrow> run_tree_node op" where
  "tree_query fuel i = query (\<lambda>st. case run_tree fuel i st of
     None \<Rightarrow> Inl (RuntimeError ''not terminated'') | Some r \<Rightarrow> r)"

definition perform :: "config \<Rightarrow> environment \<Rightarrow> nat \<Rightarrow> model_router \<Rightarrow> (pyobj \<Rightarrow> string) \<Rightarrow> runtime_command \<Rightarrow> command_result op" where
  "perform cf env fuel rt str c =
     (let target = op_lift (target_uuid (rc_target_id c));
          graph = op_lift (graph_argument (dict_get (rc_payload c) ''graph_definition''));
          item = (\<lambda>k. op_map (text_of str) (op_lift (payload_item (rc_payload c) k)))
      in case rc_type c of
        CREATE_AGENT \<Rightarrow>
          op_bind (item ''name'') (\<lambda>name. op_bind (item ''model_ref'') (\<lambda>mref. op_bind graph (\<lambda>g.
          with_state (\<lambda>m. op_map AgentResult (create_agent cf (en_world env m) name
            (as_str (dict_get (rc_payload c) ''description'')) mref g)))))
      | UPDATE_AGENT_GRAPH \<Rightarrow> op_bind target (\<lambda>i. op_bind graph (\<lambda>g.
          with_state (\<lambda>m. op_map AgentResult (update_agent_graph cf (en_world env m) i g))))
      | START_RUN \<Rightarrow> op_bind target (\<lambda>i. op_bind (item ''input_text'') (\<lambda>s.
          with_state (\<lambda>m. op_map RunResult (start_run cf (en_world env m) i s))))
      | STOP_RUN \<Rightarrow> op_bind target (\<lambda>i. op_map RunResult (stop_run cf env fuel i))
      | GET_AGENT \<Rightarrow> op_bind target (\<lambda>i. op_map AgentResult (get_agent i))
      | GET_RUN \<Rightarrow> op_bind target (\<lambda>i. op_map RunResult (get_run i))
      | GET_RUN_TREE \<Rightarrow> op_bind target (\<lambda>i. op_map TreeResult (tree_query fuel i))
      | LIST_RUNS \<Rightarrow> op_bind target (\<lambda>i. op_map RunsResult (list_runs i))
      | LIST_AGENTS \<Rightarrow> op_map AgentsResult list_agents
      | _ \<Rightarrow> op_map ProvidersResult (op_lift (provider_statuses rt)))"

definition dispatch :: "config \<Rightarrow> environment \<Rightarrow> nat \<Rightarrow> model_router \<Rightarrow> (pyobj \<Rightarrow> string) \<Rightarrow> runtime_command \<Rightarrow> command_result op" where
  "dispatch cf env fuel rt str c =
     (case command_permission (rc_type c) of
        None \<Rightarrow> op_raise (KeyError ''RuntimeCommandType'')
      | Some perm \<Rightarrow> op_bind (op_lift (require (rc_principal c) perm)) (\<lambda>_. perform cf env fuel rt str c))"

section \<open>Effects of a command\<close>

lemma op_steps_lift [op_steps_intros]: "op_steps cf (op_lift x)"
  by (rule op_stepsI) (simp add: op_lift_def)

lemma op_steps_map [op_steps_intros]: "op_steps cf p \<Longrightarrow> op_steps cf (op_map f p)"
  unfolding op_map_def by (intro op_steps_intros)

lemma query_snd_id [simp]: "snd (query f m) = m"
  by (simp add: query_def)

lemmas readers = get_agent_def get_run_def list_agents_def list_runs_def tree_query_def

lemma perform_reads_only:
  assumes "command_permission (rc_type c) = Some READ"
  shows "snd (perform cf env fuel rt str c m) = m"
  using assms
  by (cases "rc_type c")
    (simp_all add: perform_def Let_def readers op_return_def bind_snd_id)

lemma op_steps_agent [op_steps_intros]:
  "op_steps cf (create_agent cf w n d r g)" "op_steps cf (update_agent_graph cf w i g)"
  using one_step [of w "OpCreateAgent n d r g" cf] one_step [of w "OpUpdateGraph i g" cf]
  by (auto simp: op_steps_def)

lemma op_steps_stop [op_steps_intros]: "op_steps cf (stop_run cf env fuel i)"
  using stop_steps by blast

lemma perform_steps:
  assumes "command_permission (rc_type c) = Some perm"
  shows "op_steps cf (perform cf env fuel rt str c)"
  using assms
  by (cases "rc_type c")
    (auto simp: perform_def Let_def readers start_run_def intro!: op_steps_intros)

section \<open>Properties\<close>

lemma require_Inr: "require p perm = Inr () \<longleftrightarrow> perm \<in> pr_permissions p \<or> ADMIN \<in> pr_permissions p"
  by (auto simp: require_def)

lemma dispatch_forbidden:
  assumes "\<And>perm. command_permission (rc_type c) = Some perm \<Longrightarrow>
      perm \<notin> pr_permissions (rc_principal c) \<and> ADMIN \<notin> pr_permissions (rc_principal c)"
  shows "\<exists>e. dispatch cf env fuel rt str c m = (Inl e, m) \<and>
     (e = KeyError ''RuntimeCommandType'' \<or> e = AuthorizationError ''Principal lacks required permission'')"
  using assms
  by (cases "command_permission (rc_type c)")
    (auto simp: dispatch_def op_raise_def op_bind_def op_lift_def require_def)

lemma dispatch_allowed:
  assumes "command_permission (rc_type c) = Some perm"
    "perm \<in> pr_permissions (rc_principal c) \<or> ADMIN \<in> pr_permissions (rc_principal c)"
  shows "dispatch cf env fuel rt str c m = perform cf env fuel rt str c m"
  using assms by (auto simp: dispatch_def op_bind_def op_lift_def require_def)

lemma modifying_commands:
  "command_permission t = Some perm \<Longrightarrow> perm = READ \<or>
     t \<in> {CREATE_AGENT, UPDATE_AGENT_GRAPH, START_RUN, STOP_RUN} \<and> perm = (if t = STOP_RUN then CONTROL else EXECUTE)"
  by (cases t) auto

text \<open>
  A command either leaves the run manager exactly as it was, or it is one of the four modifying
  commands and its principal holds the permission that command needs or is an administrator.
\<close>

theorem commands_need_permission:
  "snd (dispatch cf env fuel rt str c m) = m \<or>
     rc_type c \<in> {CREATE_AGENT, UPDATE_AGENT_GRAPH, START_RUN, STOP_RUN} \<and>
     (ADMIN \<in> pr_permissions (rc_principal c) \<or>
      (if rc_type c = STOP_RUN then CONTROL else EXECUTE) \<in> pr_permissions (rc_principal c))"
proof (cases "\<exists>perm. command_permission (rc_type c) = Some perm \<and>
    (perm \<in> pr_permissions (rc_principal c) \<or> ADMIN \<in> pr_permissions (rc_principal c))")
  case False
  with dispatch_forbidden [of c cf env fuel rt str m] show ?thesis by force
next
  case True
  then obtain perm where p: "command_permission (rc_type c) = Some perm"
    and ok: "perm \<in> pr_permissions (rc_principal c) \<or> ADMIN \<in> pr_permissions (rc_principal c)" by blast
  from modifying_commands [OF p] show ?thesis
  proof
    assume "perm = READ"
    with p have "snd (perform cf env fuel rt str c m) = m" by (simp add: perform_reads_only)
    with dispatch_allowed [OF p ok] show ?thesis by simp
  next
    assume "rc_type c \<in> {CREATE_AGENT, UPDATE_AGENT_GRAPH, START_RUN, STOP_RUN} \<and>
       perm = (if rc_type c = STOP_RUN then CONTROL else EXECUTE)"
    with ok show ?thesis by auto
  qed
qed

text \<open>
  Whatever a command does to the run manager is a sequence of the manager's own steps, so a
  reachable state stays reachable under any commands and every invariant of the lifecycle survives them.
\<close>

theorem commands_are_manager_steps:
  "(mg_step cf)\<^sup>*\<^sup>* m (snd (dispatch cf env fuel rt str c m))"
proof (cases "command_permission (rc_type c)")
  case None
  then show ?thesis by (simp add: dispatch_def op_raise_def)
next
  case (Some perm)
  then have "op_steps cf (dispatch cf env fuel rt str c)"
    by (auto simp: dispatch_def intro!: op_steps_intros perform_steps)
  then show ?thesis by (rule op_stepsD)
qed

end
