(* ===== verification/Security_Store.thy ===== *)
theory Security_Store
  imports Remote
begin

text \<open>
  The security tables of \<open>persistence/models.py\<close> and \<open>repositories/security.py\<close>: users, devices,
  sessions, passkeys, challenges, second factors, approvals, grants, the audit trail, the lockdown state
  and the vault. A repository function that can fail returns a sum; foreign keys and unique columns are
  checked where rows are inserted. Rows of users and devices are never deleted by the code, so that no
  cascade occurs. Byte strings are strings of characters.
\<close>

type_synonym bytes = string

datatype user_role = OwnerRole | AdminRole | OperatorRole

datatype device_trust = Limited | Trusted

datatype strength = PasskeyStrength | PasskeyTotp | Development

datatype challenge_kind = PasskeyRegistration | PasskeyAuthentication

datatype approval_decision = AllowOnce | AllowForTask | RejectDecision | ModifyDecision

fun approval_decision_value :: "approval_decision \<Rightarrow> string" where
  "approval_decision_value AllowOnce = ''allow_once''"
| "approval_decision_value AllowForTask = ''allow_for_task''"
| "approval_decision_value RejectDecision = ''reject''"
| "approval_decision_value ModifyDecision = ''modify''"

datatype grant_status = GrantActive | GrantConsumed | GrantRevoked | GrantExpired

datatype lockdown_state = NormalState | LockedDown

section \<open>Rows\<close>

record user_row =
  us_id :: string
  us_username :: string
  us_role :: user_role
  us_disabled_at :: "time option"
  us_created_at :: time

record device_row =
  dv_id :: string
  dv_user_id :: string
  dv_display_name :: string
  dv_trust :: device_trust
  dv_revoked_at :: "time option"
  dv_last_authenticated_at :: "time option"
  dv_created_at :: time

record session_row =
  se_id :: string
  se_user_id :: string
  se_device_id :: string
  se_token_hash :: string
  se_strength :: strength
  se_expires_at :: time
  se_last_activity_at :: time
  se_step_up_at :: "time option"
  se_revoked_at :: "time option"
  se_created_at :: time

record passkey_row =
  pk_id :: string
  pk_user_id :: string
  pk_device_id :: string
  pk_credential_id :: bytes
  pk_public_key :: bytes
  pk_sign_count :: int
  pk_revoked_at :: "time option"
  pk_created_at :: time

record challenge_row =
  ch_id :: string
  ch_kind :: challenge_kind
  ch_challenge :: bytes
  ch_user_id :: "string option"
  ch_device_name :: "string option"
  ch_expires_at :: time
  ch_consumed_at :: "time option"
  ch_created_at :: time

record factor_row =
  sf_user_id :: string
  sf_encrypted_secret :: bytes
  sf_key_version :: int
  sf_enabled_at :: time
  sf_revoked_at :: "time option"

record security_approval =
  sa_id :: string
  sa_project_id :: string
  sa_requested_by :: string
  sa_action :: string
  sa_target :: "string option"
  sa_run_id :: "string option"
  sa_task_ref :: "string option"
  sa_risk :: "string option"
  sa_reason :: string
  sa_scope :: pydict
  sa_status :: string
  sa_expires_at :: time
  sa_decision :: "approval_decision option"
  sa_decided_by :: "string option"
  sa_decided_at :: "time option"
  sa_created_at :: time

record grant_row =
  gr_id :: string
  gr_issuer :: string
  gr_subject :: string
  gr_action :: string
  gr_target :: "string option"
  gr_run_id :: "string option"
  gr_task_ref :: "string option"
  gr_device_id :: "string option"
  gr_source_approval :: "string option"
  gr_status :: grant_status
  gr_expires_at :: time
  gr_revoked_at :: "time option"
  gr_created_at :: time

record vault_row =
  va_id :: string
  va_name :: string
  va_type :: string
  va_encrypted :: bytes
  va_key_version :: int
  va_revoked_at :: "time option"
  va_created_by :: string
  va_created_at :: time
  va_updated_at :: time

record audit_row =
  au_id :: string
  au_event_type :: string
  au_actor :: "string option"
  au_session :: "string option"
  au_device :: "string option"
  au_target :: "string option"
  au_result :: string
  au_metadata :: pydict
  au_created_at :: time

record security_state =
  ss_lockdown :: lockdown_state
  ss_updated_at :: time

record sec =
  sc_users :: "user_row list"
  sc_devices :: "device_row list"
  sc_sessions :: "session_row list"
  sc_passkeys :: "passkey_row list"
  sc_challenges :: "challenge_row list"
  sc_factors :: "factor_row list"
  sc_approvals :: "security_approval list"
  sc_grants :: "grant_row list"
  sc_vault :: "vault_row list"
  sc_audit :: "audit_row list"
  sc_state :: "security_state option" \<comment> \<open>the row with id 1\<close>

definition empty_sec :: sec where
  "empty_sec = \<lparr>sc_users = [], sc_devices = [], sc_sessions = [], sc_passkeys = [], sc_challenges = [],
     sc_factors = [], sc_approvals = [], sc_grants = [], sc_vault = [], sc_audit = [], sc_state = None\<rparr>"

section \<open>Users and devices\<close>

definition get_user :: "string \<Rightarrow> sec \<Rightarrow> user_row option" where
  "get_user i s = row_get us_id i (sc_users s)"

definition create_user :: "world \<Rightarrow> nat \<Rightarrow> string \<Rightarrow> user_role \<Rightarrow> sec \<Rightarrow> exn + user_row \<times> sec" where
  \<comment> \<open>the number says which of the operation's ids is drawn\<close>
  "create_user w n username role s =
     (let r = \<lparr>us_id = uuid_str (w_uuid4 w n), us_username = username, us_role = role, us_disabled_at = None,
            us_created_at = w_now w\<rparr>
      in ebind (guard (list_all (\<lambda>u. us_username u \<noteq> username) (sc_users s)) IntegrityError) (\<lambda>_.
         ebind (row_insert us_id r (sc_users s)) (\<lambda>t. Inr (r, s\<lparr>sc_users := t\<rparr>))))"

definition get_user_by_username :: "string \<Rightarrow> sec \<Rightarrow> user_row option" where
  "get_user_by_username username s = List.find (\<lambda>u. us_username u = username) (sc_users s)"

definition list_users :: "sec \<Rightarrow> user_row list" where
  "list_users s = sort_key us_created_at (sc_users s)"

definition disable_user :: "string \<Rightarrow> time \<Rightarrow> sec \<Rightarrow> sec" where
  "disable_user i stamp s = s\<lparr>sc_users := row_update us_id i (\<lambda>u. u\<lparr>us_disabled_at := Some stamp\<rparr>) (sc_users s)\<rparr>"

definition get_device :: "string \<Rightarrow> sec \<Rightarrow> device_row option" where
  "get_device i s = row_get dv_id i (sc_devices s)"

definition create_device :: "world \<Rightarrow> nat \<Rightarrow> string \<Rightarrow> string \<Rightarrow> device_trust \<Rightarrow> sec \<Rightarrow> exn + device_row \<times> sec" where
  "create_device w n user display_name trust s =
     (let r = \<lparr>dv_id = uuid_str (w_uuid4 w n), dv_user_id = user, dv_display_name = display_name, dv_trust = trust,
            dv_revoked_at = None, dv_last_authenticated_at = None, dv_created_at = w_now w\<rparr>
      in ebind (guard (get_user user s \<noteq> None) IntegrityError) (\<lambda>_.
         ebind (row_insert dv_id r (sc_devices s)) (\<lambda>t. Inr (r, s\<lparr>sc_devices := t\<rparr>))))"

definition list_devices_for_user :: "string \<Rightarrow> sec \<Rightarrow> device_row list" where
  "list_devices_for_user user s = sort_key (\<lambda>d. - dv_created_at d) (filter (\<lambda>d. dv_user_id d = user) (sc_devices s))"

definition opt_or :: "'a option \<Rightarrow> 'a \<Rightarrow> 'a" where
  \<comment> \<open>\<open>if x is not None: field = x\<close>\<close>
  "opt_or x old = (case x of None \<Rightarrow> old | Some v \<Rightarrow> v)"

definition opt_some :: "'a option \<Rightarrow> 'a option \<Rightarrow> 'a option" where
  "opt_some x old = (case x of None \<Rightarrow> old | Some v \<Rightarrow> Some v)"

definition update_device :: "string \<Rightarrow> string option \<Rightarrow> device_trust option \<Rightarrow> time option \<Rightarrow> time option \<Rightarrow> sec \<Rightarrow> sec" where
  "update_device i display_name trust revoked_at last_authenticated_at s =
     s\<lparr>sc_devices := row_update dv_id i (\<lambda>d. d\<lparr>dv_display_name := opt_or display_name (dv_display_name d),
         dv_trust := opt_or trust (dv_trust d), dv_revoked_at := opt_some revoked_at (dv_revoked_at d),
         dv_last_authenticated_at := opt_some last_authenticated_at (dv_last_authenticated_at d)\<rparr>) (sc_devices s)\<rparr>"

section \<open>Sessions\<close>

definition get_session :: "string \<Rightarrow> sec \<Rightarrow> session_row option" where
  "get_session i s = row_get se_id i (sc_sessions s)"

definition create_session_row :: "world \<Rightarrow> nat \<Rightarrow> string \<Rightarrow> string \<Rightarrow> string \<Rightarrow> strength \<Rightarrow> time \<Rightarrow> sec \<Rightarrow>
    exn + session_row \<times> sec" where
  "create_session_row w n user device token_hash str expires_at s =
     (let r = \<lparr>se_id = uuid_str (w_uuid4 w n), se_user_id = user, se_device_id = device, se_token_hash = token_hash,
            se_strength = str, se_expires_at = expires_at, se_last_activity_at = w_now w, se_step_up_at = None,
            se_revoked_at = None, se_created_at = w_now w\<rparr>
      in ebind (guard (get_user user s \<noteq> None \<and> get_device device s \<noteq> None \<and>
             list_all (\<lambda>r. se_token_hash r \<noteq> token_hash) (sc_sessions s)) IntegrityError) (\<lambda>_.
         ebind (row_insert se_id r (sc_sessions s)) (\<lambda>t. Inr (r, s\<lparr>sc_sessions := t\<rparr>))))"

definition get_session_by_token_hash :: "string \<Rightarrow> sec \<Rightarrow> session_row option" where
  "get_session_by_token_hash h s = List.find (\<lambda>r. se_token_hash r = h) (sc_sessions s)"

definition list_sessions_for_user :: "string \<Rightarrow> sec \<Rightarrow> session_row list" where
  "list_sessions_for_user user s = sort_key (\<lambda>r. - se_created_at r) (filter (\<lambda>r. se_user_id r = user) (sc_sessions s))"

definition revoke_sessions_for_device :: "string \<Rightarrow> time \<Rightarrow> sec \<Rightarrow> sec" where
  "revoke_sessions_for_device device stamp s = s\<lparr>sc_sessions := map (\<lambda>r.
     if se_device_id r = device \<and> se_revoked_at r = None then r\<lparr>se_revoked_at := Some stamp\<rparr> else r) (sc_sessions s)\<rparr>"

definition update_session :: "string \<Rightarrow> time option \<Rightarrow> time option \<Rightarrow> time option \<Rightarrow> sec \<Rightarrow> sec" where
  "update_session i last_activity_at step_up_at revoked_at s =
     s\<lparr>sc_sessions := row_update se_id i (\<lambda>r. r\<lparr>se_last_activity_at := opt_or last_activity_at (se_last_activity_at r),
         se_step_up_at := opt_some step_up_at (se_step_up_at r),
         se_revoked_at := opt_some revoked_at (se_revoked_at r)\<rparr>) (sc_sessions s)\<rparr>"

section \<open>Passkeys, challenges and second factors\<close>

definition create_passkey :: "world \<Rightarrow> nat \<Rightarrow> string \<Rightarrow> string \<Rightarrow> bytes \<Rightarrow> bytes \<Rightarrow> int \<Rightarrow> sec \<Rightarrow> exn + passkey_row \<times> sec" where
  "create_passkey w n user device credential_id public_key sign_count s =
     (let r = \<lparr>pk_id = uuid_str (w_uuid4 w n), pk_user_id = user, pk_device_id = device, pk_credential_id = credential_id,
            pk_public_key = public_key, pk_sign_count = sign_count, pk_revoked_at = None, pk_created_at = w_now w\<rparr>
      in ebind (guard (get_user user s \<noteq> None \<and> get_device device s \<noteq> None \<and>
             list_all (\<lambda>r. pk_credential_id r \<noteq> credential_id) (sc_passkeys s)) IntegrityError) (\<lambda>_.
         ebind (row_insert pk_id r (sc_passkeys s)) (\<lambda>t. Inr (r, s\<lparr>sc_passkeys := t\<rparr>))))"

definition get_passkey :: "bytes \<Rightarrow> sec \<Rightarrow> passkey_row option" where
  "get_passkey credential_id s = List.find (\<lambda>r. pk_credential_id r = credential_id) (sc_passkeys s)"

definition list_passkeys_for_user :: "string \<Rightarrow> sec \<Rightarrow> passkey_row list" where
  "list_passkeys_for_user user s = sort_key (\<lambda>r. - pk_created_at r) (filter (\<lambda>r. pk_user_id r = user) (sc_passkeys s))"

definition update_passkey :: "string \<Rightarrow> int option \<Rightarrow> time option \<Rightarrow> sec \<Rightarrow> sec" where
  "update_passkey i sign_count revoked_at s =
     s\<lparr>sc_passkeys := row_update pk_id i (\<lambda>r. r\<lparr>pk_sign_count := opt_or sign_count (pk_sign_count r),
         pk_revoked_at := opt_some revoked_at (pk_revoked_at r)\<rparr>) (sc_passkeys s)\<rparr>"

definition create_challenge :: "world \<Rightarrow> nat \<Rightarrow> challenge_kind \<Rightarrow> bytes \<Rightarrow> time \<Rightarrow> string option \<Rightarrow> string option \<Rightarrow> sec \<Rightarrow>
    exn + challenge_row \<times> sec" where
  "create_challenge w n kind challenge expires_at user device_name s =
     (let r = \<lparr>ch_id = uuid_str (w_uuid4 w n), ch_kind = kind, ch_challenge = challenge, ch_user_id = user,
            ch_device_name = device_name, ch_expires_at = expires_at, ch_consumed_at = None, ch_created_at = w_now w\<rparr>
      in ebind (guard ((case user of None \<Rightarrow> True | Some u \<Rightarrow> get_user u s \<noteq> None) \<and>
             list_all (\<lambda>r. ch_challenge r \<noteq> challenge) (sc_challenges s)) IntegrityError) (\<lambda>_.
         ebind (row_insert ch_id r (sc_challenges s)) (\<lambda>t. Inr (r, s\<lparr>sc_challenges := t\<rparr>))))"

definition get_challenge :: "string \<Rightarrow> sec \<Rightarrow> challenge_row option" where
  "get_challenge i s = row_get ch_id i (sc_challenges s)"

definition consume_challenge :: "string \<Rightarrow> time \<Rightarrow> sec \<Rightarrow> bool \<times> sec" where
  \<comment> \<open>one conditional UPDATE; whether it changed a row\<close>
  "consume_challenge i stamp s =
     (case get_challenge i s of
        Some c \<Rightarrow> if ch_consumed_at c = None \<and> stamp < ch_expires_at c
          then (True, s\<lparr>sc_challenges := row_update ch_id i (\<lambda>c. c\<lparr>ch_consumed_at := Some stamp\<rparr>) (sc_challenges s)\<rparr>)
          else (False, s)
      | None \<Rightarrow> (False, s))"

definition get_second_factor :: "string \<Rightarrow> sec \<Rightarrow> factor_row option" where
  "get_second_factor user s = row_get sf_user_id user (sc_factors s)"

definition upsert_second_factor :: "time \<Rightarrow> string \<Rightarrow> bytes \<Rightarrow> int \<Rightarrow> sec \<Rightarrow> exn + sec" where
  "upsert_second_factor now user encrypted key_version s =
     (case get_second_factor user s of
        None \<Rightarrow> ebind (guard (get_user user s \<noteq> None) IntegrityError) (\<lambda>_.
          ebind (row_insert sf_user_id \<lparr>sf_user_id = user, sf_encrypted_secret = encrypted, sf_key_version = key_version,
              sf_enabled_at = now, sf_revoked_at = None\<rparr> (sc_factors s)) (\<lambda>t. Inr (s\<lparr>sc_factors := t\<rparr>)))
      | Some _ \<Rightarrow> Inr (s\<lparr>sc_factors := row_update sf_user_id user (\<lambda>r. r\<lparr>sf_encrypted_secret := encrypted,
            sf_key_version := key_version, sf_revoked_at := None\<rparr>) (sc_factors s)\<rparr>))"

definition revoke_second_factor :: "string \<Rightarrow> time \<Rightarrow> sec \<Rightarrow> sec" where
  "revoke_second_factor user stamp s =
     s\<lparr>sc_factors := row_update sf_user_id user (\<lambda>r. r\<lparr>sf_revoked_at := Some stamp\<rparr>) (sc_factors s)\<rparr>"

section \<open>Approvals and grants\<close>

definition create_security_approval :: "world \<Rightarrow> nat \<Rightarrow> string \<Rightarrow> string \<Rightarrow> string \<Rightarrow> string \<Rightarrow> pydict \<Rightarrow> time \<Rightarrow>
    string option \<Rightarrow> string option \<Rightarrow> string option \<Rightarrow> string option \<Rightarrow> sec \<Rightarrow> exn + security_approval \<times> sec" where
  "create_security_approval w n project requested_by action reason scope expires_at target run task risk s =
     (let r = \<lparr>sa_id = uuid_str (w_uuid4 w n), sa_project_id = project, sa_requested_by = requested_by, sa_action = action,
            sa_target = target, sa_run_id = run, sa_task_ref = task, sa_risk = risk, sa_reason = reason,
            sa_scope = scope, sa_status = ''pending'', sa_expires_at = expires_at, sa_decision = None,
            sa_decided_by = None, sa_decided_at = None, sa_created_at = w_now w\<rparr>
      in ebind (row_insert sa_id r (sc_approvals s)) (\<lambda>t. Inr (r, s\<lparr>sc_approvals := t\<rparr>)))"

definition get_approval :: "string \<Rightarrow> sec \<Rightarrow> security_approval option" where
  "get_approval i s = row_get sa_id i (sc_approvals s)"

definition approval_rows :: "string option \<Rightarrow> sec \<Rightarrow> security_approval list" where
  \<comment> \<open>\<open>list_approvals\<close>\<close>
  "approval_rows status s = filter (\<lambda>r. status = None \<or> status = Some (sa_status r))
     (sort_key (\<lambda>r. - sa_created_at r) (sc_approvals s))"

definition decided_row :: "approval_decision \<Rightarrow> string \<Rightarrow> time \<Rightarrow> string \<Rightarrow> security_approval \<Rightarrow> security_approval" where
  "decided_row d user stamp status r =
     r\<lparr>sa_decision := Some d, sa_decided_by := Some user, sa_decided_at := Some stamp, sa_status := status\<rparr>"

definition decide_row :: "string \<Rightarrow> approval_decision \<Rightarrow> string \<Rightarrow> time \<Rightarrow> string \<Rightarrow> sec \<Rightarrow> exn + bool \<times> sec" where
  \<comment> \<open>the repository's \<open>decide_approval\<close>: one UPDATE of the row if it is pending\<close>
  "decide_row i d user stamp status s =
     (case get_approval i s of
        Some r \<Rightarrow> if sa_status r = ''pending''
          then ebind (guard (get_user user s \<noteq> None) IntegrityError) (\<lambda>_.
            Inr (True, s\<lparr>sc_approvals := row_update sa_id i (decided_row d user stamp status) (sc_approvals s)\<rparr>))
          else Inr (False, s)
      | None \<Rightarrow> Inr (False, s))"

definition create_grant :: "world \<Rightarrow> nat \<Rightarrow> string \<Rightarrow> string \<Rightarrow> string \<Rightarrow> time \<Rightarrow> string option \<Rightarrow> string option \<Rightarrow>
    string option \<Rightarrow> string option \<Rightarrow> string option \<Rightarrow> sec \<Rightarrow> exn + grant_row \<times> sec" where
  "create_grant w n issuer subject action expires_at target run task device source s =
     (let r = \<lparr>gr_id = uuid_str (w_uuid4 w n), gr_issuer = issuer, gr_subject = subject, gr_action = action,
            gr_target = target, gr_run_id = run, gr_task_ref = task, gr_device_id = device,
            gr_source_approval = source, gr_status = GrantActive, gr_expires_at = expires_at, gr_revoked_at = None,
            gr_created_at = w_now w\<rparr>
      in ebind (guard (get_user issuer s \<noteq> None \<and>
             (case device of None \<Rightarrow> True | Some d \<Rightarrow> get_device d s \<noteq> None) \<and>
             (case source of None \<Rightarrow> True | Some a \<Rightarrow> get_approval a s \<noteq> None)) IntegrityError) (\<lambda>_.
         ebind (row_insert gr_id r (sc_grants s)) (\<lambda>t. Inr (r, s\<lparr>sc_grants := t\<rparr>))))"

definition get_grant :: "string \<Rightarrow> sec \<Rightarrow> grant_row option" where
  "get_grant i s = row_get gr_id i (sc_grants s)"

definition grant_rows :: "string option \<Rightarrow> sec \<Rightarrow> grant_row list" where
  \<comment> \<open>\<open>list_grants\<close>\<close>
  "grant_rows subject s = filter (\<lambda>r. subject = None \<or> subject = Some (gr_subject r))
     (sort_key (\<lambda>r. - gr_created_at r) (sc_grants s))"

definition revoke_grant_row :: "string \<Rightarrow> time \<Rightarrow> sec \<Rightarrow> sec" where
  \<comment> \<open>\<open>revoke_grant\<close> with its default status\<close>
  "revoke_grant_row i stamp s = s\<lparr>sc_grants := row_update gr_id i
     (\<lambda>r. r\<lparr>gr_status := GrantRevoked, gr_revoked_at := Some stamp\<rparr>) (sc_grants s)\<rparr>"

section \<open>Audit, lockdown state and vault\<close>

definition create_audit_event :: "world \<Rightarrow> nat \<Rightarrow> string \<Rightarrow> string \<Rightarrow> pydict \<Rightarrow> string option \<Rightarrow> string option \<Rightarrow>
    string option \<Rightarrow> sec \<Rightarrow> exn + sec" where
  "create_audit_event w n event_type result metadata actor session device s =
     (let r = \<lparr>au_id = uuid_str (w_uuid4 w n), au_event_type = event_type, au_actor = actor, au_session = session,
            au_device = device, au_target = None, au_result = result, au_metadata = metadata, au_created_at = w_now w\<rparr>
      in ebind (guard ((case actor of None \<Rightarrow> True | Some u \<Rightarrow> get_user u s \<noteq> None) \<and>
             (case session of None \<Rightarrow> True | Some i \<Rightarrow> get_session i s \<noteq> None) \<and>
             (case device of None \<Rightarrow> True | Some d \<Rightarrow> get_device d s \<noteq> None)) IntegrityError) (\<lambda>_.
         ebind (row_insert au_id r (sc_audit s)) (\<lambda>t. Inr (s\<lparr>sc_audit := t\<rparr>))))"

definition list_audit_events :: "nat \<Rightarrow> sec \<Rightarrow> audit_row list" where
  "list_audit_events limit s = take limit (sort_key (\<lambda>r. - au_created_at r) (sc_audit s))"

definition update_state :: "time \<Rightarrow> lockdown_state \<Rightarrow> sec \<Rightarrow> sec" where
  "update_state now lockdown s = s\<lparr>sc_state := map_option (\<lambda>r. r\<lparr>ss_lockdown := lockdown, ss_updated_at := now\<rparr>) (sc_state s)\<rparr>"

definition create_state :: "time \<Rightarrow> sec \<Rightarrow> security_state \<times> sec" where
  "create_state now s = (let r = \<lparr>ss_lockdown = NormalState, ss_updated_at = now\<rparr> in (r, s\<lparr>sc_state := Some r\<rparr>))"

definition create_vault_row :: "world \<Rightarrow> nat \<Rightarrow> string \<Rightarrow> string \<Rightarrow> bytes \<Rightarrow> int \<Rightarrow> string \<Rightarrow> sec \<Rightarrow> exn + vault_row \<times> sec" where
  "create_vault_row w n name credential_type encrypted key_version user s =
     (let r = \<lparr>va_id = uuid_str (w_uuid4 w n), va_name = name, va_type = credential_type, va_encrypted = encrypted,
            va_key_version = key_version, va_revoked_at = None, va_created_by = user, va_created_at = w_now w,
            va_updated_at = w_now w\<rparr>
      in ebind (guard (get_user user s \<noteq> None \<and> list_all (\<lambda>r. va_name r \<noteq> name) (sc_vault s)) IntegrityError) (\<lambda>_.
         ebind (row_insert va_id r (sc_vault s)) (\<lambda>t. Inr (r, s\<lparr>sc_vault := t\<rparr>))))"

definition get_vault_row :: "string \<Rightarrow> sec \<Rightarrow> vault_row option" where
  "get_vault_row i s = row_get va_id i (sc_vault s)"

definition list_vault_rows :: "sec \<Rightarrow> vault_row list" where
  "list_vault_rows s = sort_key (\<lambda>r. - va_created_at r) (sc_vault s)"

definition vault_touch :: "time \<Rightarrow> (vault_row \<Rightarrow> vault_row) \<Rightarrow> vault_row \<Rightarrow> vault_row" where
  \<comment> \<open>\<open>onupdate\<close>: a changed row gets a new \<open>updated_at\<close>\<close>
  "vault_touch now f r = (if f r = r then r else (f r)\<lparr>va_updated_at := now\<rparr>)"

definition update_vault_row :: "time \<Rightarrow> string \<Rightarrow> bytes option \<Rightarrow> int option \<Rightarrow> time option \<Rightarrow> sec \<Rightarrow> sec" where
  "update_vault_row now i encrypted key_version revoked_at s =
     s\<lparr>sc_vault := row_update va_id i (vault_touch now (\<lambda>r. r\<lparr>va_encrypted := opt_or encrypted (va_encrypted r),
         va_key_version := opt_or key_version (va_key_version r),
         va_revoked_at := opt_some revoked_at (va_revoked_at r)\<rparr>)) (sc_vault s)\<rparr>"

end
