(* ===== verification/Security.thy ===== *)
theory Security
  imports Security_Store
begin

text \<open>
  \<open>services/security.py\<close>: what a signed-in principal may do, devices, approvals and the grants they
  lead to, the lockdown and the audit trail. An operation checks its permission in a session of its own
  and then works in a second one; the second part has its own definition, because other requests may
  run in between. What the database driver returns for a stored time is a parameter: PostgreSQL's
  drivers return aware times, SQLite's returns naive ones, which Python refuses to compare with
  \<open>datetime.now(UTC)\<close>.
\<close>

record session_principal =
  sp_user_id :: string
  sp_username :: string
  sp_role :: user_role
  sp_session_id :: string
  sp_device_id :: string
  sp_device_trust :: device_trust
  sp_strength :: strength
  sp_permissions :: "permission set"
  sp_csrf_token :: string

type_synonym 'a sop = "(sec, 'a) stateful"

definition sec_transact :: "(sec \<Rightarrow> exn + 'a \<times> sec) \<Rightarrow> 'a sop" where
  \<comment> \<open>a session that commits at its end and is rolled back by an exception\<close>
  "sec_transact f s = (case f s of Inl e \<Rightarrow> (Inl e, s) | Inr (x, s') \<Rightarrow> (Inr x, s'))"

definition sec_deny :: "exn \<Rightarrow> (sec \<Rightarrow> exn + sec) \<Rightarrow> 'a sop" where
  \<comment> \<open>commit, then raise\<close>
  "sec_deny e f s = (case f s of Inl e' \<Rightarrow> (Inl e', s) | Inr s' \<Rightarrow> (Inl e, s'))"

definition sec_query :: "(sec \<Rightarrow> exn + 'a) \<Rightarrow> 'a sop" where
  \<comment> \<open>a session that is not committed\<close>
  "sec_query f s = (f s, s)"

definition seconds :: "int \<Rightarrow> time" where
  "seconds n = n * 1000000"

definition stored_le :: "bool \<Rightarrow> time \<Rightarrow> time \<Rightarrow> exn + bool" where
  \<comment> \<open>\<open>stored <= datetime.now(UTC)\<close>; the flag says that the driver returns aware times\<close>
  "stored_le aware stored now = (if aware then Inr (stored \<le> now)
     else Inl (TypeError ''can't compare offset-naive and offset-aware datetimes''))"

section \<open>Permission and lockdown\<close>

definition current_state :: "time \<Rightarrow> sec \<Rightarrow> security_state \<times> sec" where
  \<comment> \<open>\<open>_state\<close>\<close>
  "current_state now s = (case sc_state s of None \<Rightarrow> create_state now s | Some r \<Rightarrow> (r, s))"

definition locked :: "sec \<Rightarrow> bool" where
  "locked s = (case sc_state s of None \<Rightarrow> False | Some r \<Rightarrow> ss_lockdown r = LockedDown)"

definition audit_by :: "world \<Rightarrow> nat \<Rightarrow> session_principal \<Rightarrow> string \<Rightarrow> string \<Rightarrow> pydict \<Rightarrow> sec \<Rightarrow> exn + sec" where
  "audit_by w n p event_type result metadata s =
     create_audit_event w n event_type result metadata (Some (sp_user_id p)) (Some (sp_session_id p)) (Some (sp_device_id p)) s"

definition security_require :: "world \<Rightarrow> session_principal \<Rightarrow> permission \<Rightarrow> bool \<Rightarrow> unit sop" where
  "security_require w p perm mfa =
     (if perm \<notin> sp_permissions p \<and> ADMIN \<notin> sp_permissions p
      then op_raise (SecurityAuthorizationError ''Principal lacks required permission'')
      else if mfa \<and> sp_strength p \<noteq> PasskeyTotp
      then op_raise (SecurityAuthorizationError ''A stepped-up session is required'')
      else if perm \<in> {EXECUTE, CONTROL, APPROVE}
      then (\<lambda>s. case current_state (w_now w) s of (st, s1) \<Rightarrow>
         if ss_lockdown st = LockedDown
         then sec_deny (SecurityAuthorizationError ''Lockdown is active'')
           (\<lambda>_. audit_by w 0 p ''security.policy'' ''denied''
              [(''permission'', PStr (permission_value perm)), (''reason'', PStr ''lockdown'')] s1) s
         else (Inr (), s))
      else op_return ())"

section \<open>Devices\<close>

definition owned_device :: "session_principal \<Rightarrow> string \<Rightarrow> sec \<Rightarrow> exn + device_row" where
  "owned_device p i s = (case get_device i s of
     None \<Rightarrow> Inl (KeyError i)
   | Some d \<Rightarrow> if dv_user_id d \<noteq> sp_user_id p then Inl (KeyError i) else Inr d)"

definition list_devices :: "session_principal \<Rightarrow> device_row list sop" where
  "list_devices p = sec_query (\<lambda>s. Inr (list_devices_for_user (sp_user_id p) s))"

definition rename_device :: "session_principal \<Rightarrow> string \<Rightarrow> string \<Rightarrow> device_row sop" where
  "rename_device p i display_name = sec_transact (\<lambda>s.
     ebind (owned_device p i s) (\<lambda>d.
     Inr (d\<lparr>dv_display_name := display_name\<rparr>, update_device (dv_id d) (Some display_name) None None None s)))"

definition trust_device :: "world \<Rightarrow> session_principal \<Rightarrow> string \<Rightarrow> device_row sop" where
  "trust_device w p i = op_bind (security_require w p ADMIN False) (\<lambda>_. sec_transact (\<lambda>s.
     ebind (owned_device p i s) (\<lambda>d.
     if dv_revoked_at d \<noteq> None then Inl (SecurityConflictError ''A revoked device cannot be trusted'')
     else ebind (create_audit_event w 1 ''security.device_trusted'' ''success'' [(''device_id'', PStr (dv_id d))]
            (Some (sp_user_id p)) (Some (sp_session_id p)) (Some (dv_id d))
            (update_device (dv_id d) None (Some Trusted) None None s)) (\<lambda>s.
          Inr (d\<lparr>dv_trust := Trusted\<rparr>, s)))))"

definition revoke_device :: "world \<Rightarrow> session_principal \<Rightarrow> string \<Rightarrow> device_row sop" where
  "revoke_device w p i = op_bind (security_require w p ADMIN False) (\<lambda>_. sec_transact (\<lambda>s.
     ebind (owned_device p i s) (\<lambda>d.
     if dv_revoked_at d \<noteq> None then Inr (d, s)
     else ebind (create_audit_event w 1 ''security.device_revoked'' ''success'' [(''device_id'', PStr (dv_id d))]
            (Some (sp_user_id p)) (Some (sp_session_id p)) (Some (dv_id d))
            (revoke_sessions_for_device (dv_id d) (w_now w)
              (update_device (dv_id d) None None (Some (w_now w)) None s))) (\<lambda>s.
          Inr (d\<lparr>dv_revoked_at := Some (w_now w)\<rparr>, s)))))"

section \<open>Approvals and grants\<close>

definition create_approval_body :: "world \<Rightarrow> session_principal \<Rightarrow> string \<Rightarrow> string \<Rightarrow> string \<Rightarrow> pydict \<Rightarrow> int \<Rightarrow>
    string option \<Rightarrow> string option \<Rightarrow> string option \<Rightarrow> string option \<Rightarrow> security_approval sop" where
  "create_approval_body w p project action reason scope expires_in target run task risk = sec_transact (\<lambda>s.
     ebind (create_security_approval w 2 project (sp_user_id p) action reason scope (w_now w + seconds expires_in)
        target run task risk s) (\<lambda>(r, s).
     ebind (audit_by w 1 p ''security.approval_created'' ''success''
        [(''approval_id'', PStr (sa_id r)), (''action'', PStr action)] s) (\<lambda>s. Inr (r, s))))"

definition create_approval :: "world \<Rightarrow> session_principal \<Rightarrow> string \<Rightarrow> string \<Rightarrow> string \<Rightarrow> pydict \<Rightarrow> int \<Rightarrow>
    string option \<Rightarrow> string option \<Rightarrow> string option \<Rightarrow> string option \<Rightarrow> security_approval sop" where
  "create_approval w p project action reason scope expires_in target run task risk =
     op_bind (security_require w p EXECUTE False) (\<lambda>_.
     create_approval_body w p project action reason scope expires_in target run task risk)"

definition list_approvals :: "world \<Rightarrow> session_principal \<Rightarrow> string option \<Rightarrow> security_approval list sop" where
  "list_approvals w p status =
     op_bind (security_require w p READ False) (\<lambda>_. sec_query (\<lambda>s. Inr (approval_rows status s)))"

definition grant_for :: "world \<Rightarrow> session_principal \<Rightarrow> security_approval \<Rightarrow> approval_decision \<Rightarrow> sec \<Rightarrow>
    exn + grant_row option \<times> sec" where
  "grant_for w p r d s =
     (if d \<noteq> AllowForTask then Inr (None, s)
      else if sa_task_ref r = None then Inl (SecurityConflictError ''Task-scoped approval requires a task'')
      else ebind (create_grant w 2 (sp_user_id p) (sa_requested_by r) (sa_action r) (sa_expires_at r) (sa_target r)
             (sa_run_id r) (sa_task_ref r) None (Some (sa_id r)) s) (\<lambda>(g, s). Inr (Some g, s)))"

definition decide_approval_body :: "bool \<Rightarrow> world \<Rightarrow> session_principal \<Rightarrow> string \<Rightarrow> approval_decision \<Rightarrow>
    (security_approval \<times> grant_row option) sop" where
  "decide_approval_body aware w p i d s =
     (case get_approval i s of
        None \<Rightarrow> (Inl (KeyError i), s)
      | Some r \<Rightarrow> (case stored_le aware (sa_expires_at r) (w_now w) of
          Inl e \<Rightarrow> (Inl e, s)
        | Inr True \<Rightarrow> sec_deny (SecurityConflictError ''Approval has expired'')
            (\<lambda>s. ebind (decide_row (sa_id r) RejectDecision (sp_user_id p) (w_now w) ''expired'' s) (\<lambda>(_, s). Inr s)) s
        | Inr False \<Rightarrow> sec_transact (\<lambda>s.
            let status = (if d = RejectDecision then ''rejected'' else ''approved'') in
            ebind (decide_row (sa_id r) d (sp_user_id p) (w_now w) status s) (\<lambda>(decided, s).
            if \<not> decided then Inl (SecurityConflictError ''Approval is no longer pending'')
            else ebind (grant_for w p r d s) (\<lambda>(g, s).
            ebind (audit_by w 1 p ''security.approval_decided'' status
               [(''approval_id'', PStr (sa_id r)), (''decision'', PStr (approval_decision_value d))] s) (\<lambda>s.
            Inr ((decided_row d (sp_user_id p) (w_now w) status r, g), s))))) s))"

definition decide_approval :: "bool \<Rightarrow> world \<Rightarrow> session_principal \<Rightarrow> string \<Rightarrow> approval_decision \<Rightarrow>
    (security_approval \<times> grant_row option) sop" where
  "decide_approval aware w p i d =
     op_bind (security_require w p APPROVE False) (\<lambda>_. decide_approval_body aware w p i d)"

definition list_grants :: "world \<Rightarrow> session_principal \<Rightarrow> grant_row list sop" where
  "list_grants w p = op_bind (security_require w p READ False) (\<lambda>_. sec_query (\<lambda>s. Inr (grant_rows (Some (sp_user_id p)) s)))"

definition revoke_grant :: "world \<Rightarrow> session_principal \<Rightarrow> string \<Rightarrow> grant_row sop" where
  "revoke_grant w p i = op_bind (security_require w p APPROVE False) (\<lambda>_. sec_transact (\<lambda>s.
     case get_grant i s of
       None \<Rightarrow> Inl (KeyError i)
     | Some g \<Rightarrow>
         if gr_issuer g \<noteq> sp_user_id p then Inl (KeyError i)
         else if gr_status g \<noteq> GrantActive then Inr (g, s)
         else ebind (audit_by w 1 p ''security.grant_revoked'' ''success'' [(''grant_id'', PStr (gr_id g))]
                (revoke_grant_row (gr_id g) (w_now w) s)) (\<lambda>s.
              Inr (g\<lparr>gr_status := GrantRevoked, gr_revoked_at := Some (w_now w)\<rparr>, s))))"

section \<open>Lockdown\<close>

definition get_lockdown_state :: "world \<Rightarrow> session_principal \<Rightarrow> security_state sop" where
  "get_lockdown_state w p = op_bind (security_require w p READ False) (\<lambda>_. sec_query (\<lambda>s. Inr (fst (current_state (w_now w) s))))"

definition revoke_active :: "time \<Rightarrow> grant_row \<Rightarrow> sec \<Rightarrow> sec" where
  "revoke_active now g s = (if gr_status g = GrantActive then revoke_grant_row (gr_id g) now s else s)"

definition activate_lockdown :: "world \<Rightarrow> session_principal \<Rightarrow> security_state sop" where
  "activate_lockdown w p = op_bind (security_require w p ADMIN True) (\<lambda>_. sec_transact (\<lambda>s0.
     case current_state (w_now w) s0 of (st, s) \<Rightarrow>
       if ss_lockdown st \<noteq> NormalState then Inr (st, s0)
       else let s = update_state (w_now w) LockedDown s;
                s = fold (revoke_active (w_now w)) (grant_rows None s) s
            in ebind (audit_by w 1 p ''security.lockdown_activated'' ''success'' [] s) (\<lambda>s.
               Inr (\<lparr>ss_lockdown = LockedDown, ss_updated_at = w_now w\<rparr>, s))))"

definition deactivate_lockdown :: "world \<Rightarrow> session_principal \<Rightarrow> security_state sop" where
  "deactivate_lockdown w p = op_bind (security_require w p ADMIN True) (\<lambda>_. sec_transact (\<lambda>s0.
     case current_state (w_now w) s0 of (st, s) \<Rightarrow>
       if ss_lockdown st \<noteq> LockedDown then Inr (st, s0)
       else ebind (audit_by w 1 p ''security.lockdown_deactivated'' ''success'' []
              (update_state (w_now w) NormalState s)) (\<lambda>s.
            Inr (\<lparr>ss_lockdown = NormalState, ss_updated_at = w_now w\<rparr>, s))))"

definition list_audit :: "world \<Rightarrow> session_principal \<Rightarrow> nat \<Rightarrow> audit_row list sop" where
  "list_audit w p limit = op_bind (security_require w p ADMIN False) (\<lambda>_. sec_query (\<lambda>s. Inr (list_audit_events limit s)))"

definition require_vault_management :: "world \<Rightarrow> session_principal \<Rightarrow> unit sop" where
  "require_vault_management w p = op_bind (security_require w p ADMIN False) (\<lambda>_. sec_query (\<lambda>s.
     if ss_lockdown (fst (current_state (w_now w) s)) = LockedDown
     then Inl (SecurityAuthorizationError ''Lockdown is active'') else Inr ()))"

end
