(* ===== verification/Auth.thy ===== *)
theory Auth
  imports Security
begin

text \<open>
  \<open>services/auth.py\<close>: the first owner, passkeys, sessions, the second factor and CSRF. WebAuthn, TOTP,
  Fernet, SHA-256, HMAC and the random generator are parameters; the content of the bootstrap secret's
  file is part of the state of \<open>bootstrap\<close>. Base64 decoding is the one of the standard library.
\<close>

record auth_host =
  ah_secret :: "uuid \<Rightarrow> string" \<comment> \<open>the random text drawn with an id of the operation's world\<close>
  ah_sha256 :: "string \<Rightarrow> string"
  ah_csrf :: "string \<Rightarrow> string" \<comment> \<open>\<open>MasterKeyStore.csrf_token\<close>\<close>
  ah_encrypt :: "string \<Rightarrow> bytes"
  ah_decrypt :: "bytes \<Rightarrow> string option"
  ah_totp :: "string \<Rightarrow> string \<Rightarrow> exn + bool" \<comment> \<open>\<open>TOTP(secret).verify(code, valid_window=1)\<close>\<close>
  ah_totp_uri :: "string \<Rightarrow> string \<Rightarrow> string"
  ah_registered :: "pydict \<Rightarrow> bytes \<Rightarrow> (bytes \<times> bytes \<times> int) option"
    \<comment> \<open>\<open>verify_registration_response\<close>: credential id, public key and counter\<close>
  ah_authenticated :: "pydict \<Rightarrow> bytes \<Rightarrow> bytes \<Rightarrow> int \<Rightarrow> int option"
    \<comment> \<open>\<open>verify_authentication_response\<close>: the new counter\<close>
  ah_registration_options :: "string \<Rightarrow> string \<Rightarrow> bytes \<Rightarrow> bytes list \<Rightarrow> pyobj"
  ah_authentication_options :: "bytes \<Rightarrow> bytes list \<Rightarrow> pyobj"

record auth_config =
  ac_aware :: bool \<comment> \<open>the database driver returns aware times\<close>
  ac_challenge_ttl :: int
  ac_session_ttl :: int
  ac_allowed_origins :: "string list"

record session_tokens =
  st_session_token :: string
  st_csrf_token :: string
  st_principal :: session_principal

section \<open>Helpers\<close>

definition permissions_for_role :: "user_role \<Rightarrow> permission set" where
  "permissions_for_role r = (if r \<in> {OwnerRole, AdminRole} then set all_permissions else {READ, EXECUTE, CONTROL})"

definition b64_value :: "char \<Rightarrow> nat option" where
  \<comment> \<open>the alphabet after \<open>-\<close> and \<open>_\<close> have been translated\<close>
  "b64_value c = (let n = (of_char c :: nat) in
     if 65 \<le> n \<and> n \<le> 90 then Some (n - 65)
     else if 97 \<le> n \<and> n \<le> 122 then Some (n - 71)
     else if 48 \<le> n \<and> n \<le> 57 then Some (n + 4)
     else if n = 43 \<or> n = 45 then Some 62
     else if n = 47 \<or> n = 95 then Some 63
     else None)"

fun b64_scan :: "nat \<Rightarrow> nat \<Rightarrow> nat \<Rightarrow> string \<Rightarrow> bytes option" where
  \<comment> \<open>\<open>binascii.a2b_base64\<close>: position in the group of four, bits left over, padding seen; characters
    outside the alphabet are skipped, \<open>None\<close> is \<open>binascii.Error\<close>\<close>
  "b64_scan pos rest pads [] = (if pos = 0 then Some [] else None)"
| "b64_scan pos rest pads (c # cs) =
     (if c = CHR ''='' then
        (if 2 \<le> pos \<and> 4 \<le> pos + pads + 1 then Some []
         else b64_scan pos rest (if 2 \<le> pos then pads + 1 else pads) cs)
      else case b64_value c of
        None \<Rightarrow> b64_scan pos rest pads cs
      | Some v \<Rightarrow>
          if pos = 0 then b64_scan 1 v 0 cs
          else if pos = 1 then map_option ((#) (char_of (rest * 4 + v div 16))) (b64_scan 2 (v mod 16) 0 cs)
          else if pos = 2 then map_option ((#) (char_of (rest * 16 + v div 4))) (b64_scan 3 (v mod 4) 0 cs)
          else map_option ((#) (char_of (rest * 64 + v))) (b64_scan 0 0 0 cs))"

definition base64url_decode :: "string \<Rightarrow> exn + bytes" where
  "base64url_decode value =
     (let padded = value @ replicate ((4 - length value mod 4) mod 4) (CHR ''='')
      in if \<not> ascii value then Inl (AuthenticationError ''Authentication failed'')
         else case b64_scan 0 0 0 padded of
           None \<Rightarrow> Inl (AuthenticationError ''Authentication failed'')
         | Some b \<Rightarrow> Inr b)"

definition auth_principal :: "auth_host \<Rightarrow> user_row \<Rightarrow> string \<Rightarrow> string \<Rightarrow> device_trust \<Rightarrow> strength \<Rightarrow> session_principal" where
  \<comment> \<open>\<open>_principal\<close>\<close>
  "auth_principal h u session device trust str = \<lparr>sp_user_id = us_id u, sp_username = us_username u, sp_role = us_role u,
     sp_session_id = session, sp_device_id = device, sp_device_trust = trust, sp_strength = str,
     sp_permissions = permissions_for_role (us_role u), sp_csrf_token = ah_csrf h session\<rparr>"

definition required_user :: "string \<Rightarrow> sec \<Rightarrow> exn + user_row" where
  "required_user i s = (case get_user i s of None \<Rightarrow> Inl (AuthenticationError ''User is unavailable'') | Some u \<Rightarrow> Inr u)"

definition begun :: "challenge_row \<Rightarrow> pyobj \<Rightarrow> pyobj" where
  "begun c options = PDict [(''challenge_id'', PStr (ch_id c)), (''options'', options)]"

section \<open>Challenges and sessions\<close>

definition registration_challenge_for :: "auth_config \<Rightarrow> auth_host \<Rightarrow> world \<Rightarrow> user_row \<Rightarrow> string \<Rightarrow> sec \<Rightarrow>
    exn + (challenge_row \<times> pyobj) \<times> sec" where
  \<comment> \<open>\<open>_create_registration_challenge\<close>\<close>
  "registration_challenge_for cf h w u device_name s =
     ebind (create_challenge w 1 PasskeyRegistration (ah_secret h (w_uuid4 w 6)) (w_now w + seconds (ac_challenge_ttl cf))
        (Some (us_id u)) (Some device_name) s) (\<lambda>(c, s).
     Inr ((c, ah_registration_options h (us_username u) (us_id u) (ah_secret h (w_uuid4 w 6))
        (map pk_credential_id (list_passkeys_for_user (us_id u) s))), s))"

definition pending_challenge :: "auth_config \<Rightarrow> world \<Rightarrow> challenge_kind \<Rightarrow> string \<Rightarrow> sec \<Rightarrow> exn + challenge_row" where
  \<comment> \<open>\<open>_registration_challenge\<close> and \<open>_authentication_challenge\<close>\<close>
  "pending_challenge cf w kind i s =
     (let refused = Inl (AuthenticationError ''Passkey challenge is invalid or expired'') in
      case get_challenge i s of
        None \<Rightarrow> refused
      | Some c \<Rightarrow>
          if ch_kind c \<noteq> kind \<or> ch_consumed_at c \<noteq> None then refused
          else ebind (stored_le (ac_aware cf) (ch_expires_at c) (w_now w)) (\<lambda>expired.
            if expired then refused else Inr c))"

definition create_session :: "auth_config \<Rightarrow> auth_host \<Rightarrow> world \<Rightarrow> user_row \<Rightarrow> string \<Rightarrow> strength \<Rightarrow> sec \<Rightarrow>
    exn + session_tokens \<times> sec" where
  \<comment> \<open>\<open>_create_session\<close>\<close>
  "create_session cf h w u device str s =
     ebind (create_session_row w 4 (us_id u) device (ah_sha256 h (ah_secret h (w_uuid4 w 7))) str
        (w_now w + seconds (ac_session_ttl cf)) s) (\<lambda>(r, s).
     case get_device device s of
       None \<Rightarrow> Inl (AuthenticationError ''Device is unavailable'')
     | Some d \<Rightarrow> (let p = auth_principal h u (se_id r) device (dv_trust d) str in
         Inr (\<lparr>st_session_token = ah_secret h (w_uuid4 w 7), st_csrf_token = sp_csrf_token p, st_principal = p\<rparr>, s)))"

definition session_audit :: "world \<Rightarrow> string \<Rightarrow> user_row \<Rightarrow> session_tokens \<Rightarrow> string \<Rightarrow> sec \<Rightarrow> exn + sec" where
  "session_audit w event_type u t device s = create_audit_event w 5 event_type ''success'' []
     (Some (us_id u)) (Some (sp_session_id (st_principal t))) (Some device) s"

section \<open>The first owner\<close>

type_synonym 'a bop = "(string option \<times> sec, 'a) stateful" \<comment> \<open>the secret's file and the tables\<close>

definition require_bootstrap_secret :: "auth_host \<Rightarrow> world \<Rightarrow> string \<Rightarrow> unit bop" where
  "require_bootstrap_secret h w supplied = (\<lambda>(f, s).
     let content = (case f of None \<Rightarrow> ah_secret h (w_uuid4 w 8) | Some c \<Rightarrow> c); expected = py_strip content in
     (if expected = [] then Inl (AuthenticationError ''Bootstrap secret is invalid'')
      else ebind (compare_digest supplied expected) (\<lambda>same.
        if same then Inr () else Inl (AuthenticationError ''Bootstrap secret is invalid'')), (Some content, s)))"

definition bootstrap :: "auth_config \<Rightarrow> auth_host \<Rightarrow> world \<Rightarrow> string \<Rightarrow> string \<Rightarrow> string \<Rightarrow> pyobj bop" where
  "bootstrap cf h w username secret device_name =
     op_bind (require_bootstrap_secret h w secret) (\<lambda>_ (f, s).
     case (if list_users s \<noteq> [] then Inl (AuthenticationConflictError ''Bootstrap is no longer available'')
           else ebind (create_user w 0 username OwnerRole s) (\<lambda>(u, s).
             ebind (registration_challenge_for cf h w u device_name s) (\<lambda>((c, options), s).
             ebind (create_audit_event w 2 ''security.bootstrap'' ''success'' [(''username'', PStr username)]
                (Some (us_id u)) None None s) (\<lambda>s. Inr (begun c options, s))))) of
       Inl e \<Rightarrow> (Inl e, (f, s))
     | Inr (r, s) \<Rightarrow> (Inr r, (None, s)))"

section \<open>Passkeys\<close>

definition begin_passkey_registration :: "auth_config \<Rightarrow> auth_host \<Rightarrow> world \<Rightarrow> session_principal \<Rightarrow> string \<Rightarrow> pyobj sop" where
  "begin_passkey_registration cf h w p device_name = sec_transact (\<lambda>s.
     case get_user (sp_user_id p) s of
       None \<Rightarrow> Inl (AuthenticationError ''User is unavailable'')
     | Some u \<Rightarrow>
         if us_disabled_at u \<noteq> None then Inl (AuthenticationError ''User is unavailable'')
         else ebind (registration_challenge_for cf h w u device_name s) (\<lambda>((c, options), s). Inr (begun c options, s)))"

definition spend_challenge :: "world \<Rightarrow> challenge_row \<Rightarrow> sec \<Rightarrow> exn + sec" where
  "spend_challenge w c s = (case consume_challenge (ch_id c) (w_now w) s of (ok, s) \<Rightarrow>
     if ok then Inr s else Inl (AuthenticationConflictError ''Passkey challenge is no longer valid''))"

definition nonempty_or :: "string option \<Rightarrow> string \<Rightarrow> string" where
  \<comment> \<open>\<open>x or default\<close>\<close>
  "nonempty_or x y = (case x of None \<Rightarrow> y | Some s \<Rightarrow> if s = [] then y else s)"

definition finish_passkey_registration :: "auth_config \<Rightarrow> auth_host \<Rightarrow> world \<Rightarrow> string \<Rightarrow> pydict \<Rightarrow> session_tokens sop" where
  "finish_passkey_registration cf h w i credential = sec_transact (\<lambda>s.
     ebind (pending_challenge cf w PasskeyRegistration i s) (\<lambda>c.
     case ah_registered h credential (ch_challenge c) of
       None \<Rightarrow> Inl (AuthenticationError ''Passkey registration verification failed'')
     | Some (credential_id, public_key, sign_count) \<Rightarrow>
         ebind (spend_challenge w c s) (\<lambda>s.
         ebind (required_user (nonempty_or (ch_user_id c) []) s) (\<lambda>u.
         ebind (create_device w 2 (us_id u) (nonempty_or (ch_device_name c) ''Passkey device'') Limited s) (\<lambda>(d, s).
         ebind (create_passkey w 3 (us_id u) (dv_id d) credential_id public_key sign_count s) (\<lambda>(_, s).
         ebind (create_session cf h w u (dv_id d) PasskeyStrength s) (\<lambda>(t, s).
         ebind (session_audit w ''security.passkey_registered'' u t (dv_id d) s) (\<lambda>s. Inr (t, s)))))))))"

definition begin_passkey_authentication :: "auth_config \<Rightarrow> auth_host \<Rightarrow> world \<Rightarrow> string \<Rightarrow> pyobj sop" where
  "begin_passkey_authentication cf h w username = sec_transact (\<lambda>s.
     let failed = Inl (AuthenticationError ''Authentication failed'') in
     case get_user_by_username username s of
       None \<Rightarrow> failed
     | Some u \<Rightarrow>
         if us_disabled_at u \<noteq> None then failed
         else let credentials = filter (\<lambda>k. pk_revoked_at k = None) (list_passkeys_for_user (us_id u) s) in
           if credentials = [] then failed
           else ebind (create_challenge w 1 PasskeyAuthentication (ah_secret h (w_uuid4 w 6))
                  (w_now w + seconds (ac_challenge_ttl cf)) (Some (us_id u)) None s) (\<lambda>(c, s).
                Inr (begun c (ah_authentication_options h (ah_secret h (w_uuid4 w 6)) (map pk_credential_id credentials)), s)))"

definition usable_passkey :: "challenge_row \<Rightarrow> pydict \<Rightarrow> sec \<Rightarrow> exn + passkey_row" where
  "usable_passkey c credential s =
     (let failed = Inl (AuthenticationError ''Authentication failed'') in
      case as_str (dict_get credential ''rawId'') of
        None \<Rightarrow> failed
      | Some raw \<Rightarrow> ebind (base64url_decode raw) (\<lambda>i.
          case get_passkey i s of
            None \<Rightarrow> failed
          | Some k \<Rightarrow> if pk_revoked_at k \<noteq> None \<or> Some (pk_user_id k) \<noteq> ch_user_id c then failed else Inr k))"

definition live_pair :: "string \<Rightarrow> string \<Rightarrow> sec \<Rightarrow> (user_row \<times> device_row) option" where
  \<comment> \<open>the user and the device, neither disabled nor revoked\<close>
  "live_pair user device s =
     (case (get_user user s, get_device device s) of
        (Some u, Some d) \<Rightarrow> if us_disabled_at u \<noteq> None \<or> dv_revoked_at d \<noteq> None then None else Some (u, d)
      | _ \<Rightarrow> None)"

definition finish_passkey_authentication :: "auth_config \<Rightarrow> auth_host \<Rightarrow> world \<Rightarrow> string \<Rightarrow> pydict \<Rightarrow> session_tokens sop" where
  "finish_passkey_authentication cf h w i credential = sec_transact (\<lambda>s.
     ebind (pending_challenge cf w PasskeyAuthentication i s) (\<lambda>c.
     ebind (usable_passkey c credential s) (\<lambda>k.
     case ah_authenticated h credential (ch_challenge c) (pk_public_key k) (pk_sign_count k) of
       None \<Rightarrow> Inl (AuthenticationError ''Authentication failed'')
     | Some sign_count \<Rightarrow>
         ebind (spend_challenge w c s) (\<lambda>s.
         case live_pair (pk_user_id k) (pk_device_id k) s of
           None \<Rightarrow> Inl (AuthenticationError ''Authentication failed'')
         | Some (u, d) \<Rightarrow>
             ebind (create_session cf h w u (dv_id d) PasskeyStrength
               (update_device (dv_id d) None None None (Some (w_now w)) (update_passkey (pk_id k) (Some sign_count) None s))) (\<lambda>(t, s).
             ebind (session_audit w ''security.login'' u t (dv_id d) s) (\<lambda>s. Inr (t, s)))))))"

section \<open>Using a session\<close>

definition principal_from_session_token :: "auth_config \<Rightarrow> auth_host \<Rightarrow> world \<Rightarrow> string option \<Rightarrow> session_principal sop" where
  "principal_from_session_token cf h w token = sec_query (\<lambda>s.
     let refused = Inl (AuthenticationError ''Session is invalid or expired'') in
     if token = None \<or> token = Some [] then Inl (AuthenticationError ''Authentication is required'')
     else case get_session_by_token_hash (ah_sha256 h (the token)) s of
        None \<Rightarrow> refused
      | Some r \<Rightarrow>
          if se_revoked_at r \<noteq> None then refused
          else ebind (stored_le (ac_aware cf) (se_expires_at r) (w_now w)) (\<lambda>expired.
            if expired then refused
            else case live_pair (se_user_id r) (se_device_id r) s of
               None \<Rightarrow> refused
             | Some (u, d) \<Rightarrow> Inr (auth_principal h u (se_id r) (dv_id d) (dv_trust d)
                 (if se_step_up_at r \<noteq> None then PasskeyTotp else se_strength r))))"

definition logout :: "world \<Rightarrow> session_principal \<Rightarrow> unit sop" where
  "logout w p = sec_transact (\<lambda>s.
     case get_session (sp_session_id p) s of
       None \<Rightarrow> Inr ((), s)
     | Some r \<Rightarrow>
         if se_revoked_at r \<noteq> None then Inr ((), s)
         else ebind (audit_by w 1 p ''security.logout'' ''success'' []
                (update_session (se_id r) None None (Some (w_now w)) s)) (\<lambda>s. Inr ((), s)))"

section \<open>The second factor and CSRF\<close>

definition begin_totp_enrollment :: "auth_host \<Rightarrow> world \<Rightarrow> session_principal \<Rightarrow> string \<times> string" where
  "begin_totp_enrollment h w p = (ah_secret h (w_uuid4 w 9), ah_totp_uri h (ah_secret h (w_uuid4 w 9)) (sp_username p))"

definition confirm_totp_enrollment :: "auth_host \<Rightarrow> world \<Rightarrow> session_principal \<Rightarrow> string \<Rightarrow> string \<Rightarrow> unit sop" where
  "confirm_totp_enrollment h w p secret code = sec_transact (\<lambda>s.
     ebind (ah_totp h secret code) (\<lambda>ok.
     if \<not> ok then Inl (AuthenticationError ''Invalid verification code'')
     else if \<not> ascii secret then Inl (ValueError ''ascii'')
     else ebind (upsert_second_factor (w_now w) (sp_user_id p) (ah_encrypt h secret) 1 s) (\<lambda>s.
       ebind (audit_by w 1 p ''security.totp_enrolled'' ''success'' [] s) (\<lambda>s. Inr ((), s)))))"

definition stored_secret :: "auth_host \<Rightarrow> session_principal \<Rightarrow> sec \<Rightarrow> exn + string" where
  \<comment> \<open>decrypting is under \<open>except Exception\<close>, and so is the ASCII decoding\<close>
  "stored_secret h p s =
     (case get_second_factor (sp_user_id p) s of
        None \<Rightarrow> Inl (AuthenticationError ''Second factor is not enabled'')
      | Some f \<Rightarrow>
          if sf_revoked_at f \<noteq> None then Inl (AuthenticationError ''Second factor is not enabled'')
          else case ah_decrypt h (sf_encrypted_secret f) of
             None \<Rightarrow> Inl (AuthenticationError ''Second factor is unavailable'')
           | Some secret \<Rightarrow> if ascii secret then Inr secret else Inl (AuthenticationError ''Second factor is unavailable''))"

definition step_up :: "auth_host \<Rightarrow> world \<Rightarrow> session_principal \<Rightarrow> session_principal sop" where
  \<comment> \<open>\<open>verify_totp\<close> after the code was found right; the user is read after the commit\<close>
  "step_up h w p s =
     (case get_session (sp_session_id p) s of
        None \<Rightarrow> (Inl (AuthenticationError ''Session is invalid''), s)
      | Some r \<Rightarrow>
          if se_revoked_at r \<noteq> None then (Inl (AuthenticationError ''Session is invalid''), s)
          else let s = update_session (se_id r) None (Some (w_now w)) None s in
            (ebind (required_user (sp_user_id p) s) (\<lambda>u.
               Inr (auth_principal h u (se_id r) (se_device_id r) (sp_device_trust p) PasskeyTotp)), s))"

definition verify_totp :: "auth_host \<Rightarrow> world \<Rightarrow> session_principal \<Rightarrow> string \<Rightarrow> session_principal sop" where
  "verify_totp h w p code =
     op_bind (sec_query (\<lambda>s. ebind (stored_secret h p s) (\<lambda>secret. ah_totp h secret code))) (\<lambda>ok.
     if \<not> ok then sec_deny (AuthenticationError ''Invalid verification code'')
       (audit_by w 1 p ''security.totp'' ''denied'' [])
     else step_up h w p)"

definition require_csrf :: "auth_config \<Rightarrow> session_principal \<Rightarrow> string option \<Rightarrow> string option \<Rightarrow> exn + unit" where
  "require_csrf cf p token origin =
     (if origin = None \<or> the origin \<notin> set (ac_allowed_origins cf)
      then Inl (AuthenticationError ''Request origin is not allowed'')
      else case token of
        None \<Rightarrow> Inl (AuthenticationError ''CSRF validation failed'')
      | Some t \<Rightarrow> ebind (compare_digest t (sp_csrf_token p)) (\<lambda>same.
          if same then Inr () else Inl (AuthenticationError ''CSRF validation failed'')))"

end
