(* ===== verification/Security_Frame.thy ===== *)
theory Security_Frame
  imports Auth
begin

text \<open>
  What every operation of the security and authentication services preserves, proved once: a locale
  states the closure of a predicate under the repository's functions, and inside it every service
  operation is shown to preserve the predicate. The invariants are interpretations of the locale.
\<close>

section \<open>Operations as steps\<close>

datatype sec_op =
    SoBootstrap string string string string
  | SoBeginRegistration session_principal string
  | SoFinishRegistration string pydict
  | SoBeginAuthentication string
  | SoFinishAuthentication string pydict
  | SoLogout session_principal
  | SoConfirmTotp session_principal string string
  | SoVerifyTotp session_principal string
  | SoRename session_principal string string
  | SoTrust session_principal string
  | SoRevokeDevice session_principal string
  | SoCreateApproval session_principal string string string pydict int "string option" "string option"
      "string option" "string option"
  | SoRequire session_principal permission bool
  | SoDecide session_principal string approval_decision
  | SoRevokeGrant session_principal string
  | SoLock session_principal
  | SoUnlock session_principal

fun sec_do :: "auth_config \<Rightarrow> auth_host \<Rightarrow> world \<Rightarrow> sec_op \<Rightarrow> sec \<Rightarrow> sec" where
  "sec_do cf h w (SoBootstrap u x d f) s = snd (snd (bootstrap cf h w u x d (Some f, s)))"
| "sec_do cf h w (SoBeginRegistration p d) s = snd (begin_passkey_registration cf h w p d s)"
| "sec_do cf h w (SoFinishRegistration i c) s = snd (finish_passkey_registration cf h w i c s)"
| "sec_do cf h w (SoBeginAuthentication u) s = snd (begin_passkey_authentication cf h w u s)"
| "sec_do cf h w (SoFinishAuthentication i c) s = snd (finish_passkey_authentication cf h w i c s)"
| "sec_do cf h w (SoLogout p) s = snd (logout w p s)"
| "sec_do cf h w (SoConfirmTotp p x c) s = snd (confirm_totp_enrollment h w p x c s)"
| "sec_do cf h w (SoVerifyTotp p c) s = snd (verify_totp h w p c s)"
| "sec_do cf h w (SoRename p i n) s = snd (rename_device p i n s)"
| "sec_do cf h w (SoTrust p i) s = snd (trust_device w p i s)"
| "sec_do cf h w (SoRevokeDevice p i) s = snd (revoke_device w p i s)"
| "sec_do cf h w (SoCreateApproval p pr a r sc e t ru ta ri) s = snd (create_approval w p pr a r sc e t ru ta ri s)"
| "sec_do cf h w (SoRequire p perm mfa) s = snd (security_require w p perm mfa s)"
| "sec_do cf h w (SoDecide p i d) s = snd (decide_approval (ac_aware cf) w p i d s)"
| "sec_do cf h w (SoRevokeGrant p i) s = snd (revoke_grant w p i s)"
| "sec_do cf h w (SoLock p) s = snd (activate_lockdown w p s)"
| "sec_do cf h w (SoUnlock p) s = snd (deactivate_lockdown w p s)"

inductive sec_step :: "auth_config \<Rightarrow> auth_host \<Rightarrow> sec \<Rightarrow> sec \<Rightarrow> bool" for cf h where
  step: "sec_step cf h s (sec_do cf h w x s)"

inductive_cases sec_stepE: "sec_step cf h s s'"

section \<open>Outcomes\<close>

named_theorems frame_intros \<open>a predicate survives the parts of an operation\<close>

definition outP :: "('s \<Rightarrow> bool) \<Rightarrow> exn + 'a \<times> 's \<Rightarrow> bool" where
  "outP P r \<longleftrightarrow> (\<forall>x s. r = Inr (x, s) \<longrightarrow> P s)"

definition outS :: "('s \<Rightarrow> bool) \<Rightarrow> exn + 's \<Rightarrow> bool" where
  "outS P r \<longleftrightarrow> (\<forall>s. r = Inr s \<longrightarrow> P s)"

lemma out_Inl [simp]: "outP P (Inl e)" "outS P (Inl e)"
  by (simp_all add: outP_def outS_def)

lemma out_Inr [simp]: "outP P (Inr (x, s)) = P s" "outS P (Inr s) = P s"
  by (auto simp: outP_def outS_def)

lemma outP_bind: "outP P m \<Longrightarrow> (\<And>x s. P s \<Longrightarrow> outP P (f (x, s))) \<Longrightarrow> outP P (ebind m f)"
  by (cases m) auto

lemma outSP_bind: "outS P m \<Longrightarrow> (\<And>s. P s \<Longrightarrow> outP P (f s)) \<Longrightarrow> outP P (ebind m f)"
  by (cases m) auto

lemma outP_pure: "(\<And>x. outP P (f x)) \<Longrightarrow> outP P (ebind m f)"
  by (cases m) auto

lemma outPS_bind: "outP P m \<Longrightarrow> (\<And>x s. P s \<Longrightarrow> outS P (f (x, s))) \<Longrightarrow> outS P (ebind m f)"
  by (cases m) auto

lemma sec_transact_out: "P s \<Longrightarrow> outP P (f s) \<Longrightarrow> P (snd (sec_transact f s))"
  by (auto simp: sec_transact_def split: sum.split)

lemma sec_deny_out: "P s \<Longrightarrow> outS P (f s) \<Longrightarrow> P (snd (sec_deny e f s))"
  by (auto simp: sec_deny_def split: sum.split)

lemma sec_query_snd [simp]: "snd (sec_query f s) = s"
  by (simp add: sec_query_def)

lemma op_bind_keeps: "P (snd (p s)) \<Longrightarrow> (\<And>x s. P s \<Longrightarrow> P (snd (f x s))) \<Longrightarrow> P (snd (op_bind p f s))"
  by (simp add: op_bind_snd split: sum.split)

section \<open>The frame of the repository\<close>

locale table_frame =
  fixes P :: "sec \<Rightarrow> bool"
  assumes user: "\<And>s a n r w. P s \<Longrightarrow> outP P (create_user w n a r s)"
    and device: "\<And>s a b n t w. P s \<Longrightarrow> outP P (create_device w n a b t s)"
    and device_change: "\<And>s a b c d i. P s \<Longrightarrow> P (update_device i a b c d s)"
    and session: "\<And>s a b c e n st w. P s \<Longrightarrow> outP P (create_session_row w n a b c st e s)"
    and sessions_revoked: "\<And>s i stamp. P s \<Longrightarrow> P (revoke_sessions_for_device i stamp s)"
    and session_change: "\<And>s a b c i. P s \<Longrightarrow> P (update_session i a b c s)"
    and passkey: "\<And>s a b k n w x y. P s \<Longrightarrow> outP P (create_passkey w n a b x y k s)"
    and passkey_change: "\<And>s a i m. P s \<Longrightarrow> P (update_passkey i m a s)"
    and challenge: "\<And>s e k n u v w x. P s \<Longrightarrow> outP P (create_challenge w n k x e u v s)"
    and consumed: "\<And>s i stamp. P s \<Longrightarrow> P (snd (consume_challenge i stamp s))"
    and factor: "\<And>s stamp u v x. P s \<Longrightarrow> outS P (upsert_second_factor stamp u x v s)"
    and approval: "\<And>s ac e n pr rb re ri ru sc t ta w. P s \<Longrightarrow> outP P (create_security_approval w n pr rb ac re sc e t ru ta ri s)"
    and decided: "\<And>s d i stamp status u. P s \<Longrightarrow> outP P (decide_row i d u stamp status s)"
    and audit: "\<And>s ac de me n re se ty w. P s \<Longrightarrow> outS P (create_audit_event w n ty re me ac se de s)"
begin

lemmas table_intros = user device device_change session sessions_revoked session_change passkey passkey_change
  challenge consumed factor approval decided audit

lemma audit_by_out: "P s \<Longrightarrow> outS P (audit_by w n p ty re me s)"
  by (simp add: audit_by_def audit)

lemma session_audit_out: "P s \<Longrightarrow> outS P (session_audit w ty u t d s)"
  by (simp add: session_audit_def audit)

lemma spend_out: "P s \<Longrightarrow> outS P (spend_challenge w c s)"
  using consumed [of s "ch_id c" "w_now w"] by (auto simp: spend_challenge_def split: prod.split)

lemma registration_out: "P s \<Longrightarrow> outP P (registration_challenge_for cf h w u d s)"
  unfolding registration_challenge_for_def by (rule outP_bind, erule challenge) simp

lemma create_session_out: "P s \<Longrightarrow> outP P (create_session cf h w u d st s)"
  unfolding create_session_def
  by (rule outP_bind, erule session) (simp add: Let_def split: option.split)

lemma require_keeps: "P s \<Longrightarrow> P (snd (security_require w p perm mfa s))"
proof -
  assume P: "P s"
  have deny: "P (snd ((sec_deny e (\<lambda>_. audit_by w 0 p ty re me s) :: unit sop) s))" for e :: exn and ty re me
    using P by (rule sec_deny_out) (rule audit_by_out [OF P])
  have "P (snd (case current_state (w_now w) s of (st, s1) \<Rightarrow>
         if ss_lockdown st = LockedDown
         then sec_deny (SecurityAuthorizationError ''Lockdown is active'')
           (\<lambda>_. audit_by w 0 p ''security.policy'' ''denied''
              [(''permission'', PStr (permission_value perm)), (''reason'', PStr ''lockdown'')] s1) s
         else (Inr (), s)))"
    using P deny by (cases "sc_state s") (simp_all add: current_state_def create_state_def Let_def)
  with P show ?thesis by (simp add: security_require_def op_raise_def op_return_def)
qed

lemma required_then: "P s \<Longrightarrow> (\<And>s. P s \<Longrightarrow> P (snd (f s))) \<Longrightarrow> P (snd (op_bind (security_require w p perm mfa) (\<lambda>_. f) s))"
  by (rule op_bind_keeps) (simp_all add: require_keeps)

lemma owned_then: "(\<And>d. outP P (f d)) \<Longrightarrow> outP P (ebind (owned_device p i s) f)"
  by (rule outP_pure)

lemma begin_registration_keeps: "P s \<Longrightarrow> P (snd (begin_passkey_registration cf h w p d s))"
  unfolding begin_passkey_registration_def
  by (rule sec_transact_out) (auto split: option.split intro!: outP_bind registration_out)

lemma finish_registration_keeps: "P s \<Longrightarrow> P (snd (finish_passkey_registration cf h w i c s))"
  unfolding finish_passkey_registration_def
  by (rule sec_transact_out, assumption, rule outP_pure)
    (auto split: option.split prod.split intro!: outSP_bind [OF spend_out] outP_pure [of _ _ "required_user _ _"]
      outP_bind [OF device] outP_bind [OF passkey] outP_bind [OF create_session_out] outSP_bind [OF session_audit_out])

lemma begin_authentication_keeps: "P s \<Longrightarrow> P (snd (begin_passkey_authentication cf h w u s))"
  unfolding begin_passkey_authentication_def Let_def
  by (rule sec_transact_out) (auto split: option.split intro!: outP_bind challenge)

lemma finish_authentication_keeps: "P s \<Longrightarrow> P (snd (finish_passkey_authentication cf h w i c s))"
  unfolding finish_passkey_authentication_def
  by (rule sec_transact_out, assumption, rule outP_pure, rule outP_pure)
    (auto split: option.split prod.split intro!: outSP_bind [OF spend_out] outP_bind [OF create_session_out]
      outSP_bind [OF session_audit_out] device_change passkey_change)

lemma logout_keeps: "P s \<Longrightarrow> P (snd (logout w p s))"
  unfolding logout_def
  by (rule sec_transact_out) (auto split: option.split intro!: outSP_bind [OF audit_by_out] session_change)

lemma confirm_keeps: "P s \<Longrightarrow> P (snd (confirm_totp_enrollment h w p x c s))"
  unfolding confirm_totp_enrollment_def
  by (rule sec_transact_out, assumption, rule outP_pure)
    (auto intro!: outSP_bind [OF factor] outSP_bind [OF audit_by_out])

lemma step_up_keeps: "P s \<Longrightarrow> P (snd (step_up h w p s))"
  by (auto simp: step_up_def Let_def session_change split: option.split)

lemma verify_keeps: "P s \<Longrightarrow> P (snd (verify_totp h w p c s))"
  unfolding verify_totp_def
  by (rule op_bind_keeps) (auto intro: step_up_keeps sec_deny_out audit_by_out)

lemma rename_keeps: "P s \<Longrightarrow> P (snd (rename_device p i n s))"
  unfolding rename_device_def by (rule sec_transact_out) (auto intro!: outP_pure device_change)

lemma trust_keeps: "P s \<Longrightarrow> P (snd (trust_device w p i s))"
  unfolding trust_device_def
  by (rule required_then, assumption, rule sec_transact_out)
    (auto intro!: owned_then outSP_bind [OF audit] device_change)

lemma revoke_device_keeps: "P s \<Longrightarrow> P (snd (revoke_device w p i s))"
  unfolding revoke_device_def
  by (rule required_then, assumption, rule sec_transact_out)
    (auto intro!: owned_then outSP_bind [OF audit] device_change sessions_revoked)

lemma create_approval_keeps: "P s \<Longrightarrow> P (snd (create_approval w p pr a r sc e t ru ta ri s))"
  unfolding create_approval_def create_approval_body_def
  by (rule required_then, assumption, rule sec_transact_out)
    (auto intro!: outP_bind [OF approval] outSP_bind [OF audit_by_out])

lemma bootstrap_keeps: "P s \<Longrightarrow> P (snd (snd (bootstrap cf h w u x d (f, s))))"
proof -
  assume P: "P s"
  have "outP P (ebind (create_user w 0 u OwnerRole s) (\<lambda>(u', s).
             ebind (registration_challenge_for cf h w u' d s) (\<lambda>((c, options), s).
             ebind (create_audit_event w 2 ''security.bootstrap'' ''success'' [(''username'', PStr u)]
                (Some (us_id u')) None None s) (\<lambda>s. Inr (begun c options, s)))))"
    using P by (auto intro!: outP_bind user registration_out outSP_bind audit split: prod.split)
  with P show ?thesis
    by (auto simp: bootstrap_def op_bind_def require_bootstrap_secret_def Let_def outP_def split: sum.split prod.split)
qed

lemmas common_keeps = bootstrap_keeps begin_registration_keeps finish_registration_keeps begin_authentication_keeps
  finish_authentication_keeps logout_keeps confirm_keeps verify_keeps rename_keeps trust_keeps revoke_device_keeps
  create_approval_keeps require_keeps

end

locale grant_frame = table_frame +
  assumes grant: "\<And>s a b c de e n ru so t ta w. P s \<Longrightarrow> outP P (create_grant w n a b c e t ru ta de so s)"
    and grant_revoked: "\<And>s i stamp. P s \<Longrightarrow> P (revoke_grant_row i stamp s)"
begin

lemma grant_for_out: "P s \<Longrightarrow> outP P (grant_for w p r d s)"
  by (auto simp: grant_for_def intro!: outP_bind grant)

lemma decide_body_keeps: "P s \<Longrightarrow> P (snd (decide_approval_body aware w p i d s))"
proof -
  assume P: "P s"
  show ?thesis
  proof (cases "get_approval i s")
    case None
    with P show ?thesis by (simp add: decide_approval_body_def)
  next
    case (Some r)
    consider e where "stored_le aware (sa_expires_at r) (w_now w) = Inl e"
      | "stored_le aware (sa_expires_at r) (w_now w) = Inr True"
      | "stored_le aware (sa_expires_at r) (w_now w) = Inr False"
      by (metis (full_types) sum.exhaust)
    then show ?thesis
    proof cases
      case 1
      with P Some show ?thesis by (simp add: decide_approval_body_def)
    next
      case 2
      with Some show ?thesis
        by (simp add: decide_approval_body_def)
          (rule sec_deny_out [where P = P, OF P], rule outPS_bind [OF decided [OF P]], simp)
    next
      case 3
      with Some show ?thesis
        by (simp add: decide_approval_body_def Let_def, intro conjI impI)
          (rule sec_transact_out [where P = P, OF P], rule outP_bind [OF decided [OF P]],
            auto intro!: outP_bind [OF grant_for_out] outSP_bind [OF audit_by_out])+
    qed
  qed
qed

lemma decide_keeps: "P s \<Longrightarrow> P (snd (decide_approval aware w p i d s))"
  unfolding decide_approval_def by (rule required_then) (auto intro: decide_body_keeps)

lemma revoke_grant_keeps: "P s \<Longrightarrow> P (snd (revoke_grant w p i s))"
  unfolding revoke_grant_def
  by (rule required_then, assumption, rule sec_transact_out)
    (auto split: option.split intro!: outSP_bind [OF audit_by_out] grant_revoked)

lemma fold_revoke_keeps: "P s \<Longrightarrow> P (fold (revoke_active now) gs s)"
  by (induction gs arbitrary: s) (auto simp: revoke_active_def grant_revoked)

end

locale security_frame = grant_frame +
  assumes state_change: "\<And>s l stamp. P s \<Longrightarrow> P (update_state stamp l s)"
    and state_new: "\<And>s stamp. P s \<Longrightarrow> P (snd (create_state stamp s))"
begin

lemma current_state_keeps: "P s \<Longrightarrow> P (snd (current_state now s))"
  by (auto simp: current_state_def state_new split: option.split)

lemma lock_keeps: "P s \<Longrightarrow> P (snd (activate_lockdown w p s))"
  unfolding activate_lockdown_def Let_def
  by (rule required_then, assumption, rule sec_transact_out)
    (auto split: prod.split intro!: outSP_bind [OF audit_by_out] fold_revoke_keeps state_change
      dest: current_state_keeps [where now = "w_now w"])

lemma unlock_keeps: "P s \<Longrightarrow> P (snd (deactivate_lockdown w p s))"
  unfolding deactivate_lockdown_def
  by (rule required_then, assumption, rule sec_transact_out)
    (auto split: prod.split intro!: outSP_bind [OF audit_by_out] state_change
      dest: current_state_keeps [where now = "w_now w"])

lemma sec_do_keeps: "P s \<Longrightarrow> P (sec_do cf h w x s)"
  by (cases x) (simp_all add: common_keeps decide_keeps revoke_grant_keeps lock_keeps unlock_keeps)

lemma steps_keep: "(sec_step cf h)\<^sup>*\<^sup>* s s' \<Longrightarrow> P s \<Longrightarrow> P s'"
  by (induction rule: rtranclp_induct) (auto elim!: sec_stepE intro: sec_do_keeps)

end

end
