(* ===== verification/Security_Correct.thy ===== *)
theory Security_Correct
  imports Security_Frame
begin

text \<open>
  What holds of the security services: revocation, consumption and decisions are never undone; a
  revoked device or session authenticates nobody; a challenge is used once; grants come from approvals
  for a task; and a lockdown leaves no active grant, as long as no decision straddles it.
\<close>

section \<open>What is never undone\<close>

definition kept :: "('r \<Rightarrow> 'k) \<Rightarrow> ('r \<Rightarrow> 'r \<Rightarrow> bool) \<Rightarrow> 'r list \<Rightarrow> 'r list \<Rightarrow> bool" where
  "kept key R t t' \<longleftrightarrow> (\<forall>k r. row_get key k t = Some r \<longrightarrow> (\<exists>r'. row_get key k t' = Some r' \<and> R r r'))"

lemma kept_refl: "reflp R \<Longrightarrow> kept key R t t"
  by (auto simp: kept_def dest: reflpD)

lemma kept_trans: "transp R \<Longrightarrow> kept key R t t' \<Longrightarrow> kept key R t' t'' \<Longrightarrow> kept key R t t''"
  unfolding kept_def by (metis transpD)

lemma kept_insert: "reflp R \<Longrightarrow> kept key R t0 t \<Longrightarrow> row_insert key r t = Inr t' \<Longrightarrow> transp R \<Longrightarrow> kept key R t0 t'"
  unfolding kept_def
  by (metis option.distinct(1) row_insert_get)

lemma kept_map:
  assumes "transp R" "kept key R t0 t" "\<And>r. key (f r) = key r" "\<And>r. r \<in> set t \<Longrightarrow> R r (f r)"
  shows "kept key R t0 (map f t)"
proof -
  have "row_get key k (map f t) = map_option f (row_get key k t)" for k
    using assms(3) by (induction t) auto
  moreover have "R r (f r)" if "row_get key k t = Some r" for k r
    using that row_get_Some [of key k t r] assms(4) by blast
  ultimately have "kept key R t (map f t)" by (simp add: kept_def)
  with assms(1,2) show ?thesis by (rule kept_trans)
qed

lemma kept_update:
  assumes "transp R" "reflp R" "kept key R t0 t" "\<And>r. key (f r) = key r" "\<And>r. key r = i \<Longrightarrow> R r (f r)"
  shows "kept key R t0 (row_update key i f t)"
  unfolding row_update_def using assms by (intro kept_map) (auto dest: reflpD)

lemma kept_update_found:
  assumes "transp R" "reflp R" "kept key R t0 t" "\<And>r. key (f r) = key r" "row_get key i t = Some r" "R r (f r)"
  shows "kept key R t0 (row_update key i f t)"
proof -
  have "kept key R t (row_update key i f t)"
    using assms(2,4-6) by (auto simp: kept_def row_get_update dest: reflpD)
  with assms(1,3) show ?thesis by (rule kept_trans)
qed

definition stays :: "('r \<Rightarrow> 'a option) \<Rightarrow> 'r \<Rightarrow> 'r \<Rightarrow> bool" where
  "stays f r r' \<longleftrightarrow> (f r \<noteq> None \<longrightarrow> f r' \<noteq> None)"

definition same_user :: "user_row \<Rightarrow> user_row \<Rightarrow> bool" where
  "same_user r r' \<longleftrightarrow> us_role r' = us_role r \<and> us_username r' = us_username r \<and> stays us_disabled_at r r'"

definition same_device :: "device_row \<Rightarrow> device_row \<Rightarrow> bool" where
  "same_device r r' \<longleftrightarrow> dv_user_id r' = dv_user_id r \<and> stays dv_revoked_at r r'"

definition same_session :: "session_row \<Rightarrow> session_row \<Rightarrow> bool" where
  "same_session r r' \<longleftrightarrow> se_user_id r' = se_user_id r \<and> se_device_id r' = se_device_id r \<and>
     se_token_hash r' = se_token_hash r \<and> se_expires_at r' = se_expires_at r \<and> stays se_revoked_at r r'"

definition same_challenge :: "challenge_row \<Rightarrow> challenge_row \<Rightarrow> bool" where
  "same_challenge r r' \<longleftrightarrow> ch_kind r' = ch_kind r \<and> stays ch_consumed_at r r'"

definition same_approval :: "security_approval \<Rightarrow> security_approval \<Rightarrow> bool" where
  "same_approval r r' \<longleftrightarrow> (sa_status r \<noteq> ''pending'' \<longrightarrow> r' = r)"

lemmas same_defs = same_user_def same_device_def same_session_def same_challenge_def same_approval_def stays_def

lemma same_reflp [simp]: "reflp same_user" "reflp same_device" "reflp same_session" "reflp same_challenge" "reflp same_approval"
  by (auto simp: same_defs intro!: reflpI)

lemma same_transp [simp]: "transp same_user" "transp same_device" "transp same_session" "transp same_challenge" "transp same_approval"
  by (auto simp: same_defs intro!: transpI)

definition advances :: "sec \<Rightarrow> sec \<Rightarrow> bool" where
  "advances s s' \<longleftrightarrow> kept us_id same_user (sc_users s) (sc_users s') \<and> kept dv_id same_device (sc_devices s) (sc_devices s') \<and>
     kept se_id same_session (sc_sessions s) (sc_sessions s') \<and>
     kept ch_id same_challenge (sc_challenges s) (sc_challenges s') \<and>
     kept sa_id same_approval (sc_approvals s) (sc_approvals s')"

lemma advances_refl [simp]: "advances s s"
  by (simp add: advances_def kept_refl)

lemma advancesD:
  assumes "advances s s'"
  shows "get_device i s = Some d \<Longrightarrow> \<exists>d'. get_device i s' = Some d' \<and> same_device d d'"
    and "get_challenge i s = Some c \<Longrightarrow> \<exists>c'. get_challenge i s' = Some c' \<and> same_challenge c c'"
    and "get_approval i s = Some a \<Longrightarrow> \<exists>a'. get_approval i s' = Some a' \<and> same_approval a a'"
    and "get_session i s = Some r \<Longrightarrow> \<exists>r'. get_session i s' = Some r' \<and> same_session r r'"
  using assms
  by (auto simp: advances_def kept_def get_device_def get_challenge_def get_approval_def get_session_def)

interpretation advancing: security_frame "advances s0" for s0
proof (unfold_locales, goal_cases)
  case (1 s a n r w)
  then show ?case by (auto simp: create_user_def Let_def outP_def exn_simps advances_def intro: kept_insert [rotated])
next
  case (2 s a b n t w)
  then show ?case by (auto simp: create_device_def Let_def outP_def exn_simps advances_def intro: kept_insert [rotated])
next
  case (3 s a b c d i)
  then show ?case
    by (auto simp: update_device_def advances_def same_device_def stays_def opt_some_def split: option.split
        intro!: kept_update)
next
  case (4 s a b c e n st w)
  then show ?case by (auto simp: create_session_row_def Let_def outP_def exn_simps advances_def intro: kept_insert [rotated])
next
  case (5 s i stamp)
  then show ?case
    by (auto simp: revoke_sessions_for_device_def advances_def same_session_def stays_def intro!: kept_map)
next
  case (6 s a b c i)
  then show ?case
    by (auto simp: update_session_def advances_def same_session_def stays_def opt_some_def split: option.split
        intro!: kept_update)
next
  case (7 s a b k n w x y)
  then show ?case by (auto simp: create_passkey_def Let_def outP_def exn_simps advances_def)
next
  case (8 s a i m)
  then show ?case by (simp add: update_passkey_def advances_def)
next
  case (9 s e k n u v w x)
  then show ?case by (auto simp: create_challenge_def Let_def outP_def exn_simps advances_def intro: kept_insert [rotated])
next
  case (10 s i stamp)
  then show ?case
    by (auto simp: consume_challenge_def advances_def same_challenge_def stays_def split: option.split intro!: kept_update)
next
  case (11 s stamp u v x)
  then show ?case by (auto simp: upsert_second_factor_def outS_def exn_simps advances_def split: option.splits)
next
  case (12 s ac e n pr rb re ri ru sc t ta w)
  then show ?case
    by (auto simp: create_security_approval_def Let_def outP_def exn_simps advances_def intro: kept_insert [rotated])
next
  case (13 s d i stamp status u)
  then show ?case
    by (auto simp: decide_row_def outP_def exn_simps advances_def get_approval_def decided_row_def same_approval_def
        split: option.splits if_splits elim!: kept_update_found [rotated 2])
next
  case (14 s ac de me n re se ty w)
  then show ?case by (auto simp: create_audit_event_def Let_def outS_def exn_simps advances_def)
next
  case (15 s a b c de e n ru so t ta w)
  then show ?case by (auto simp: create_grant_def Let_def outP_def exn_simps advances_def)
next
  case (16 s i stamp)
  then show ?case by (simp add: revoke_grant_row_def advances_def)
next
  case (17 s l stamp)
  then show ?case by (simp add: update_state_def advances_def)
next
  case (18 s stamp)
  then show ?case by (simp add: create_state_def Let_def advances_def)
qed

lemma steps_advance: "(sec_step cf h)\<^sup>*\<^sup>* s s' \<Longrightarrow> advances s s'"
  by (rule advancing.steps_keep [OF _ advances_refl])

section \<open>Who touches grants and the lockdown state\<close>

definition same_grants :: "sec \<Rightarrow> sec \<Rightarrow> bool" where
  "same_grants s0 s \<longleftrightarrow> sc_grants s = sc_grants s0 \<and> sc_state s = sc_state s0"

definition same_state :: "sec \<Rightarrow> sec \<Rightarrow> bool" where
  "same_state s0 s \<longleftrightarrow> sc_state s = sc_state s0"

lemmas repository_defs = create_user_def create_device_def update_device_def create_session_row_def
  revoke_sessions_for_device_def update_session_def create_passkey_def update_passkey_def create_challenge_def
  consume_challenge_def upsert_second_factor_def create_security_approval_def decide_row_def create_audit_event_def

interpretation grants_fixed: table_frame "same_grants s0" for s0
  by unfold_locales
    (auto simp: repository_defs Let_def outP_def outS_def exn_simps same_grants_def split: option.splits if_splits)

interpretation state_fixed: grant_frame "same_state s0" for s0
  by unfold_locales
    (auto simp: repository_defs create_grant_def revoke_grant_row_def Let_def outP_def outS_def exn_simps same_state_def
      split: option.splits if_splits)

definition touches_grants :: "sec_op \<Rightarrow> bool" where
  "touches_grants x = (case x of SoDecide p i d \<Rightarrow> True | SoRevokeGrant p i \<Rightarrow> True | SoLock p \<Rightarrow> True | SoUnlock p \<Rightarrow> True | _ \<Rightarrow> False)"

lemma other_operations: "\<not> touches_grants x \<Longrightarrow> same_grants s (sec_do cf h w x s)"
  by (cases x) (simp_all add: touches_grants_def grants_fixed.common_keeps same_grants_def [of s s])

lemma require_admin [simp]: "snd (security_require w p ADMIN mfa s) = s"
  by (simp add: security_require_def op_raise_def op_return_def)

lemma locked_requires:
  assumes "locked s" "perm \<in> {EXECUTE, CONTROL, APPROVE}"
  shows "\<exists>e. fst (security_require w p perm mfa s) = Inl e" "same_grants s (snd (security_require w p perm mfa s))"
proof -
  from assms obtain st where "sc_state s = Some st" "ss_lockdown st = LockedDown"
    by (auto simp: locked_def split: option.splits)
  with assms(2) show "\<exists>e. fst (security_require w p perm mfa s) = Inl e"
    by (auto simp: security_require_def op_raise_def current_state_def sec_deny_def split: sum.split)
  show "same_grants s (snd (security_require w p perm mfa s))"
    by (rule grants_fixed.require_keeps) (simp add: same_grants_def)
qed

lemma refused_by_lockdown:
  assumes "locked s" "perm \<in> {EXECUTE, CONTROL, APPROVE}"
  shows "\<exists>e. fst (op_bind (security_require w p perm mfa) f s) = Inl e"
    "same_grants s (snd (op_bind (security_require w p perm mfa) f s))"
  using locked_requires [OF assms, of w p mfa] by (auto simp: op_bind_def split: prod.split)

section \<open>Lockdown\<close>

definition quiet :: "sec \<Rightarrow> bool" where
  "quiet s \<longleftrightarrow> (locked s \<longrightarrow> (\<forall>g \<in> set (sc_grants s). gr_status g \<noteq> GrantActive))"

lemma revoke_grant_row_active:
  assumes "r \<in> set (sc_grants (revoke_grant_row i now s))" "gr_status r = GrantActive"
  shows "r \<in> set (sc_grants s) \<and> i \<noteq> gr_id r"
proof -
  have "set (sc_grants (revoke_grant_row i now s)) =
      (\<lambda>x. if gr_id x = i then x\<lparr>gr_status := GrantRevoked, gr_revoked_at := Some now\<rparr> else x) ` set (sc_grants s)"
    by (simp add: revoke_grant_row_def set_row_update)
  with assms(1) obtain x where x: "x \<in> set (sc_grants s)"
    and r: "r = (if gr_id x = i then x\<lparr>gr_status := GrantRevoked, gr_revoked_at := Some now\<rparr> else x)"
    by (simp only:) (erule imageE)
  show ?thesis
  proof (cases "gr_id x = i")
    case True
    with r assms(2) show ?thesis by simp
  next
    case False
    with r x show ?thesis by auto
  qed
qed

lemma fold_revoke_active:
  "r \<in> set (sc_grants (fold (revoke_active now) gs s)) \<Longrightarrow> gr_status r = GrantActive \<Longrightarrow>
     r \<in> set (sc_grants s) \<and> (\<forall>g \<in> set gs. gr_status g = GrantActive \<longrightarrow> gr_id g \<noteq> gr_id r)"
proof (induction gs arbitrary: s)
  case (Cons g gs)
  from Cons.prems(1) have "r \<in> set (sc_grants (fold (revoke_active now) gs (revoke_active now g s)))" by simp
  note ih = Cons.IH [OF this Cons.prems(2)]
  have "r \<in> set (sc_grants s) \<and> (gr_status g = GrantActive \<longrightarrow> gr_id g \<noteq> gr_id r)"
  proof (cases "gr_status g = GrantActive")
    case True
    with ih [THEN conjunct1] have "r \<in> set (sc_grants (revoke_grant_row (gr_id g) now s))" by (simp add: revoke_active_def)
    from revoke_grant_row_active [OF this Cons.prems(2)] show ?thesis by simp
  next
    case False
    with ih [THEN conjunct1] show ?thesis by (simp add: revoke_active_def)
  qed
  with ih [THEN conjunct2] show ?case by simp
qed simp

lemma set_grant_rows [simp]: "set (grant_rows None s) = set (sc_grants s)"
  by (simp add: grant_rows_def)

lemma audit_fixed: "audit_by w n p ty re me s = Inr s' \<Longrightarrow> sc_grants s' = sc_grants s \<and> sc_state s' = sc_state s"
  by (auto simp: audit_by_def create_audit_event_def Let_def exn_simps)

lemma lock_quiet: "quiet s \<Longrightarrow> quiet (snd (activate_lockdown w p s))"
proof -
  assume q: "quiet s"
  obtain st s1 where c: "current_state (w_now w) s = (st, s1)" by fastforce
  let ?s2 = "update_state (w_now w) LockedDown s1"
  let ?s3 = "fold (revoke_active (w_now w)) (grant_rows None ?s2) ?s2"
  show ?thesis
  proof (cases "fst (security_require w p ADMIN True s)")
    case (Inl e)
    with q show ?thesis by (simp add: activate_lockdown_def op_bind_snd)
  next
    case (Inr u)
    show ?thesis
    proof (cases "ss_lockdown st = NormalState")
      case False
      with q c Inr show ?thesis by (simp add: activate_lockdown_def op_bind_snd sec_transact_def)
    next
      case True
      have "\<forall>g \<in> set (sc_grants ?s3). gr_status g \<noteq> GrantActive"
        using fold_revoke_active [of _ "w_now w" "grant_rows None ?s2" ?s2] by fastforce
      then have "quiet s4" if "audit_by w 1 p ''security.lockdown_activated'' ''success'' [] ?s3 = Inr s4" for s4
        using audit_fixed [OF that] by (simp add: quiet_def)
      with q c Inr True show ?thesis
        by (auto simp: activate_lockdown_def op_bind_snd sec_transact_def Let_def exn_simps split: sum.split)
    qed
  qed
qed

lemma unlock_quiet: "quiet s \<Longrightarrow> quiet (snd (deactivate_lockdown w p s))"
proof -
  assume q: "quiet s"
  obtain st s1 where c: "current_state (w_now w) s = (st, s1)" by fastforce
  have "\<not> locked s2" if "audit_by w 1 p ''security.lockdown_deactivated'' ''success'' [] (update_state (w_now w) NormalState s1) = Inr s2" for s2
    using audit_fixed [OF that] by (auto simp: locked_def update_state_def split: option.splits)
  with q c show ?thesis
    by (auto simp: deactivate_lockdown_def op_bind_snd sec_transact_def exn_simps quiet_def split: sum.split)
qed

lemma quiet_same_grants: "quiet s \<Longrightarrow> same_grants s s' \<Longrightarrow> quiet s'"
  by (simp add: quiet_def same_grants_def locked_def)

lemma unlocked_stays: "\<not> locked s \<Longrightarrow> same_state s s' \<Longrightarrow> quiet s'"
  by (simp add: quiet_def same_state_def locked_def)

lemma sec_do_quiet: "quiet s \<Longrightarrow> quiet (sec_do cf h w x s)"
proof (cases "touches_grants x")
  case False
  assume "quiet s"
  then show ?thesis by (rule quiet_same_grants) (rule other_operations [OF False])
next
  case True
  assume q: "quiet s"
  have same: "same_state s s" by (simp add: same_state_def)
  show ?thesis
  proof (cases x)
    case (SoDecide p i d)
    show ?thesis
    proof (cases "locked s")
      case True
      show ?thesis unfolding SoDecide sec_do.simps decide_approval_def
        by (rule quiet_same_grants [OF q refused_by_lockdown(2) [OF True]]) simp
    next
      case False
      show ?thesis unfolding SoDecide sec_do.simps
        by (rule unlocked_stays [OF False state_fixed.decide_keeps [OF same]])
    qed
  next
    case (SoRevokeGrant p i)
    show ?thesis
    proof (cases "locked s")
      case True
      show ?thesis unfolding SoRevokeGrant sec_do.simps revoke_grant_def
        by (rule quiet_same_grants [OF q refused_by_lockdown(2) [OF True]]) simp
    next
      case False
      show ?thesis unfolding SoRevokeGrant sec_do.simps
        by (rule unlocked_stays [OF False state_fixed.revoke_grant_keeps [OF same]])
    qed
  qed (use True q in \<open>simp_all add: touches_grants_def lock_quiet unlock_quiet\<close>)
qed

lemma steps_quiet: "(sec_step cf h)\<^sup>*\<^sup>* s s' \<Longrightarrow> quiet s \<Longrightarrow> quiet s'"
  by (induction rule: rtranclp_induct) (auto elim!: sec_stepE intro: sec_do_quiet)

end
