(* ===== verification/Security_Props.thy ===== *)
theory Security_Props
  imports Security_Correct
begin

text \<open>
  The properties of the security and authentication services, with a small history that exercises
  them: an owner is created, registers a passkey and is signed in.
\<close>

section \<open>Grants and their approvals\<close>

definition backed :: "sec \<Rightarrow> grant_row \<Rightarrow> bool" where
  "backed s g \<longleftrightarrow> (\<exists>a r. gr_source_approval g = Some a \<and> get_approval a s = Some r \<and>
     sa_status r = ''approved'' \<and> sa_decision r = Some AllowForTask \<and> sa_task_ref r \<noteq> None \<and>
     gr_task_ref g = sa_task_ref r \<and> gr_action g = sa_action r \<and> gr_target g = sa_target r \<and>
     gr_subject g = sa_requested_by r \<and> gr_expires_at g = sa_expires_at r \<and> sa_decided_by r = Some (gr_issuer g))"

lemma backed_advances: "backed s g \<Longrightarrow> advances s s' \<Longrightarrow> backed s' g"
  unfolding backed_def using advancesD(3) by (fastforce simp: same_approval_def)

lemma backed_status: "backed s g \<Longrightarrow> backed s (g\<lparr>gr_status := st, gr_revoked_at := t\<rparr>)"
  by (simp add: backed_def)

lemma all_backed_kept:
  assumes "\<forall>g \<in> set (sc_grants s). backed s g" "advances s s'" "sc_grants s' = sc_grants s"
  shows "\<forall>g \<in> set (sc_grants s'). backed s' g"
  using assms backed_advances by metis

lemma backed_revoke:
  assumes "\<forall>g \<in> set (sc_grants s). backed s g"
  shows "\<forall>g \<in> set (sc_grants (revoke_grant_row i now s)). backed s g"
  using assms backed_status by (auto simp: revoke_grant_row_def set_row_update)

lemma backed_fold_revoke:
  "\<forall>g \<in> set (sc_grants s). backed s0 g \<Longrightarrow> \<forall>g \<in> set (sc_grants (fold (revoke_active now) gs s)). backed s0 g"
proof (induction gs arbitrary: s)
  case (Cons g gs)
  have "\<forall>x \<in> set (sc_grants (revoke_active now g s)). backed s0 x"
    using Cons.prems backed_status by (auto simp: revoke_active_def revoke_grant_row_def set_row_update)
  from Cons.IH [OF this] show ?case by simp
qed simp

lemma decide_row_True:
  assumes "decide_row i d u now st s = Inr (True, s')"
  shows "\<exists>r. get_approval i s = Some r \<and> sa_status r = ''pending'' \<and>
     get_approval i s' = Some (decided_row d u now st r) \<and> sc_grants s' = sc_grants s"
  using assms
  by (auto simp: decide_row_def get_approval_def exn_simps row_get_update decided_row_def split: option.splits if_splits)

lemma decide_row_grants: "decide_row i d u now st s = Inr (b, s') \<Longrightarrow> sc_grants s' = sc_grants s"
  by (auto simp: decide_row_def exn_simps split: option.splits if_splits)

lemma create_grant_Inr:
  assumes "create_grant w n a b c e t ru ta de so s = Inr (g, s')"
  shows "sc_grants s' = sc_grants s @ [g] \<and> sc_approvals s' = sc_approvals s \<and> gr_issuer g = a \<and> gr_subject g = b \<and>
     gr_action g = c \<and> gr_expires_at g = e \<and> gr_target g = t \<and> gr_task_ref g = ta \<and> gr_source_approval g = so"
  using assms by (auto simp: create_grant_def Let_def exn_simps row_insert_Inr_iff)

lemma audit_tables: "audit_by w n p ty re me s = Inr s' \<Longrightarrow> sc_grants s' = sc_grants s \<and> sc_approvals s' = sc_approvals s"
  by (auto simp: audit_by_def create_audit_event_def Let_def exn_simps)

lemma get_approval_id: "get_approval i s = Some r \<Longrightarrow> sa_id r = i"
  using row_get_Some [of sa_id i "sc_approvals s" r] by (simp add: get_approval_def)

lemma decide_body_grants:
  "sc_grants (snd (decide_approval_body aware w p i d s)) = sc_grants s \<or>
   (\<exists>g. sc_grants (snd (decide_approval_body aware w p i d s)) = sc_grants s @ [g] \<and>
        backed (snd (decide_approval_body aware w p i d s)) g)"
proof (cases "fst (decide_approval_body aware w p i d s)")
  case (Inl e)
  then show ?thesis
    by (auto simp: decide_approval_body_def sec_deny_def sec_transact_def exn_simps dest: decide_row_grants
        split: option.splits sum.splits bool.splits)
next
  case (Inr res)
  then obtain s' where run: "decide_approval_body aware w p i d s = (Inr res, s')"
    by (cases "decide_approval_body aware w p i d s") auto
  let ?st = "if d = RejectDecision then ''rejected'' else ''approved''"
  from run obtain r s1 g s2 me where r: "get_approval i s = Some r"
    and dec: "decide_row (sa_id r) d (sp_user_id p) (w_now w) ?st s = Inr (True, s1)"
    and gr: "grant_for w p r d s1 = Inr (g, s2)"
    and au: "audit_by w 1 p ''security.approval_decided'' ?st me s2 = Inr s'"
    by (auto simp: decide_approval_body_def sec_deny_def sec_transact_def exn_simps Let_def
        split: option.splits sum.splits bool.splits if_splits)
  have id: "sa_id r = i" using get_approval_id [OF r] .
  from decide_row_True [OF dec] r id have s1: "get_approval i s1 = Some (decided_row d (sp_user_id p) (w_now w) ?st r)"
    "sc_grants s1 = sc_grants s" by auto
  from au audit_tables have s': "sc_grants s' = sc_grants s2" "sc_approvals s' = sc_approvals s2" by blast+
  show ?thesis
  proof (cases "d = AllowForTask")
    case False
    with gr s' s1 run show ?thesis by (simp add: grant_for_def)
  next
    case True
    with gr obtain g' where task: "sa_task_ref r \<noteq> None" and
      cg: "create_grant w 2 (sp_user_id p) (sa_requested_by r) (sa_action r) (sa_expires_at r) (sa_target r)
             (sa_run_id r) (sa_task_ref r) None (Some (sa_id r)) s1 = Inr (g', s2)"
      by (auto simp: grant_for_def exn_simps split: if_splits)
    note c = create_grant_Inr [OF cg]
    have "get_approval i s' = Some (decided_row d (sp_user_id p) (w_now w) ?st r)"
      using s1(1) s'(2) c by (simp add: get_approval_def)
    with c task True id have "backed s' g'"
      by (auto simp: backed_def decided_row_def)
    with c s' s1 run show ?thesis by auto
  qed
qed

lemma advances_do: "advances s (sec_do cf h w x s)"
  by (rule advancing.sec_do_keeps) simp

lemma backed_do:
  assumes "\<forall>g \<in> set (sc_grants s). backed s g"
  shows "\<forall>g \<in> set (sc_grants (sec_do cf h w x s)). backed (sec_do cf h w x s) g"
proof (cases "touches_grants x")
  case False
  have "sc_grants (sec_do cf h w x s) = sc_grants s"
    using other_operations [OF False, of s cf h w] by (simp add: same_grants_def)
  with assms advances_do show ?thesis by (rule all_backed_kept)
next
  case True
  define s' where "s' = sec_do cf h w x s"
  have adv: "advances s s'" unfolding s'_def by (rule advances_do)
  have sub: "\<forall>g \<in> set (sc_grants s'). backed s g \<or> backed s' g"
  proof (cases x)
    case (SoDecide p i d)
    let ?q = "security_require w p APPROVE False s"
    have same: "sc_grants (snd ?q) = sc_grants s"
      using grants_fixed.require_keeps [of s s w p APPROVE False] by (simp add: same_grants_def)
    show ?thesis
    proof (cases "fst ?q")
      case (Inl e)
      with SoDecide same assms show ?thesis by (simp add: s'_def decide_approval_def op_bind_snd)
    next
      case (Inr u)
      then have "s' = snd (decide_approval_body (ac_aware cf) w p i d (snd ?q))"
        by (simp add: s'_def SoDecide decide_approval_def op_bind_snd)
      with decide_body_grants [of "ac_aware cf" w p i d "snd ?q"] same assms show ?thesis by auto
    qed
  next
    case (SoRevokeGrant p i)
    let ?q = "security_require w p APPROVE False s"
    have same: "sc_grants (snd ?q) = sc_grants s"
      using grants_fixed.require_keeps [of s s w p APPROVE False] by (simp add: same_grants_def)
    have "sc_grants s' = sc_grants s \<or> (\<exists>j now. sc_grants s' = sc_grants (revoke_grant_row j now (snd ?q)))"
      using same by (auto simp: s'_def SoRevokeGrant revoke_grant_def op_bind_snd sec_transact_def exn_simps
          dest: audit_tables split: sum.split option.split)
    moreover have "sc_grants (revoke_grant_row j now (snd ?q)) = sc_grants (revoke_grant_row j now s)" for j now
      using same by (simp add: revoke_grant_row_def)
    ultimately show ?thesis using assms backed_revoke [OF assms] by auto
  next
    case (SoLock p)
    have "sc_grants s' = sc_grants s \<or>
        (\<exists>now gs s1. sc_grants s1 = sc_grants s \<and> sc_grants s' = sc_grants (fold (revoke_active now) gs s1))"
    proof -
      obtain st s1 where c: "current_state (w_now w) s = (st, s1)" by fastforce
      then have "sc_grants (update_state (w_now w) LockedDown s1) = sc_grants s"
        by (auto simp: current_state_def create_state_def update_state_def Let_def split: option.splits)
      with c show ?thesis
        by (auto simp: s'_def SoLock activate_lockdown_def op_bind_snd sec_transact_def Let_def exn_simps
            dest: audit_tables split: sum.split)
    qed
    with assms backed_fold_revoke show ?thesis by metis
  next
    case (SoUnlock p)
    have "sc_grants s' = sc_grants s"
    proof -
      obtain st s1 where c: "current_state (w_now w) s = (st, s1)" by fastforce
      then have "sc_grants (update_state (w_now w) NormalState s1) = sc_grants s"
        by (auto simp: current_state_def create_state_def update_state_def Let_def split: option.splits)
      with c show ?thesis
        by (auto simp: s'_def SoUnlock deactivate_lockdown_def op_bind_snd sec_transact_def exn_simps
            dest: audit_tables split: sum.split)
    qed
    with assms show ?thesis by simp
  qed (use True in \<open>simp_all add: touches_grants_def\<close>)
  with adv backed_advances show ?thesis unfolding s'_def by blast
qed

lemma backed_steps: "(sec_step cf h)\<^sup>*\<^sup>* empty_sec s \<Longrightarrow> \<forall>g \<in> set (sc_grants s). backed s g"
  by (induction rule: rtranclp_induct) (auto elim!: sec_stepE simp: empty_sec_def intro: backed_do [rule_format])

section \<open>Sessions and devices\<close>

lemma get_device_id: "get_device i s = Some d \<Longrightarrow> dv_id d = i"
  using row_get_Some [of dv_id i "sc_devices s" d] by (simp add: get_device_def)

lemma get_session_id: "get_session i s = Some r \<Longrightarrow> se_id r = i"
  using row_get_Some [of se_id i "sc_sessions s" r] by (simp add: get_session_def)

lemma get_user_id: "get_user i s = Some u \<Longrightarrow> us_id u = i"
  using row_get_Some [of us_id i "sc_users s" u] by (simp add: get_user_def)

definition live_session :: "auth_host \<Rightarrow> time \<Rightarrow> string \<Rightarrow> sec \<Rightarrow> session_principal \<Rightarrow> bool" where
  "live_session h now token s q \<longleftrightarrow> (\<exists>r u d. r \<in> set (sc_sessions s) \<and> se_token_hash r = ah_sha256 h token \<and>
     se_revoked_at r = None \<and> now < se_expires_at r \<and> se_id r = sp_session_id q \<and>
     get_user (sp_user_id q) s = Some u \<and> us_disabled_at u = None \<and> se_user_id r = sp_user_id q \<and>
     get_device (sp_device_id q) s = Some d \<and> dv_revoked_at d = None \<and> se_device_id r = sp_device_id q \<and>
     sp_permissions q = permissions_for_role (us_role u) \<and>
     (sp_strength q = PasskeyTotp \<longrightarrow> se_step_up_at r \<noteq> None \<or> se_strength r = PasskeyTotp))"

lemma principal_live:
  assumes "fst (principal_from_session_token cf h w token s) = Inr q"
  shows "\<exists>t. token = Some t \<and> t \<noteq> [] \<and> live_session h (w_now w) t s q"
proof -
  from assms obtain t r u d where t: "token = Some t" "t \<noteq> []"
    and r: "get_session_by_token_hash (ah_sha256 h t) s = Some r" "se_revoked_at r = None"
    and e: "stored_le (ac_aware cf) (se_expires_at r) (w_now w) = Inr False"
    and lp: "live_pair (se_user_id r) (se_device_id r) s = Some (u, d)"
    and q: "q = auth_principal h u (se_id r) (dv_id d) (dv_trust d) (if se_step_up_at r \<noteq> None then PasskeyTotp else se_strength r)"
    by (auto simp: principal_from_session_token_def sec_query_def Let_def exn_simps split: option.splits if_splits)
  from lp have u: "get_user (se_user_id r) s = Some u" "us_disabled_at u = None"
    and d: "get_device (se_device_id r) s = Some d" "dv_revoked_at d = None"
    by (auto simp: live_pair_def split: option.splits if_splits)
  from r(1) have "r \<in> set (sc_sessions s)" "se_token_hash r = ah_sha256 h t"
    by (auto simp: get_session_by_token_hash_def find_Some_iff)
  moreover from e have "w_now w < se_expires_at r" by (auto simp: stored_le_def split: if_splits)
  ultimately show ?thesis
    using t r u d get_user_id [OF u(1)] get_device_id [OF d(1)]
    by (auto simp: live_session_def q auth_principal_def)
qed

lemma revoke_device_revoked:
  assumes "fst (revoke_device w p i s) = Inr r"
  shows "\<exists>d. get_device i (snd (revoke_device w p i s)) = Some d \<and> dv_revoked_at d \<noteq> None"
proof -
  from assms obtain u where q: "fst (security_require w p ADMIN False s) = Inr u"
    by (cases "security_require w p ADMIN False s") (auto simp: revoke_device_def op_bind_def split: sum.splits)
  have run: "revoke_device w p i s = sec_transact (\<lambda>s. ebind (owned_device p i s) (\<lambda>d.
     if dv_revoked_at d \<noteq> None then Inr (d, s)
     else ebind (create_audit_event w 1 ''security.device_revoked'' ''success'' [(''device_id'', PStr (dv_id d))]
            (Some (sp_user_id p)) (Some (sp_session_id p)) (Some (dv_id d))
            (revoke_sessions_for_device (dv_id d) (w_now w)
              (update_device (dv_id d) None None (Some (w_now w)) None s))) (\<lambda>s.
          Inr (d\<lparr>dv_revoked_at := Some (w_now w)\<rparr>, s)))) s"
    using q require_admin [of w p False s] unfolding revoke_device_def op_bind_def
    by (cases "security_require w p ADMIN False s") simp
  from assms [unfolded run] obtain d where d: "owned_device p i s = Inr d"
    by (auto simp: sec_transact_def exn_simps split: sum.splits)
  then have get: "get_device i s = Some d" by (auto simp: owned_device_def split: option.splits if_splits)
  note id = get_device_id [OF get]
  show ?thesis
  proof (cases "dv_revoked_at d = None")
    case False
    with get d show ?thesis by (simp add: run sec_transact_def)
  next
    case True
    have upd: "\<exists>d'. get_device i (revoke_sessions_for_device i (w_now w) (update_device i None None (Some (w_now w)) None s)) = Some d' \<and>
        dv_revoked_at d' \<noteq> None"
      using get by (simp add: get_device_def revoke_sessions_for_device_def update_device_def row_get_update opt_some_def)
    have keep: "get_device i s2 = get_device i s1" if "create_audit_event w n ty re me ac se de s1 = Inr s2" for n ty re me ac se de s1 s2
      using that by (auto simp: create_audit_event_def Let_def exn_simps get_device_def)
    from assms [unfolded run] d True id obtain s2 where au: "create_audit_event w 1 ''security.device_revoked'' ''success''
        [(''device_id'', PStr i)] (Some (sp_user_id p)) (Some (sp_session_id p)) (Some i)
        (revoke_sessions_for_device i (w_now w) (update_device i None None (Some (w_now w)) None s)) = Inr s2"
      by (auto simp: sec_transact_def exn_simps split: sum.splits)
    from au d True id have "snd (revoke_device w p i s) = s2" unfolding run by (simp add: sec_transact_def)
    with upd keep [OF au] show ?thesis by simp
  qed
qed

section \<open>Challenges\<close>

lemma get_challenge_id: "get_challenge i s = Some c \<Longrightarrow> ch_id c = i"
  using row_get_Some [of ch_id i "sc_challenges s" c] by (simp add: get_challenge_def)

lemma spend_consumes:
  assumes "spend_challenge w c s = Inr s'" "get_challenge (ch_id c) s = Some c"
  shows "\<exists>c'. get_challenge (ch_id c) s' = Some c' \<and> ch_consumed_at c' \<noteq> None"
  using assms
  by (auto simp: spend_challenge_def consume_challenge_def get_challenge_def row_get_update split: option.splits if_splits)

lemma advances_outP:
  assumes "outP (advances s) r" "r = Inr (x, s')"
  shows "advances s s'"
  using assms by (simp add: outP_def)

definition spent :: "string \<Rightarrow> sec \<Rightarrow> bool" where
  "spent i s \<longleftrightarrow> (\<exists>c. get_challenge i s = Some c \<and> ch_consumed_at c \<noteq> None)"

lemma spent_advances: "spent i s \<Longrightarrow> advances s s' \<Longrightarrow> spent i s'"
  unfolding spent_def using advancesD(2) by (fastforce simp: same_challenge_def stays_def)

lemma spent_refused: "spent i s \<Longrightarrow> \<exists>e. pending_challenge cf w kind i s = Inl e"
  by (auto simp: spent_def pending_challenge_def Let_def)

lemma spent_refuses:
  assumes "spent i s"
  shows "\<exists>e. fst (finish_passkey_registration cf h w i c s) = Inl e"
    "\<exists>e. fst (finish_passkey_authentication cf h w i c s) = Inl e"
  using spent_refused [OF assms, of cf w PasskeyRegistration] spent_refused [OF assms, of cf w PasskeyAuthentication]
  by (auto simp: finish_passkey_registration_def finish_passkey_authentication_def sec_transact_def)

lemma pending_challenge_get: "pending_challenge cf w kind i s = Inr c \<Longrightarrow> get_challenge i s = Some c"
  by (auto simp: pending_challenge_def Let_def exn_simps split: option.splits if_splits)

lemma finish_registration_spends:
  assumes "fst (finish_passkey_registration cf h w i cr s) = Inr t"
  shows "spent i (snd (finish_passkey_registration cf h w i cr s))"
proof -
  from assms obtain c ci pk n s1 where c: "pending_challenge cf w PasskeyRegistration i s = Inr c"
    and v: "ah_registered h cr (ch_challenge c) = Some (ci, pk, n)" and sp: "spend_challenge w c s = Inr s1"
    by (auto simp: finish_passkey_registration_def sec_transact_def exn_simps split: sum.splits option.splits)
  let ?rest = "ebind (required_user (nonempty_or (ch_user_id c) []) s1) (\<lambda>u.
         ebind (create_device w 2 (us_id u) (nonempty_or (ch_device_name c) ''Passkey device'') Limited s1) (\<lambda>(d, s).
         ebind (create_passkey w 3 (us_id u) (dv_id d) ci pk n s) (\<lambda>(_, s).
         ebind (create_session cf h w u (dv_id d) PasskeyStrength s) (\<lambda>(t, s).
         ebind (session_audit w ''security.passkey_registered'' u t (dv_id d) s) (\<lambda>s. Inr (t, s))))))"
  have rest: "outP (advances s1) ?rest"
    by (rule outP_pure) (auto intro!: outP_bind [OF advancing.device] outP_bind [OF advancing.passkey]
        outP_bind [OF advancing.create_session_out] outSP_bind [OF advancing.session_audit_out])
  from assms c v sp obtain s2 where r: "?rest = Inr (t, s2)" and s2: "snd (finish_passkey_registration cf h w i cr s) = s2"
    by (auto simp: finish_passkey_registration_def sec_transact_def split: sum.splits)
  have "spent i s1" using spend_consumes [OF sp] pending_challenge_get [OF c] get_challenge_id [OF pending_challenge_get [OF c]]
    by (simp add: spent_def)
  with advances_outP [OF rest r] s2 show ?thesis by (simp add: spent_advances)
qed

lemma finish_authentication_spends:
  assumes "fst (finish_passkey_authentication cf h w i cr s) = Inr t"
  shows "spent i (snd (finish_passkey_authentication cf h w i cr s))"
proof -
  from assms obtain c k n s1 u d where c: "pending_challenge cf w PasskeyAuthentication i s = Inr c"
    and k: "usable_passkey c cr s = Inr k"
    and v: "ah_authenticated h cr (ch_challenge c) (pk_public_key k) (pk_sign_count k) = Some n"
    and sp: "spend_challenge w c s = Inr s1" and lp: "live_pair (pk_user_id k) (pk_device_id k) s1 = Some (u, d)"
    by (auto simp: finish_passkey_authentication_def sec_transact_def exn_simps split: sum.splits option.splits)
  let ?rest = "ebind (create_session cf h w u (dv_id d) PasskeyStrength
      (update_device (dv_id d) None None None (Some (w_now w)) (update_passkey (pk_id k) (Some n) None s1))) (\<lambda>(t, s).
        ebind (session_audit w ''security.login'' u t (dv_id d) s) (\<lambda>s. Inr (t, s)))"
  have rest: "outP (advances s1) ?rest"
    by (rule outP_bind [OF advancing.create_session_out])
      (auto intro!: outSP_bind [OF advancing.session_audit_out] advancing.device_change advancing.passkey_change)
  from assms c k v sp lp obtain s2 where r: "?rest = Inr (t, s2)" and s2: "snd (finish_passkey_authentication cf h w i cr s) = s2"
    by (auto simp: finish_passkey_authentication_def sec_transact_def split: sum.splits)
  have "spent i s1" using spend_consumes [OF sp] pending_challenge_get [OF c] get_challenge_id [OF pending_challenge_get [OF c]]
    by (simp add: spent_def)
  with advances_outP [OF rest r] s2 show ?thesis by (simp add: spent_advances)
qed

section \<open>A sample history\<close>

lemma uuid_str_eq: "u < 2 ^ 128 \<Longrightarrow> v < 2 ^ 128 \<Longrightarrow> uuid_str u = uuid_str v \<longleftrightarrow> u = v"
  by (metis option.inject uuid_parse_str)

definition sample_auth :: auth_config where
  "sample_auth = \<lparr>ac_aware = True, ac_challenge_ttl = 300, ac_session_ttl = 900, ac_allowed_origins = []\<rparr>"

definition sample_auth_host :: auth_host where
  "sample_auth_host = \<lparr>ah_secret = uuid_str, ah_sha256 = id, ah_csrf = id, ah_encrypt = id, ah_decrypt = Some,
     ah_totp = (\<lambda>_ _. Inr True), ah_totp_uri = (\<lambda>_ _. []), ah_registered = (\<lambda>_ c. Some (c, ''pk'', 0)),
     ah_authenticated = (\<lambda>_ _ _ n. Some (n + 1)), ah_registration_options = (\<lambda>_ _ _ _. PNone),
     ah_authentication_options = (\<lambda>_ _. PNone)\<rparr>"

definition sample_world :: "nat \<Rightarrow> world" where
  "sample_world k = \<lparr>w_now = 5, w_uuid4 = (\<lambda>n. 10 * k + n)\<rparr>"

definition sample_owner :: session_principal where
  "sample_owner = \<lparr>sp_user_id = uuid_str 10, sp_username = ''root'', sp_role = OwnerRole, sp_session_id = uuid_str 24,
     sp_device_id = uuid_str 22, sp_device_trust = Limited, sp_strength = PasskeyTotp,
     sp_permissions = {READ, EXECUTE, CONTROL, APPROVE, ADMIN}, sp_csrf_token = uuid_str 24\<rparr>"

definition sample_op :: "nat \<Rightarrow> sec_op \<Rightarrow> sec \<Rightarrow> sec" where
  "sample_op k x s = sec_do sample_auth sample_auth_host (sample_world k) x s"

definition signed_up :: sec where
  "signed_up = sample_op 2 (SoFinishRegistration (uuid_str 11) [])
     (sample_op 1 (SoBootstrap ''root'' ''x'' ''laptop'' ''x'') empty_sec)"

definition asked :: sec where
  "asked = sample_op 3 (SoCreateApproval sample_owner ''p'' ''act'' ''why'' [] 60 None None (Some ''t'') None) signed_up"

lemma signed_up_eq: "signed_up = \<lparr>
   sc_users = [\<lparr>us_id = uuid_str 10, us_username = ''root'', us_role = OwnerRole, us_disabled_at = None, us_created_at = 5\<rparr>],
   sc_devices = [\<lparr>dv_id = uuid_str 22, dv_user_id = uuid_str 10, dv_display_name = ''laptop'', dv_trust = Limited,
      dv_revoked_at = None, dv_last_authenticated_at = None, dv_created_at = 5\<rparr>],
   sc_sessions = [\<lparr>se_id = uuid_str 24, se_user_id = uuid_str 10, se_device_id = uuid_str 22, se_token_hash = uuid_str 27,
      se_strength = PasskeyStrength, se_expires_at = 900000005, se_last_activity_at = 5, se_step_up_at = None,
      se_revoked_at = None, se_created_at = 5\<rparr>],
   sc_passkeys = [\<lparr>pk_id = uuid_str 23, pk_user_id = uuid_str 10, pk_device_id = uuid_str 22, pk_credential_id = uuid_str 16,
      pk_public_key = ''pk'', pk_sign_count = 0, pk_revoked_at = None, pk_created_at = 5\<rparr>],
   sc_challenges = [\<lparr>ch_id = uuid_str 11, ch_kind = PasskeyRegistration, ch_challenge = uuid_str 16,
      ch_user_id = Some (uuid_str 10), ch_device_name = Some ''laptop'', ch_expires_at = 300000005,
      ch_consumed_at = Some 5, ch_created_at = 5\<rparr>],
   sc_factors = [], sc_approvals = [], sc_grants = [], sc_vault = [],
   sc_audit = [\<lparr>au_id = uuid_str 12, au_event_type = ''security.bootstrap'', au_actor = Some (uuid_str 10), au_session = None,
      au_device = None, au_target = None, au_result = ''success'', au_metadata = [(''username'', PStr ''root'')], au_created_at = 5\<rparr>,
     \<lparr>au_id = uuid_str 25, au_event_type = ''security.passkey_registered'', au_actor = Some (uuid_str 10),
      au_session = Some (uuid_str 24), au_device = Some (uuid_str 22), au_target = None, au_result = ''success'',
      au_metadata = [], au_created_at = 5\<rparr>],
   sc_state = None\<rparr>"
  by (simp add: signed_up_def sample_op_def sample_auth_def sample_auth_host_def sample_world_def empty_sec_def bootstrap_def
      op_bind_def require_bootstrap_secret_def Let_def py_strip_def py_isspace_def compare_digest_def ascii_def list_users_def
      create_user_def row_insert_def row_get_def guard_def registration_challenge_for_def create_challenge_def get_user_def
      seconds_def create_audit_event_def list_passkeys_for_user_def begun_def finish_passkey_registration_def sec_transact_def
      pending_challenge_def get_challenge_def stored_le_def spend_challenge_def consume_challenge_def row_update_def
      required_user_def nonempty_or_def create_device_def create_passkey_def get_device_def create_session_def
      create_session_row_def auth_principal_def session_audit_def get_session_def uuid_str_eq)

lemmas sample_simps = sample_op_def sample_auth_def sample_auth_host_def sample_world_def sample_owner_def
  create_approval_def create_approval_body_def security_require_def current_state_def create_state_def op_bind_def
  sec_transact_def create_security_approval_def row_insert_def row_get_def Let_def guard_def create_audit_event_def
  audit_by_def get_user_def get_session_def get_device_def uuid_str_eq seconds_def decide_approval_def
  decide_approval_body_def get_approval_def stored_le_def decide_row_def row_update_def decided_row_def grant_for_def
  create_grant_def activate_lockdown_def op_return_def update_state_def grant_rows_def revoke_active_def
  revoke_grant_row_def locked_def

lemma asked_approval: "\<exists>r. sc_approvals asked = [r] \<and> sa_id r = uuid_str 32 \<and> sc_state asked = None \<and> sc_grants asked = []"
  by (simp add: asked_def signed_up_eq sample_simps)

definition granted :: sec where
  "granted = sample_op 4 (SoDecide sample_owner (uuid_str 32) AllowForTask) asked"

lemma granted_grant: "\<exists>g. sc_grants granted = [g] \<and> gr_status g = GrantActive"
  by (simp add: granted_def asked_def signed_up_eq sample_simps)

definition closed_down :: sec where
  "closed_down = sample_op 5 (SoLock sample_owner) granted"

lemma closed_down_locked: "locked closed_down \<and> (\<exists>g. sc_grants closed_down = [g])"
  by (simp add: closed_down_def granted_def asked_def signed_up_eq sample_simps)

lemma sample_steps:
  "(sec_step sample_auth sample_auth_host)\<^sup>*\<^sup>* empty_sec signed_up"
  "(sec_step sample_auth sample_auth_host)\<^sup>*\<^sup>* empty_sec asked"
  "(sec_step sample_auth sample_auth_host)\<^sup>*\<^sup>* empty_sec granted"
  "(sec_step sample_auth sample_auth_host)\<^sup>*\<^sup>* empty_sec closed_down"
proof -
  have step: "sec_step sample_auth sample_auth_host s (sample_op k x s)" for k x s
    unfolding sample_op_def by (rule sec_step.step)
  show 1: "(sec_step sample_auth sample_auth_host)\<^sup>*\<^sup>* empty_sec signed_up"
    unfolding signed_up_def by (rule rtranclp.rtrancl_into_rtrancl, rule r_into_rtranclp, rule step, rule step)
  then show 2: "(sec_step sample_auth sample_auth_host)\<^sup>*\<^sup>* empty_sec asked"
    unfolding asked_def by (rule rtranclp.rtrancl_into_rtrancl) (rule step)
  then show 3: "(sec_step sample_auth sample_auth_host)\<^sup>*\<^sup>* empty_sec granted"
    unfolding granted_def by (rule rtranclp.rtrancl_into_rtrancl) (rule step)
  then show "(sec_step sample_auth sample_auth_host)\<^sup>*\<^sup>* empty_sec closed_down"
    unfolding closed_down_def by (rule rtranclp.rtrancl_into_rtrancl) (rule step)
qed

section \<open>Properties\<close>

text \<open>
  C9: in every state that whole operations of the services can reach, a locked-down system has no
  active grant: activating the lockdown revokes them all, and nothing grants while it lasts.
\<close>

theorem lockdown_leaves_no_active_grant:
  assumes "(sec_step cf h)\<^sup>*\<^sup>* empty_sec s" "locked s" "g \<in> set (sc_grants s)"
  shows "gr_status g \<noteq> GrantActive"
  using steps_quiet [OF assms(1)] assms(2,3) by (auto simp: quiet_def empty_sec_def)

theorem lockdown_leaves_no_active_grant_witness:
  "\<exists>g. sc_grants closed_down = [g] \<and> locked closed_down \<and> gr_status g \<noteq> GrantActive"
proof -
  from closed_down_locked obtain g where "locked closed_down" "sc_grants closed_down = [g]" by blast
  with lockdown_leaves_no_active_grant [OF sample_steps(4), of g] show ?thesis by auto
qed

text \<open>
  A decision that passed its permission check before the lockdown and does its work after it still
  creates an active grant under the lockdown, because the check and the work are separate sessions.
\<close>

theorem decision_straddles_lockdown:
  "\<exists>s1 s2 g. security_require (sample_world 4) sample_owner APPROVE False asked = (Inr (), asked) \<and>
     s1 = snd (activate_lockdown (sample_world 4) sample_owner asked) \<and> locked s1 \<and>
     s2 = snd (decide_approval_body True (sample_world 5) sample_owner (uuid_str 32) AllowForTask s1) \<and>
     locked s2 \<and> sc_grants s2 = [g] \<and> gr_status g = GrantActive"
  by (simp add: asked_def signed_up_eq sample_simps)

text \<open>
  A session token is accepted only for a live session: known, not revoked, not expired, of a user
  that is not disabled and a device that is not revoked; the principal carries that user, session and
  device and exactly the permissions of the user's role.
\<close>

theorem accepted_token_is_live_session:
  assumes "fst (principal_from_session_token cf h w token s) = Inr q"
  shows "\<exists>t. token = Some t \<and> t \<noteq> [] \<and> live_session h (w_now w) t s q"
  using assms by (rule principal_live)

lemma uuid_str_not_Nil [simp]: "uuid_str u \<noteq> []"
  by (simp add: uuid_str_def Let_def)

lemma signed_up_token: "\<exists>q. fst (principal_from_session_token sample_auth sample_auth_host (sample_world 6) (Some (uuid_str 27)) signed_up) = Inr q \<and>
    sp_permissions q = {READ, EXECUTE, CONTROL, APPROVE, ADMIN}"
  by (simp add: signed_up_eq principal_from_session_token_def sec_query_def Let_def get_session_by_token_hash_def sample_simps
      live_pair_def auth_principal_def permissions_for_role_def all_permissions_def)

theorem accepted_token_is_live_session_witness:
  "\<exists>q. live_session sample_auth_host 5 (uuid_str 27) signed_up q \<and> sp_permissions q = {READ, EXECUTE, CONTROL, APPROVE, ADMIN}"
proof -
  from signed_up_token obtain q where q: "fst (principal_from_session_token sample_auth sample_auth_host (sample_world 6)
      (Some (uuid_str 27)) signed_up) = Inr q" "sp_permissions q = {READ, EXECUTE, CONTROL, APPROVE, ADMIN}" by blast
  from accepted_token_is_live_session [OF q(1)] q(2) show ?thesis by (auto simp: sample_world_def)
qed

text \<open>
  C10: once a device has been revoked, no session token ever authenticates on it again, whatever
  operations follow.
\<close>

theorem revoked_device_never_authenticates:
  assumes "fst (revoke_device w p d s) = Inr r"
    and "(sec_step cf h)\<^sup>*\<^sup>* (snd (revoke_device w p d s)) s'"
    and "fst (principal_from_session_token cf h w' token s') = Inr q"
  shows "sp_device_id q \<noteq> d"
proof
  assume same: "sp_device_id q = d"
  from revoke_device_revoked [OF assms(1)] obtain x where
    x: "get_device d (snd (revoke_device w p d s)) = Some x" "dv_revoked_at x \<noteq> None" by blast
  from advancesD(1) [OF steps_advance [OF assms(2)] x(1)] x(2) obtain y where
    "get_device d s' = Some y" "dv_revoked_at y \<noteq> None" by (auto simp: same_device_def stays_def)
  with principal_live [OF assms(3)] same show False by (auto simp: live_session_def)
qed

definition second_device :: sec where
  "second_device = sample_op 8 (SoFinishRegistration (uuid_str 71) [])
     (sample_op 7 (SoBeginRegistration sample_owner ''phone'') signed_up)"

lemmas registration_simps = begin_passkey_registration_def registration_challenge_for_def create_challenge_def
  list_passkeys_for_user_def begun_def finish_passkey_registration_def pending_challenge_def get_challenge_def
  spend_challenge_def consume_challenge_def required_user_def nonempty_or_def create_device_def create_passkey_def
  create_session_def create_session_row_def auth_principal_def session_audit_def

lemma second_device_used:
  "\<exists>r. fst (revoke_device (sample_world 9) sample_owner (uuid_str 22) second_device) = Inr r"
  "\<exists>q. fst (principal_from_session_token sample_auth sample_auth_host (sample_world 6) (Some (uuid_str 87))
     (snd (revoke_device (sample_world 9) sample_owner (uuid_str 22) second_device))) = Inr q"
  by (simp_all add: second_device_def signed_up_eq registration_simps sample_simps revoke_device_def owned_device_def
      update_device_def revoke_sessions_for_device_def opt_or_def opt_some_def principal_from_session_token_def sec_query_def
      get_session_by_token_hash_def live_pair_def)

theorem revoked_device_never_authenticates_witness:
  "\<exists>q. fst (principal_from_session_token sample_auth sample_auth_host (sample_world 6) (Some (uuid_str 87))
     (snd (revoke_device (sample_world 9) sample_owner (uuid_str 22) second_device))) = Inr q \<and> sp_device_id q \<noteq> uuid_str 22"
proof -
  from second_device_used obtain r q where r: "fst (revoke_device (sample_world 9) sample_owner (uuid_str 22) second_device) = Inr r"
    and q: "fst (principal_from_session_token sample_auth sample_auth_host (sample_world 6) (Some (uuid_str 87))
     (snd (revoke_device (sample_world 9) sample_owner (uuid_str 22) second_device))) = Inr q" by blast
  from revoked_device_never_authenticates [OF r rtranclp.rtrancl_refl q] q show ?thesis by blast
qed

text \<open>
  C14: a passkey challenge is used at most once: after a registration or an authentication that
  succeeded with it, every later attempt with the same challenge fails, whatever happens in between.
\<close>

theorem challenge_is_used_once:
  assumes "(\<exists>c t. fst (finish_passkey_registration cf h w i c s) = Inr t \<and> s1 = snd (finish_passkey_registration cf h w i c s)) \<or>
      (\<exists>c t. fst (finish_passkey_authentication cf h w i c s) = Inr t \<and> s1 = snd (finish_passkey_authentication cf h w i c s))"
    and "(sec_step cf h)\<^sup>*\<^sup>* s1 s2"
  shows "(\<exists>e. fst (finish_passkey_registration cf h w' i c' s2) = Inl e) \<and>
    (\<exists>e. fst (finish_passkey_authentication cf h w' i c' s2) = Inl e)"
proof -
  from assms(1) have "spent i s1"
    using finish_registration_spends finish_authentication_spends by fastforce
  then have "spent i s2" using steps_advance [OF assms(2)] by (rule spent_advances)
  from spent_refuses [OF this] show ?thesis by blast
qed

definition invited :: sec where
  "invited = sample_op 1 (SoBootstrap ''root'' ''x'' ''laptop'' ''x'') empty_sec"

lemma invited_registers: "\<exists>t. fst (finish_passkey_registration sample_auth sample_auth_host (sample_world 2) (uuid_str 11) [] invited) = Inr t"
  by (simp add: invited_def empty_sec_def bootstrap_def require_bootstrap_secret_def py_strip_def py_isspace_def
      compare_digest_def ascii_def list_users_def create_user_def registration_simps sample_simps)

theorem challenge_is_used_once_witness:
  "\<exists>e. fst (finish_passkey_registration sample_auth sample_auth_host (sample_world 3) (uuid_str 11) []
     (snd (finish_passkey_registration sample_auth sample_auth_host (sample_world 2) (uuid_str 11) [] invited))) = Inl e"
proof -
  let ?s1 = "snd (finish_passkey_registration sample_auth sample_auth_host (sample_world 2) (uuid_str 11) [] invited)"
  from invited_registers have "(\<exists>c t. fst (finish_passkey_registration sample_auth sample_auth_host (sample_world 2) (uuid_str 11) c invited) = Inr t \<and>
      ?s1 = snd (finish_passkey_registration sample_auth sample_auth_host (sample_world 2) (uuid_str 11) c invited)) \<or>
     (\<exists>c t. fst (finish_passkey_authentication sample_auth sample_auth_host (sample_world 2) (uuid_str 11) c invited) = Inr t \<and>
      ?s1 = snd (finish_passkey_authentication sample_auth sample_auth_host (sample_world 2) (uuid_str 11) c invited))"
    by blast
  from challenge_is_used_once [OF this rtranclp.rtrancl_refl] show ?thesis by blast
qed

text \<open>
  C28: every grant in a reachable state was issued by a decision to allow an approval for its task, and
  carries that approval's subject, action, target, task and expiry.
\<close>

theorem grants_come_from_approvals:
  assumes "(sec_step cf h)\<^sup>*\<^sup>* empty_sec s" "g \<in> set (sc_grants s)"
  shows "backed s g"
  using backed_steps [OF assms(1)] assms(2) by blast

theorem grants_come_from_approvals_witness:
  "\<exists>g. sc_grants granted = [g] \<and> gr_status g = GrantActive \<and> backed granted g"
proof -
  from granted_grant obtain g where "sc_grants granted = [g]" "gr_status g = GrantActive" by blast
  with grants_come_from_approvals [OF sample_steps(3), of g] show ?thesis by auto
qed

text \<open>
  With a database driver that returns times without a time zone, as SQLite's does, no passkey
  registration or authentication ever finishes, no session token is ever accepted and no approval is
  ever decided: each comparison with the aware current time raises.
\<close>

theorem naive_times_disable_authentication:
  assumes "\<not> ac_aware cf"
  shows "(\<exists>e. fst (finish_passkey_registration cf h w i c s) = Inl e) \<and>
    (\<exists>e. fst (finish_passkey_authentication cf h w i c s) = Inl e) \<and>
    (\<exists>e. fst (principal_from_session_token cf h w token s) = Inl e) \<and>
    (\<exists>e. fst (decide_approval_body (ac_aware cf) w p a d s) = Inl e)"
  using assms
  by (auto simp: finish_passkey_registration_def finish_passkey_authentication_def principal_from_session_token_def
      decide_approval_body_def sec_transact_def sec_query_def pending_challenge_def stored_le_def Let_def split: option.split)

theorem naive_times_disable_authentication_witness:
  "\<exists>e. fst (principal_from_session_token (sample_auth\<lparr>ac_aware := False\<rparr>) sample_auth_host (sample_world 6)
     (Some (uuid_str 27)) signed_up) = Inl e"
  using naive_times_disable_authentication [of "sample_auth\<lparr>ac_aware := False\<rparr>"] by simp

end
