(* ===== verification/Vault.thy ===== *)
theory Vault
  imports Security
begin

text \<open>
  \<open>services/vault.py\<close>: the master key's file and the stored credentials. Fernet (its key check, key
  generation, encryption and decryption) and HMAC-SHA-256 are parameters; the file is \<open>None\<close> while it
  does not exist.
\<close>

record fernet_host =
  fh_valid :: "bytes \<Rightarrow> bool" \<comment> \<open>\<open>Fernet(key)\<close> does not raise\<close>
  fh_encrypt :: "bytes \<Rightarrow> nat \<Rightarrow> string \<Rightarrow> bytes" \<comment> \<open>key, randomness, plain text\<close>
  fh_decrypt :: "bytes \<Rightarrow> bytes \<Rightarrow> string option"
  fh_hmac :: "bytes \<Rightarrow> string \<Rightarrow> string"

type_synonym key_file = "bytes option"

definition load_or_create :: "fernet_host \<Rightarrow> bytes \<Rightarrow> (key_file, bytes) stateful" where
  \<comment> \<open>\<open>MasterKeyStore._load_or_create\<close>; the argument is the key that \<open>Fernet.generate_key\<close> would return\<close>
  "load_or_create h fresh f =
     (let key = (case f of None \<Rightarrow> fresh | Some k \<Rightarrow> k)
      in (if fh_valid h key then Inr key else Inl (VaultError ''The local security master key is invalid''), Some key))"

record key_store =
  ks_file :: key_file
  ks_cached :: "bytes option" \<comment> \<open>the key of the cached \<open>Fernet\<close>\<close>

definition on_file :: "(key_file, 'a) stateful \<Rightarrow> (key_store, 'a) stateful" where
  "on_file p k = (case p (ks_file k) of (r, f) \<Rightarrow> (r, k\<lparr>ks_file := f\<rparr>))"

definition fernet_key :: "fernet_host \<Rightarrow> bytes \<Rightarrow> (key_store, bytes) stateful" where
  \<comment> \<open>\<open>MasterKeyStore.fernet\<close>\<close>
  "fernet_key h fresh k =
     (case ks_cached k of
        Some key \<Rightarrow> (Inr key, k)
      | None \<Rightarrow> op_bind (on_file (load_or_create h fresh)) (\<lambda>key k. (Inr key, k\<lparr>ks_cached := Some key\<rparr>)) k)"

definition csrf_token :: "fernet_host \<Rightarrow> bytes \<Rightarrow> string \<Rightarrow> (key_store, string) stateful" where
  "csrf_token h fresh session = op_map (\<lambda>key. fh_hmac h key session) (on_file (load_or_create h fresh))"

section \<open>Credentials\<close>

type_synonym vault_state = "key_store \<times> sec"

definition with_key :: "(key_store, 'a) stateful \<Rightarrow> (vault_state, 'a) stateful" where
  "with_key p v = (case p (fst v) of (r, k) \<Rightarrow> (r, (k, snd v)))"

definition with_tables :: "'a sop \<Rightarrow> (vault_state, 'a) stateful" where
  "with_tables p v = (case p (snd v) of (r, s) \<Rightarrow> (r, (fst v, s)))"

definition vault_create :: "fernet_host \<Rightarrow> bytes \<Rightarrow> world \<Rightarrow> string \<Rightarrow> string \<Rightarrow> string \<Rightarrow> string \<Rightarrow> (vault_state, vault_row) stateful" where
  "vault_create h fresh w owner name credential_type secret =
     (if secret = [] then op_raise (VaultError ''Credential value is required'')
      else op_bind (with_key (fernet_key h fresh)) (\<lambda>key.
        with_tables (sec_transact (create_vault_row w 0 name credential_type (fh_encrypt h key (w_uuid4 w 1) secret) 1 owner))))"

definition vault_list_metadata :: "(vault_state, vault_row list) stateful" where
  "vault_list_metadata = with_tables (sec_query (\<lambda>s. Inr (list_vault_rows s)))"

definition live_credential :: "string \<Rightarrow> sec \<Rightarrow> exn + vault_row" where
  "live_credential i s = (case get_vault_row i s of
     None \<Rightarrow> Inl (VaultError ''Credential was not found'')
   | Some r \<Rightarrow> if va_revoked_at r \<noteq> None then Inl (VaultError ''Credential was not found'') else Inr r)"

definition vault_update :: "world \<Rightarrow> string \<Rightarrow> bytes option \<Rightarrow> int option \<Rightarrow> time option \<Rightarrow> vault_row sop" where
  \<comment> \<open>update, commit and return the row\<close>
  "vault_update w i encrypted version revoked = sec_transact (\<lambda>s.
     let s = update_vault_row (w_now w) i encrypted version revoked s in Inr (the (get_vault_row i s), s))"

definition vault_replace :: "fernet_host \<Rightarrow> bytes \<Rightarrow> world \<Rightarrow> string \<Rightarrow> string \<Rightarrow> (vault_state, vault_row) stateful" where
  "vault_replace h fresh w i secret =
     (if secret = [] then op_raise (VaultError ''Credential value is required'')
      else op_bind (with_tables (sec_query (live_credential i))) (\<lambda>r.
        op_bind (with_key (fernet_key h fresh)) (\<lambda>key.
        with_tables (vault_update w (va_id r) (Some (fh_encrypt h key (w_uuid4 w 1) secret)) (Some 1) None))))"

definition vault_revoke :: "world \<Rightarrow> string \<Rightarrow> (vault_state, vault_row) stateful" where
  "vault_revoke w i = op_bind (with_tables (sec_query (live_credential i))) (\<lambda>r.
     with_tables (vault_update w (va_id r) None None (Some (w_now w))))"

definition decrypt_for_broker :: "fernet_host \<Rightarrow> bytes \<Rightarrow> vault_row \<Rightarrow> (vault_state, string) stateful" where
  "decrypt_for_broker h fresh r = op_bind (with_key (fernet_key h fresh)) (\<lambda>key.
     op_lift (case fh_decrypt h key (va_encrypted r) of
       None \<Rightarrow> Inl (VaultError ''Credential cannot be decrypted'') | Some s \<Rightarrow> Inr s))"

section \<open>The key\<close>

definition key_ok :: "fernet_host \<Rightarrow> key_store \<Rightarrow> bool" where
  \<comment> \<open>a cached key is the one in the file\<close>
  "key_ok h k \<longleftrightarrow> (\<forall>key. ks_cached k = Some key \<longrightarrow> ks_file k = Some key \<and> fh_valid h key)"

lemma fernet_key_Inr:
  assumes "fernet_key h fresh k = (Inr key, k')" "key_ok h k"
  shows "ks_file k' = Some key \<and> ks_cached k' = Some key \<and> fh_valid h key"
  using assms
  by (auto simp: fernet_key_def on_file_def load_or_create_def op_bind_def Let_def key_ok_def
      split: option.splits if_splits)

lemma fernet_key_known:
  assumes "ks_file k = Some key" "fh_valid h key" "ks_cached k = None \<or> ks_cached k = Some key"
  shows "fst (fernet_key h fresh k) = Inr key"
  using assms by (auto simp: fernet_key_def on_file_def load_or_create_def op_bind_def split: option.split)

lemma key_ok_kept: "key_ok h k \<Longrightarrow> key_ok h (snd (fernet_key h fresh k))"
  by (auto simp: fernet_key_def on_file_def load_or_create_def op_bind_def Let_def key_ok_def split: option.splits)

lemma live_credential_Inr: "live_credential i s = Inr r \<Longrightarrow> get_vault_row i s = Some r \<and> va_revoked_at r = None \<and> va_id r = i"
  using row_get_Some [of va_id i "sc_vault s"] by (auto simp: live_credential_def get_vault_row_def split: option.splits if_splits)

lemma vault_touch_fields [simp]:
  "va_id (vault_touch now f r) = va_id (f r)" "va_encrypted (vault_touch now f r) = va_encrypted (f r)"
  "va_revoked_at (vault_touch now f r) = va_revoked_at (f r)"
  by (auto simp: vault_touch_def)

lemma vault_update_result:
  assumes "vault_update w i (Some e) (Some 1) None s = (Inr row, s')" "get_vault_row i s = Some r"
  shows "get_vault_row i s' = Some row \<and> va_encrypted row = e \<and> va_revoked_at row = va_revoked_at r"
  using assms
  by (auto simp: vault_update_def sec_transact_def Let_def update_vault_row_def get_vault_row_def row_get_update
      opt_or_def opt_some_def)

lemma with_Inr_iff:
  "with_tables p v = (Inr x, v') \<longleftrightarrow> (\<exists>s'. p (snd v) = (Inr x, s') \<and> v' = (fst v, s'))"
  "with_key q v = (Inr y, v') \<longleftrightarrow> (\<exists>k. q (fst v) = (Inr y, k) \<and> v' = (k, snd v))"
  by (auto simp: with_tables_def with_key_def split: prod.splits)

lemma vault_replace_stages:
  assumes "vault_replace h fresh w i secret v = (Inr row, v')"
  obtains r key k s' where "live_credential i (snd v) = Inr r" "fernet_key h fresh (fst v) = (Inr key, k)"
    "vault_update w (va_id r) (Some (fh_encrypt h key (w_uuid4 w 1) secret)) (Some 1) None (snd v) = (Inr row, s')" "v' = (k, s')"
  using assms
  by (auto simp: vault_replace_def op_raise_def op_bind_Inr_iff with_Inr_iff sec_query_def split: if_splits)

section \<open>Property\<close>

text \<open>
  A credential that was replaced is stored encrypted and not revoked, and decrypts to the new value,
  in the same process and after a restart that finds only the key's file.
\<close>

theorem replaced_credential_decrypts:
  assumes "\<And>key x s. fh_decrypt h key (fh_encrypt h key x s) = Some s"
    and "key_ok h (fst v)" "vault_replace h fresh w i secret v = (Inr row, v')"
  shows "get_vault_row i (snd v') = Some row \<and> va_revoked_at row = None \<and>
    fst (decrypt_for_broker h fresh2 row v') = Inr secret \<and>
    fst (decrypt_for_broker h fresh2 row ((fst v')\<lparr>ks_cached := None\<rparr>, snd v')) = Inr secret"
proof -
  obtain r key k s' where l: "live_credential i (snd v) = Inr r" and f: "fernet_key h fresh (fst v) = (Inr key, k)"
    and u: "vault_update w (va_id r) (Some (fh_encrypt h key (w_uuid4 w 1) secret)) (Some 1) None (snd v) = (Inr row, s')"
    and v': "v' = (k, s')" using assms(3) by (rule vault_replace_stages)
  note live = live_credential_Inr [OF l] and key = fernet_key_Inr [OF f assms(2)]
  have row: "get_vault_row i s' = Some row" "va_encrypted row = fh_encrypt h key (w_uuid4 w 1) secret" "va_revoked_at row = None"
    using vault_update_result [OF u] live by auto
  have "fst (decrypt_for_broker h fresh2 row (k', s)) = Inr secret"
    if "ks_file k' = Some key" "ks_cached k' = None \<or> ks_cached k' = Some key" for k' s
    using fernet_key_known [OF that(1) _ that(2), of h fresh2] key row(2) assms(1)
    by (auto simp: decrypt_for_broker_def op_bind_def with_key_def op_lift_def split: prod.splits sum.splits)
  with key row v' show ?thesis by simp
qed

definition plain_fernet :: fernet_host where
  "plain_fernet = \<lparr>fh_valid = (\<lambda>_. True), fh_encrypt = (\<lambda>_ _ s. s), fh_decrypt = (\<lambda>_ b. Some b), fh_hmac = (\<lambda>_ s. s)\<rparr>"

definition one_credential :: vault_state where
  "one_credential = (\<lparr>ks_file = None, ks_cached = None\<rparr>, empty_sec\<lparr>sc_vault := [\<lparr>va_id = ''c'', va_name = ''n'', va_type = ''t'',
     va_encrypted = ''old'', va_key_version = 1, va_revoked_at = None, va_created_by = ''u'', va_created_at = 0, va_updated_at = 0\<rparr>]\<rparr>)"

theorem replaced_credential_decrypts_witness:
  "\<exists>row v'. vault_replace plain_fernet ''key'' \<lparr>w_now = 1, w_uuid4 = id\<rparr> ''c'' ''new'' one_credential = (Inr row, v') \<and>
     fst (decrypt_for_broker plain_fernet ''other'' row ((fst v')\<lparr>ks_cached := None\<rparr>, snd v')) = Inr ''new''"
proof -
  obtain row v' where r: "vault_replace plain_fernet ''key'' \<lparr>w_now = 1, w_uuid4 = id\<rparr> ''c'' ''new'' one_credential = (Inr row, v')"
    by (simp add: vault_replace_def op_bind_def with_tables_def with_key_def sec_query_def live_credential_def get_vault_row_def
        one_credential_def row_get_def fernet_key_def on_file_def load_or_create_def plain_fernet_def vault_update_def
        sec_transact_def Let_def)
  have "fh_decrypt plain_fernet key (fh_encrypt plain_fernet key x s) = Some s" for key x s by (simp add: plain_fernet_def)
  moreover have "key_ok plain_fernet (fst one_credential)" by (simp add: key_ok_def one_credential_def)
  ultimately show ?thesis using replaced_credential_decrypts [OF _ _ r] r by blast
qed

end
