(* ===== verification/Memory.thy ===== *)
theory Memory
  imports Manager "HOL-Library.Product_Lexorder"
begin

text \<open>
  \<open>services/memory.py\<close>, \<open>repositories/memory.py\<close> and \<open>domain/memory.py\<close>: an agent's memories, read only
  within their project and agent, found by counting the words of a query, and cut to a budget of
  records and characters.
\<close>

datatype memory_kind = Fact | Preference | Note | Summary

fun memory_kind_value :: "memory_kind \<Rightarrow> string" where
  "memory_kind_value Fact = ''fact''"
| "memory_kind_value Preference = ''preference''"
| "memory_kind_value Note = ''note''"
| "memory_kind_value Summary = ''summary''"

record memory_record =
  mm_id :: uuid
  mm_project_id :: string
  mm_agent_id :: uuid
  mm_kind :: memory_kind
  mm_content :: string
  mm_tags :: "string list"
  mm_created_at :: time
  mm_updated_at :: time

record memory_match =
  mt_record :: memory_record
  mt_rank :: nat
  mt_score :: "rat option"

record memory_config =
  mc_enabled :: bool
  mc_max_content :: nat
  mc_max_tags :: nat
  mc_max_tag_chars :: nat
  mc_max_results :: nat
  mc_max_context :: nat

section \<open>The repository\<close>

definition memory_create :: "memory_row \<Rightarrow> store \<Rightarrow> exn + store" where
  "memory_create r st =
     ebind (guard (agent_get (me_agent_id r) st \<noteq> None) IntegrityError) (\<lambda>_.
     ebind (row_insert me_id r (st_memories st)) (\<lambda>t. Inr (st\<lparr>st_memories := t\<rparr>)))"

definition in_scope :: "string \<Rightarrow> uuid \<Rightarrow> memory_row \<Rightarrow> bool" where
  "in_scope project a r = (me_project_id r = project \<and> me_agent_id r = a \<and> me_deleted_at r = None)"

definition list_for_scope :: "string \<Rightarrow> uuid \<Rightarrow> nat option \<Rightarrow> store \<Rightarrow> memory_row list" where
  "list_for_scope project a limit st =
     (let rows = sort_key (\<lambda>r. (- me_updated_at r, - int (me_id r))) (filter (in_scope project a) (st_memories st))
      in case limit of None \<Rightarrow> rows | Some n \<Rightarrow> take n rows)"

definition get_for_scope :: "uuid \<Rightarrow> string \<Rightarrow> uuid \<Rightarrow> store \<Rightarrow> memory_row option" where
  "get_for_scope i project a st = List.find (\<lambda>r. me_id r = i \<and> in_scope project a r) (st_memories st)"

fun add_run_links :: "world \<Rightarrow> uuid \<Rightarrow> nat \<Rightarrow> (memory_row \<times> rat option) list \<Rightarrow> store \<Rightarrow> exn + store" where
  \<comment> \<open>the number is the rank of the first match\<close>
  "add_run_links w run n [] st = Inr st"
| "add_run_links w run n ((r, score) # rs) st =
     ebind (guard (run_get run st \<noteq> None) IntegrityError) (\<lambda>_.
     ebind (row_insert rm_id \<lparr>rm_id = w_uuid4 w n, rm_run_id = run, rm_memory_id = Some (me_id r),
         rm_memory_id_snapshot = me_id r, rm_rank = n, rm_score = score\<rparr> (st_run_memories st)) (\<lambda>t.
     add_run_links w run (Suc n) rs (st\<lparr>st_run_memories := t\<rparr>)))"

definition list_run_links :: "uuid \<Rightarrow> store \<Rightarrow> run_memory list" where
  "list_run_links run st = sort_key rm_rank (filter (\<lambda>l. rm_run_id l = run) (st_run_memories st))"

section \<open>Reading rows and tags\<close>

definition memory_record_of :: "memory_row \<Rightarrow> exn + memory_record" where
  \<comment> \<open>\<open>_record\<close>; \<open>MemoryKind(...)\<close> raises for an unknown kind\<close>
  "memory_record_of r =
     (case List.find (\<lambda>k. memory_kind_value k = me_kind r) [Fact, Preference, Note, Summary] of
        None \<Rightarrow> Inl (ValueError ''MemoryKind'')
      | Some k \<Rightarrow> Inr \<lparr>mm_id = me_id r, mm_project_id = me_project_id r, mm_agent_id = me_agent_id r, mm_kind = k,
          mm_content = me_content r, mm_tags = me_tags r, mm_created_at = me_created_at r, mm_updated_at = me_updated_at r\<rparr>)"

fun normalize_from :: "memory_config \<Rightarrow> string list \<Rightarrow> string list \<Rightarrow> exn + string list" where
  "normalize_from cf normalized [] = Inr normalized"
| "normalize_from cf normalized (tag # tags) =
     (let v = py_strip tag in
      if v = [] \<or> mc_max_tag_chars cf < length v then Inl (MemoryError ''memory_invalid'' ''Memory tag is invalid'')
      else normalize_from cf (if v \<in> set normalized then normalized else normalized @ [v]) tags)"

definition normalize_tags :: "memory_config \<Rightarrow> string list \<Rightarrow> exn + string list" where
  "normalize_tags cf tags =
     (if mc_max_tags cf < length tags then Inl (MemoryError ''memory_invalid'' ''Too many memory tags'')
      else normalize_from cf [] tags)"

definition casefold :: "string \<Rightarrow> string" where
  \<comment> \<open>the sharp s becomes two letters; the micro sign, whose folding lies outside the character range, stays\<close>
  "casefold s = concat (map (\<lambda>c. if (of_char c :: nat) = 223 then ''ss'' else [py_lower_char c]) s)"

fun py_words :: "string \<Rightarrow> string \<Rightarrow> string list" where
  \<comment> \<open>\<open>str.split()\<close>; the first argument is the word being read\<close>
  "py_words cur [] = (if cur = [] then [] else [cur])"
| "py_words cur (c # cs) =
     (if py_isspace c then (if cur = [] then py_words [] cs else cur # py_words [] cs)
      else py_words (cur @ [c]) cs)"

definition join_spaces :: "string list \<Rightarrow> string" where
  "join_spaces ss = (case ss of [] \<Rightarrow> [] | s # ss \<Rightarrow> s @ concat (map (\<lambda>t. CHR '' '' # t) ss))"

definition score_of :: "memory_row \<Rightarrow> string list \<Rightarrow> nat" where
  "score_of r terms =
     (let haystack = casefold (me_content r @ '' '' @ join_spaces (me_tags r))
      in length (filter (\<lambda>t. py_contains t haystack) terms))"

section \<open>The service\<close>

definition require_enabled :: "memory_config \<Rightarrow> exn + unit" where
  "require_enabled cf = guard (mc_enabled cf) (MemoryError ''memory_disabled'' ''Memory is disabled by server configuration'')"

definition create_memory :: "memory_config \<Rightarrow> world \<Rightarrow> string \<Rightarrow> uuid \<Rightarrow> memory_kind \<Rightarrow> string \<Rightarrow> string list \<Rightarrow> store \<Rightarrow>
    exn + memory_record \<times> store" where
  "create_memory cf w project a kind content tags st =
     ebind (require_enabled cf) (\<lambda>_.
     let content = py_strip content in
     if content = [] then Inl (MemoryError ''memory_invalid'' ''Memory content must not be empty'')
     else if mc_max_content cf < length content
     then Inl (MemoryError ''memory_too_large'' ''Memory content exceeds the configured limit'')
     else ebind (normalize_tags cf tags) (\<lambda>tags.
       let r = \<lparr>me_id = w_uuid4 w 0, me_project_id = project, me_agent_id = a, me_kind = memory_kind_value kind,
             me_content = content, me_tags = tags, me_created_at = w_now w, me_updated_at = w_now w, me_deleted_at = None\<rparr>
       in ebind (memory_create r st) (\<lambda>st. ebind (memory_record_of r) (\<lambda>m. Inr (m, st)))))"

definition list_records :: "memory_config \<Rightarrow> string \<Rightarrow> uuid \<Rightarrow> store \<Rightarrow> exn + memory_record list" where
  "list_records cf project a st =
     ebind (require_enabled cf) (\<lambda>_. those_sum (map memory_record_of (list_for_scope project a None st)))"

fun take_matches :: "memory_config \<Rightarrow> nat \<Rightarrow> nat \<Rightarrow> (memory_row \<times> nat) list \<Rightarrow> exn + memory_match list" where
  \<comment> \<open>the loop: how many matches there are and how many characters they hold\<close>
  "take_matches cf n used [] = Inr []"
| "take_matches cf n used ((r, score) # rs) =
     (if mc_max_results cf \<le> n then Inr []
      else if mc_max_context cf \<le> used then Inr []
      else if mc_max_context cf - used < length (me_content r) then take_matches cf n used rs
      else ebind (memory_record_of r) (\<lambda>m.
        ebind (take_matches cf (Suc n) (used + length (me_content r)) rs) (\<lambda>ms.
        Inr (\<lparr>mt_record = m, mt_rank = Suc n, mt_score = Some (of_nat score)\<rparr> # ms))))"

definition search :: "memory_config \<Rightarrow> string \<Rightarrow> uuid \<Rightarrow> string \<Rightarrow> store \<Rightarrow> exn + memory_match list" where
  "search cf project a q st =
     ebind (require_enabled cf) (\<lambda>_.
     let q = py_strip q in
     if mc_max_content cf < length q then Inl (MemoryError ''memory_invalid'' ''Memory query exceeds the configured limit'')
     else let terms = py_words [] (casefold q);
              scored = map (\<lambda>r. (r, score_of r terms)) (list_for_scope project a (Some (mc_max_results cf * 4)) st);
              scored = (if terms = [] then scored else filter (\<lambda>(r, n). 0 < n) scored);
              scored = sort_key (\<lambda>(r, n). (- int n, - me_updated_at r, me_id r)) scored
          in take_matches cf 0 0 scored)"

definition record_run_usage :: "world \<Rightarrow> uuid \<Rightarrow> memory_match list \<Rightarrow> store \<Rightarrow> exn + store" where
  "record_run_usage w run matches st =
     (if matches = [] then Inr st
      else add_run_links w run 1 (List.map_filter (\<lambda>m.
        map_option (\<lambda>r. (r, mt_score m))
          (get_for_scope (mm_id (mt_record m)) (mm_project_id (mt_record m)) (mm_agent_id (mt_record m)) st)) matches) st)"

definition usage_row :: "store \<Rightarrow> run_memory \<Rightarrow> pyobj" where
  "usage_row st l =
     (let r = (case rm_memory_id l of None \<Rightarrow> None | Some i \<Rightarrow> row_get me_id i (st_memories st))
      in PDict [(''memory_id'', PStr (uuid_str (rm_memory_id_snapshot l))), (''rank'', PInt (int (rm_rank l))),
           (''score'', case rm_score l of None \<Rightarrow> PNone | Some x \<Rightarrow> PFloat x),
           (''deleted'', PBool (case r of None \<Rightarrow> True | Some r \<Rightarrow> me_deleted_at r \<noteq> None))])"

definition list_run_usage :: "memory_config \<Rightarrow> uuid \<Rightarrow> store \<Rightarrow> exn + pyobj list" where
  "list_run_usage cf run st = ebind (require_enabled cf) (\<lambda>_. Inr (map (usage_row st) (list_run_links run st)))"

definition delete_memory :: "memory_config \<Rightarrow> world \<Rightarrow> string \<Rightarrow> uuid \<Rightarrow> uuid \<Rightarrow> store \<Rightarrow> exn + store" where
  "delete_memory cf w project a i st =
     ebind (require_enabled cf) (\<lambda>_.
     case get_for_scope i project a st of
       None \<Rightarrow> Inl (MemoryError ''memory_not_found'' ''Memory record was not found'')
     | Some r \<Rightarrow> Inr (st\<lparr>st_memories := row_update me_id (me_id r)
         (\<lambda>r. r\<lparr>me_deleted_at := Some (w_now w), me_updated_at := w_now w\<rparr>) (st_memories st)\<rparr>))"

section \<open>Scope and budget\<close>

lemma take_matches_budget:
  "take_matches cf n used rs = Inr ms \<Longrightarrow> n \<le> mc_max_results cf \<Longrightarrow> used \<le> mc_max_context cf \<Longrightarrow>
     n + length ms \<le> mc_max_results cf \<and>
     used + sum_list (map (\<lambda>m. length (mm_content (mt_record m))) ms) \<le> mc_max_context cf \<and>
     map mt_rank ms = [Suc n..<Suc n + length ms]"
proof (induction cf n used rs arbitrary: ms rule: take_matches.induct)
  case (2 cf n used r score rs)
  show ?case
  proof (cases "mc_max_results cf \<le> n \<or> mc_max_context cf \<le> used")
    case True
    with 2 show ?thesis by (auto split: if_splits)
  next
    case False
    show ?thesis
    proof (cases "mc_max_context cf - used < length (me_content r)")
      case True
      with False 2 show ?thesis by simp
    next
      case fits: False
      with False 2(3) obtain m ms' where m: "memory_record_of r = Inr m"
        and ms': "take_matches cf (Suc n) (used + length (me_content r)) rs = Inr ms'"
        and ms: "ms = \<lparr>mt_record = m, mt_rank = Suc n, mt_score = Some (of_nat score)\<rparr> # ms'"
        by (auto simp: exn_simps)
      from m have "mm_content m = me_content r" by (auto simp: memory_record_of_def split: option.splits)
      moreover from False fits have "Suc n \<le> mc_max_results cf" "used + length (me_content r) \<le> mc_max_context cf" by auto
      ultimately show ?thesis using 2(2) [OF _ _ fits m ms'] False ms
        by (auto simp: upt_rec simp del: upt.simps)
    qed
  qed
qed simp

lemma take_matches_from:
  "take_matches cf n used rs = Inr ms \<Longrightarrow> m \<in> set ms \<Longrightarrow>
     \<exists>r k. (r, k) \<in> set rs \<and> memory_record_of r = Inr (mt_record m) \<and> mt_score m = Some (of_nat k)"
proof (induction cf n used rs arbitrary: ms rule: take_matches.induct)
  case (2 cf n used r score rs)
  show ?case
  proof (cases "mc_max_results cf \<le> n \<or> mc_max_context cf \<le> used")
    case True
    with 2 show ?thesis by (auto split: if_splits)
  next
    case False
    show ?thesis
    proof (cases "mc_max_context cf - used < length (me_content r)")
      case True
      with False 2(1,3,4) show ?thesis by auto
    next
      case fits: False
      with False 2(3) obtain m' ms' where m': "memory_record_of r = Inr m'"
        and ms': "take_matches cf (Suc n) (used + length (me_content r)) rs = Inr ms'"
        and ms: "ms = \<lparr>mt_record = m', mt_rank = Suc n, mt_score = Some (of_nat score)\<rparr> # ms'"
        by (auto simp: exn_simps)
      show ?thesis
      proof (cases "m \<in> set ms'")
        case True
        from 2(2) [OF _ _ fits m' ms' True] False show ?thesis by auto
      next
        case False
        with 2(4) ms m' show ?thesis by (intro exI [of _ r] exI [of _ score]) simp
      qed
    qed
  qed
qed simp

lemma filter_row_update:
  "(\<And>x. x \<in> set t \<Longrightarrow> key x = i \<Longrightarrow> \<not> P x \<and> \<not> P (f x)) \<Longrightarrow> filter P (row_update key i f t) = filter P t"
  by (induction t) (auto simp: row_update_def)

lemma list_for_scope_mem: "r \<in> set (list_for_scope project a limit st) \<Longrightarrow> r \<in> set (st_memories st) \<and> in_scope project a r"
  by (auto simp: list_for_scope_def Let_def split: option.splits dest: in_set_takeD)

lemma set_list_for_scope: "set (list_for_scope project a limit st) \<subseteq> {r \<in> set (st_memories st). in_scope project a r}"
  using list_for_scope_mem by blast

lemma search_matches:
  assumes "search cf project a q st = Inr ms"
  shows "mc_enabled cf" "\<exists>rs. take_matches cf 0 0 rs = Inr ms \<and>
    (\<forall>(r, k) \<in> set rs. r \<in> set (st_memories st) \<and> in_scope project a r \<and>
      k = score_of r (py_words [] (casefold (py_strip q))) \<and> (py_words [] (casefold (py_strip q)) \<noteq> [] \<longrightarrow> 0 < k))"
proof -
  from assms show "mc_enabled cf" by (auto simp: search_def require_enabled_def exn_simps)
  let ?terms = "py_words [] (casefold (py_strip q))"
  let ?rows = "list_for_scope project a (Some (mc_max_results cf * 4)) st"
  let ?all = "map (\<lambda>r. (r, score_of r ?terms)) ?rows"
  let ?scored = "if ?terms = [] then ?all else filter (\<lambda>(r, n). 0 < n) ?all"
  from assms have t: "take_matches cf 0 0 (sort_key (\<lambda>(r, n). (- int n, - me_updated_at r, me_id r)) ?scored) = Inr ms"
    by (auto simp: search_def exn_simps Let_def split: if_splits)
  have "\<forall>(r, k) \<in> set ?scored. r \<in> set (st_memories st) \<and> in_scope project a r \<and> k = score_of r ?terms \<and> (?terms \<noteq> [] \<longrightarrow> 0 < k)"
    by (auto dest: list_for_scope_mem)
  with t show "\<exists>rs. take_matches cf 0 0 rs = Inr ms \<and>
    (\<forall>(r, k) \<in> set rs. r \<in> set (st_memories st) \<and> in_scope project a r \<and> k = score_of r ?terms \<and> (?terms \<noteq> [] \<longrightarrow> 0 < k))"
    by (intro exI [of _ "sort_key (\<lambda>(r, n). (- int n, - me_updated_at r, me_id r)) ?scored"]) simp
qed

section \<open>Properties\<close>

text \<open>
  A search returns at most the configured number of memories, whose contents together fit the
  context budget, ranked 1, 2, and so on; each is the record of a row of this project and agent that has
  not been deleted, and for a query with words it contains at least one of them.
\<close>

theorem memory_search_in_scope_and_budget:
  assumes "search cf project a q st = Inr ms"
  shows "length ms \<le> mc_max_results cf \<and>
    sum_list (map (\<lambda>m. length (mm_content (mt_record m))) ms) \<le> mc_max_context cf \<and>
    map mt_rank ms = [1..<Suc (length ms)] \<and>
    (\<forall>m \<in> set ms. \<exists>r \<in> set (st_memories st). in_scope project a r \<and> memory_record_of r = Inr (mt_record m) \<and>
       (\<exists>k. mt_score m = Some (of_nat k) \<and> k = score_of r (py_words [] (casefold (py_strip q))) \<and>
          (py_words [] (casefold (py_strip q)) \<noteq> [] \<longrightarrow> 0 < k)))"
proof -
  from search_matches(2) [OF assms] obtain rs where t: "take_matches cf 0 0 rs = Inr ms"
    and rs: "\<forall>(r, k) \<in> set rs. r \<in> set (st_memories st) \<and> in_scope project a r \<and>
      k = score_of r (py_words [] (casefold (py_strip q))) \<and> (py_words [] (casefold (py_strip q)) \<noteq> [] \<longrightarrow> 0 < k)" by blast
  from take_matches_budget [OF t] have "length ms \<le> mc_max_results cf"
    "sum_list (map (\<lambda>m. length (mm_content (mt_record m))) ms) \<le> mc_max_context cf" "map mt_rank ms = [1..<Suc (length ms)]"
    by simp_all
  moreover have "\<exists>r \<in> set (st_memories st). in_scope project a r \<and> memory_record_of r = Inr (mt_record m) \<and>
       (\<exists>k. mt_score m = Some (of_nat k) \<and> k = score_of r (py_words [] (casefold (py_strip q))) \<and>
          (py_words [] (casefold (py_strip q)) \<noteq> [] \<longrightarrow> 0 < k))" if "m \<in> set ms" for m
    using take_matches_from [OF t that] rs by fastforce
  ultimately show ?thesis by blast
qed

definition sample_memory_config :: memory_config where
  "sample_memory_config = \<lparr>mc_enabled = True, mc_max_content = 50, mc_max_tags = 4, mc_max_tag_chars = 10,
     mc_max_results = 3, mc_max_context = 30\<rparr>"

definition sample_memories :: store where
  "sample_memories = empty_store\<lparr>st_memories :=
     [\<lparr>me_id = 5, me_project_id = ''p'', me_agent_id = 7, me_kind = ''note'', me_content = ''tea'', me_tags = [''x''],
       me_created_at = 1, me_updated_at = 1, me_deleted_at = None\<rparr>]\<rparr>"

lemma sample_search: "\<exists>m. search sample_memory_config ''p'' 7 ''tea'' sample_memories = Inr [m] \<and> mm_id (mt_record m) = 5"
  by (simp add: search_def require_enabled_def guard_def sample_memory_config_def sample_memories_def Let_def py_strip_def
      py_isspace_def casefold_def py_lower_char_def list_for_scope_def in_scope_def score_of_def join_spaces_def
      memory_record_of_def empty_store_def)

theorem memory_search_in_scope_and_budget_witness:
  "\<exists>m. search sample_memory_config ''p'' 7 ''tea'' sample_memories = Inr [m] \<and> length (mm_content (mt_record m)) \<le> 30"
proof -
  from sample_search obtain m where m: "search sample_memory_config ''p'' 7 ''tea'' sample_memories = Inr [m]" by blast
  from memory_search_in_scope_and_budget [OF m] m show ?thesis by (simp add: sample_memory_config_def)
qed

text \<open>
  A deleted memory is gone for its agent: it is not listed, not found by any search and cannot be
  deleted again, while the memories of every other project and agent are listed exactly as before.
\<close>

theorem deleted_memory_is_gone:
  assumes "delete_memory cf w project a i st = Inr st'" "distinct (map me_id (st_memories st))"
  shows "i \<notin> me_id ` set (list_for_scope project a None st') \<and> get_for_scope i project a st' = None \<and>
    ((project', a') = (project, a) \<or> list_for_scope project' a' limit st' = list_for_scope project' a' limit st)"
proof -
  from assms(1) obtain r where r: "get_for_scope i project a st = Some r"
    and st': "st' = st\<lparr>st_memories := row_update me_id (me_id r)
      (\<lambda>r. r\<lparr>me_deleted_at := Some (w_now w), me_updated_at := w_now w\<rparr>) (st_memories st)\<rparr>"
    by (auto simp: delete_memory_def exn_simps split: option.splits)
  from r have ri: "r \<in> set (st_memories st)" "me_id r = i" "in_scope project a r"
    by (auto simp: get_for_scope_def find_Some_iff)
  let ?f = "\<lambda>r. r\<lparr>me_deleted_at := Some (w_now w), me_updated_at := w_now w\<rparr>"
  have deleted: "\<not> in_scope p b (?f x)" for p b x by (simp add: in_scope_def)
  have gone: "\<not> in_scope project a x" if "x \<in> set (st_memories st')" "me_id x = i" for x
  proof -
    from that(1) have "x \<in> (\<lambda>r. if me_id r = i then ?f r else r) ` set (st_memories st)"
      by (simp add: st' set_row_update ri(2))
    then obtain y where y: "x = (if me_id y = i then ?f y else y)" by (rule imageE)
    with that(2) deleted show ?thesis by (cases "me_id y = i") simp_all
  qed
  have same: "filter (in_scope project' a') (st_memories st') = filter (in_scope project' a') (st_memories st)"
    if "(project', a') \<noteq> (project, a)"
  proof -
    have "\<not> in_scope project' a' x" if "x \<in> set (st_memories st)" "me_id x = i" for x
    proof -
      from that ri assms(2) have "x = r" by (auto simp: distinct_map dest: inj_onD)
      with ri(3) \<open>(project', a') \<noteq> (project, a)\<close> show ?thesis by (auto simp: in_scope_def)
    qed
    with deleted ri(2) show ?thesis unfolding st' by (simp add: filter_row_update)
  qed
  have "list_for_scope project' a' limit st' = list_for_scope project' a' limit st" if "(project', a') \<noteq> (project, a)"
    unfolding list_for_scope_def same [OF that] by (rule refl)
  then have "(project', a') = (project, a) \<or> list_for_scope project' a' limit st' = list_for_scope project' a' limit st"
    by blast
  moreover have "i \<notin> me_id ` set (list_for_scope project a None st')"
    using gone set_list_for_scope [of project a None st'] by blast
  moreover have "get_for_scope i project a st' = None"
    using gone by (auto simp: get_for_scope_def find_None_iff)
  ultimately show ?thesis by blast
qed

theorem deleted_memory_is_gone_witness:
  "\<exists>st'. delete_memory sample_memory_config \<lparr>w_now = 9, w_uuid4 = id\<rparr> ''p'' 7 5 sample_memories = Inr st' \<and>
     get_for_scope 5 ''p'' 7 st' = None"
proof -
  obtain st' where d: "delete_memory sample_memory_config \<lparr>w_now = 9, w_uuid4 = id\<rparr> ''p'' 7 5 sample_memories = Inr st'"
    by (simp add: delete_memory_def require_enabled_def guard_def sample_memory_config_def sample_memories_def
        get_for_scope_def in_scope_def)
  have "distinct (map me_id (st_memories sample_memories))" by (simp add: sample_memories_def)
  from deleted_memory_is_gone [OF d this] d show ?thesis by blast
qed

end
