(* ===== verification/Worker.thy ===== *)
theory Worker
  imports Nodes_Props
begin

text \<open>
  \<open>worker.py\<close>: the worker process. Its identity file, its settings check, the messages it sends when it
  connects, the bounded cache of completed tasks, and what it answers to a message of the core. What the
  host reports is an argument; the loops around these operations are in \<open>Worker_Loop\<close>.
\<close>

record worker_config =
  wk_role :: node_role
  wk_enabled :: bool
  wk_core_url :: "string option"
  wk_secret :: "string option"
  wk_name :: string
  wk_max_tasks :: nat
  wk_reconnect_max :: rat
  wk_proof :: "string \<Rightarrow> string \<Rightarrow> string" \<comment> \<open>\<open>NodeService.enrollment_proof\<close>\<close>

definition load_node_id :: "uuid \<Rightarrow> string option \<Rightarrow> (exn + string) \<times> string option" where
  \<comment> \<open>the argument and the second result are the identity file, \<open>None\<close> while it does not exist\<close>
  "load_node_id fresh file =
     (case file of
        None \<Rightarrow> let i = ''node_'' @ uuid_hex fresh in (Inr i, Some i)
      | Some content \<Rightarrow> let i = py_strip content in
          (if length i < 8 \<or> 100 < length i then Inl (ValueError ''Worker node id file is invalid'') else Inr i, file))"

record worker =
  wr_node_id :: string
  wr_completed :: "(string \<times> pydict) list" \<comment> \<open>the results of the tasks that were executed, oldest first\<close>

definition new_client :: "worker_config \<Rightarrow> uuid \<Rightarrow> string option \<Rightarrow> (exn + worker) \<times> string option" where
  \<comment> \<open>\<open>WorkerClient.__init__\<close>\<close>
  "new_client cf fresh file =
     (if wk_role cf \<noteq> WorkerRole then (Inl (ValueError ''Worker requires AGENTGRAPH_NODE_ROLE=worker''), file)
      else if \<not> wk_enabled cf then (Inl (ValueError ''Worker requires AGENTGRAPH_WORKER_ENABLED=true''), file)
      else if falsy (wk_core_url cf) \<or> falsy (wk_secret cf)
      then (Inl (ValueError ''Worker requires AGENTGRAPH_CORE_URL and AGENTGRAPH_WORKER_ENROLLMENT_SECRET''), file)
      else case load_node_id fresh file of
          (Inl e, file) \<Rightarrow> (Inl e, file)
        | (Inr i, file) \<Rightarrow> (Inr \<lparr>wr_node_id = i, wr_completed = []\<rparr>, file))"

fun replace_once :: "string \<Rightarrow> string \<Rightarrow> string \<Rightarrow> string" where
  \<comment> \<open>\<open>s.replace(pat, new, 1)\<close> for a non-empty \<open>pat\<close>\<close>
  "replace_once pat new [] = []"
| "replace_once pat new (c # s) =
     (if take (length pat) (c # s) = pat then new @ drop (length pat) (c # s) else c # replace_once pat new s)"

definition socket_url :: "worker_config \<Rightarrow> string" where
  "socket_url cf =
     (let url = (case wk_core_url cf of None \<Rightarrow> [] | Some u \<Rightarrow> rev (dropWhile (\<lambda>c. c = CHR ''/'') (rev u)))
      in replace_once ''http://'' ''ws://'' (replace_once ''https://'' ''wss://'' url) @ ''/ws/internal/workers'')"

definition proof_header :: "worker_config \<Rightarrow> worker \<Rightarrow> string" where
  "proof_header cf w = wk_proof cf (case wk_secret cf of None \<Rightarrow> [] | Some x \<Rightarrow> x) (wr_node_id w)"

definition hello_message :: "worker_config \<Rightarrow> host_facts \<Rightarrow> worker \<Rightarrow> exn + message" where
  "hello_message cf facts w = ebind (safe_capabilities facts) (\<lambda>caps. construct (WorkerHello (wr_node_id w) (wk_name cf) caps))"

definition heartbeat_message :: "host_facts \<Rightarrow> exn + message" where
  "heartbeat_message facts = ebind (safe_capabilities facts) (\<lambda>caps. construct (WorkerHeartbeat (wc_resources caps)))"

definition resources_dump :: "resource_snapshot \<Rightarrow> pydict" where
  "resources_dump r =
     (let number = (\<lambda>x. case x of None \<Rightarrow> PNone | Some n \<Rightarrow> PInt n)
      in [(''cpu_count'', PInt (rs_cpu_count r)),
          (''load_average'', case rs_load_average r of None \<Rightarrow> PNone | Some x \<Rightarrow> PFloat x),
          (''memory_total_bytes'', number (rs_memory_total r)), (''memory_available_bytes'', number (rs_memory_available r))])"

definition remember :: "nat \<Rightarrow> string \<Rightarrow> pydict \<Rightarrow> (string \<times> pydict) list \<Rightarrow> (string \<times> pydict) list" where
  \<comment> \<open>the result is put last, then the oldest ones go until the bound is met\<close>
  "remember limit i r completed = (let d = dict_pop i completed @ [(i, r)] in drop (length d - limit) d)"

definition worker_execute :: "worker_config \<Rightarrow> host_facts \<Rightarrow> string \<Rightarrow> worker \<Rightarrow> (exn + message) \<times> worker" where
  \<comment> \<open>\<open>_execute\<close> of a request for \<open>system.probe\<close>, the only operation a \<open>TaskRequest\<close> can name\<close>
  "worker_execute cf facts i w =
     (case map_of (wr_completed w) i of
        Some r \<Rightarrow> (Inr (TaskResult i r), w)
      | None \<Rightarrow> (case safe_capabilities facts of
          Inl e \<Rightarrow> (Inl e, w)
        | Inr caps \<Rightarrow>
            let r = [(''node_id'', PStr (wr_node_id w)), (''protocol_version'', PInt PROTOCOL_VERSION),
                   (''resources'', PDict (resources_dump (wc_resources caps)))]
            in (case construct (TaskResult i r) of
                Inl e \<Rightarrow> (Inl e, w)
              | Inr m \<Rightarrow> (Inr m, w\<lparr>wr_completed := remember (wk_max_tasks cf) i r (wr_completed w)\<rparr>))))"

datatype reply = Close | Silent | Reply message

definition answer :: "worker_config \<Rightarrow> host_facts \<Rightarrow> (string \<Rightarrow> message option) \<Rightarrow> string \<Rightarrow> worker \<Rightarrow> (exn + reply) \<times> worker" where
  \<comment> \<open>one turn of the loop of \<open>_connect_once\<close> on a text frame\<close>
  "answer cf facts decode raw w =
     (if MAX_MESSAGE_BYTES < utf8_length raw then (Inr Close, w)
      else case validate_json decode server_message raw of
        Inl e \<Rightarrow> (Inl e, w)
      | Inr (TaskRequest i timeout) \<Rightarrow> (case worker_execute cf facts i w of
            (Inl e, w) \<Rightarrow> (Inl e, w) | (Inr m, w) \<Rightarrow> (Inr (Reply m), w))
      | Inr m \<Rightarrow> (Inr Silent, w))"

definition next_delay :: "worker_config \<Rightarrow> bool \<Rightarrow> rat \<Rightarrow> rat" where
  \<comment> \<open>the delay of \<open>run\<close> after an attempt that ended normally or with an exception\<close>
  "next_delay cf ended delay = min ((if ended then 1 else delay) * 2) (wk_reconnect_max cf)"

section \<open>The cache\<close>

definition worker_ok :: "worker_config \<Rightarrow> worker \<Rightarrow> bool" where
  \<comment> \<open>at most \<open>worker_max_tasks\<close> results, each of them this worker's\<close>
  "worker_ok cf w \<longleftrightarrow> length (wr_completed w) \<le> wk_max_tasks cf \<and> distinct (map fst (wr_completed w)) \<and>
     (\<forall>(i, r) \<in> set (wr_completed w). dict_get r ''node_id'' = PStr (wr_node_id w))"

lemma worker_ok_new: "new_client cf fresh file = (Inr w, file') \<Longrightarrow> worker_ok cf w"
  by (auto simp: new_client_def worker_ok_def split: if_splits prod.splits sum.splits)

lemma set_remember: "set (remember limit i r d) \<subseteq> insert (i, r) (set d)"
  by (auto simp: remember_def Let_def dict_pop_def dest: in_set_dropD)

lemma remember_keys:
  assumes "distinct (map fst d)"
  shows "distinct (map fst (remember limit i r d))"
proof -
  have "distinct (map fst (dict_pop i d @ [(i, r)]))" using assms by (auto simp: keys_dict_pop dict_pop_def distinct_map_filter)
  then show ?thesis unfolding remember_def Let_def drop_map [symmetric] by (rule distinct_drop)
qed

lemma remember_last: "0 < limit \<Longrightarrow> map_of (remember limit i r d) i = Some r"
proof -
  assume "0 < limit"
  let ?d = "dict_pop i d"
  define e where "e = drop (Suc (length ?d) - limit) ?d"
  have "remember limit i r d = e @ [(i, r)]" using \<open>0 < limit\<close> by (simp add: remember_def Let_def e_def)
  moreover have "i \<notin> fst ` set e" unfolding e_def by (auto simp: dict_pop_def dest!: in_set_dropD)
  ultimately obtain e where e: "remember limit i r d = e @ [(i, r)]" "i \<notin> fst ` set e" by blast
  then have "map_of e i = None" by (simp add: map_of_eq_None_iff)
  with e(1) show ?thesis by (simp add: map_add_def)
qed

lemma execute_cases:
  obtains (cached) r where "map_of (wr_completed w) i = Some r" "worker_execute cf facts i w = (Inr (TaskResult i r), w)"
  | (failed) e where "worker_execute cf facts i w = (Inl e, w)"
  | (fresh) r where "map_of (wr_completed w) i = None" "dict_get r ''node_id'' = PStr (wr_node_id w)"
      "worker_execute cf facts i w =
         (Inr (TaskResult i r), w\<lparr>wr_completed := remember (wk_max_tasks cf) i r (wr_completed w)\<rparr>)"
proof (cases "map_of (wr_completed w) i")
  case (Some r)
  with cached show thesis by (simp add: worker_execute_def)
next
  case None
  show thesis
  proof (cases "safe_capabilities facts")
    case (Inl e)
    with None failed show thesis by (simp add: worker_execute_def)
  next
    case (Inr caps)
    let ?r = "[(''node_id'', PStr (wr_node_id w)), (''protocol_version'', PInt PROTOCOL_VERSION),
      (''resources'', PDict (resources_dump (wc_resources caps)))]"
    show thesis
    proof (cases "construct (TaskResult i ?r)")
      case (Inl e)
      with \<open>safe_capabilities facts = Inr caps\<close> None show thesis
        by (intro failed [of e]) (simp add: worker_execute_def Let_def)
    next
      case (Inr m)
      then have "m = TaskResult i ?r" by (simp add: construct_Inr_iff)
      with Inr \<open>safe_capabilities facts = Inr caps\<close> None show thesis
        by (intro fresh [of ?r]) (simp_all add: worker_execute_def Let_def dict_get_def)
    qed
  qed
qed

lemma worker_ok_execute:
  assumes "worker_ok cf w"
  shows "worker_ok cf (snd (worker_execute cf facts i w))"
    and "fst (worker_execute cf facts i w) = Inr m \<Longrightarrow>
      \<exists>r. m = TaskResult i r \<and> dict_get r ''node_id'' = PStr (wr_node_id w)"
proof -
  have own: "dict_get r ''node_id'' = PStr (wr_node_id w)" if "(j, r) \<in> set (wr_completed w)" for j r
    using assms that by (auto simp: worker_ok_def)
  show "worker_ok cf (snd (worker_execute cf facts i w))"
  proof (cases rule: execute_cases [of w i cf facts])
    case (fresh r)
    have "length (remember (wk_max_tasks cf) i r (wr_completed w)) \<le> wk_max_tasks cf"
      by (simp add: remember_def Let_def)
    moreover have "distinct (map fst (remember (wk_max_tasks cf) i r (wr_completed w)))"
      using assms by (intro remember_keys) (simp add: worker_ok_def)
    ultimately show ?thesis
      using fresh(2) own set_remember [of "wk_max_tasks cf" i r "wr_completed w"] unfolding fresh(3) worker_ok_def by auto
  qed (use assms in simp_all)
  assume "fst (worker_execute cf facts i w) = Inr m"
  then show "\<exists>r. m = TaskResult i r \<and> dict_get r ''node_id'' = PStr (wr_node_id w)"
    by (cases rule: execute_cases [of w i cf facts]) (auto simp: construct_Inr_iff dest: map_of_SomeD own)
qed

section \<open>A probe, from the core to the worker and back\<close>

lemma register_probe_sent:
  assumes "register_probe cf node i timeout s = (Inr f, s1)" "map_of (nd_connections s) node = Some n"
    "wk_queue (nd_sessions s n) = []"
  shows "wk_queue (nd_sessions s1 n) = [TaskRequest i timeout]" "map_of (wk_pending (nd_sessions s1 n)) i = Some f"
    "map_of (nd_connections s1) node = Some n"
    "nd_probes s1 f = \<lparr>pc_node = node, pc_task = i, pc_session = n, pc_future = Waiting\<rparr>"
  using assms
  by (cases rule: register_probe_cases [of cf node i timeout s];
      auto simp: add_pending_def put_nowait_def split: if_splits)+

text \<open>
  A probe goes round: the request the core queues is what its socket sends, the worker's answer to it
  carries the worker's own id, and handing that answer to the core gives the caller this result and
  frees the task's place. A repeated request is answered from the worker's cache with the same result.
\<close>

theorem probe_round_trip:
  fixes cf :: node_config and world :: world and node :: string and s1 :: nodes and n :: nat and m :: message
  defines "s2 \<equiv> snd (next_command n s1)"
  defines "s3 \<equiv> receive_result cf world node m s2"
  assumes "register_probe cf node i timeout s = (Inr f, s1)"
    and "map_of (nd_connections s) node = Some n" "wk_queue (nd_sessions s n) = []"
    and "worker_ok wcf w" "0 < wk_max_tasks wcf" "worker_execute wcf facts i w = (Inr m, w1)"
  shows "\<exists>r. (case fst (next_command n s1) of None \<Rightarrow> None | Some c \<Rightarrow> sent_to_worker c) = Some (TaskRequest i timeout) \<and>
    m = TaskResult i r \<and> dict_get r ''node_id'' = PStr (wr_node_id w) \<and>
    fst (conclude_probe cf world' f s3) = Inr \<lparr>pb_task_id = i, pb_node_id = node, pb_result = r\<rparr> \<and>
    map_of (wk_pending (nd_sessions s3 n)) i = None \<and>
    worker_execute wcf facts' i w1 = (Inr m, w1)"
proof -
  note sent = register_probe_sent [OF assms(3-5)]
  from worker_ok_execute(2) [OF assms(6), of facts i m] assms(8)
  obtain r where m: "m = TaskResult i r" "dict_get r ''node_id'' = PStr (wr_node_id w)" by auto
  have again: "worker_execute wcf facts' i w1 = (Inr m, w1)"
  proof (cases rule: execute_cases [of w i wcf facts])
    case (cached q)
    with assms(8) show ?thesis by (simp add: worker_execute_def)
  next
    case (fresh q)
    with assms(8) m(1) have "map_of (wr_completed w1) i = Some r"
      using remember_last [OF assms(7)] by (auto simp: construct_Inr_iff)
    with m(1) show ?thesis by (simp add: worker_execute_def)
  qed (use assms(8) in simp)
  have c: "next_command n s1 = (Some (TaskRequest i timeout), s2)" unfolding s2_def next_command_def using sent(1) by simp
  then have s2: "map_of (nd_connections s2) node = Some n" "map_of (wk_pending (nd_sessions s2 n)) i = Some f"
    "nd_probes s2 f = nd_probes s1 f"
    using sent by (auto simp: next_command_def)
  have "s3 = set_future f (Returned r) (update_session n (\<lambda>x. x\<lparr>wk_pending := dict_pop i (wk_pending x)\<rparr>) s2)"
    unfolding s3_def m(1) by (simp add: receive_result_def s2)
  then have "fst (conclude_probe cf world' f s3) = Inr \<lparr>pb_task_id = i, pb_node_id = node, pb_result = r\<rparr>"
    "map_of (wk_pending (nd_sessions s3 n)) i = None"
    using sent(4) s2(3) by (simp_all add: conclude_probe_def Let_def)
  with c m again show ?thesis by simp
qed

definition sample_worker_config :: worker_config where
  "sample_worker_config = \<lparr>wk_role = WorkerRole, wk_enabled = True, wk_core_url = Some ''http://core/'', wk_secret = Some ''k'',
     wk_name = ''n'', wk_max_tasks = 2, wk_reconnect_max = 30, wk_proof = (\<lambda>secret i. secret @ i)\<rparr>"

definition sample_facts :: host_facts where
  "sample_facts = \<lparr>hf_page_size = Some 4096, hf_phys_pages = Some 100, hf_free_pages = None, hf_load = None,
     hf_system = ''Linux'', hf_machine = [], hf_cpu_count = Some 4\<rparr>"

theorem probe_round_trip_witness:
  "\<exists>r. dict_get r ''node_id'' = PStr ''worker_1'' \<and>
     fst (conclude_probe sample_node_config sample_world 0 (receive_result sample_node_config sample_world ''worker_1''
       (TaskResult ''task_0001'' r) (snd (next_command 0 sample_nodes)))) =
     Inr \<lparr>pb_task_id = ''task_0001'', pb_node_id = ''worker_1'', pb_result = r\<rparr>"
proof -
  let ?w = "\<lparr>wr_node_id = ''worker_1'', wr_completed = []\<rparr>"
  have reg: "register_probe sample_node_config ''worker_1'' ''task_0001'' 10 sample_idle = (Inr 0, sample_nodes)"
    unfolding sample_nodes_registered
    by (simp add: sample_idle_state register_probe_def Let_def sample_request put_nowait_def dict_put_def
        sample_node_config_def [THEN arg_cong [of _ _ nc_max_tasks]] sample_node_config_def [THEN arg_cong [of _ _ nc_max_messages]])
  have ok: "worker_ok sample_worker_config ?w" "0 < wk_max_tasks sample_worker_config"
    by (simp_all add: worker_ok_def sample_worker_config_def)
  obtain m w1 where e: "worker_execute sample_worker_config sample_facts ''task_0001'' ?w = (Inr m, w1)"
    by (simp add: worker_execute_def safe_capabilities_def host_capabilities_def sample_facts_def Let_def memory_facts_def
        capabilities_ok_def resources_ok_def length_within_def construct_def)
  have conn: "map_of (nd_connections sample_idle) ''worker_1'' = Some 0" "wk_queue (nd_sessions sample_idle 0) = []"
    by (simp_all add: sample_idle_state)
  show ?thesis using probe_round_trip [OF reg conn ok e, of sample_world sample_world sample_facts] by auto
qed

end
