(* ===== verification/Worker_Loop.thy ===== *)
theory Worker_Loop
  imports Worker "HOL-Library.Sublist"
begin

text \<open>
  The loops of \<open>worker.py\<close>: \<open>WorkerClient.run\<close> with its growing delays, and the exchange of messages over
  one connection in \<open>_connect_once\<close>. What the websocket and the clock do is given turn by turn: a list of
  attempts to connect, each with the turns of its connection. A list that ends before the loop does
  describes a worker that is still running.
\<close>

section \<open>One connection\<close>

datatype incoming =
    Frame string
  | BinaryFrame
  | Quiet \<comment> \<open>nothing came for \<open>worker_heartbeat_interval_seconds\<close>\<close>
  | Lost exn \<comment> \<open>\<open>recv\<close> raises: the connection is closed, or the task is cancelled\<close>

record turn =
  tn_stopped :: bool \<comment> \<open>\<open>stop\<close> has been called when the turn begins\<close>
  tn_event :: incoming
  tn_facts :: host_facts
  tn_send :: "exn option" \<comment> \<open>how \<open>send\<close> fails in this turn\<close>

datatype outcome = StillOpen | Finished | Raised exn

type_synonym exchange = "outcome \<times> message list \<times> worker"

definition after_send :: "message \<Rightarrow> exn option \<Rightarrow> worker \<Rightarrow> exchange \<Rightarrow> exchange" where
  \<comment> \<open>\<open>websocket.send(m)\<close>, then the rest, which is not reached when it raises\<close>
  "after_send m failure w rest = (case failure of
     Some e \<Rightarrow> (Raised e, [], w) | None \<Rightarrow> (case rest of (out, ms, w) \<Rightarrow> (out, m # ms, w)))"

fun session_loop :: "worker_config \<Rightarrow> (string \<Rightarrow> message option) \<Rightarrow> turn list \<Rightarrow> worker \<Rightarrow> exchange" where
  "session_loop cf decode [] w = (StillOpen, [], w)"
| "session_loop cf decode (t # ts) w =
     (if tn_stopped t then (Finished, [], w)
      else case tn_event t of
        Quiet \<Rightarrow> (case heartbeat_message (tn_facts t) of
            Inl e \<Rightarrow> (Raised e, [], w) | Inr m \<Rightarrow> after_send m (tn_send t) w (session_loop cf decode ts w))
      | Lost e \<Rightarrow> (Raised e, [], w)
      | BinaryFrame \<Rightarrow> (Finished, [], w)
      | Frame raw \<Rightarrow> (case answer cf (tn_facts t) decode raw w of
            (Inl e, w) \<Rightarrow> (Raised e, [], w)
          | (Inr Close, w) \<Rightarrow> (Finished, [], w)
          | (Inr Silent, w) \<Rightarrow> session_loop cf decode ts w
          | (Inr (Reply m), w) \<Rightarrow> after_send m (tn_send t) w (session_loop cf decode ts w)))"

record attempt =
  at_connect :: "exn option" \<comment> \<open>how \<open>connect\<close> fails\<close>
  at_facts :: host_facts
  at_send :: "exn option"
  at_ack :: "exn option" \<comment> \<open>how waiting for the acknowledgement fails\<close>
  at_turns :: "turn list"
  at_cut :: bool \<comment> \<open>the task is cancelled in the wait that follows a failure\<close>

definition connect_once :: "worker_config \<Rightarrow> (string \<Rightarrow> message option) \<Rightarrow> attempt \<Rightarrow> worker \<Rightarrow> exchange" where
  \<comment> \<open>the acknowledgement is awaited, not looked at\<close>
  "connect_once cf decode x w = (case at_connect x of
     Some e \<Rightarrow> (Raised e, [], w)
   | None \<Rightarrow> (case hello_message cf (at_facts x) w of
        Inl e \<Rightarrow> (Raised e, [], w)
      | Inr hello \<Rightarrow> after_send hello (at_send x) w (case at_ack x of
            Some e \<Rightarrow> (Raised e, [], w) | None \<Rightarrow> session_loop cf decode (at_turns x) w)))"

section \<open>The life of the worker\<close>

fun client_run :: "worker_config \<Rightarrow> (string \<Rightarrow> message option) \<Rightarrow> (bool \<times> attempt) list \<Rightarrow> rat \<Rightarrow> worker \<Rightarrow>
    outcome \<times> rat list \<times> message list \<times> worker" where
  \<comment> \<open>the delays it waits, at most, for a stop, and what it sends; every attempt comes with whether the worker is
    stopped before it\<close>
  "client_run cf decode [] delay w = (StillOpen, [], [], w)"
| "client_run cf decode ((stopped, x) # xs) delay w =
     (if stopped then (Finished, [], [], w)
      else case connect_once cf decode x w of
        (StillOpen, ms, w) \<Rightarrow> (StillOpen, [], ms, w)
      | (Raised CancelledError, ms, w) \<Rightarrow> (Raised CancelledError, [], ms, w)
      | (Raised e, ms, w) \<Rightarrow>
          if at_cut x then (Raised CancelledError, [delay], ms, w)
          else (case client_run cf decode xs (next_delay cf False delay) w of
            (out, ds, ms', w) \<Rightarrow> (out, delay # ds, ms @ ms', w))
      | (Finished, ms, w) \<Rightarrow> (case client_run cf decode xs (next_delay cf True delay) w of
          (out, ds, ms', w) \<Rightarrow> (out, ds, ms @ ms', w)))"

section \<open>What the worker sends\<close>

definition asked :: "(string \<Rightarrow> message option) \<Rightarrow> turn \<Rightarrow> string list" where
  \<comment> \<open>the task a turn's frame asks for\<close>
  "asked decode t = (case tn_event t of
     Frame raw \<Rightarrow> (case decode raw of Some (TaskRequest i timeout) \<Rightarrow> [i] | _ \<Rightarrow> []) | _ \<Rightarrow> [])"

definition asked_in :: "(string \<Rightarrow> message option) \<Rightarrow> (bool \<times> attempt) list \<Rightarrow> string list" where
  "asked_in decode xs = concat (map (\<lambda>(_, x). concat (map (asked decode) (at_turns x))) xs)"

fun result_id :: "message \<Rightarrow> string list" where
  "result_id (TaskResult i r) = [i]"
| "result_id _ = []"

definition results_of :: "message list \<Rightarrow> string list" where
  "results_of ms = concat (map result_id ms)"

fun own_message :: "string \<Rightarrow> message \<Rightarrow> bool" where
  "own_message me (WorkerHello i name caps) = (i = me)"
| "own_message me (WorkerHeartbeat r) = True"
| "own_message me (TaskResult i r) = (dict_get r ''node_id'' = PStr me)"
| "own_message me _ = False"

definition honest :: "worker_config \<Rightarrow> string list \<Rightarrow> worker \<Rightarrow> message list \<Rightarrow> worker \<Rightarrow> bool" where
  \<comment> \<open>what is sent while the worker goes from \<open>w\<close> to \<open>w'\<close>, with these tasks asked for\<close>
  "honest cf ids w ms w' \<longleftrightarrow> worker_ok cf w' \<and> wr_node_id w' = wr_node_id w \<and>
     list_all (own_message (wr_node_id w)) ms \<and> subseq (results_of ms) ids"

lemma honest_nothing: "worker_ok cf w \<Longrightarrow> honest cf ids w [] w"
  by (simp add: honest_def results_of_def)

lemma honest_seq:
  assumes "honest cf ids w ms w1" "honest cf ids' w1 ms' w2"
  shows "honest cf (ids @ ids') w (ms @ ms') w2"
  using assms by (auto simp: honest_def results_of_def intro: list_emb_append_mono)

lemma honest_silent: "worker_ok cf w' \<Longrightarrow> wr_node_id w' = wr_node_id w \<Longrightarrow> honest cf ids w [] w'"
  by (simp add: honest_def results_of_def)

lemma execute_keeps_id: "wr_node_id (snd (worker_execute cf facts i w)) = wr_node_id w"
  by (cases rule: execute_cases [of w i cf facts]) auto

lemma answer_honest:
  assumes "worker_ok cf w" "answer cf facts decode raw w = (r, w')" "tn_event t = Frame raw"
  shows "honest cf (asked decode t) w (case r of Inr (Reply m) \<Rightarrow> [m] | _ \<Rightarrow> []) w'"
proof (cases "\<exists>i timeout. validate_json decode server_message raw = Inr (TaskRequest i timeout) \<and> \<not> MAX_MESSAGE_BYTES < utf8_length raw")
  case True
  then obtain i timeout where v: "validate_json decode server_message raw = Inr (TaskRequest i timeout)"
    "\<not> MAX_MESSAGE_BYTES < utf8_length raw" by blast
  from validate_json_Inr [OF v(1)] have ask: "asked decode t = [i]" using assms(3) by (simp add: asked_def)
  from worker_ok_execute(1) [OF assms(1), of facts i] execute_keeps_id [of cf facts i w]
  have ok: "worker_ok cf (snd (worker_execute cf facts i w))" "wr_node_id (snd (worker_execute cf facts i w)) = wr_node_id w" .
  show ?thesis
  proof (cases "fst (worker_execute cf facts i w)")
    case (Inl e)
    then show ?thesis using assms(2) v ok by (cases "worker_execute cf facts i w") (auto simp: answer_def intro: honest_silent)
  next
    case (Inr m)
    from worker_ok_execute(2) [OF assms(1) Inr] obtain q where q: "m = TaskResult i q" "dict_get q ''node_id'' = PStr (wr_node_id w)"
      by blast
    have "r = Inr (Reply m)" "w' = snd (worker_execute cf facts i w)"
      using assms(2) v Inr by (cases "worker_execute cf facts i w"; auto simp: answer_def)+
    then show ?thesis using ok q by (simp add: honest_def results_of_def ask)
  qed
next
  case False
  then have "(\<forall>m. r \<noteq> Inr (Reply m)) \<and> w' = w"
    using assms(2) by (auto simp: answer_def split: sum.splits message.splits if_splits)
  then show ?thesis using assms(1) by (auto intro!: honest_nothing split: sum.split reply.split)
qed

lemma after_send_honest:
  assumes "after_send m failure w1 rest = (out, ms, w')" "honest cf ids w [m] w1"
    and "\<And>o2 ms2 w2. rest = (o2, ms2, w2) \<Longrightarrow> honest cf ids' w1 ms2 w2"
  shows "honest cf (ids @ ids') w ms w'"
proof (cases failure)
  case None
  then obtain ms2 where r: "rest = (out, ms2, w')" "ms = m # ms2" using assms(1) by (auto simp: after_send_def split: prod.splits)
  from honest_seq [OF assms(2) assms(3) [OF r(1)]] show ?thesis by (simp add: r(2))
next
  case (Some e)
  then have "ms = []" "w' = w1" using assms(1) by (simp_all add: after_send_def)
  with assms(2) show ?thesis by (auto simp: honest_def results_of_def)
qed

lemma session_honest:
  "worker_ok cf w \<Longrightarrow> session_loop cf decode ts w = (out, ms, w') \<Longrightarrow>
   honest cf (concat (map (asked decode) ts)) w ms w'"
proof (induction ts arbitrary: w out ms w')
  case Nil
  then show ?case by (simp add: honest_nothing)
next
  case (Cons t ts)
  note silent = honest_silent [OF Cons.prems(1) refl]
  show ?case
  proof (cases "tn_stopped t")
    case True
    then show ?thesis using Cons.prems silent by auto
  next
    case run: False
    show ?thesis
    proof (cases "tn_event t")
      case (Frame raw)
      obtain r w1 where a: "answer cf (tn_facts t) decode raw w = (r, w1)" by (cases "answer cf (tn_facts t) decode raw w")
      note h = answer_honest [OF Cons.prems(1) a Frame]
      then have ok: "worker_ok cf w1" "wr_node_id w1 = wr_node_id w" by (simp_all add: honest_def)
      note later = Cons.IH [OF ok(1)]
      consider e where "r = Inl e" | "r = Inr Close" | "r = Inr Silent" | m where "r = Inr (Reply m)"
        by (metis reply.exhaust sum.exhaust)
      then show ?thesis
      proof cases
        case 3
        then show ?thesis using Cons.prems(2) run Frame a h later honest_seq [of cf "asked decode t" w "[]" w1]
          by simp
      next
        case (4 m)
        then have "after_send m (tn_send t) w1 (session_loop cf decode ts w1) = (out, ms, w')"
          using Cons.prems(2) run Frame a by simp
        from after_send_honest [OF this _ later, of "asked decode t" w] h 4 show ?thesis by simp
      qed (use Cons.prems(2) run Frame a ok honest_silent in auto)
    next
      case Quiet
      show ?thesis
      proof (cases "heartbeat_message (tn_facts t)")
        case (Inr m)
        then have m: "\<exists>r. m = WorkerHeartbeat r" by (auto simp: heartbeat_message_def construct_Inr_iff exn_simps)
        then have "honest cf [] w [m] w" using Cons.prems(1) by (auto simp: honest_def results_of_def)
        moreover have "after_send m (tn_send t) w (session_loop cf decode ts w) = (out, ms, w')"
          using Cons.prems(2) run Quiet Inr by simp
        ultimately have "honest cf ([] @ concat (map (asked decode) ts)) w ms w'"
          using Cons.IH [OF Cons.prems(1)] after_send_honest by blast
        moreover have "asked decode t = []" by (simp add: asked_def Quiet)
        ultimately show ?thesis by simp
      qed (use Cons.prems run Quiet silent in auto)
    qed (use Cons.prems run silent in auto)
  qed
qed

lemma connect_honest:
  assumes "worker_ok cf w" "connect_once cf decode x w = (out, ms, w')"
  shows "honest cf (concat (map (asked decode) (at_turns x))) w ms w'"
proof -
  note silent = honest_silent [OF assms(1) refl]
  show ?thesis
  proof (cases "at_connect x = None \<and> (\<exists>h. hello_message cf (at_facts x) w = Inr h)")
    case True
    then obtain h where h: "at_connect x = None" "hello_message cf (at_facts x) w = Inr h" by blast
    then have "\<exists>name caps. h = WorkerHello (wr_node_id w) name caps" by (auto simp: hello_message_def construct_Inr_iff exn_simps)
    then have one: "honest cf [] w [h] w" using assms(1) by (auto simp: honest_def results_of_def)
    let ?rest = "case at_ack x of Some e \<Rightarrow> (Raised e, [], w) | None \<Rightarrow> session_loop cf decode (at_turns x) w"
    have "after_send h (at_send x) w ?rest = (out, ms, w')" using assms(2) h by (simp add: connect_once_def)
    moreover have "honest cf (concat (map (asked decode) (at_turns x))) w ms2 w2" if "?rest = (o2, ms2, w2)" for o2 ms2 w2
      using that session_honest [OF assms(1)] silent by (cases "at_ack x") auto
    ultimately have "honest cf ([] @ concat (map (asked decode) (at_turns x))) w ms w'" using one after_send_honest by blast
    then show ?thesis by simp
  next
    case False
    then have "ms = [] \<and> w' = w" using assms(2) by (auto simp: connect_once_def split: option.splits sum.splits)
    then show ?thesis using silent by simp
  qed
qed

lemma run_honest:
  "worker_ok cf w \<Longrightarrow> client_run cf decode xs delay w = (out, ds, ms, w') \<Longrightarrow> honest cf (asked_in decode xs) w ms w'"
proof (induction xs arbitrary: delay w out ds ms w')
  case Nil
  then show ?case by (simp add: honest_nothing)
next
  case (Cons p xs)
  obtain stopped x where p: "p = (stopped, x)" by (cases p)
  obtain o1 ms1 w1 where c: "connect_once cf decode x w = (o1, ms1, w1)" by (cases "connect_once cf decode x w")
  note h = connect_honest [OF Cons.prems(1) c]
  then have ok: "worker_ok cf w1" by (simp add: honest_def)
  have first: "honest cf (asked_in decode (p # xs)) w ms1 w1"
    using h by (auto simp: honest_def asked_in_def p intro: list_emb_append2)
  have both: "honest cf (asked_in decode (p # xs)) w (ms1 @ ms2) w2" if "client_run cf decode xs d w1 = (o2, ds2, ms2, w2)"
    for d o2 ds2 ms2 w2
    using honest_seq [OF h Cons.IH [OF ok that]] by (simp add: asked_in_def p)
  show ?case
  proof (cases stopped)
    case True
    then show ?thesis using Cons.prems by (auto simp: p intro: honest_silent)
  next
    case False
    then show ?thesis using Cons.prems(2) first both
      by (auto simp: p c split: outcome.splits exn.splits prod.splits if_splits)
  qed
qed

text \<open>
  C40: whatever the core and the connection do, a worker only ever sends greetings under its own id,
  heartbeats, and results that carry its own id; it answers requests it has received, each at most once and
  in their order; and it never remembers more results than it may hold tasks.
\<close>

theorem worker_answers_what_it_is_asked:
  assumes "new_client cf fresh content = (Inr w, content')" "client_run cf decode xs delay w = (out, ds, ms, w')"
  shows "list_all (own_message (wr_node_id w)) ms \<and> subseq (results_of ms) (asked_in decode xs) \<and>
    length (wr_completed w') \<le> wk_max_tasks cf"
  using run_honest [OF worker_ok_new [OF assms(1)] assms(2)] by (simp add: honest_def worker_ok_def)

section \<open>The delays\<close>

lemma next_delay_bounds:
  assumes "0 < wk_reconnect_max cf" "0 < d"
  shows "0 < next_delay cf ended d" "next_delay cf ended d \<le> wk_reconnect_max cf"
  using assms by (simp_all add: next_delay_def min_def)

lemma run_delays:
  assumes "0 < wk_reconnect_max cf"
  shows "client_run cf decode xs delay w = (out, ds, ms, w') \<Longrightarrow> 0 < delay \<Longrightarrow> delay \<le> b \<Longrightarrow> wk_reconnect_max cf \<le> b \<Longrightarrow>
    list_all (\<lambda>d. 0 < d \<and> d \<le> b) ds \<and> length ds \<le> length xs"
proof (induction xs arbitrary: delay w out ds ms w')
  case (Cons p xs)
  obtain stopped x where p: "p = (stopped, x)" by (cases p)
  obtain o1 ms1 w1 where c: "connect_once cf decode x w = (o1, ms1, w1)" by (cases "connect_once cf decode x w")
  have later: "list_all (\<lambda>d. 0 < d \<and> d \<le> b) ds2 \<and> length ds2 \<le> length xs"
    if "client_run cf decode xs (next_delay cf ended delay) w1 = (o2, ds2, ms2, w2)" for ended o2 ds2 ms2 w2
    using next_delay_bounds [OF assms Cons.prems(2), of ended] Cons.prems(4)
    by (intro Cons.IH [OF that]) auto
  show ?case
    using Cons.prems later by (auto simp: p c split: if_splits outcome.splits exn.splits prod.splits intro: le_SucI)
qed simp

definition unreachable :: "bool \<times> attempt \<Rightarrow> bool" where
  "unreachable p \<longleftrightarrow> \<not> fst p \<and> \<not> at_cut (snd p) \<and> (\<exists>e. at_connect (snd p) = Some e \<and> e \<noteq> CancelledError)"

lemma run_unreachable:
  assumes "unreachable p"
  shows "client_run cf decode (p # xs) delay w =
    (case client_run cf decode xs (next_delay cf False delay) w of (out, ds, ms, w) \<Rightarrow> (out, delay # ds, ms, w))"
proof -
  from assms obtain x e where p: "p = (False, x)" "at_connect x = Some e" "e \<noteq> CancelledError" "\<not> at_cut x"
    by (cases p) (auto simp: unreachable_def)
  then have "connect_once cf decode x w = (Raised e, [], w)" by (simp add: connect_once_def)
  with p show ?thesis by (cases e) (simp_all split: prod.split)
qed

lemma unreachable_delays:
  assumes "0 < wk_reconnect_max cf"
  shows "list_all unreachable xs \<Longrightarrow> client_run cf decode xs delay w = (StillOpen,
    map (\<lambda>k. if k = 0 then delay else min (delay * 2 ^ k) (wk_reconnect_max cf)) [0..<length xs], [], w)"
proof (induction xs arbitrary: delay)
  case (Cons p xs)
  let ?M = "wk_reconnect_max cf"
  have M: "?M \<le> ?M * 2 ^ k" for k using assms by (simp add: mult_le_cancel_left1)
  have "min (min (delay * 2) ?M * 2 ^ k) ?M = min (delay * 2 ^ Suc k) ?M" for k
  proof (cases "delay * 2 \<le> ?M")
    case False
    then have "?M * 2 ^ k \<le> delay * 2 ^ Suc k" using mult_right_mono [of ?M "delay * 2" "2 ^ k"] by (simp add: mult.assoc)
    with M [of k] have "min (delay * 2 ^ Suc k) ?M = ?M" by (intro min_absorb2) (rule order.trans)
    with False M [of k] show ?thesis by (simp add: min_absorb2)
  qed (simp add: min_def)
  then have "(if k = 0 then next_delay cf False delay else min (next_delay cf False delay * 2 ^ k) ?M) = min (delay * 2 ^ Suc k) ?M" for k
    by (cases "k = 0") (simp_all add: next_delay_def)
  with Cons show ?case by (simp add: run_unreachable map_upt_Suc del: client_run.simps upt_Suc)
qed simp

text \<open>
  The worker's delays between attempts are positive and never longer than the configured maximum, or
  the second it begins with; while the core cannot be reached they double from one second on until the
  maximum is met.
\<close>

theorem reconnect_delays_are_bounded:
  assumes "0 < wk_reconnect_max cf"
  shows "list_all (\<lambda>d. 0 < d \<and> d \<le> max 1 (wk_reconnect_max cf)) (fst (snd (client_run cf decode xs 1 w))) \<and>
    length (fst (snd (client_run cf decode xs 1 w))) \<le> length xs \<and>
    (list_all unreachable xs \<longrightarrow> fst (snd (client_run cf decode xs 1 w)) =
       map (\<lambda>k. if k = 0 then 1 else min (2 ^ k) (wk_reconnect_max cf)) [0..<length xs])"
proof -
  obtain out ds ms w' where r: "client_run cf decode xs 1 w = (out, ds, ms, w')"
    by (cases "client_run cf decode xs 1 w") auto
  from run_delays [OF assms r, of "max 1 (wk_reconnect_max cf)"] have
    "list_all (\<lambda>d. 0 < d \<and> d \<le> max 1 (wk_reconnect_max cf)) ds \<and> length ds \<le> length xs" by simp
  moreover have "fst (snd (client_run cf decode xs 1 w)) =
      map (\<lambda>k. if k = 0 then 1 else min (2 ^ k) (wk_reconnect_max cf)) [0..<length xs]" if "list_all unreachable xs"
    by (simp add: unreachable_delays [OF assms that])
  ultimately show ?thesis by (simp add: r)
qed

definition refused_attempt :: attempt where
  "refused_attempt = \<lparr>at_connect = Some HttpError, at_facts = sample_facts, at_send = None, at_ack = None, at_turns = [],
     at_cut = False\<rparr>"

definition asking_attempt :: attempt where
  "asking_attempt = \<lparr>at_connect = None, at_facts = sample_facts, at_send = None, at_ack = None,
     at_turns = [\<lparr>tn_stopped = False, tn_event = Frame ''probe'', tn_facts = sample_facts, tn_send = None\<rparr>,
       \<lparr>tn_stopped = True, tn_event = Quiet, tn_facts = sample_facts, tn_send = None\<rparr>], at_cut = False\<rparr>"

definition sample_decode :: "string \<Rightarrow> message option" where
  "sample_decode raw = (if raw = ''probe'' then Some (TaskRequest ''task_0001'' 10) else None)"

theorem reconnect_delays_are_bounded_witness:
  "fst (snd (client_run sample_worker_config sample_decode (replicate 6 (False, refused_attempt)) 1
     \<lparr>wr_node_id = ''worker_1'', wr_completed = []\<rparr>)) = [1, 2, 4, 8, 16, 30]"
proof -
  have "0 < wk_reconnect_max sample_worker_config" by (simp add: sample_worker_config_def)
  moreover have "list_all unreachable (replicate 6 (False, refused_attempt))"
    by (simp add: numeral_eq_Suc unreachable_def refused_attempt_def)
  ultimately show ?thesis
    using reconnect_delays_are_bounded [of sample_worker_config sample_decode "replicate 6 (False, refused_attempt)"]
    by (simp add: sample_worker_config_def upt_rec min_def)
qed

lemma sample_worker_session:
  "new_client sample_worker_config 0 (Some ''worker_1'') = (Inr \<lparr>wr_node_id = ''worker_1'', wr_completed = []\<rparr>, Some ''worker_1'')"
  "\<exists>ds ms w'. client_run sample_worker_config sample_decode [(False, refused_attempt), (False, asking_attempt)] 1
     \<lparr>wr_node_id = ''worker_1'', wr_completed = []\<rparr> = (StillOpen, ds, ms, w') \<and> results_of ms = [''task_0001'']"
   apply (simp add: new_client_def sample_worker_config_def falsy_def load_node_id_def Let_def py_strip_def py_isspace_def)
  apply (simp add: sample_worker_config_def refused_attempt_def asking_attempt_def connect_once_def hello_message_def
      safe_capabilities_def host_capabilities_def sample_facts_def Let_def memory_facts_def capabilities_ok_def resources_ok_def
      length_within_def construct_def opaque_id_def id_char_def after_send_def answer_def MAX_MESSAGE_BYTES_def
      validate_json_def sample_decode_def worker_execute_def results_of_def remember_def dict_pop_def ebind_def utf8_length_def)
  done

theorem worker_answers_what_it_is_asked_witness:
  "\<exists>ds ms w'. client_run sample_worker_config sample_decode [(False, refused_attempt), (False, asking_attempt)] 1
     \<lparr>wr_node_id = ''worker_1'', wr_completed = []\<rparr> = (StillOpen, ds, ms, w') \<and> results_of ms = [''task_0001''] \<and>
   list_all (own_message ''worker_1'') ms \<and>
   subseq (results_of ms) (asked_in sample_decode [(False, refused_attempt), (False, asking_attempt)])"
  using sample_worker_session(2) worker_answers_what_it_is_asked [OF sample_worker_session(1)] by fastforce

end
