(* ===== verification/Approvals.thy ===== *)
theory Approvals
  imports Events
begin

text \<open>
  \<open>ApprovalService\<close> of \<open>services/remote.py\<close>: pending decisions held in the process, each with a
  future that a waiting task is resumed by. An operation returns its result, the new state and the
  events it publishes. Waiting is split at its suspension: \<open>wait_for_decision\<close> is what happens when the
  waiting task is woken by the decision, by its timeout or by its own cancellation.
\<close>

datatype approval_status = Pending | Approved | Rejected | Expired | ApprovalCancelled

fun approval_status_value :: "approval_status \<Rightarrow> string" where
  "approval_status_value Pending = ''pending''"
| "approval_status_value Approved = ''approved''"
| "approval_status_value Rejected = ''rejected''"
| "approval_status_value Expired = ''expired''"
| "approval_status_value ApprovalCancelled = ''cancelled''"

record approval =
  apv_id :: string
  apv_project_id :: string
  apv_action :: string
  apv_description :: string
  apv_requested_by :: string
  apv_risk :: "string option"
  apv_status :: approval_status
  apv_run_id :: "string option"
  apv_task_id :: "string option"
  apv_expires_at :: "time option"
  apv_created_at :: time
  apv_metadata :: pydict

record approvals =
  ap_requests :: "string \<rightharpoonup> approval"
  ap_order :: "string list" \<comment> \<open>the keys of the dictionary in insertion order\<close>
  ap_decisions :: "string \<rightharpoonup> approval_status option" \<comment> \<open>the futures and their results\<close>

definition no_approvals :: approvals where
  "no_approvals = \<lparr>ap_requests = Map.empty, ap_order = [], ap_decisions = Map.empty\<rparr>"

definition approval_event :: "uuid \<Rightarrow> time \<Rightarrow> event_type \<Rightarrow> approval \<Rightarrow> event" where
  "approval_event u now ty a =
     event_create u now ty (apv_project_id a) (apv_run_id a) (apv_task_id a) None None ''info''
       [(''approval_id'', PStr (apv_id a)), (''action'', PStr (apv_action a)),
        (''status'', PStr (approval_status_value (apv_status a)))]"

definition set_request :: "approval \<Rightarrow> approvals \<Rightarrow> approvals" where
  "set_request a s = s\<lparr>ap_requests := (ap_requests s)(apv_id a \<mapsto> a),
     ap_order := (if ap_requests s (apv_id a) = None then ap_order s @ [apv_id a] else ap_order s)\<rparr>"

definition resolve_decision :: "string \<Rightarrow> approval_status \<Rightarrow> approvals \<Rightarrow> approvals" where
  \<comment> \<open>\<open>if decision is not None and not decision.done(): decision.set_result(status)\<close>\<close>
  "resolve_decision i st s =
     (case ap_decisions s i of Some None \<Rightarrow> s\<lparr>ap_decisions := (ap_decisions s)(i \<mapsto> Some st)\<rparr> | _ \<Rightarrow> s)"

definition approval_create :: "world \<Rightarrow> string \<Rightarrow> string \<Rightarrow> string \<Rightarrow> string \<Rightarrow> string option \<Rightarrow> string option \<Rightarrow>
    time option \<Rightarrow> approvals \<Rightarrow> approval \<times> approvals \<times> event list" where
  "approval_create w project action description requested_by run task expires s =
     (let a = \<lparr>apv_id = ''apr_'' @ uuid_hex (w_uuid4 w 0), apv_project_id = project, apv_action = action,
            apv_description = description, apv_requested_by = requested_by, apv_risk = None,
            apv_status = Pending, apv_run_id = run, apv_task_id = task, apv_expires_at = expires,
            apv_created_at = w_now w, apv_metadata = []\<rparr>;
          s = set_request a s;
          s = s\<lparr>ap_decisions := (ap_decisions s)(apv_id a \<mapsto> None)\<rparr>
      in (a, s, [approval_event (w_uuid4 w 1) (w_now w) APPROVAL_REQUIRED a]))"

definition decide :: "world \<Rightarrow> string \<Rightarrow> bool \<Rightarrow> approvals \<Rightarrow> (exn + approval) \<times> approvals \<times> event list" where
  "decide w i approved s =
     (case ap_requests s i of
        None \<Rightarrow> (Inl (KeyError i), s, [])
      | Some a \<Rightarrow>
          if apv_status a \<noteq> Pending then (Inl (LifecycleConflictError ''Approval is no longer pending''), s, [])
          else if (case apv_expires_at a of None \<Rightarrow> False | Some t \<Rightarrow> t \<le> w_now w) then
            let a = a\<lparr>apv_status := Expired\<rparr> in
            (Inl (LifecycleConflictError ''Approval has expired''), set_request a s,
             [approval_event (w_uuid4 w 0) (w_now w) APPROVAL_EXPIRED a])
          else
            let a = a\<lparr>apv_status := (if approved then Approved else Rejected)\<rparr> in
            (Inr a, resolve_decision (apv_id a) (apv_status a) (set_request a s),
             [approval_event (w_uuid4 w 0) (w_now w) (if approved then APPROVAL_APPROVED else APPROVAL_REJECTED) a]))"

definition cancel_approval :: "string \<Rightarrow> approvals \<Rightarrow> approvals" where
  "cancel_approval i s =
     (case ap_requests s i of
        None \<Rightarrow> s
      | Some a \<Rightarrow>
          if apv_status a \<noteq> Pending then s
          else let a = a\<lparr>apv_status := ApprovalCancelled\<rparr> in
            resolve_decision (apv_id a) (apv_status a) (set_request a s))"

datatype wake = WokenByDecision | WokenByTimeout | WokenByCancellation

definition wait_for_decision :: "world \<Rightarrow> wake \<Rightarrow> string \<Rightarrow> approvals \<Rightarrow> (exn + string) \<times> approvals \<times> event list" where
  \<comment> \<open>an unknown approval is answered at once, a known one when the waiting task is woken\<close>
  "wait_for_decision w k i s =
     (if ap_requests s i = None \<or> ap_decisions s i = None then (Inr ''cancelled'', s, [])
      else case k of
        WokenByDecision \<Rightarrow>
          (case ap_decisions s i of
             Some (Some st) \<Rightarrow> (Inr (approval_status_value st), s, [])
           | _ \<Rightarrow> (Inl (RuntimeError ''the future has no result''), s, []))
      | WokenByTimeout \<Rightarrow>
          (case ap_requests s i of
             Some a \<Rightarrow>
               if apv_status a = Pending then
                 let a = a\<lparr>apv_status := Expired\<rparr> in
                 (Inr ''expired'', set_request a s, [approval_event (w_uuid4 w 0) (w_now w) APPROVAL_EXPIRED a])
               else (Inr ''expired'', s, [])
           | None \<Rightarrow> (Inr ''expired'', s, []))
      | WokenByCancellation \<Rightarrow> (Inl CancelledError, cancel_approval i s, []))"

definition list_pending :: "string option \<Rightarrow> approvals \<Rightarrow> approval list" where
  "list_pending project s =
     filter (\<lambda>a. apv_status a = Pending \<and> (project = None \<or> project = Some (apv_project_id a)))
       (List.map_filter (ap_requests s) (ap_order s))"

section \<open>Steps and their invariant\<close>

datatype approval_op =
    ApCreate string string string string "string option" "string option" "time option"
  | ApDecide string bool
  | ApWake wake string
  | ApCancel string

fun ap_do :: "world \<Rightarrow> approval_op \<Rightarrow> approvals \<Rightarrow> approvals" where
  "ap_do w (ApCreate p a d q r t e) s = fst (snd (approval_create w p a d q r t e s))"
| "ap_do w (ApDecide i b) s = fst (snd (decide w i b s))"
| "ap_do w (ApWake k i) s = fst (snd (wait_for_decision w k i s))"
| "ap_do w (ApCancel i) s = cancel_approval i s"

fun ap_allowed :: "world \<Rightarrow> approval_op \<Rightarrow> approvals \<Rightarrow> bool" where
  \<comment> \<open>ids drawn by \<open>uuid4\<close> are new\<close>
  "ap_allowed w (ApCreate p a d q r t e) s = (ap_requests s (''apr_'' @ uuid_hex (w_uuid4 w 0)) = None)"
| "ap_allowed w _ s = True"

inductive ap_step :: "approvals \<Rightarrow> approvals \<Rightarrow> bool" where
  step: "ap_allowed w x s \<Longrightarrow> ap_step s (ap_do w x s)"

inductive_cases ap_stepE: "ap_step s s'"

definition entry_ok :: "approvals \<Rightarrow> string \<Rightarrow> bool" where
  "entry_ok s i \<longleftrightarrow> (case ap_requests s i of
      None \<Rightarrow> True
    | Some a \<Rightarrow> apv_id a = i \<and> (case ap_decisions s i of
          None \<Rightarrow> False
        | Some None \<Rightarrow> apv_status a \<in> {Pending, Expired}
        | Some (Some st) \<Rightarrow> apv_status a = st \<and> st \<in> {Approved, Rejected, ApprovalCancelled}))"

definition approvals_inv :: "approvals \<Rightarrow> bool" where
  "approvals_inv s \<longleftrightarrow> (\<forall>i. entry_ok s i)"

lemma approvals_inv_new: "approvals_inv no_approvals"
  by (simp add: approvals_inv_def entry_ok_def no_approvals_def)

lemma approvals_inv_change:
  assumes "approvals_inv s" "entry_ok s i \<Longrightarrow> entry_ok s' i"
    "\<And>j. j \<noteq> i \<Longrightarrow> ap_requests s' j = ap_requests s j \<and> ap_decisions s' j = ap_decisions s j"
  shows "approvals_inv s'"
  unfolding approvals_inv_def
proof
  fix j
  from assms(1) have ok: "entry_ok s j" "entry_ok s i" by (simp_all add: approvals_inv_def)
  show "entry_ok s' j"
  proof (cases "j = i")
    case True
    with assms(2) [OF ok(2)] show ?thesis by simp
  next
    case False
    then have "ap_requests s' j = ap_requests s j" "ap_decisions s' j = ap_decisions s j"
      using assms(3) by simp_all
    with ok(1) show ?thesis by (simp only: entry_ok_def)
  qed
qed

lemma entry_id: "entry_ok s i \<Longrightarrow> ap_requests s i = Some a \<Longrightarrow> apv_id a = i"
  by (simp add: entry_ok_def)

fun op_target :: "world \<Rightarrow> approval_op \<Rightarrow> string" where
  "op_target w (ApCreate p a d q r t e) = ''apr_'' @ uuid_hex (w_uuid4 w 0)"
| "op_target w (ApDecide i b) = i"
| "op_target w (ApWake k i) = i"
| "op_target w (ApCancel i) = i"

lemma ap_do_elsewhere:
  assumes "approvals_inv s" "j \<noteq> op_target w x"
  shows "ap_requests (ap_do w x s) j = ap_requests s j \<and> ap_decisions (ap_do w x s) j = ap_decisions s j"
proof -
  have id: "apv_id a = op_target w x" if "ap_requests s (op_target w x) = Some a" for a
    using assms(1) that by (auto simp: approvals_inv_def intro: entry_id)
  show ?thesis using assms(2) id
    by (cases x) (auto simp: approval_create_def decide_def wait_for_decision_def cancel_approval_def
        set_request_def resolve_decision_def Let_def split: option.splits if_splits wake.splits)
qed

lemma ap_do_target:
  assumes "entry_ok s (op_target w x)"
  shows "entry_ok (ap_do w x s) (op_target w x)"
proof (cases "ap_requests s (op_target w x)")
  case None
  with assms show ?thesis
    by (cases x) (auto simp: entry_ok_def approval_create_def decide_def wait_for_decision_def cancel_approval_def
        set_request_def Let_def)
next
  case (Some a)
  with assms entry_id [OF assms Some] show ?thesis
    by (cases x; cases "ap_decisions s (op_target w x)")
      (auto simp: entry_ok_def approval_create_def decide_def wait_for_decision_def cancel_approval_def
        set_request_def resolve_decision_def Let_def split: option.splits wake.splits)
qed

lemma ap_do_inv: "approvals_inv s \<Longrightarrow> approvals_inv (ap_do w x s)"
  by (rule approvals_inv_change [where i = "op_target w x"]) (simp_all add: ap_do_target ap_do_elsewhere)

lemma ap_steps_inv: "ap_step\<^sup>*\<^sup>* no_approvals s \<Longrightarrow> approvals_inv s"
  by (induction rule: rtranclp_induct) (auto elim!: ap_stepE intro: ap_do_inv approvals_inv_new)

lemma ap_do_final:
  assumes "ap_allowed w x s" "ap_requests s i = Some a" "apv_status a \<noteq> Pending" "approvals_inv s"
  shows "ap_requests (ap_do w x s) i = Some a"
proof (cases x)
  case (ApCreate p c d q r t e)
  with assms show ?thesis by (auto simp: approval_create_def set_request_def Let_def)
next
  case (ApDecide j b)
  from assms(4) have "entry_ok s j" by (simp add: approvals_inv_def)
  with ApDecide assms(2,3) show ?thesis
    by (auto simp: entry_ok_def decide_def set_request_def resolve_decision_def Let_def split: option.splits if_splits)
next
  case (ApWake k j)
  from assms(4) have "entry_ok s j" by (simp add: approvals_inv_def)
  with ApWake assms(2,3) show ?thesis
    by (auto simp: entry_ok_def wait_for_decision_def cancel_approval_def set_request_def resolve_decision_def Let_def
        split: option.splits if_splits wake.splits)
next
  case (ApCancel j)
  from assms(4) have "entry_ok s j" by (simp add: approvals_inv_def)
  with ApCancel assms(2,3) show ?thesis
    by (auto simp: entry_ok_def cancel_approval_def set_request_def resolve_decision_def Let_def
        split: option.splits if_splits)
qed

lemma ap_steps_final:
  assumes "ap_step\<^sup>*\<^sup>* s s'" "approvals_inv s" "ap_requests s i = Some a" "apv_status a \<noteq> Pending"
  shows "approvals_inv s' \<and> ap_requests s' i = Some a"
  using assms(1)
proof (induction rule: rtranclp_induct)
  case base
  with assms show ?case by simp
next
  case (step s1 s2)
  from step.hyps(2) step.IH assms(4) show ?case
    by (auto elim!: ap_stepE intro: ap_do_inv ap_do_final)
qed

lemma ap_steps_preserve: "ap_step\<^sup>*\<^sup>* s s' \<Longrightarrow> approvals_inv s \<Longrightarrow> approvals_inv s'"
  by (induction rule: rtranclp_induct) (auto elim!: ap_stepE intro: ap_do_inv)

lemma ap_do_kept: "ap_requests s i = Some a \<Longrightarrow> ap_requests (ap_do w x s) i \<noteq> None"
  by (cases x) (auto simp: approval_create_def decide_def wait_for_decision_def cancel_approval_def set_request_def
      resolve_decision_def Let_def split: option.splits if_splits wake.splits)

definition approval_moves :: "approval_status \<Rightarrow> approval_status \<Rightarrow> bool" where
  "approval_moves x y \<longleftrightarrow> (\<exists>s s' i a a'. ap_step\<^sup>*\<^sup>* no_approvals s \<and> ap_step s s' \<and> ap_requests s i = Some a \<and>
     ap_requests s' i = Some a' \<and> apv_status a = x \<and> apv_status a' = y)"

interpretation approval_life: status_machine approval_moves "\<lambda>x. x \<noteq> Pending"
proof
  fix x y
  assume "x \<noteq> Pending" "approval_moves x y"
  then obtain s s' i a a' where s: "ap_step\<^sup>*\<^sup>* no_approvals s" "ap_step s s'" "ap_requests s i = Some a"
    "ap_requests s' i = Some a'" "apv_status a = x" "apv_status a' = y" unfolding approval_moves_def by blast
  with ap_do_final [OF _ s(3) _ ap_steps_inv [OF s(1)]] \<open>x \<noteq> Pending\<close> show "y = x"
    by (auto elim!: ap_stepE)
qed

lemma wait_approved:
  assumes "approvals_inv s" "wait_for_decision w k i s = (Inr ''approved'', s', es)"
  shows "\<exists>a. ap_requests s i = Some a \<and> apv_status a = Approved \<and> s' = s"
proof -
  from assms(1) have "entry_ok s i" by (simp add: approvals_inv_def)
  with assms(2) show ?thesis
    by (auto simp: wait_for_decision_def entry_ok_def Let_def split: wake.splits option.splits if_splits
        elim: approval_status_value.elims)
qed

section \<open>Properties\<close>

text \<open>
  In every reachable state a decided approval is final: whatever is done next, its record stays
  exactly as it is; and no approval is ever dropped.
\<close>

theorem decided_approvals_stay_decided:
  assumes "ap_step\<^sup>*\<^sup>* no_approvals s" "ap_step s s'" "ap_requests s i = Some a"
  shows "(apv_status a \<noteq> Pending \<longrightarrow> ap_requests s' i = Some a) \<and> (\<exists>a'. ap_requests s' i = Some a')"
  using assms(2) ap_do_final [OF _ assms(3) _ ap_steps_inv [OF assms(1)]] ap_do_kept [OF assms(3)]
  by (auto elim!: ap_stepE)

definition approval_world :: world where
  "approval_world = \<lparr>w_now = 3, w_uuid4 = (\<lambda>n. n)\<rparr>"

definition one_approval :: approvals where
  "one_approval = ap_do approval_world (ApCreate ''p'' ''act'' ''d'' ''lexi'' None None None) no_approvals"

definition approval_key :: string where
  "approval_key = ''apr_'' @ uuid_hex 0"

lemma one_approval_get: "\<exists>a. ap_requests one_approval approval_key = Some a \<and> apv_id a = approval_key \<and>
   apv_status a = Pending \<and> apv_expires_at a = None"
  by (simp add: one_approval_def approval_create_def Let_def approval_world_def approval_key_def set_request_def)

lemma one_approval_reachable: "ap_step\<^sup>*\<^sup>* no_approvals one_approval"
  unfolding one_approval_def by (rule r_into_rtranclp, rule ap_step.step) (simp add: no_approvals_def)

lemma one_approval_decided: "\<exists>a. ap_requests (ap_do approval_world (ApDecide approval_key True) one_approval) approval_key = Some a \<and>
    apv_status a = Approved"
  using one_approval_get by (auto simp: decide_def Let_def set_request_def resolve_decision_def split: option.split)

theorem decided_approvals_stay_decided_witness:
  "\<exists>a. ap_requests (ap_do approval_world (ApCancel approval_key)
      (ap_do approval_world (ApDecide approval_key True) one_approval)) approval_key = Some a \<and> apv_status a = Approved"
proof -
  let ?s = "ap_do approval_world (ApDecide approval_key True) one_approval"
  have "ap_step one_approval ?s" by (rule ap_step.step) simp
  with one_approval_reachable have r: "ap_step\<^sup>*\<^sup>* no_approvals ?s" by (rule rtranclp.rtrancl_into_rtrancl)
  have s: "ap_step ?s (ap_do approval_world (ApCancel approval_key) ?s)" by (rule ap_step.step) simp
  from one_approval_decided obtain a where "ap_requests ?s approval_key = Some a" "apv_status a = Approved" by blast
  with decided_approvals_stay_decided [OF r s this(1)] show ?thesis by auto
qed

text \<open>
  A task waiting for a decision is told that it was approved only if the approval really is, in
  every reachable state and however the task was woken; a rejection, an expiry or a cancellation never
  turns into an approval.
\<close>

theorem waiting_sees_only_real_approvals:
  assumes "ap_step\<^sup>*\<^sup>* no_approvals s" "wait_for_decision w k i s = (Inr ''approved'', s', es)"
  shows "\<exists>a. ap_requests s i = Some a \<and> apv_status a = Approved \<and> s' = s"
  by (rule wait_approved [OF ap_steps_inv [OF assms(1)] assms(2)])

theorem waiting_sees_only_real_approvals_witness:
  "\<exists>a. ap_requests (ap_do approval_world (ApDecide approval_key True) one_approval) approval_key = Some a \<and>
     apv_status a = Approved"
proof -
  let ?s = "ap_do approval_world (ApDecide approval_key True) one_approval"
  have "ap_step one_approval ?s" by (rule ap_step.step) simp
  with one_approval_reachable have r: "ap_step\<^sup>*\<^sup>* no_approvals ?s" by (rule rtranclp.rtrancl_into_rtrancl)
  have d: "ap_decisions ?s approval_key = Some (Some Approved)"
    using one_approval_get
    by (auto simp: decide_def Let_def set_request_def resolve_decision_def one_approval_def approval_create_def
        approval_world_def approval_key_def)
  then have "wait_for_decision approval_world WokenByDecision approval_key ?s = (Inr ''approved'', ?s, [])"
    using one_approval_decided by (auto simp: wait_for_decision_def)
  then show ?thesis using waiting_sees_only_real_approvals [OF r] by blast
qed

end
