(* ===== verification/Tools.thy ===== *)
theory Tools
  imports Recovery Approvals
begin

text \<open>
  \<open>services/tools.py\<close> and \<open>domain/tools.py\<close>: two registered tools, executed only after their policy,
  the validation of their arguments and, where the tool needs it, a human decision; every execution is
  preceded by a ledger entry and closed by one. Other tasks of the process act while the service waits
  for a decision or for the launcher: an environment says what they did.
\<close>

datatype tool_risk = ReadRisk | ControlRisk

fun tool_risk_value :: "tool_risk \<Rightarrow> string" where
  "tool_risk_value ReadRisk = ''read''"
| "tool_risk_value ControlRisk = ''control''"

datatype tool_status = ToolPending | ToolSucceeded | ToolRejected | ToolExpired | ToolCancelled | ToolFailed

fun tool_status_value :: "tool_status \<Rightarrow> string" where
  "tool_status_value ToolPending = ''pending_approval''"
| "tool_status_value ToolSucceeded = ''succeeded''"
| "tool_status_value ToolRejected = ''rejected''"
| "tool_status_value ToolExpired = ''expired''"
| "tool_status_value ToolCancelled = ''cancelled''"
| "tool_status_value ToolFailed = ''failed''"

record tool_definition =
  td_id :: string
  td_description :: string
  td_risk :: tool_risk
  td_requires_approval :: bool

record tool_result =
  tr_tool_id :: string
  tr_status :: tool_status
  tr_output :: "string option"
  tr_error_code :: "string option"
  tr_duration_ms :: "int option"
  tr_approval_id :: "string option"

definition tool_definitions :: "tool_definition list" where
  "tool_definitions =
     [\<lparr>td_id = ''system.current_time'', td_description = ''Return the current local system time.'',
       td_risk = ReadRisk, td_requires_approval = False\<rparr>,
      \<lparr>td_id = ''desktop.open_application'', td_description = ''Open a configured local application alias.'',
       td_risk = ControlRisk, td_requires_approval = True\<rparr>]"

definition find_tool :: "string \<Rightarrow> tool_definition option" where
  "find_tool i = List.find (\<lambda>d. td_id d = i) tool_definitions"

section \<open>Policy\<close>

record tool_config =
  tc_enabled :: bool
  tc_project :: string
  tc_allowlist :: "(string \<times> string list) list"
  tc_max_output :: nat

definition application_allowlist :: "(string \<Rightarrow> pyobj option) \<Rightarrow> string \<Rightarrow> (string \<times> string list) list" where
  \<comment> \<open>\<open>_application_allowlist\<close>; the first argument is \<open>json.loads\<close>\<close>
  "application_allowlist json_loads raw =
     (case json_loads raw of
        Some (PDict d) \<Rightarrow> List.map_filter (\<lambda>(app, command). case command of
            PList (c # cs) \<Rightarrow>
              (if list_all (\<lambda>a. \<exists>s. a = PStr s \<and> s \<noteq> []) (c # cs)
               then Some (app, List.map_filter as_str (c # cs)) else None)
          | _ \<Rightarrow> None) d
      | _ \<Rightarrow> [])"

definition alnum_char :: "char \<Rightarrow> bool" where
  "alnum_char c = (let n = (of_char c :: nat) in 48 \<le> n \<and> n \<le> 57 \<or> 65 \<le> n \<and> n \<le> 90 \<or> 97 \<le> n \<and> n \<le> 122)"

definition application_id_ok :: "string \<Rightarrow> bool" where
  \<comment> \<open>the pattern \<open>[a-zA-Z0-9][a-zA-Z0-9._-]{0,63}\<close>\<close>
  "application_id_ok s = (case s of
     [] \<Rightarrow> False
   | c # cs \<Rightarrow> alnum_char c \<and> length cs \<le> 63 \<and> list_all (\<lambda>c. alnum_char c \<or> c \<in> set ''._-'') cs)"

definition validate_arguments :: "string \<Rightarrow> pydict \<Rightarrow> string option" where
  \<comment> \<open>\<open>_validate_arguments\<close>, the validated \<open>application_id\<close>; the model is strict and forbids other fields\<close>
  "validate_arguments tool args =
     (if tool = ''system.current_time'' then (if args = [] then Some ''system'' else None)
      else if \<not> dict_keys_within args [''application_id''] then None
      else case map_of args ''application_id'' of
          Some (PStr s) \<Rightarrow> if application_id_ok s then Some s else None
        | _ \<Rightarrow> None)"

definition bounded :: "string option \<Rightarrow> nat \<Rightarrow> string option" where
  "bounded v limit = (case v of
     None \<Rightarrow> None
   | Some s \<Rightarrow> if length s \<le> limit then Some s else Some (take limit s @ '' [truncated]''))"

section \<open>Execution\<close>

record tool_state =
  ts_store :: store
  ts_approvals :: approvals
  ts_events :: "event list" \<comment> \<open>what has been published\<close>
  ts_launched :: "(uuid \<times> string list) list" \<comment> \<open>the commands started, with their invocations\<close>

text \<open>
  Where a cancellation can reach a task that closes an execution: before the invocation's transaction has
  taken effect, between it and that of the ledger, or before the event.
\<close>

datatype completion_cut = BeforeInvocation | BeforeLedger | BeforeEvent

record tool_env =
  te_world :: "nat \<Rightarrow> world" \<comment> \<open>the world at each stage of an execution\<close>
  te_wait :: "string \<Rightarrow> tool_state \<Rightarrow> wake \<times> tool_state"
  te_launch :: "string list \<Rightarrow> tool_state \<Rightarrow> (exn + unit) \<times> tool_state"
    \<comment> \<open>the launcher under the timeout: it returns or raises, whatever it raises\<close>
  te_cut :: "completion_cut option" \<comment> \<open>a cancellation that arrives while the execution is closed\<close>
  te_local_time :: string \<comment> \<open>the local time in ISO form\<close>
  te_elapsed :: int \<comment> \<open>milliseconds of the monotonic clock\<close>

definition on_store :: "(store \<Rightarrow> exn + 'a \<times> store) \<Rightarrow> (tool_state, 'a) stateful" where
  "on_store f s = (case f (ts_store s) of Inl e \<Rightarrow> (Inl e, s) | Inr (x, st) \<Rightarrow> (Inr x, s\<lparr>ts_store := st\<rparr>))"

definition tool_emit :: "event list \<Rightarrow> (tool_state, unit) stateful" where
  "tool_emit es s = (Inr (), s\<lparr>ts_events := ts_events s @ es\<rparr>)"

definition tool_result :: "string \<Rightarrow> tool_status \<Rightarrow> string option \<Rightarrow> string option \<Rightarrow> string option \<Rightarrow> tool_result" where
  "tool_result tool st output error approval = \<lparr>tr_tool_id = tool, tr_status = st, tr_output = output,
     tr_error_code = error, tr_duration_ms = None, tr_approval_id = approval\<rparr>"

definition completed_row :: "time \<Rightarrow> tool_result \<Rightarrow> tool_invocation \<Rightarrow> tool_invocation" where
  "completed_row now c t = t\<lparr>ti_status := tool_status_value (tr_status c),
     ti_output_metadata := (case tr_output c of None \<Rightarrow> None
        | Some out \<Rightarrow> if out = [] then None else Some [(''output'', PStr out)]),
     ti_error_code := tr_error_code c, ti_finished_at := Some now, ti_duration_ms := tr_duration_ms c\<rparr>"

definition completed_event :: "uuid \<Rightarrow> time \<Rightarrow> string \<Rightarrow> uuid option \<Rightarrow> tool_result \<Rightarrow> event" where
  "completed_event u now project run c =
     event_create u now (if tr_status c = ToolSucceeded then TOOL_COMPLETED else TOOL_FAILED) project
       (map_option uuid_str run) None None None (if tr_status c = ToolSucceeded then ''info'' else ''error'')
       [(''tool_id'', PStr (tr_tool_id c)), (''status'', PStr (tool_status_value (tr_status c))),
        (''error_code'', opt_str (tr_error_code c)),
        (''duration_ms'', case tr_duration_ms c of None \<Rightarrow> PNone | Some n \<Rightarrow> PInt n),
        (''approval_id'', opt_str (tr_approval_id c))]"

definition complete_tool :: "tool_config \<Rightarrow> world \<Rightarrow> completion_cut option \<Rightarrow> uuid \<Rightarrow> tool_result \<Rightarrow> int option \<Rightarrow>
    (uuid \<times> action_status) option \<Rightarrow> (tool_state, tool_result) stateful" where
  \<comment> \<open>\<open>_complete\<close>\<close>
  "complete_tool cf w ct i result duration ledger s =
     (let c = result\<lparr>tr_output := bounded (tr_output result) (tc_max_output cf), tr_duration_ms := duration\<rparr>;
          run = map_option ti_run_id (invocation_get i (ts_store s));
          s1 = s\<lparr>ts_store := invocation_update i (completed_row (w_now w) c) (ts_store s)\<rparr>;
          s2 = s1\<lparr>ts_store := (case ledger of None \<Rightarrow> ts_store s1
                  | Some (k, ls) \<Rightarrow> update_action (w_now w) k ls (ts_store s1))\<rparr>
      in case ct of
           Some BeforeInvocation \<Rightarrow> (Inl CancelledError, s)
         | Some BeforeLedger \<Rightarrow> (Inl CancelledError, s1)
         | Some BeforeEvent \<Rightarrow> (Inl CancelledError, s2)
         | None \<Rightarrow> (Inr c, s2\<lparr>ts_events := ts_events s2 @
             [completed_event (w_uuid4 w 0) (w_now w) (tc_project cf) run c]\<rparr>))"

definition await_decision :: "tool_env \<Rightarrow> string \<Rightarrow> (tool_state, string) stateful" where
  \<comment> \<open>waiting, and what the woken task does\<close>
  "await_decision te a s =
     (case te_wait te a s of (k, s) \<Rightarrow>
      case wait_for_decision (te_world te 3) k a (ts_approvals s) of (r, ap, es) \<Rightarrow>
        (r, s\<lparr>ts_approvals := ap, ts_events := ts_events s @ es\<rparr>))"

definition ask_approval :: "tool_config \<Rightarrow> tool_env \<Rightarrow> uuid \<Rightarrow> string \<Rightarrow> uuid \<Rightarrow> (tool_state, string \<times> string) stateful" where
  \<comment> \<open>the approval's id and the decision\<close>
  "ask_approval cf te run tool i = with_state (\<lambda>s.
     case approval_create (te_world te 1) (tc_project cf) tool ''Lexi requested a controlled desktop action.''
            ''lexi'' (Some (uuid_str run)) None None (ts_approvals s) of (a, ap, es) \<Rightarrow>
       (\<lambda>s. let s = s\<lparr>ts_approvals := ap, ts_events := ts_events s @ es,
                ts_store := invocation_update i (\<lambda>t. t\<lparr>ti_approval_id := Some (apv_id a)\<rparr>) (ts_store s)\<rparr>
            in op_map (Pair (apv_id a)) (await_decision te (apv_id a)) s))"

fun after_decision :: "string \<Rightarrow> tool_status option" where
  \<comment> \<open>the status an execution that must not happen ends with\<close>
  "after_decision d =
     (if d = ''rejected'' then Some ToolRejected
      else if d = ''expired'' then Some ToolExpired
      else if d = ''cancelled'' then Some ToolCancelled
      else None)"

definition execute_validated :: "tool_config \<Rightarrow> tool_env \<Rightarrow> uuid \<Rightarrow> string \<Rightarrow> string \<Rightarrow> (tool_state, string) stateful" where
  \<comment> \<open>under the timeout\<close>
  "execute_validated cf te i tool app =
     (if tool = ''system.current_time'' then op_return (te_local_time te)
      else case map_of (tc_allowlist cf) app of
          None \<Rightarrow> op_raise (KeyError app)
        | Some command \<Rightarrow>
            op_bind (\<lambda>s. te_launch te command (s\<lparr>ts_launched := ts_launched s @ [(i, command)]\<rparr>)) (\<lambda>_.
            op_return (''Opened configured application '' @ [CHR 0x27] @ app @ [CHR 0x27] @ ''.'')))"

definition close_execution :: "tool_config \<Rightarrow> tool_env \<Rightarrow> uuid \<Rightarrow> uuid \<Rightarrow> string \<Rightarrow> string option \<Rightarrow> exn + string \<Rightarrow>
    (tool_state, tool_result) stateful" where
  \<comment> \<open>the handlers of \<open>execute\<close>; the last argument is how the execution ended\<close>
  "close_execution cf te i k tool a ended =
     (let complete = (\<lambda>r ls. complete_tool cf (te_world te 7) (te_cut te) i r (Some (te_elapsed te)) (Some (k, ls)))
      in case ended of
        Inl CancelledError \<Rightarrow>
          op_bind (complete (tool_result tool ToolCancelled None (Some ''tool_cancelled'') a) UNCERTAIN)
            (\<lambda>_. op_raise CancelledError)
      | Inl TimeoutError \<Rightarrow> complete (tool_result tool ToolFailed None (Some ''tool_timeout'') a) UNCERTAIN
      | Inl OSError \<Rightarrow> complete (tool_result tool ToolFailed None (Some ''tool_execution_failed'') a) FAILED
      | Inl e \<Rightarrow> op_raise e
      | Inr out \<Rightarrow> complete (tool_result tool ToolSucceeded (Some out) None a) CONFIRMED)"

definition started_event :: "uuid \<Rightarrow> time \<Rightarrow> string \<Rightarrow> uuid \<Rightarrow> tool_definition \<Rightarrow> string option \<Rightarrow> event" where
  "started_event u now project run d a =
     event_create u now TOOL_STARTED project (Some (uuid_str run)) None None None ''info''
       [(''tool_id'', PStr (td_id d)), (''risk'', PStr (tool_risk_value (td_risk d))), (''approval_id'', opt_str a)]"

definition run_recorded :: "tool_config \<Rightarrow> tool_env \<Rightarrow> uuid \<Rightarrow> uuid \<Rightarrow> tool_definition \<Rightarrow> string \<Rightarrow> pydict \<Rightarrow>
    string option \<Rightarrow> (tool_state, tool_result) stateful" where
  \<comment> \<open>from the ledger entry to the end\<close>
  "run_recorded cf te run i d app metadata a =
     op_bind (on_store (record_action_intent (w_uuid4 (te_world te 4) 0) (w_now (te_world te 4)) run i (td_id d)
         (tool_risk_value (td_risk d)) metadata)) (\<lambda>k.
     op_bind (on_store (\<lambda>st. Inr ((), update_action (w_now (te_world te 5)) k STARTED st))) (\<lambda>_.
     op_bind (tool_emit [started_event (w_uuid4 (te_world te 6) 0) (w_now (te_world te 6)) (tc_project cf) run d a]) (\<lambda>_ s.
     case execute_validated cf te i (td_id d) app s of (ended, s) \<Rightarrow> close_execution cf te i k (td_id d) a ended s)))"

definition new_invocation :: "world \<Rightarrow> uuid \<Rightarrow> tool_definition \<Rightarrow> string \<Rightarrow> tool_invocation" where
  "new_invocation w run d app = \<lparr>ti_id = w_uuid4 w 0, ti_run_id = run, ti_tool_id = td_id d,
     ti_risk = tool_risk_value (td_risk d),
     ti_status = tool_status_value (if td_requires_approval d then ToolPending else ToolSucceeded),
     ti_approval_id = None, ti_input_metadata = [(''application_id'', PStr app)], ti_output_metadata = None,
     ti_error_code = None, ti_started_at = w_now w, ti_finished_at = None, ti_duration_ms = None\<rparr>"

definition execute_decided :: "tool_config \<Rightarrow> tool_env \<Rightarrow> uuid \<Rightarrow> uuid \<Rightarrow> tool_definition \<Rightarrow> string \<Rightarrow> pydict \<Rightarrow>
    (tool_state, tool_result) stateful" where
  \<comment> \<open>from the approval, if the tool requires one\<close>
  "execute_decided cf te run i d app metadata =
     (if \<not> td_requires_approval d then run_recorded cf te run i d app metadata None
      else op_bind (ask_approval cf te run (td_id d) i) (\<lambda>(a, decision).
        case after_decision decision of
          Some st \<Rightarrow> complete_tool cf (te_world te 7) (te_cut te) i (tool_result (td_id d) st None None (Some a)) None None
        | None \<Rightarrow> run_recorded cf te run i d app metadata (Some a)))"

definition execute_allowed :: "tool_config \<Rightarrow> tool_env \<Rightarrow> uuid \<Rightarrow> tool_definition \<Rightarrow> string \<Rightarrow>
    (tool_state, tool_result) stateful" where
  \<comment> \<open>from the insertion of the invocation\<close>
  "execute_allowed cf te run d app =
     (let t = new_invocation (te_world te 0) run d app
      in op_bind (on_store (\<lambda>st. ebind (invocation_create t st) (\<lambda>st. Inr ((), st)))) (\<lambda>_.
         execute_decided cf te run (ti_id t) d app (ti_input_metadata t)))"

definition execute_tool :: "tool_config \<Rightarrow> tool_env \<Rightarrow> uuid \<Rightarrow> string \<Rightarrow> pydict \<Rightarrow> (tool_state, tool_result) stateful" where
  \<comment> \<open>\<open>ToolService.execute\<close>\<close>
  "execute_tool cf te run tool args =
     (if \<not> tc_enabled cf then op_return (tool_result tool ToolFailed None (Some ''tool_disabled'') None)
      else case find_tool tool of
        None \<Rightarrow> op_return (tool_result tool ToolFailed None (Some ''tool_not_found'') None)
      | Some d \<Rightarrow> (case validate_arguments tool args of
          None \<Rightarrow> op_return (tool_result tool ToolFailed None (Some ''tool_invalid_arguments'') None)
        | Some app \<Rightarrow>
            if tool = ''desktop.open_application'' \<and> map_of (tc_allowlist cf) app = None
            then op_return (tool_result tool ToolFailed None (Some ''tool_not_allowed'') None)
            else execute_allowed cf te run d app))"

definition invocation_view :: "tool_invocation \<Rightarrow> pyobj" where
  "invocation_view t = PDict [(''id'', PStr (uuid_str (ti_id t))), (''tool_id'', PStr (ti_tool_id t)),
     (''risk'', PStr (ti_risk t)), (''status'', PStr (ti_status t)), (''approval_id'', opt_str (ti_approval_id t)),
     (''error_code'', opt_str (ti_error_code t)), (''started_at'', PDatetime (ti_started_at t)),
     (''finished_at'', opt_time (ti_finished_at t)),
     (''duration_ms'', case ti_duration_ms t of None \<Rightarrow> PNone | Some n \<Rightarrow> PInt n)]"

definition list_run_invocations :: "uuid \<Rightarrow> tool_state \<Rightarrow> pyobj list" where
  "list_run_invocations run s = map invocation_view (list_for_run run (ts_store s))"

section \<open>What an execution leaves behind\<close>

definition own :: "uuid \<Rightarrow> tool_state \<Rightarrow> (uuid \<times> string list) list" where
  "own i s = filter (\<lambda>p. fst p = i) (ts_launched s)"

definition respectful :: "uuid \<Rightarrow> tool_state \<Rightarrow> tool_state \<Rightarrow> bool" where
  \<comment> \<open>other tasks launch nothing under this invocation, leave its rows alone, and act on approvals
    through the approval service\<close>
  "respectful i s s' \<longleftrightarrow> own i s' = own i s \<and> invocation_get i (ts_store s') = invocation_get i (ts_store s) \<and>
     (\<forall>k e. action_get k (ts_store s) = Some e \<longrightarrow> al_tool_invocation_id e = Some i \<longrightarrow>
        action_get k (ts_store s') = Some e) \<and>
     ap_step\<^sup>*\<^sup>* (ts_approvals s) (ts_approvals s')"

definition env_respects :: "tool_env \<Rightarrow> uuid \<Rightarrow> bool" where
  "env_respects te i \<longleftrightarrow> (\<forall>a s. respectful i s (snd (te_wait te a s))) \<and> (\<forall>c s. respectful i s (snd (te_launch te c s)))"

lemma respectful_refl: "respectful i s s"
  by (simp add: respectful_def)

fun verdict :: "exn + unit \<Rightarrow> (tool_status \<times> string option \<times> action_status) option" where
  \<comment> \<open>what the launcher's end says of the action; there is no handler for other exceptions\<close>
  "verdict (Inr ()) = Some (ToolSucceeded, None, CONFIRMED)"
| "verdict (Inl TimeoutError) = Some (ToolFailed, Some ''tool_timeout'', UNCERTAIN)"
| "verdict (Inl OSError) = Some (ToolFailed, Some ''tool_execution_failed'', FAILED)"
| "verdict (Inl CancelledError) = Some (ToolCancelled, Some ''tool_cancelled'', UNCERTAIN)"
| "verdict (Inl e) = None"

definition ended_as :: "completion_cut option \<Rightarrow> string \<Rightarrow> exn + unit \<Rightarrow> exn + tool_result \<Rightarrow> string \<Rightarrow> string \<Rightarrow> bool" where
  \<comment> \<open>how an execution whose launcher ended as \<open>ended\<close> ends: its answer, the status of its ledger entry and
    that of its invocation, which was \<open>pending\<close> before\<close>
  "ended_as ct pending ended r ledger invocation \<longleftrightarrow> (case verdict ended of
       None \<Rightarrow> (\<exists>e. ended = Inl e \<and> r = Inl e) \<and> ledger = ''started'' \<and> invocation = pending
     | Some (status, code, ls) \<Rightarrow>
         ledger = (if ct = Some BeforeInvocation \<or> ct = Some BeforeLedger then ''started'' else action_status_value ls) \<and>
         invocation = (if ct = Some BeforeInvocation then pending else tool_status_value status) \<and>
         (if ct = None \<and> ended \<noteq> Inl CancelledError
          then \<exists>res. r = Inr res \<and> tr_status res = status \<and> tr_error_code res = code
          else r = Inl CancelledError))"

lemma invocation_get_update [simp]:
  "(\<And>t. ti_id (f t) = ti_id t) \<Longrightarrow> invocation_get k (invocation_update i f st) =
     (if k = i then map_option f (invocation_get k st) else invocation_get k st)"
  unfolding invocation_get_def invocation_update_def by (simp add: invocation_rows.get_update)

lemma completed_row_fields [simp]:
  "ti_id (completed_row now c t) = ti_id t" "ti_status (completed_row now c t) = tool_status_value (tr_status c)"
  by (simp_all add: completed_row_def)

lemma action_get_invocation_update [simp]: "action_get k (invocation_update i f st) = action_get k st"
  by (simp add: action_get_def invocation_update_def)

lemma invocation_get_update_action [simp]: "invocation_get i (update_action now k ls st) = invocation_get i st"
  by (simp add: invocation_get_def update_action_def split: option.split)

lemma action_get_update: "action_get k st = Some e \<Longrightarrow> \<exists>e'. action_get k (update_action now k ls st) = Some e' \<and>
     al_status e' = action_status_value ls \<and> al_tool_invocation_id e' = al_tool_invocation_id e \<and> al_run_id e' = al_run_id e"
  by (simp add: update_action_def action_get_def row_get_update Let_def)

lemma complete_tool_state:
  assumes "complete_tool cf w ct i result duration ledger s = (r, s')"
  shows "own i s' = own i s" "ts_approvals s' = ts_approvals s" "ts_launched s' = ts_launched s"
    "if ct = None then \<exists>c. r = Inr c \<and> tr_status c = tr_status result \<and> tr_error_code c = tr_error_code result \<and>
       tr_output c = bounded (tr_output result) (tc_max_output cf) else r = Inl CancelledError"
  using assms by (auto simp: complete_tool_def Let_def own_def split: option.splits completion_cut.splits)

lemma complete_tool_rows:
  assumes "complete_tool cf w ct i result duration (Some (k, ls)) s = (r, s')"
    and "invocation_get i (ts_store s) = Some t" "action_get k (ts_store s) = Some e"
  shows "\<exists>t'. invocation_get i (ts_store s') = Some t' \<and>
      ti_status t' = (if ct = Some BeforeInvocation then ti_status t else tool_status_value (tr_status result))"
    and "\<exists>e'. action_get k (ts_store s') = Some e' \<and> al_tool_invocation_id e' = al_tool_invocation_id e \<and>
      al_run_id e' = al_run_id e \<and> al_status e' =
        (if ct = Some BeforeInvocation \<or> ct = Some BeforeLedger then al_status e else action_status_value ls)"
proof -
  let ?st = "invocation_update i (completed_row (w_now w)
      (result\<lparr>tr_output := bounded (tr_output result) (tc_max_output cf), tr_duration_ms := duration\<rparr>)) (ts_store s)"
  from assms(1) have s': "ts_store s' = (if ct = Some BeforeInvocation then ts_store s
      else if ct = Some BeforeLedger then ?st else update_action (w_now w) k ls ?st)"
    by (auto simp: complete_tool_def Let_def split: option.splits completion_cut.splits)
  from assms(2) show "\<exists>t'. invocation_get i (ts_store s') = Some t' \<and>
      ti_status t' = (if ct = Some BeforeInvocation then ti_status t else tool_status_value (tr_status result))"
    by (simp add: s')
  from assms(3) have "action_get k ?st = Some e" by simp
  from action_get_update [OF this, of "w_now w" ls] assms(3) show "\<exists>e'. action_get k (ts_store s') = Some e' \<and>
      al_tool_invocation_id e' = al_tool_invocation_id e \<and> al_run_id e' = al_run_id e \<and> al_status e' =
        (if ct = Some BeforeInvocation \<or> ct = Some BeforeLedger then al_status e else action_status_value ls)"
    by (auto simp: s')
qed

lemma verdict_Some:
  "verdict ended = Some (st, code, ls) \<Longrightarrow>
   ended = Inr () \<or> ended = Inl TimeoutError \<or> ended = Inl OSError \<or> ended = Inl CancelledError"
  by (cases ended rule: verdict.cases) auto

definition result_of :: "string \<Rightarrow> string option \<Rightarrow> exn + string \<Rightarrow> tool_status \<Rightarrow> string option \<Rightarrow> tool_result" where
  "result_of tool a ended st code = tool_result tool st (case ended of Inr out \<Rightarrow> Some out | Inl _ \<Rightarrow> None) code a"

lemma close_execution_cases:
  "close_execution cf te i k tool a ended s = (case verdict (map_sum id (\<lambda>_. ()) ended) of
     None \<Rightarrow> (Inl (projl ended), s)
   | Some (st, code, ls) \<Rightarrow> (case complete_tool cf (te_world te 7) (te_cut te) i (result_of tool a ended st code)
         (Some (te_elapsed te)) (Some (k, ls)) s of
       (Inr c, s') \<Rightarrow> (if ended = Inl CancelledError then Inl CancelledError else Inr c, s')
     | (Inl e, s') \<Rightarrow> (Inl e, s')))"
proof (cases ended)
  case (Inl e)
  then show ?thesis
    by (cases e) (simp_all add: close_execution_def Let_def result_of_def op_raise_def op_bind_def split: prod.split sum.split)
next
  case (Inr out)
  then show ?thesis by (simp add: close_execution_def Let_def result_of_def split: prod.split sum.split)
qed

lemma close_execution_ends:
  assumes "close_execution cf te i k tool a ended s = (r, s')"
    and "invocation_get i (ts_store s) = Some t" "action_get k (ts_store s) = Some e"
    and "al_tool_invocation_id e = Some i" "al_status e = ''started''"
  shows "\<exists>t' e'. invocation_get i (ts_store s') = Some t' \<and> action_get k (ts_store s') = Some e' \<and>
      al_tool_invocation_id e' = Some i \<and> al_run_id e' = al_run_id e \<and>
      ended_as (te_cut te) (ti_status t) (map_sum id (\<lambda>_. ()) ended) r (al_status e') (ti_status t')"
    and "own i s' = own i s" "ts_approvals s' = ts_approvals s"
proof -
  let ?u = "map_sum id (\<lambda>_. ()) ended"
  have "(\<exists>t' e'. invocation_get i (ts_store s') = Some t' \<and> action_get k (ts_store s') = Some e' \<and>
      al_tool_invocation_id e' = Some i \<and> al_run_id e' = al_run_id e \<and>
      ended_as (te_cut te) (ti_status t) ?u r (al_status e') (ti_status t')) \<and> own i s' = own i s \<and>
      ts_approvals s' = ts_approvals s"
  proof (cases "verdict ?u")
    case None
    then obtain x where x: "ended = Inl x" by (cases ended) auto
    with assms(1) None have "r = Inl x" "s' = s" by (simp_all add: close_execution_cases)
    with None x assms(2-5) show ?thesis by (simp add: ended_as_def)
  next
    case (Some v)
    then obtain st code ls where v: "verdict ?u = Some (st, code, ls)" by (cases v) auto
    let ?res = "result_of tool a ended st code"
    obtain r1 s1 where c: "complete_tool cf (te_world te 7) (te_cut te) i ?res (Some (te_elapsed te)) (Some (k, ls)) s = (r1, s1)"
      by fastforce
    have res: "tr_status ?res = st" "tr_error_code ?res = code" by (simp_all add: result_of_def tool_result_def)
    have s': "s' = s1" and r: "r = (case r1 of Inl x \<Rightarrow> Inl x | Inr c \<Rightarrow>
        if ended = Inl CancelledError then Inl CancelledError else Inr c)"
      using assms(1) v c by (auto simp: close_execution_cases split: sum.splits)
    have can: "(?u = Inl CancelledError) = (ended = Inl CancelledError)" by (cases ended) auto
    from complete_tool_rows [OF c assms(2,3)] obtain t' e' where
      rows: "invocation_get i (ts_store s') = Some t'" "action_get k (ts_store s') = Some e'"
        "al_tool_invocation_id e' = Some i" "al_run_id e' = al_run_id e"
        "ti_status t' = (if te_cut te = Some BeforeInvocation then ti_status t else tool_status_value st)"
        "al_status e' = (if te_cut te = Some BeforeInvocation \<or> te_cut te = Some BeforeLedger then ''started''
           else action_status_value ls)"
      unfolding s' res(1) using assms(4,5) by auto
    have "ended_as (te_cut te) (ti_status t) ?u r (al_status e') (ti_status t')"
      unfolding ended_as_def v option.case prod.case rows(5,6) can r
      using complete_tool_state(4) [OF c] res by (auto split: if_splits)
    with rows complete_tool_state(1,2) [OF c] show ?thesis unfolding s' by blast
  qed
  then show "\<exists>t' e'. invocation_get i (ts_store s') = Some t' \<and> action_get k (ts_store s') = Some e' \<and>
      al_tool_invocation_id e' = Some i \<and> al_run_id e' = al_run_id e \<and>
      ended_as (te_cut te) (ti_status t) ?u r (al_status e') (ti_status t')"
    and "own i s' = own i s" "ts_approvals s' = ts_approvals s" by blast+
qed

lemma on_store_keeps:
  "on_store f s = (r, s') \<Longrightarrow> own i s' = own i s \<and> ts_approvals s' = ts_approvals s"
  by (auto simp: on_store_def own_def split: sum.splits prod.splits)

lemma record_action_intent_Inr:
  assumes "record_action_intent u now run i ty risk details st = Inr (k, st')"
  shows "k = u" "\<exists>e. action_get u st' = Some e \<and> al_tool_invocation_id e = Some i \<and> al_run_id e = run"
    "invocation_get j st' = invocation_get j st"
  using assms
  by (auto simp: record_action_intent_def action_create_def Let_def exn_simps row_insert_Inr_iff action_get_def
      invocation_get_def)

lemma execute_validated_ends:
  assumes "execute_validated cf te i tool app s = (ended, s')" "env_respects te i"
  shows "ended = Inl (KeyError app) \<and> s' = s \<or> tool = ''system.current_time'' \<and> ended = Inr (te_local_time te) \<and> s' = s \<or>
    (\<exists>command. let s1 = s\<lparr>ts_launched := ts_launched s @ [(i, command)]\<rparr> in
      tool \<noteq> ''system.current_time'' \<and> map_of (tc_allowlist cf) app = Some command \<and> respectful i s1 s' \<and>
      map_sum id (\<lambda>_. ()) ended = fst (te_launch te command s1))"
proof (cases "tool = ''system.current_time'' \<or> map_of (tc_allowlist cf) app = None")
  case True
  with assms(1) show ?thesis
    by (auto simp: execute_validated_def op_return_def op_raise_def split: if_splits option.splits)
next
  case False
  then obtain command where c: "map_of (tc_allowlist cf) app = Some command" and t: "tool \<noteq> ''system.current_time''" by auto
  let ?s = "s\<lparr>ts_launched := ts_launched s @ [(i, command)]\<rparr>"
  obtain l s2 where l: "te_launch te command ?s = (l, s2)" by (cases "te_launch te command ?s") auto
  from assms(2) l have resp: "respectful i ?s s2" by (auto simp: env_respects_def dest!: spec [of _ ?s])
    (metis snd_conv)
  from assms(1) c t l have "s' = s2" "map_sum id (\<lambda>_. ()) ended = l"
    by (auto simp: execute_validated_def op_bind_def op_return_def split: sum.splits)
  with resp c t l show ?thesis by (auto simp: Let_def)
qed

lemma own_launched: "own i (s\<lparr>ts_launched := ts_launched s @ [(i, command)]\<rparr>) = own i s @ [(i, command)]"
  by (simp add: own_def)

definition launched_well :: "tool_config \<Rightarrow> tool_env \<Rightarrow> uuid \<Rightarrow> uuid \<Rightarrow> string \<Rightarrow> string \<Rightarrow> string \<Rightarrow> tool_state \<Rightarrow>
    exn + tool_result \<Rightarrow> tool_state \<Rightarrow> bool" where
  "launched_well cf te run i pending tool app s r s' \<longleftrightarrow> (\<exists>command s1 t e k. tool \<noteq> ''system.current_time'' \<and>
     map_of (tc_allowlist cf) app = Some command \<and> own i s1 = own i s @ [(i, command)] \<and>
     own i s' = own i s @ [(i, command)] \<and>
     invocation_get i (ts_store s') = Some t \<and> action_get k (ts_store s') = Some e \<and>
     al_tool_invocation_id e = Some i \<and> al_run_id e = run \<and>
     ended_as (te_cut te) pending (fst (te_launch te command s1)) r (al_status e) (ti_status t))"

lemma run_recorded_effect:
  assumes "run_recorded cf te run i d app md a s = (r, s')" "env_respects te i"
    and "invocation_get i (ts_store s) = Some t"
  shows "ap_step\<^sup>*\<^sup>* (ts_approvals s) (ts_approvals s') \<and>
    (own i s' = own i s \<or> launched_well cf te run i (ti_status t) (td_id d) app s r s')"
proof -
  let ?rec = "on_store (record_action_intent (w_uuid4 (te_world te 4) 0) (w_now (te_world te 4)) run i (td_id d)
         (tool_risk_value (td_risk d)) md)"
  obtain r1 s1 where 1: "?rec s = (r1, s1)" by fastforce
  show ?thesis
  proof (cases r1)
    case (Inl x)
    with 1 assms(1) have "s' = s1" by (auto simp: run_recorded_def op_bind_def)
    with on_store_keeps [OF 1] show ?thesis by auto
  next
    case (Inr k)
    from 1 Inr obtain st where rec: "record_action_intent (w_uuid4 (te_world te 4) 0) (w_now (te_world te 4)) run i (td_id d)
         (tool_risk_value (td_risk d)) md (ts_store s) = Inr (k, st)" and s1: "s1 = s\<lparr>ts_store := st\<rparr>"
      by (auto simp: on_store_def split: sum.splits prod.splits)
    obtain e where e: "action_get k st = Some e" "al_tool_invocation_id e = Some i" "al_run_id e = run"
      using record_action_intent_Inr(1,2) [OF rec] by auto
    obtain e2 where e2: "action_get k (update_action (w_now (te_world te 5)) k STARTED st) = Some e2"
      "al_tool_invocation_id e2 = Some i" "al_run_id e2 = run" "al_status e2 = ''started''"
      using action_get_update [OF e(1), of _ STARTED] e(2,3) by fastforce
    let ?s2 = "s\<lparr>ts_store := update_action (w_now (te_world te 5)) k STARTED st,
       ts_events := ts_events s @ [started_event (w_uuid4 (te_world te 6) 0) (w_now (te_world te 6)) (tc_project cf) run d a]\<rparr>"
    have inv: "invocation_get i (ts_store ?s2) = Some t"
      using assms(3) record_action_intent_Inr(3) [OF rec, of i] by simp
    obtain ended s3 where ex: "execute_validated cf te i (td_id d) app ?s2 = (ended, s3)" by fastforce
    with assms(1) 1 Inr s1 have cl: "close_execution cf te i k (td_id d) a ended s3 = (r, s')"
      by (simp add: run_recorded_def op_bind_def on_store_def tool_emit_def)
    let ?go = "\<lambda>command. ?s2\<lparr>ts_launched := ts_launched ?s2 @ [(i, command)]\<rparr>"
    from execute_validated_ends [OF ex assms(2)] consider "s3 = ?s2"
      | command where "td_id d \<noteq> ''system.current_time''" "map_of (tc_allowlist cf) app = Some command"
        "respectful i (?go command) s3" "map_sum id (\<lambda>_. ()) ended = fst (te_launch te command (?go command))"
      unfolding Let_def by blast
    then show ?thesis
    proof cases
      case x: 1
      with inv e2 have "invocation_get i (ts_store s3) = Some t" "action_get k (ts_store s3) = Some e2" by simp_all
      from close_execution_ends(2,3) [OF cl this e2(2,4)] x show ?thesis by (auto simp: own_def)
    next
      case (2 command)
      note tool = 2(1) and c = 2(2) and resp = 2(3) and en = 2(4)
      from resp inv e2 have rows: "invocation_get i (ts_store s3) = Some t" "action_get k (ts_store s3) = Some e2"
        by (auto simp: respectful_def)
      have go: "own i (?go command) = own i s @ [(i, command)]" by (simp add: own_def)
      from resp have ownap: "own i s3 = own i s @ [(i, command)]" "ap_step\<^sup>*\<^sup>* (ts_approvals s) (ts_approvals s3)"
        by (simp_all add: respectful_def own_def)
      from close_execution_ends(1) [OF cl rows e2(2,4), unfolded en e2(3)] close_execution_ends(2,3) [OF cl rows e2(2,4)]
      show ?thesis unfolding launched_well_def ownap(1) using ownap(2) tool c go by metis
    qed
  qed
qed

lemma run_recorded_effect_elim:
  assumes "run_recorded cf te run i d app md a s = (r, s')" "env_respects te i"
    and "invocation_get i (ts_store s) = Some t" "own i s' \<noteq> own i s"
  shows "launched_well cf te run i (ti_status t) (td_id d) app s r s'" "ap_step\<^sup>*\<^sup>* (ts_approvals s) (ts_approvals s')"
  using run_recorded_effect [OF assms(1-3)] assms(4) by auto

lemma await_decision_effect:
  assumes "await_decision te a s = (r, s')" "env_respects te i" "approvals_inv (ts_approvals s)"
  shows "own i s' = own i s" "invocation_get i (ts_store s') = invocation_get i (ts_store s)"
    "approvals_inv (ts_approvals s')"
    "r = Inr ''approved'' \<Longrightarrow> \<exists>x. ap_requests (ts_approvals s') a = Some x \<and> apv_status x = Approved"
proof -
  obtain k s1 where w: "te_wait te a s = (k, s1)" by fastforce
  obtain r1 ap es where d: "wait_for_decision (te_world te 3) k a (ts_approvals s1) = (r1, ap, es)"
    by (cases "wait_for_decision (te_world te 3) k a (ts_approvals s1)") auto
  from assms(1) w d have s': "r = r1" "s' = s1\<lparr>ts_approvals := ap, ts_events := ts_events s1 @ es\<rparr>"
    by (auto simp: await_decision_def)
  from assms(2) w have resp: "respectful i s s1" unfolding env_respects_def by (metis snd_conv)
  with s' show "own i s' = own i s" "invocation_get i (ts_store s') = invocation_get i (ts_store s)"
    by (simp_all add: respectful_def own_def)
  from resp assms(3) have inv: "approvals_inv (ts_approvals s1)"
    using ap_steps_preserve by (auto simp: respectful_def)
  have ap: "ap = ap_do (te_world te 3) (ApWake k a) (ts_approvals s1)" using d by simp
  with inv s' show "approvals_inv (ts_approvals s')" by (simp del: ap_do.simps add: ap_do_inv)
  assume "r = Inr ''approved''"
  with wait_approved [OF inv, of "te_world te 3" k a] d s' show
    "\<exists>x. ap_requests (ts_approvals s') a = Some x \<and> apv_status x = Approved" by auto
qed

lemma wait_decisions:
  assumes "approvals_inv s" "wait_for_decision w k i s = (Inr d, s', es)" "after_decision d = None"
  shows "d = ''approved''"
proof -
  from assms(1) have "entry_ok s i" by (simp add: approvals_inv_def)
  with assms(2,3) show ?thesis
    by (auto simp: wait_for_decision_def entry_ok_def Let_def split: wake.splits option.splits if_splits)
qed

lemma await_decision_approved:
  assumes "await_decision te a s = (Inr d, s')" "env_respects te i" "approvals_inv (ts_approvals s)"
    and "after_decision d = None"
  shows "d = ''approved''"
proof -
  obtain k s1 where w: "te_wait te a s = (k, s1)" by fastforce
  from assms(2) w have "respectful i s s1" unfolding env_respects_def by (metis snd_conv)
  with assms(3) have inv: "approvals_inv (ts_approvals s1)"
    using ap_steps_preserve by (auto simp: respectful_def)
  obtain ap es where "wait_for_decision (te_world te 3) k a (ts_approvals s1) = (Inr d, ap, es)"
    using assms(1) w by (auto simp: await_decision_def split: prod.splits)
  from wait_decisions [OF inv this assms(4)] show ?thesis .
qed

lemma ask_approval_effect:
  assumes "ask_approval cf te run tool i s = (r, s')" "env_respects te i" "approvals_inv (ts_approvals s)"
    and "invocation_get i (ts_store s) = Some t"
  shows "own i s' = own i s" "\<exists>t'. invocation_get i (ts_store s') = Some t' \<and> ti_status t' = ti_status t" "approvals_inv (ts_approvals s')"
    "r = Inr (a, d) \<Longrightarrow> after_decision d = None \<Longrightarrow> a = ''apr_'' @ uuid_hex (w_uuid4 (te_world te 1) 0) \<and>
       (\<exists>x. ap_requests (ts_approvals s') a = Some x \<and> apv_status x = Approved)"
proof -
  let ?op = "ApCreate (tc_project cf) tool ''Lexi requested a controlled desktop action.'' ''lexi''
      (Some (uuid_str run)) None None"
  obtain p ap es where c: "approval_create (te_world te 1) (tc_project cf) tool ''Lexi requested a controlled desktop action.''
     ''lexi'' (Some (uuid_str run)) None None (ts_approvals s) = (p, ap, es)"
    by (metis prod_cases3)
  then have p: "apv_id p = ''apr_'' @ uuid_hex (w_uuid4 (te_world te 1) 0)"
    by (auto simp: approval_create_def Let_def)
  have "ap = ap_do (te_world te 1) ?op (ts_approvals s)" using c by simp
  with assms(3) have inv: "approvals_inv ap" by (simp del: ap_do.simps add: ap_do_inv)
  let ?s1 = "s\<lparr>ts_approvals := ap, ts_events := ts_events s @ es,
     ts_store := invocation_update i (\<lambda>t. t\<lparr>ti_approval_id := Some (apv_id p)\<rparr>) (ts_store s)\<rparr>"
  obtain r1 where aw: "await_decision te (apv_id p) ?s1 = (r1, s')" and r: "r = map_sum id (Pair (apv_id p)) r1"
    using assms(1) c
    by (auto simp: ask_approval_def with_state_def Let_def op_map_def op_bind_def op_return_def
        split: prod.splits sum.splits)
  have "approvals_inv (ts_approvals ?s1)" using inv by simp
  note eff = await_decision_effect [OF aw assms(2) this]
  from eff(1) show "own i s' = own i s" by (simp add: own_def)
  from eff(2) assms(4) show "\<exists>t'. invocation_get i (ts_store s') = Some t' \<and> ti_status t' = ti_status t" by simp
  from eff(3) show "approvals_inv (ts_approvals s')" .
  assume "r = Inr (a, d)" "after_decision d = None"
  with r have "r1 = Inr d" "a = apv_id p" by (cases r1; simp)+
  with await_decision_approved [OF _ assms(2) _ \<open>after_decision d = None\<close>] aw eff(4) inv p
  show "a = ''apr_'' @ uuid_hex (w_uuid4 (te_world te 1) 0) \<and>
       (\<exists>x. ap_requests (ts_approvals s') a = Some x \<and> apv_status x = Approved)" by auto
qed

lemma find_tool_Some:
  "find_tool tool = Some d \<Longrightarrow> td_id d = tool \<and>
     (tool = ''system.current_time'' \<and> \<not> td_requires_approval d \<or> tool = ''desktop.open_application'' \<and> td_requires_approval d)"
  by (auto simp: find_tool_def tool_definitions_def split: if_splits)

lemma invocation_create_get: "invocation_create t st = Inr st' \<Longrightarrow> invocation_get (ti_id t) st' = Some t"
  by (auto simp: invocation_create_def exn_simps invocation_get_def dest: row_insert_get [where k = "ti_id t"])

lemma launch_cases:
  assumes "execute_tool cf te run tool args s = (r, s')" "env_respects te (w_uuid4 (te_world te 0) 0)"
    and "own (w_uuid4 (te_world te 0) 0) s' \<noteq> own (w_uuid4 (te_world te 0) 0) s"
    and "approvals_inv (ts_approvals s)"
  shows "\<exists>app s1 x. tc_enabled cf \<and> tool = ''desktop.open_application'' \<and> validate_arguments tool args = Some app \<and>
     own (w_uuid4 (te_world te 0) 0) s1 = own (w_uuid4 (te_world te 0) 0) s \<and>
     launched_well cf te run (w_uuid4 (te_world te 0) 0) ''pending_approval'' tool app s1 r s' \<and>
     ap_requests (ts_approvals s') (''apr_'' @ uuid_hex (w_uuid4 (te_world te 1) 0)) = Some x \<and> apv_status x = Approved"
proof -
  let ?i = "w_uuid4 (te_world te 0) 0"
  from assms(1,3) obtain d app where en: "tc_enabled cf" and d: "find_tool tool = Some d"
    and app: "validate_arguments tool args = Some app"
    and al: "\<not> (tool = ''desktop.open_application'' \<and> map_of (tc_allowlist cf) app = None)"
    by (auto simp: execute_tool_def op_return_def split: if_splits option.splits)
  let ?t = "new_invocation (te_world te 0) run d app"
  have tid: "ti_id ?t = ?i" by (simp add: new_invocation_def)
  have did: "td_id d = tool" using find_tool_Some [OF d] by simp
  have go: "execute_tool cf te run tool args s = execute_allowed cf te run d app s"
    using en d app al by (auto simp: execute_tool_def)
  let ?rest = "execute_decided cf te run ?i d app (ti_input_metadata ?t)"
  let ?ins = "\<lambda>st. ebind (invocation_create ?t st) (\<lambda>st. Inr ((), st))"
  have ex: "execute_tool cf te run tool args s = (case on_store ?ins s of (Inl e, s) \<Rightarrow> (Inl e, s) | (Inr x, s) \<Rightarrow> ?rest s)"
    unfolding go execute_allowed_def Let_def op_bind_def tid by (rule refl)
  obtain r1 s1 where 1: "on_store ?ins s = (r1, s1)" by fastforce
  from on_store_keeps [OF 1] have keep: "own ?i s1 = own ?i s" "ts_approvals s1 = ts_approvals s" by auto
  from ex 1 assms(1,3) keep obtain u where r1: "r1 = Inr u" by (cases r1) auto
  from 1 r1 obtain st where st: "invocation_create ?t (ts_store s) = Inr st" "s1 = s\<lparr>ts_store := st\<rparr>"
    by (auto simp: on_store_def exn_simps split: sum.splits prod.splits)
  then have inv: "invocation_get ?i (ts_store s1) = Some ?t"
    using invocation_create_get [OF st(1)] tid by simp
  from ex 1 r1 assms(1) have rest: "?rest s1 = (r, s')" by simp
  show ?thesis
  proof (cases "td_requires_approval d")
    case False
    with rest have rr: "run_recorded cf te run ?i d app (ti_input_metadata ?t) None s1 = (r, s')"
      by (simp add: execute_decided_def)
    from find_tool_Some [OF d] False have "td_id d = ''system.current_time''" by blast
    moreover have "launched_well cf te run ?i (ti_status ?t) (td_id d) app s1 r s'"
      using run_recorded_effect_elim(1) [OF rr assms(2) inv] assms(3) keep by simp
    ultimately show ?thesis by (simp add: launched_well_def)
  next
    case True
    obtain r2 s2 where ask: "ask_approval cf te run tool ?i s1 = (r2, s2)" by fastforce
    have ai: "approvals_inv (ts_approvals s1)" using assms(4) keep by simp
    note eff = ask_approval_effect [OF ask assms(2) ai inv]
    from rest True ask assms(3) keep eff(1) obtain a dec where r2: "r2 = Inr (a, dec)"
      by (cases r2) (auto simp: op_bind_def execute_decided_def did)
    from rest True ask r2 have "(case after_decision dec of
         Some st \<Rightarrow> complete_tool cf (te_world te 7) (te_cut te) ?i (tool_result (td_id d) st None None (Some a)) None None
       | None \<Rightarrow> run_recorded cf te run ?i d app (ti_input_metadata ?t) (Some a)) s2 = (r, s')"
      by (simp add: op_bind_def execute_decided_def did del: after_decision.simps)
    then have dec: "after_decision dec = None" and
      rr: "run_recorded cf te run ?i d app (ti_input_metadata ?t) (Some a) s2 = (r, s')"
      using complete_tool_state(1) [of cf "te_world te 7" "te_cut te" ?i _ None None s2 r s'] assms(3) keep eff(1)
      by (auto split: option.splits simp del: after_decision.simps)
    from eff(2) obtain t2 where t2: "invocation_get ?i (ts_store s2) = Some t2" "ti_status t2 = ti_status ?t" by blast
    have pending: "ti_status t2 = ''pending_approval''" using t2(2) True by (simp add: new_invocation_def)
    have changed: "own ?i s' \<noteq> own ?i s2" using assms(3) keep eff(1) by simp
    from eff(4) [OF r2 dec] obtain x where a: "a = ''apr_'' @ uuid_hex (w_uuid4 (te_world te 1) 0)"
      and x: "ap_requests (ts_approvals s2) a = Some x" "apv_status x = Approved" by blast
    have "ap_requests (ts_approvals s') a = Some x"
      using ap_steps_final [OF run_recorded_effect_elim(2) [OF rr assms(2) t2(1) changed] eff(3) x(1)] x(2) by simp
    moreover from find_tool_Some [OF d] True have "tool = ''desktop.open_application''" "td_id d = tool" by auto
    ultimately show ?thesis
      using en app a x(2) keep eff(1) run_recorded_effect_elim(1) [OF rr assms(2) t2(1) changed] unfolding pending
      by auto
  qed
qed

definition output_ok :: "nat \<Rightarrow> exn + tool_result \<Rightarrow> bool" where
  "output_ok limit r \<longleftrightarrow> (\<forall>res out. r = Inr res \<longrightarrow> tr_output res = Some out \<longrightarrow> length out \<le> limit + 12)"

lemma output_ok_Inl [simp]: "output_ok limit (Inl e)"
  by (simp add: output_ok_def)

lemma bounded_length: "bounded v limit = Some out \<Longrightarrow> length out \<le> limit + 12"
  by (auto simp: bounded_def split: option.splits if_splits)

lemma complete_tool_output: "output_ok (tc_max_output cf) (fst (complete_tool cf w ct i result duration ledger s))"
  using complete_tool_state(4) [of cf w ct i result duration ledger s "fst (complete_tool cf w ct i result duration ledger s)"
      "snd (complete_tool cf w ct i result duration ledger s)"]
  by (auto simp: output_ok_def dest: bounded_length split: if_splits)

lemma op_bind_output: "(\<And>x s. output_ok n (fst (f x s))) \<Longrightarrow> output_ok n (fst (op_bind p f s))"
  by (simp add: op_bind_def split: prod.split sum.split)

lemma close_execution_output: "output_ok (tc_max_output cf) (fst (close_execution cf te i k tool a ended s))"
  by (cases ended) (auto simp: close_execution_def Let_def op_raise_def complete_tool_output
      intro!: op_bind_output split: exn.split)

lemma run_recorded_output: "output_ok (tc_max_output cf) (fst (run_recorded cf te run i d app md a s))"
  unfolding run_recorded_def
  by (intro op_bind_output) (simp add: close_execution_output split: prod.split)

lemma execute_decided_output: "output_ok (tc_max_output cf) (fst (execute_decided cf te run i d app md s))"
  by (auto simp: execute_decided_def run_recorded_output complete_tool_output intro!: op_bind_output split: option.split)

lemma execute_tool_output:
  assumes "execute_tool cf te run tool args s = (Inr res, s')"
  shows "\<forall>out. tr_output res = Some out \<longrightarrow> length out \<le> tc_max_output cf + 12"
proof -
  have allowed: "output_ok (tc_max_output cf) (fst (execute_allowed cf te run d app s))" for d app
    unfolding execute_allowed_def Let_def by (intro op_bind_output execute_decided_output)
  have "output_ok n (fst (op_return (tool_result t st None er a) s))" for n t st er a
    by (simp add: op_return_def tool_result_def output_ok_def)
  with allowed have "output_ok (tc_max_output cf) (fst (execute_tool cf te run tool args s))"
    by (simp add: execute_tool_def split: option.split)
  with assms show ?thesis by (simp add: output_ok_def)
qed

lemma ended_as_statuses:
  "ended_as ct pending ended r ledger invocation \<Longrightarrow> ledger \<in> {''started'', ''confirmed'', ''failed'', ''uncertain''}"
  by (cases ended rule: verdict.cases) (auto simp: ended_as_def split: if_splits)

section \<open>A sample execution\<close>

definition sample_tool_config :: tool_config where
  "sample_tool_config = \<lparr>tc_enabled = True, tc_project = ''p'', tc_allowlist = [(''notes'', [''gedit''])], tc_max_output = 10\<rparr>"

definition sample_tool_env :: tool_env where
  "sample_tool_env = \<lparr>te_world = (\<lambda>n. \<lparr>w_now = 5, w_uuid4 = (\<lambda>_. n)\<rparr>),
     te_wait = (\<lambda>a s. (WokenByDecision, s\<lparr>ts_approvals := ap_do approval_world (ApDecide a True) (ts_approvals s)\<rparr>)),
     te_launch = (\<lambda>_ s. (Inr (), s)), te_cut = None, te_local_time = [], te_elapsed = 3\<rparr>"

definition sample_tool_state :: tool_state where
  "sample_tool_state = \<lparr>ts_store = empty_store\<lparr>st_runs := [new_run 7 0 3 ''open'']\<rparr>,
     ts_approvals = no_approvals, ts_events = [], ts_launched = []\<rparr>"

lemma sample_tool_env_respects: "env_respects sample_tool_env i"
proof -
  have "ap_step\<^sup>*\<^sup>* s (ap_do approval_world (ApDecide a True) s)" for a s
    by (rule r_into_rtranclp, rule ap_step.step) simp
  then show ?thesis
    by (simp add: env_respects_def sample_tool_env_def respectful_def own_def del: ap_do.simps)
qed

lemma sample_tool_run: "\<exists>r s'. execute_tool sample_tool_config sample_tool_env 7 ''desktop.open_application''
    [(''application_id'', PStr ''notes'')] sample_tool_state = (r, s') \<and> own 0 s' = [(0, [''gedit''])] \<and>
    (\<exists>res out. r = Inr res \<and> tr_output res = Some out)"
  by (simp add: execute_tool_def sample_tool_config_def find_tool_def tool_definitions_def validate_arguments_def
      dict_keys_within_def application_id_ok_def alnum_char_def
      execute_allowed_def execute_decided_def Let_def new_invocation_def op_bind_def on_store_def sample_tool_state_def
      empty_store_def invocation_create_def run_get_def row_get_def new_run_def row_insert_def guard_def
      ask_approval_def approval_create_def with_state_def no_approvals_def set_request_def op_map_def op_return_def
      await_decision_def sample_tool_env_def wait_for_decision_def decide_def resolve_decision_def approval_world_def
      run_recorded_def record_action_intent_def action_create_def redact_dict_def invocation_update_def row_update_def
      update_action_def action_get_def tool_emit_def execute_validated_def close_execution_def complete_tool_def
      own_def tool_result_def bounded_def split: prod.split sum.split)

definition failing_env :: tool_env where
  \<comment> \<open>the launcher raises an exception that \<open>execute\<close> does not handle\<close>
  "failing_env = sample_tool_env\<lparr>te_launch := (\<lambda>_ s. (Inl (ValueError ''argv''), s))\<rparr>"

lemma failing_env_respects: "env_respects failing_env i"
  using sample_tool_env_respects [of i] by (simp add: env_respects_def failing_env_def respectful_refl)

lemma failing_run: "\<exists>r s'. execute_tool sample_tool_config failing_env 7 ''desktop.open_application''
    [(''application_id'', PStr ''notes'')] sample_tool_state = (r, s') \<and> own 0 s' = [(0, [''gedit''])]"
  by (simp add: execute_tool_def sample_tool_config_def find_tool_def tool_definitions_def validate_arguments_def
      dict_keys_within_def application_id_ok_def alnum_char_def failing_env_def
      execute_allowed_def execute_decided_def Let_def new_invocation_def op_bind_def on_store_def sample_tool_state_def
      empty_store_def invocation_create_def run_get_def row_get_def new_run_def row_insert_def guard_def
      ask_approval_def approval_create_def with_state_def no_approvals_def set_request_def op_map_def op_return_def
      await_decision_def sample_tool_env_def wait_for_decision_def decide_def resolve_decision_def approval_world_def
      run_recorded_def record_action_intent_def action_create_def redact_dict_def invocation_update_def row_update_def
      update_action_def action_get_def tool_emit_def execute_validated_def close_execution_def op_raise_def
      own_def tool_result_def bounded_def split: prod.split sum.split)

section \<open>Properties\<close>

text \<open>
  C3: a command is started for a tool request only when tools are enabled, the tool is the registered
  desktop tool, its arguments are valid, the application is on the configured allow list, and the
  approval asked for this request has been approved; it is then started exactly once, and it is the
  command of the allow list.
\<close>

theorem tools_launch_only_approved_commands:
  assumes "execute_tool cf te run tool args s = (r, s')"
    and "ap_step\<^sup>*\<^sup>* no_approvals (ts_approvals s)"
    and "env_respects te i" "i = w_uuid4 (te_world te 0) 0"
    and "own i s = []" "own i s' \<noteq> []"
  shows "tc_enabled cf \<and> tool = ''desktop.open_application'' \<and>
    (\<exists>app command a. validate_arguments tool args = Some app \<and> map_of (tc_allowlist cf) app = Some command \<and>
      own i s' = [(i, command)] \<and>
      ap_requests (ts_approvals s') (''apr_'' @ uuid_hex (w_uuid4 (te_world te 1) 0)) = Some a \<and>
      apv_status a = Approved)"
proof -
  from launch_cases [OF assms(1) assms(3) [unfolded assms(4)]] assms(4-6) ap_steps_inv [OF assms(2)]
  obtain app s1 x where "tc_enabled cf" "tool = ''desktop.open_application''" "validate_arguments tool args = Some app"
    "own i s1 = own i s" "launched_well cf te run i ''pending_approval'' tool app s1 r s'"
    "ap_requests (ts_approvals s') (''apr_'' @ uuid_hex (w_uuid4 (te_world te 1) 0)) = Some x" "apv_status x = Approved"
    by force
  with assms(5) show ?thesis unfolding launched_well_def by auto
qed

theorem tools_launch_only_approved_commands_witness:
  "\<exists>r s' a. execute_tool sample_tool_config sample_tool_env 7 ''desktop.open_application''
     [(''application_id'', PStr ''notes'')] sample_tool_state = (r, s') \<and> own 0 s' = [(0, [''gedit''])] \<and>
     ap_requests (ts_approvals s') (''apr_'' @ uuid_hex 1) = Some a \<and> apv_status a = Approved"
proof -
  obtain r s' where e: "execute_tool sample_tool_config sample_tool_env 7 ''desktop.open_application''
    [(''application_id'', PStr ''notes'')] sample_tool_state = (r, s')" and o: "own 0 s' = [(0, [''gedit''])]"
    using sample_tool_run by blast
  have start: "ap_step\<^sup>*\<^sup>* no_approvals (ts_approvals sample_tool_state)" "0 = w_uuid4 (te_world sample_tool_env 0) 0"
    "own 0 sample_tool_state = []" and one: "w_uuid4 (te_world sample_tool_env 1) 0 = 1"
    by (simp_all add: sample_tool_state_def sample_tool_env_def own_def)
  from o have "own 0 s' \<noteq> []" by simp
  from tools_launch_only_approved_commands [OF e start(1) sample_tool_env_respects start(2,3) this] e o one
  show ?thesis by auto
qed

text \<open>
  C15: every command that was started has a ledger entry of its run and its invocation, whatever the
  launcher did. If the launcher returned, timed out, was cancelled or could not start it, the entry says so
  (confirmed, uncertain, uncertain, failed) and the invocation and the answer agree with it. Two things keep
  the entry in its state \<open>started\<close>: an exception of the launcher that \<open>execute\<close> does not handle, which
  leaves the invocation pending, and a cancellation before the ledger is closed. An entry that is
  neither confirmed nor failed is among those recovery counts as in doubt.
\<close>

theorem ledger_accounts_for_every_launch:
  assumes "execute_tool cf te run tool args s = (r, s')"
    and "ap_step\<^sup>*\<^sup>* no_approvals (ts_approvals s)"
    and "env_respects te i" "i = w_uuid4 (te_world te 0) 0"
    and "own i s = []" "own i s' \<noteq> []"
  shows "\<exists>command launched k e t. own i launched = [(i, command)] \<and> own i s' = [(i, command)] \<and>
    action_get k (ts_store s') = Some e \<and> al_tool_invocation_id e = Some i \<and>
    invocation_get i (ts_store s') = Some t \<and>
    ended_as (te_cut te) ''pending_approval'' (fst (te_launch te command launched)) r (al_status e) (ti_status t) \<and>
    (al_status e \<notin> {''confirmed'', ''failed''} \<longrightarrow> uncertain_actions (action_rows run (ts_store s')) \<noteq> [])"
proof -
  from launch_cases [OF assms(1) assms(3) [unfolded assms(4)]] assms(4-6) ap_steps_inv [OF assms(2)]
  obtain app s0 where "own i s0 = own i s" "launched_well cf te run i ''pending_approval'' tool app s0 r s'"
    by force
  then obtain command s1 t e k where w: "own i s1 = [(i, command)]" "own i s' = [(i, command)]"
    "invocation_get i (ts_store s') = Some t" "action_get k (ts_store s') = Some e"
    "al_tool_invocation_id e = Some i" "al_run_id e = run"
    "ended_as (te_cut te) ''pending_approval'' (fst (te_launch te command s1)) r (al_status e) (ti_status t)"
    unfolding launched_well_def assms(5) by auto
  have "e \<in> set (action_rows run (ts_store s'))"
    using w(4,6) by (auto simp: action_rows_def action_get_def dest!: row_get_Some)
  then have "uncertain_actions (action_rows run (ts_store s')) \<noteq> []" if "al_status e \<notin> {''confirmed'', ''failed''}"
    using ended_as_statuses [OF w(7)] that by (auto simp: uncertain_actions_def filter_empty_conv)
  with w show ?thesis by blast
qed

theorem ledger_accounts_for_every_launch_witness:
  "\<exists>r s' k e t. execute_tool sample_tool_config failing_env 7 ''desktop.open_application''
     [(''application_id'', PStr ''notes'')] sample_tool_state = (r, s') \<and> own 0 s' = [(0, [''gedit''])] \<and>
     action_get k (ts_store s') = Some e \<and> invocation_get 0 (ts_store s') = Some t \<and>
     r = Inl (ValueError ''argv'') \<and> al_status e = ''started'' \<and> ti_status t = ''pending_approval'' \<and>
     uncertain_actions (action_rows 7 (ts_store s')) \<noteq> []"
proof -
  obtain r s' where e: "execute_tool sample_tool_config failing_env 7 ''desktop.open_application''
    [(''application_id'', PStr ''notes'')] sample_tool_state = (r, s')" and o: "own 0 s' = [(0, [''gedit''])]"
    using failing_run by blast
  have start: "ap_step\<^sup>*\<^sup>* no_approvals (ts_approvals sample_tool_state)" "0 = w_uuid4 (te_world failing_env 0) 0"
    "own 0 sample_tool_state = []"
    by (simp_all add: sample_tool_state_def failing_env_def sample_tool_env_def own_def)
  from o have "own 0 s' \<noteq> []" by simp
  from ledger_accounts_for_every_launch [OF e start(1) failing_env_respects start(2,3) this]
  obtain command launched k x t where "action_get k (ts_store s') = Some x" "invocation_get 0 (ts_store s') = Some t"
    "ended_as (te_cut failing_env) ''pending_approval'' (fst (te_launch failing_env command launched)) r (al_status x) (ti_status t)"
    "al_status x \<notin> {''confirmed'', ''failed''} \<longrightarrow> uncertain_actions (action_rows 7 (ts_store s')) \<noteq> []" by blast
  moreover have "fst (te_launch failing_env command launched) = Inl (ValueError ''argv'')" by (simp add: failing_env_def)
  ultimately show ?thesis using e o by (simp add: ended_as_def) blast
qed

text \<open>
  Whatever a tool answers, the output returned to the caller has at most the configured number of
  characters and the mark of truncation.
\<close>

theorem tool_output_bounded:
  assumes "execute_tool cf te run tool args s = (Inr res, s')" "tr_output res = Some out"
  shows "length out \<le> tc_max_output cf + 12"
  using execute_tool_output [OF assms(1)] assms(2) by simp

theorem tool_output_bounded_witness:
  "\<exists>res s' out. execute_tool sample_tool_config sample_tool_env 7 ''desktop.open_application''
     [(''application_id'', PStr ''notes'')] sample_tool_state = (Inr res, s') \<and> tr_output res = Some out \<and> length out \<le> 22"
proof -
  obtain res s' out where e: "execute_tool sample_tool_config sample_tool_env 7 ''desktop.open_application''
    [(''application_id'', PStr ''notes'')] sample_tool_state = (Inr res, s')" "tr_output res = Some out"
    using sample_tool_run by blast
  from tool_output_bounded [OF e] e show ?thesis by (auto simp: sample_tool_config_def)
qed

end
