(* ===== verification/Vision.thy ===== *)
theory Vision
  imports Store Events Models
begin

text \<open>
  \<open>services/vision.py\<close> and \<open>domain/vision.py\<close>: image assets stored under their digest, the queue of analyses
  that a model answers one at a time, and the scan of registered folders. The image library, SHA-256 and
  the file system outside the service's storage are a host. An analysis is split at its suspensions:
  its task begins when it gets the semaphore and finishes when the model has answered or failed.
\<close>

type_synonym bytes = string
type_synonym path = "string list" \<comment> \<open>the components of a resolved path\<close>

datatype vision_mode = Describe | Detailed | Ocr | Objects | Grounding | Ui | CustomMode

fun vision_mode_value :: "vision_mode \<Rightarrow> string" where
  "vision_mode_value Describe = ''describe''"
| "vision_mode_value Detailed = ''detailed''"
| "vision_mode_value Ocr = ''ocr''"
| "vision_mode_value Objects = ''objects''"
| "vision_mode_value Grounding = ''grounding''"
| "vision_mode_value Ui = ''ui''"
| "vision_mode_value CustomMode = ''custom''"

datatype analysis_status = AnalysisQueued | AnalysisRunning | AnalysisCompleted | AnalysisFailed

definition analysis_active :: "analysis_status \<Rightarrow> bool" where
  "analysis_active st = (st = AnalysisQueued \<or> st = AnalysisRunning)"

section \<open>State\<close>

record asset_row =
  as_id :: string
  as_filename :: string
  as_mime_type :: string
  as_size_bytes :: nat
  as_sha256 :: string
  as_source_type :: string
  as_locator :: string
  as_created_at :: time

record analysis_row =
  an_id :: string
  an_asset_id :: string
  an_provider_id :: string
  an_model_id :: string
  an_mode :: vision_mode
  an_prompt :: "string option"
  an_status :: analysis_status
  an_raw_text :: "string option"
  an_description :: "string option"
  an_ocr_text :: "string option"
  an_latency_ms :: "int option"
  an_error_code :: "string option"
  an_created_at :: time
  an_completed_at :: "time option"

record folder_row =
  fo_id :: string
  fo_display_name :: string
  fo_root :: path
  fo_enabled :: bool
  fo_created_at :: time

record vision =
  vs_assets :: "asset_row list"
  vs_analyses :: "analysis_row list"
  vs_folders :: "folder_row list"
  vs_files :: "(string \<times> bytes) list" \<comment> \<open>the storage root\<close>
  vs_tasks :: "(string \<times> bool) list" \<comment> \<open>the analyses with a live task, and whether it holds the semaphore\<close>
  vs_bus :: bus

record image_info =
  im_width :: nat
  im_height :: nat
  im_format :: string

record dir_entry =
  en_name :: string
  en_is_file :: bool
  en_is_symlink :: bool
  en_content :: "(bool \<times> bytes) option" \<comment> \<open>regular or not, and its bytes; \<open>None\<close> when opening raises \<open>OSError\<close>\<close>

record vision_host =
  vh_sha256 :: "bytes \<Rightarrow> string"
  vh_decode :: "bytes \<Rightarrow> image_info option" \<comment> \<open>\<open>verify\<close> and a second \<open>Image.open\<close>; \<open>None\<close> for the errors it may raise\<close>
  vh_resolve :: "string \<Rightarrow> path option" \<comment> \<open>\<open>Path(...).resolve(strict=True)\<close>\<close>
  vh_resolve_root :: "string \<Rightarrow> path"
  vh_path_text :: "path \<Rightarrow> string"
  vh_is_dir :: "path \<Rightarrow> bool"
  vh_entries :: "path \<Rightarrow> dir_entry list" \<comment> \<open>\<open>rglob("*")\<close>\<close>
  vh_json :: "string \<Rightarrow> pyobj option"

record vision_config =
  vc_project :: string
  vc_enabled :: bool
  vc_provider :: string
  vc_model :: string
  vc_allowed_roots :: string
  vc_max_file_size :: nat
  vc_max_pixels :: nat
  vc_max_queue :: nat
  vc_max_scan_files :: nat

type_synonym 'a vop = "(vision, 'a) stateful"

definition no_vision :: "bus \<Rightarrow> vision" where
  "no_vision b = \<lparr>vs_assets = [], vs_analyses = [], vs_folders = [], vs_files = [], vs_tasks = [], vs_bus = b\<rparr>"

definition vision_publish :: "vision_config \<Rightarrow> world \<Rightarrow> nat \<Rightarrow> event_type \<Rightarrow> pydict \<Rightarrow> string \<Rightarrow> vision \<Rightarrow> vision" where
  "vision_publish cf w k ty payload severity s =
     s\<lparr>vs_bus := publish (event_create (w_uuid4 w k) (w_now w) ty (vc_project cf) None None None None severity payload) (vs_bus s)\<rparr>"

definition vision_enabled :: "vision_config \<Rightarrow> unit vop" where
  \<comment> \<open>\<open>_require_enabled\<close>\<close>
  "vision_enabled cf = op_lift (guard (vc_enabled cf) (VisionError ''vision_disabled'' ''Vision is disabled by server configuration''))"

section \<open>Assets\<close>

definition ALLOWED_FORMATS :: "(string \<times> string) list" where
  "ALLOWED_FORMATS = [(''JPEG'', ''image/jpeg''), (''PNG'', ''image/png''), (''WEBP'', ''image/webp'')]"

definition validate_image :: "vision_host \<Rightarrow> bytes \<Rightarrow> nat \<Rightarrow> exn + string \<times> string" where
  "validate_image h data max_pixels =
     (case vh_decode h data of
        None \<Rightarrow> Inl (VisionError ''vision_invalid_image'' ''Uploaded content is not a supported image'')
      | Some im \<Rightarrow>
          if max_pixels < im_width im * im_height im
          then Inl (VisionError ''vision_image_too_large'' ''Image dimensions exceed the configured limit'')
          else case map_of ALLOWED_FORMATS (im_format im) of
            None \<Rightarrow> Inl (VisionError ''vision_invalid_image'' ''Image format is not allowed'')
          | Some mime \<Rightarrow> Inr (im_format im, mime))"

fun split_on :: "char \<Rightarrow> string \<Rightarrow> string list" where
  "split_on sep [] = [[]]"
| "split_on sep (c # s) = (if c = sep then [] # split_on sep s
     else case split_on sep s of [] \<Rightarrow> [[c]] | w # ws \<Rightarrow> (c # w) # ws)"

definition path_name :: "string \<Rightarrow> string" where
  \<comment> \<open>\<open>Path(value).name\<close>\<close>
  "path_name s = (let parts = filter (\<lambda>p. p \<noteq> [] \<and> p \<noteq> ''.'') (split_on (CHR ''/'') s)
     in if parts = [] then [] else last parts)"

definition safe_filename :: "string \<Rightarrow> string" where
  "safe_filename s = (let n = take 255 (py_strip (path_name s)) in if n = [] then ''image'' else n)"

definition insert_asset :: "asset_row \<Rightarrow> vision \<Rightarrow> exn + vision" where
  \<comment> \<open>primary key and the two unique columns\<close>
  "insert_asset r s =
     ebind (guard (as_sha256 r \<notin> as_sha256 ` set (vs_assets s) \<and> as_locator r \<notin> as_locator ` set (vs_assets s)) IntegrityError) (\<lambda>_.
     ebind (row_insert as_id r (vs_assets s)) (\<lambda>t. Inr (s\<lparr>vs_assets := t\<rparr>)))"

definition write_private :: "string \<Rightarrow> bytes \<Rightarrow> vision \<Rightarrow> exn + vision" where
  \<comment> \<open>\<open>O_CREAT | O_EXCL\<close>\<close>
  "write_private name data s = (if map_of (vs_files s) name \<noteq> None then Inl OSError
     else Inr (s\<lparr>vs_files := dict_put name data (vs_files s)\<rparr>))"

definition store_asset :: "vision_config \<Rightarrow> vision_host \<Rightarrow> world \<Rightarrow> string \<Rightarrow> bytes \<Rightarrow> string \<Rightarrow> string \<times> string \<Rightarrow> asset_row vop" where
  \<comment> \<open>from the digest on; a file that was written stays when the row cannot be inserted\<close>
  "store_asset cf h w filename data source_type = (\<lambda>(fmt, mime) s.
     let digest = vh_sha256 h data; locator = digest @ ''.'' @ py_lower fmt in
     case List.find (\<lambda>r. as_sha256 r = digest) (vs_assets s) of
       Some r \<Rightarrow> (Inr r, s)
     | None \<Rightarrow> (case write_private locator data s of
         Inl e \<Rightarrow> (Inl e, s)
       | Inr s1 \<Rightarrow>
           let r = \<lparr>as_id = uuid_str (w_uuid4 w 0), as_filename = safe_filename filename, as_mime_type = mime,
                  as_size_bytes = length data, as_sha256 = digest, as_source_type = source_type,
                  as_locator = locator, as_created_at = w_now w\<rparr>
           in case insert_asset r s1 of
             Inl e \<Rightarrow> (Inl e, s1)
           | Inr s2 \<Rightarrow> (Inr r, vision_publish cf w 1 VISION_ASSET_CREATED [(''asset_id'', PStr (as_id r)),
               (''mime_type'', PStr mime), (''size_bytes'', PInt (int (length data)))] ''info'' s2)))"

definition create_asset :: "vision_config \<Rightarrow> vision_host \<Rightarrow> world \<Rightarrow> string \<Rightarrow> string option \<Rightarrow> bytes \<Rightarrow> string \<Rightarrow> asset_row vop" where
  "create_asset cf h w filename declared data source_type =
     op_bind (vision_enabled cf) (\<lambda>_.
     if vc_max_file_size cf < length data
     then op_raise (VisionError ''vision_image_too_large'' ''Image exceeds the configured size limit'')
     else op_bind (op_lift (validate_image h data (vc_max_pixels cf))) (\<lambda>(fmt, mime).
       if declared \<noteq> None \<and> declared \<noteq> Some [] \<and> declared \<noteq> Some mime
       then op_raise (VisionError ''vision_invalid_image'' ''Declared MIME type does not match decoded image'')
       else store_asset cf h w filename data source_type (fmt, mime)))"

definition get_asset :: "vision_config \<Rightarrow> string \<Rightarrow> asset_row vop" where
  "get_asset cf i = op_bind (vision_enabled cf) (\<lambda>_ s. (case row_get as_id i (vs_assets s) of
     None \<Rightarrow> Inl (VisionError ''vision_asset_not_found'' ''Vision asset was not found'') | Some r \<Rightarrow> Inr r, s))"

definition list_assets :: "vision_config \<Rightarrow> asset_row list vop" where
  "list_assets cf = op_bind (vision_enabled cf) (\<lambda>_ s. (Inr (sort_key (\<lambda>r. - as_created_at r) (vs_assets s)), s))"

definition delete_asset :: "vision_config \<Rightarrow> string \<Rightarrow> unit vop" where
  \<comment> \<open>the row with the analyses that refer to it, then the file\<close>
  "delete_asset cf i = op_bind (get_asset cf i) (\<lambda>r s.
     (Inr (), s\<lparr>vs_assets := row_delete as_id (as_id r) (vs_assets s),
        vs_analyses := filter (\<lambda>a. an_asset_id a \<noteq> as_id r) (vs_analyses s),
        vs_files := dict_pop (as_locator r) (vs_files s)\<rparr>))"

section \<open>Analyses\<close>

definition vision_prompt :: "vision_mode \<Rightarrow> string option \<Rightarrow> string" where
  \<comment> \<open>\<open>_prompt\<close>\<close>
  "vision_prompt mode custom = (case mode of
     Describe \<Rightarrow> ''Describe what is visible in the image factually. Do not invent details.''
   | Detailed \<Rightarrow> ''Describe the image in detail using only visible facts.''
   | Ocr \<Rightarrow> ''Extract visible text. Preserve useful layout where possible.''
   | Objects \<Rightarrow> ''List visually detectable objects without inferring hidden facts.''
   | Grounding \<Rightarrow> ''Locate the requested visible object. Return normalized coordinates only when visible.''
   | Ui \<Rightarrow> ''Describe visible controls, text, and interface elements. Do not interact with the computer.''
   | CustomMode \<Rightarrow> (if custom = None \<or> custom = Some [] then ''Describe this image factually.'' else the custom))"

definition requested_model :: "vision_config \<Rightarrow> string option \<Rightarrow> string \<times> string" where
  \<comment> \<open>provider and model of the reference, or of the configuration when none is given\<close>
  "requested_model cf model =
     (let ref = (if model = None \<or> model = Some [] then vc_provider cf @ ''://'' @ vc_model cf else the model)
      in case py_partition ''://'' ref of (provider, _, model_id) \<Rightarrow> (provider, model_id))"

definition insert_analysis :: "analysis_row \<Rightarrow> vision \<Rightarrow> exn + vision" where
  "insert_analysis a s =
     ebind (guard (row_get as_id (an_asset_id a) (vs_assets s) \<noteq> None) IntegrityError) (\<lambda>_.
     ebind (row_insert an_id a (vs_analyses s)) (\<lambda>t. Inr (s\<lparr>vs_analyses := t\<rparr>)))"

definition admit_analysis :: "vision_config \<Rightarrow> string \<Rightarrow> string option \<Rightarrow> (asset_row \<times> string \<times> string) vop" where
  \<comment> \<open>\<open>submit_analysis\<close> up to the check of the queue\<close>
  "admit_analysis cf asset model =
     op_bind (get_asset cf asset) (\<lambda>r s.
     case requested_model cf model of (provider, model_id) \<Rightarrow>
       if provider \<noteq> vc_provider cf \<or> model_id \<noteq> vc_model cf
       then (Inl (VisionError ''vision_capability_missing''
              ''Selected vision model is not available through the configured provider''), s)
       else if vc_max_queue cf \<le> length (vs_tasks s)
       then (Inl (VisionError ''vision_queue_full'' ''Vision queue is at its configured limit''), s)
       else (Inr (r, provider, model_id), s))"

definition enqueue_analysis :: "vision_config \<Rightarrow> world \<Rightarrow> vision_mode \<Rightarrow> string option \<Rightarrow> asset_row \<times> string \<times> string \<Rightarrow> analysis_row vop" where
  \<comment> \<open>the rest of it: the row is committed, then the task created\<close>
  "enqueue_analysis cf w mode prompt = (\<lambda>(r, provider, model_id) s.
     let a = \<lparr>an_id = uuid_str (w_uuid4 w 0), an_asset_id = as_id r, an_provider_id = provider, an_model_id = model_id,
           an_mode = mode, an_prompt = prompt, an_status = AnalysisQueued, an_raw_text = None,
           an_description = None, an_ocr_text = None, an_latency_ms = None, an_error_code = None,
           an_created_at = w_now w, an_completed_at = None\<rparr>
     in case insert_analysis a s of
       Inl e \<Rightarrow> (Inl e, s)
     | Inr s1 \<Rightarrow> (Inr a, (vision_publish cf w 1 VISION_ANALYSIS_QUEUED [(''analysis_id'', PStr (an_id a)),
         (''asset_id'', PStr (as_id r)), (''mode'', PStr (vision_mode_value mode))] ''info'' s1)
         \<lparr>vs_tasks := dict_put (an_id a) False (vs_tasks s1)\<rparr>))"

definition submit_analysis :: "vision_config \<Rightarrow> world \<Rightarrow> string \<Rightarrow> vision_mode \<Rightarrow> string option \<Rightarrow> string option \<Rightarrow> analysis_row vop" where
  \<comment> \<open>undisturbed: the two parts with nothing in between\<close>
  "submit_analysis cf w asset mode prompt model =
     op_bind (admit_analysis cf asset model) (enqueue_analysis cf w mode prompt)"

definition get_analysis :: "vision_config \<Rightarrow> string \<Rightarrow> analysis_row vop" where
  "get_analysis cf i = op_bind (vision_enabled cf) (\<lambda>_ s. (case row_get an_id i (vs_analyses s) of
     None \<Rightarrow> Inl (VisionError ''vision_analysis_not_found'' ''Vision analysis was not found'') | Some r \<Rightarrow> Inr r, s))"

definition list_analyses :: "vision_config \<Rightarrow> analysis_row list vop" where
  "list_analyses cf = op_bind (vision_enabled cf) (\<lambda>_ s. (Inr (sort_key (\<lambda>r. - an_created_at r) (vs_analyses s)), s))"

definition update_analysis :: "string \<Rightarrow> (analysis_row \<Rightarrow> analysis_row) \<Rightarrow> vision \<Rightarrow> vision" where
  "update_analysis i f s = s\<lparr>vs_analyses := row_update an_id i f (vs_analyses s)\<rparr>"

definition end_analysis_task :: "string \<Rightarrow> vision \<Rightarrow> vision" where
  \<comment> \<open>the task is done: its callback removes it, and it holds the semaphore no longer\<close>
  "end_analysis_task i s = s\<lparr>vs_tasks := dict_pop i (vs_tasks s)\<rparr>"

definition failed_analysis :: "time \<Rightarrow> string \<Rightarrow> analysis_row \<Rightarrow> analysis_row" where
  "failed_analysis now code a = (if analysis_active (an_status a)
     then a\<lparr>an_status := AnalysisFailed, an_error_code := Some code, an_completed_at := Some now\<rparr> else a)"

definition mark_failed :: "world \<Rightarrow> string \<Rightarrow> string \<Rightarrow> vision \<Rightarrow> vision" where
  "mark_failed w i code s = update_analysis i (failed_analysis (w_now w) code) s"

definition begin_analysis :: "vision_config \<Rightarrow> world \<Rightarrow> string \<Rightarrow> vision \<Rightarrow> (analysis_row \<times> asset_row) option \<times> vision" where
  \<comment> \<open>\<open>_execute_analysis\<close> up to the reading of the file; \<open>None\<close> when it returns without doing anything\<close>
  "begin_analysis cf w i s = (case row_get an_id i (vs_analyses s) of
     None \<Rightarrow> (None, end_analysis_task i s)
   | Some a \<Rightarrow> (case row_get as_id (an_asset_id a) (vs_assets s) of
       None \<Rightarrow> (None, end_analysis_task i s)
     | Some r \<Rightarrow> (Some (a, r), vision_publish cf w 0 VISION_ANALYSIS_STARTED [(''analysis_id'', PStr i), (''asset_id'', PStr (as_id r))] ''info''
         ((update_analysis i (\<lambda>a. a\<lparr>an_status := AnalysisRunning\<rparr>) s)\<lparr>vs_tasks := dict_put i True (vs_tasks s)\<rparr>))))"

definition ask_model :: "model_router \<Rightarrow> analysis_row \<Rightarrow> asset_row \<Rightarrow> vision \<Rightarrow> exn + model_response" where
  \<comment> \<open>the image is read and the model asked\<close>
  "ask_model rt a r s = (case map_of (vs_files s) (as_locator r) of
     None \<Rightarrow> Inl OSError
   | Some data \<Rightarrow> router_complete rt (an_provider_id a @ ''://'' @ an_model_id a)
       [\<lparr>mm_role = ''user'', mm_content = vision_prompt (an_mode a) (an_prompt a),
         mm_images = [\<lparr>ip_data = data, ip_mime_type = as_mime_type r\<rparr>]\<rparr>])"

definition completed_analysis :: "time \<Rightarrow> model_response \<Rightarrow> analysis_row \<Rightarrow> analysis_row" where
  "completed_analysis now r a = a\<lparr>an_status := AnalysisCompleted, an_raw_text := Some (mr_content r),
     an_description := (if an_mode a \<noteq> Ocr then Some (mr_content r) else None),
     an_ocr_text := (if an_mode a = Ocr then Some (mr_content r) else None),
     an_latency_ms := mr_latency_ms r, an_completed_at := Some now\<rparr>"

definition failure_code :: "exn \<Rightarrow> string" where
  "failure_code e = (case e of ModelRouterError code _ \<Rightarrow> model_error_code_value code | _ \<Rightarrow> ''vision_analysis_failed'')"

definition conclude_analysis :: "vision_config \<Rightarrow> world \<Rightarrow> string \<Rightarrow> string \<Rightarrow> exn + model_response \<Rightarrow> vision \<Rightarrow> vision" where
  \<comment> \<open>the rest of \<open>_execute_analysis\<close>, given how the reading and the model call ended\<close>
  "conclude_analysis cf w i asset outcome s = (case outcome of
     Inl CancelledError \<Rightarrow> mark_failed w i ''vision_cancelled'' s
   | Inl e \<Rightarrow> vision_publish cf w 0 VISION_ANALYSIS_FAILED [(''analysis_id'', PStr i)] ''error'' (mark_failed w i (failure_code e) s)
   | Inr r \<Rightarrow> (case row_get an_id i (vs_analyses s) of
       None \<Rightarrow> s
     | Some a \<Rightarrow> if an_status a \<noteq> AnalysisRunning then s
         else vision_publish cf w 0 VISION_ANALYSIS_COMPLETED [(''analysis_id'', PStr i), (''asset_id'', PStr asset)] ''info''
           (update_analysis i (completed_analysis (w_now w) r) s)))"

definition execute_analysis :: "vision_config \<Rightarrow> world \<Rightarrow> world \<Rightarrow> model_router \<Rightarrow> (vision \<Rightarrow> vision) \<Rightarrow> string \<Rightarrow> vision \<Rightarrow> vision" where
  \<comment> \<open>one task, uncancelled; \<open>others\<close> is what happens while the model works\<close>
  "execute_analysis cf w w' rt others i s =
     (case begin_analysis cf w i s of
        (None, s) \<Rightarrow> s
      | (Some (a, r), s) \<Rightarrow> end_analysis_task i (conclude_analysis cf w' i (as_id r) (ask_model rt a r s) (others s)))"

definition recover_stale_analyses :: "world \<Rightarrow> vision \<Rightarrow> vision" where
  "recover_stale_analyses w s = s\<lparr>vs_analyses := map (failed_analysis (w_now w) ''vision_interrupted'') (vs_analyses s)\<rparr>"

definition vision_shutdown :: "world \<Rightarrow> (string \<times> bool) list \<Rightarrow> (vision \<Rightarrow> vision) \<Rightarrow> string list \<Rightarrow> vision \<Rightarrow> vision" where
  \<comment> \<open>\<open>pending\<close> are the live tasks; \<open>others\<close> what their cancellation does; the list are those found still
    running or cancelled after the wait\<close>
  "vision_shutdown w pending others unfinished s =
     fold (\<lambda>i. mark_failed w i ''vision_cancelled'') (filter (\<lambda>i. i \<in> set unfinished) (map fst pending)) (others s)"

section \<open>Folders\<close>

definition allowed_roots :: "vision_host \<Rightarrow> string \<Rightarrow> path list" where
  "allowed_roots h raw = (case vh_json h raw of
     Some (PList xs) \<Rightarrow> map (vh_resolve_root h) (List.map_filter as_str xs) | _ \<Rightarrow> [])"

definition is_relative_to :: "path \<Rightarrow> path \<Rightarrow> bool" where
  "is_relative_to p base = (take (length base) p = base)"

definition allowed_directory :: "vision_host \<Rightarrow> string \<Rightarrow> path list \<Rightarrow> exn + path" where
  "allowed_directory h p roots = (case vh_resolve h p of
     None \<Rightarrow> Inl OSError
   | Some resolved \<Rightarrow>
       if \<not> vh_is_dir h resolved \<or> roots = [] \<or> \<not> list_ex (is_relative_to resolved) roots
       then Inl (VisionError ''vision_folder_forbidden'' ''Folder is outside configured vision roots'')
       else Inr resolved)"

definition insert_folder :: "folder_row \<Rightarrow> vision \<Rightarrow> exn + vision" where
  "insert_folder r s = ebind (guard (fo_root r \<notin> fo_root ` set (vs_folders s)) IntegrityError) (\<lambda>_.
     ebind (row_insert fo_id r (vs_folders s)) (\<lambda>t. Inr (s\<lparr>vs_folders := t\<rparr>)))"

definition register_folder :: "vision_config \<Rightarrow> vision_host \<Rightarrow> world \<Rightarrow> string \<Rightarrow> string \<Rightarrow> folder_row vop" where
  "register_folder cf h w name folder = op_bind (vision_enabled cf) (\<lambda>_.
     op_bind (op_lift (allowed_directory h folder (allowed_roots h (vc_allowed_roots cf)))) (\<lambda>p s.
       let r = \<lparr>fo_id = uuid_str (w_uuid4 w 0), fo_display_name = name, fo_root = p, fo_enabled = True, fo_created_at = w_now w\<rparr>
       in case insert_folder r s of Inl e \<Rightarrow> (Inl e, s) | Inr s \<Rightarrow> (Inr r, s)))"

definition list_folders :: "vision_config \<Rightarrow> folder_row list vop" where
  "list_folders cf = op_bind (vision_enabled cf) (\<lambda>_ s. (Inr (sort_key fo_created_at (vs_folders s)), s))"

definition read_regular_file :: "nat \<Rightarrow> dir_entry \<Rightarrow> exn + bytes" where
  "read_regular_file max_size e = (case en_content e of
     None \<Rightarrow> Inl OSError
   | Some (regular, data) \<Rightarrow> if \<not> regular \<or> max_size < length data
       then Inl (VisionError ''vision_image_too_large'' ''Folder image exceeds the configured size limit'')
       else Inr (take (max_size + 1) data))"

record scan_counts =
  sc_discovered :: nat
  sc_accepted :: nat
  sc_skipped :: nat
  sc_failed :: nat

fun scan_entries :: "vision_config \<Rightarrow> vision_host \<Rightarrow> (nat \<Rightarrow> world) \<Rightarrow> scan_counts \<Rightarrow> dir_entry list \<Rightarrow> scan_counts vop" where
  \<comment> \<open>the loop of \<open>scan_folder\<close>; the worlds are those of the files it stores\<close>
  "scan_entries cf h ws c [] = op_return c"
| "scan_entries cf h ws c (e # es) =
     (if vc_max_scan_files cf \<le> sc_discovered c then op_return (c\<lparr>sc_skipped := Suc (sc_skipped c)\<rparr>)
      else if \<not> en_is_file e \<or> en_is_symlink e then scan_entries cf h ws c es
      else let c = c\<lparr>sc_discovered := Suc (sc_discovered c)\<rparr>;
               attempt = op_bind (op_lift (read_regular_file (vc_max_file_size cf) e))
                 (\<lambda>data. create_asset cf h (ws (sc_discovered c)) (en_name e) None data ''folder'')
           in (\<lambda>s. case attempt s of
             (Inr r, s) \<Rightarrow> scan_entries cf h ws (c\<lparr>sc_accepted := Suc (sc_accepted c)\<rparr>) es s
           | (Inl (VisionError _ _), s) \<Rightarrow> scan_entries cf h ws (c\<lparr>sc_skipped := Suc (sc_skipped c)\<rparr>) es s
           | (Inl OSError, s) \<Rightarrow> scan_entries cf h ws (c\<lparr>sc_failed := Suc (sc_failed c)\<rparr>) es s
           | (Inl x, s) \<Rightarrow> (Inl x, s)))"

definition counts_payload :: "string \<Rightarrow> scan_counts \<Rightarrow> pydict" where
  "counts_payload folder c = [(''folder_id'', PStr folder), (''discovered'', PInt (int (sc_discovered c))),
     (''accepted'', PInt (int (sc_accepted c))), (''skipped'', PInt (int (sc_skipped c))), (''failed'', PInt (int (sc_failed c)))]"

definition scan_folder :: "vision_config \<Rightarrow> vision_host \<Rightarrow> (nat \<Rightarrow> world) \<Rightarrow> string \<Rightarrow> scan_counts vop" where
  "scan_folder cf h ws folder =
     op_bind (vision_enabled cf) (\<lambda>_.
     op_bind (\<lambda>s. (case row_get fo_id folder (vs_folders s) of
         None \<Rightarrow> Inl (VisionError ''vision_folder_not_found'' ''Vision folder was not found'') | Some r \<Rightarrow> Inr r, s)) (\<lambda>r.
     op_bind (op_lift (allowed_directory h (vh_path_text h (fo_root r)) (allowed_roots h (vc_allowed_roots cf)))) (\<lambda>base.
     op_bind (\<lambda>s. (Inr (), vision_publish cf (ws 0) 0 VISION_FOLDER_SCAN_STARTED [(''folder_id'', PStr folder)] ''info'' s)) (\<lambda>_.
     op_bind (scan_entries cf h ws \<lparr>sc_discovered = 0, sc_accepted = 0, sc_skipped = 0, sc_failed = 0\<rparr> (vh_entries h base)) (\<lambda>c s.
     (Inr c, vision_publish cf (ws 0) 1 VISION_FOLDER_SCAN_COMPLETED (counts_payload folder c) ''info'' s))))))"

section \<open>Steps\<close>

text \<open>
  What the service does between two suspensions that matter: uploads, deletions and scans in one step, a
  submission by its second part (the first changes nothing), an analysis by its beginning, its end and the
  cancellation of a task that still waits. A cancellation can also end a running task without a word in its
  row: when it arrives after the commit of the status and before the \<open>try\<close> block, or (a second one)
  while the handler writes the failure. The semaphore lets a task begin when no other holds it; \<open>uuid4\<close>
  does not repeat the identifier of a live task; \<open>shutdown\<close> marks a task it found cancelled or unfinished,
  which waits no longer.
\<close>

datatype vision_action =
    CreateAsset world string "string option" bytes string
  | DeleteAsset string
  | RegisterFolder world string string
  | ScanFolder "nat \<Rightarrow> world" string
  | Enqueue world vision_mode "string option" "asset_row \<times> string \<times> string"
  | Begin world string
  | Finish world string string "exn + model_response"
  | CancelWaiting string
  | CutRunning string
  | MarkCancelled world string
  | Restart world

fun vision_do :: "vision_config \<Rightarrow> vision_host \<Rightarrow> vision_action \<Rightarrow> vision \<Rightarrow> vision" where
  "vision_do cf h (CreateAsset w filename declared data source) s = snd (create_asset cf h w filename declared data source s)"
| "vision_do cf h (DeleteAsset i) s = snd (delete_asset cf i s)"
| "vision_do cf h (RegisterFolder w name folder) s = snd (register_folder cf h w name folder s)"
| "vision_do cf h (ScanFolder ws i) s = snd (scan_folder cf h ws i s)"
| "vision_do cf h (Enqueue w mode prompt x) s =
     (if uuid_str (w_uuid4 w 0) \<in> fst ` set (vs_tasks s) then s else snd (enqueue_analysis cf w mode prompt x s))"
| "vision_do cf h (Begin w i) s =
     (if map_of (vs_tasks s) i = Some False \<and> \<not> list_ex snd (vs_tasks s) then snd (begin_analysis cf w i s) else s)"
| "vision_do cf h (Finish w i asset outcome) s =
     (if map_of (vs_tasks s) i = Some True then end_analysis_task i (conclude_analysis cf w i asset outcome s) else s)"
| "vision_do cf h (CancelWaiting i) s = (if map_of (vs_tasks s) i = Some False then end_analysis_task i s else s)"
| "vision_do cf h (CutRunning i) s = (if map_of (vs_tasks s) i = Some True then end_analysis_task i s else s)"
| "vision_do cf h (MarkCancelled w i) s =
     (if map_of (vs_tasks s) i = Some False then s else mark_failed w i ''vision_cancelled'' s)"
| "vision_do cf h (Restart w) s = recover_stale_analyses w (s\<lparr>vs_tasks := []\<rparr>)"

interpretation asset_rows: row_table as_id "row_get as_id" "row_update as_id" "row_insert as_id"
  by (rule row_table_rows)

interpretation analysis_rows: row_table an_id "row_get an_id" "row_update an_id" "row_insert an_id"
  by (rule row_table_rows)

end
