(* ===== verification/Vision_Correct.thy ===== *)
theory Vision_Correct
  imports Vision
begin

text \<open>
  What every step of image analysis keeps: the stored files agree with the asset rows, an analysis refers to
  an asset that exists, one task at a time holds the semaphore, and a row moves along its status machine.
  The lemmas on a scan follow it file by file.
\<close>

section \<open>Uploads\<close>

lemma validate_image_mime: "validate_image h data n = Inr (fmt, mime) \<Longrightarrow> mime \<in> snd ` set ALLOWED_FORMATS"
  unfolding validate_image_def
  by (force split: option.splits if_splits dest: map_of_SomeD)

lemma insert_asset_Inr:
  "insert_asset r s = Inr s' \<longleftrightarrow> as_sha256 r \<notin> as_sha256 ` set (vs_assets s) \<and> as_locator r \<notin> as_locator ` set (vs_assets s) \<and>
     as_id r \<notin> as_id ` set (vs_assets s) \<and> s' = s\<lparr>vs_assets := vs_assets s @ [r]\<rparr>"
  by (auto simp: insert_asset_def exn_simps row_insert_Inr_iff row_get_None_iff)

lemma vision_publish_bus: "vision_publish cf w k ty payload severity s = s\<lparr>vs_bus := vs_bus (vision_publish cf w k ty payload severity s)\<rparr>"
  by (simp add: vision_publish_def)

lemma vision_publish_fields [simp]:
  "vs_assets (vision_publish cf w k ty payload severity s) = vs_assets s"
  "vs_analyses (vision_publish cf w k ty payload severity s) = vs_analyses s"
  "vs_files (vision_publish cf w k ty payload severity s) = vs_files s"
  "vs_folders (vision_publish cf w k ty payload severity s) = vs_folders s"
  "vs_tasks (vision_publish cf w k ty payload severity s) = vs_tasks s"
  by (simp_all add: vision_publish_def)

definition asset_for :: "vision_config \<Rightarrow> vision_host \<Rightarrow> bytes \<Rightarrow> string \<Rightarrow> asset_row \<Rightarrow> bool" where
  \<comment> \<open>the row describes the bytes\<close>
  "asset_for cf h data source r \<longleftrightarrow> as_sha256 r = vh_sha256 h data \<and> as_size_bytes r = length data \<and>
     length data \<le> vc_max_file_size cf \<and> as_mime_type r \<in> snd ` set ALLOWED_FORMATS \<and> as_source_type r = source"

lemma store_asset_cases:
  assumes "store_asset cf h w filename data source (fmt, mime) s = (res, s')"
  obtains (same) "s' = s"
  | (orphan) l e where "map_of (vs_files s) l = None" "s' = s\<lparr>vs_files := dict_put l data (vs_files s)\<rparr>" "res = Inl e"
  | (stored) r b where "res = Inr r" "as_sha256 r = vh_sha256 h data" "as_size_bytes r = length data"
      "as_mime_type r = mime" "as_source_type r = source" "map_of (vs_files s) (as_locator r) = None"
      "as_sha256 r \<notin> as_sha256 ` set (vs_assets s)" "as_locator r \<notin> as_locator ` set (vs_assets s)"
      "as_id r \<notin> as_id ` set (vs_assets s)"
      "s' = s\<lparr>vs_files := dict_put (as_locator r) data (vs_files s), vs_assets := vs_assets s @ [r], vs_bus := b\<rparr>"
proof -
  define digest where "digest = vh_sha256 h data"
  define l where "l = digest @ ''.'' @ py_lower fmt"
  define r where "r = \<lparr>as_id = uuid_str (w_uuid4 w 0), as_filename = safe_filename filename, as_mime_type = mime,
     as_size_bytes = length data, as_sha256 = digest, as_source_type = source, as_locator = l, as_created_at = w_now w\<rparr>"
  define s1 where "s1 = s\<lparr>vs_files := dict_put l data (vs_files s)\<rparr>"
  note eq = assms [unfolded store_asset_def prod.case Let_def, folded digest_def, folded l_def, folded r_def]
  show thesis
  proof (cases "List.find (\<lambda>r. as_sha256 r = digest) (vs_assets s)")
    case None
    note eq = eq [unfolded None option.case]
    show thesis
    proof (cases "map_of (vs_files s) l")
      case None
      then have w: "write_private l data s = Inr s1" by (simp add: write_private_def s1_def)
      show thesis
      proof (cases "insert_asset r s1")
        case (Inl e)
        with eq w have "res = Inl e" "s' = s1" by simp_all
        with None orphan show thesis by (simp add: s1_def)
      next
        case (Inr s2)
        with eq w have e: "res = Inr r" "s' = vision_publish cf w 1 VISION_ASSET_CREATED [(''asset_id'', PStr (as_id r)),
               (''mime_type'', PStr mime), (''size_bytes'', PInt (int (length data)))] ''info'' s2" by simp_all
        from Inr [unfolded insert_asset_Inr] have i: "as_sha256 r \<notin> as_sha256 ` set (vs_assets s)"
          "as_locator r \<notin> as_locator ` set (vs_assets s)" "as_id r \<notin> as_id ` set (vs_assets s)"
          "s2 = s\<lparr>vs_files := dict_put l data (vs_files s), vs_assets := vs_assets s @ [r]\<rparr>"
          by (simp_all add: s1_def)
        have l: "as_locator r = l" by (simp add: r_def)
        show thesis
          by (rule stored [OF e(1) _ _ _ _ _ i(1-3), of "vs_bus s'"])
            (use None in \<open>simp_all add: r_def digest_def e(2) i(4) vision_publish_def\<close>)
      qed
    next
      case (Some d)
      with eq have "s' = s" by (simp add: write_private_def)
      then show thesis by (rule same)
    qed
  next
    case (Some r)
    with eq have "s' = s" by simp
    then show thesis by (rule same)
  qed
qed

lemma create_asset_cases:
  assumes "create_asset cf h w filename declared data source s = (res, s')"
  obtains (same) "s' = s"
  | (orphan) l e where "map_of (vs_files s) l = None" "s' = s\<lparr>vs_files := dict_put l data (vs_files s)\<rparr>" "res = Inl e"
  | (stored) r b where "res = Inr r" "asset_for cf h data source r" "map_of (vs_files s) (as_locator r) = None"
      "as_sha256 r \<notin> as_sha256 ` set (vs_assets s)" "as_locator r \<notin> as_locator ` set (vs_assets s)"
      "as_id r \<notin> as_id ` set (vs_assets s)"
      "s' = s\<lparr>vs_files := dict_put (as_locator r) data (vs_files s), vs_assets := vs_assets s @ [r], vs_bus := b\<rparr>"
proof (cases "vc_enabled cf \<and> length data \<le> vc_max_file_size cf")
  case False
  with assms have "s' = s"
    by (auto simp: create_asset_def vision_enabled_def op_bind_def op_lift_def op_raise_def guard_def split: if_splits)
  then show thesis by (rule same)
next
  case True
  then have a: "create_asset cf h w filename declared data source s =
     op_bind (op_lift (validate_image h data (vc_max_pixels cf))) (\<lambda>(fmt, mime).
       if declared \<noteq> None \<and> declared \<noteq> Some [] \<and> declared \<noteq> Some mime
       then op_raise (VisionError ''vision_invalid_image'' ''Declared MIME type does not match decoded image'')
       else store_asset cf h w filename data source (fmt, mime)) s"
    by (simp add: create_asset_def vision_enabled_def op_bind_def op_lift_def guard_def)
  show thesis
  proof (cases "validate_image h data (vc_max_pixels cf)")
    case (Inl e)
    with assms a have "s' = s" by (simp add: op_bind_def op_lift_def)
    then show thesis by (rule same)
  next
    case (Inr p)
    obtain fmt mime where p: "p = (fmt, mime)" by fastforce
    show thesis
    proof (cases "declared \<noteq> None \<and> declared \<noteq> Some [] \<and> declared \<noteq> Some mime")
      case True
      with assms a Inr p have "s' = s" by (simp add: op_bind_def op_lift_def op_raise_def)
      then show thesis by (rule same)
    next
      case False
      with assms a Inr p have "store_asset cf h w filename data source (fmt, mime) s = (res, s')"
        by (simp only: op_bind_def op_lift_def prod.case sum.case if_False)
      then show thesis
      proof (cases rule: store_asset_cases)
        case (stored r b)
        with True validate_image_mime [of h data _ fmt mime] Inr p that(3) [of r b] show thesis
          by (simp add: asset_for_def)
      qed (use same orphan in blast)+
    qed
  qed
qed

section \<open>Scans\<close>

lemma scan_step_cases:
  assumes "scan_entries cf h ws c (e # es) s = (res, s')"
  obtains (full) "vc_max_scan_files cf \<le> sc_discovered c" "res = Inr (c\<lparr>sc_skipped := Suc (sc_skipped c)\<rparr>)" "s' = s"
  | (ignored) "sc_discovered c < vc_max_scan_files cf" "scan_entries cf h ws c es s = (res, s')"
  | (unread) c' where "sc_discovered c < vc_max_scan_files cf"
      "c' = c\<lparr>sc_discovered := Suc (sc_discovered c), sc_skipped := Suc (sc_skipped c)\<rparr> \<or>
       c' = c\<lparr>sc_discovered := Suc (sc_discovered c), sc_failed := Suc (sc_failed c)\<rparr>"
      "scan_entries cf h ws c' es s = (res, s')"
  | (tried) w name data r s1 where "sc_discovered c < vc_max_scan_files cf"
      "create_asset cf h w name None data ''folder'' s = (r, s1)"
      "(\<exists>a c'. r = Inr a \<and> c' = c\<lparr>sc_discovered := Suc (sc_discovered c), sc_accepted := Suc (sc_accepted c)\<rparr> \<and>
          scan_entries cf h ws c' es s1 = (res, s')) \<or>
       (\<exists>e c'. r = Inl e \<and> (c' = c\<lparr>sc_discovered := Suc (sc_discovered c), sc_skipped := Suc (sc_skipped c)\<rparr> \<or>
          c' = c\<lparr>sc_discovered := Suc (sc_discovered c), sc_failed := Suc (sc_failed c)\<rparr>) \<and>
          scan_entries cf h ws c' es s1 = (res, s')) \<or>
       (\<exists>e. r = Inl e \<and> res = Inl e \<and> s' = s1)"
proof (cases "vc_max_scan_files cf \<le> sc_discovered c")
  case True
  with assms full show thesis by (simp add: op_return_def)
next
  case below: False
  show thesis
  proof (cases "\<not> en_is_file e \<or> en_is_symlink e")
    case True
    with assms below ignored show thesis by simp
  next
    case False
    show thesis
    proof (cases "read_regular_file (vc_max_file_size cf) e")
      case (Inl x)
      then have "x = OSError \<or> (\<exists>a b. x = VisionError a b)"
        by (auto simp: read_regular_file_def split: option.splits prod.splits if_splits)
      with assms below False Inl show thesis
        by (elim disjE exE; intro unread) (auto simp: Let_def op_bind_def op_lift_def)
    next
      case (Inr data)
      obtain r s1 where r: "create_asset cf h (ws (Suc (sc_discovered c))) (en_name e) None data ''folder'' s = (r, s1)"
        by fastforce
      show thesis
      proof (rule tried [OF _ r], goal_cases)
        case 2
        with assms below False Inr r show ?case
          by (cases r) (auto simp: Let_def op_bind_def op_lift_def split: exn.splits)
      qed (use below in simp)
    qed
  qed
qed

lemma scan_entries_preserves:
  assumes "P s" "\<And>w name data s. P s \<Longrightarrow> P (snd (create_asset cf h w name None data ''folder'' s))"
  shows "P (snd (scan_entries cf h ws c es s))"
  using assms(1)
proof (induction es arbitrary: c s)
  case (Cons e es)
  obtain res s' where r: "scan_entries cf h ws c (e # es) s = (res, s')" by fastforce
  have step: "P t'" if "scan_entries cf h ws c' es t = (res, t')" "P t" for c' t t'
    using Cons.IH [OF that(2), of c'] that(1) by simp
  from r have "P s'"
  proof (cases rule: scan_step_cases)
    case (tried w name data x s1)
    have "P s1" using assms(2) [OF Cons.prems, of w name data] tried(2) by simp
    with tried(3) step show ?thesis by blast
  qed (use Cons.prems step in blast)+
  with r show ?case by simp
qed (simp add: op_return_def)

lemma scan_folder_preserves:
  assumes "P s" "\<And>w name data s. P s \<Longrightarrow> P (snd (create_asset cf h w name None data ''folder'' s))"
    and "\<And>s b. P s \<Longrightarrow> P (s\<lparr>vs_bus := b\<rparr>)"
  shows "P (snd (scan_folder cf h ws i s))"
proof -
  have pub: "P (vision_publish cf w k ty payload severity t)" if "P t" for w k ty payload severity t
    using assms(3) [OF that] by (simp add: vision_publish_def)
  have scan: "P (snd (scan_entries cf h ws c es t))" if "P t" for c es t
    by (rule scan_entries_preserves [where P = P]) (use that assms(2) in blast)+
  show ?thesis
    using assms(1) by (simp add: scan_folder_def op_bind_snd vision_enabled_def pub scan split: sum.split)
qed

definition scan_span :: "vision_config \<Rightarrow> scan_counts \<Rightarrow> vision \<Rightarrow> scan_counts \<Rightarrow> vision \<Rightarrow> bool" where
  \<comment> \<open>what a scan did between two of its points\<close>
  "scan_span cf c s c' s' \<longleftrightarrow>
     sc_accepted c \<le> sc_accepted c' \<and> (sc_discovered c' \<le> vc_max_scan_files cf \<or> sc_discovered c' = sc_discovered c) \<and>
     (\<exists>k\<le>1. sc_accepted c' + sc_skipped c' + sc_failed c' + sc_discovered c =
        sc_accepted c + sc_skipped c + sc_failed c + sc_discovered c' + k) \<and>
     (\<exists>new. vs_assets s' = vs_assets s @ new \<and> sc_accepted c + length new \<le> sc_accepted c' \<and>
        (\<forall>r\<in>set new. as_source_type r = ''folder'' \<and> as_size_bytes r \<le> vc_max_file_size cf))"

lemma scan_span_refl: "scan_span cf c s c s"
  by (simp add: scan_span_def)

lemma scan_span_full: "scan_span cf c s (c\<lparr>sc_skipped := Suc (sc_skipped c)\<rparr>) s"
  by (simp add: scan_span_def)

lemma scan_span_file:
  assumes "sc_discovered c < vc_max_scan_files cf" "scan_span cf c1 s1 c' s'"
    and "c1 = c\<lparr>sc_discovered := Suc (sc_discovered c), sc_skipped := Suc (sc_skipped c)\<rparr> \<or>
      c1 = c\<lparr>sc_discovered := Suc (sc_discovered c), sc_failed := Suc (sc_failed c)\<rparr>" "vs_assets s1 = vs_assets s"
  shows "scan_span cf c s c' s'"
  using assms by (elim disjE) (auto simp: scan_span_def)

lemma scan_span_accepted:
  assumes "sc_discovered c < vc_max_scan_files cf"
    and "scan_span cf (c\<lparr>sc_discovered := Suc (sc_discovered c), sc_accepted := Suc (sc_accepted c)\<rparr>) s1 c' s'"
    and "vs_assets s1 = vs_assets s \<or> (\<exists>r. vs_assets s1 = vs_assets s @ [r] \<and> as_source_type r = ''folder'' \<and>
      as_size_bytes r \<le> vc_max_file_size cf)"
  shows "scan_span cf c s c' s'"
proof -
  from assms(2) obtain new where new: "vs_assets s' = vs_assets s1 @ new" "Suc (sc_accepted c) + length new \<le> sc_accepted c'"
    "\<forall>r\<in>set new. as_source_type r = ''folder'' \<and> as_size_bytes r \<le> vc_max_file_size cf"
    by (auto simp: scan_span_def)
  then have "\<exists>new. vs_assets s' = vs_assets s @ new \<and> sc_accepted c + length new \<le> sc_accepted c' \<and>
        (\<forall>r\<in>set new. as_source_type r = ''folder'' \<and> as_size_bytes r \<le> vc_max_file_size cf)"
    using assms(3) by (elim disjE exE; force)
  with assms(1,2) show ?thesis by (auto simp: scan_span_def)
qed

lemma create_asset_grows:
  assumes "create_asset cf h w name declared data source s = (res, s')"
  shows "vs_assets s' = vs_assets s \<or> (\<exists>r. res = Inr r \<and> vs_assets s' = vs_assets s @ [r] \<and> asset_for cf h data source r)"
  using assms by (cases rule: create_asset_cases) auto

lemma scan_entries_span:
  "scan_entries cf h ws c es s = (Inr c', s') \<Longrightarrow> scan_span cf c s c' s'"
proof (induction es arbitrary: c s)
  case Nil
  then show ?case by (simp add: op_return_def scan_span_refl)
next
  case (Cons e es)
  from Cons.prems show ?case
  proof (cases rule: scan_step_cases)
    case full
    then show ?thesis by (auto simp: scan_span_full)
  next
    case ignored
    show ?thesis by (rule Cons.IH [OF ignored(2)])
  next
    case (unread c1)
    from Cons.IH [OF unread(3)] unread(1,2) show ?thesis by (blast intro: scan_span_file)
  next
    case (tried w name data r s1)
    note grows = create_asset_grows [OF tried(2)]
    from tried(3) consider
      (ok) a where "r = Inr a" "scan_entries cf h ws (c\<lparr>sc_discovered := Suc (sc_discovered c),
          sc_accepted := Suc (sc_accepted c)\<rparr>) es s1 = (Inr c', s')"
    | (failed) x c1 where "r = Inl x" "c1 = c\<lparr>sc_discovered := Suc (sc_discovered c), sc_skipped := Suc (sc_skipped c)\<rparr> \<or>
          c1 = c\<lparr>sc_discovered := Suc (sc_discovered c), sc_failed := Suc (sc_failed c)\<rparr>"
        "scan_entries cf h ws c1 es s1 = (Inr c', s')"
      by blast
    then show ?thesis
    proof cases
      case ok
      show ?thesis
        by (rule scan_span_accepted [OF tried(1) Cons.IH [OF ok(2)]]) (use grows in \<open>auto simp: asset_for_def\<close>)
    next
      case failed
      show ?thesis
        by (rule scan_span_file [OF tried(1) Cons.IH [OF failed(3)] failed(2)]) (use grows failed(1) in auto)
    qed
  qed
qed

section \<open>What the table and the files say\<close>

definition assets_inv :: "vision_config \<Rightarrow> vision_host \<Rightarrow> vision \<Rightarrow> bool" where
  "assets_inv cf h s \<longleftrightarrow> distinct (map as_id (vs_assets s)) \<and> distinct (map as_sha256 (vs_assets s)) \<and>
     distinct (map as_locator (vs_assets s)) \<and>
     (\<forall>r\<in>set (vs_assets s). \<exists>data source. map_of (vs_files s) (as_locator r) = Some data \<and> asset_for cf h data source r)"

definition analyses_inv :: "vision \<Rightarrow> bool" where
  "analyses_inv s \<longleftrightarrow> distinct (map an_id (vs_analyses s)) \<and>
     (\<forall>a\<in>set (vs_analyses s). an_asset_id a \<in> as_id ` set (vs_assets s))"

lemma assets_inv_keep:
  "assets_inv cf h s \<Longrightarrow> vs_assets s' = vs_assets s \<Longrightarrow> vs_files s' = vs_files s \<Longrightarrow> assets_inv cf h s'"
  by (simp add: assets_inv_def)

lemma assets_inv_create:
  assumes "assets_inv cf h s"
  shows "assets_inv cf h (snd (create_asset cf h w name declared data source s))"
proof -
  obtain res s' where r: "create_asset cf h w name declared data source s = (res, s')" by fastforce
  from r have "assets_inv cf h s'"
  proof (cases rule: create_asset_cases)
    case same
    with assms show ?thesis by simp
  next
    case (orphan l e)
    with assms show ?thesis by (fastforce simp: assets_inv_def)
  next
    case (stored r b)
    then have d: "distinct (map as_id (vs_assets s'))" "distinct (map as_sha256 (vs_assets s'))"
      "distinct (map as_locator (vs_assets s'))"
      using assms by (auto simp: assets_inv_def)
    have "\<exists>data source. map_of (vs_files s') (as_locator x) = Some data \<and> asset_for cf h data source x"
      if x: "x \<in> set (vs_assets s')" for x
    proof (cases "x = r")
      case True
      with stored show ?thesis by auto
    next
      case False
      with x stored(7) have "x \<in> set (vs_assets s)" by simp
      moreover from this stored(5) have "as_locator x \<noteq> as_locator r" by (metis imageI)
      ultimately show ?thesis using assms stored(7) by (auto simp: assets_inv_def)
    qed
    with d show ?thesis by (auto simp: assets_inv_def)
  qed
  with r show ?thesis by simp
qed

lemma get_asset_state: "snd (get_asset cf i s) = s"
  by (simp add: get_asset_def vision_enabled_def op_bind_snd split: sum.split)

lemma get_asset_row: "fst (get_asset cf i s) = Inr r \<Longrightarrow> r \<in> set (vs_assets s) \<and> as_id r = i"
  by (auto simp: get_asset_def vision_enabled_def op_bind_def op_lift_def guard_def
      split: if_splits option.splits dest: row_get_Some)

definition without_asset :: "asset_row \<Rightarrow> vision \<Rightarrow> vision" where
  "without_asset r s = s\<lparr>vs_assets := row_delete as_id (as_id r) (vs_assets s),
      vs_analyses := filter (\<lambda>a. an_asset_id a \<noteq> as_id r) (vs_analyses s), vs_files := dict_pop (as_locator r) (vs_files s)\<rparr>"

lemma without_asset_fields [simp]:
  "vs_assets (without_asset r s) = row_delete as_id (as_id r) (vs_assets s)"
  "vs_analyses (without_asset r s) = filter (\<lambda>a. an_asset_id a \<noteq> as_id r) (vs_analyses s)"
  "vs_files (without_asset r s) = dict_pop (as_locator r) (vs_files s)"
  "vs_tasks (without_asset r s) = vs_tasks s"
  by (simp_all add: without_asset_def)

lemma delete_asset_cases:
  obtains (same) "snd (delete_asset cf i s) = s"
  | (gone) r where "r \<in> set (vs_assets s)" "snd (delete_asset cf i s) = without_asset r s"
proof (cases "fst (get_asset cf i s)")
  case (Inl e)
  then have "snd (delete_asset cf i s) = s" by (simp add: delete_asset_def op_bind_snd get_asset_state)
  then show thesis by (rule same)
next
  case (Inr r)
  then have "snd (delete_asset cf i s) = without_asset r s"
    by (simp add: delete_asset_def op_bind_snd get_asset_state without_asset_def)
  from gone [OF conjunct1 [OF get_asset_row [OF Inr]] this] show thesis .
qed

lemma assets_inv_without:
  assumes "assets_inv cf h s" "r \<in> set (vs_assets s)"
  shows "assets_inv cf h (without_asset r s)"
proof -
  have "as_locator x \<noteq> as_locator r" if "x \<in> set (vs_assets s)" "as_id x \<noteq> as_id r" for x
    using assms that unfolding assets_inv_def by (metis distinct_map inj_onD)
  with assms(1) show ?thesis by (simp add: assets_inv_def row_delete_def distinct_map_filter)
qed

lemma assets_inv_delete: "assets_inv cf h s \<Longrightarrow> assets_inv cf h (snd (delete_asset cf i s))"
  by (cases rule: delete_asset_cases [of cf i s]) (simp_all only: assets_inv_without)

section \<open>Analyses\<close>

definition analysis_at :: "string \<Rightarrow> vision \<Rightarrow> analysis_row option" where
  "analysis_at i s = row_get an_id i (vs_analyses s)"

definition analysis_moves :: "analysis_row \<Rightarrow> analysis_row \<Rightarrow> bool" where
  \<comment> \<open>what a step may do to a row\<close>
  "analysis_moves a b \<longleftrightarrow> b = a \<or> (an_status a = AnalysisQueued \<and> an_status b = AnalysisRunning) \<or>
     (an_status a = AnalysisRunning \<and> an_status b = AnalysisCompleted) \<or>
     (analysis_active (an_status a) \<and> an_status b = AnalysisFailed)"

interpretation analysis_life: status_machine analysis_moves "\<lambda>a. \<not> analysis_active (an_status a)"
  by unfold_locales (auto simp: analysis_moves_def analysis_active_def)

lemma analysis_moves_refl [simp]: "analysis_moves a a"
  by (simp add: analysis_moves_def)

lemma analysis_at_keep: "vs_analyses s' = vs_analyses s \<Longrightarrow> analysis_at i s' = analysis_at i s"
  by (simp add: analysis_at_def)

lemma update_analysis_fields [simp]:
  "vs_assets (update_analysis i f s) = vs_assets s" "vs_files (update_analysis i f s) = vs_files s"
  "vs_tasks (update_analysis i f s) = vs_tasks s"
  by (simp_all add: update_analysis_def)

lemma analysis_at_update:
  "(\<And>a. an_id (f a) = an_id a) \<Longrightarrow>
   analysis_at j (update_analysis i f s) = (if j = i then map_option f (analysis_at i s) else analysis_at j s)"
  by (simp add: analysis_at_def update_analysis_def analysis_rows.get_update)

lemma failed_analysis_id [simp]: "an_id (failed_analysis now code a) = an_id a"
  by (simp add: failed_analysis_def)

definition concluded :: "world \<Rightarrow> exn + model_response \<Rightarrow> analysis_row \<Rightarrow> analysis_row" where
  "concluded w outcome a = (case outcome of
     Inl e \<Rightarrow> failed_analysis (w_now w) (if e = CancelledError then ''vision_cancelled'' else failure_code e) a
   | Inr r \<Rightarrow> if an_status a = AnalysisRunning then completed_analysis (w_now w) r a else a)"

lemma conclude_fields [simp]:
  "vs_assets (conclude_analysis cf w i asset outcome s) = vs_assets s"
  "vs_files (conclude_analysis cf w i asset outcome s) = vs_files s"
  "vs_tasks (conclude_analysis cf w i asset outcome s) = vs_tasks s"
  by (simp_all add: conclude_analysis_def mark_failed_def split: sum.split exn.split option.split)

lemma analysis_at_publish [simp]: "analysis_at i (vision_publish cf w k ty payload severity s) = analysis_at i s"
  by (rule analysis_at_keep) simp

lemma completed_analysis_id [simp]: "an_id (completed_analysis now r a) = an_id a"
  by (simp add: completed_analysis_def)

lemma analysis_at_conclude:
  "analysis_at j (conclude_analysis cf w i asset outcome s) =
     (if j = i then map_option (concluded w outcome) (analysis_at i s) else analysis_at j s)"
proof (cases outcome)
  case (Inl e)
  have "concluded w (Inl e) = failed_analysis (w_now w) (if e = CancelledError then ''vision_cancelled'' else failure_code e)"
    by (rule ext) (simp add: concluded_def)
  with Inl show ?thesis
    by (cases e) (simp_all add: conclude_analysis_def mark_failed_def analysis_at_update)
next
  case (Inr r)
  then show ?thesis
    by (auto simp: conclude_analysis_def concluded_def analysis_at_update analysis_at_def [symmetric] split: option.split)
qed

lemma concluded_moves: "analysis_moves a (concluded w outcome a)"
  by (auto simp: concluded_def analysis_moves_def failed_analysis_def completed_analysis_def split: sum.split)

lemma concluded_final: "an_status a = AnalysisRunning \<Longrightarrow> \<not> analysis_active (an_status (concluded w outcome a))"
  by (auto simp: concluded_def analysis_active_def failed_analysis_def completed_analysis_def split: sum.split)

lemma concluded_idle: "\<not> analysis_active (an_status a) \<Longrightarrow> concluded w outcome a = a"
  by (auto simp: concluded_def analysis_active_def failed_analysis_def split: sum.split)

lemma concluded_stops: "an_status (concluded w outcome a) \<noteq> AnalysisRunning"
  by (auto simp: concluded_def failed_analysis_def completed_analysis_def analysis_active_def split: sum.split)

definition task_agrees :: "bool \<Rightarrow> bool option \<Rightarrow> analysis_row option \<Rightarrow> bool" where
  \<comment> \<open>the task of an analysis, if live, and the row; the first argument says that a running task was cut\<close>
  "task_agrees b t r \<longleftrightarrow> (\<forall>a. r = Some a \<longrightarrow>
     (an_status a = AnalysisRunning \<longrightarrow> t = Some True \<or> b) \<and> (t = Some False \<longrightarrow> an_status a = AnalysisQueued))"

definition tasks_inv :: "string set \<Rightarrow> vision \<Rightarrow> bool" where
  "tasks_inv C s \<longleftrightarrow> distinct (map fst (vs_tasks s)) \<and> length (filter snd (vs_tasks s)) \<le> 1 \<and>
     (\<forall>i. task_agrees (i \<in> C) (map_of (vs_tasks s) i) (analysis_at i s))"

lemma tasks_inv_rows:
  assumes "tasks_inv C s" "vs_tasks s' = vs_tasks s"
    and "\<And>i. task_agrees (i \<in> C) (map_of (vs_tasks s) i) (analysis_at i s) \<Longrightarrow> task_agrees (i \<in> C) (map_of (vs_tasks s) i) (analysis_at i s')"
  shows "tasks_inv C s'"
  using assms(1,3) by (simp add: tasks_inv_def assms(2))

lemma filter_one:
  assumes "distinct (map fst d)" "\<not> list_ex snd d"
  shows "length (filter snd (dict_put i True d)) \<le> 1"
proof -
  let ?f = "filter snd (dict_put i True d)"
  have "set ?f \<subseteq> {(i, True)}"
    using assms(2) by (auto simp: dict_put_def list_ex_iff)
  moreover have "distinct ?f" using assms(1) by (metis distinct_dict(1) distinct_filter distinct_map)
  ultimately show ?thesis
    by (metis card.empty card_insert_disjoint card_mono distinct_card empty_iff finite.emptyI finite.insertI One_nat_def)
qed

lemma delete_analysis_at:
  assumes "analyses_inv s"
  shows "analysis_at j (snd (delete_asset cf i s)) = analysis_at j s \<or> analysis_at j (snd (delete_asset cf i s)) = None"
proof (cases rule: delete_asset_cases [of cf i s])
  case (gone r)
  have d: "distinct (map an_id (vs_analyses s))" using assms by (simp add: analyses_inv_def)
  show ?thesis unfolding gone(2) analysis_at_def without_asset_fields
    by (cases "row_get an_id j (filter (\<lambda>a. an_asset_id a \<noteq> as_id r) (vs_analyses s))")
      (use row_get_filter [OF d] in \<open>simp_all\<close>)
qed simp

lemma delete_tasks: "vs_tasks (snd (delete_asset cf i s)) = vs_tasks s"
  by (cases rule: delete_asset_cases [of cf i s]) simp_all

lemma tasks_inv_delete:
  assumes "tasks_inv C s" "analyses_inv s"
  shows "tasks_inv C (snd (delete_asset cf i s))"
proof (rule tasks_inv_rows [OF assms(1) delete_tasks])
  show "task_agrees (j \<in> C) (map_of (vs_tasks s) j) (analysis_at j (snd (delete_asset cf i s)))"
    if "task_agrees (j \<in> C) (map_of (vs_tasks s) j) (analysis_at j s)" for j
    using delete_analysis_at [OF assms(2), of j cf i] that
    unfolding task_agrees_def by (metis option.distinct(1))
qed

lemma analyses_inv_without: "analyses_inv s \<Longrightarrow> analyses_inv (without_asset r s)"
  by (auto simp: analyses_inv_def row_delete_def distinct_map_filter)

lemma analyses_inv_delete: "analyses_inv s \<Longrightarrow> analyses_inv (snd (delete_asset cf i s))"
  by (cases rule: delete_asset_cases [of cf i s]) (simp_all only: analyses_inv_without)

lemma filter_pop: "length (filter snd (dict_pop i d)) \<le> length (filter snd d)"
  by (induction d) (auto simp: dict_pop_def)

lemma task_agrees_none: "(\<And>a. r = Some a \<Longrightarrow> an_status a \<noteq> AnalysisRunning \<or> b) \<Longrightarrow> task_agrees b None r"
  by (auto simp: task_agrees_def)

lemma tasks_inv_mono: "tasks_inv C s \<Longrightarrow> C \<subseteq> D \<Longrightarrow> tasks_inv D s"
  unfolding tasks_inv_def task_agrees_def by blast

lemma tasks_inv_end:
  assumes "tasks_inv C s" "\<And>a. analysis_at i s = Some a \<Longrightarrow> an_status a \<noteq> AnalysisRunning \<or> i \<in> C"
  shows "tasks_inv C (end_analysis_task i s)"
proof -
  have at: "analysis_at j (end_analysis_task i s) = analysis_at j s" for j
    by (rule analysis_at_keep) (simp add: end_analysis_task_def)
  have tasks: "vs_tasks (end_analysis_task i s) = dict_pop i (vs_tasks s)" by (simp add: end_analysis_task_def)
  have "length (filter snd (dict_pop i (vs_tasks s))) \<le> 1"
    using assms(1) filter_pop [of i "vs_tasks s"] unfolding tasks_inv_def by linarith
  moreover have "distinct (map fst (dict_pop i (vs_tasks s)))" using assms(1) unfolding tasks_inv_def by blast
  moreover have "task_agrees (j \<in> C) (map_of (dict_pop i (vs_tasks s)) j) (analysis_at j s)" for j
  proof (cases "j = i")
    case True
    with task_agrees_none [OF assms(2)] show ?thesis by simp
  next
    case False
    with assms(1) show ?thesis by (simp add: tasks_inv_def)
  qed
  ultimately show ?thesis unfolding tasks_inv_def at tasks by blast
qed

lemma tasks_inv_map:
  \<comment> \<open>one row is changed so that it does not start to run, and no task waits for it\<close>
  fixes s s' :: vision and f :: "analysis_row \<Rightarrow> analysis_row"
  assumes "tasks_inv C s" "vs_tasks s' = vs_tasks s" "map_of (vs_tasks s) i \<noteq> Some False"
    and at: "\<And>j. analysis_at j s' = (if j = i then map_option f (analysis_at i s) else analysis_at j s)"
    and runs: "\<And>a. an_status (f a) = AnalysisRunning \<Longrightarrow> an_status a = AnalysisRunning"
  shows "tasks_inv C s'"
proof (rule tasks_inv_rows [OF assms(1,2)])
  fix j
  assume agrees: "task_agrees (j \<in> C) (map_of (vs_tasks s) j) (analysis_at j s)"
  show "task_agrees (j \<in> C) (map_of (vs_tasks s) j) (analysis_at j s')"
  proof (cases "j = i")
    case True
    show ?thesis
    proof (cases "analysis_at i s")
      case None
      with True show ?thesis by (simp add: at task_agrees_def)
    next
      case (Some a)
      with agrees True assms(3) runs [of a] show ?thesis by (auto simp: at task_agrees_def)
    qed
  next
    case False
    with agrees show ?thesis by (simp only: at if_False)
  qed
qed

section \<open>Every step keeps them\<close>

definition vision_inv :: "vision_config \<Rightarrow> vision_host \<Rightarrow> string set \<Rightarrow> vision \<Rightarrow> bool" where
  "vision_inv cf h C s \<longleftrightarrow> assets_inv cf h s \<and> analyses_inv s \<and> tasks_inv C s"

lemma vision_invI: "assets_inv cf h s \<Longrightarrow> analyses_inv s \<Longrightarrow> tasks_inv C s \<Longrightarrow> vision_inv cf h C s"
  by (simp add: vision_inv_def)

lemma vision_invD:
  assumes "vision_inv cf h C s"
  shows "assets_inv cf h s" "analyses_inv s" "tasks_inv C s"
  using assms by (simp_all add: vision_inv_def)

lemma create_asset_keeps:
  "vs_analyses (snd (create_asset cf h w name declared data source s)) = vs_analyses s \<and>
   vs_tasks (snd (create_asset cf h w name declared data source s)) = vs_tasks s \<and>
   as_id ` set (vs_assets s) \<subseteq> as_id ` set (vs_assets (snd (create_asset cf h w name declared data source s)))"
proof -
  obtain res s' where r: "create_asset cf h w name declared data source s = (res, s')" by fastforce
  then have "vs_analyses s' = vs_analyses s \<and> vs_tasks s' = vs_tasks s \<and> as_id ` set (vs_assets s) \<subseteq> as_id ` set (vs_assets s')"
    by (cases rule: create_asset_cases) auto
  with r show ?thesis by simp
qed

lemma tasks_inv_keep:
  assumes "tasks_inv C s" "vs_tasks s' = vs_tasks s" "vs_analyses s' = vs_analyses s"
  shows "tasks_inv C s'"
  using assms by (simp add: tasks_inv_def analysis_at_def)

lemma analyses_inv_keep:
  assumes "analyses_inv s" "vs_analyses s' = vs_analyses s" "as_id ` set (vs_assets s) \<subseteq> as_id ` set (vs_assets s')"
  shows "analyses_inv s'"
  using assms by (auto simp: analyses_inv_def)

lemma vision_inv_bus: "vision_inv cf h C s \<Longrightarrow> vision_inv cf h C (s\<lparr>vs_bus := b\<rparr>)"
  by (auto simp: vision_inv_def intro: assets_inv_keep analyses_inv_keep tasks_inv_keep)

lemma vision_inv_create:
  assumes "vision_inv cf h C s"
  shows "vision_inv cf h C (snd (create_asset cf h w name declared data source s))"
proof (rule vision_invI)
  note inv = vision_invD [OF assms] and keeps = create_asset_keeps [of cf h w name declared data source s]
  show "assets_inv cf h (snd (create_asset cf h w name declared data source s))" by (rule assets_inv_create [OF inv(1)])
  from inv(2) keeps show "analyses_inv (snd (create_asset cf h w name declared data source s))"
    by (intro analyses_inv_keep [OF inv(2)]) simp_all
  from inv(3) keeps show "tasks_inv C (snd (create_asset cf h w name declared data source s))"
    by (intro tasks_inv_keep [OF inv(3)]) simp_all
qed

lemma vision_inv_delete: "vision_inv cf h C s \<Longrightarrow> vision_inv cf h C (snd (delete_asset cf i s))"
  by (simp add: vision_inv_def assets_inv_delete analyses_inv_delete tasks_inv_delete)

lemma vision_inv_scan: "vision_inv cf h C s \<Longrightarrow> vision_inv cf h C (snd (scan_folder cf h ws i s))"
  by (rule scan_folder_preserves [where P = "vision_inv cf h C"]) (simp_all add: vision_inv_create vision_inv_bus)

lemma register_folder_keeps:
  "\<exists>rows. snd (register_folder cf h w name folder s) = s\<lparr>vs_folders := rows\<rparr>"
proof -
  have "\<exists>rows. s = s\<lparr>vs_folders := rows\<rparr>" for s :: vision by (rule exI [of _ "vs_folders s"]) simp
  then show ?thesis
    by (auto simp: register_folder_def op_bind_snd vision_enabled_def insert_folder_def exn_simps Let_def split: sum.split)
qed

lemma vision_inv_register:
  assumes "vision_inv cf h C s"
  shows "vision_inv cf h C (snd (register_folder cf h w name folder s))"
proof -
  obtain rows where "snd (register_folder cf h w name folder s) = s\<lparr>vs_folders := rows\<rparr>"
    using register_folder_keeps by blast
  moreover have "vision_inv cf h C (s\<lparr>vs_folders := rows\<rparr>)"
    using assms by (auto simp: vision_inv_def intro: assets_inv_keep analyses_inv_keep tasks_inv_keep)
  ultimately show ?thesis by simp
qed

lemma row_get_distinct: "distinct (map key t) \<Longrightarrow> r \<in> set t \<Longrightarrow> row_get key (key r) t = Some r"
  by (simp add: row_get_eq_iff)

text \<open>The rows of the analyses may change in their other columns.\<close>

lemma analyses_inv_update:
  assumes "analyses_inv s" "\<And>a. an_id (f a) = an_id a" "\<And>a. an_asset_id (f a) = an_asset_id a"
  shows "analyses_inv (update_analysis i f s)"
  using assms by (auto simp: analyses_inv_def update_analysis_def set_row_update)

lemma failed_analysis_asset [simp]: "an_asset_id (failed_analysis now code a) = an_asset_id a"
  by (simp add: failed_analysis_def)

lemma completed_analysis_asset [simp]: "an_asset_id (completed_analysis now r a) = an_asset_id a"
  by (simp add: completed_analysis_def)

lemma analyses_inv_publish [simp]: "analyses_inv (vision_publish cf w k ty payload severity s) = analyses_inv s"
  by (simp add: analyses_inv_def)

lemma analyses_inv_fail: "analyses_inv s \<Longrightarrow> analyses_inv (mark_failed w i code s)"
  unfolding mark_failed_def by (rule analyses_inv_update) simp_all

lemma analyses_inv_conclude:
  assumes "analyses_inv s"
  shows "analyses_inv (conclude_analysis cf w i asset outcome s)"
proof (cases outcome)
  case (Inl e)
  with assms show ?thesis by (cases e) (simp_all add: conclude_analysis_def analyses_inv_fail)
next
  case (Inr r)
  with assms show ?thesis
    by (simp add: conclude_analysis_def analyses_inv_update split: option.split)
qed

lemma assets_inv_conclude: "assets_inv cf h s \<Longrightarrow> assets_inv cf h (conclude_analysis cf' w i asset outcome s)"
  by (rule assets_inv_keep) simp_all

definition queued_row :: "world \<Rightarrow> vision_mode \<Rightarrow> string option \<Rightarrow> asset_row \<times> string \<times> string \<Rightarrow> analysis_row" where
  "queued_row w mode prompt x = \<lparr>an_id = uuid_str (w_uuid4 w 0), an_asset_id = as_id (fst x), an_provider_id = fst (snd x),
     an_model_id = snd (snd x), an_mode = mode, an_prompt = prompt, an_status = AnalysisQueued, an_raw_text = None,
     an_description = None, an_ocr_text = None, an_latency_ms = None, an_error_code = None,
     an_created_at = w_now w, an_completed_at = None\<rparr>"

lemma enqueue_cases:
  obtains (refused) e where "enqueue_analysis cf w mode prompt x s = (Inl e, s)"
  | (queued) b where "row_get as_id (as_id (fst x)) (vs_assets s) \<noteq> None" "analysis_at (uuid_str (w_uuid4 w 0)) s = None"
      "enqueue_analysis cf w mode prompt x s = (Inr (queued_row w mode prompt x), s\<lparr>vs_analyses := vs_analyses s @ [queued_row w mode prompt x],
         vs_bus := b, vs_tasks := dict_put (uuid_str (w_uuid4 w 0)) False (vs_tasks s)\<rparr>)"
proof -
  let ?a = "queued_row w mode prompt x"
  obtain r provider model_id where x: "x = (r, provider, model_id)" using prod_cases3 by blast
  show thesis
  proof (cases "insert_analysis ?a s")
    case (Inl e)
    then have "enqueue_analysis cf w mode prompt x s = (Inl e, s)"
      by (simp add: enqueue_analysis_def x queued_row_def)
    then show thesis by (rule refused)
  next
    case (Inr s1)
    then have i: "row_get as_id (as_id r) (vs_assets s) \<noteq> None" "row_get an_id (uuid_str (w_uuid4 w 0)) (vs_analyses s) = None"
      "s1 = s\<lparr>vs_analyses := vs_analyses s @ [?a]\<rparr>"
      by (auto simp: insert_analysis_def exn_simps row_insert_Inr_iff queued_row_def x)
    from Inr have "enqueue_analysis cf w mode prompt x s = (Inr ?a, (vision_publish cf w 1 VISION_ANALYSIS_QUEUED
        [(''analysis_id'', PStr (an_id ?a)), (''asset_id'', PStr (as_id r)), (''mode'', PStr (vision_mode_value mode))] ''info'' s1)
         \<lparr>vs_tasks := dict_put (an_id ?a) False (vs_tasks s1)\<rparr>)"
      by (simp add: enqueue_analysis_def x queued_row_def)
    moreover have "an_id ?a = uuid_str (w_uuid4 w 0)" by (simp add: queued_row_def)
    ultimately show thesis
      by (intro queued) (use i in \<open>simp_all add: x analysis_at_def vision_publish_def\<close>)
  qed
qed

lemma queued_row_fields [simp]:
  "an_id (queued_row w mode prompt x) = uuid_str (w_uuid4 w 0)" "an_asset_id (queued_row w mode prompt x) = as_id (fst x)"
  "an_status (queued_row w mode prompt x) = AnalysisQueued"
  by (simp_all add: queued_row_def)

lemma vision_inv_enqueue:
  assumes "vision_inv cf h C s" "uuid_str (w_uuid4 w 0) \<notin> fst ` set (vs_tasks s)"
  shows "vision_inv cf h C (snd (enqueue_analysis cf w mode prompt x s))"
proof (cases rule: enqueue_cases [of cf w mode prompt x s])
  case refused
  with assms(1) show ?thesis by simp
next
  case (queued b)
  let ?i = "uuid_str (w_uuid4 w 0)" and ?a = "queued_row w mode prompt x"
  let ?s = "snd (enqueue_analysis cf w mode prompt x s)"
  have s: "vs_assets ?s = vs_assets s" "vs_files ?s = vs_files s" "vs_analyses ?s = vs_analyses s @ [?a]"
    "vs_tasks ?s = vs_tasks s @ [(?i, False)]"
    using queued(3) assms(2) by (simp_all add: dict_put_def map_of_eq_None_iff)
  note inv = vision_invD [OF assms(1)]
  have at: "analysis_at j ?s = (if j = ?i then Some ?a else analysis_at j s)" for j
    using queued(2) by (auto simp: analysis_at_def s split: option.split)
  have "assets_inv cf h ?s" by (rule assets_inv_keep [OF inv(1) s(1,2)])
  moreover have "analyses_inv ?s"
    using inv(2) queued(1,2) by (auto simp: analyses_inv_def s row_get_None_iff analysis_at_def)
  moreover have "tasks_inv C ?s"
  proof -
    have "task_agrees (j \<in> C) (map_of (vs_tasks ?s) j) (analysis_at j ?s)" for j
    proof (cases "j = ?i")
      case True
      have "map_of (vs_tasks s) ?i = None" using assms(2) by (simp add: map_of_eq_None_iff)
      with True have "map_of (vs_tasks ?s) j = Some False" by (simp add: s map_add_def)
      with True show ?thesis by (simp add: at task_agrees_def)
    next
      case False
      then have "map_of (vs_tasks ?s) j = map_of (vs_tasks s) j" by (simp add: s map_add_def split: option.split)
      with False inv(3) show ?thesis by (simp add: at tasks_inv_def)
    qed
    with inv(3) assms(2) show ?thesis unfolding tasks_inv_def by (auto simp: s)
  qed
  ultimately show ?thesis by (rule vision_invI)
qed

lemma begin_cases:
  obtains (gone) "begin_analysis cf w i s = (None, end_analysis_task i s)"
  | (begun) a r b where "analysis_at i s = Some a" "row_get as_id (an_asset_id a) (vs_assets s) = Some r"
      "begin_analysis cf w i s = (Some (a, r), (update_analysis i (an_status_update (\<lambda>_. AnalysisRunning)) s)
         \<lparr>vs_tasks := dict_put i True (vs_tasks s), vs_bus := b\<rparr>)"
proof (cases "analysis_at i s")
  case None
  then have "begin_analysis cf w i s = (None, end_analysis_task i s)" by (simp add: begin_analysis_def analysis_at_def)
  then show thesis by (rule gone)
next
  case (Some a)
  show thesis
  proof (cases "row_get as_id (an_asset_id a) (vs_assets s)")
    case None
    with Some have "begin_analysis cf w i s = (None, end_analysis_task i s)" by (simp add: begin_analysis_def analysis_at_def)
    then show thesis by (rule gone)
  next
    case (Some r)
    with \<open>analysis_at i s = Some a\<close> show thesis
      by (intro begun [OF \<open>analysis_at i s = Some a\<close> Some])
        (simp add: begin_analysis_def analysis_at_def vision_publish_def)
  qed
qed

lemma vision_inv_mono: "vision_inv cf h C s \<Longrightarrow> C \<subseteq> D \<Longrightarrow> vision_inv cf h D s"
  unfolding vision_inv_def using tasks_inv_mono by blast

lemma vision_inv_end:
  assumes "vision_inv cf h C s" "\<And>a. analysis_at i s = Some a \<Longrightarrow> an_status a \<noteq> AnalysisRunning \<or> i \<in> C"
  shows "vision_inv cf h C (end_analysis_task i s)"
proof (rule vision_invI)
  note inv = vision_invD [OF assms(1)]
  show "assets_inv cf h (end_analysis_task i s)" by (rule assets_inv_keep [OF inv(1)]) (simp_all add: end_analysis_task_def)
  show "analyses_inv (end_analysis_task i s)" by (rule analyses_inv_keep [OF inv(2)]) (simp_all add: end_analysis_task_def)
  show "tasks_inv C (end_analysis_task i s)" by (rule tasks_inv_end [OF inv(3) assms(2)])
qed

lemma waiting_queued:
  "tasks_inv C s \<Longrightarrow> map_of (vs_tasks s) i = Some False \<Longrightarrow> analysis_at i s = Some a \<Longrightarrow> an_status a = AnalysisQueued"
  unfolding tasks_inv_def task_agrees_def by blast

lemma tasks_inv_begin:
  assumes "tasks_inv C s" "\<not> list_ex snd (vs_tasks s)" "vs_tasks s' = dict_put i True (vs_tasks s)"
    and at: "\<And>j. analysis_at j s' = (if j = i then map_option f (analysis_at i s) else analysis_at j s)"
  shows "tasks_inv C s'"
proof -
  have "task_agrees (j \<in> C) (map_of (vs_tasks s') j) (analysis_at j s')" for j
  proof (cases "j = i")
    case True
    then show ?thesis by (simp add: assms(3) task_agrees_def)
  next
    case False
    with assms(1) show ?thesis by (simp add: assms(3) at tasks_inv_def)
  qed
  moreover have "distinct (map fst (vs_tasks s'))"
    unfolding assms(3) using assms(1) by (auto simp: tasks_inv_def)
  moreover have "length (filter snd (vs_tasks s')) \<le> 1"
    unfolding assms(3) using assms(1,2) by (intro filter_one) (simp_all add: tasks_inv_def)
  ultimately show ?thesis unfolding tasks_inv_def by blast
qed

lemma vision_inv_begin:
  assumes "vision_inv cf h C s" "map_of (vs_tasks s) i = Some False" "\<not> list_ex snd (vs_tasks s)"
  shows "vision_inv cf h C (snd (begin_analysis cf w i s))"
proof (cases rule: begin_cases [of cf w i s])
  case gone
  have "an_status a \<noteq> AnalysisRunning" if "analysis_at i s = Some a" for a
    using waiting_queued [OF vision_invD(3) [OF assms(1)] assms(2) that] by simp
  with gone assms(1) show ?thesis by (simp add: vision_inv_end)
next
  case (begun a r b)
  let ?f = "an_status_update (\<lambda>_. AnalysisRunning)" and ?s = "snd (begin_analysis cf w i s)"
  note inv = vision_invD [OF assms(1)]
  have s: "vs_assets ?s = vs_assets s" "vs_files ?s = vs_files s" "vs_tasks ?s = dict_put i True (vs_tasks s)"
    "vs_analyses ?s = vs_analyses (update_analysis i ?f s)"
    using begun(3) by simp_all
  have "analyses_inv (update_analysis i ?f s)" by (rule analyses_inv_update [OF inv(2)]) simp_all
  then have "analyses_inv ?s" by (rule analyses_inv_keep) (simp_all add: s)
  moreover have "assets_inv cf h ?s" by (rule assets_inv_keep [OF inv(1) s(1,2)])
  moreover have "tasks_inv C ?s"
  proof (rule tasks_inv_begin [OF inv(3) assms(3) s(3)])
    show "analysis_at j ?s = (if j = i then map_option ?f (analysis_at i s) else analysis_at j s)" for j
      unfolding analysis_at_keep [OF s(4)] by (rule analysis_at_update) simp
  qed
  ultimately show ?thesis by (intro vision_invI)
qed

lemma vision_inv_conclude:
  assumes "vision_inv cf h C s" "map_of (vs_tasks s) i \<noteq> Some False"
  shows "vision_inv cf h C (conclude_analysis cf' w i asset outcome s)"
proof (rule vision_invI)
  note inv = vision_invD [OF assms(1)]
  show "assets_inv cf h (conclude_analysis cf' w i asset outcome s)" by (rule assets_inv_conclude [OF inv(1)])
  show "analyses_inv (conclude_analysis cf' w i asset outcome s)" by (rule analyses_inv_conclude [OF inv(2)])
  show "tasks_inv C (conclude_analysis cf' w i asset outcome s)"
    by (rule tasks_inv_map [OF inv(3) _ assms(2) analysis_at_conclude]) (use concluded_stops in auto)
qed

lemma mark_failed_cancelled: "mark_failed w i ''vision_cancelled'' s = conclude_analysis cf w i asset (Inl CancelledError) s"
  by (simp add: conclude_analysis_def)

lemma recover_at: "analysis_at i (recover_stale_analyses w s) = map_option (failed_analysis (w_now w) ''vision_interrupted'') (analysis_at i s)"
proof -
  have "row_get an_id i (map (failed_analysis now c) t) = map_option (failed_analysis now c) (row_get an_id i t)" for now c t
    by (induction t) simp_all
  then show ?thesis by (simp add: analysis_at_def recover_stale_analyses_def)
qed

lemma failed_analysis_idle: "\<not> analysis_active (an_status (failed_analysis now code a))"
  by (simp add: failed_analysis_def analysis_active_def)

lemma vision_inv_restart:
  assumes "vision_inv cf h C s"
  shows "vision_inv cf h C (recover_stale_analyses w (s\<lparr>vs_tasks := []\<rparr>))"
proof (rule vision_invI)
  note inv = vision_invD [OF assms]
  let ?s = "recover_stale_analyses w (s\<lparr>vs_tasks := []\<rparr>)"
  have s: "vs_assets ?s = vs_assets s" "vs_files ?s = vs_files s" "vs_tasks ?s = []"
    "vs_analyses ?s = map (failed_analysis (w_now w) ''vision_interrupted'') (vs_analyses s)"
    by (simp_all add: recover_stale_analyses_def)
  show "assets_inv cf h ?s" by (rule assets_inv_keep [OF inv(1) s(1,2)])
  show "analyses_inv ?s" using inv(2) by (simp add: analyses_inv_def s o_def)
  have "an_status (failed_analysis now code a) \<noteq> AnalysisRunning" for now code a
    using failed_analysis_idle [of now code a] by (auto simp: analysis_active_def)
  then show "tasks_inv C ?s"
    unfolding tasks_inv_def s recover_at by (auto intro: task_agrees_none)
qed

definition cut_id :: "vision_action \<Rightarrow> string set" where
  \<comment> \<open>the analysis whose running task the action cuts\<close>
  "cut_id act = (case act of CutRunning i \<Rightarrow> {i} | _ \<Rightarrow> {})"

lemma vision_inv_act:
  assumes inv: "vision_inv cf h C s" and cut: "cut_id act \<subseteq> C"
  shows "vision_inv cf h C (vision_do cf h act s)"
proof (cases act)
  case (CutRunning i)
  with cut have "i \<in> C" by (simp add: cut_id_def)
  with inv CutRunning show ?thesis by (simp add: vision_inv_end)
next
  case (Begin w i)
  with inv show ?thesis by (simp add: vision_inv_begin)
next
  case (Finish w i asset outcome)
  show ?thesis
  proof (cases "map_of (vs_tasks s) i = Some True")
    case True
    let ?c = "conclude_analysis cf w i asset outcome s"
    have "vision_inv cf h C ?c" using inv True by (intro vision_inv_conclude) simp_all
    moreover have "an_status a \<noteq> AnalysisRunning" if "analysis_at i ?c = Some a" for a
      using that concluded_stops by (auto simp: analysis_at_conclude)
    ultimately show ?thesis using True Finish by (simp add: vision_inv_end)
  next
    case False
    with inv Finish show ?thesis by simp
  qed
next
  case (CancelWaiting i)
  show ?thesis
  proof (cases "map_of (vs_tasks s) i = Some False")
    case True
    have "an_status a \<noteq> AnalysisRunning" if "analysis_at i s = Some a" for a
      using waiting_queued [OF vision_invD(3) [OF inv] True that] by simp
    with inv True CancelWaiting show ?thesis by (simp add: vision_inv_end)
  qed (use inv CancelWaiting in simp)
next
  case (MarkCancelled w i)
  with inv show ?thesis
    by (simp add: mark_failed_cancelled [where cf = cf and asset = "[]"] vision_inv_conclude)
qed (use inv in \<open>simp_all add: vision_inv_create vision_inv_delete vision_inv_register vision_inv_scan vision_inv_enqueue
      vision_inv_restart\<close>)

lemma vision_inv_do: "vision_inv cf h C s \<Longrightarrow> vision_inv cf h (C \<union> cut_id act) (vision_do cf h act s)"
  by (rule vision_inv_act [OF vision_inv_mono]) auto

lemma vision_inv_run:
  "vision_inv cf h C s \<Longrightarrow> vision_inv cf h (C \<union> {i. CutRunning i \<in> set acts}) (fold (vision_do cf h) acts s)"
proof (induction acts arbitrary: s C)
  case (Cons act acts)
  have "C \<union> cut_id act \<union> {i. CutRunning i \<in> set acts} = C \<union> {i. CutRunning i \<in> set (act # acts)}"
    by (cases act) (auto simp: cut_id_def)
  with Cons.IH [OF vision_inv_do [OF Cons.prems, of act]] show ?case by simp
qed simp

lemma vision_inv_start: "vision_inv cf h C (no_vision b)"
  by (simp add: vision_inv_def assets_inv_def analyses_inv_def tasks_inv_def no_vision_def task_agrees_def analysis_at_def)

lemmas vision_inv_reachable = vision_inv_run [OF vision_inv_start [of _ _ "{}"], unfolded Un_empty_left]

section \<open>What a step does to a row\<close>

definition moves_on :: "analysis_row \<Rightarrow> analysis_row option \<Rightarrow> bool" where
  \<comment> \<open>the row is gone, or moved as it may\<close>
  "moves_on a r \<longleftrightarrow> (\<forall>b. r = Some b \<longrightarrow> analysis_moves a b)"

lemma analysis_at_end: "analysis_at i (end_analysis_task j s) = analysis_at i s"
  by (rule analysis_at_keep) (simp add: end_analysis_task_def)

lemma moves_on_refl: "moves_on a (Some a)"
  by (simp add: moves_on_def analysis_moves_def)

lemma scan_keeps: "vs_analyses (snd (scan_folder cf h ws i s)) = vs_analyses s"
  by (rule scan_folder_preserves [where P = "\<lambda>t. vs_analyses t = vs_analyses s"]) (simp_all add: create_asset_keeps)

lemma moves_on_do:
  assumes inv: "vision_inv cf h C s" and a: "analysis_at i s = Some a"
  shows "moves_on a (analysis_at i (vision_do cf h act s))"
proof (cases act)
  case (CreateAsset w filename declared data source)
  then have "analysis_at i (vision_do cf h act s) = analysis_at i s" by (simp add: analysis_at_def create_asset_keeps)
  with a show ?thesis by (simp add: moves_on_refl)
next
  case (DeleteAsset j)
  from delete_analysis_at [OF vision_invD(2) [OF inv], of i cf j] a DeleteAsset
  show ?thesis by (elim disjE) (simp_all add: moves_on_refl, simp add: moves_on_def)
next
  case (RegisterFolder w name folder)
  obtain rows where "snd (register_folder cf h w name folder s) = s\<lparr>vs_folders := rows\<rparr>"
    using register_folder_keeps by blast
  with a RegisterFolder show ?thesis by (simp add: analysis_at_def moves_on_refl)
next
  case (ScanFolder ws j)
  then have "analysis_at i (vision_do cf h act s) = analysis_at i s" by (simp add: analysis_at_def scan_keeps)
  with a show ?thesis by (simp add: moves_on_refl)
next
  case (Enqueue w mode prompt x)
  have "analysis_at i (snd (enqueue_analysis cf w mode prompt x s)) = Some a"
    by (cases rule: enqueue_cases [of cf w mode prompt x s]) (use a in \<open>simp_all add: analysis_at_def\<close>)
  with a Enqueue show ?thesis by (simp add: moves_on_refl)
next
  case (Begin w j)
  show ?thesis
  proof (cases "map_of (vs_tasks s) j = Some False \<and> \<not> list_ex snd (vs_tasks s)")
    case True
    then have "moves_on a (analysis_at i (snd (begin_analysis cf w j s)))"
    proof (cases rule: begin_cases [of cf w j s])
      case gone
      with a show ?thesis by (simp add: analysis_at_def end_analysis_task_def moves_on_refl)
    next
      case (begun a' r b)
      let ?f = "an_status_update (\<lambda>_. AnalysisRunning)"
      have "analysis_at i (snd (begin_analysis cf w j s)) = analysis_at i (update_analysis j ?f s)"
        by (rule analysis_at_keep) (simp add: begun(3))
      also have "\<dots> = (if i = j then map_option ?f (analysis_at j s) else analysis_at i s)"
        by (rule analysis_at_update) simp
      finally show ?thesis
        using a waiting_queued [OF vision_invD(3) [OF inv], of j a] True
        by (auto simp: moves_on_refl moves_on_def analysis_moves_def)
    qed
    with True Begin show ?thesis by simp
  qed (use a Begin in \<open>auto simp: moves_on_refl\<close>)
next
  case (Finish w j asset outcome)
  have "analysis_at i (end_analysis_task j t) = analysis_at i t" for t
    by (rule analysis_at_keep) (simp add: end_analysis_task_def)
  with a Finish show ?thesis
    by (auto simp: analysis_at_conclude moves_on_def concluded_moves)
next
  case (CancelWaiting j)
  with a show ?thesis by (simp add: moves_on_refl analysis_at_end)
next
  case (CutRunning j)
  with a show ?thesis by (simp add: moves_on_refl analysis_at_end)
next
  case (MarkCancelled w j)
  with a show ?thesis
    by (auto simp: mark_failed_cancelled [where cf = cf and asset = "[]"] analysis_at_conclude moves_on_def concluded_moves)
next
  case (Restart w)
  have "analysis_at i (s\<lparr>vs_tasks := []\<rparr>) = analysis_at i s" by (rule analysis_at_keep) simp
  with a Restart show ?thesis
    by (simp add: recover_at moves_on_def analysis_moves_def failed_analysis_def)
qed

text \<open>An identifier without a row gets one from a submission only.\<close>

definition submits :: "string \<Rightarrow> vision_action \<Rightarrow> bool" where
  "submits i act = (case act of Enqueue w mode prompt x \<Rightarrow> uuid_str (w_uuid4 w 0) = i | _ \<Rightarrow> False)"

lemma absent_do:
  assumes inv: "vision_inv cf h C s" and a: "analysis_at i s = None" and act: "\<not> submits i act"
  shows "analysis_at i (vision_do cf h act s) = None"
proof (cases act)
  case (CreateAsset w filename declared data source)
  with a show ?thesis by (simp add: analysis_at_def create_asset_keeps)
next
  case (DeleteAsset j)
  from delete_analysis_at [OF vision_invD(2) [OF inv], of i cf j] a DeleteAsset show ?thesis by (elim disjE) simp_all
next
  case (RegisterFolder w name folder)
  obtain rows where "snd (register_folder cf h w name folder s) = s\<lparr>vs_folders := rows\<rparr>"
    using register_folder_keeps by blast
  with a RegisterFolder show ?thesis by (simp add: analysis_at_def)
next
  case (ScanFolder ws j)
  with a show ?thesis by (simp add: analysis_at_def scan_keeps)
next
  case (Enqueue w mode prompt x)
  have "uuid_str (w_uuid4 w 0) \<noteq> i" using act Enqueue by (simp add: submits_def)
  then have "analysis_at i (snd (enqueue_analysis cf w mode prompt x s)) = None"
    by (cases rule: enqueue_cases [of cf w mode prompt x s]) (use a in \<open>simp_all add: analysis_at_def\<close>)
  with a Enqueue show ?thesis by simp
next
  case (Begin w j)
  have "analysis_at i (snd (begin_analysis cf w j s)) = None"
  proof (cases rule: begin_cases [of cf w j s])
    case gone
    with a show ?thesis by (simp add: analysis_at_def end_analysis_task_def)
  next
    case (begun a' r b)
    have "analysis_at i (snd (begin_analysis cf w j s)) = analysis_at i (update_analysis j (an_status_update (\<lambda>_. AnalysisRunning)) s)"
      by (rule analysis_at_keep) (simp add: begun(3))
    also have "\<dots> = None" using a by (subst analysis_at_update) auto
    finally show ?thesis .
  qed
  with a Begin show ?thesis by simp
next
  case (Finish w j asset outcome)
  have "analysis_at i (end_analysis_task j t) = analysis_at i t" for t
    by (rule analysis_at_keep) (simp add: end_analysis_task_def)
  with a Finish show ?thesis by (auto simp: analysis_at_conclude)
next
  case (CancelWaiting j)
  with a show ?thesis by (simp add: analysis_at_end)
next
  case (CutRunning j)
  with a show ?thesis by (simp add: analysis_at_end)
next
  case (MarkCancelled w j)
  with a show ?thesis by (auto simp: mark_failed_cancelled [where cf = cf and asset = "[]"] analysis_at_conclude)
next
  case (Restart w)
  have "analysis_at i (s\<lparr>vs_tasks := []\<rparr>) = analysis_at i s" by (rule analysis_at_keep) simp
  with a Restart show ?thesis by (simp add: recover_at)
qed

lemma final_run:
  assumes "vision_inv cf h C s" "\<not> analysis_active (an_status a)"
    and "analysis_at i s = None \<or> analysis_at i s = Some a" "list_all (\<lambda>act. \<not> submits i act) acts"
  shows "analysis_at i (fold (vision_do cf h) acts s) = None \<or> analysis_at i (fold (vision_do cf h) acts s) = Some a"
  using assms(1,3,4)
proof (induction acts arbitrary: s C)
  case (Cons act acts)
  let ?s = "vision_do cf h act s"
  have "analysis_at i ?s = None \<or> analysis_at i ?s = Some a"
  proof (cases "analysis_at i s")
    case None
    with Cons.prems show ?thesis by (simp add: absent_do)
  next
    case (Some x)
    with Cons.prems have "moves_on a (analysis_at i ?s)" by (simp add: moves_on_do)
    with assms(2) show ?thesis
      unfolding moves_on_def by (cases "analysis_at i ?s") (auto dest: analysis_life.final_stays)
  qed
  with Cons.IH [OF vision_inv_do [OF Cons.prems(1)], of act] Cons.prems show ?case by simp
qed simp

end
