(* ===== verification/Vision_Props.thy ===== *)
theory Vision_Props
  imports Vision_Correct
begin

text \<open>
  The properties of image analysis over every sequence of its steps, with their witnesses on a sample
  service: what the stored files say, finished analyses, the limit of the queue and the bounds of a scan.
\<close>

section \<open>A sample service\<close>

definition vision_world :: "nat \<Rightarrow> world" where
  "vision_world n = \<lparr>w_now = int n, w_uuid4 = (\<lambda>k. 10 * n + k + 2)\<rparr>"

definition sample_vision_config :: vision_config where
  "sample_vision_config = \<lparr>vc_project = ''p'', vc_enabled = True, vc_provider = ''ollama'', vc_model = ''m'',
     vc_allowed_roots = ''/'', vc_max_file_size = 10, vc_max_pixels = 4, vc_max_queue = 1, vc_max_scan_files = 1\<rparr>"

definition sample_vision_host :: vision_host where
  "sample_vision_host = \<lparr>vh_sha256 = (\<lambda>d. ''x'' @ d), vh_decode = (\<lambda>_. Some \<lparr>im_width = 1, im_height = 1, im_format = ''PNG''\<rparr>),
     vh_resolve = (\<lambda>_. Some [''d'']), vh_resolve_root = (\<lambda>_. []), vh_path_text = (\<lambda>_. ''/d''), vh_is_dir = (\<lambda>_. True),
     vh_entries = (\<lambda>_. [\<lparr>en_name = ''a.png'', en_is_file = True, en_is_symlink = False, en_content = Some (True, ''a'')\<rparr>,
       \<lparr>en_name = ''b.png'', en_is_file = True, en_is_symlink = False, en_content = None\<rparr>]),
     vh_json = (\<lambda>_. Some (PList [PStr ''/'']))\<rparr>"

definition sample_asset :: asset_row where
  "sample_asset = \<lparr>as_id = uuid_str 12, as_filename = ''f'', as_mime_type = ''image/png'', as_size_bytes = 1,
     as_sha256 = ''xa'', as_source_type = ''upload'', as_locator = ''xa.png'', as_created_at = 1\<rparr>"

definition sample_uploaded :: "vision_action list" where
  "sample_uploaded = [CreateAsset (vision_world 1) ''f'' None ''a'' ''upload'']"


lemmas sample_vision_defs = sample_vision_config_def sample_vision_host_def vision_world_def

lemma png: "py_lower ''PNG'' = ''png''"
  by code_simp

lemma sample_created:
  "\<exists>b'. create_asset sample_vision_config sample_vision_host (vision_world 1) ''f'' None ''a'' ''upload'' (no_vision b) =
     (Inr sample_asset, (no_vision b)\<lparr>vs_assets := [sample_asset], vs_files := [(''xa.png'', ''a'')], vs_bus := b'\<rparr>)"
  by (simp add: create_asset_def vision_enabled_def op_bind_def op_lift_def validate_image_def ALLOWED_FORMATS_def
      store_asset_def guard_def sample_vision_defs no_vision_def write_private_def insert_asset_def row_insert_def dict_put_def
      sample_asset_def safe_filename_def path_name_def py_strip_def py_isspace_def
      png vision_publish_def Let_def)

lemma sample_uploaded_state:
  obtains b' where "fold (vision_do sample_vision_config sample_vision_host) sample_uploaded (no_vision b) =
     (no_vision b)\<lparr>vs_assets := [sample_asset], vs_files := [(''xa.png'', ''a'')], vs_bus := b'\<rparr>"
  using sample_created [of b] by (auto simp: sample_uploaded_def)





section \<open>Properties\<close>

text \<open>
  C26: after any sequence of uploads, deletions, scans and analyses, every asset row has its file, with the
  bytes the digest and the size of the row are of, within the size limit and of an allowed type, and no
  two rows have the same digest. Every analysis belongs to an asset that exists.
\<close>

theorem stored_images_match_their_rows:
  fixes cf :: vision_config and h :: vision_host and acts :: "vision_action list" and b :: bus
  defines "s \<equiv> fold (vision_do cf h) acts (no_vision b)"
  shows "(\<forall>r\<in>set (vs_assets s). \<exists>data. map_of (vs_files s) (as_locator r) = Some data \<and> as_sha256 r = vh_sha256 h data \<and>
      as_size_bytes r = length data \<and> length data \<le> vc_max_file_size cf \<and> as_mime_type r \<in> snd ` set ALLOWED_FORMATS) \<and>
    distinct (map as_sha256 (vs_assets s)) \<and>
    (\<forall>a\<in>set (vs_analyses s). an_asset_id a \<in> as_id ` set (vs_assets s))"
proof -
  have inv: "assets_inv cf h s" "analyses_inv s" using vision_inv_reachable [of cf h acts b] by (simp_all add: s_def vision_inv_def)
  have "\<exists>data. map_of (vs_files s) (as_locator r) = Some data \<and> as_sha256 r = vh_sha256 h data \<and>
      as_size_bytes r = length data \<and> length data \<le> vc_max_file_size cf \<and> as_mime_type r \<in> snd ` set ALLOWED_FORMATS"
    if "r \<in> set (vs_assets s)" for r
    using inv(1) that unfolding assets_inv_def asset_for_def by blast
  with inv show ?thesis by (simp add: assets_inv_def analyses_inv_def)
qed

theorem stored_images_match_their_rows_witness:
  "\<exists>data. map_of (vs_files (fold (vision_do sample_vision_config sample_vision_host) sample_uploaded (no_vision (new_bus 5))))
     ''xa.png'' = Some data \<and> length data = 1"
proof -
  obtain b where u: "fold (vision_do sample_vision_config sample_vision_host) sample_uploaded (no_vision (new_bus 5)) =
     (no_vision (new_bus 5))\<lparr>vs_assets := [sample_asset], vs_files := [(''xa.png'', ''a'')], vs_bus := b\<rparr>"
    by (rule sample_uploaded_state)
  from stored_images_match_their_rows [of sample_vision_config sample_vision_host sample_uploaded "new_bus 5"]
  show ?thesis by (simp add: u sample_asset_def)
qed



lemma admit_result:
  assumes "fst (admit_analysis cf asset model s) = Inr x"
  shows "length (vs_tasks s) < vc_max_queue cf" and "snd (admit_analysis cf asset model s) = s"
proof -
  show "length (vs_tasks s) < vc_max_queue cf"
    using assms get_asset_state [of cf asset s]
    by (cases "get_asset cf asset s") (auto simp: admit_analysis_def op_bind_def split: sum.splits prod.splits if_splits)
  show "snd (admit_analysis cf asset model s) = s"
    unfolding admit_analysis_def op_bind_snd by (simp add: get_asset_state split: sum.split prod.split)
qed

lemma enqueue_length:
  assumes "enqueue_analysis cf w mode prompt x s = (Inr r, s')"
  shows "length (vs_tasks s') \<le> Suc (length (vs_tasks s))"
    and "uuid_str (w_uuid4 w 0) \<notin> fst ` set (vs_tasks s) \<Longrightarrow> length (vs_tasks s') = Suc (length (vs_tasks s))"
proof -
  have "vs_tasks s' = dict_put (uuid_str (w_uuid4 w 0)) False (vs_tasks s)"
    by (cases rule: enqueue_cases [of cf w mode prompt x s]) (use assms in auto)
  then show "length (vs_tasks s') \<le> Suc (length (vs_tasks s))"
    and "uuid_str (w_uuid4 w 0) \<notin> fst ` set (vs_tasks s) \<Longrightarrow> length (vs_tasks s') = Suc (length (vs_tasks s))"
    by (simp_all add: length_dict_put map_of_eq_None_iff)
qed

text \<open>
  The queue limit holds for submissions one after the other, but it is checked before the row is
  committed and the task created: when one place is left, a second request admitted before the first is
  enqueued takes the queue beyond its limit.
\<close>

theorem overlapping_submissions_exceed_queue:
  assumes first: "submit_analysis cf w asset mode prompt model s = (Inr r, s1)"
    and second: "fst (admit_analysis cf asset' model' s) = Inr x"
      "enqueue_analysis cf w' mode' prompt' x s1 = (Inr r', s2)"
    and fresh: "uuid_str (w_uuid4 w 0) \<notin> fst ` set (vs_tasks s)" "uuid_str (w_uuid4 w' 0) \<notin> fst ` set (vs_tasks s1)"
  shows "length (vs_tasks s1) \<le> vc_max_queue cf \<and>
    (Suc (length (vs_tasks s)) = vc_max_queue cf \<longrightarrow> length (vs_tasks s2) = Suc (vc_max_queue cf))"
proof -
  from first obtain y s0 where y: "admit_analysis cf asset model s = (Inr y, s0)" "enqueue_analysis cf w mode prompt y s0 = (Inr r, s1)"
    by (auto simp: submit_analysis_def op_bind_Inr_iff)
  then have "s0 = s" using admit_result(2) [of cf asset model s y] by simp
  with enqueue_length(2) [OF y(2)] fresh(1) have "length (vs_tasks s1) = Suc (length (vs_tasks s))" by simp
  moreover have "length (vs_tasks s) < vc_max_queue cf" by (rule admit_result(1) [OF second(1)])
  moreover have "length (vs_tasks s2) = Suc (length (vs_tasks s1))" by (rule enqueue_length(2) [OF second(2) fresh(2)])
  ultimately show ?thesis by simp
qed

lemma sample_admit:
  "admit_analysis sample_vision_config (uuid_str 12) None ((no_vision b)\<lparr>vs_assets := [sample_asset], vs_files := fs, vs_bus := b'\<rparr>) =
     (Inr (sample_asset, ''ollama'', ''m''), (no_vision b)\<lparr>vs_assets := [sample_asset], vs_files := fs, vs_bus := b'\<rparr>)"
  by (simp add: admit_analysis_def get_asset_def op_bind_def op_lift_def vision_enabled_def guard_def requested_model_def
      sample_vision_config_def no_vision_def sample_asset_def)

theorem overlapping_submissions_exceed_queue_witness:
  "\<exists>s s1 s2 x r r'. submit_analysis sample_vision_config (vision_world 2) (uuid_str 12) Describe None None s = (Inr r, s1) \<and>
     enqueue_analysis sample_vision_config (vision_world 3) Describe None x s1 = (Inr r', s2) \<and>
     length (vs_tasks s2) = Suc (vc_max_queue sample_vision_config)"
proof -
  let ?s = "(no_vision (new_bus 5))\<lparr>vs_assets := [sample_asset], vs_files := [], vs_bus := new_bus 5\<rparr>"
  let ?x = "(sample_asset, ''ollama'', ''m'')"
  have ids: "uuid_str 22 \<noteq> uuid_str 32" by code_simp
  obtain b1 where e1: "enqueue_analysis sample_vision_config (vision_world 2) Describe None ?x ?s =
      (Inr (queued_row (vision_world 2) Describe None ?x), ?s\<lparr>vs_analyses := [queued_row (vision_world 2) Describe None ?x],
         vs_bus := b1, vs_tasks := [(uuid_str 22, False)]\<rparr>)" (is "_ = (_, ?s1)")
    by (cases rule: enqueue_cases [of sample_vision_config "vision_world 2" Describe None ?x ?s])
      (simp_all add: no_vision_def enqueue_analysis_def insert_analysis_def row_insert_def guard_def Let_def
        vision_world_def sample_asset_def queued_row_def dict_put_def vision_publish_def)
  have first: "submit_analysis sample_vision_config (vision_world 2) (uuid_str 12) Describe None None ?s =
      (Inr (queued_row (vision_world 2) Describe None ?x), ?s1)"
    by (simp only: submit_analysis_def op_bind_def sample_admit prod.case sum.case e1)
  obtain s2 where second: "enqueue_analysis sample_vision_config (vision_world 3) Describe None ?x ?s1 =
      (Inr (queued_row (vision_world 3) Describe None ?x), s2)"
    by (cases rule: enqueue_cases [of sample_vision_config "vision_world 3" Describe None ?x ?s1])
      (use ids in \<open>simp_all add: no_vision_def enqueue_analysis_def insert_analysis_def row_insert_def guard_def Let_def
        vision_world_def sample_asset_def queued_row_def dict_put_def vision_publish_def\<close>)
  have "fst (admit_analysis sample_vision_config (uuid_str 12) None ?s) = Inr ?x" by (simp only: sample_admit fst_conv)
  from overlapping_submissions_exceed_queue [OF first this second]
  have "length (vs_tasks s2) = Suc (vc_max_queue sample_vision_config)"
    using ids by (simp add: no_vision_def vision_world_def sample_vision_config_def)
  with first second show ?thesis by blast
qed

text \<open>
  A scan reads a folder under one of the configured roots only, counts each file it looks at once
  (and the first one beyond its limit as skipped), and stores no more assets than it reports as
  accepted, each of them within the size limit.
\<close>

theorem scan_stays_in_bounds:
  assumes "scan_folder cf h ws i s = (Inr c, s')"
  shows "(\<exists>r p. row_get fo_id i (vs_folders s) = Some r \<and> vh_resolve h (vh_path_text h (fo_root r)) = Some p \<and>
      list_ex (is_relative_to p) (allowed_roots h (vc_allowed_roots cf))) \<and>
    sc_discovered c \<le> vc_max_scan_files cf \<and>
    sc_accepted c + sc_skipped c + sc_failed c \<in> {sc_discovered c, Suc (sc_discovered c)} \<and>
    (\<exists>new. vs_assets s' = vs_assets s @ new \<and> length new \<le> sc_accepted c \<and>
      (\<forall>r\<in>set new. as_source_type r = ''folder'' \<and> as_size_bytes r \<le> vc_max_file_size cf))"
proof -
  let ?c0 = "\<lparr>sc_discovered = 0, sc_accepted = 0, sc_skipped = 0, sc_failed = 0\<rparr>"
  from assms obtain r where r: "row_get fo_id i (vs_folders s) = Some r" and enabled: "vc_enabled cf"
    by (auto simp: scan_folder_def op_bind_Inr_iff vision_enabled_def op_lift_def split: option.splits)
  from assms r obtain p where p: "allowed_directory h (vh_path_text h (fo_root r)) (allowed_roots h (vc_allowed_roots cf)) = Inr p"
    by (auto simp: scan_folder_def op_bind_Inr_iff vision_enabled_def op_lift_def)
  from assms r p obtain b s1 where scan: "scan_entries cf h ws ?c0 (vh_entries h p) (s\<lparr>vs_bus := b\<rparr>) = (Inr c, s1)"
    and s': "vs_assets s' = vs_assets s1"
    by (auto simp: scan_folder_def op_bind_Inr_iff vision_enabled_def op_lift_def vision_publish_def)
  from p have "vh_resolve h (vh_path_text h (fo_root r)) = Some p \<and> list_ex (is_relative_to p) (allowed_roots h (vc_allowed_roots cf))"
    by (auto simp: allowed_directory_def split: option.splits if_splits)
  moreover from scan_entries_span [OF scan]
  have "sc_discovered c \<le> vc_max_scan_files cf \<and> sc_accepted c + sc_skipped c + sc_failed c \<in> {sc_discovered c, Suc (sc_discovered c)} \<and>
    (\<exists>new. vs_assets s' = vs_assets s @ new \<and> length new \<le> sc_accepted c \<and>
      (\<forall>r\<in>set new. as_source_type r = ''folder'' \<and> as_size_bytes r \<le> vc_max_file_size cf))"
    unfolding scan_span_def s' by (auto simp: le_Suc_eq)
  ultimately show ?thesis using r by blast
qed

theorem scan_stays_in_bounds_witness:
  "\<exists>c s'. scan_folder sample_vision_config sample_vision_host vision_world ''i''
       ((no_vision (new_bus 5))\<lparr>vs_folders := [\<lparr>fo_id = ''i'', fo_display_name = ''d'', fo_root = [''d''], fo_enabled = True,
          fo_created_at = 0\<rparr>]\<rparr>) = (Inr c, s') \<and> sc_skipped c = 1 \<and> sc_discovered c \<le> 1"
proof -
  let ?s = "(no_vision (new_bus 5))\<lparr>vs_folders := [\<lparr>fo_id = ''i'', fo_display_name = ''d'', fo_root = [''d''], fo_enabled = True,
          fo_created_at = 0\<rparr>]\<rparr>"
  have "\<exists>c s'. scan_folder sample_vision_config sample_vision_host vision_world ''i'' ?s = (Inr c, s') \<and> sc_skipped c = 1"
    by (simp add: scan_folder_def op_bind_def op_lift_def op_return_def vision_enabled_def guard_def allowed_directory_def
        allowed_roots_def is_relative_to_def sample_vision_defs no_vision_def vision_publish_def read_regular_file_def
        create_asset_def validate_image_def ALLOWED_FORMATS_def store_asset_def write_private_def insert_asset_def
        row_insert_def dict_put_def png safe_filename_def path_name_def py_strip_def py_isspace_def Let_def List.map_filter_simps)
  then obtain c s' where c: "scan_folder sample_vision_config sample_vision_host vision_world ''i'' ?s = (Inr c, s')" "sc_skipped c = 1"
    by blast
  from scan_stays_in_bounds [OF c(1)] have "sc_discovered c \<le> 1" by (simp add: sample_vision_config_def)
  with c show ?thesis by blast
qed

end
