(* ===== verification/Settings.thy ===== *)
theory Settings
  imports Distributed
begin

text \<open>
  The settings of the server, \<open>settings.py\<close>: every field with its default value and the bounds that its
  \<open>Field\<close> declares. Reading the fields from the environment is left to pydantic, which creates the object
  only when the bounds hold.
\<close>

record settings =
  se_database_url :: string
  se_host :: string
  se_port :: int
  se_runtime_delay_seconds :: rat
  se_cancellation_timeout_seconds :: rat
  se_ollama_base_url :: string
  se_opencode_base_url :: "string option"
  se_opencode_basic_auth_username :: "string option"
  se_opencode_basic_auth_password :: "string option"
  se_openai_compatible_base_url :: "string option"
  se_openai_compatible_api_key :: "string option"
  se_project_id :: string
  se_remote_control_enabled :: bool
  se_remote_control_policies :: string
  se_legacy_api_enabled :: bool
  se_vision_enabled :: bool
  se_vision_provider :: string
  se_vision_model :: string
  se_vision_allowed_roots :: string
  se_vision_storage_root :: string
  se_vision_max_file_size_bytes :: int
  se_vision_max_image_pixels :: int
  se_vision_max_queue :: int
  se_vision_max_scan_files :: int
  se_memory_enabled :: bool
  se_memory_max_content_chars :: int
  se_memory_max_tags :: int
  se_memory_max_tag_chars :: int
  se_memory_max_results :: int
  se_memory_max_context_chars :: int
  se_tools_enabled :: bool
  se_tool_approval_timeout_seconds :: rat
  se_tool_execution_timeout_seconds :: rat
  se_tool_max_output_chars :: int
  se_tool_application_allowlist_json :: string
  se_lexi_max_tool_steps :: int
  se_orchestration_max_workers :: int
  se_orchestration_max_parallel :: int
  se_orchestration_max_depth :: int
  se_orchestration_child_timeout_seconds :: rat
  se_orchestration_max_context_chars :: int
  se_node_role :: node_role
  se_core_url :: "string option"
  se_node_name :: string
  se_node_id_path :: string
  se_worker_enrollment_secret :: "string option"
  se_worker_enabled :: bool
  se_worker_heartbeat_interval_seconds :: rat
  se_worker_heartbeat_timeout_seconds :: rat
  se_worker_max_connections :: int
  se_worker_max_tasks :: int
  se_worker_max_messages :: int
  se_worker_reconnect_max_seconds :: rat
  se_worker_task_timeout_seconds :: rat
  se_security_data_dir :: string
  se_security_master_key_path :: string
  se_bootstrap_secret_path :: string
  se_session_cookie_name :: string
  se_session_ttl_seconds :: int
  se_webauthn_rp_id :: string
  se_webauthn_rp_name :: string
  se_webauthn_allowed_origins :: "string list"
  se_webauthn_challenge_ttl_seconds :: int
  se_totp_issuer :: string

definition default_settings :: settings where
  "default_settings = \<lparr>se_database_url = ''sqlite+aiosqlite:///./agentgraph.db'',
     se_host = ''127.0.0.1'',
     se_port = 8000,
     se_runtime_delay_seconds = 0,
     se_cancellation_timeout_seconds = 5,
     se_ollama_base_url = ''http://127.0.0.1:11434'',
     se_opencode_base_url = None,
     se_opencode_basic_auth_username = None,
     se_opencode_basic_auth_password = None,
     se_openai_compatible_base_url = None,
     se_openai_compatible_api_key = None,
     se_project_id = ''project_local'',
     se_remote_control_enabled = False,
     se_remote_control_policies = ''{}'',
     se_legacy_api_enabled = False,
     se_vision_enabled = False,
     se_vision_provider = ''ollama'',
     se_vision_model = ''hf.co/LiquidAI/LFM2.5-VL-3B-GGUF:Q4_K_M'',
     se_vision_allowed_roots = ''[]'',
     se_vision_storage_root = ''./data/vision'',
     se_vision_max_file_size_bytes = 10000000,
     se_vision_max_image_pixels = 40000000,
     se_vision_max_queue = 10,
     se_vision_max_scan_files = 1000,
     se_memory_enabled = True,
     se_memory_max_content_chars = 10000,
     se_memory_max_tags = 16,
     se_memory_max_tag_chars = 64,
     se_memory_max_results = 8,
     se_memory_max_context_chars = 6000,
     se_tools_enabled = False,
     se_tool_approval_timeout_seconds = 120,
     se_tool_execution_timeout_seconds = 30,
     se_tool_max_output_chars = 4000,
     se_tool_application_allowlist_json = ''{}'',
     se_lexi_max_tool_steps = 3,
     se_orchestration_max_workers = 4,
     se_orchestration_max_parallel = 2,
     se_orchestration_max_depth = 2,
     se_orchestration_child_timeout_seconds = 120,
     se_orchestration_max_context_chars = 24000,
     se_node_role = CoreRole,
     se_core_url = None,
     se_node_name = ''AgentGraph Worker'',
     se_node_id_path = ''./data/worker-node-id'',
     se_worker_enrollment_secret = None,
     se_worker_enabled = False,
     se_worker_heartbeat_interval_seconds = 10,
     se_worker_heartbeat_timeout_seconds = 30,
     se_worker_max_connections = 32,
     se_worker_max_tasks = 16,
     se_worker_max_messages = 64,
     se_worker_reconnect_max_seconds = 30,
     se_worker_task_timeout_seconds = 10,
     se_security_data_dir = ''./data/security'',
     se_security_master_key_path = ''./data/security/master.key'',
     se_bootstrap_secret_path = ''./data/security/bootstrap.secret'',
     se_session_cookie_name = ''agentgraph_session'',
     se_session_ttl_seconds = 28800,
     se_webauthn_rp_id = ''localhost'',
     se_webauthn_rp_name = ''AgentGraph OS'',
     se_webauthn_allowed_origins = [''http://localhost:5173''],
     se_webauthn_challenge_ttl_seconds = 300,
     se_totp_issuer = ''AgentGraph OS''\<rparr>"

definition settings_ok :: "settings \<Rightarrow> bool" where
  "settings_ok s \<longleftrightarrow> 1 \<le> se_port s \<and>
     se_port s \<le> 65535 \<and>
     0 \<le> se_runtime_delay_seconds s \<and>
     se_runtime_delay_seconds s \<le> 60 \<and>
     0 < se_cancellation_timeout_seconds s \<and>
     se_cancellation_timeout_seconds s \<le> 60 \<and>
     0 < se_vision_max_file_size_bytes s \<and>
     se_vision_max_file_size_bytes s \<le> 100000000 \<and>
     0 < se_vision_max_image_pixels s \<and>
     se_vision_max_image_pixels s \<le> 100000000 \<and>
     0 < se_vision_max_queue s \<and>
     se_vision_max_queue s \<le> 100 \<and>
     0 < se_vision_max_scan_files s \<and>
     se_vision_max_scan_files s \<le> 10000 \<and>
     0 < se_memory_max_content_chars s \<and>
     se_memory_max_content_chars s \<le> 100000 \<and>
     0 < se_memory_max_tags s \<and>
     se_memory_max_tags s \<le> 100 \<and>
     0 < se_memory_max_tag_chars s \<and>
     se_memory_max_tag_chars s \<le> 200 \<and>
     0 < se_memory_max_results s \<and>
     se_memory_max_results s \<le> 50 \<and>
     0 < se_memory_max_context_chars s \<and>
     se_memory_max_context_chars s \<le> 100000 \<and>
     0 < se_tool_approval_timeout_seconds s \<and>
     se_tool_approval_timeout_seconds s \<le> 3600 \<and>
     0 < se_tool_execution_timeout_seconds s \<and>
     se_tool_execution_timeout_seconds s \<le> 300 \<and>
     0 < se_tool_max_output_chars s \<and>
     se_tool_max_output_chars s \<le> 20000 \<and>
     0 < se_lexi_max_tool_steps s \<and>
     se_lexi_max_tool_steps s \<le> 10 \<and>
     0 < se_orchestration_max_workers s \<and>
     se_orchestration_max_workers s \<le> 20 \<and>
     0 < se_orchestration_max_parallel s \<and>
     se_orchestration_max_parallel s \<le> 20 \<and>
     0 \<le> se_orchestration_max_depth s \<and>
     se_orchestration_max_depth s \<le> 10 \<and>
     0 < se_orchestration_child_timeout_seconds s \<and>
     se_orchestration_child_timeout_seconds s \<le> 3600 \<and>
     0 < se_orchestration_max_context_chars s \<and>
     se_orchestration_max_context_chars s \<le> 100000 \<and>
     0 < se_worker_heartbeat_interval_seconds s \<and>
     se_worker_heartbeat_interval_seconds s \<le> 300 \<and>
     1 < se_worker_heartbeat_timeout_seconds s \<and>
     se_worker_heartbeat_timeout_seconds s \<le> 900 \<and>
     0 < se_worker_max_connections s \<and>
     se_worker_max_connections s \<le> 500 \<and>
     0 < se_worker_max_tasks s \<and>
     se_worker_max_tasks s \<le> 100 \<and>
     0 < se_worker_max_messages s \<and>
     se_worker_max_messages s \<le> 1000 \<and>
     0 < se_worker_reconnect_max_seconds s \<and>
     se_worker_reconnect_max_seconds s \<le> 300 \<and>
     0 < se_worker_task_timeout_seconds s \<and>
     se_worker_task_timeout_seconds s \<le> 60 \<and>
     60 < se_session_ttl_seconds s \<and>
     se_session_ttl_seconds s \<le> 2592000 \<and>
     0 < se_webauthn_challenge_ttl_seconds s \<and>
     se_webauthn_challenge_ttl_seconds s \<le> 900"

definition new_settings :: "settings \<Rightarrow> exn + settings" where
  \<comment> \<open>\<open>Settings(...)\<close>: pydantic refuses a value outside its bounds\<close>
  "new_settings s = (if settings_ok s then Inr s else Inl (ValueError ''ValidationError''))"

lemma default_settings_ok: "settings_ok default_settings"
  by (simp add: settings_ok_def default_settings_def)

lemma new_settings_Inr: "new_settings s = Inr t \<longleftrightarrow> t = s \<and> settings_ok s"
  by (auto simp: new_settings_def)

end
