(* ===== verification/Providers.thy ===== *)
theory Providers
  imports Models
begin

text \<open>
  The model providers, \<open>providers/\<close>: the checks of base URLs and of what a provider reports, and the
  three HTTP clients. The HTTP library is a parameter: what it answers to a request is a status code with
  the decoded body (\<open>None\<close> when the body is not JSON), or the exception its call raises. The reading of
  the clock, \<open>urlparse\<close> and \<open>str\<close> of a value that is not a string are parameters too.
\<close>

section \<open>JSON values as the code reads them\<close>

definition py_truth :: "pyobj \<Rightarrow> bool" where
  "py_truth v = (case v of PNone \<Rightarrow> False | PBool b \<Rightarrow> b | PInt i \<Rightarrow> i \<noteq> 0 | PFloat r \<Rightarrow> r \<noteq> 0 | PStr s \<Rightarrow> s \<noteq> []
     | PList xs \<Rightarrow> xs \<noteq> [] | PDict d \<Rightarrow> d \<noteq> [] | _ \<Rightarrow> True)"

definition sub_key :: "pyobj \<Rightarrow> string \<Rightarrow> exn + pyobj" where
  \<comment> \<open>\<open>v[k]\<close> for a string \<open>k\<close>\<close>
  "sub_key v k = (case v of PDict d \<Rightarrow> (case map_of d k of None \<Rightarrow> Inl (KeyError k) | Some x \<Rightarrow> Inr x)
     | _ \<Rightarrow> Inl (TypeError ''not subscriptable by a string''))"

definition sub_first :: "pyobj \<Rightarrow> exn + pyobj" where
  \<comment> \<open>\<open>v[0]\<close>\<close>
  "sub_first v = (case v of PList [] \<Rightarrow> Inl IndexError | PList (x # _) \<Rightarrow> Inr x
     | PStr [] \<Rightarrow> Inl IndexError | PStr (c # _) \<Rightarrow> Inr (PStr [c]) | PDict d \<Rightarrow> Inl (KeyError ''0'')
     | _ \<Rightarrow> Inl (TypeError ''not subscriptable''))"

definition call_get :: "pyobj \<Rightarrow> string \<Rightarrow> pyobj \<Rightarrow> exn + pyobj" where
  \<comment> \<open>\<open>v.get(k, v0)\<close>\<close>
  "call_get v k v0 = (case v of PDict d \<Rightarrow> Inr (dict_get_or d k v0) | _ \<Rightarrow> Inl (AttributeError ''get''))"

definition iterate :: "pyobj \<Rightarrow> exn + pyobj list" where
  \<comment> \<open>\<open>for x in v\<close>\<close>
  "iterate v = (case v of PList xs \<Rightarrow> Inr xs | PDict d \<Rightarrow> Inr (map (PStr \<circ> fst) d)
     | PStr s \<Rightarrow> Inr (map (\<lambda>c. PStr [c]) s) | _ \<Rightarrow> Inl (TypeError ''not iterable''))"

section \<open>Validation\<close>

record url_parts =
  up_scheme :: string
  up_hostname :: "string option"

definition router_error :: "model_error_code \<Rightarrow> string \<Rightarrow> exn + 'a" where
  "router_error code message = Inl (ModelRouterError code message)"

definition rstrip_slash :: "string \<Rightarrow> string" where
  \<comment> \<open>\<open>s.rstrip("/")\<close>\<close>
  "rstrip_slash s = rev (dropWhile (\<lambda>c. c = CHR ''/'') (rev s))"

definition is_loopback :: "string \<Rightarrow> bool" where
  "is_loopback host = (host \<in> {''127.0.0.1'', ''localhost'', ''::1''})"

definition require_safe_base_url :: "(string \<Rightarrow> url_parts) \<Rightarrow> string \<Rightarrow> bool \<Rightarrow> bool \<Rightarrow> exn + string" where
  "require_safe_base_url urlparse base_url credentialed loopback_only =
     (let p = urlparse base_url in
      case up_hostname p of
        None \<Rightarrow> router_error CONFIGURATION_ERROR ''Provider base URL is invalid''
      | Some host \<Rightarrow>
          if up_scheme p \<notin> {''http'', ''https''} \<or> host = []
          then router_error CONFIGURATION_ERROR ''Provider base URL is invalid''
          else if loopback_only \<and> \<not> is_loopback host
          then router_error CONFIGURATION_ERROR ''Provider must use a loopback URL''
          else if credentialed \<and> up_scheme p \<noteq> ''https'' \<and> \<not> is_loopback host
          then router_error CONFIGURATION_ERROR ''Credentials require HTTPS''
          else Inr (rstrip_slash base_url))"

definition optional_non_negative_int :: "pyobj \<Rightarrow> exn + int option" where
  "optional_non_negative_int v = (case v of PNone \<Rightarrow> Inr None
     | PInt i \<Rightarrow> if i < 0 then router_error INVALID_RESPONSE ''Provider returned invalid usage metadata'' else Inr (Some i)
     | _ \<Rightarrow> router_error INVALID_RESPONSE ''Provider returned invalid usage metadata'')"

definition optional_string :: "pyobj \<Rightarrow> exn + string option" where
  "optional_string v = (case v of PNone \<Rightarrow> Inr None
     | PStr s \<Rightarrow> if 500 < length s then router_error INVALID_RESPONSE ''Provider returned invalid metadata'' else Inr (Some s)
     | _ \<Rightarrow> router_error INVALID_RESPONSE ''Provider returned invalid metadata'')"

definition or_else :: "string option \<Rightarrow> string \<Rightarrow> string" where
  \<comment> \<open>\<open>x or y\<close>\<close>
  "or_else x y = (case x of None \<Rightarrow> y | Some s \<Rightarrow> if s = [] then y else s)"

section \<open>The HTTP client\<close>

datatype http_method = GET | POST | DELETE

record http_request =
  hr_method :: http_method
  hr_url :: string
  hr_headers :: "(string \<times> string) list"
  hr_auth :: "(string \<times> string) option"
  hr_json :: "pyobj option"

datatype http_fault = FaultTimeout | FaultTransport | FaultCancelled

datatype http_reply = Answer nat "pyobj option" | Raises http_fault

record http_client =
  hc_log :: "http_request list" \<comment> \<open>what was sent\<close>
  hc_reply :: "nat \<Rightarrow> http_request \<Rightarrow> http_reply" \<comment> \<open>the answer to the n-th request\<close>

type_synonym 'a hop = "(http_client, 'a) stateful"
type_synonym http_response = "nat \<times> pyobj option"

fun fault_exn :: "http_fault \<Rightarrow> exn" where
  "fault_exn FaultTimeout = HttpTimeout"
| "fault_exn FaultTransport = HttpError"
| "fault_exn FaultCancelled = CancelledError"

definition sent :: "http_request \<Rightarrow> http_client \<Rightarrow> http_client" where
  "sent r c = c\<lparr>hc_log := hc_log c @ [r]\<rparr>"

definition reply_to :: "http_request \<Rightarrow> http_client \<Rightarrow> http_reply" where
  "reply_to r c = hc_reply c (length (hc_log c)) r"

definition send :: "http_request \<Rightarrow> http_response hop" where
  "send r c = (case reply_to r c of Answer status body \<Rightarrow> (Inr (status, body), sent r c)
     | Raises f \<Rightarrow> (Inl (fault_exn f), sent r c))"

definition raise_for_status :: "http_response \<Rightarrow> exn + unit" where
  "raise_for_status r = guard (200 \<le> fst r \<and> fst r \<le> 299) HttpError"

definition json_body :: "http_response \<Rightarrow> exn + pyobj" where
  \<comment> \<open>a body that is no JSON value\<close>
  "json_body r = (case snd r of None \<Rightarrow> Inl (ValueError ''JSONDecodeError'') | Some v \<Rightarrow> Inr v)"

definition transport_error :: "string \<times> string \<times> string \<Rightarrow> exn \<Rightarrow> exn" where
  \<comment> \<open>the \<open>except\<close> clauses around the requests of a completion, given their three messages\<close>
  "transport_error texts e = (case texts of (timed_out, unavailable, invalid) \<Rightarrow>
     (case e of HttpTimeout \<Rightarrow> ModelRouterError TIMEOUT timed_out
      | HttpError \<Rightarrow> ModelRouterError PROVIDER_UNAVAILABLE unavailable
      | KeyError _ \<Rightarrow> ModelRouterError INVALID_RESPONSE invalid
      | TypeError _ \<Rightarrow> ModelRouterError INVALID_RESPONSE invalid
      | ValueError _ \<Rightarrow> ModelRouterError INVALID_RESPONSE invalid
      | _ \<Rightarrow> e))"

definition op_catch :: "(exn \<Rightarrow> exn) \<Rightarrow> ('s, 'a) stateful \<Rightarrow> ('s, 'a) stateful" where
  \<comment> \<open>\<open>try: p except ...: raise ...\<close>\<close>
  "op_catch f p s = (case p s of (Inl e, s) \<Rightarrow> (Inl (f e), s) | (Inr x, s) \<Rightarrow> (Inr x, s))"

definition string_or_fault :: "pyobj \<Rightarrow> exn + string" where
  \<comment> \<open>\<open>if not isinstance(content, str): raise KeyError\<close>\<close>
  "string_or_fault v = (case v of PStr s \<Rightarrow> Inr s | _ \<Rightarrow> Inl (KeyError []))"

definition available_status :: "string \<Rightarrow> string list \<Rightarrow> provider_status" where
  "available_status pid models = \<lparr>ps_provider_id = pid, ps_enabled = True, ps_available = True, ps_models = models,
     ps_capabilities = default_capability, ps_error_code = None, ps_error = None\<rparr>"

definition failed_status :: "string \<Rightarrow> model_error_code \<Rightarrow> string \<Rightarrow> provider_status" where
  "failed_status pid code text = \<lparr>ps_provider_id = pid, ps_enabled = True, ps_available = False, ps_models = [],
     ps_capabilities = default_capability, ps_error_code = Some code, ps_error = Some text\<rparr>"

definition is_data_fault :: "exn \<Rightarrow> bool" where
  \<comment> \<open>\<open>KeyError\<close>, \<open>TypeError\<close> or \<open>ValueError\<close>\<close>
  "is_data_fault e = (case e of KeyError _ \<Rightarrow> True | TypeError _ \<Rightarrow> True | ValueError _ \<Rightarrow> True | _ \<Rightarrow> False)"

definition is_http_error :: "exn \<Rightarrow> bool" where
  \<comment> \<open>\<open>httpx.HTTPError\<close>, which a timeout is too\<close>
  "is_http_error e = (e = HttpTimeout \<or> e = HttpError)"

definition op_except :: "(exn \<Rightarrow> bool) \<Rightarrow> 'a \<Rightarrow> ('s, 'a) stateful \<Rightarrow> ('s, 'a) stateful" where
  \<comment> \<open>\<open>try: p except ...: return x\<close>\<close>
  "op_except P x p s = (case p s of (Inl e, s) \<Rightarrow> (if P e then Inr x else Inl e, s) | (Inr y, s) \<Rightarrow> (Inr y, s))"

section \<open>Ollama\<close>

definition b64_digit :: "nat \<Rightarrow> char" where
  "b64_digit n = (if n < 26 then char_of (65 + n) else if n < 52 then char_of (71 + n)
     else if n < 62 then char_of (n - 4) else if n = 62 then CHR ''+'' else CHR ''/'')"

fun b64_encode :: "nat list \<Rightarrow> string" where
  "b64_encode [] = []"
| "b64_encode [a] = [b64_digit (a div 4), b64_digit (a mod 4 * 16), CHR ''='', CHR ''='']"
| "b64_encode [a, b] = [b64_digit (a div 4), b64_digit (a mod 4 * 16 + b div 16), b64_digit (b mod 16 * 4), CHR ''='']"
| "b64_encode (a # b # c # r) = [b64_digit (a div 4), b64_digit (a mod 4 * 16 + b div 16),
     b64_digit (b mod 16 * 4 + c div 64), b64_digit (c mod 64)] @ b64_encode r"

definition ollama_capabilities :: provider_capability where
  "ollama_capabilities = default_capability\<lparr>cap_vision := True, cap_image_captioning := True, cap_ocr := True,
     cap_grounding := True, cap_ui_understanding := True, cap_multi_image := True\<rparr>"

definition new_ollama :: "(string \<Rightarrow> url_parts) \<Rightarrow> string \<Rightarrow> exn + string" where
  \<comment> \<open>the base URL it keeps\<close>
  "new_ollama urlparse base_url = require_safe_base_url urlparse base_url False True"

definition ollama_message :: "model_message \<Rightarrow> pyobj" where
  "ollama_message m = PDict ([(''role'', PStr (mm_role m)), (''content'', PStr (mm_content m))] @
     (if mm_images m = [] then [] else [(''images'', PList (map (\<lambda>i. PStr (b64_encode (map of_char (ip_data i)))) (mm_images m)))]))"

definition ollama_request :: "string \<Rightarrow> model_request \<Rightarrow> http_request" where
  "ollama_request base rq = \<lparr>hr_method = POST, hr_url = base @ ''/api/chat'', hr_headers = [], hr_auth = None,
     hr_json = Some (PDict [(''model'', PStr (ref_model_id (rq_model_ref rq))),
       (''messages'', PList (map ollama_message (rq_messages rq))), (''stream'', PBool False)])\<rparr>"

definition ollama_content :: "http_response \<Rightarrow> exn + pyobj \<times> string" where
  \<comment> \<open>the payload and the text in it\<close>
  "ollama_content r =
     (if fst r = 404 then router_error MODEL_NOT_FOUND ''Requested model was not found''
      else if fst r = 429 then router_error RATE_LIMITED ''Ollama rate limit exceeded''
      else ebind (raise_for_status r) (\<lambda>_. ebind (json_body r) (\<lambda>payload.
        ebind (sub_key payload ''message'') (\<lambda>m. ebind (sub_key m ''content'') (\<lambda>c.
        ebind (string_or_fault c) (\<lambda>s. Inr (payload, s)))))))"

definition ollama_texts :: "string \<times> string \<times> string" where
  "ollama_texts = (''Model request timed out'', ''Ollama is unavailable'', ''Ollama returned an invalid response'')"

definition sum_tokens :: "int option \<Rightarrow> int option \<Rightarrow> int option" where
  "sum_tokens a b = (case (a, b) of (Some x, Some y) \<Rightarrow> Some (x + y) | _ \<Rightarrow> None)"

definition ollama_response :: "int \<Rightarrow> model_request \<Rightarrow> pyobj \<times> string \<Rightarrow> exn + model_response" where
  "ollama_response ms rq = (\<lambda>(payload, content).
     ebind (ebind (call_get payload ''prompt_eval_count'' PNone) optional_non_negative_int) (\<lambda>inputs.
     ebind (ebind (call_get payload ''eval_count'' PNone) optional_non_negative_int) (\<lambda>outputs.
     ebind (ebind (call_get payload ''model'' PNone) optional_string) (\<lambda>model.
     ebind (ebind (call_get payload ''done_reason'' PNone) optional_string) (\<lambda>finish.
     Inr \<lparr>mr_content = content, mr_provider_id = ''ollama'', mr_model_id = or_else model (ref_model_id (rq_model_ref rq)),
       mr_finish_reason = finish, mr_usage = \<lparr>mu_input_tokens = inputs, mu_output_tokens = outputs,
         mu_total_tokens = sum_tokens inputs outputs\<rparr>, mr_latency_ms = Some ms\<rparr>)))))"

definition ollama_complete :: "string \<Rightarrow> int \<Rightarrow> model_request \<Rightarrow> model_response hop" where
  \<comment> \<open>\<open>ms\<close> is the time the call took\<close>
  "ollama_complete base ms rq =
     op_bind (op_catch (transport_error ollama_texts) (op_bind (send (ollama_request base rq)) (\<lambda>r. op_lift (ollama_content r))))
       (\<lambda>x. op_lift (ollama_response ms rq x))"

definition listed_names :: "string \<Rightarrow> string \<Rightarrow> pyobj \<Rightarrow> exn + string list" where
  \<comment> \<open>\<open>tuple(item[k] for item in payload[key] if isinstance(item.get(k), str))\<close>\<close>
  "listed_names key k payload = ebind (sub_key payload key) (\<lambda>v. ebind (iterate v) (\<lambda>items.
     ebind (emap (\<lambda>item. call_get item k PNone) items) (\<lambda>names. Inr (List.map_filter as_str names))))"

definition get_request :: "string \<Rightarrow> (string \<times> string) list \<Rightarrow> (string \<times> string) option \<Rightarrow> http_request" where
  "get_request url headers auth = \<lparr>hr_method = GET, hr_url = url, hr_headers = headers, hr_auth = auth, hr_json = None\<rparr>"

definition ollama_status :: "string \<Rightarrow> provider_status hop" where
  "ollama_status base = op_except (\<lambda>e. is_http_error e \<or> is_data_fault e)
     (failed_status ''ollama'' PROVIDER_UNAVAILABLE ''Ollama is unavailable'')
     (op_bind (send (get_request (base @ ''/api/tags'') [] None)) (\<lambda>r. op_lift (
        ebind (raise_for_status r) (\<lambda>_. ebind (json_body r) (\<lambda>payload.
        ebind (listed_names ''models'' ''name'' payload) (\<lambda>models. Inr (available_status ''ollama'' models)))))))"

section \<open>OpenAI compatible servers\<close>

record openai =
  oa_provider_id :: string
  oa_base :: string
  oa_api_key :: "string option"

definition truthy :: "string option \<Rightarrow> bool" where
  "truthy s = (s \<noteq> None \<and> s \<noteq> Some [])"

definition new_openai :: "(string \<Rightarrow> url_parts) \<Rightarrow> string \<Rightarrow> string \<Rightarrow> string option \<Rightarrow> exn + openai" where
  "new_openai urlparse pid base_url api_key = ebind (require_safe_base_url urlparse base_url (truthy api_key) False)
     (\<lambda>base. Inr \<lparr>oa_provider_id = pid, oa_base = base, oa_api_key = api_key\<rparr>)"

definition bearer :: "openai \<Rightarrow> (string \<times> string) list" where
  "bearer oa = (if truthy (oa_api_key oa) then [(''Authorization'', ''Bearer '' @ the (oa_api_key oa))] else [])"

definition openai_message :: "model_message \<Rightarrow> pyobj" where
  \<comment> \<open>\<open>asdict(message)\<close>\<close>
  "openai_message m = PDict [(''role'', PStr (mm_role m)), (''content'', PStr (mm_content m)),
     (''images'', PList (map (\<lambda>i. PDict [(''data'', POther (ip_data i)), (''mime_type'', PStr (ip_mime_type i))]) (mm_images m)))]"

definition openai_request :: "openai \<Rightarrow> model_request \<Rightarrow> http_request" where
  "openai_request oa rq = \<lparr>hr_method = POST, hr_url = oa_base oa @ ''/chat/completions'', hr_headers = bearer oa, hr_auth = None,
     hr_json = Some (PDict [(''model'', PStr (ref_model_id (rq_model_ref rq))),
       (''messages'', PList (map openai_message (rq_messages rq)))])\<rparr>"

definition send_openai :: "openai \<Rightarrow> model_request \<Rightarrow> http_response hop" where
  \<comment> \<open>the bytes of an image cannot be written as JSON: the client raises before it sends\<close>
  "send_openai oa rq =
     (if list_ex (\<lambda>m. mm_images m \<noteq> []) (rq_messages rq) then op_raise (TypeError ''Object of type bytes is not JSON serializable'')
      else send (openai_request oa rq))"

definition openai_choice :: "http_response \<Rightarrow> exn + pyobj \<times> pyobj \<times> string" where
  \<comment> \<open>the payload, its first choice and the text in it\<close>
  "openai_choice r =
     (if fst r = 401 then router_error AUTHENTICATION_FAILED ''Provider authentication failed''
      else if fst r = 404 then router_error MODEL_NOT_FOUND ''Requested model was not found''
      else if fst r = 429 then router_error RATE_LIMITED ''Provider rate limit exceeded''
      else ebind (raise_for_status r) (\<lambda>_. ebind (json_body r) (\<lambda>payload.
        ebind (sub_key payload ''choices'') (\<lambda>cs. ebind (sub_first cs) (\<lambda>choice.
        ebind (sub_key choice ''message'') (\<lambda>m. ebind (sub_key m ''content'') (\<lambda>c.
        ebind (string_or_fault c) (\<lambda>s. Inr (payload, choice, s)))))))))"

definition openai_error :: "exn \<Rightarrow> exn" where
  "openai_error e = (if e = IndexError then ModelRouterError INVALID_RESPONSE ''Provider returned an invalid response''
     else transport_error (''Model request timed out'', ''Provider is unavailable'', ''Provider returned an invalid response'') e)"

definition openai_response :: "openai \<Rightarrow> int \<Rightarrow> model_request \<Rightarrow> pyobj \<times> pyobj \<times> string \<Rightarrow> exn + model_response" where
  "openai_response oa ms rq = (\<lambda>(payload, choice, content).
     ebind (call_get payload ''usage'' (PDict [])) (\<lambda>usage.
     if as_dict usage = None then router_error INVALID_RESPONSE ''Provider returned invalid usage metadata''
     else
     ebind (ebind (call_get payload ''model'' PNone) optional_string) (\<lambda>model.
     ebind (ebind (call_get choice ''finish_reason'' PNone) optional_string) (\<lambda>finish.
     ebind (ebind (call_get usage ''prompt_tokens'' PNone) optional_non_negative_int) (\<lambda>inputs.
     ebind (ebind (call_get usage ''completion_tokens'' PNone) optional_non_negative_int) (\<lambda>outputs.
     ebind (ebind (call_get usage ''total_tokens'' PNone) optional_non_negative_int) (\<lambda>total.
     Inr \<lparr>mr_content = content, mr_provider_id = oa_provider_id oa, mr_model_id = or_else model (ref_model_id (rq_model_ref rq)),
       mr_finish_reason = finish, mr_usage = \<lparr>mu_input_tokens = inputs, mu_output_tokens = outputs, mu_total_tokens = total\<rparr>,
       mr_latency_ms = Some ms\<rparr>)))))))"

definition openai_complete :: "openai \<Rightarrow> int \<Rightarrow> model_request \<Rightarrow> model_response hop" where
  "openai_complete oa ms rq =
     op_bind (op_catch openai_error (op_bind (send_openai oa rq) (\<lambda>r. op_lift (openai_choice r))))
       (\<lambda>x. op_lift (openai_response oa ms rq x))"

definition openai_status :: "openai \<Rightarrow> provider_status hop" where
  "openai_status oa =
     (let pid = oa_provider_id oa in
      op_except (\<lambda>e. e = HttpTimeout) (failed_status pid TIMEOUT ''Provider discovery timed out'')
      (op_except (\<lambda>e. e = HttpError \<or> is_data_fault e) (failed_status pid PROVIDER_UNAVAILABLE ''Provider is unavailable'')
      (op_bind (send (get_request (oa_base oa @ ''/models'') (bearer oa) None)) (\<lambda>r. op_lift (
         if fst r = 401 then Inr (failed_status pid AUTHENTICATION_FAILED ''Provider authentication failed'')
         else if fst r = 429 then Inr (failed_status pid RATE_LIMITED ''Provider rate limit exceeded'')
         else ebind (raise_for_status r) (\<lambda>_. ebind (json_body r) (\<lambda>payload.
           ebind (listed_names ''data'' ''id'' payload) (\<lambda>models. Inr (available_status pid models)))))))))"

section \<open>The OpenCode bridge\<close>

record opencode =
  oc_base :: string
  oc_auth :: "(string \<times> string) option"
  oc_str :: "pyobj \<Rightarrow> string" \<comment> \<open>\<open>str\<close> of a value that is not a string\<close>

definition py_text :: "opencode \<Rightarrow> pyobj \<Rightarrow> string" where
  "py_text oc v = (case v of PStr s \<Rightarrow> s | _ \<Rightarrow> oc_str oc v)"

definition new_opencode ::
  "(string \<Rightarrow> url_parts) \<Rightarrow> (pyobj \<Rightarrow> string) \<Rightarrow> string \<Rightarrow> string option \<Rightarrow> string option \<Rightarrow> exn + opencode" where
  "new_opencode urlparse str base_url username password =
     ebind (require_safe_base_url urlparse base_url (truthy password) True) (\<lambda>base.
     Inr \<lparr>oc_base = base, oc_auth = (if truthy password then Some (or_else username ''opencode'', the password) else None),
       oc_str = str\<rparr>)"

definition opencode_post :: "opencode \<Rightarrow> string \<Rightarrow> pyobj option \<Rightarrow> http_request" where
  "opencode_post oc path payload = \<lparr>hr_method = POST, hr_url = oc_base oc @ path, hr_headers = [], hr_auth = oc_auth oc, hr_json = payload\<rparr>"

definition opencode_delete :: "opencode \<Rightarrow> string \<Rightarrow> http_request" where
  "opencode_delete oc path = \<lparr>hr_method = DELETE, hr_url = oc_base oc @ path, hr_headers = [], hr_auth = oc_auth oc, hr_json = None\<rparr>"

definition raise_status :: "http_response \<Rightarrow> exn + unit" where
  "raise_status r =
     (if fst r = 401 then router_error AUTHENTICATION_FAILED ''OpenCode authentication failed''
      else if fst r = 404 then router_error MODEL_NOT_FOUND ''OpenCode model was not found''
      else if fst r = 429 then router_error RATE_LIMITED ''OpenCode rate limit exceeded''
      else raise_for_status r)"

definition status_in :: "pyobj \<Rightarrow> int list \<Rightarrow> exn + bool" where
  \<comment> \<open>\<open>v in {...}\<close>: a list or a dictionary cannot be hashed\<close>
  "status_in v ns = (case v of PList _ \<Rightarrow> Inl (TypeError ''unhashable type'') | PDict _ \<Rightarrow> Inl (TypeError ''unhashable type'')
     | _ \<Rightarrow> Inr (list_ex (eq_int v) ns))"

definition dict_or_empty :: "pyobj \<Rightarrow> pydict" where
  "dict_or_empty v = (case v of PDict d \<Rightarrow> d | _ \<Rightarrow> [])"

definition message_error_code :: "opencode \<Rightarrow> pyobj \<Rightarrow> exn + model_error_code" where
  \<comment> \<open>how \<open>_raise_message_error\<close> classifies the error of a message\<close>
  "message_error_code oc error =
     (let data = dict_or_empty error;
          nested = dict_or_empty (dict_get data ''data'');
          outer = dict_get data ''statusCode'';
          code = (if py_truth outer then outer else dict_get nested ''statusCode'');
          name = py_lower (py_text oc (dict_get_or data ''name'' (PStr [])));
          text = py_lower (name @ '' '' @ py_text oc error);
          has = (\<lambda>w. py_contains w text)
      in ebind (status_in code [401, 403]) (\<lambda>denied.
        Inr (if denied \<or> has ''auth'' \<or> has ''unauthorized'' then AUTHENTICATION_FAILED
          else if eq_int code 429 \<or> has ''rate'' \<or> has ''quota'' then RATE_LIMITED
          else if eq_int code 404 \<or> (has ''model'' \<and> has ''not'') then MODEL_NOT_FOUND
          else if has ''timeout'' then TIMEOUT
          else if has ''abort'' \<or> has ''cancel'' then CANCELLED
          else PROVIDER_UNAVAILABLE)))"

definition raise_message_error :: "opencode \<Rightarrow> pyobj \<Rightarrow> exn + 'a" where
  "raise_message_error oc error =
     ebind (message_error_code oc error) (\<lambda>code. router_error code ''OpenCode provider request failed'')"

definition open_session_request :: "opencode \<Rightarrow> http_request" where
  "open_session_request oc = opencode_post oc ''/session'' (Some (PDict [(''title'', PStr ''AgentGraph model transport''),
     (''permission'', PList [PDict [(''permission'', PStr ''*''), (''pattern'', PStr ''*''), (''action'', PStr ''deny'')]])]))"

definition open_session :: "opencode \<Rightarrow> pyobj hop" where
  "open_session oc = op_bind (send (open_session_request oc)) (\<lambda>r. op_lift (ebind (raise_status r) (\<lambda>_.
     ebind (json_body r) (\<lambda>v. sub_key v ''id''))))"

definition prompt_text :: "model_message list \<Rightarrow> string" where
  \<comment> \<open>\<open>"\n\n".join(f"{role}: {content}")\<close>\<close>
  "prompt_text ms = concat (map (\<lambda>(k, m). (if k = 0 then [] else [CHR 0x0A, CHR 0x0A]) @ mm_role m @ '': '' @ mm_content m)
     (enumerate 0 ms))"

definition session_path :: "opencode \<Rightarrow> pyobj \<Rightarrow> string" where
  "session_path oc sid = ''/session/'' @ py_text oc sid"

definition message_request :: "opencode \<Rightarrow> pyobj \<Rightarrow> string \<Rightarrow> string \<Rightarrow> model_message list \<Rightarrow> http_request" where
  "message_request oc sid provider model ms = opencode_post oc (session_path oc sid @ ''/message'') (Some (PDict
     [(''model'', PDict [(''providerID'', PStr provider), (''modelID'', PStr model)]),
      (''tools'', PDict [(''*'', PBool False)]),
      (''parts'', PList [PDict [(''type'', PStr ''text''), (''text'', PStr (prompt_text ms))]])]))"

definition text_parts :: "pyobj list \<Rightarrow> string" where
  "text_parts parts = concat (List.map_filter (\<lambda>p. let d = dict_or_empty p in
     if dict_get d ''type'' = PStr ''text'' then as_str (dict_get d ''text'') else None) parts)"

definition read_message :: "opencode \<Rightarrow> http_response \<Rightarrow> exn + pydict \<times> pydict \<times> string" where
  \<comment> \<open>the \<open>info\<close> of the answer, its token counts and the text\<close>
  "read_message oc r = ebind (raise_status r) (\<lambda>_. ebind (json_body r) (\<lambda>payload.
     ebind (guard (as_dict payload \<noteq> None) (KeyError [])) (\<lambda>_.
     ebind (sub_key payload ''info'') (\<lambda>info. ebind (sub_key payload ''parts'') (\<lambda>parts.
     case (info, parts) of
       (PDict i, PList ps) \<Rightarrow>
         ebind (guard (list_all (\<lambda>p. as_dict p \<noteq> None) ps) (KeyError [])) (\<lambda>_.
         ebind (if py_truth (dict_get i ''error'') then raise_message_error oc (dict_get i ''error'') else Inr ()) (\<lambda>_.
         ebind (guard (text_parts ps \<noteq> []) (KeyError [])) (\<lambda>_.
         case dict_get_or i ''tokens'' (PDict []) of
           PDict t \<Rightarrow> Inr (i, t, text_parts ps)
         | _ \<Rightarrow> Inl (KeyError []))))
     | _ \<Rightarrow> Inl (KeyError []))))))"

definition cleanup_send :: "http_request \<Rightarrow> http_client \<Rightarrow> bool \<times> http_client" where
  \<comment> \<open>the answer is ignored; whether the caller was cancelled meanwhile, which does not stop the request\<close>
  "cleanup_send r c = (reply_to r c = Raises FaultCancelled, sent r c)"

definition shielded_cleanup :: "opencode \<Rightarrow> pyobj \<Rightarrow> bool \<Rightarrow> unit hop" where
  "shielded_cleanup oc sid abort c =
     (let (a, c) = (if abort then cleanup_send (opencode_post oc (session_path oc sid @ ''/abort'') None) c else (False, c));
          (b, c) = cleanup_send (opencode_delete oc (session_path oc sid)) c
      in (if a \<or> b then Inl CancelledError else Inr (), c))"

definition opencode_texts :: "string \<times> string \<times> string" where
  "opencode_texts = (''OpenCode request timed out'', ''OpenCode is unavailable'', ''OpenCode returned an invalid response'')"

definition opencode_response :: "int \<Rightarrow> string \<Rightarrow> string \<Rightarrow> pydict \<times> pydict \<times> string \<Rightarrow> exn + model_response" where
  "opencode_response ms provider model = (\<lambda>(info, tokens, content).
     ebind (optional_string (dict_get info ''providerID'')) (\<lambda>p.
     ebind (optional_string (dict_get info ''modelID'')) (\<lambda>m.
     ebind (optional_string (dict_get info ''finish'')) (\<lambda>finish.
     ebind (optional_non_negative_int (dict_get tokens ''input'')) (\<lambda>inputs.
     ebind (optional_non_negative_int (dict_get tokens ''output'')) (\<lambda>outputs.
     ebind (optional_non_negative_int (dict_get tokens ''total'')) (\<lambda>total.
     Inr \<lparr>mr_content = content, mr_provider_id = ''opencode'', mr_model_id = or_else p provider @ ''/'' @ or_else m model,
       mr_finish_reason = finish, mr_usage = \<lparr>mu_input_tokens = inputs, mu_output_tokens = outputs, mu_total_tokens = total\<rparr>,
       mr_latency_ms = Some ms\<rparr>)))))))"

definition after_failure :: "opencode \<Rightarrow> pyobj \<Rightarrow> exn \<Rightarrow> model_response hop" where
  \<comment> \<open>the \<open>except\<close> clauses and \<open>finally\<close> of \<open>complete\<close> once the session is open: a cancellation during the
    cleanup leaves \<open>session_id\<close> set, and \<open>finally\<close> cleans up again\<close>
  "after_failure oc sid e c =
     (if sid = PNone then (Inl (transport_error opencode_texts e), c)
      else case shielded_cleanup oc sid True c of
        (Inr _, c) \<Rightarrow> (Inl (transport_error opencode_texts e), c)
      | (Inl x, c) \<Rightarrow> (case shielded_cleanup oc sid False c of (Inr _, c) \<Rightarrow> (Inl x, c) | (Inl y, c) \<Rightarrow> (Inl y, c)))"

definition after_success :: "opencode \<Rightarrow> pyobj \<Rightarrow> unit hop" where
  "after_success oc sid = (if sid = PNone then op_return () else shielded_cleanup oc sid False)"

definition opencode_complete :: "opencode \<Rightarrow> int \<Rightarrow> model_request \<Rightarrow> model_response hop" where
  "opencode_complete oc ms rq c =
     (case py_partition ''/'' (ref_model_id (rq_model_ref rq)) of (provider, separator, model) \<Rightarrow>
       if \<not> separator
       then (router_error CONFIGURATION_ERROR ''OpenCode model reference must include provider and model'', c)
       else case open_session oc c of
         (Inl e, c) \<Rightarrow> (Inl (transport_error opencode_texts e), c)
       | (Inr sid, c) \<Rightarrow>
           (case op_bind (send (message_request oc sid provider model (rq_messages rq))) (\<lambda>r. op_lift (read_message oc r)) c of
              (Inl e, c) \<Rightarrow> after_failure oc sid e c
            | (Inr x, c) \<Rightarrow> op_bind (after_success oc sid) (\<lambda>_. op_lift (opencode_response ms provider model x)) c))"

definition provider_models :: "opencode \<Rightarrow> pyobj \<Rightarrow> exn + string list" where
  \<comment> \<open>the models of one provider of \<open>/config/providers\<close>\<close>
  "provider_models oc p = ebind (call_get p ''models'' (PDict [])) (\<lambda>v. ebind (iterate v) (emap (\<lambda>m.
     ebind (sub_key p ''id'') (\<lambda>i. Inr (py_text oc i @ ''/'' @ py_text oc m)))))"

definition opencode_get :: "opencode \<Rightarrow> string \<Rightarrow> http_response hop" where
  "opencode_get oc path = op_bind (send (get_request (oc_base oc @ path) [] (oc_auth oc)))
     (\<lambda>r. op_lift (ebind (raise_status r) (\<lambda>_. Inr r)))"

definition opencode_status :: "opencode \<Rightarrow> provider_status hop" where
  "opencode_status oc s =
     (case op_bind (opencode_get oc ''/global/health'') (\<lambda>_. op_bind (opencode_get oc ''/config/providers'') (\<lambda>r. op_lift (
        ebind (json_body r) (\<lambda>v. ebind (sub_key v ''providers'') (\<lambda>ps. ebind (iterate ps) (\<lambda>items.
        ebind (emap (provider_models oc) items) (\<lambda>models. Inr (available_status ''opencode'' (concat models))))))))) s of
       (Inl (ModelRouterError code text), s) \<Rightarrow> (Inr (failed_status ''opencode'' code text), s)
     | (Inl e, s) \<Rightarrow> (if is_http_error e \<or> is_data_fault e
          then Inr (failed_status ''opencode'' PROVIDER_UNAVAILABLE ''OpenCode is unavailable'') else Inl e, s)
     | (Inr x, s) \<Rightarrow> (Inr x, s))"

end
