(* ===== verification/Provider_Props.thy ===== *)
theory Provider_Props
  imports Providers
begin

text \<open>
  What the providers promise: they keep the contract the router relies on, the OpenCode bridge closes the
  session it opens, credentials are only sent over a connection that protects them.
\<close>

section \<open>The errors of a computation\<close>

definition errs :: "(exn \<Rightarrow> bool) \<Rightarrow> exn + 'a \<Rightarrow> bool" where
  \<comment> \<open>every exception it raises is of this kind\<close>
  "errs P m \<longleftrightarrow> (\<forall>e. m = Inl e \<longrightarrow> P e)"

named_theorems errs_intros \<open>the exceptions a computation may raise\<close>

lemma errs_Inr [errs_intros]: "errs P (Inr x)"
  by (simp add: errs_def)

lemma errs_Inl: "errs P (Inl e) = P e"
  by (simp add: errs_def)

lemma errs_guard [errs_intros]: "P e \<Longrightarrow> errs P (guard b e)"
  by (simp add: errs_def)

lemma errs_bind [errs_intros]: "errs P m \<Longrightarrow> (\<And>x. m = Inr x \<Longrightarrow> errs P (f x)) \<Longrightarrow> errs P (ebind m f)"
  by (auto simp: errs_def ebind_Inl_iff)

lemma errs_if [errs_intros]: "(b \<Longrightarrow> errs P x) \<Longrightarrow> (\<not> b \<Longrightarrow> errs P y) \<Longrightarrow> errs P (if b then x else y)"
  by simp

lemma errs_emap [errs_intros]: "(\<And>x. errs P (f x)) \<Longrightarrow> errs P (emap f xs)"
  by (induction xs) (auto intro!: errs_intros)

lemma errsD: "errs P m \<Longrightarrow> m = Inl e \<Longrightarrow> P e"
  by (simp add: errs_def)

definition router_fault :: "exn \<Rightarrow> bool" where
  \<comment> \<open>what a provider may raise\<close>
  "router_fault e \<longleftrightarrow> e = CancelledError \<or> (\<exists>c m. e = ModelRouterError c m)"

definition caught_fault :: "exn \<Rightarrow> bool" where
  \<comment> \<open>what the \<open>except\<close> clauses of a completion turn into that\<close>
  "caught_fault e \<longleftrightarrow> router_fault e \<or> is_http_error e \<or> is_data_fault e"

lemma transport_error_caught: "caught_fault e \<Longrightarrow> router_fault (transport_error texts e)"
  by (cases texts) (auto simp: caught_fault_def router_fault_def is_http_error_def is_data_fault_def transport_error_def
      split: exn.splits)

lemma router_fault_caught: "router_fault e \<Longrightarrow> caught_fault e"
  by (simp add: caught_fault_def)

lemma router_error_errs [errs_intros]: "errs router_fault (router_error c m)" "errs caught_fault (router_error c m)"
  by (simp_all add: router_error_def errs_Inl router_fault_def caught_fault_def)

lemma raise_for_status_errs [errs_intros]: "errs caught_fault (raise_for_status r)"
  unfolding raise_for_status_def by (rule errs_guard) (simp add: caught_fault_def is_http_error_def)

lemma json_body_errs [errs_intros]: "errs caught_fault (json_body r)"
  by (simp add: json_body_def errs_def caught_fault_def is_data_fault_def split: option.split)

lemma sub_key_errs [errs_intros]: "errs caught_fault (sub_key v k)"
  by (simp add: sub_key_def errs_def caught_fault_def is_data_fault_def split: pyobj.split option.split)

lemma string_or_fault_errs [errs_intros]: "errs caught_fault (string_or_fault v)"
  by (simp add: string_or_fault_def errs_def caught_fault_def is_data_fault_def split: pyobj.split)

lemma key_fault [errs_intros]: "caught_fault (KeyError k)"
  by (simp add: caught_fault_def is_data_fault_def)

lemma optional_errs [errs_intros]:
  "errs router_fault (optional_non_negative_int v)" "errs router_fault (optional_string v)"
  by (auto simp: optional_non_negative_int_def optional_string_def router_error_def errs_def router_fault_def
      split: pyobj.splits if_splits)

lemma call_get_dict: "call_get (PDict d) k v0 = Inr (dict_get_or d k v0)"
  by (simp add: call_get_def)

lemma sub_key_dict: "sub_key v k = Inr x \<Longrightarrow> \<exists>d. v = PDict d"
  by (auto simp: sub_key_def split: pyobj.splits)

text \<open>A stateful computation, by what it raises.\<close>

lemma send_errs: "errs caught_fault (fst (send r c))"
  by (auto simp: send_def errs_def caught_fault_def router_fault_def is_http_error_def split: http_reply.splits)
    (metis fault_exn.elims)

lemma op_bind_errs:
  "errs P (fst (p c)) \<Longrightarrow> (\<And>x c'. p c = (Inr x, c') \<Longrightarrow> errs P (fst (f x c'))) \<Longrightarrow> errs P (fst (op_bind p f c))"
  by (auto simp: op_bind_def errs_def split: prod.splits sum.splits)

lemma op_lift_fst [simp]: "fst (op_lift x c) = x"
  by (simp add: op_lift_def)

lemma op_catch_errs: "errs P (fst (p c)) \<Longrightarrow> (\<And>e. P e \<Longrightarrow> Q (f e)) \<Longrightarrow> errs Q (fst (op_catch f p c))"
  by (auto simp: op_catch_def errs_def split: prod.splits sum.splits)

lemma op_catch_Inr: "op_catch f p c = (Inr x, c') \<longleftrightarrow> p c = (Inr x, c')"
  by (auto simp: op_catch_def split: prod.splits sum.splits)

lemma exchange_errs:
  assumes "errs P (fst (p c))" "\<And>r. errs P (g r)" "\<And>e. P e \<Longrightarrow> Q (h e)"
  shows "errs Q (fst (op_catch h (op_bind p (\<lambda>r. op_lift (g r))) c))"
proof -
  have "errs P (fst (op_bind p (\<lambda>r. op_lift (g r)) c))"
    by (rule op_bind_errs) (simp_all add: assms(1,2))
  then show ?thesis by (rule op_catch_errs) (rule assms(3))
qed

section \<open>The contract of a provider\<close>

definition count_ok :: "int option \<Rightarrow> bool" where
  "count_ok t = (case t of None \<Rightarrow> True | Some n \<Rightarrow> 0 \<le> n)"

definition text_ok :: "string option \<Rightarrow> bool" where
  "text_ok t = (case t of None \<Rightarrow> True | Some s \<Rightarrow> length s \<le> 500)"

definition usage_valid :: "model_response \<Rightarrow> bool" where
  "usage_valid r \<longleftrightarrow> count_ok (mu_input_tokens (mr_usage r)) \<and> count_ok (mu_output_tokens (mr_usage r)) \<and>
     count_ok (mu_total_tokens (mr_usage r)) \<and> text_ok (mr_finish_reason r)"

lemma optional_int_Inr: "optional_non_negative_int v = Inr t \<Longrightarrow> count_ok t"
  by (auto simp: optional_non_negative_int_def router_error_def count_ok_def split: pyobj.splits if_splits)

lemma optional_string_Inr: "optional_string v = Inr t \<Longrightarrow> text_ok t"
  by (auto simp: optional_string_def router_error_def text_ok_def split: pyobj.splits if_splits)

lemma sum_tokens_ok: "count_ok a \<Longrightarrow> count_ok b \<Longrightarrow> count_ok (sum_tokens a b)"
  by (auto simp: count_ok_def sum_tokens_def split: option.splits)

lemma ollama_content_errs: "errs caught_fault (ollama_content r)"
  unfolding ollama_content_def by (intro errs_intros)

lemma ollama_content_dict: "ollama_content r = Inr (payload, s) \<Longrightarrow> \<exists>d. payload = PDict d"
  by (auto simp: ollama_content_def router_error_def exn_simps split: if_splits dest: sub_key_dict)

lemma ollama_response_errs: "errs router_fault (ollama_response ms rq (PDict d, s))"
  unfolding ollama_response_def prod.case call_get_dict ebind_simps by (intro errs_intros)

lemma ollama_response_valid: "ollama_response ms rq x = Inr r \<Longrightarrow> usage_valid r"
  by (cases x) (auto simp: ollama_response_def exn_simps usage_valid_def sum_tokens_ok optional_int_Inr
      intro: optional_string_Inr)

lemma ollama_errs: "errs router_fault (fst (ollama_complete base ms rq c))"
  unfolding ollama_complete_def
proof (rule op_bind_errs)
  show "errs router_fault (fst (op_catch (transport_error ollama_texts)
     (op_bind (send (ollama_request base rq)) (\<lambda>r. op_lift (ollama_content r))) c))"
    by (rule exchange_errs [where P = caught_fault]) (simp_all add: send_errs ollama_content_errs transport_error_caught)
next
  fix x c'
  assume "op_catch (transport_error ollama_texts) (op_bind (send (ollama_request base rq)) (\<lambda>r. op_lift (ollama_content r))) c = (Inr x, c')"
  then obtain r where "ollama_content r = Inr x" by (auto simp: op_catch_Inr op_bind_Inr_iff op_lift_def)
  moreover obtain payload s where "x = (payload, s)" by fastforce
  ultimately show "errs router_fault (fst (op_lift (ollama_response ms rq x) c'))"
    using ollama_content_dict ollama_response_errs by fastforce
qed

interpretation ollama: provider_contract ollama_capabilities "\<lambda>rq. fst (ollama_complete base ms rq c)" for base ms c
  by unfold_locales
    (use ollama_errs in \<open>auto simp: errs_def router_fault_def ollama_capabilities_def default_capability_def\<close>)

definition openai_fault :: "exn \<Rightarrow> bool" where
  "openai_fault e \<longleftrightarrow> caught_fault e \<or> e = IndexError"

lemma openai_error_caught: "openai_fault e \<Longrightarrow> router_fault (openai_error e)"
  by (auto simp: openai_fault_def openai_error_def router_fault_def [of "ModelRouterError c m" for c m] intro: transport_error_caught)

lemma errs_mono: "errs P m \<Longrightarrow> (\<And>e. P e \<Longrightarrow> Q e) \<Longrightarrow> errs Q m"
  by (auto simp: errs_def)

lemma caught_openai [errs_intros]: "errs caught_fault m \<Longrightarrow> errs openai_fault m"
  by (erule errs_mono) (simp add: openai_fault_def)

lemma sub_first_errs [errs_intros]: "errs openai_fault (sub_first v)"
  by (auto simp: sub_first_def errs_def openai_fault_def caught_fault_def is_data_fault_def split: pyobj.split list.split)

lemma openai_choice_errs: "errs openai_fault (openai_choice r)"
  unfolding openai_choice_def by (intro errs_intros)

lemma openai_choice_dict: "openai_choice r = Inr (payload, choice, s) \<Longrightarrow> (\<exists>d. payload = PDict d) \<and> (\<exists>d. choice = PDict d)"
  by (auto simp: openai_choice_def router_error_def exn_simps split: if_splits dest: sub_key_dict)

lemma send_openai_errs: "errs openai_fault (fst (send_openai oa rq c))"
  unfolding send_openai_def
  by (cases "list_ex (\<lambda>m. mm_images m \<noteq> []) (rq_messages rq)")
    (simp_all add: op_raise_def errs_Inl openai_fault_def caught_fault_def is_data_fault_def caught_openai send_errs)

lemma openai_response_errs: "errs router_fault (openai_response oa ms rq (PDict d, PDict d', s))"
  unfolding openai_response_def prod.case call_get_dict ebind_simps
proof (rule errs_if)
  assume "\<not> as_dict (dict_get_or d ''usage'' (PDict [])) = None"
  then obtain u where "dict_get_or d ''usage'' (PDict []) = PDict u" by auto
  then show "errs router_fault
     (ebind (optional_string (dict_get_or d ''model'' PNone)) (\<lambda>model.
     ebind (optional_string (dict_get_or d' ''finish_reason'' PNone)) (\<lambda>finish.
     ebind (ebind (call_get (dict_get_or d ''usage'' (PDict [])) ''prompt_tokens'' PNone) optional_non_negative_int) (\<lambda>inputs.
     ebind (ebind (call_get (dict_get_or d ''usage'' (PDict [])) ''completion_tokens'' PNone) optional_non_negative_int) (\<lambda>outputs.
     ebind (ebind (call_get (dict_get_or d ''usage'' (PDict [])) ''total_tokens'' PNone) optional_non_negative_int) (\<lambda>total.
     Inr \<lparr>mr_content = s, mr_provider_id = oa_provider_id oa, mr_model_id = or_else model (ref_model_id (rq_model_ref rq)),
       mr_finish_reason = finish, mr_usage = \<lparr>mu_input_tokens = inputs, mu_output_tokens = outputs, mu_total_tokens = total\<rparr>,
       mr_latency_ms = Some ms\<rparr>))))))"
    unfolding call_get_dict ebind_simps by (simp add: call_get_dict) (intro errs_intros)
qed (intro errs_intros)

lemma openai_response_valid: "openai_response oa ms rq x = Inr r \<Longrightarrow> usage_valid r"
  by (cases x) (auto simp: openai_response_def router_error_def exn_simps usage_valid_def optional_int_Inr
      split: if_splits intro: optional_string_Inr)

lemma openai_errs: "errs router_fault (fst (openai_complete oa ms rq c))"
  unfolding openai_complete_def
proof (rule op_bind_errs)
  show "errs router_fault (fst (op_catch openai_error (op_bind (send_openai oa rq) (\<lambda>r. op_lift (openai_choice r))) c))"
    by (rule exchange_errs [where P = openai_fault]) (simp_all add: send_openai_errs openai_choice_errs openai_error_caught)
next
  fix x c'
  assume "op_catch openai_error (op_bind (send_openai oa rq) (\<lambda>r. op_lift (openai_choice r))) c = (Inr x, c')"
  then obtain r where "openai_choice r = Inr x" by (auto simp: op_catch_Inr op_bind_Inr_iff op_lift_def)
  moreover obtain payload choice s where "x = (payload, choice, s)" using prod_cases3 by blast
  ultimately show "errs router_fault (fst (op_lift (openai_response oa ms rq x) c'))"
    using openai_choice_dict openai_response_errs by fastforce
qed

interpretation openai: provider_contract default_capability "\<lambda>rq. fst (openai_complete oa ms rq c)" for oa ms c
  by unfold_locales (use openai_errs in \<open>auto simp: errs_def router_fault_def default_capability_def\<close>)

section \<open>The OpenCode bridge\<close>

lemma raise_status_errs [errs_intros]: "errs caught_fault (raise_status r)"
  unfolding raise_status_def by (intro errs_intros)

lemma raise_message_errs [errs_intros]: "errs caught_fault (raise_message_error oc v)"
  unfolding raise_message_error_def message_error_code_def Let_def
  by (intro errs_intros) (auto simp: status_in_def errs_def caught_fault_def is_data_fault_def split: pyobj.split)

lemma read_message_errs: "errs caught_fault (read_message oc r)"
  unfolding read_message_def
  by (intro errs_intros) (auto simp: errs_Inl errs_Inr split: pyobj.split intro!: errs_intros)

lemma opencode_response_errs: "errs router_fault (opencode_response ms p m x)"
  unfolding opencode_response_def by (cases x) (simp, intro errs_intros)

lemma opencode_response_valid: "opencode_response ms p m x = Inr r \<Longrightarrow> usage_valid r"
  by (cases x) (auto simp: opencode_response_def exn_simps usage_valid_def optional_int_Inr intro: optional_string_Inr)

lemma open_session_errs: "errs caught_fault (fst (open_session oc c))"
  unfolding open_session_def
  by (rule op_bind_errs) (simp_all add: send_errs errs_bind raise_status_errs json_body_errs sub_key_errs)

definition ask :: "opencode \<Rightarrow> pyobj \<Rightarrow> string \<Rightarrow> string \<Rightarrow> model_message list \<Rightarrow> (pydict \<times> pydict \<times> string) hop" where
  "ask oc sid p m ms = op_bind (send (message_request oc sid p m ms)) (\<lambda>r. op_lift (read_message oc r))"

lemma ask_errs: "errs caught_fault (fst (ask oc sid p m ms c))"
  unfolding ask_def by (rule op_bind_errs) (simp_all add: send_errs read_message_errs)

lemma cleanup_result: "fst (shielded_cleanup oc sid abort c) = Inr () \<or> fst (shielded_cleanup oc sid abort c) = Inl CancelledError"
  by (auto simp: shielded_cleanup_def Let_def split: prod.split)

lemma after_failure_fst:
  "fst (after_failure oc sid e c) = Inl (transport_error opencode_texts e) \<or> fst (after_failure oc sid e c) = Inl CancelledError"
proof (cases "sid = PNone")
  case False
  obtain x c1 where x: "shielded_cleanup oc sid True c = (x, c1)" by fastforce
  obtain y c2 where y: "shielded_cleanup oc sid False c1 = (y, c2)" by fastforce
  from cleanup_result [of oc sid True c] cleanup_result [of oc sid False c1] x y False show ?thesis
    by (auto simp: after_failure_def)
qed (simp add: after_failure_def)

lemma after_failure_errs:
  assumes "caught_fault e"
  shows "errs router_fault (fst (after_failure oc sid e c))"
proof -
  have "router_fault CancelledError" by (simp add: router_fault_def)
  with after_failure_fst [of oc sid e c] transport_error_caught [OF assms, of opencode_texts] show ?thesis
    by (auto simp: errs_def)
qed

lemma after_success_errs: "errs router_fault (fst (after_success oc sid c))"
  using cleanup_result [of oc sid False c]
  by (auto simp: after_success_def errs_def op_return_def router_fault_def)

text \<open>The course of a completion: no session, no answer, or an answer.\<close>

lemma opencode_complete_cases:
  assumes "py_partition ''/'' (ref_model_id (rq_model_ref rq)) = (p, sep, m)"
  obtains (malformed) "\<not> sep" "opencode_complete oc ms rq c =
      (router_error CONFIGURATION_ERROR ''OpenCode model reference must include provider and model'', c)"
  | (refused) e c1 where "sep" "open_session oc c = (Inl e, c1)"
      "opencode_complete oc ms rq c = (Inl (transport_error opencode_texts e), c1)"
  | (failed) sid c1 e c2 where "sep" "open_session oc c = (Inr sid, c1)" "ask oc sid p m (rq_messages rq) c1 = (Inl e, c2)"
      "opencode_complete oc ms rq c = after_failure oc sid e c2"
  | (answered) sid c1 x c2 where "sep" "open_session oc c = (Inr sid, c1)" "ask oc sid p m (rq_messages rq) c1 = (Inr x, c2)"
      "opencode_complete oc ms rq c = op_bind (after_success oc sid) (\<lambda>_. op_lift (opencode_response ms p m x)) c2"
proof (cases sep)
  case False
  with assms malformed show thesis by (simp add: opencode_complete_def)
next
  case True
  show thesis
  proof (cases "fst (open_session oc c)")
    case (Inl e)
    then obtain c1 where o: "open_session oc c = (Inl e, c1)" by (metis prod.collapse)
    with True assms show thesis by (intro refused) (simp_all add: opencode_complete_def)
  next
    case (Inr sid)
    then obtain c1 where o: "open_session oc c = (Inr sid, c1)" by (metis prod.collapse)
    show thesis
    proof (cases "fst (ask oc sid p m (rq_messages rq) c1)")
      case (Inl e)
      then obtain c2 where a: "ask oc sid p m (rq_messages rq) c1 = (Inl e, c2)" by (metis prod.collapse)
      with True assms o show thesis by (intro failed) (simp_all add: opencode_complete_def ask_def)
    next
      case (Inr x)
      then obtain c2 where a: "ask oc sid p m (rq_messages rq) c1 = (Inr x, c2)" by (metis prod.collapse)
      with True assms o show thesis by (intro answered) (simp_all add: opencode_complete_def ask_def)
    qed
  qed
qed

lemma opencode_errs: "errs router_fault (fst (opencode_complete oc ms rq c))"
proof -
  obtain p sep m where part: "py_partition ''/'' (ref_model_id (rq_model_ref rq)) = (p, sep, m)" using prod_cases3 by blast
  then show ?thesis
  proof (cases rule: opencode_complete_cases [where oc = oc and ms = ms and c = c])
    case malformed
    then show ?thesis by (simp add: router_error_errs)
  next
    case (refused e c1)
    then have "caught_fault e" using open_session_errs [of oc c] by (simp add: errs_Inl)
    with refused(3) show ?thesis by (simp add: errs_Inl transport_error_caught)
  next
    case (failed sid c1 e c2)
    then have "caught_fault e" using ask_errs [of oc sid p m "rq_messages rq" c1] by (simp add: errs_Inl)
    with failed(4) show ?thesis by (simp add: after_failure_errs)
  next
    case (answered sid c1 x c2)
    show ?thesis unfolding answered(4)
      by (rule op_bind_errs) (simp_all add: after_success_errs opencode_response_errs)
  qed
qed

lemma opencode_valid:
  assumes "fst (opencode_complete oc ms rq c) = Inr r"
  shows "usage_valid r"
proof -
  obtain p sep m where part: "py_partition ''/'' (ref_model_id (rq_model_ref rq)) = (p, sep, m)" using prod_cases3 by blast
  then show ?thesis
  proof (cases rule: opencode_complete_cases [where oc = oc and ms = ms and c = c])
    case (failed sid c1 e c2)
    with assms after_failure_fst [of oc sid e c2] show ?thesis by auto
  next
    case (answered sid c1 x c2)
    with assms show ?thesis
      by (auto simp: op_bind_def op_lift_def split: prod.splits sum.splits intro: opencode_response_valid)
  qed (use assms in \<open>simp_all add: router_error_def\<close>)
qed

interpretation opencode: provider_contract default_capability "\<lambda>rq. fst (opencode_complete oc ms rq c)" for oc ms c
  by unfold_locales (use opencode_errs in \<open>auto simp: errs_def router_fault_def default_capability_def\<close>)

section \<open>What the bridge sends\<close>

lemma sent_fields [simp]: "hc_log (sent r c) = hc_log c @ [r]" "hc_reply (sent r c) = hc_reply c"
  by (simp_all add: sent_def)










section \<open>Properties\<close>

text \<open>
  C32: whatever the server answers, a provider answers the router with a response whose counts are not
  negative and whose finish reason is of bounded length, or raises a \<open>ModelRouterError\<close>; the only other
  exception is the cancellation of its caller.
\<close>

theorem providers_keep_their_contract:
  assumes "outcome \<in> {fst (ollama_complete base ms rq c), fst (openai_complete oa ms rq c), fst (opencode_complete oc ms rq c)}"
  shows "(\<exists>r. outcome = Inr r \<and> usage_valid r) \<or> (\<exists>code text. outcome = Inl (ModelRouterError code text)) \<or>
    outcome = Inl CancelledError"
proof -
  have "errs router_fault outcome" using assms ollama_errs openai_errs opencode_errs by auto
  moreover have "usage_valid r" if "outcome = Inr r" for r
    using assms that
    by (auto simp: ollama_complete_def openai_complete_def op_bind_def op_lift_def split: prod.splits sum.splits
        dest: sym intro: ollama_response_valid openai_response_valid opencode_valid)
  ultimately show ?thesis by (cases outcome) (auto simp: errs_Inl router_fault_def)
qed


definition sample_model_request :: model_request where
  "sample_model_request = \<lparr>rq_model_ref = \<lparr>ref_provider = ''opencode'', ref_model_id = ''p/m''\<rparr>, rq_messages = []\<rparr>"

definition sample_client :: http_client where
  \<comment> \<open>opens the session \<open>s\<close>, then every request times out\<close>
  "sample_client = \<lparr>hc_log = [], hc_reply = (\<lambda>n _. if n = 0 then Answer 200 (Some (PDict [(''id'', PStr ''s'')])) else Raises FaultTimeout)\<rparr>"

theorem providers_keep_their_contract_witness:
  "(\<exists>r. fst (ollama_complete ''http://localhost'' 3 sample_model_request sample_client) = Inr r \<and> usage_valid r) \<or>
   (\<exists>code text. fst (ollama_complete ''http://localhost'' 3 sample_model_request sample_client) = Inl (ModelRouterError code text)) \<or>
   fst (ollama_complete ''http://localhost'' 3 sample_model_request sample_client) = Inl CancelledError"
  by (rule providers_keep_their_contract) blast



text \<open>
  An entry of a model listing that is not an object is not tolerated: the attribute error it causes is not
  among the exceptions \<open>status\<close> handles, so the whole status request fails.
\<close>

theorem listing_of_non_objects_raises:
  assumes "hc_reply c (length (hc_log c)) (get_request (base @ ''/api/tags'') [] None) =
      Answer 200 (Some (PDict [(''models'', PList (item # items))]))" "as_dict item = None"
  shows "fst (ollama_status base c) = Inl (AttributeError ''get'')"
proof -
  have "call_get item k v = Inl (AttributeError ''get'')" for k v
    using assms(2) by (cases item) (simp_all add: call_get_def)
  with assms(1) show ?thesis
    by (simp add: ollama_status_def op_except_def op_bind_def send_def reply_to_def op_lift_def raise_for_status_def guard_def
        json_body_def listed_names_def sub_key_def iterate_def is_http_error_def is_data_fault_def)
qed

text \<open>Credentials travel over HTTPS or stay on the machine, and the two local bridges never leave it.\<close>

lemma safe_url:
  assumes "require_safe_base_url urlparse url credentialed loopback_only = Inr base"
  shows "base = rstrip_slash url" and "\<exists>host. up_hostname (urlparse url) = Some host \<and>
    (loopback_only \<longrightarrow> is_loopback host) \<and> (credentialed \<longrightarrow> up_scheme (urlparse url) = ''https'' \<or> is_loopback host)"
  using assms by (auto simp: require_safe_base_url_def Let_def router_error_def split: option.splits if_splits)

theorem credentials_stay_protected:
  assumes "new_openai urlparse pid url key = Inr oa" "bearer oa \<noteq> []"
  shows "\<exists>host. up_hostname (urlparse url) = Some host \<and> (up_scheme (urlparse url) = ''https'' \<or> is_loopback host)"
proof -
  from assms(1) obtain base where "require_safe_base_url urlparse url (truthy key) False = Inr base"
    and oa: "oa_api_key oa = key" by (auto simp: new_openai_def exn_simps)
  from safe_url(2) [OF this(1)] oa assms(2) show ?thesis by (auto simp: bearer_def split: if_splits)
qed

end
