(* ===== verification/Wiring.thy ===== *)
theory Wiring
  imports Settings Provider_Props Remote Tools Workflow Auth Vault Vision Nodes Approvals
begin

text \<open>
  The construction of the services in \<open>create_app\<close>, \<open>app.py\<close>: what each component takes from the
  settings, and the model providers of the router. The external functions the components use (hashing,
  encryption, the image library, JSON parsing, the HTTP library and so on) are collected in a record.
\<close>

record site =
  si_settings :: settings
  si_host :: host
  si_aware :: bool \<comment> \<open>the database driver returns aware times\<close>
  si_auth_host :: auth_host
  si_fernet :: fernet_host
  si_random_key :: bytes \<comment> \<open>the result of \<open>Fernet.generate_key\<close>\<close>
  si_hmac :: "string \<Rightarrow> string \<Rightarrow> string"
  si_vision_host :: vision_host
  si_json :: "string \<Rightarrow> pyobj option"
  si_str :: "pyobj \<Rightarrow> string"
  si_urlparse :: "string \<Rightarrow> url_parts"
  si_http :: http_client
  si_elapsed :: int
  si_facts :: host_facts

section \<open>What the components take from the settings\<close>

definition round_half_even :: "rat \<Rightarrow> int" where
  "round_half_even x = (let f = \<lfloor>x\<rfloor>; d = x - of_int f in
     if d < 1 / 2 then f else if 1 / 2 < d then f + 1 else if even f then f else f + 1)"

definition to_timedelta :: "rat \<Rightarrow> time" where
  \<comment> \<open>\<open>timedelta(seconds=x)\<close>\<close>
  "to_timedelta x = round_half_even (x * 1000000)"

definition manager_config :: "site \<Rightarrow> config" where
  "manager_config si = (let s = si_settings si in
     \<lparr>cf_host = si_host si, cf_project = se_project_id s, cf_recovery = True, cf_events = True,
      cf_max_workers = nat (se_orchestration_max_workers s), cf_max_depth = nat (se_orchestration_max_depth s)\<rparr>)"

definition memory_config_of :: "settings \<Rightarrow> memory_config" where
  "memory_config_of s = \<lparr>mc_enabled = se_memory_enabled s, mc_max_content = nat (se_memory_max_content_chars s),
     mc_max_tags = nat (se_memory_max_tags s), mc_max_tag_chars = nat (se_memory_max_tag_chars s),
     mc_max_results = nat (se_memory_max_results s), mc_max_context = nat (se_memory_max_context_chars s)\<rparr>"

definition tool_config_of :: "site \<Rightarrow> tool_config" where
  "tool_config_of si = (let s = si_settings si in
     \<lparr>tc_enabled = se_tools_enabled s, tc_project = se_project_id s,
      tc_allowlist = application_allowlist (si_json si) (se_tool_application_allowlist_json s),
      tc_max_output = nat (se_tool_max_output_chars s)\<rparr>)"

definition lexi_config_of :: "site \<Rightarrow> lexi_config" where
  "lexi_config_of si = (let s = si_settings si in
     \<lparr>lc_project = se_project_id s, lc_max_tool_steps = nat (se_lexi_max_tool_steps s),
      lc_memory = memory_config_of s, lc_tools = tool_config_of si, lc_decode = si_json si\<rparr>)"

definition auth_config_of :: "site \<Rightarrow> auth_config" where
  "auth_config_of si = (let s = si_settings si in
     \<lparr>ac_aware = si_aware si, ac_challenge_ttl = se_webauthn_challenge_ttl_seconds s,
      ac_session_ttl = se_session_ttl_seconds s, ac_allowed_origins = se_webauthn_allowed_origins s\<rparr>)"

definition node_config_of :: "site \<Rightarrow> node_config" where
  "node_config_of si = (let s = si_settings si in
     \<lparr>nc_project = se_project_id s, nc_role = se_node_role s, nc_proof = si_hmac si,
      nc_secret = se_worker_enrollment_secret s, nc_max_connections = nat (se_worker_max_connections s),
      nc_max_messages = nat (se_worker_max_messages s), nc_max_tasks = nat (se_worker_max_tasks s),
      nc_task_timeout = se_worker_task_timeout_seconds s,
      nc_heartbeat_timeout = to_timedelta (se_worker_heartbeat_timeout_seconds s)\<rparr>)"

definition vision_config_of :: "settings \<Rightarrow> vision_config" where
  "vision_config_of s = \<lparr>vc_project = se_project_id s, vc_enabled = se_vision_enabled s,
     vc_provider = se_vision_provider s, vc_model = se_vision_model s, vc_allowed_roots = se_vision_allowed_roots s,
     vc_max_file_size = nat (se_vision_max_file_size_bytes s), vc_max_pixels = nat (se_vision_max_image_pixels s),
     vc_max_queue = nat (se_vision_max_queue s), vc_max_scan_files = nat (se_vision_max_scan_files s)\<rparr>"

definition core_name :: "settings \<Rightarrow> string" where
  "core_name s = (if se_node_name s = ''AgentGraph Worker'' then ''AgentGraph Core'' else se_node_name s)"

section \<open>The model router\<close>

definition ollama_entry :: "site \<Rightarrow> string \<Rightarrow> model_provider" where
  "ollama_entry si base = \<lparr>pv_provider_id = ''ollama'', pv_capabilities = ollama_capabilities,
     pv_complete = (\<lambda>rq. fst (ollama_complete base (si_elapsed si) rq (si_http si))),
     pv_status = fst (ollama_status base (si_http si))\<rparr>"

definition opencode_entry :: "site \<Rightarrow> opencode \<Rightarrow> model_provider" where
  "opencode_entry si oc = \<lparr>pv_provider_id = ''opencode'', pv_capabilities = default_capability,
     pv_complete = (\<lambda>rq. fst (opencode_complete oc (si_elapsed si) rq (si_http si))),
     pv_status = fst (opencode_status oc (si_http si))\<rparr>"

definition openai_entry :: "site \<Rightarrow> openai \<Rightarrow> model_provider" where
  "openai_entry si oa = \<lparr>pv_provider_id = oa_provider_id oa, pv_capabilities = default_capability,
     pv_complete = (\<lambda>rq. fst (openai_complete oa (si_elapsed si) rq (si_http si))),
     pv_status = fst (openai_status oa (si_http si))\<rparr>"

definition configure_providers :: "site \<Rightarrow> exn + (string \<times> model_provider) list" where
  "configure_providers si = (let s = si_settings si in
     ebind (new_ollama (si_urlparse si) (se_ollama_base_url s)) (\<lambda>base.
     ebind (if truthy (se_opencode_base_url s)
            then ebind (new_opencode (si_urlparse si) (si_str si) (the (se_opencode_base_url s))
                   (se_opencode_basic_auth_username s) (se_opencode_basic_auth_password s)) (\<lambda>oc. Inr (opencode_entry si oc))
            else Inr (disabled_provider ''opencode'')) (\<lambda>opencode.
     ebind (if truthy (se_openai_compatible_base_url s)
            then ebind (new_openai (si_urlparse si) ''openrouter'' (the (se_openai_compatible_base_url s))
                   (se_openai_compatible_api_key s)) (\<lambda>oa. Inr (openai_entry si oa))
            else Inr (disabled_provider ''openrouter'')) (\<lambda>openrouter.
     Inr [(''ollama'', ollama_entry si base), (''opencode'', opencode), (''openrouter'', openrouter)]))))"

definition configure_router :: "site \<Rightarrow> exn + model_router" where
  "configure_router si = ebind (configure_providers si) (\<lambda>providers. new_model_router providers ''ollama://qwen3-4b-nothink:latest'')"

end
