(* ===== verification/Schemas.thy ===== *)
theory Schemas
  imports Manager Models Memory Vision Auth Vault Nodes
begin

text \<open>
  \<open>api/schemas.py\<close> and the payload classes of \<open>api/remote.py\<close>: what a request body must look like, and
  how the results of the services are rendered. A body is the decoded JSON; pydantic's lax reading of an
  integer, a float and a UUID are parameters, the constraints and validators the classes declare are
  modelled. A rendered response is the Python value handed to the framework, so that times are still
  \<open>datetime\<close> objects.
\<close>

section \<open>Reading fields\<close>

record pydantic =
  pd_int :: "pyobj \<Rightarrow> int option"
  pd_float :: "pyobj \<Rightarrow> rat option"
  pd_uuid :: "pyobj \<Rightarrow> uuid option"

definition refuse :: "exn + 'a" where
  "refuse = Inl RequestValidationError"

definition accept :: "'a option \<Rightarrow> exn + 'a" where
  "accept x = (case x of None \<Rightarrow> refuse | Some v \<Rightarrow> Inr v)"

definition read_object :: "pyobj \<Rightarrow> exn + pydict" where
  "read_object v = accept (as_dict v)"

definition read_strict :: "string list \<Rightarrow> pyobj \<Rightarrow> exn + pydict" where
  \<comment> \<open>a class with \<open>extra="forbid"\<close>\<close>
  "read_strict keys v = ebind (read_object v) (\<lambda>d. if dict_keys_within d keys then Inr d else refuse)"

definition read_field :: "pydict \<Rightarrow> string \<Rightarrow> (pyobj \<Rightarrow> exn + 'a) \<Rightarrow> exn + 'a" where
  "read_field d k f = (case map_of d k of None \<Rightarrow> refuse | Some v \<Rightarrow> f v)"

definition read_default :: "pydict \<Rightarrow> string \<Rightarrow> 'a \<Rightarrow> (pyobj \<Rightarrow> exn + 'a) \<Rightarrow> exn + 'a" where
  \<comment> \<open>a default is not validated\<close>
  "read_default d k x f = (case map_of d k of None \<Rightarrow> Inr x | Some v \<Rightarrow> f v)"

definition read_text :: "nat \<Rightarrow> nat \<Rightarrow> pyobj \<Rightarrow> exn + string" where
  "read_text lo hi v = (case v of PStr s \<Rightarrow> if lo \<le> length s \<and> length s \<le> hi then Inr s else refuse | _ \<Rightarrow> refuse)"

definition read_optional :: "(pyobj \<Rightarrow> exn + 'a) \<Rightarrow> pyobj \<Rightarrow> exn + 'a option" where
  "read_optional f v = (if v = PNone then Inr None else ebind (f v) (\<lambda>x. Inr (Some x)))"

definition read_int :: "pydantic \<Rightarrow> int \<Rightarrow> int \<Rightarrow> pyobj \<Rightarrow> exn + int" where
  "read_int pd lo hi v = ebind (accept (pd_int pd v)) (\<lambda>i. if lo \<le> i \<and> i \<le> hi then Inr i else refuse)"

definition read_list :: "nat \<Rightarrow> (pyobj \<Rightarrow> exn + 'a) \<Rightarrow> pyobj \<Rightarrow> exn + 'a list" where
  "read_list hi f v = ebind (accept (as_list v)) (\<lambda>xs. if length xs \<le> hi then emap f xs else refuse)"

definition read_one_of :: "('a \<times> string) list \<Rightarrow> pyobj \<Rightarrow> exn + 'a" where
  \<comment> \<open>an enumeration or a \<open>Literal\<close>\<close>
  "read_one_of values v = accept (map_option fst (List.find (\<lambda>p. v = PStr (snd p)) values))"

section \<open>Graphs and agents\<close>

record graph_node =
  gn_id :: string
  gn_type :: string
  gn_label :: string
  gn_position :: "rat \<times> rat"
  gn_agent_id :: "uuid option"
  gn_instructions :: "string option"

record graph_edge =
  ge_id :: string
  ge_source :: string
  ge_target :: string

record graph_definition =
  gd_version :: "int option"
  gd_runtime :: "string option"
  gd_nodes :: "graph_node list"
  gd_edges :: "graph_edge list"

definition read_position :: "pydantic \<Rightarrow> pyobj \<Rightarrow> exn + rat \<times> rat" where
  \<comment> \<open>finite numbers only\<close>
  "read_position pd v = (case v of
     PList [x, y] \<Rightarrow> ebind (accept (pd_float pd x)) (\<lambda>a. ebind (accept (pd_float pd y)) (\<lambda>b. Inr (a, b)))
   | _ \<Rightarrow> refuse)"

definition read_graph_node :: "pydantic \<Rightarrow> pyobj \<Rightarrow> exn + graph_node" where
  "read_graph_node pd v =
     ebind (read_strict [''id'', ''type'', ''label'', ''position'', ''agent_id'', ''instructions''] v) (\<lambda>d.
     ebind (read_field d ''id'' (read_text 1 100)) (\<lambda>i.
     ebind (read_default d ''type'' ''agent'' (read_text 1 50)) (\<lambda>ty.
     ebind (read_field d ''label'' (read_text 1 200)) (\<lambda>label.
     ebind (read_field d ''position'' (read_position pd)) (\<lambda>position.
     ebind (read_default d ''agent_id'' None (read_optional (\<lambda>v. accept (pd_uuid pd v)))) (\<lambda>a.
     ebind (read_default d ''instructions'' None (read_optional (read_text 0 4000))) (\<lambda>instructions.
     Inr \<lparr>gn_id = i, gn_type = ty, gn_label = label, gn_position = position, gn_agent_id = a,
       gn_instructions = instructions\<rparr>)))))))"

definition read_graph_edge :: "pyobj \<Rightarrow> exn + graph_edge" where
  "read_graph_edge v =
     ebind (read_strict [''id'', ''source'', ''target''] v) (\<lambda>d.
     ebind (read_field d ''id'' (read_text 1 100)) (\<lambda>i.
     ebind (read_field d ''source'' (read_text 1 100)) (\<lambda>src.
     ebind (read_field d ''target'' (read_text 1 100)) (\<lambda>tgt.
     Inr \<lparr>ge_id = i, ge_source = src, ge_target = tgt\<rparr>))))"

definition team_shape :: "graph_definition \<Rightarrow> bool" where
  \<comment> \<open>\<open>validate_team_shape\<close> does not raise\<close>
  "team_shape g \<longleftrightarrow>
     \<not> (gd_runtime g = Some ''team-v1'' \<and> gd_version g \<noteq> Some 2) \<and>
     \<not> (gd_version g = Some 2 \<and> gd_runtime g \<noteq> Some ''team-v1'') \<and>
     \<not> (gd_runtime g = Some ''team-v1'' \<and> list_ex (\<lambda>n. gn_type n \<noteq> ''agent-ref'' \<or> gn_agent_id n = None) (gd_nodes g))"

definition runtime_names :: "(string \<times> string) list" where
  "runtime_names = [(''model-v1'', ''model-v1''), (''lexi-v1'', ''lexi-v1''), (''team-v1'', ''team-v1'')]"

definition read_graph :: "pydantic \<Rightarrow> pyobj \<Rightarrow> exn + graph_definition" where
  "read_graph pd v =
     ebind (read_strict [''version'', ''runtime'', ''nodes'', ''edges''] v) (\<lambda>d.
     ebind (read_default d ''version'' None (read_optional (read_int pd 1 2))) (\<lambda>version.
     ebind (read_default d ''runtime'' None (read_optional (read_one_of runtime_names))) (\<lambda>runtime.
     ebind (read_default d ''nodes'' [] (read_list 100 (read_graph_node pd))) (\<lambda>nodes.
     ebind (read_default d ''edges'' [] (read_list 200 read_graph_edge)) (\<lambda>edges.
     let g = \<lparr>gd_version = version, gd_runtime = runtime, gd_nodes = nodes, gd_edges = edges\<rparr>
     in if team_shape g then Inr g else refuse)))))"

definition drop_nones :: "pydict \<Rightarrow> pydict" where
  \<comment> \<open>\<open>exclude_none=True\<close>\<close>
  "drop_nones d = filter (\<lambda>p. snd p \<noteq> PNone) d"

definition opt_int :: "int option \<Rightarrow> pyobj" where
  "opt_int x = (case x of None \<Rightarrow> PNone | Some i \<Rightarrow> PInt i)"

definition dump_node :: "graph_node \<Rightarrow> pyobj" where
  "dump_node n = PDict (drop_nones [(''id'', PStr (gn_id n)), (''type'', PStr (gn_type n)), (''label'', PStr (gn_label n)),
     (''position'', PList [PFloat (fst (gn_position n)), PFloat (snd (gn_position n))]),
     (''agent_id'', opt_str (map_option uuid_str (gn_agent_id n))), (''instructions'', opt_str (gn_instructions n))])"

definition dump_edge :: "graph_edge \<Rightarrow> pyobj" where
  "dump_edge e = PDict [(''id'', PStr (ge_id e)), (''source'', PStr (ge_source e)), (''target'', PStr (ge_target e))]"

definition dump_graph :: "graph_definition \<Rightarrow> pydict" where
  \<comment> \<open>\<open>model_dump(mode="json", exclude_none=True)\<close>\<close>
  "dump_graph g = drop_nones [(''version'', opt_int (gd_version g)), (''runtime'', opt_str (gd_runtime g)),
     (''nodes'', PList (map dump_node (gd_nodes g))), (''edges'', PList (map dump_edge (gd_edges g)))]"

definition default_graph :: graph_definition where
  "default_graph = \<lparr>gd_version = None, gd_runtime = None, gd_nodes = [], gd_edges = []\<rparr>"

record create_agent_request =
  ca_name :: string
  ca_description :: "string option"
  ca_model_ref :: string
  ca_graph :: graph_definition

definition normalize_name :: "string \<Rightarrow> exn + string" where
  "normalize_name s = (if py_strip s = [] then refuse else Inr (py_strip s))"

definition checked_model_ref :: "string \<Rightarrow> exn + string" where
  "checked_model_ref s = (case parse_model_ref s of Inl _ \<Rightarrow> refuse | Inr _ \<Rightarrow> Inr s)"

definition read_create_agent :: "pydantic \<Rightarrow> pyobj \<Rightarrow> exn + create_agent_request" where
  "read_create_agent pd v =
     ebind (read_object v) (\<lambda>d.
     ebind (read_field d ''name'' (\<lambda>v. ebind (read_text 1 200 v) normalize_name)) (\<lambda>name.
     ebind (read_default d ''description'' None (read_optional (read_text 0 10000))) (\<lambda>description.
     ebind (read_default d ''model_ref'' ''auto://default'' (\<lambda>v. ebind (read_text 1 500 v) checked_model_ref)) (\<lambda>mref.
     ebind (read_default d ''graph_definition'' default_graph (read_graph pd)) (\<lambda>g.
     Inr \<lparr>ca_name = name, ca_description = description, ca_model_ref = mref, ca_graph = g\<rparr>)))))"

definition read_update_graph :: "pydantic \<Rightarrow> pyobj \<Rightarrow> exn + graph_definition" where
  "read_update_graph pd v = ebind (read_object v) (\<lambda>d. read_field d ''graph_definition'' (read_graph pd))"

definition read_start_run :: "pyobj \<Rightarrow> exn + string" where
  \<comment> \<open>\<open>StartRunPayload\<close> of \<open>api/remote.py\<close>\<close>
  "read_start_run v = ebind (read_object v) (\<lambda>d. read_field d ''input_text'' (read_text 1 100000))"

record approval_payload =
  py_action :: string
  py_description :: string
  py_run_id :: "string option"
  py_task_id :: "string option"

definition read_any_text :: "pyobj \<Rightarrow> exn + string" where
  "read_any_text v = accept (as_str v)"

definition read_approval_payload :: "pyobj \<Rightarrow> exn + approval_payload" where
  "read_approval_payload v =
     ebind (read_object v) (\<lambda>d.
     ebind (read_field d ''action'' (read_text 1 200)) (\<lambda>action.
     ebind (read_field d ''description'' (read_text 1 10000)) (\<lambda>description.
     ebind (read_default d ''run_id'' None (read_optional read_any_text)) (\<lambda>run.
     ebind (read_default d ''task_id'' None (read_optional read_any_text)) (\<lambda>task.
     Inr \<lparr>py_action = action, py_description = description, py_run_id = run, py_task_id = task\<rparr>)))))"

section \<open>Memory and images\<close>

record create_memory_request =
  cq_agent_id :: uuid
  cq_kind :: memory_kind
  cq_content :: string
  cq_tags :: "string list"

definition memory_kinds :: "(memory_kind \<times> string) list" where
  "memory_kinds = map (\<lambda>k. (k, memory_kind_value k)) [Fact, Preference, Note, Summary]"

definition read_uuid :: "pydantic \<Rightarrow> pyobj \<Rightarrow> exn + uuid" where
  "read_uuid pd v = accept (pd_uuid pd v)"

definition read_create_memory :: "pydantic \<Rightarrow> pyobj \<Rightarrow> exn + create_memory_request" where
  "read_create_memory pd v =
     ebind (read_strict [''agent_id'', ''kind'', ''content'', ''tags''] v) (\<lambda>d.
     ebind (read_field d ''agent_id'' (read_uuid pd)) (\<lambda>a.
     ebind (read_field d ''kind'' (read_one_of memory_kinds)) (\<lambda>kind.
     ebind (read_field d ''content'' (read_text 1 100000)) (\<lambda>content.
     ebind (read_default d ''tags'' [] (read_list 100 read_any_text)) (\<lambda>tags.
     Inr \<lparr>cq_agent_id = a, cq_kind = kind, cq_content = content, cq_tags = tags\<rparr>)))))"

definition read_memory_search :: "pydantic \<Rightarrow> pyobj \<Rightarrow> exn + uuid \<times> string" where
  "read_memory_search pd v =
     ebind (read_strict [''agent_id'', ''query''] v) (\<lambda>d.
     ebind (read_field d ''agent_id'' (read_uuid pd)) (\<lambda>a.
     ebind (read_default d ''query'' [] (read_text 0 100000)) (\<lambda>q. Inr (a, q))))"

definition vision_modes :: "(vision_mode \<times> string) list" where
  "vision_modes = map (\<lambda>m. (m, vision_mode_value m)) [Describe, Detailed, Ocr, Objects, Grounding, Ui, CustomMode]"

definition read_analysis_request :: "pyobj \<Rightarrow> exn + vision_mode \<times> string option \<times> string option" where
  "read_analysis_request v =
     ebind (read_object v) (\<lambda>d.
     ebind (read_default d ''mode'' Describe (read_one_of vision_modes)) (\<lambda>mode.
     ebind (read_default d ''prompt'' None (read_optional (read_text 0 10000))) (\<lambda>prompt.
     ebind (read_default d ''model'' None (read_optional (read_text 0 500))) (\<lambda>model. Inr (mode, prompt, model)))))"

definition read_folder_request :: "pyobj \<Rightarrow> exn + string \<times> string" where
  "read_folder_request v =
     ebind (read_object v) (\<lambda>d.
     ebind (read_field d ''display_name'' (read_text 1 200)) (\<lambda>name.
     ebind (read_field d ''root'' (read_text 1 10000)) (\<lambda>root_dir. Inr (name, root_dir))))"

section \<open>Authentication, security and vault\<close>

definition username_char :: "char \<Rightarrow> bool" where
  "username_char c \<longleftrightarrow> c \<in> set ''ABCDEFGHIJKLMNOPQRSTUVWXYZabcdefghijklmnopqrstuvwxyz0123456789_.-''"

definition read_username :: "pyobj \<Rightarrow> exn + string" where
  "read_username v = ebind (read_text 1 200 v) (\<lambda>s. if list_all username_char s then Inr s else refuse)"

definition read_totp_code :: "pyobj \<Rightarrow> exn + string" where
  "read_totp_code v = ebind (read_any_text v) (\<lambda>s.
     if list_all (\<lambda>c. c \<in> set ''0123456789'') s \<and> 6 \<le> length s \<and> length s \<le> 8 then Inr s else refuse)"

definition read_bootstrap :: "pyobj \<Rightarrow> exn + string \<times> string \<times> string" where
  "read_bootstrap v =
     ebind (read_strict [''username'', ''bootstrap_secret'', ''device_name''] v) (\<lambda>d.
     ebind (read_field d ''username'' read_username) (\<lambda>username.
     ebind (read_field d ''bootstrap_secret'' (read_text 32 512)) (\<lambda>secret.
     ebind (read_field d ''device_name'' (read_text 1 200)) (\<lambda>device. Inr (username, secret, device)))))"

definition read_single :: "string \<Rightarrow> (pyobj \<Rightarrow> exn + 'a) \<Rightarrow> pyobj \<Rightarrow> exn + 'a" where
  \<comment> \<open>a class with one field\<close>
  "read_single k f v = ebind (read_strict [k] v) (\<lambda>d. read_field d k f)"

definition read_passkey_registration :: "pyobj \<Rightarrow> exn + string" where
  "read_passkey_registration = read_single ''device_name'' (read_text 1 200)"

definition read_passkey_authentication :: "pyobj \<Rightarrow> exn + string" where
  "read_passkey_authentication = read_single ''username'' read_username"

definition read_passkey_verification :: "pyobj \<Rightarrow> exn + string \<times> pydict" where
  "read_passkey_verification v =
     ebind (read_strict [''challenge_id'', ''credential''] v) (\<lambda>d.
     ebind (read_field d ''challenge_id'' (read_text 1 36)) (\<lambda>i.
     ebind (read_field d ''credential'' read_object) (\<lambda>credential. Inr (i, credential))))"

definition read_totp_confirm :: "pyobj \<Rightarrow> exn + string \<times> string" where
  "read_totp_confirm v =
     ebind (read_strict [''secret'', ''code''] v) (\<lambda>d.
     ebind (read_field d ''secret'' (read_text 16 128)) (\<lambda>secret.
     ebind (read_field d ''code'' read_totp_code) (\<lambda>code. Inr (secret, code))))"

definition read_totp_verify :: "pyobj \<Rightarrow> exn + string" where
  "read_totp_verify = read_single ''code'' read_totp_code"

definition read_rename_device :: "pyobj \<Rightarrow> exn + string" where
  "read_rename_device = read_single ''display_name'' (read_text 1 200)"

record security_approval_request =
  sq_action :: string
  sq_reason :: string
  sq_scope :: pydict
  sq_expires_in :: int
  sq_target :: "string option"
  sq_run_id :: "string option"
  sq_task_ref :: "string option"
  sq_risk :: "string option"

definition read_security_approval :: "pydantic \<Rightarrow> pyobj \<Rightarrow> exn + security_approval_request" where
  "read_security_approval pd v =
     ebind (read_strict [''action'', ''reason'', ''scope'', ''expires_in_seconds'', ''target'', ''run_id'',
        ''task_ref'', ''risk''] v) (\<lambda>d.
     ebind (read_field d ''action'' (read_text 1 200)) (\<lambda>action.
     ebind (read_field d ''reason'' (read_text 1 10000)) (\<lambda>reason.
     ebind (read_default d ''scope'' [] read_object) (\<lambda>scope.
     ebind (read_default d ''expires_in_seconds'' 300 (read_int pd 1 86400)) (\<lambda>expires.
     ebind (read_default d ''target'' None (read_optional (read_text 0 500))) (\<lambda>target.
     ebind (read_default d ''run_id'' None (read_optional (read_text 0 36))) (\<lambda>run.
     ebind (read_default d ''task_ref'' None (read_optional (read_text 0 100))) (\<lambda>task.
     ebind (read_default d ''risk'' None (read_optional (read_text 0 30))) (\<lambda>risk.
     Inr \<lparr>sq_action = action, sq_reason = reason, sq_scope = scope, sq_expires_in = expires, sq_target = target,
       sq_run_id = run, sq_task_ref = task, sq_risk = risk\<rparr>)))))))))"

definition read_decision :: "pyobj \<Rightarrow> exn + approval_decision" where
  "read_decision = read_single ''decision'' (read_one_of
     [(AllowOnce, ''allow_once''), (AllowForTask, ''allow_for_task''), (RejectDecision, ''reject'')])"

definition read_create_credential :: "pyobj \<Rightarrow> exn + string \<times> string \<times> string" where
  "read_create_credential v =
     ebind (read_strict [''name'', ''credential_type'', ''secret''] v) (\<lambda>d.
     ebind (read_field d ''name'' (read_text 1 200)) (\<lambda>name.
     ebind (read_field d ''credential_type'' (read_text 1 100)) (\<lambda>ty.
     ebind (read_field d ''secret'' (read_text 1 100000)) (\<lambda>secret. Inr (name, ty, secret)))))"

definition read_replace_credential :: "pyobj \<Rightarrow> exn + string" where
  "read_replace_credential = read_single ''secret'' (read_text 1 100000)"

end
