(* ===== verification/Responses.thy ===== *)
theory Responses
  imports Schemas Remote Tools
begin

text \<open>
  The response classes of \<open>api/schemas.py\<close> and the rendering functions of the routes: each turns a domain
  object or a database row into the Python value handed to the framework. What a class does not list
  (a run's recorded specification, a credential's ciphertext, a session's token hash) does not appear.
\<close>

definition opt_uuid :: "uuid option \<Rightarrow> pyobj" where
  "opt_uuid u = opt_str (map_option uuid_str u)"

definition opt_float :: "rat option \<Rightarrow> pyobj" where
  "opt_float x = (case x of None \<Rightarrow> PNone | Some r \<Rightarrow> PFloat r)"

section \<open>Agents and runs\<close>

fun agent_status_value :: "agent_status \<Rightarrow> string" where
  "agent_status_value AgentIdle = ''idle''"
| "agent_status_value AgentRunning = ''running''"
| "agent_status_value AgentError = ''error''"

definition agent_response :: "agent \<Rightarrow> pyobj" where
  "agent_response a = PDict [(''id'', PStr (uuid_str (ag_id a))), (''name'', PStr (ag_name a)),
     (''description'', opt_str (ag_description a)), (''status'', PStr (agent_status_value (ag_status a))),
     (''model_ref'', PStr (ag_model_ref a)), (''graph_definition'', PDict (ag_graph a)),
     (''created_at'', PDatetime (ag_created_at a)), (''updated_at'', PDatetime (ag_updated_at a))]"

definition run_response :: "run \<Rightarrow> pyobj" where
  "run_response r = PDict [(''id'', PStr (uuid_str (run_id r))), (''agent_id'', PStr (uuid_str (run_agent_id r))),
     (''status'', PStr (run_status_value (run_status r))), (''input_text'', PStr (run_input_text r)),
     (''output_text'', opt_str (run_output_text r)), (''error'', opt_str (run_error r)),
     (''created_at'', PDatetime (run_created_at r)), (''started_at'', opt_time (run_started_at r)),
     (''finished_at'', opt_time (run_finished_at r)), (''provider_id'', opt_str (run_provider_id r)),
     (''model_id'', opt_str (run_model_id r)), (''finish_reason'', opt_str (run_finish_reason r)),
     (''input_tokens'', opt_int (run_input_tokens r)), (''output_tokens'', opt_int (run_output_tokens r)),
     (''total_tokens'', opt_int (run_total_tokens r)), (''latency_ms'', opt_int (run_latency_ms r))]"

fun tree_response :: "run_tree_node \<Rightarrow> pyobj" where
  "tree_response (RunTreeNode node depth r children) = PDict [(''node_id'', opt_str node), (''depth'', PInt (int depth)),
     (''run'', run_response r), (''children'', PList (map tree_response children))]"

definition capabilities_response :: "provider_capability \<Rightarrow> pyobj" where
  "capabilities_response c = PDict [(''chat'', PBool (cap_chat c)), (''discovery'', PBool (cap_discovery c)),
     (''vision'', PBool (cap_vision c)), (''image_captioning'', PBool (cap_image_captioning c)),
     (''ocr'', PBool (cap_ocr c)), (''grounding'', PBool (cap_grounding c)),
     (''ui_understanding'', PBool (cap_ui_understanding c)), (''multi_image'', PBool (cap_multi_image c)),
     (''function_calling'', PBool (cap_function_calling c))]"

definition provider_response :: "provider_status \<Rightarrow> pyobj" where
  "provider_response p = PDict [(''provider_id'', PStr (ps_provider_id p)), (''enabled'', PBool (ps_enabled p)),
     (''available'', PBool (ps_available p)), (''models'', PList (map PStr (ps_models p))),
     (''capabilities'', capabilities_response (ps_capabilities p)),
     (''error_code'', opt_str (map_option model_error_code_value (ps_error_code p))), (''error'', opt_str (ps_error p))]"

definition command_response :: "command_result \<Rightarrow> pyobj" where
  \<comment> \<open>what the routes of \<open>api/remote.py\<close> make of the result of a command\<close>
  "command_response r = (case r of
     AgentResult a \<Rightarrow> agent_response a
   | AgentsResult as \<Rightarrow> PList (map agent_response as)
   | RunResult r \<Rightarrow> run_response r
   | RunsResult rs \<Rightarrow> PList (map run_response rs)
   | TreeResult t \<Rightarrow> tree_response t
   | ProvidersResult ps \<Rightarrow> PList (map provider_response ps))"

definition lexi_response :: "agent option \<Rightarrow> pyobj" where
  "lexi_response a = PDict [(''installed'', PBool (a \<noteq> None)),
     (''agent'', case a of None \<Rightarrow> PNone | Some a \<Rightarrow> agent_response a)]"

section \<open>Memory, images and nodes\<close>

definition memory_fields :: "memory_record \<Rightarrow> pydict" where
  "memory_fields m = [(''id'', PStr (uuid_str (mm_id m))), (''project_id'', PStr (mm_project_id m)),
     (''agent_id'', PStr (uuid_str (mm_agent_id m))), (''kind'', PStr (memory_kind_value (mm_kind m))),
     (''content'', PStr (mm_content m)), (''tags'', PList (map PStr (mm_tags m))),
     (''created_at'', PDatetime (mm_created_at m)), (''updated_at'', PDatetime (mm_updated_at m))]"

definition memory_response :: "memory_record \<Rightarrow> pyobj" where
  "memory_response m = PDict (memory_fields m)"

definition match_response :: "memory_match \<Rightarrow> pyobj" where
  "match_response m = PDict (memory_fields (mt_record m) @ [(''rank'', PInt (int (mt_rank m))), (''score'', opt_float (mt_score m))])"

definition asset_response :: "asset_row \<Rightarrow> pyobj" where
  "asset_response a = PDict [(''id'', PStr (as_id a)), (''filename'', PStr (as_filename a)),
     (''mime_type'', PStr (as_mime_type a)), (''size_bytes'', PInt (int (as_size_bytes a))),
     (''sha256'', PStr (as_sha256 a)), (''source_type'', PStr (as_source_type a)), (''created_at'', PDatetime (as_created_at a))]"

fun analysis_status_value :: "analysis_status \<Rightarrow> string" where
  "analysis_status_value AnalysisQueued = ''queued''"
| "analysis_status_value AnalysisRunning = ''running''"
| "analysis_status_value AnalysisCompleted = ''completed''"
| "analysis_status_value AnalysisFailed = ''failed''"

definition analysis_response :: "analysis_row \<Rightarrow> pyobj" where
  \<comment> \<open>no service writes \<open>structured_result\<close>\<close>
  "analysis_response a = PDict [(''id'', PStr (an_id a)), (''asset_id'', PStr (an_asset_id a)),
     (''provider_id'', PStr (an_provider_id a)), (''model_id'', PStr (an_model_id a)),
     (''mode'', PStr (vision_mode_value (an_mode a))), (''prompt'', opt_str (an_prompt a)),
     (''status'', PStr (analysis_status_value (an_status a))), (''raw_text'', opt_str (an_raw_text a)),
     (''description'', opt_str (an_description a)), (''ocr_text'', opt_str (an_ocr_text a)),
     (''structured_result'', PNone), (''latency_ms'', opt_int (an_latency_ms a)),
     (''error_code'', opt_str (an_error_code a)), (''created_at'', PDatetime (an_created_at a)),
     (''completed_at'', opt_time (an_completed_at a))]"

definition folder_response :: "folder_row \<Rightarrow> pyobj" where
  "folder_response f = PDict [(''id'', PStr (fo_id f)), (''display_name'', PStr (fo_display_name f)),
     (''enabled'', PBool (fo_enabled f)), (''created_at'', PDatetime (fo_created_at f))]"

fun node_role_value :: "node_role \<Rightarrow> string" where
  "node_role_value CoreRole = ''core''"
| "node_role_value WorkerRole = ''worker''"

definition node_capabilities_response :: "worker_capabilities \<Rightarrow> pyobj" where
  "node_capabilities_response c = PDict [(''platform'', PStr (wc_platform c)), (''architecture'', PStr (wc_architecture c)),
     (''agentgraph_version'', PStr (wc_version c)), (''features'', PList (map PStr (wc_features c))),
     (''resources'', PDict [(''cpu_count'', PInt (rs_cpu_count (wc_resources c))),
        (''load_average'', opt_float (rs_load_average (wc_resources c))),
        (''memory_total_bytes'', opt_int (rs_memory_total (wc_resources c))),
        (''memory_available_bytes'', opt_int (rs_memory_available (wc_resources c)))])]"

definition node_response :: "node_info \<Rightarrow> pyobj" where
  "node_response n = PDict [(''node_id'', PStr (ni_node_id n)), (''name'', PStr (ni_name n)),
     (''role'', PStr (node_role_value (ni_role n))), (''status'', PStr (node_status_value (ni_status n))),
     (''enabled'', PBool (ni_enabled n)), (''capabilities'', node_capabilities_response (ni_capabilities n)),
     (''created_at'', PStr (ni_created_at n)), (''updated_at'', PStr (ni_updated_at n)),
     (''last_seen_at'', opt_str (ni_last_seen_at n))]"

definition probe_response :: "probe_result \<Rightarrow> pyobj" where
  "probe_response p = PDict [(''task_id'', PStr (pb_task_id p)), (''node_id'', PStr (pb_node_id p)),
     (''status'', PStr ''succeeded''), (''result'', PDict (pb_result p))]"

definition scan_response :: "scan_counts \<Rightarrow> pyobj" where
  "scan_response c = PDict [(''discovered'', PInt (int (sc_discovered c))), (''accepted'', PInt (int (sc_accepted c))),
     (''skipped'', PInt (int (sc_skipped c))), (''failed'', PInt (int (sc_failed c)))]"

section \<open>Security\<close>

fun user_role_value :: "user_role \<Rightarrow> string" where
  "user_role_value OwnerRole = ''owner''"
| "user_role_value AdminRole = ''admin''"
| "user_role_value OperatorRole = ''operator''"

fun device_trust_value :: "device_trust \<Rightarrow> string" where
  "device_trust_value Limited = ''limited''"
| "device_trust_value Trusted = ''trusted''"

fun strength_value :: "strength \<Rightarrow> string" where
  "strength_value PasskeyStrength = ''passkey''"
| "strength_value PasskeyTotp = ''passkey_totp''"
| "strength_value Development = ''development''"

fun grant_status_value :: "grant_status \<Rightarrow> string" where
  "grant_status_value GrantActive = ''active''"
| "grant_status_value GrantConsumed = ''consumed''"
| "grant_status_value GrantRevoked = ''revoked''"
| "grant_status_value GrantExpired = ''expired''"

definition principal_response :: "session_principal \<Rightarrow> pyobj" where
  "principal_response p = PDict [(''user_id'', PStr (sp_user_id p)), (''username'', PStr (sp_username p)),
     (''role'', PStr (user_role_value (sp_role p))), (''session_id'', PStr (sp_session_id p)),
     (''device_id'', PStr (sp_device_id p)), (''device_trust'', PStr (device_trust_value (sp_device_trust p))),
     (''authentication_strength'', PStr (strength_value (sp_strength p))), (''csrf_token'', PStr (sp_csrf_token p))]"

definition totp_response :: "string \<times> string \<Rightarrow> pyobj" where
  "totp_response r = PDict [(''secret'', PStr (fst r)), (''otpauth_uri'', PStr (snd r))]"

definition device_response :: "device_row \<Rightarrow> pyobj" where
  "device_response d = PDict [(''id'', PStr (dv_id d)), (''display_name'', PStr (dv_display_name d)),
     (''trust'', PStr (device_trust_value (dv_trust d))), (''revoked_at'', opt_time (dv_revoked_at d)),
     (''last_authenticated_at'', opt_time (dv_last_authenticated_at d)), (''created_at'', PDatetime (dv_created_at d))]"

definition security_approval_response :: "security_approval \<Rightarrow> pyobj" where
  "security_approval_response a = PDict [(''id'', PStr (sa_id a)), (''project_id'', PStr (sa_project_id a)),
     (''requested_by'', PStr (sa_requested_by a)), (''action'', PStr (sa_action a)), (''target'', opt_str (sa_target a)),
     (''run_id'', opt_str (sa_run_id a)), (''task_ref'', opt_str (sa_task_ref a)), (''risk'', opt_str (sa_risk a)),
     (''reason'', PStr (sa_reason a)), (''scope'', PDict (sa_scope a)), (''status'', PStr (sa_status a)),
     (''decision'', opt_str (map_option approval_decision_value (sa_decision a))),
     (''expires_at'', PDatetime (sa_expires_at a)), (''decided_at'', opt_time (sa_decided_at a)),
     (''created_at'', PDatetime (sa_created_at a))]"

definition grant_response :: "grant_row \<Rightarrow> pyobj" where
  "grant_response g = PDict [(''id'', PStr (gr_id g)), (''subject'', PStr (gr_subject g)), (''action'', PStr (gr_action g)),
     (''target'', opt_str (gr_target g)), (''run_id'', opt_str (gr_run_id g)), (''task_ref'', opt_str (gr_task_ref g)),
     (''status'', PStr (grant_status_value (gr_status g))), (''expires_at'', PDatetime (gr_expires_at g)),
     (''revoked_at'', opt_time (gr_revoked_at g)), (''created_at'', PDatetime (gr_created_at g))]"

definition lockdown_response :: "security_state \<Rightarrow> pyobj" where
  "lockdown_response s = PDict [(''active'', PBool (ss_lockdown s = LockedDown)), (''updated_at'', PDatetime (ss_updated_at s))]"

definition audit_response :: "audit_row \<Rightarrow> pyobj" where
  "audit_response a = PDict [(''id'', PStr (au_id a)), (''event_type'', PStr (au_event_type a)),
     (''actor_user_id'', opt_str (au_actor a)), (''session_id'', opt_str (au_session a)),
     (''device_id'', opt_str (au_device a)), (''target'', opt_str (au_target a)), (''result'', PStr (au_result a)),
     (''metadata'', PDict (au_metadata a)), (''created_at'', PDatetime (au_created_at a))]"

definition vault_response :: "vault_row \<Rightarrow> pyobj" where
  "vault_response v = PDict [(''id'', PStr (va_id v)), (''name'', PStr (va_name v)), (''credential_type'', PStr (va_type v)),
     (''revoked_at'', opt_time (va_revoked_at v)), (''created_at'', PDatetime (va_created_at v)),
     (''updated_at'', PDatetime (va_updated_at v))]"

end
