(* ===== verification/Http.thy ===== *)
theory Http
  imports Wiring Responses
begin

text \<open>
  What the HTTP routes share: the state of the application, requests and replies, the translation of
  exceptions into replies, and the checks of \<open>api/remote.py\<close> and \<open>api/auth.py\<close> that run before a service
  is called. The application's components are kept side by side; the event bus they share is the one of
  the run manager, and the tables of agents and runs are the run manager's store. The framework (FastAPI
  and Starlette) chooses the route and decodes the request.
\<close>

section \<open>The application\<close>

record app =
  app_manager :: manager
  app_approvals :: approvals
  app_sec :: sec
  app_keys :: key_store
  app_bootstrap :: "string option" \<comment> \<open>the bootstrap secret's file\<close>
  app_nodes :: nodes
  app_vision :: vision

type_synonym 'a web = "(app, 'a) stateful"

definition on_manager :: "'a op \<Rightarrow> 'a web" where
  "on_manager p a = (case p (app_manager a) of (r, m) \<Rightarrow> (r, a\<lparr>app_manager := m\<rparr>))"

definition on_sec :: "'a sop \<Rightarrow> 'a web" where
  "on_sec p a = (case p (app_sec a) of (r, s) \<Rightarrow> (r, a\<lparr>app_sec := s\<rparr>))"

definition on_bootstrap :: "'a bop \<Rightarrow> 'a web" where
  "on_bootstrap p a = (case p (app_bootstrap a, app_sec a) of (r, (f, s)) \<Rightarrow> (r, a\<lparr>app_bootstrap := f, app_sec := s\<rparr>))"

definition on_vault :: "(vault_state, 'a) stateful \<Rightarrow> 'a web" where
  "on_vault p a = (case p (app_keys a, app_sec a) of (r, (k, s)) \<Rightarrow> (r, a\<lparr>app_keys := k, app_sec := s\<rparr>))"

definition app_bus :: "app \<Rightarrow> bus" where
  "app_bus a = mg_bus (app_manager a)"

definition set_bus :: "bus \<Rightarrow> app \<Rightarrow> app" where
  "set_bus b a = a\<lparr>app_manager := (app_manager a)\<lparr>mg_bus := b\<rparr>\<rparr>"

definition on_nodes :: "'a nop \<Rightarrow> 'a web" where
  \<comment> \<open>the node service publishes on the shared bus; its own copy is not used\<close>
  "on_nodes p a = (case p (app_nodes a\<lparr>nd_bus := app_bus a\<rparr>) of
     (r, n) \<Rightarrow> (r, set_bus (nd_bus n) (a\<lparr>app_nodes := n\<lparr>nd_bus := nd_bus (app_nodes a)\<rparr>\<rparr>)))"

definition on_vision :: "'a vop \<Rightarrow> 'a web" where
  "on_vision p a = (case p (app_vision a\<lparr>vs_bus := app_bus a\<rparr>) of
     (r, v) \<Rightarrow> (r, set_bus (vs_bus v) (a\<lparr>app_vision := v\<lparr>vs_bus := vs_bus (app_vision a)\<rparr>\<rparr>)))"

definition on_approvals :: "(approvals \<Rightarrow> (exn + 'a) \<times> approvals \<times> event list) \<Rightarrow> 'a web" where
  "on_approvals p a = (case p (app_approvals a) of
     (r, x, es) \<Rightarrow> (r, set_bus (fold publish es (app_bus a)) (a\<lparr>app_approvals := x\<rparr>)))"

section \<open>Requests and replies\<close>

record web_request =
  wq_cookie :: "string option" \<comment> \<open>the session cookie\<close>
  wq_csrf :: "string option" \<comment> \<open>\<open>X-AgentGraph-CSRF\<close>\<close>
  wq_origin :: "string option"
  wq_client :: "string option" \<comment> \<open>the address of the client\<close>
  wq_secure :: bool \<comment> \<open>the scheme is \<open>https\<close>\<close>
  wq_body :: "pyobj option" \<comment> \<open>the JSON body; \<open>None\<close> when it is missing or not JSON\<close>
  wq_upload :: "(string option \<times> string option \<times> bytes) option" \<comment> \<open>file name, content type and content\<close>
  wq_world :: "nat \<Rightarrow> world" \<comment> \<open>the clock and the ids of the successive service calls\<close>
  wq_others :: "nodes \<Rightarrow> nodes" \<comment> \<open>what the other tasks do while a probe is waited for\<close>

record server =
  sv_site :: site
  sv_router :: model_router
  sv_env :: environment
  sv_fuel :: nat
  sv_pydantic :: pydantic

datatype cookie_change = KeepCookie | SetCookie string int bool | DeleteCookie

record web_reply =
  wr_status :: nat
  wr_body :: pyobj
  wr_cookie :: cookie_change

definition reply :: "nat \<Rightarrow> pyobj \<Rightarrow> web_reply" where
  "reply n v = \<lparr>wr_status = n, wr_body = v, wr_cookie = KeepCookie\<rparr>"

definition error_detail :: "string \<Rightarrow> string \<Rightarrow> pyobj" where
  "error_detail code message = PDict [(''error'', PDict [(''code'', PStr code), (''message'', PStr message), (''details'', PDict [])])]"

definition http_error :: "nat \<Rightarrow> string \<Rightarrow> string \<Rightarrow> exn" where
  "http_error n code message = HttpException n (error_detail code message)"

definition plain_error :: "nat \<Rightarrow> string \<Rightarrow> exn" where
  "plain_error n message = HttpException n (PStr message)"

definition has_error_key :: "pyobj \<Rightarrow> bool" where
  "has_error_key v = (case v of PDict d \<Rightarrow> map_of d ''error'' \<noteq> None | _ \<Rightarrow> False)"

definition reply_of_exn :: "exn \<Rightarrow> web_reply" where
  \<comment> \<open>\<open>http_exception_handler\<close>, and the framework's answers to the other exceptions\<close>
  "reply_of_exn e = (case e of
     HttpException n detail \<Rightarrow> reply n (if has_error_key detail then detail else PDict [(''detail'', detail)])
   | RequestValidationError \<Rightarrow> reply 422 (POther ''validation errors'')
   | _ \<Rightarrow> reply 500 (PStr ''Internal Server Error''))"

definition read_body :: "web_request \<Rightarrow> (pyobj \<Rightarrow> exn + 'a) \<Rightarrow> 'a web" where
  "read_body q f = op_lift (ebind (accept (wq_body q)) f)"

definition read_uuid_param :: "server \<Rightarrow> string \<Rightarrow> uuid web" where
  \<comment> \<open>a path or query parameter of type \<open>UUID\<close>\<close>
  "read_uuid_param sv s = op_lift (read_uuid (sv_pydantic sv) (PStr s))"

section \<open>Who asks\<close>

definition forbidden :: "exn \<Rightarrow> exn" where
  "forbidden e = (case e of AuthorizationError m \<Rightarrow> http_error 403 ''FORBIDDEN'' m | _ \<Rightarrow> e)"

definition web_principal :: "principal option \<Rightarrow> permission \<Rightarrow> principal web" where
  \<comment> \<open>\<open>_principal\<close> of \<open>api/remote.py\<close>, and \<open>_authorize\<close> of the other routers\<close>
  "web_principal p perm = op_catch forbidden (op_lift (ebind (request_principal p) (\<lambda>x. ebind (require x perm) (\<lambda>_. Inr x))))"

definition unauthorized :: "exn \<Rightarrow> exn" where
  "unauthorized e = (case e of AuthenticationError m \<Rightarrow> plain_error 401 m | _ \<Rightarrow> e)"

definition csrf_refused :: "exn \<Rightarrow> exn" where
  "csrf_refused e = (case e of AuthenticationError m \<Rightarrow> plain_error 403 m | _ \<Rightarrow> e)"

definition session_principal_of :: "server \<Rightarrow> web_request \<Rightarrow> nat \<Rightarrow> session_principal web" where
  \<comment> \<open>the number says which of the request's worlds is read\<close>
  "session_principal_of sv q n = on_sec (principal_from_session_token (auth_config_of (sv_site sv))
     (si_auth_host (sv_site sv)) (wq_world q n) (wq_cookie q))"

definition auth_session :: "server \<Rightarrow> web_request \<Rightarrow> session_principal web" where
  \<comment> \<open>\<open>_principal\<close> of \<open>api/auth.py\<close>\<close>
  "auth_session sv q = op_catch unauthorized (session_principal_of sv q 1)"

definition csrf_check :: "server \<Rightarrow> web_request \<Rightarrow> session_principal \<Rightarrow> unit web" where
  "csrf_check sv q p = op_lift (require_csrf (auth_config_of (sv_site sv)) p (wq_csrf q) (wq_origin q))"

definition auth_csrf :: "server \<Rightarrow> web_request \<Rightarrow> session_principal \<Rightarrow> unit web" where
  \<comment> \<open>\<open>_csrf\<close> of \<open>api/auth.py\<close>\<close>
  "auth_csrf sv q p = op_catch csrf_refused (csrf_check sv q p)"

definition mutation_principal :: "server \<Rightarrow> web_request \<Rightarrow> session_principal web" where
  "mutation_principal sv q = op_bind (auth_session sv q) (\<lambda>p. op_bind (auth_csrf sv q p) (\<lambda>_. op_return p))"

section \<open>Operations that leave the application as it is\<close>

definition reads_only :: "('s, 'a) stateful \<Rightarrow> bool" where
  "reads_only p \<longleftrightarrow> (\<forall>s. snd (p s) = s)"

named_theorems reads_intros \<open>operations that leave the state as it is\<close>

lemma reads_onlyD: "reads_only p \<Longrightarrow> snd (p s) = s"
  by (simp add: reads_only_def)

lemma reads_lift [reads_intros]: "reads_only (op_lift x)"
  by (simp add: reads_only_def op_lift_def)

lemma reads_return [reads_intros]: "reads_only (op_return x)"
  by (simp add: reads_only_def op_return_def)

lemma reads_raise [reads_intros]: "reads_only (op_raise e)"
  by (simp add: reads_only_def op_raise_def)

lemma reads_bind [reads_intros]: "reads_only p \<Longrightarrow> (\<And>x. reads_only (f x)) \<Longrightarrow> reads_only (op_bind p f)"
  by (simp add: reads_only_def op_bind_snd split: sum.split)

lemma reads_map [reads_intros]: "reads_only p \<Longrightarrow> reads_only (op_map f p)"
  unfolding op_map_def by (intro reads_intros)

lemma reads_catch [reads_intros]: "reads_only p \<Longrightarrow> reads_only (op_catch f p)"
  by (auto simp: reads_only_def op_catch_def split: prod.split sum.split) (metis snd_conv)+

lemma reads_query [reads_intros]: "reads_only (query f)"
  by (simp add: reads_only_def query_def)

lemma reads_sec_query [reads_intros]: "reads_only (sec_query f)"
  by (simp add: reads_only_def sec_query_def)

lemma reads_manager [reads_intros]: "reads_only p \<Longrightarrow> reads_only (on_manager p)"
  by (auto simp: reads_only_def on_manager_def split: prod.split) (metis app.surjective app.update_convs(1) snd_conv)

lemma reads_sec [reads_intros]: "reads_only p \<Longrightarrow> reads_only (on_sec p)"
  by (auto simp: reads_only_def on_sec_def split: prod.split) (metis app.surjective app.update_convs(3) snd_conv)

lemma reads_web_principal [reads_intros]: "reads_only (web_principal p perm)"
  unfolding web_principal_def by (intro reads_intros)

lemma reads_session [reads_intros]: "reads_only (session_principal_of sv q n)"
  unfolding session_principal_of_def principal_from_session_token_def by (intro reads_intros)

lemma reads_mutation_principal [reads_intros]: "reads_only (mutation_principal sv q)"
  unfolding mutation_principal_def auth_session_def auth_csrf_def csrf_check_def by (intro reads_intros)

end
