(* ===== verification/Http_Remote.thy ===== *)
theory Http_Remote
  imports Http
begin

text \<open>
  The routers of \<open>api/remote.py\<close>, \<open>api/nodes.py\<close>, \<open>api/recovery.py\<close>, \<open>api/memory.py\<close>, \<open>api/lexi.py\<close> and
  \<open>api/tools.py\<close>. Every route first validates its parameters and its body, then asks for the principal the
  middleware has set for the request and the permission of the route, and only then calls a service.
  The approvals' identifiers, the clock and the session checks read the worlds of the request.
\<close>

section \<open>Runs, agents, approvals and events\<close>

datatype remote_endpoint =
    GetSystem | GetHealth | GetProjects | GetProject string | GetAgents | PostAgent | GetAgent string
  | PatchGraph string | GetAgentRuns string | GetRun string | PostRun string | GetRunTree string | PostStop string
  | GetProviders | GetEvents "string option" | PostApproval | GetApprovals | PostApprove string | PostReject string

definition project_of :: "server \<Rightarrow> string" where
  "project_of sv = se_project_id (si_settings (sv_site sv))"

definition run_command :: "server \<Rightarrow> web_request \<Rightarrow> command_type \<Rightarrow> principal \<Rightarrow> string option \<Rightarrow> pydict \<Rightarrow> pyobj web" where
  \<comment> \<open>\<open>_command\<close>, \<open>dispatch\<close> and \<open>from_domain\<close>\<close>
  "run_command sv q ty p target payload =
     op_map command_response (on_manager (dispatch (manager_config (sv_site sv)) (sv_env sv) (sv_fuel sv) (sv_router sv)
       (si_str (sv_site sv)) \<lparr>rc_id = ''cmd_'' @ uuid_hex (w_uuid4 (wq_world q 2) 0), rc_type = ty, rc_principal = p,
         rc_target_id = target, rc_payload = payload\<rparr>))"

definition orchestration_http :: "exn \<Rightarrow> exn" where
  "orchestration_http e = (case e of OrchestrationError code m \<Rightarrow> http_error 422 code m | _ \<Rightarrow> e)"

definition agent_missing :: "exn \<Rightarrow> exn" where
  "agent_missing e = (case e of AgentNotFoundError \<Rightarrow> http_error 404 ''AGENT_NOT_FOUND'' ''Agent was not found''
     | ValueError _ \<Rightarrow> http_error 404 ''AGENT_NOT_FOUND'' ''Agent was not found'' | _ \<Rightarrow> e)"

definition run_missing :: "exn \<Rightarrow> exn" where
  "run_missing e = (case e of RunNotFoundError \<Rightarrow> http_error 404 ''RUN_NOT_FOUND'' ''Run was not found''
     | ValueError _ \<Rightarrow> http_error 404 ''RUN_NOT_FOUND'' ''Run was not found'' | _ \<Rightarrow> e)"

definition run_conflict :: "exn \<Rightarrow> exn" where
  "run_conflict e = (case e of LifecycleConflictError m \<Rightarrow> http_error 409 ''RUN_CONFLICT'' m | _ \<Rightarrow> e)"

definition approval_conflict :: "exn \<Rightarrow> exn" where
  "approval_conflict e = (case e of KeyError _ \<Rightarrow> http_error 404 ''APPROVAL_NOT_FOUND'' ''Approval was not found''
     | LifecycleConflictError m \<Rightarrow> http_error 409 ''APPROVAL_CONFLICT'' m | _ \<Rightarrow> e)"

definition approval_json :: "approval \<Rightarrow> pyobj" where
  "approval_json a = PDict [(''approval_id'', PStr (apv_id a)), (''project_id'', PStr (apv_project_id a)),
     (''run_id'', opt_str (apv_run_id a)), (''task_id'', opt_str (apv_task_id a)), (''action'', PStr (apv_action a)),
     (''description'', PStr (apv_description a)), (''risk'', opt_str (apv_risk a)),
     (''status'', PStr (approval_status_value (apv_status a))), (''created_at'', PStr (isoformat (apv_created_at a)))]"

definition new_approval :: "server \<Rightarrow> web_request \<Rightarrow> principal \<Rightarrow> approval_payload \<Rightarrow> pyobj web" where
  "new_approval sv q p d = op_map approval_json (on_approvals (\<lambda>s.
     case approval_create (wq_world q 2) (project_of sv) (py_action d) (py_description d) (pr_identity p)
       (py_run_id d) (py_task_id d) None s of (a, s, es) \<Rightarrow> (Inr a, s, es)))"

definition approval_decision_route :: "web_request \<Rightarrow> string \<Rightarrow> bool \<Rightarrow> pyobj web" where
  "approval_decision_route q i approved =
     op_catch approval_conflict (op_map approval_json (on_approvals (decide (wq_world q 2) i approved)))"

definition pending_approvals :: "server \<Rightarrow> pyobj web" where
  "pending_approvals sv a = (Inr (PList (map approval_json (list_pending (Some (project_of sv)) (app_approvals a)))), a)"

definition event_history :: "string option \<Rightarrow> pyobj web" where
  "event_history run a = (ebind (emap event_json (history_of run (app_bus a))) (\<lambda>es. Inr (PList (map PDict es))), a)"

definition project_json :: "string \<Rightarrow> pyobj" where
  "project_json i = PDict [(''project_id'', PStr i), (''name'', PStr ''Local project'')]"

definition system_handler :: "server \<Rightarrow> web_request \<Rightarrow> principal option \<Rightarrow> web_reply web" where
  "system_handler sv q p = op_bind (web_principal p READ) (\<lambda>_. op_return (reply 200
     (PDict [(''project_id'', PStr (project_of sv)), (''remote_control'', PBool True)])))"

definition health_handler :: "server \<Rightarrow> web_request \<Rightarrow> principal option \<Rightarrow> web_reply web" where
  "health_handler sv q p = op_return (reply 200 (PDict [(''status'', PStr ''ok'')]))"

definition list_projects_handler :: "server \<Rightarrow> web_request \<Rightarrow> principal option \<Rightarrow> web_reply web" where
  "list_projects_handler sv q p = op_bind (web_principal p READ) (\<lambda>_. op_return (reply 200 (PList [project_json (project_of sv)])))"

definition get_project_handler :: "server \<Rightarrow> web_request \<Rightarrow> principal option \<Rightarrow> string \<Rightarrow> web_reply web" where
  "get_project_handler sv q p i = op_bind (web_principal p READ) (\<lambda>_.
     if i \<noteq> project_of sv then op_raise (http_error 404 ''PROJECT_NOT_FOUND'' ''Project was not found'')
     else op_return (reply 200 (project_json i)))"

definition agents_handler :: "server \<Rightarrow> web_request \<Rightarrow> principal option \<Rightarrow> web_reply web" where
  "agents_handler sv q p = op_bind (web_principal p READ) (\<lambda>pr. op_map (reply 200) (run_command sv q LIST_AGENTS pr None []))"

definition create_agent_handler :: "server \<Rightarrow> web_request \<Rightarrow> principal option \<Rightarrow> web_reply web" where
  "create_agent_handler sv q p = op_bind (read_body q (read_create_agent (sv_pydantic sv))) (\<lambda>d.
     op_bind (web_principal p EXECUTE) (\<lambda>pr. op_map (reply 201) (op_catch orchestration_http
       (run_command sv q CREATE_AGENT pr None [(''name'', PStr (ca_name d)), (''description'', opt_str (ca_description d)),
          (''model_ref'', PStr (ca_model_ref d)), (''graph_definition'', PDict (dump_graph (ca_graph d)))]))))"

definition get_agent_handler :: "server \<Rightarrow> web_request \<Rightarrow> principal option \<Rightarrow> string \<Rightarrow> web_reply web" where
  "get_agent_handler sv q p i = op_bind (web_principal p READ) (\<lambda>pr. op_map (reply 200)
     (op_catch (orchestration_http \<circ> agent_missing) (run_command sv q GET_AGENT pr (Some i) [])))"

definition update_agent_graph_handler :: "server \<Rightarrow> web_request \<Rightarrow> principal option \<Rightarrow> string \<Rightarrow> web_reply web" where
  "update_agent_graph_handler sv q p i = op_bind (read_body q (read_update_graph (sv_pydantic sv))) (\<lambda>g.
     op_bind (web_principal p EXECUTE) (\<lambda>pr. op_map (reply 200) (op_catch (orchestration_http \<circ> agent_missing)
       (run_command sv q UPDATE_AGENT_GRAPH pr (Some i) [(''graph_definition'', PDict (dump_graph g))]))))"

definition list_agent_runs_handler :: "server \<Rightarrow> web_request \<Rightarrow> principal option \<Rightarrow> string \<Rightarrow> web_reply web" where
  "list_agent_runs_handler sv q p i = op_bind (web_principal p READ) (\<lambda>pr. op_map (reply 200)
     (op_catch agent_missing (run_command sv q LIST_RUNS pr (Some i) [])))"

definition get_run_handler :: "server \<Rightarrow> web_request \<Rightarrow> principal option \<Rightarrow> string \<Rightarrow> web_reply web" where
  "get_run_handler sv q p i = op_bind (web_principal p READ) (\<lambda>pr. op_map (reply 200)
     (op_catch run_missing (run_command sv q Remote.GET_RUN pr (Some i) [])))"

definition start_run_handler :: "server \<Rightarrow> web_request \<Rightarrow> principal option \<Rightarrow> string \<Rightarrow> web_reply web" where
  "start_run_handler sv q p i = op_bind (read_body q read_start_run) (\<lambda>input.
     op_bind (web_principal p EXECUTE) (\<lambda>pr. op_map (reply 202)
       (op_catch (orchestration_http \<circ> run_conflict \<circ> agent_missing)
         (run_command sv q START_RUN pr (Some i) [(''input_text'', PStr input)]))))"

definition get_run_tree_handler :: "server \<Rightarrow> web_request \<Rightarrow> principal option \<Rightarrow> string \<Rightarrow> web_reply web" where
  "get_run_tree_handler sv q p i = op_bind (web_principal p READ) (\<lambda>pr. op_map (reply 200)
     (op_catch run_missing (run_command sv q GET_RUN_TREE pr (Some i) [])))"

definition stop_run_handler :: "server \<Rightarrow> web_request \<Rightarrow> principal option \<Rightarrow> string \<Rightarrow> web_reply web" where
  "stop_run_handler sv q p i = op_bind (web_principal p CONTROL) (\<lambda>pr. op_map (reply 200)
     (op_catch (run_conflict \<circ> run_missing) (run_command sv q STOP_RUN pr (Some i) [])))"

definition providers_handler :: "server \<Rightarrow> web_request \<Rightarrow> principal option \<Rightarrow> web_reply web" where
  "providers_handler sv q p = op_bind (web_principal p READ) (\<lambda>pr. op_map (reply 200) (run_command sv q LIST_PROVIDERS pr None []))"

definition events_handler :: "server \<Rightarrow> web_request \<Rightarrow> principal option \<Rightarrow> string option \<Rightarrow> web_reply web" where
  "events_handler sv q p run = op_bind (web_principal p READ) (\<lambda>_. op_map (reply 200) (event_history run))"

definition create_approval_handler :: "server \<Rightarrow> web_request \<Rightarrow> principal option \<Rightarrow> web_reply web" where
  "create_approval_handler sv q p = op_bind (read_body q read_approval_payload) (\<lambda>d.
     op_bind (web_principal p APPROVE) (\<lambda>pr. op_map (reply 200) (new_approval sv q pr d)))"

definition approvals_handler :: "server \<Rightarrow> web_request \<Rightarrow> principal option \<Rightarrow> web_reply web" where
  "approvals_handler sv q p = op_bind (web_principal p READ) (\<lambda>_. op_map (reply 200) (pending_approvals sv))"

definition approve_handler :: "server \<Rightarrow> web_request \<Rightarrow> principal option \<Rightarrow> string \<Rightarrow> web_reply web" where
  "approve_handler sv q p i = op_bind (web_principal p APPROVE) (\<lambda>_. op_map (reply 200) (approval_decision_route q i True))"

definition reject_handler :: "server \<Rightarrow> web_request \<Rightarrow> principal option \<Rightarrow> string \<Rightarrow> web_reply web" where
  "reject_handler sv q p i = op_bind (web_principal p APPROVE) (\<lambda>_. op_map (reply 200) (approval_decision_route q i False))"

lemmas remote_handlers = system_handler_def health_handler_def list_projects_handler_def get_project_handler_def
  agents_handler_def create_agent_handler_def get_agent_handler_def update_agent_graph_handler_def
  list_agent_runs_handler_def get_run_handler_def start_run_handler_def get_run_tree_handler_def
  stop_run_handler_def providers_handler_def events_handler_def create_approval_handler_def
  approvals_handler_def approve_handler_def reject_handler_def

declare remote_handlers [simp]

fun remote_route :: "server \<Rightarrow> web_request \<Rightarrow> principal option \<Rightarrow> remote_endpoint \<Rightarrow> web_reply web" where
  "remote_route sv q p GetSystem = system_handler sv q p"
| "remote_route sv q p GetHealth = health_handler sv q p"
| "remote_route sv q p GetProjects = list_projects_handler sv q p"
| "remote_route sv q p (GetProject i) = get_project_handler sv q p i"
| "remote_route sv q p GetAgents = agents_handler sv q p"
| "remote_route sv q p PostAgent = create_agent_handler sv q p"
| "remote_route sv q p (GetAgent i) = get_agent_handler sv q p i"
| "remote_route sv q p (PatchGraph i) = update_agent_graph_handler sv q p i"
| "remote_route sv q p (GetAgentRuns i) = list_agent_runs_handler sv q p i"
| "remote_route sv q p (GetRun i) = get_run_handler sv q p i"
| "remote_route sv q p (PostRun i) = start_run_handler sv q p i"
| "remote_route sv q p (GetRunTree i) = get_run_tree_handler sv q p i"
| "remote_route sv q p (PostStop i) = stop_run_handler sv q p i"
| "remote_route sv q p GetProviders = providers_handler sv q p"
| "remote_route sv q p (GetEvents run) = events_handler sv q p run"
| "remote_route sv q p PostApproval = create_approval_handler sv q p"
| "remote_route sv q p GetApprovals = approvals_handler sv q p"
| "remote_route sv q p (PostApprove i) = approve_handler sv q p i"
| "remote_route sv q p (PostReject i) = reject_handler sv q p i"

section \<open>The event socket\<close>

definition open_event_socket :: "server \<Rightarrow> web_request \<Rightarrow> nat \<Rightarrow> bool web" where
  \<comment> \<open>whether the socket is accepted; a refused one is closed with code 1008. The number names the subscriber\<close>
  "open_event_socket sv q n a =
     (case op_bind (session_principal_of sv q 0) (\<lambda>sp. op_lift (require
         \<lparr>pr_identity = sp_user_id sp, pr_permissions = sp_permissions sp\<rparr> READ)) a of
        (Inl (AuthenticationError _), a) \<Rightarrow> (Inr False, a)
      | (Inl (AuthorizationError _), a) \<Rightarrow> (Inr False, a)
      | (Inl e, a) \<Rightarrow> (Inl e, a)
      | (Inr _, a) \<Rightarrow> (Inr True, set_bus (subscribe n (app_bus a)) a))"

definition event_socket_next :: "nat \<Rightarrow> string option \<Rightarrow> pydict option web" where
  \<comment> \<open>one turn of the loop: the event sent, or \<open>None\<close> while there is none to send\<close>
  "event_socket_next n run a = (case receive n run (app_bus a) of (e, b) \<Rightarrow>
     ((case e of None \<Rightarrow> Inr None | Some e \<Rightarrow> ebind (event_json e) (\<lambda>d. Inr (Some d))), set_bus b a))"

definition close_event_socket :: "nat \<Rightarrow> app \<Rightarrow> app" where
  "close_event_socket n a = set_bus (unsubscribe n (app_bus a)) a"

section \<open>Nodes\<close>

datatype node_endpoint = GetNodes | GetNode string | PostEnable string | PostDisable string | PostProbe string

fun node_error :: "exn \<Rightarrow> (string \<times> string) option" where
  \<comment> \<open>the code and the text of a \<open>NodeError\<close>\<close>
  "node_error (NodeError m) = Some (''NODE_ERROR'', m)"
| "node_error (NodeNotFoundError m) = Some (''NODE_NOT_FOUND'', m)"
| "node_error (NodeDisabledError m) = Some (''NODE_DISABLED'', m)"
| "node_error (NodeUnavailableError m) = Some (''NODE_UNAVAILABLE'', m)"
| "node_error (NodeControlError m) = Some (''NODE_CONTROL_FORBIDDEN'', m)"
| "node_error (NodeTaskTimeoutError m) = Some (''WORKER_TIMEOUT'', m)"
| "node_error (NodeTaskDisconnectedError m) = Some (''WORKER_DISCONNECTED'', m)"
| "node_error (NodeTaskDuplicateError m) = Some (''TASK_DUPLICATE'', m)"
| "node_error _ = None"

definition node_http :: "exn \<Rightarrow> exn" where
  \<comment> \<open>\<open>_node_response\<close>\<close>
  "node_http e = (case node_error e of
     Some (code, m) \<Rightarrow> http_error (if code = ''NODE_NOT_FOUND'' then 404 else 409) code m | None \<Rightarrow> e)"

definition list_nodes_handler :: "server \<Rightarrow> web_request \<Rightarrow> principal option \<Rightarrow> web_reply web" where
  "list_nodes_handler sv q p = op_bind (web_principal p READ) (\<lambda>_. op_map (\<lambda>ns. reply 200 (PList (map node_response ns)))
     (on_nodes (list_nodes (node_config_of (sv_site sv)) (wq_world q 2))))"

definition get_node_handler :: "server \<Rightarrow> web_request \<Rightarrow> principal option \<Rightarrow> string \<Rightarrow> web_reply web" where
  "get_node_handler sv q p i = op_bind (web_principal p READ) (\<lambda>_. op_map (\<lambda>n. reply 200 (node_response n))
     (op_catch node_http (on_nodes (get_node (node_config_of (sv_site sv)) (wq_world q 2) i))))"

definition enable_node_handler :: "server \<Rightarrow> web_request \<Rightarrow> principal option \<Rightarrow> string \<Rightarrow> web_reply web" where
  "enable_node_handler sv q p i = op_bind (web_principal p CONTROL) (\<lambda>_. op_map (\<lambda>n. reply 200 (node_response n))
     (op_catch node_http (on_nodes (set_enabled (node_config_of (sv_site sv)) (wq_world q 2) i True))))"

definition disable_node_handler :: "server \<Rightarrow> web_request \<Rightarrow> principal option \<Rightarrow> string \<Rightarrow> web_reply web" where
  "disable_node_handler sv q p i = op_bind (web_principal p CONTROL) (\<lambda>_. op_map (\<lambda>n. reply 200 (node_response n))
     (op_catch node_http (on_nodes (set_enabled (node_config_of (sv_site sv)) (wq_world q 2) i False))))"

definition probe_node_handler :: "server \<Rightarrow> web_request \<Rightarrow> principal option \<Rightarrow> string \<Rightarrow> web_reply web" where
  "probe_node_handler sv q p i = op_bind (web_principal p EXECUTE) (\<lambda>_. op_map (\<lambda>r. reply 200 (probe_response r))
     (op_catch node_http (on_nodes (probe (node_config_of (sv_site sv)) (wq_world q 2) (wq_world q 3) (wq_world q 4)
        (wq_others q) i None None))))"

lemmas node_handlers = list_nodes_handler_def get_node_handler_def enable_node_handler_def disable_node_handler_def
  probe_node_handler_def

declare node_handlers [simp]

fun node_route :: "server \<Rightarrow> web_request \<Rightarrow> principal option \<Rightarrow> node_endpoint \<Rightarrow> web_reply web" where
  "node_route sv q p GetNodes = list_nodes_handler sv q p"
| "node_route sv q p (GetNode i) = get_node_handler sv q p i"
| "node_route sv q p (PostEnable i) = enable_node_handler sv q p i"
| "node_route sv q p (PostDisable i) = disable_node_handler sv q p i"
| "node_route sv q p (PostProbe i) = probe_node_handler sv q p i"

section \<open>Recovery reports and tool invocations\<close>

definition plain_run_missing :: "exn \<Rightarrow> exn" where
  "plain_run_missing e = (case e of RunNotFoundError \<Rightarrow> http_error 404 ''RUN_NOT_FOUND'' ''Run was not found'' | _ \<Rightarrow> e)"

definition recovery_route :: "server \<Rightarrow> web_request \<Rightarrow> principal option \<Rightarrow> string \<Rightarrow> web_reply web" where
  "recovery_route sv q p s = op_bind (read_uuid_param sv s) (\<lambda>i. op_bind (web_principal p READ) (\<lambda>_.
     op_map (reply 200) (op_catch plain_run_missing (on_manager (get_recovery_report (manager_config (sv_site sv)) i)))))"

definition tool_view :: "app \<Rightarrow> tool_state" where
  "tool_view a = \<lparr>ts_store = mg_store (app_manager a), ts_approvals = app_approvals a, ts_events = [], ts_launched = []\<rparr>"

definition tools_route :: "server \<Rightarrow> web_request \<Rightarrow> principal option \<Rightarrow> string \<Rightarrow> web_reply web" where
  "tools_route sv q p s = op_bind (read_uuid_param sv s) (\<lambda>i. op_bind (web_principal p READ) (\<lambda>_.
     op_bind (op_catch plain_run_missing (on_manager (get_run i))) (\<lambda>_.
     with_state (\<lambda>a. op_return (reply 200 (PList (list_run_invocations i (tool_view a))))))))"

section \<open>Memory\<close>

datatype memory_endpoint =
    GetMemory "string option" | PostMemory | PostSearch | DeleteMemory string "string option" | GetUsage string

definition memory_http :: "exn \<Rightarrow> exn" where
  "memory_http e = (case e of MemoryError code m \<Rightarrow> http_error (if code = ''memory_not_found'' then 404 else 400) code m | _ \<Rightarrow> e)"

definition plain_agent_missing :: "exn \<Rightarrow> exn" where
  "plain_agent_missing e = (case e of AgentNotFoundError \<Rightarrow> http_error 404 ''AGENT_NOT_FOUND'' ''Agent was not found'' | _ \<Rightarrow> e)"

definition required_param :: "server \<Rightarrow> string option \<Rightarrow> uuid web" where
  "required_param sv s = op_bind (op_lift (accept s)) (read_uuid_param sv)"

definition list_memory_handler :: "server \<Rightarrow> web_request \<Rightarrow> principal option \<Rightarrow> string option \<Rightarrow> web_reply web" where
  "list_memory_handler sv q p s = op_bind (required_param sv s) (\<lambda>a. op_bind (web_principal p READ) (\<lambda>_.
     op_map (\<lambda>ms. reply 200 (PList (map memory_response ms))) (op_catch memory_http
       (on_manager (query (list_records (memory_config_of (si_settings (sv_site sv))) (project_of sv) a))))))"

definition create_memory_handler :: "server \<Rightarrow> web_request \<Rightarrow> principal option \<Rightarrow> web_reply web" where
  "create_memory_handler sv q p = op_bind (read_body q (read_create_memory (sv_pydantic sv))) (\<lambda>d.
     op_bind (web_principal p EXECUTE) (\<lambda>_. op_map (\<lambda>m. reply 201 (memory_response m))
       (op_catch (memory_http \<circ> plain_agent_missing) (op_bind (on_manager (get_agent (cq_agent_id d))) (\<lambda>_.
         on_manager (transact (create_memory (memory_config_of (si_settings (sv_site sv))) (wq_world q 2) (project_of sv)
           (cq_agent_id d) (cq_kind d) (cq_content d) (cq_tags d))))))))"

definition search_memory_handler :: "server \<Rightarrow> web_request \<Rightarrow> principal option \<Rightarrow> web_reply web" where
  "search_memory_handler sv q p = op_bind (read_body q (read_memory_search (sv_pydantic sv))) (\<lambda>(a, text).
     op_bind (web_principal p READ) (\<lambda>_. op_map (\<lambda>ms. reply 200 (PList (map match_response ms))) (op_catch memory_http
       (on_manager (query (search (memory_config_of (si_settings (sv_site sv))) (project_of sv) a text))))))"

definition delete_memory_handler :: "server \<Rightarrow> web_request \<Rightarrow> principal option \<Rightarrow> string \<Rightarrow> string option \<Rightarrow> web_reply web" where
  "delete_memory_handler sv q p s t = op_bind (read_uuid_param sv s) (\<lambda>i. op_bind (required_param sv t) (\<lambda>a.
     op_bind (web_principal p CONTROL) (\<lambda>_. op_map (\<lambda>_. reply 204 PNone) (op_catch memory_http
       (on_manager (transact (\<lambda>st. ebind (delete_memory (memory_config_of (si_settings (sv_site sv))) (wq_world q 2)
          (project_of sv) a i st) (\<lambda>st. Inr ((), st)))))))))"

definition run_memory_usage_handler :: "server \<Rightarrow> web_request \<Rightarrow> principal option \<Rightarrow> string \<Rightarrow> web_reply web" where
  "run_memory_usage_handler sv q p s = op_bind (read_uuid_param sv s) (\<lambda>i. op_bind (web_principal p READ) (\<lambda>_.
     op_map (\<lambda>us. reply 200 (PList us)) (op_catch (memory_http \<circ> plain_run_missing) (op_bind (on_manager (get_run i)) (\<lambda>_.
       on_manager (query (list_run_usage (memory_config_of (si_settings (sv_site sv))) i)))))))"

lemmas memory_handlers = list_memory_handler_def create_memory_handler_def search_memory_handler_def
  delete_memory_handler_def run_memory_usage_handler_def

declare memory_handlers [simp]

fun memory_route :: "server \<Rightarrow> web_request \<Rightarrow> principal option \<Rightarrow> memory_endpoint \<Rightarrow> web_reply web" where
  "memory_route sv q p (GetMemory s) = list_memory_handler sv q p s"
| "memory_route sv q p PostMemory = create_memory_handler sv q p"
| "memory_route sv q p PostSearch = search_memory_handler sv q p"
| "memory_route sv q p (DeleteMemory s t) = delete_memory_handler sv q p s t"
| "memory_route sv q p (GetUsage s) = run_memory_usage_handler sv q p s"

section \<open>The assistant\<close>

datatype lexi_endpoint = GetLexi | PostLexi

definition get_lexi_handler :: "server \<Rightarrow> web_request \<Rightarrow> principal option \<Rightarrow> web_reply web" where
  "get_lexi_handler sv q p = op_bind (web_principal p READ) (\<lambda>_. op_map (\<lambda>a. reply 200 (lexi_response a)) (on_manager get_installed))"

definition bootstrap_lexi_handler :: "server \<Rightarrow> web_request \<Rightarrow> principal option \<Rightarrow> web_reply web" where
  "bootstrap_lexi_handler sv q p = op_bind (web_principal p EXECUTE) (\<lambda>_. op_map (\<lambda>a. reply 201 (lexi_response (Some a)))
     (on_manager (ensure_installed (manager_config (sv_site sv)) (wq_world q 2))))"

lemmas lexi_handlers = get_lexi_handler_def bootstrap_lexi_handler_def

declare lexi_handlers [simp]

fun lexi_route :: "server \<Rightarrow> web_request \<Rightarrow> principal option \<Rightarrow> lexi_endpoint \<Rightarrow> web_reply web" where
  "lexi_route sv q p GetLexi = get_lexi_handler sv q p"
| "lexi_route sv q p PostLexi = bootstrap_lexi_handler sv q p"

end
