(* ===== verification/Http_Vision.thy ===== *)
theory Http_Vision
  imports Http
begin

text \<open>The router of \<open>api/vision.py\<close>.\<close>

datatype vision_endpoint =
    PostAsset | GetAssets | GetAsset string | DeleteAsset string | PostAnalysis string | GetAnalyses
  | GetAnalysis string | GetFolders | PostFolder | PostScan string

definition vision_http :: "exn \<Rightarrow> exn" where
  \<comment> \<open>\<open>_vision_http_error\<close>\<close>
  "vision_http e = (case e of
     VisionError code m \<Rightarrow> http_error (if suffix ''not_found'' code then 404
       else if code = ''vision_folder_forbidden'' then 403 else 400) code m
   | _ \<Rightarrow> e)"

definition vision_of :: "server \<Rightarrow> vision_config" where
  "vision_of sv = vision_config_of (si_settings (sv_site sv))"

definition read_upload :: "server \<Rightarrow> web_request \<Rightarrow> (string option \<times> string option \<times> bytes) web" where
  \<comment> \<open>the uploaded file and its first \<open>vision_max_file_size_bytes + 1\<close> bytes\<close>
  "read_upload sv q = op_lift (ebind (accept (wq_upload q)) (\<lambda>(name, ty, content).
     Inr (name, ty, take (nat (se_vision_max_file_size_bytes (si_settings (sv_site sv)) + 1)) content)))"

definition upload_asset_handler :: "server \<Rightarrow> web_request \<Rightarrow> principal option \<Rightarrow> web_reply web" where
  "upload_asset_handler sv q p = op_bind (read_upload sv q) (\<lambda>(name, ty, content). op_bind (web_principal p EXECUTE) (\<lambda>_.
     op_map (\<lambda>r. reply 201 (asset_response r)) (op_catch vision_http (on_vision
       (create_asset (vision_of sv) (si_vision_host (sv_site sv)) (wq_world q 2) (nonempty_or name ''image'') ty content ''upload'')))))"

definition list_assets_handler :: "server \<Rightarrow> web_request \<Rightarrow> principal option \<Rightarrow> web_reply web" where
  "list_assets_handler sv q p = op_bind (web_principal p READ) (\<lambda>_. op_map (\<lambda>rs. reply 200 (PList (map asset_response rs)))
     (op_catch vision_http (on_vision (list_assets (vision_of sv)))))"

definition get_asset_handler :: "server \<Rightarrow> web_request \<Rightarrow> principal option \<Rightarrow> string \<Rightarrow> web_reply web" where
  "get_asset_handler sv q p s = op_bind (read_uuid_param sv s) (\<lambda>i. op_bind (web_principal p READ) (\<lambda>_.
     op_map (\<lambda>r. reply 200 (asset_response r)) (op_catch vision_http (on_vision (get_asset (vision_of sv) (uuid_str i))))))"

definition delete_asset_handler :: "server \<Rightarrow> web_request \<Rightarrow> principal option \<Rightarrow> string \<Rightarrow> web_reply web" where
  "delete_asset_handler sv q p s = op_bind (read_uuid_param sv s) (\<lambda>i. op_bind (web_principal p CONTROL) (\<lambda>_.
     op_map (\<lambda>_. reply 204 PNone) (op_catch vision_http (on_vision (delete_asset (vision_of sv) (uuid_str i))))))"

definition create_analysis_handler :: "server \<Rightarrow> web_request \<Rightarrow> principal option \<Rightarrow> string \<Rightarrow> web_reply web" where
  "create_analysis_handler sv q p s = op_bind (read_uuid_param sv s) (\<lambda>i. op_bind (read_body q read_analysis_request) (\<lambda>(mode, prompt, model).
     op_bind (web_principal p EXECUTE) (\<lambda>_. op_map (\<lambda>r. reply 202 (analysis_response r)) (op_catch vision_http
       (on_vision (submit_analysis (vision_of sv) (wq_world q 2) (uuid_str i) mode prompt model))))))"

definition list_analyses_handler :: "server \<Rightarrow> web_request \<Rightarrow> principal option \<Rightarrow> web_reply web" where
  "list_analyses_handler sv q p = op_bind (web_principal p READ) (\<lambda>_. op_map (\<lambda>rs. reply 200 (PList (map analysis_response rs)))
     (op_catch vision_http (on_vision (list_analyses (vision_of sv)))))"

definition get_analysis_handler :: "server \<Rightarrow> web_request \<Rightarrow> principal option \<Rightarrow> string \<Rightarrow> web_reply web" where
  "get_analysis_handler sv q p s = op_bind (read_uuid_param sv s) (\<lambda>i. op_bind (web_principal p READ) (\<lambda>_.
     op_map (\<lambda>r. reply 200 (analysis_response r)) (op_catch vision_http (on_vision (get_analysis (vision_of sv) (uuid_str i))))))"

definition list_folders_handler :: "server \<Rightarrow> web_request \<Rightarrow> principal option \<Rightarrow> web_reply web" where
  "list_folders_handler sv q p = op_bind (web_principal p READ) (\<lambda>_. op_map (\<lambda>rs. reply 200 (PList (map folder_response rs)))
     (op_catch vision_http (on_vision (list_folders (vision_of sv)))))"

definition register_folder_handler :: "server \<Rightarrow> web_request \<Rightarrow> principal option \<Rightarrow> web_reply web" where
  "register_folder_handler sv q p = op_bind (read_body q read_folder_request) (\<lambda>(name, root_dir).
     op_bind (web_principal p CONTROL) (\<lambda>_. op_map (\<lambda>r. reply 201 (folder_response r)) (op_catch vision_http
       (on_vision (register_folder (vision_of sv) (si_vision_host (sv_site sv)) (wq_world q 2) name root_dir)))))"

definition scan_folder_handler :: "server \<Rightarrow> web_request \<Rightarrow> principal option \<Rightarrow> string \<Rightarrow> web_reply web" where
  "scan_folder_handler sv q p s = op_bind (read_uuid_param sv s) (\<lambda>i. op_bind (web_principal p CONTROL) (\<lambda>_.
     op_map (\<lambda>c. reply 200 (scan_response c)) (op_catch vision_http (on_vision
       (scan_folder (vision_of sv) (si_vision_host (sv_site sv)) (\<lambda>n. wq_world q (n + 2)) (uuid_str i))))))"

lemmas vision_handlers = upload_asset_handler_def list_assets_handler_def get_asset_handler_def delete_asset_handler_def
  create_analysis_handler_def list_analyses_handler_def get_analysis_handler_def
  list_folders_handler_def register_folder_handler_def scan_folder_handler_def

declare vision_handlers [simp]

fun vision_route :: "server \<Rightarrow> web_request \<Rightarrow> principal option \<Rightarrow> vision_endpoint \<Rightarrow> web_reply web" where
  "vision_route sv q p PostAsset = upload_asset_handler sv q p"
| "vision_route sv q p GetAssets = list_assets_handler sv q p"
| "vision_route sv q p (GetAsset s) = get_asset_handler sv q p s"
| "vision_route sv q p (DeleteAsset s) = delete_asset_handler sv q p s"
| "vision_route sv q p (PostAnalysis s) = create_analysis_handler sv q p s"
| "vision_route sv q p GetAnalyses = list_analyses_handler sv q p"
| "vision_route sv q p (GetAnalysis s) = get_analysis_handler sv q p s"
| "vision_route sv q p GetFolders = list_folders_handler sv q p"
| "vision_route sv q p PostFolder = register_folder_handler sv q p"
| "vision_route sv q p (PostScan s) = scan_folder_handler sv q p s"

end
