(* ===== verification/Http_Security.thy ===== *)
theory Http_Security
  imports Http
begin

text \<open>
  The routers of \<open>api/auth.py\<close> and \<open>api/security.py\<close>. They identify the caller themselves from the session
  cookie, and those that change something ask for the CSRF token and the origin again, after the
  middleware did.
\<close>

section \<open>Authentication\<close>

datatype auth_endpoint =
    PostBootstrap | PostRegistrationOptions | PostRegistrationVerify | PostAuthenticationOptions
  | PostAuthenticationVerify | GetSession | PostLogout | PostTotpEnrollment | PostTotpConfirm | PostTotpVerify

definition auth_of :: "server \<Rightarrow> auth_config" where
  "auth_of sv = auth_config_of (sv_site sv)"

definition auth_host_of :: "server \<Rightarrow> auth_host" where
  "auth_host_of sv = si_auth_host (sv_site sv)"

definition conflict_409 :: "exn \<Rightarrow> exn" where
  "conflict_409 e = (case e of AuthenticationConflictError m \<Rightarrow> plain_error 409 m | _ \<Rightarrow> e)"

definition loopback_client :: "string option \<Rightarrow> bool" where
  "loopback_client c = (c \<in> Some ` {''127.0.0.1'', ''::1'', ''localhost''})"

definition with_session_cookie :: "server \<Rightarrow> web_request \<Rightarrow> session_tokens \<Rightarrow> web_reply" where
  \<comment> \<open>\<open>_set_session_cookie\<close> and the body; the cookie is \<open>HttpOnly\<close> and \<open>SameSite=strict\<close> for the path \<open>/\<close>\<close>
  "with_session_cookie sv q t = \<lparr>wr_status = 200, wr_body = principal_response (st_principal t),
     wr_cookie = SetCookie (st_session_token t) (se_session_ttl_seconds (si_settings (sv_site sv))) (wq_secure q)\<rparr>"

definition registration_session :: "server \<Rightarrow> web_request \<Rightarrow> unit web" where
  \<comment> \<open>a session cookie that comes with a registration must be valid\<close>
  "registration_session sv q = (if truthy (wq_cookie q) then op_bind (mutation_principal sv q) (\<lambda>_. op_return ()) else op_return ())"

definition bootstrap_handler :: "server \<Rightarrow> web_request \<Rightarrow> web_reply web" where
  "bootstrap_handler sv q = op_bind (read_body q read_bootstrap) (\<lambda>(username, secret, device).
     if \<not> loopback_client (wq_client q) then op_raise (plain_error 403 ''Bootstrap requires a loopback connection'')
     else op_map (reply 201) (op_catch (unauthorized \<circ> conflict_409)
       (on_bootstrap (bootstrap (auth_of sv) (auth_host_of sv) (wq_world q 2) username secret device))))"

definition passkey_registration_options_handler :: "server \<Rightarrow> web_request \<Rightarrow> web_reply web" where
  "passkey_registration_options_handler sv q = op_bind (read_body q read_passkey_registration) (\<lambda>device.
     op_bind (mutation_principal sv q) (\<lambda>p. op_map (reply 200) (op_catch unauthorized
       (on_sec (begin_passkey_registration (auth_of sv) (auth_host_of sv) (wq_world q 2) p device)))))"

definition passkey_registration_verify_handler :: "server \<Rightarrow> web_request \<Rightarrow> web_reply web" where
  "passkey_registration_verify_handler sv q = op_bind (read_body q read_passkey_verification) (\<lambda>(i, credential).
     op_bind (registration_session sv q) (\<lambda>_. op_map (with_session_cookie sv q) (op_catch (unauthorized \<circ> conflict_409)
       (on_sec (finish_passkey_registration (auth_of sv) (auth_host_of sv) (wq_world q 2) i credential)))))"

definition passkey_authentication_options_handler :: "server \<Rightarrow> web_request \<Rightarrow> web_reply web" where
  "passkey_authentication_options_handler sv q = op_bind (read_body q read_passkey_authentication) (\<lambda>username.
     op_map (reply 200) (op_catch unauthorized
       (on_sec (begin_passkey_authentication (auth_of sv) (auth_host_of sv) (wq_world q 2) username))))"

definition passkey_authentication_verify_handler :: "server \<Rightarrow> web_request \<Rightarrow> web_reply web" where
  "passkey_authentication_verify_handler sv q = op_bind (read_body q read_passkey_verification) (\<lambda>(i, credential).
     op_map (with_session_cookie sv q) (op_catch (unauthorized \<circ> conflict_409)
       (on_sec (finish_passkey_authentication (auth_of sv) (auth_host_of sv) (wq_world q 2) i credential))))"

definition current_session_handler :: "server \<Rightarrow> web_request \<Rightarrow> web_reply web" where
  "current_session_handler sv q = op_map (\<lambda>p. reply 200 (principal_response p)) (auth_session sv q)"

definition logout_handler :: "server \<Rightarrow> web_request \<Rightarrow> web_reply web" where
  "logout_handler sv q = op_bind (mutation_principal sv q) (\<lambda>p. op_map
     (\<lambda>_. \<lparr>wr_status = 204, wr_body = PNone, wr_cookie = DeleteCookie\<rparr>) (on_sec (logout (wq_world q 2) p)))"

definition begin_totp_enrollment_handler :: "server \<Rightarrow> web_request \<Rightarrow> web_reply web" where
  "begin_totp_enrollment_handler sv q = op_bind (mutation_principal sv q) (\<lambda>p.
     op_return (reply 200 (totp_response (begin_totp_enrollment (auth_host_of sv) (wq_world q 2) p))))"

definition confirm_totp_enrollment_handler :: "server \<Rightarrow> web_request \<Rightarrow> web_reply web" where
  "confirm_totp_enrollment_handler sv q = op_bind (read_body q read_totp_confirm) (\<lambda>(secret, code).
     op_bind (mutation_principal sv q) (\<lambda>p. op_map (\<lambda>_. reply 204 PNone) (op_catch unauthorized
       (on_sec (confirm_totp_enrollment (auth_host_of sv) (wq_world q 2) p secret code)))))"

definition verify_totp_handler :: "server \<Rightarrow> web_request \<Rightarrow> web_reply web" where
  "verify_totp_handler sv q = op_bind (read_body q read_totp_verify) (\<lambda>code.
     op_bind (mutation_principal sv q) (\<lambda>p. op_map (\<lambda>p. reply 200 (principal_response p)) (op_catch unauthorized
       (on_sec (verify_totp (auth_host_of sv) (wq_world q 2) p code)))))"

lemmas auth_handlers = bootstrap_handler_def passkey_registration_options_handler_def
  passkey_registration_verify_handler_def passkey_authentication_options_handler_def
  passkey_authentication_verify_handler_def current_session_handler_def logout_handler_def
  begin_totp_enrollment_handler_def confirm_totp_enrollment_handler_def verify_totp_handler_def

declare auth_handlers [simp]

fun auth_route :: "server \<Rightarrow> web_request \<Rightarrow> auth_endpoint \<Rightarrow> web_reply web" where
  "auth_route sv q PostBootstrap = bootstrap_handler sv q"
| "auth_route sv q PostRegistrationOptions = passkey_registration_options_handler sv q"
| "auth_route sv q PostRegistrationVerify = passkey_registration_verify_handler sv q"
| "auth_route sv q PostAuthenticationOptions = passkey_authentication_options_handler sv q"
| "auth_route sv q PostAuthenticationVerify = passkey_authentication_verify_handler sv q"
| "auth_route sv q GetSession = current_session_handler sv q"
| "auth_route sv q PostLogout = logout_handler sv q"
| "auth_route sv q PostTotpEnrollment = begin_totp_enrollment_handler sv q"
| "auth_route sv q PostTotpConfirm = confirm_totp_enrollment_handler sv q"
| "auth_route sv q PostTotpVerify = verify_totp_handler sv q"

section \<open>Devices, approvals, grants, lockdown and audit\<close>

datatype security_endpoint =
    GetDevices | PatchDevice string | PostTrust string | PostRevokeDevice string
  | PostSecurityApproval | GetSecurityApprovals "string option" | PostDecision string
  | GetGrants | PostRevokeGrant string | GetLockdown | PostActivate | PostDeactivate | GetAudit "string option"
  | GetVault | PostVault | PutVault string | PostRevokeVault string

definition missing_404 :: "string \<Rightarrow> exn \<Rightarrow> exn" where
  "missing_404 message e = (case e of KeyError _ \<Rightarrow> plain_error 404 message | _ \<Rightarrow> e)"

definition denied_403 :: "exn \<Rightarrow> exn" where
  "denied_403 e = (case e of SecurityAuthorizationError m \<Rightarrow> plain_error 403 m | _ \<Rightarrow> e)"

definition security_conflict_409 :: "exn \<Rightarrow> exn" where
  "security_conflict_409 e = (case e of SecurityConflictError m \<Rightarrow> plain_error 409 m | _ \<Rightarrow> e)"

definition vault_error :: "nat \<Rightarrow> exn \<Rightarrow> exn" where
  "vault_error n e = (case e of VaultError m \<Rightarrow> plain_error n m | _ \<Rightarrow> e)"

definition audit_limit :: "server \<Rightarrow> string option \<Rightarrow> nat web" where
  "audit_limit sv s = op_lift (case s of None \<Rightarrow> Inr 100
     | Some s \<Rightarrow> ebind (read_int (sv_pydantic sv) 1 500 (PStr s)) (\<lambda>i. Inr (nat i)))"

definition vault_work :: "server \<Rightarrow> web_request \<Rightarrow> session_principal \<Rightarrow> (vault_state, vault_row) stateful \<Rightarrow> pyobj web" where
  \<comment> \<open>\<open>require_vault_management\<close>, then the operation\<close>
  "vault_work sv q p f = op_bind (on_sec (require_vault_management (wq_world q 2) p)) (\<lambda>_. op_map vault_response (on_vault f))"

definition list_devices_handler :: "server \<Rightarrow> web_request \<Rightarrow> web_reply web" where
  "list_devices_handler sv q = op_bind (auth_session sv q) (\<lambda>p.
     op_map (\<lambda>ds. reply 200 (PList (map device_response ds))) (on_sec (list_devices p)))"

definition rename_device_handler :: "server \<Rightarrow> web_request \<Rightarrow> string \<Rightarrow> web_reply web" where
  "rename_device_handler sv q i = op_bind (read_body q read_rename_device) (\<lambda>name. op_bind (mutation_principal sv q) (\<lambda>p.
     op_map (\<lambda>d. reply 200 (device_response d)) (op_catch (missing_404 ''Device was not found'') (on_sec (rename_device p i name)))))"

definition trust_device_handler :: "server \<Rightarrow> web_request \<Rightarrow> string \<Rightarrow> web_reply web" where
  "trust_device_handler sv q i = op_bind (mutation_principal sv q) (\<lambda>p. op_map (\<lambda>d. reply 200 (device_response d))
     (op_catch (security_conflict_409 \<circ> denied_403 \<circ> missing_404 ''Device was not found'') (on_sec (trust_device (wq_world q 2) p i))))"

definition revoke_device_handler :: "server \<Rightarrow> web_request \<Rightarrow> string \<Rightarrow> web_reply web" where
  "revoke_device_handler sv q i = op_bind (mutation_principal sv q) (\<lambda>p. op_map (\<lambda>d. reply 200 (device_response d))
     (op_catch (denied_403 \<circ> missing_404 ''Device was not found'') (on_sec (revoke_device (wq_world q 2) p i))))"

definition security_create_approval_handler :: "server \<Rightarrow> web_request \<Rightarrow> web_reply web" where
  "security_create_approval_handler sv q = op_bind (read_body q (read_security_approval (sv_pydantic sv))) (\<lambda>d.
     op_bind (mutation_principal sv q) (\<lambda>p. op_map (\<lambda>r. reply 201 (security_approval_response r)) (op_catch denied_403
       (on_sec (create_approval (wq_world q 2) p (se_project_id (si_settings (sv_site sv))) (sq_action d) (sq_reason d)
          (sq_scope d) (sq_expires_in d) (sq_target d) (sq_run_id d) (sq_task_ref d) (sq_risk d))))))"

definition list_approvals_handler :: "server \<Rightarrow> web_request \<Rightarrow> string option \<Rightarrow> web_reply web" where
  "list_approvals_handler sv q st = op_bind (auth_session sv q) (\<lambda>p.
     op_map (\<lambda>rs. reply 200 (PList (map security_approval_response rs))) (op_catch denied_403 (on_sec (list_approvals (wq_world q 2) p st))))"

definition decide_approval_handler :: "server \<Rightarrow> web_request \<Rightarrow> string \<Rightarrow> web_reply web" where
  "decide_approval_handler sv q i = op_bind (read_body q read_decision) (\<lambda>d. op_bind (mutation_principal sv q) (\<lambda>p.
     op_map (\<lambda>(r, _). reply 200 (security_approval_response r))
       (op_catch (security_conflict_409 \<circ> denied_403 \<circ> missing_404 ''Approval was not found'')
         (on_sec (decide_approval (si_aware (sv_site sv)) (wq_world q 2) p i d)))))"

definition list_grants_handler :: "server \<Rightarrow> web_request \<Rightarrow> web_reply web" where
  "list_grants_handler sv q = op_bind (auth_session sv q) (\<lambda>p.
     op_map (\<lambda>gs. reply 200 (PList (map grant_response gs))) (op_catch denied_403 (on_sec (list_grants (wq_world q 2) p))))"

definition revoke_grant_handler :: "server \<Rightarrow> web_request \<Rightarrow> string \<Rightarrow> web_reply web" where
  "revoke_grant_handler sv q i = op_bind (mutation_principal sv q) (\<lambda>p. op_map (\<lambda>g. reply 200 (grant_response g))
     (op_catch (denied_403 \<circ> missing_404 ''Grant was not found'') (on_sec (revoke_grant (wq_world q 2) p i))))"

definition lockdown_state_handler :: "server \<Rightarrow> web_request \<Rightarrow> web_reply web" where
  "lockdown_state_handler sv q = op_bind (auth_session sv q) (\<lambda>p.
     op_map (\<lambda>s. reply 200 (lockdown_response s)) (op_catch denied_403 (on_sec (get_lockdown_state (wq_world q 2) p))))"

definition activate_lockdown_handler :: "server \<Rightarrow> web_request \<Rightarrow> web_reply web" where
  "activate_lockdown_handler sv q = op_bind (mutation_principal sv q) (\<lambda>p.
     op_map (\<lambda>s. reply 200 (lockdown_response s)) (op_catch denied_403 (on_sec (activate_lockdown (wq_world q 2) p))))"

definition deactivate_lockdown_handler :: "server \<Rightarrow> web_request \<Rightarrow> web_reply web" where
  "deactivate_lockdown_handler sv q = op_bind (mutation_principal sv q) (\<lambda>p.
     op_map (\<lambda>s. reply 200 (lockdown_response s)) (op_catch denied_403 (on_sec (deactivate_lockdown (wq_world q 2) p))))"

definition list_audit_handler :: "server \<Rightarrow> web_request \<Rightarrow> string option \<Rightarrow> web_reply web" where
  "list_audit_handler sv q s = op_bind (audit_limit sv s) (\<lambda>n. op_bind (auth_session sv q) (\<lambda>p.
     op_map (\<lambda>rs. reply 200 (PList (map audit_response rs))) (op_catch denied_403 (on_sec (list_audit (wq_world q 2) p n)))))"

definition list_vault_credentials_handler :: "server \<Rightarrow> web_request \<Rightarrow> web_reply web" where
  "list_vault_credentials_handler sv q = op_bind (auth_session sv q) (\<lambda>p. op_map (\<lambda>rs. reply 200 (PList (map vault_response rs)))
     (op_catch denied_403 (op_bind (on_sec (require_vault_management (wq_world q 2) p)) (\<lambda>_. on_vault vault_list_metadata))))"

definition create_vault_credential_handler :: "server \<Rightarrow> web_request \<Rightarrow> web_reply web" where
  "create_vault_credential_handler sv q = op_bind (read_body q read_create_credential) (\<lambda>(name, ty, secret). op_bind (mutation_principal sv q) (\<lambda>p.
     op_map (reply 201) (op_catch (vault_error 403 \<circ> denied_403) (vault_work sv q p
       (vault_create (si_fernet (sv_site sv)) (si_random_key (sv_site sv)) (wq_world q 3) (sp_user_id p) name ty secret)))))"

definition replace_vault_credential_handler :: "server \<Rightarrow> web_request \<Rightarrow> string \<Rightarrow> web_reply web" where
  "replace_vault_credential_handler sv q i = op_bind (read_body q read_replace_credential) (\<lambda>secret. op_bind (mutation_principal sv q) (\<lambda>p.
     op_map (reply 200) (op_catch (vault_error 404 \<circ> denied_403) (vault_work sv q p
       (vault_replace (si_fernet (sv_site sv)) (si_random_key (sv_site sv)) (wq_world q 3) i secret)))))"

definition revoke_vault_credential_handler :: "server \<Rightarrow> web_request \<Rightarrow> string \<Rightarrow> web_reply web" where
  "revoke_vault_credential_handler sv q i = op_bind (mutation_principal sv q) (\<lambda>p.
     op_map (reply 200) (op_catch (vault_error 404 \<circ> denied_403) (vault_work sv q p (vault_revoke (wq_world q 3) i))))"

lemmas security_handlers = list_devices_handler_def rename_device_handler_def trust_device_handler_def
  revoke_device_handler_def security_create_approval_handler_def list_approvals_handler_def
  decide_approval_handler_def list_grants_handler_def revoke_grant_handler_def
  lockdown_state_handler_def activate_lockdown_handler_def deactivate_lockdown_handler_def
  list_audit_handler_def list_vault_credentials_handler_def create_vault_credential_handler_def
  replace_vault_credential_handler_def revoke_vault_credential_handler_def

declare security_handlers [simp]

fun security_route :: "server \<Rightarrow> web_request \<Rightarrow> security_endpoint \<Rightarrow> web_reply web" where
  "security_route sv q GetDevices = list_devices_handler sv q"
| "security_route sv q (PatchDevice i) = rename_device_handler sv q i"
| "security_route sv q (PostTrust i) = trust_device_handler sv q i"
| "security_route sv q (PostRevokeDevice i) = revoke_device_handler sv q i"
| "security_route sv q PostSecurityApproval = security_create_approval_handler sv q"
| "security_route sv q (GetSecurityApprovals st) = list_approvals_handler sv q st"
| "security_route sv q (PostDecision i) = decide_approval_handler sv q i"
| "security_route sv q GetGrants = list_grants_handler sv q"
| "security_route sv q (PostRevokeGrant i) = revoke_grant_handler sv q i"
| "security_route sv q GetLockdown = lockdown_state_handler sv q"
| "security_route sv q PostActivate = activate_lockdown_handler sv q"
| "security_route sv q PostDeactivate = deactivate_lockdown_handler sv q"
| "security_route sv q (GetAudit s) = list_audit_handler sv q s"
| "security_route sv q GetVault = list_vault_credentials_handler sv q"
| "security_route sv q PostVault = create_vault_credential_handler sv q"
| "security_route sv q (PutVault i) = replace_vault_credential_handler sv q i"
| "security_route sv q (PostRevokeVault i) = revoke_vault_credential_handler sv q i"

end
