(* ===== verification/App.thy ===== *)
theory App
  imports Http_Remote Http_Vision Http_Security
begin

text \<open>
  \<open>app.py\<close>: the application as a whole. A request passes the middleware, which finds out who asks and
  checks the CSRF token of requests that may change something, and is then answered by the route the
  framework has matched; an exception that leaves the route becomes a reply. Start-up assesses what an
  earlier process left behind before the first request is served, and shutdown ends the live tasks.
\<close>

section \<open>The routes\<close>

datatype web_method = MGet | MPost | MPatch | MPut | MDelete

datatype endpoint =
    RemoteE remote_endpoint | NodeE node_endpoint | RecoveryE string | MemoryE memory_endpoint
  | LexiE lexi_endpoint | ToolE string | VisionE vision_endpoint | AuthE auth_endpoint | SecurityE security_endpoint

fun remote_at :: "remote_endpoint \<Rightarrow> web_method \<times> string" where
  "remote_at GetSystem = (MGet, ''/api/v1/system'')"
| "remote_at GetHealth = (MGet, ''/api/v1/health'')"
| "remote_at GetProjects = (MGet, ''/api/v1/projects'')"
| "remote_at (GetProject i) = (MGet, ''/api/v1/projects/'' @ i)"
| "remote_at GetAgents = (MGet, ''/api/v1/agents'')"
| "remote_at PostAgent = (MPost, ''/api/v1/agents'')"
| "remote_at (GetAgent i) = (MGet, ''/api/v1/agents/'' @ i)"
| "remote_at (PatchGraph i) = (MPatch, ''/api/v1/agents/'' @ i @ ''/graph'')"
| "remote_at (GetAgentRuns i) = (MGet, ''/api/v1/agents/'' @ i @ ''/runs'')"
| "remote_at (GetRun i) = (MGet, ''/api/v1/runs/'' @ i)"
| "remote_at (PostRun i) = (MPost, ''/api/v1/agents/'' @ i @ ''/runs'')"
| "remote_at (GetRunTree i) = (MGet, ''/api/v1/runs/'' @ i @ ''/tree'')"
| "remote_at (PostStop i) = (MPost, ''/api/v1/runs/'' @ i @ ''/stop'')"
| "remote_at GetProviders = (MGet, ''/api/v1/providers'')"
| "remote_at (GetEvents _) = (MGet, ''/api/v1/events'')"
| "remote_at PostApproval = (MPost, ''/api/v1/approvals'')"
| "remote_at GetApprovals = (MGet, ''/api/v1/approvals'')"
| "remote_at (PostApprove i) = (MPost, ''/api/v1/approvals/'' @ i @ ''/approve'')"
| "remote_at (PostReject i) = (MPost, ''/api/v1/approvals/'' @ i @ ''/reject'')"

fun node_at :: "node_endpoint \<Rightarrow> web_method \<times> string" where
  "node_at GetNodes = (MGet, ''/api/v1/nodes'')"
| "node_at (GetNode i) = (MGet, ''/api/v1/nodes/'' @ i)"
| "node_at (PostEnable i) = (MPost, ''/api/v1/nodes/'' @ i @ ''/enable'')"
| "node_at (PostDisable i) = (MPost, ''/api/v1/nodes/'' @ i @ ''/disable'')"
| "node_at (PostProbe i) = (MPost, ''/api/v1/nodes/'' @ i @ ''/probe'')"

fun memory_at :: "memory_endpoint \<Rightarrow> web_method \<times> string" where
  "memory_at (GetMemory _) = (MGet, ''/api/v1/memory'')"
| "memory_at PostMemory = (MPost, ''/api/v1/memory'')"
| "memory_at PostSearch = (MPost, ''/api/v1/memory/search'')"
| "memory_at (DeleteMemory i _) = (MDelete, ''/api/v1/memory/'' @ i)"
| "memory_at (GetUsage i) = (MGet, ''/api/v1/memory/runs/'' @ i)"

fun lexi_at :: "lexi_endpoint \<Rightarrow> web_method \<times> string" where
  "lexi_at GetLexi = (MGet, ''/api/v1/lexi'')"
| "lexi_at PostLexi = (MPost, ''/api/v1/lexi/bootstrap'')"

fun vision_at :: "vision_endpoint \<Rightarrow> web_method \<times> string" where
  "vision_at PostAsset = (MPost, ''/api/v1/vision/assets'')"
| "vision_at GetAssets = (MGet, ''/api/v1/vision/assets'')"
| "vision_at (GetAsset i) = (MGet, ''/api/v1/vision/assets/'' @ i)"
| "vision_at (DeleteAsset i) = (MDelete, ''/api/v1/vision/assets/'' @ i)"
| "vision_at (PostAnalysis i) = (MPost, ''/api/v1/vision/assets/'' @ i @ ''/analyses'')"
| "vision_at GetAnalyses = (MGet, ''/api/v1/vision/analyses'')"
| "vision_at (GetAnalysis i) = (MGet, ''/api/v1/vision/analyses/'' @ i)"
| "vision_at GetFolders = (MGet, ''/api/v1/vision/folders'')"
| "vision_at PostFolder = (MPost, ''/api/v1/vision/folders'')"
| "vision_at (PostScan i) = (MPost, ''/api/v1/vision/folders/'' @ i @ ''/scan'')"

fun auth_at :: "auth_endpoint \<Rightarrow> web_method \<times> string" where
  "auth_at PostBootstrap = (MPost, ''/api/v1/auth/bootstrap'')"
| "auth_at PostRegistrationOptions = (MPost, ''/api/v1/auth/passkeys/registration/options'')"
| "auth_at PostRegistrationVerify = (MPost, ''/api/v1/auth/passkeys/registration/verify'')"
| "auth_at PostAuthenticationOptions = (MPost, ''/api/v1/auth/passkeys/authentication/options'')"
| "auth_at PostAuthenticationVerify = (MPost, ''/api/v1/auth/passkeys/authentication/verify'')"
| "auth_at GetSession = (MGet, ''/api/v1/auth/session'')"
| "auth_at PostLogout = (MPost, ''/api/v1/auth/logout'')"
| "auth_at PostTotpEnrollment = (MPost, ''/api/v1/auth/totp/enrollment'')"
| "auth_at PostTotpConfirm = (MPost, ''/api/v1/auth/totp/confirm'')"
| "auth_at PostTotpVerify = (MPost, ''/api/v1/auth/totp/verify'')"

fun security_at :: "security_endpoint \<Rightarrow> web_method \<times> string" where
  "security_at GetDevices = (MGet, ''/api/v1/security/devices'')"
| "security_at (PatchDevice i) = (MPatch, ''/api/v1/security/devices/'' @ i)"
| "security_at (PostTrust i) = (MPost, ''/api/v1/security/devices/'' @ i @ ''/trust'')"
| "security_at (PostRevokeDevice i) = (MPost, ''/api/v1/security/devices/'' @ i @ ''/revoke'')"
| "security_at PostSecurityApproval = (MPost, ''/api/v1/security/approvals'')"
| "security_at (GetSecurityApprovals _) = (MGet, ''/api/v1/security/approvals'')"
| "security_at (PostDecision i) = (MPost, ''/api/v1/security/approvals/'' @ i @ ''/decision'')"
| "security_at GetGrants = (MGet, ''/api/v1/security/grants'')"
| "security_at (PostRevokeGrant i) = (MPost, ''/api/v1/security/grants/'' @ i @ ''/revoke'')"
| "security_at GetLockdown = (MGet, ''/api/v1/security/lockdown'')"
| "security_at PostActivate = (MPost, ''/api/v1/security/lockdown/activate'')"
| "security_at PostDeactivate = (MPost, ''/api/v1/security/lockdown/deactivate'')"
| "security_at (GetAudit _) = (MGet, ''/api/v1/security/audit'')"
| "security_at GetVault = (MGet, ''/api/v1/security/vault'')"
| "security_at PostVault = (MPost, ''/api/v1/security/vault'')"
| "security_at (PutVault i) = (MPut, ''/api/v1/security/vault/'' @ i)"
| "security_at (PostRevokeVault i) = (MPost, ''/api/v1/security/vault/'' @ i @ ''/revoke'')"

fun route_at :: "endpoint \<Rightarrow> web_method \<times> string" where
  \<comment> \<open>the method and the path of the requests an endpoint answers\<close>
  "route_at (RemoteE e) = remote_at e"
| "route_at (NodeE e) = node_at e"
| "route_at (RecoveryE i) = (MGet, ''/api/v1/runs/'' @ i @ ''/recovery'')"
| "route_at (MemoryE e) = memory_at e"
| "route_at (LexiE e) = lexi_at e"
| "route_at (ToolE i) = (MGet, ''/api/v1/runs/'' @ i @ ''/tools'')"
| "route_at (VisionE e) = vision_at e"
| "route_at (AuthE e) = auth_at e"
| "route_at (SecurityE e) = security_at e"

fun route :: "server \<Rightarrow> web_request \<Rightarrow> principal option \<Rightarrow> endpoint \<Rightarrow> web_reply web" where
  "route sv q p (RemoteE e) = remote_route sv q p e"
| "route sv q p (NodeE e) = node_route sv q p e"
| "route sv q p (RecoveryE i) = recovery_route sv q p i"
| "route sv q p (MemoryE e) = memory_route sv q p e"
| "route sv q p (LexiE e) = lexi_route sv q p e"
| "route sv q p (ToolE i) = tools_route sv q p i"
| "route sv q p (VisionE e) = vision_route sv q p e"
| "route sv q p (AuthE e) = auth_route sv q e"
| "route sv q p (SecurityE e) = security_route sv q e"

section \<open>The middleware\<close>

definition exempt_paths :: "string list" where
  "exempt_paths = [''/api/v1/auth/bootstrap'', ''/api/v1/auth/passkeys/authentication/options'',
     ''/api/v1/auth/passkeys/authentication/verify'', ''/api/v1/auth/passkeys/registration/verify'']"

definition needs_csrf :: "endpoint \<Rightarrow> bool" where
  "needs_csrf e \<longleftrightarrow> fst (route_at e) \<noteq> MGet \<and> snd (route_at e) \<notin> set exempt_paths"

definition request_identity :: "session_principal \<Rightarrow> principal" where
  "request_identity sp = \<lparr>pr_identity = sp_user_id sp, pr_permissions = sp_permissions sp\<rparr>"

definition authenticate_request :: "server \<Rightarrow> web_request \<Rightarrow> endpoint \<Rightarrow> web_reply web" where
  "authenticate_request sv q e a =
     (case session_principal_of sv q 0 a of
        (Inl x, a) \<Rightarrow> (case x of AuthenticationError _ \<Rightarrow> route sv q None e a | _ \<Rightarrow> (Inl x, a))
      | (Inr sp, a) \<Rightarrow>
          if needs_csrf e then (case csrf_check sv q sp a of
              (Inl x, a) \<Rightarrow> (case x of AuthenticationError m \<Rightarrow> (Inr (reply 403 (error_detail ''CSRF_DENIED'' m)), a) | _ \<Rightarrow> (Inl x, a))
            | (Inr _, a) \<Rightarrow> route sv q (Some (request_identity sp)) e a)
          else route sv q (Some (request_identity sp)) e a)"

definition serve :: "server \<Rightarrow> web_request \<Rightarrow> endpoint \<Rightarrow> app \<Rightarrow> web_reply \<times> app" where
  "serve sv q e a = (case authenticate_request sv q e a of
     (Inl x, a) \<Rightarrow> (reply_of_exn x, a) | (Inr r, a) \<Rightarrow> (r, a))"

section \<open>Start-up and shutdown\<close>

definition restarted :: "app \<Rightarrow> app" where
  \<comment> \<open>what a new process finds: the tables and the files; nothing is in memory\<close>
  "restarted a = a\<lparr>app_manager := \<lparr>mg_store = mg_store (app_manager a), mg_registry = [], mg_contexts = Map.empty,
       mg_bus = new_bus 500\<rparr>,
     app_approvals := no_approvals, app_keys := (app_keys a)\<lparr>ks_cached := None\<rparr>,
     app_nodes := (no_nodes (new_bus 500))\<lparr>nd_rows := nd_rows (app_nodes a)\<rparr>,
     app_vision := (app_vision a)\<lparr>vs_tasks := []\<rparr>\<rparr>"

definition startup_failure :: "exn" where
  \<comment> \<open>the \<open>finally\<close> block asks for \<open>app.state.vision_service\<close>, which a start-up that fails has not set\<close>
  "startup_failure = AttributeError ''vision_service''"

definition start_up :: "site \<Rightarrow> world \<Rightarrow> world \<Rightarrow> world \<Rightarrow> model_router web" where
  \<comment> \<open>the lifespan up to \<open>yield\<close>; the worlds are those of its three operations\<close>
  "start_up si w w' w'' =
     op_bind (op_lift (configure_router si)) (\<lambda>rt.
     op_bind (op_catch (\<lambda>_. startup_failure)
       (op_bind (on_manager (recover (manager_config si) w)) (\<lambda>_.
        if se_node_role (si_settings si) = CoreRole
        then op_map (\<lambda>_. ()) (on_nodes (ensure_core w' (si_facts si) (core_name (si_settings si))))
        else op_return ()))) (\<lambda>_.
     op_bind (on_vision (\<lambda>s. (Inr (), recover_stale_analyses w'' s))) (\<lambda>_. op_return rt)))"

definition liveness_interval :: "settings \<Rightarrow> rat" where
  "liveness_interval s = min (se_worker_heartbeat_timeout_seconds s / 2) 10"

definition liveness_step :: "site \<Rightarrow> world \<Rightarrow> unit web" where
  \<comment> \<open>one turn of \<open>_node_liveness_loop\<close>\<close>
  "liveness_step si w = on_nodes (\<lambda>s. (Inr (), mark_stale_offline (node_config_of si) w s))"

definition shut_down :: "site \<Rightarrow> environment \<Rightarrow> world \<Rightarrow> (vision \<Rightarrow> vision) \<Rightarrow> string list \<Rightarrow> bool web" where
  \<comment> \<open>the lifespan after \<open>yield\<close>; whether the database and the HTTP client are closed at once\<close>
  "shut_down si env w others unfinished =
     op_bind (on_vision (\<lambda>s. (Inr (), vision_shutdown w (vs_tasks s) others unfinished s))) (\<lambda>_.
     on_manager (shutdown (manager_config si) env))"

end
