(* ===== verification/App_Sample.thy ===== *)
theory App_Sample
  imports App
begin

text \<open>
  A small server with one user, one device and one passkey, on which the properties of the application
  are evaluated: with a live session, and with the challenge of a sign-in that is under way.
\<close>

definition sample_site :: site where
  "sample_site = \<lparr>si_settings = default_settings, si_host = \<lparr>hs_sha256 = id, hs_float_repr = (\<lambda>_. ''0.0'')\<rparr>, si_aware = True,
     si_auth_host = \<lparr>ah_secret = uuid_str, ah_sha256 = id, ah_csrf = id, ah_encrypt = id, ah_decrypt = Some,
       ah_totp = (\<lambda>_ _. Inr True), ah_totp_uri = (\<lambda>_ _. []), ah_registered = (\<lambda>_ c. Some (c, ''pk'', 0)),
       ah_authenticated = (\<lambda>_ _ _ n. Some (n + 1)), ah_registration_options = (\<lambda>_ _ _ _. PNone),
       ah_authentication_options = (\<lambda>_ _. PNone)\<rparr>,
     si_fernet = \<lparr>fh_valid = (\<lambda>_. True), fh_encrypt = (\<lambda>_ _ s. s), fh_decrypt = (\<lambda>_ b. Some b), fh_hmac = (\<lambda>_ s. s)\<rparr>,
     si_random_key = ''key'', si_hmac = (\<lambda>k m. k @ m),
     si_vision_host = \<lparr>vh_sha256 = id, vh_decode = (\<lambda>_. None), vh_resolve = (\<lambda>_. None), vh_resolve_root = (\<lambda>_. []),
       vh_path_text = (\<lambda>_. []), vh_is_dir = (\<lambda>_. False), vh_entries = (\<lambda>_. []), vh_json = (\<lambda>_. None)\<rparr>,
     si_json = (\<lambda>_. None), si_str = (\<lambda>_. []), si_urlparse = (\<lambda>_. \<lparr>up_scheme = ''http'', up_hostname = Some ''127.0.0.1''\<rparr>),
     si_http = \<lparr>hc_log = [], hc_reply = (\<lambda>_ _. Raises FaultTimeout)\<rparr>, si_elapsed = 1,
     si_facts = \<lparr>hf_page_size = Some 4096, hf_phys_pages = Some 100, hf_free_pages = None, hf_load = None,
       hf_system = ''Linux'', hf_machine = [], hf_cpu_count = Some 4\<rparr>\<rparr>"

definition sample_server :: server where
  "sample_server = \<lparr>sv_site = sample_site, sv_router = sample_router,
     sv_env = \<lparr>en_world = (\<lambda>_. \<lparr>w_now = 6, w_uuid4 = (\<lambda>n. n)\<rparr>), en_cancel = (\<lambda>_ _. True), en_wait = (\<lambda>_ m. (None, m)),
       en_cut = (\<lambda>_ _ _. None), en_result = (\<lambda>_ _. Inl CancelledError)\<rparr>,
     sv_fuel = 2, sv_pydantic = \<lparr>pd_int = (\<lambda>_. None), pd_float = (\<lambda>_. None), pd_uuid = (\<lambda>_. None)\<rparr>\<rparr>"

definition sample_query :: "string option \<Rightarrow> pyobj option \<Rightarrow> web_request" where
  "sample_query cookie body = \<lparr>wq_cookie = cookie, wq_csrf = Some ''s'', wq_origin = Some ''http://localhost:5173'',
     wq_client = Some ''127.0.0.1'', wq_secure = False, wq_body = body, wq_upload = None,
     wq_world = (\<lambda>k. \<lparr>w_now = 6, w_uuid4 = (\<lambda>n. 20 * k + n + 2)\<rparr>), wq_others = id\<rparr>"

definition sample_sec :: sec where
  "sample_sec = empty_sec\<lparr>
     sc_users := [\<lparr>us_id = ''u'', us_username = ''root'', us_role = OwnerRole, us_disabled_at = None, us_created_at = 5\<rparr>],
     sc_devices := [\<lparr>dv_id = ''d'', dv_user_id = ''u'', dv_display_name = ''laptop'', dv_trust = Limited,
        dv_revoked_at = None, dv_last_authenticated_at = None, dv_created_at = 5\<rparr>],
     sc_passkeys := [\<lparr>pk_id = ''k'', pk_user_id = ''u'', pk_device_id = ''d'', pk_credential_id = ''a'',
        pk_public_key = ''pk'', pk_sign_count = 0, pk_revoked_at = None, pk_created_at = 5\<rparr>]\<rparr>"

definition sample_session :: session_row where
  "sample_session = \<lparr>se_id = ''s'', se_user_id = ''u'', se_device_id = ''d'', se_token_hash = ''t'', se_strength = PasskeyStrength,
     se_expires_at = 900, se_last_activity_at = 5, se_step_up_at = None, se_revoked_at = None, se_created_at = 5\<rparr>"

definition sample_challenge :: challenge_row where
  "sample_challenge = \<lparr>ch_id = ''c'', ch_kind = PasskeyAuthentication, ch_challenge = ''x'', ch_user_id = Some ''u'',
     ch_device_name = None, ch_expires_at = 300, ch_consumed_at = None, ch_created_at = 5\<rparr>"

definition sample_app :: "sec \<Rightarrow> app" where
  "sample_app s = \<lparr>app_manager = \<lparr>mg_store = empty_store, mg_registry = [], mg_contexts = Map.empty, mg_bus = new_bus 500\<rparr>,
     app_approvals = no_approvals, app_sec = s, app_keys = \<lparr>ks_file = None, ks_cached = None\<rparr>, app_bootstrap = None,
     app_nodes = no_nodes (new_bus 500), app_vision = no_vision (new_bus 500)\<rparr>"

definition signed_in_app :: app where
  "signed_in_app = sample_app (sample_sec\<lparr>sc_sessions := [sample_session]\<rparr>)"

definition signing_in_app :: app where
  "signing_in_app = sample_app (sample_sec\<lparr>sc_challenges := [sample_challenge]\<rparr>)"

definition sample_owner :: session_principal where
  "sample_owner = \<lparr>sp_user_id = ''u'', sp_username = ''root'', sp_role = OwnerRole, sp_session_id = ''s'', sp_device_id = ''d'',
     sp_device_trust = Limited, sp_strength = PasskeyStrength, sp_permissions = permissions_for_role OwnerRole, sp_csrf_token = ''s''\<rparr>"

lemma sample_site_parts [simp]:
  "si_settings sample_site = default_settings" "si_host sample_site = \<lparr>hs_sha256 = id, hs_float_repr = (\<lambda>_. ''0.0'')\<rparr>"
  "si_urlparse sample_site u = \<lparr>up_scheme = ''http'', up_hostname = Some ''127.0.0.1''\<rparr>" "sv_site sample_server = sample_site"
  "si_facts sample_site = \<lparr>hf_page_size = Some 4096, hf_phys_pages = Some 100, hf_free_pages = None, hf_load = None,
     hf_system = ''Linux'', hf_machine = [], hf_cpu_count = Some 4\<rparr>"
  by (simp_all add: sample_site_def sample_server_def)

lemma sample_auth_host:
  "si_auth_host sample_site = \<lparr>ah_secret = uuid_str, ah_sha256 = id, ah_csrf = id, ah_encrypt = id, ah_decrypt = Some,
     ah_totp = (\<lambda>_ _. Inr True), ah_totp_uri = (\<lambda>_ _. []), ah_registered = (\<lambda>_ c. Some (c, ''pk'', 0)),
     ah_authenticated = (\<lambda>_ _ _ n. Some (n + 1)), ah_registration_options = (\<lambda>_ _ _ _. PNone),
     ah_authentication_options = (\<lambda>_ _. PNone)\<rparr>"
  by (simp add: sample_site_def)

lemma sample_world [simp]:
  "wq_world (sample_query c b) k = \<lparr>w_now = 6, w_uuid4 = (\<lambda>n. 20 * k + n + 2)\<rparr>" "wq_cookie (sample_query c b) = c"
  "wq_body (sample_query c b) = b" "wq_csrf (sample_query c b) = Some ''s''"
  "wq_origin (sample_query c b) = Some ''http://localhost:5173''" "wq_secure (sample_query c b) = False"
  by (simp_all add: sample_query_def)

lemma sample_auth [simp]:
  "auth_config_of sample_site = \<lparr>ac_aware = True, ac_challenge_ttl = se_webauthn_challenge_ttl_seconds default_settings,
     ac_session_ttl = se_session_ttl_seconds default_settings,
     ac_allowed_origins = se_webauthn_allowed_origins default_settings\<rparr>"
  by (simp add: auth_config_of_def sample_site_def Let_def)

lemma owner_recognised:
  "session_principal_of sample_server (sample_query (Some ''t'') b) n signed_in_app = (Inr sample_owner, signed_in_app)"
  by (simp add: session_principal_of_def on_sec_def principal_from_session_token_def sec_query_def signed_in_app_def
      sample_app_def sample_sec_def sample_session_def get_session_by_token_hash_def stored_le_def live_pair_def get_user_def
      get_device_def row_get_def auth_principal_def sample_owner_def Let_def empty_sec_def ebind_def
      sample_server_def sample_site_def auth_config_of_def)

lemma owner_csrf: "csrf_check sample_server (sample_query c b) sample_owner a = (Inr (), a)"
  by (simp add: csrf_check_def op_lift_def require_csrf_def sample_owner_def compare_digest_def ascii_def guard_def
      default_settings_def)

end
