(* ===== verification/App_Props.thy ===== *)
theory App_Props
  imports App_Sample
begin

text \<open>
  Properties of the application behind its HTTP interface: what a request may change and learn, depending
  on the session it carries.
\<close>

section \<open>Operations behind a check\<close>

definition gated :: "('s \<Rightarrow> bool) \<Rightarrow> ('s, 'a) stateful \<Rightarrow> bool" where
  \<comment> \<open>only where \<open>G\<close> holds does the operation change anything\<close>
  "gated G p \<longleftrightarrow> (\<forall>s. snd (p s) \<noteq> s \<longrightarrow> G s)"

named_theorems gated_intros \<open>operations behind a check\<close>

lemma gatedD: "gated G p \<Longrightarrow> snd (p s) \<noteq> s \<Longrightarrow> G s"
  by (auto simp: gated_def)

lemma gated_reads: "reads_only p \<Longrightarrow> gated G p"
  by (simp add: gated_def reads_only_def)

lemma gated_bind: "reads_only p \<Longrightarrow> (\<And>x. gated G (f x)) \<Longrightarrow> gated G (op_bind p f)"
  by (auto simp: gated_def reads_only_def op_bind_snd split: sum.splits)

lemma gated_check: "reads_only p \<Longrightarrow> (\<And>s x. fst (p s) = Inr x \<Longrightarrow> G s) \<Longrightarrow> gated G (op_bind p f)"
  by (auto simp: gated_def reads_only_def op_bind_snd split: sum.splits)

lemma gated_map: "gated G p \<Longrightarrow> gated G (op_map f p)"
  by (auto simp: gated_def op_map_def op_bind_snd op_return_def split: sum.splits)

definition permitted :: "principal option \<Rightarrow> permission \<Rightarrow> bool" where
  "permitted p perm \<longleftrightarrow> (\<exists>x. p = Some x \<and> (perm \<in> pr_permissions x \<or> ADMIN \<in> pr_permissions x))"

lemma web_principal_permitted: "fst (web_principal p perm s) = Inr x \<Longrightarrow> permitted p perm"
  by (auto simp: web_principal_def op_catch_def op_lift_def request_principal_def require_def permitted_def exn_simps
      split: option.splits if_splits)

lemma gated_principal [gated_intros]: "gated (\<lambda>_. permitted p perm) (op_bind (web_principal p perm) f)"
  by (intro gated_check reads_intros) (rule web_principal_permitted)

lemma reads_body [reads_intros]: "reads_only (read_body q f)"
  unfolding read_body_def by (intro reads_intros)

lemma reads_uuid_param [reads_intros]: "reads_only (read_uuid_param sv s)"
  unfolding read_uuid_param_def by (intro reads_intros)

lemma reads_required_param [reads_intros]: "reads_only (required_param sv s)"
  unfolding required_param_def by (intro reads_intros)

lemma reads_upload [reads_intros]: "reads_only (read_upload sv q)"
  unfolding read_upload_def by (intro reads_intros)

lemma reads_audit_limit [reads_intros]: "reads_only (audit_limit sv s)"
  unfolding audit_limit_def by (intro reads_intros)

lemma gated_prefix [gated_intros]:
  "gated G (op_bind (read_body q g) f)" if "\<And>x. gated G (f x)"
  using that by (intro gated_bind reads_intros)

lemma gated_prefixes [gated_intros]:
  "(\<And>i. gated G (h i)) \<Longrightarrow> gated G (op_bind (read_uuid_param sv s) h)"
  "(\<And>i. gated G (h i)) \<Longrightarrow> gated G (op_bind (required_param sv t) h)"
  "(\<And>x. gated G (u x)) \<Longrightarrow> gated G (op_bind (read_upload sv q) u)"
  "(\<And>n. gated G (k n)) \<Longrightarrow> gated G (op_bind (audit_limit sv t) k)"
  by (auto intro!: gated_bind reads_intros)

section \<open>What each endpoint asks for\<close>

fun remote_permission :: "remote_endpoint \<Rightarrow> permission" where
  "remote_permission PostAgent = EXECUTE"
| "remote_permission (PatchGraph _) = EXECUTE"
| "remote_permission (PostRun _) = EXECUTE"
| "remote_permission (PostStop _) = CONTROL"
| "remote_permission PostApproval = APPROVE"
| "remote_permission (PostApprove _) = APPROVE"
| "remote_permission (PostReject _) = APPROVE"
| "remote_permission _ = READ"

fun node_permission :: "node_endpoint \<Rightarrow> permission" where
  "node_permission (PostEnable _) = CONTROL"
| "node_permission (PostDisable _) = CONTROL"
| "node_permission (PostProbe _) = EXECUTE"
| "node_permission _ = READ"

fun memory_permission :: "memory_endpoint \<Rightarrow> permission" where
  "memory_permission PostMemory = EXECUTE"
| "memory_permission (DeleteMemory _ _) = CONTROL"
| "memory_permission _ = READ"

fun vision_permission :: "vision_endpoint \<Rightarrow> permission" where
  "vision_permission PostAsset = EXECUTE"
| "vision_permission (PostAnalysis _) = EXECUTE"
| "vision_permission (DeleteAsset _) = CONTROL"
| "vision_permission PostFolder = CONTROL"
| "vision_permission (PostScan _) = CONTROL"
| "vision_permission _ = READ"

fun endpoint_permission :: "endpoint \<Rightarrow> permission option" where
  \<comment> \<open>\<open>None\<close> for the routers that ask the security service\<close>
  "endpoint_permission (RemoteE e) = Some (remote_permission e)"
| "endpoint_permission (NodeE e) = Some (node_permission e)"
| "endpoint_permission (RecoveryE _) = Some READ"
| "endpoint_permission (MemoryE e) = Some (memory_permission e)"
| "endpoint_permission (LexiE e) = Some (if e = PostLexi then EXECUTE else READ)"
| "endpoint_permission (ToolE _) = Some READ"
| "endpoint_permission (VisionE e) = Some (vision_permission e)"
| "endpoint_permission (AuthE _) = None"
| "endpoint_permission (SecurityE _) = None"

lemma remote_gated: "gated (\<lambda>_. permitted p (remote_permission e)) (remote_route sv q p e)"
  by (cases e) (auto intro!: gated_intros intro: gated_reads reads_intros)

lemma node_gated: "gated (\<lambda>_. permitted p (node_permission e)) (node_route sv q p e)"
  by (cases e) (auto intro!: gated_intros)

lemma memory_gated: "gated (\<lambda>_. permitted p (memory_permission e)) (memory_route sv q p e)"
  by (cases e) (auto intro!: gated_intros split: prod.split)

lemma vision_gated: "gated (\<lambda>_. permitted p (vision_permission e)) (vision_route sv q p e)"
  by (cases e) (auto intro!: gated_intros split: prod.split)

lemma permission_gated:
  assumes "endpoint_permission e = Some perm"
  shows "gated (\<lambda>_. permitted p perm) (route sv q p e)"
proof (cases e)
  case (LexiE x)
  with assms show ?thesis by (cases x) (auto intro: gated_intros)
qed (use assms in \<open>auto simp: recovery_route_def tools_route_def
  intro: remote_gated node_gated memory_gated vision_gated intro!: gated_intros\<close>)

section \<open>The routers that look at the cookie themselves\<close>

definition session_gate :: "server \<Rightarrow> web_request \<Rightarrow> bool \<Rightarrow> app \<Rightarrow> bool" where
  \<comment> \<open>the cookie belongs to a live session, and the CSRF check has passed if it was made\<close>
  "session_gate sv q checked a \<longleftrightarrow> (\<exists>sp. fst (session_principal_of sv q 1 a) = Inr sp \<and>
     (checked \<longrightarrow> require_csrf (auth_of sv) sp (wq_csrf q) (wq_origin q) = Inr ()))"

lemma op_catch_fst_Inr: "fst (op_catch f p s) = Inr x \<longleftrightarrow> fst (p s) = Inr x"
  by (auto simp: op_catch_def split: prod.split sum.split)

lemma op_bind_fst_Inr:
  "fst (op_bind p f s) = Inr y \<longleftrightarrow> (\<exists>x. fst (p s) = Inr x \<and> fst (f x (snd (p s))) = Inr y)"
  by (auto simp: op_bind_def split: prod.split sum.split)

lemma reads_auth_session [reads_intros]: "reads_only (auth_session sv q)"
  unfolding auth_session_def by (intro reads_intros)

lemma auth_session_gate: "fst (auth_session sv q s) = Inr sp \<Longrightarrow> session_gate sv q False s"
  by (auto simp: auth_session_def op_catch_fst_Inr session_gate_def)

lemma mutation_gate: "fst (mutation_principal sv q s) = Inr sp \<Longrightarrow> session_gate sv q b s"
  by (auto simp: mutation_principal_def auth_session_def auth_csrf_def csrf_check_def op_catch_fst_Inr op_bind_fst_Inr
      session_gate_def op_lift_def auth_of_def op_return_def)

lemma gated_session [gated_intros]: "gated (session_gate sv q False) (op_bind (auth_session sv q) f)"
  by (intro gated_check reads_intros) (rule auth_session_gate)

lemma gated_mutation [gated_intros]: "gated (session_gate sv q b) (op_bind (mutation_principal sv q) f)"
  by (intro gated_check reads_intros) (rule mutation_gate)

definition public_endpoint :: "endpoint \<Rightarrow> bool" where
  \<comment> \<open>what a visitor without a session may use to get one\<close>
  "public_endpoint e \<longleftrightarrow> e \<in> AuthE ` {PostBootstrap, PostRegistrationVerify, PostAuthenticationOptions, PostAuthenticationVerify}"

lemma auth_gated:
  assumes "\<not> public_endpoint (AuthE e)"
  shows "gated (session_gate sv q (needs_csrf (AuthE e))) (auth_route sv q e)"
  using assms by (cases e) (auto simp: public_endpoint_def needs_csrf_def exempt_paths_def split_def
      intro!: gated_intros intro: gated_reads reads_intros)

lemma security_gated: "gated (session_gate sv q (needs_csrf (SecurityE e))) (security_route sv q e)"
  by (cases e) (auto simp: needs_csrf_def exempt_paths_def split_def intro!: gated_intros)

section \<open>Requests that change something\<close>

lemma session_snd [simp]: "snd (session_principal_of sv q n a) = a"
  by (rule reads_onlyD) (rule reads_intros)

lemma csrf_check_pair: "csrf_check sv q sp a = (require_csrf (auth_of sv) sp (wq_csrf q) (wq_origin q), a)"
  by (simp add: csrf_check_def op_lift_def auth_of_def)

lemma authenticate_cases:
  obtains (refused) m where "fst (session_principal_of sv q 0 a) = Inl (AuthenticationError m)"
      "authenticate_request sv q e a = route sv q None e a"
  | (failed) r where "authenticate_request sv q e a = (r, a)"
  | (passed) sp where "fst (session_principal_of sv q 0 a) = Inr sp"
      "needs_csrf e \<longrightarrow> require_csrf (auth_of sv) sp (wq_csrf q) (wq_origin q) = Inr ()"
      "authenticate_request sv q e a = route sv q (Some (request_identity sp)) e a"
proof (cases "session_principal_of sv q 0 a")
  case (Pair r a')
  then have a: "a' = a" using session_snd [of sv q 0 a] by simp
  show ?thesis
  proof (cases r)
    case (Inl x)
    then show ?thesis using Pair a
      by (cases x) (auto simp: authenticate_request_def intro: refused failed)
  next
    case (Inr sp)
    show ?thesis
    proof (cases "needs_csrf e")
      case False
      then show ?thesis using Pair a Inr by (intro passed [of sp]) (auto simp: authenticate_request_def)
    next
      case True
      show ?thesis
      proof (cases "require_csrf (auth_of sv) sp (wq_csrf q) (wq_origin q)")
        case (Inl x)
        then show ?thesis using Pair a Inr True
          by (cases x) (auto simp: authenticate_request_def csrf_check_pair intro: failed)
      next
        case (Inr u)
        then show ?thesis using Pair a \<open>r = Inr sp\<close> True
          by (intro passed [of sp]) (auto simp: authenticate_request_def csrf_check_pair)
      qed
    qed
  qed
qed

lemma serve_snd: "snd (serve sv q e a) = snd (authenticate_request sv q e a)"
  by (simp add: serve_def split: prod.split sum.split)

definition authority :: "server \<Rightarrow> web_request \<Rightarrow> endpoint \<Rightarrow> app \<Rightarrow> session_principal \<Rightarrow> bool" where
  \<comment> \<open>the principal has the permission of the endpoint, and the request is not forged\<close>
  "authority sv q e a sp \<longleftrightarrow>
     (\<forall>perm. endpoint_permission e = Some perm \<longrightarrow> perm \<in> sp_permissions sp \<or> ADMIN \<in> sp_permissions sp) \<and>
     (needs_csrf e \<longrightarrow> require_csrf (auth_of sv) sp (wq_csrf q) (wq_origin q) = Inr ())"

text \<open>
  C5: a request changes the application only with authority: unless it is one of the four requests
  a visitor signs in with, its cookie belongs to a session that is live when it is checked (by the
  middleware, or again by the routes of authentication and security), the session's principal has the
  permission the endpoint asks for, and a request that is not a plain GET carries the session's CSRF
  token and an allowed origin.
\<close>

theorem changes_need_authority:
  assumes "snd (serve sv q e a) \<noteq> a" "\<not> public_endpoint e"
  shows "\<exists>n sp. n \<le> 1 \<and> fst (session_principal_of sv q n a) = Inr sp \<and> authority sv q e a sp"
proof (cases "endpoint_permission e")
  case (Some perm)
  have g: "permitted p perm" if "snd (route sv q p e a) \<noteq> a" for p
    using gatedD [OF permission_gated [OF Some] that] .
  show ?thesis
  proof (rule authenticate_cases [of sv q a e])
    fix m assume "authenticate_request sv q e a = route sv q None e a"
    then show ?thesis using assms(1) g [of None] by (simp add: serve_snd permitted_def)
  next
    fix r assume "authenticate_request sv q e a = (r, a)"
    then show ?thesis using assms(1) by (simp add: serve_snd)
  next
    fix sp
    assume sp: "fst (session_principal_of sv q 0 a) = Inr sp"
      "needs_csrf e \<longrightarrow> require_csrf (auth_of sv) sp (wq_csrf q) (wq_origin q) = Inr ()"
      "authenticate_request sv q e a = route sv q (Some (request_identity sp)) e a"
    then have "permitted (Some (request_identity sp)) perm"
      using assms(1) g by (simp add: serve_snd)
    then show ?thesis using sp Some by (intro exI [of _ 0] exI [of _ sp]) (auto simp: authority_def permitted_def request_identity_def)
  qed
next
  case None
  then have "gated (session_gate sv q (needs_csrf e)) (route sv q p e)" for p
    using assms(2) by (cases e) (auto intro: auth_gated security_gated)
  from gatedD [OF this] have "snd (route sv q p e a) \<noteq> a \<Longrightarrow> session_gate sv q (needs_csrf e) a" for p .
  moreover have "snd (authenticate_request sv q e a) = a \<or> (\<exists>p. authenticate_request sv q e a = route sv q p e a)"
    by (rule authenticate_cases [of sv q a e]) auto
  ultimately have "session_gate sv q (needs_csrf e) a" using assms(1) by (auto simp: serve_snd)
  then show ?thesis using None by (auto simp: session_gate_def authority_def intro!: exI [of _ 1])
qed

theorem changes_need_authority_witness:
  "\<exists>n sp. n \<le> 1 \<and>
     fst (session_principal_of sample_server (sample_query (Some ''t'') None) n signed_in_app) = Inr sp \<and>
     authority sample_server (sample_query (Some ''t'') None) (AuthE PostLogout) signed_in_app sp"
proof (rule changes_need_authority)
  let ?q = "sample_query (Some ''t'') None" and ?out = "logout (wq_world (sample_query (Some ''t'') None) 2) sample_owner"
  have "snd (serve sample_server ?q (AuthE PostLogout) signed_in_app) = snd (on_sec ?out signed_in_app)"
    by (simp add: serve_def authenticate_request_def owner_recognised owner_csrf needs_csrf_def exempt_paths_def
        mutation_principal_def auth_session_def auth_csrf_def op_bind_def op_catch_def op_return_def op_map_def split_def
        split: sum.split del: sample_world)
  moreover have "sc_sessions (snd (?out (app_sec signed_in_app))) \<noteq> sc_sessions (app_sec signed_in_app)"
    by (simp add: logout_def sec_transact_def signed_in_app_def sample_app_def sample_owner_def sample_sec_def empty_sec_def
        get_session_def row_get_def sample_session_def audit_by_def create_audit_event_def Let_def row_insert_def
        Security_Store.update_session_def row_update_def ebind_def opt_some_def opt_or_def get_user_def get_device_def guard_def)
  moreover have "app_sec (snd (on_sec p a)) = snd (p (app_sec a))" for p :: "unit sop" and a
    by (simp add: on_sec_def split_def)
  ultimately show "snd (serve sample_server ?q (AuthE PostLogout) signed_in_app) \<noteq> signed_in_app"
    by metis
  show "\<not> public_endpoint (AuthE PostLogout)" by (simp add: public_endpoint_def image_iff)
qed

end
