(* ===== verification/App_Views.thy ===== *)
theory App_Views
  imports App_Props
begin

text \<open>
  What the application answers to whom: visitors without a session, requests that only read, and
  requests during a lockdown.
\<close>

section \<open>Bodies that are refused\<close>

abbreviation invalid_only :: "exn + 'a \<Rightarrow> bool" where
  "invalid_only \<equiv> errs (\<lambda>e. e = RequestValidationError)"

named_theorems invalid_intros \<open>readings that fail only with a validation error\<close>

lemma invalid_basic [invalid_intros]:
  "invalid_only refuse" "invalid_only (accept x)" "invalid_only (read_object v)" "invalid_only (read_strict ks v)"
  "invalid_only (read_text lo hi v)" "invalid_only (read_int pd i j v)" "invalid_only (read_one_of vs v)"
  "invalid_only (read_any_text v)" "invalid_only (read_uuid pd v)" "invalid_only (read_position pd v)"
  "invalid_only (normalize_name s)" "invalid_only (checked_model_ref s)" "invalid_only (read_username v)"
  "invalid_only (read_totp_code v)"
  by (auto simp: errs_def refuse_def accept_def read_object_def read_strict_def read_text_def read_int_def read_one_of_def
      read_any_text_def read_uuid_def read_position_def normalize_name_def checked_model_ref_def read_username_def
      read_totp_code_def ebind_def split: option.splits sum.splits pyobj.splits list.splits if_splits)

lemma invalid_field [invalid_intros]:
  "(\<And>v. invalid_only (f v)) \<Longrightarrow> invalid_only (read_field d k f)"
  "(\<And>v. invalid_only (f v)) \<Longrightarrow> invalid_only (read_default d k x f)"
  "(\<And>v. invalid_only (f v)) \<Longrightarrow> invalid_only (read_optional f v)"
  "(\<And>v. invalid_only (f v)) \<Longrightarrow> invalid_only (read_list n f v)"
  by (auto simp: read_field_def read_default_def read_optional_def read_list_def
      intro: invalid_intros errs_intros split: option.split)

lemma invalid_graph_parts [invalid_intros]:
  "invalid_only (read_graph_node pd v)" "invalid_only (read_graph_edge v)"
  unfolding read_graph_node_def read_graph_edge_def by (intro invalid_intros errs_intros)+

lemma invalid_graph [invalid_intros]: "invalid_only (read_graph pd v)"
  unfolding read_graph_def Let_def by (intro invalid_intros errs_intros)

lemma invalid_bodies [invalid_intros]:
  "invalid_only (read_create_agent pd v)" "invalid_only (read_update_graph pd v)" "invalid_only (read_start_run v)"
  "invalid_only (read_approval_payload v)" "invalid_only (read_create_memory pd v)" "invalid_only (read_memory_search pd v)"
  "invalid_only (read_analysis_request v)" "invalid_only (read_folder_request v)" "invalid_only (read_security_approval pd v)"
  unfolding read_create_agent_def read_update_graph_def read_start_run_def read_approval_payload_def read_create_memory_def
    read_memory_search_def read_analysis_request_def read_folder_request_def read_security_approval_def
  by (intro invalid_intros errs_intros)+

lemma invalid_secrets [invalid_intros]:
  "invalid_only (read_bootstrap v)" "invalid_only (read_passkey_registration v)" "invalid_only (read_passkey_authentication v)"
  "invalid_only (read_passkey_verification v)" "invalid_only (read_totp_confirm v)" "invalid_only (read_totp_verify v)"
  "invalid_only (read_rename_device v)" "invalid_only (read_decision v)" "invalid_only (read_create_credential v)"
  "invalid_only (read_replace_credential v)"
  unfolding read_bootstrap_def read_passkey_registration_def read_passkey_authentication_def read_passkey_verification_def
    read_totp_confirm_def read_totp_verify_def read_rename_device_def read_decision_def read_create_credential_def
    read_replace_credential_def read_single_def
  by (intro invalid_intros errs_intros)+

section \<open>Visitors\<close>

definition stranger :: "server \<Rightarrow> web_request \<Rightarrow> app \<Rightarrow> bool" where
  \<comment> \<open>neither the middleware nor a route finds a live session for the cookie\<close>
  "stranger sv q a \<longleftrightarrow> (\<forall>n \<in> {0, 1}. \<exists>m. fst (session_principal_of sv q n a) = Inl (AuthenticationError m))"

definition denied_status :: "exn \<Rightarrow> bool" where
  "denied_status x \<longleftrightarrow> wr_status (reply_of_exn x) \<in> {401, 403, 422}"

definition denied :: "(app \<Rightarrow> bool) \<Rightarrow> 'a web \<Rightarrow> bool" where
  \<comment> \<open>where \<open>R\<close> holds the operation does nothing and raises one and the same error\<close>
  "denied R p \<longleftrightarrow> (\<exists>x. denied_status x \<and> (\<forall>a. R a \<longrightarrow> p a = (Inl x, a)))"

named_theorems denied_intros \<open>operations that fail for visitors\<close>

lemma denied_map: "denied R p \<Longrightarrow> denied R (op_map f p)"
  by (auto simp: denied_def op_map_def op_bind_def)

lemma denied_bind: "denied R p \<Longrightarrow> denied R (op_bind p f)"
  by (auto simp: denied_def op_bind_def)

lemma deniedI: "denied_status x \<Longrightarrow> (\<And>a. R a \<Longrightarrow> p a = (Inl x, a)) \<Longrightarrow> denied R p"
  by (auto simp: denied_def)

lemma denied_statuses:
  "denied_status RequestValidationError" "denied_status (http_error 403 code m)" "denied_status (plain_error 401 m)"
  by (simp_all add: denied_status_def reply_of_exn_def reply_def http_error_def plain_error_def)

lemma denied_after:
  assumes "invalid_only x" "\<And>y. denied R (f y)"
  shows "denied R (op_bind (op_lift x) f)"
proof (cases x)
  case (Inl e)
  then show ?thesis using assms(1)
    by (intro deniedI [of RequestValidationError]) (auto simp: denied_statuses errs_def op_bind_def op_lift_def)
next
  case (Inr y)
  then have "op_bind (op_lift x) f = f y" by (rule_tac ext) (simp add: op_bind_def op_lift_def)
  then show ?thesis using assms(2) by simp
qed

lemma denied_body [denied_intros]:
  "(\<And>v. invalid_only (g v)) \<Longrightarrow> (\<And>y. denied R (f y)) \<Longrightarrow> denied R (op_bind (read_body q g) f)"
  unfolding read_body_def by (intro denied_after errs_intros invalid_intros)

lemma denied_params [denied_intros]:
  "(\<And>i. denied R (h i)) \<Longrightarrow> denied R (op_bind (read_uuid_param sv s) h)"
  "(\<And>n. denied R (k n)) \<Longrightarrow> denied R (op_bind (audit_limit sv t) k)"
  "(\<And>x. denied R (u x)) \<Longrightarrow> denied R (op_bind (read_upload sv q) u)"
  unfolding read_uuid_param_def audit_limit_def read_upload_def split_def
  by (intro denied_after invalid_intros errs_intros; simp split: option.split; intro conjI impI allI errs_intros invalid_intros; simp)+

lemma required_param_lift:
  "required_param sv s = op_lift (ebind (accept s) (\<lambda>s. read_uuid (sv_pydantic sv) (PStr s)))"
  by (rule ext) (simp add: required_param_def read_uuid_param_def op_bind_def op_lift_def ebind_def split: sum.split)

lemma denied_required [denied_intros]: "(\<And>i. denied R (h i)) \<Longrightarrow> denied R (op_bind (required_param sv s) h)"
  unfolding required_param_lift by (intro denied_after invalid_intros errs_intros)

lemma denied_principal: "denied R (web_principal None perm)"
  by (rule deniedI [of "http_error 403 ''FORBIDDEN'' ''Authentication is required''"])
    (simp_all add: denied_statuses web_principal_def op_catch_def op_lift_def request_principal_def forbidden_def ebind_def)

lemma session_message:
  "fst (session_principal_of sv q n a) = Inl (AuthenticationError m) \<Longrightarrow>
     m = (if truthy (wq_cookie q) then ''Session is invalid or expired'' else ''Authentication is required'')"
  by (auto simp: session_principal_of_def on_sec_def principal_from_session_token_def sec_query_def truthy_def Let_def
      stored_le_def ebind_def split: if_splits option.splits prod.splits)

lemma stranger_session:
  assumes "stranger sv q a"
  shows "session_principal_of sv q 1 a = (Inl (AuthenticationError
    (if truthy (wq_cookie q) then ''Session is invalid or expired'' else ''Authentication is required'')), a)"
proof -
  from assms obtain m where m: "fst (session_principal_of sv q 1 a) = Inl (AuthenticationError m)" by (auto simp: stranger_def)
  show ?thesis
    unfolding session_message [OF m, symmetric] using m session_snd [of sv q 1 a] by (simp only: prod_eq_iff fst_conv snd_conv simp_thms)
qed

lemma denied_session: "denied (stranger sv q) (auth_session sv q)"
  by (rule deniedI, rule denied_statuses(3), unfold auth_session_def op_catch_def)
    (simp only: stranger_session prod.case sum.case unauthorized_def exn.case)

lemma denied_mutation: "denied (stranger sv q) (mutation_principal sv q)"
  unfolding mutation_principal_def by (rule denied_bind, rule denied_session)

lemmas denied_checks [denied_intros] =
  denied_bind [OF denied_principal] denied_bind [OF denied_session] denied_bind [OF denied_mutation]

lemma stranger_remote: "e \<noteq> GetHealth \<Longrightarrow> denied R (remote_route sv q None e)"
  by (cases e) (auto intro!: denied_intros invalid_intros)

lemma stranger_nodes: "denied R (node_route sv q None e)"
  by (cases e) (auto intro!: denied_intros)

lemma stranger_memory: "denied R (memory_route sv q None e)"
  by (cases e) (auto intro!: denied_intros invalid_intros split: prod.split)

lemma stranger_lexi: "denied R (lexi_route sv q None e)"
  by (cases e) (auto intro!: denied_intros)

lemma stranger_vision: "denied R (vision_route sv q None e)"
  by (cases e) (auto intro!: denied_intros invalid_intros split: prod.split)

lemma stranger_auth:
  "\<not> public_endpoint (AuthE e) \<Longrightarrow> denied (stranger sv q) (auth_route sv q e)"
  by (cases e) (auto simp: public_endpoint_def split_def intro!: denied_intros invalid_intros denied_map denied_session)

lemma stranger_security: "denied (stranger sv q) (security_route sv q e)"
  by (cases e) (auto simp: split_def intro!: denied_intros invalid_intros)

text \<open>
  C7: a visitor without a live session learns nothing and changes nothing: except for the four requests a
  visitor signs in with and the health check, one reply, with status 401, 403 or 422, answers the request
  whatever the application holds, and the application stays as it is.
\<close>

theorem strangers_learn_nothing:
  assumes "\<not> public_endpoint e" "e \<noteq> RemoteE GetHealth"
  shows "\<exists>r. wr_status r \<in> {401, 403, 422} \<and> (\<forall>a. stranger sv q a \<longrightarrow> serve sv q e a = (r, a))"
proof -
  have "denied (stranger sv q) (route sv q None e)"
    using assms by (cases e) (auto intro: stranger_remote stranger_nodes stranger_memory stranger_lexi stranger_vision
        stranger_auth stranger_security intro!: denied_intros simp: recovery_route_def tools_route_def)
  then obtain x where x: "denied_status x" "\<And>a. stranger sv q a \<Longrightarrow> route sv q None e a = (Inl x, a)"
    by (auto simp: denied_def)
  have "serve sv q e a = (reply_of_exn x, a)" if "stranger sv q a" for a
  proof -
    from that obtain m where "fst (session_principal_of sv q 0 a) = Inl (AuthenticationError m)"
      by (auto simp: stranger_def)
    then have "session_principal_of sv q 0 a = (Inl (AuthenticationError m), a)" by (metis prod.collapse session_snd)
    then show ?thesis using x(2) [OF that] by (simp add: serve_def authenticate_request_def)
  qed
  then show ?thesis using x(1) by (auto simp: denied_status_def)
qed

theorem strangers_learn_nothing_witness:
  "\<exists>r. wr_status r \<in> {401, 403, 422} \<and>
     serve sample_server (sample_query None None) (RemoteE GetAgents) signed_in_app = (r, signed_in_app)"
proof -
  have "stranger sample_server (sample_query None None) signed_in_app"
    by (simp add: stranger_def session_principal_of_def on_sec_def principal_from_session_token_def sec_query_def Let_def)
  moreover have "\<not> public_endpoint (RemoteE GetAgents)" by (simp add: public_endpoint_def image_iff)
  ultimately show ?thesis
    using strangers_learn_nothing [of "RemoteE GetAgents" sample_server "sample_query None None"] by blast
qed

section \<open>Requests that only read\<close>

lemma reads_dispatch:
  assumes "rc_type c \<in> {LIST_AGENTS, GET_AGENT, LIST_RUNS, Remote.GET_RUN, GET_RUN_TREE, LIST_PROVIDERS}"
  shows "reads_only (dispatch cf env fuel rt str c)"
  using assms by (auto simp: dispatch_def perform_def Let_def list_agents_def get_agent_def get_run_def list_runs_def
      tree_query_def intro!: reads_intros)

lemma reads_run_command [reads_intros]:
  "ty \<in> {LIST_AGENTS, GET_AGENT, LIST_RUNS, Remote.GET_RUN, GET_RUN_TREE, LIST_PROVIDERS} \<Longrightarrow>
     reads_only (run_command sv q ty p target payload)"
  unfolding run_command_def by (intro reads_intros reads_dispatch) simp

lemma reads_app_queries [reads_intros]:
  "reads_only (event_history run)" "reads_only (pending_approvals sv)" "(\<And>a. reads_only (f a)) \<Longrightarrow> reads_only (with_state f)"
  by (simp_all add: reads_only_def event_history_def pending_approvals_def with_state_def)

lemma reads_get_run [reads_intros]: "reads_only (get_run i)"
  unfolding get_run_def by (intro reads_intros)

lemma reads_report [reads_intros]: "reads_only (get_recovery_report cf i)"
  unfolding get_recovery_report_def by (auto intro!: reads_intros)

lemma reads_installed [reads_intros]: "reads_only get_installed"
  unfolding get_installed_def list_agents_def by (intro reads_intros)

lemma reads_vision [reads_intros]:
  assumes "reads_only p"
  shows "reads_only (on_vision p)"
proof (unfold reads_only_def, intro allI)
  fix a
  have "snd (p (app_vision a\<lparr>vs_bus := app_bus a\<rparr>)) = app_vision a\<lparr>vs_bus := app_bus a\<rparr>" by (rule reads_onlyD [OF assms])
  then obtain r where "p (app_vision a\<lparr>vs_bus := app_bus a\<rparr>) = (r, app_vision a\<lparr>vs_bus := app_bus a\<rparr>)" by (metis prod.collapse)
  then show "snd (on_vision p a) = a" by (simp add: on_vision_def set_bus_def app_bus_def)
qed

lemma reads_vision_queries [reads_intros]:
  "reads_only (list_assets cf)" "reads_only (get_asset cf i)" "reads_only (list_analyses cf)" "reads_only (get_analysis cf i)"
  "reads_only (list_folders cf)"
  unfolding list_assets_def get_asset_def list_analyses_def get_analysis_def list_folders_def
  by (auto simp: reads_only_def vision_enabled_def op_bind_snd op_lift_def op_return_def op_raise_def split: sum.splits)

lemma reads_require [reads_intros]: "perm \<in> {READ, ADMIN} \<Longrightarrow> reads_only (security_require w p perm mfa)"
  unfolding security_require_def by (auto intro!: reads_intros)

lemma reads_security_queries [reads_intros]:
  "reads_only (list_devices p)" "reads_only (list_approvals w p st)" "reads_only (list_grants w p)"
  "reads_only (get_lockdown_state w p)" "reads_only (list_audit w p n)" "reads_only (require_vault_management w p)"
  unfolding list_devices_def list_approvals_def list_grants_def get_lockdown_state_def list_audit_def
    require_vault_management_def
  by (intro reads_intros; simp)+

lemma reads_vault [reads_intros]: "reads_only (on_vault vault_list_metadata)"
  by (simp add: reads_only_def on_vault_def vault_list_metadata_def with_tables_def sec_query_def)

lemma reads_remote: "fst (remote_at e) = MGet \<Longrightarrow> reads_only (remote_route sv q p e)"
  by (cases e) (auto intro!: reads_intros)

lemma reads_memory: "fst (memory_at e) = MGet \<Longrightarrow> reads_only (memory_route sv q p e)"
  by (cases e) (auto intro!: reads_intros)

lemma reads_images: "fst (vision_at e) = MGet \<Longrightarrow> reads_only (vision_route sv q p e)"
  by (cases e) (auto intro!: reads_intros)

lemma reads_auth: "fst (auth_at e) = MGet \<Longrightarrow> reads_only (auth_route sv q e)"
  by (cases e) (auto intro!: reads_intros)

lemma reads_security: "fst (security_at e) = MGet \<Longrightarrow> reads_only (security_route sv q e)"
  by (cases e) (auto intro!: reads_intros)

lemma reads_lexi: "fst (lexi_at e) = MGet \<Longrightarrow> reads_only (lexi_route sv q p e)"
  by (cases e) (auto intro!: reads_intros)

text \<open>
  C33: a GET request changes nothing: neither agents, runs, approvals, memories and images nor anything of
  the security tables; only the two that list nodes write, since they mark the workers that have fallen
  silent.
\<close>

theorem get_requests_only_read:
  assumes "fst (route_at e) = MGet" "\<forall>i. e \<noteq> NodeE GetNodes \<and> e \<noteq> NodeE (GetNode i)"
  shows "snd (serve sv q e a) = a"
proof -
  have "reads_only (route sv q p e)" for p
  proof (cases e)
    case (NodeE x)
    then show ?thesis using assms by (cases x) auto
  qed (use assms(1) in \<open>auto simp: recovery_route_def tools_route_def
      intro: reads_remote reads_memory reads_images reads_auth reads_security reads_lexi intro!: reads_intros\<close>)
  then have "snd (route sv q p e a) = a" for p by (rule reads_onlyD)
  then have "snd (authenticate_request sv q e a) = a" by (rule_tac authenticate_cases [of sv q a e]) simp_all
  then show ?thesis by (simp add: serve_snd)
qed

theorem get_requests_only_read_witness:
  "snd (serve sample_server (sample_query (Some ''t'') None) (SecurityE GetVault) signed_in_app) = signed_in_app"
  by (rule get_requests_only_read) simp_all

section \<open>Requests during a lockdown\<close>

definition put_sec :: "sec \<Rightarrow> app \<Rightarrow> app" where
  "put_sec s a = a\<lparr>app_sec := s\<rparr>"

definition blind :: "'a web \<Rightarrow> bool" where
  \<comment> \<open>the operation neither reads nor writes the security tables\<close>
  "blind p \<longleftrightarrow> (\<forall>s a. p (put_sec s a) = (fst (p a), put_sec s (snd (p a))))"

named_theorems blind_intros \<open>operations that leave the security tables alone\<close>

lemma blindD: "blind p \<Longrightarrow> p (put_sec s a) = (fst (p a), put_sec s (snd (p a)))"
  by (simp add: blind_def)

lemma blind_basic [blind_intros]: "blind (op_lift x)" "blind (op_return y)" "blind (op_raise e)"
  by (simp_all add: blind_def op_lift_def op_return_def op_raise_def)

lemma blind_bind [blind_intros]:
  assumes "blind p" "\<And>x. blind (f x)"
  shows "blind (op_bind p f)"
proof (unfold blind_def, intro allI)
  fix s a
  show "op_bind p f (put_sec s a) = (fst (op_bind p f a), put_sec s (snd (op_bind p f a)))"
    using blindD [OF assms(1), of s a] blindD [OF assms(2), of _ s "snd (p a)"]
    by (cases "p a") (auto simp: op_bind_def split: sum.split)
qed

lemma blind_map [blind_intros]: "blind p \<Longrightarrow> blind (op_map f p)"
  unfolding op_map_def by (intro blind_intros)

lemma blind_catch [blind_intros]: "blind p \<Longrightarrow> blind (op_catch f p)"
  by (auto simp: blind_def op_catch_def split: prod.split sum.split)

lemma blind_with_state [blind_intros]:
  "(\<And>a. blind (f a)) \<Longrightarrow> (\<And>s a. f (put_sec s a) = f a) \<Longrightarrow> blind (with_state f)"
  by (simp add: blind_def with_state_def)

lemma blind_parts [blind_intros]:
  "blind (on_manager p)" "blind (on_nodes n)" "blind (on_vision v)" "blind (on_approvals x)"
  by (auto simp: blind_def put_sec_def on_manager_def on_nodes_def on_vision_def on_approvals_def set_bus_def app_bus_def
      split: prod.split)

lemma blind_app_queries [blind_intros]: "blind (event_history run)" "blind (pending_approvals sv)"
  by (simp_all add: blind_def put_sec_def event_history_def pending_approvals_def app_bus_def)

lemma blind_requests [blind_intros]:
  "blind (read_body q g)" "blind (read_uuid_param sv s)" "blind (required_param sv t)" "blind (read_upload sv q)"
  "blind (web_principal p perm)" "blind (run_command sv q ty pr target payload)" "blind (new_approval sv q pr d)"
  "blind (approval_decision_route q i b)"
  unfolding read_body_def read_uuid_param_def required_param_lift read_upload_def web_principal_def run_command_def
    new_approval_def approval_decision_route_def
  by (intro blind_intros)+

lemma blind_tool_view: "tool_view (put_sec s a) = tool_view a"
  by (simp add: tool_view_def put_sec_def)

lemma blind_routes:
  "blind (remote_route sv q p e)" "blind (node_route sv q p n)" "blind (memory_route sv q p m)"
  "blind (lexi_route sv q p l)" "blind (vision_route sv q p v)" "blind (recovery_route sv q p i)" "blind (tools_route sv q p i)"
proof -
  show "blind (remote_route sv q p e)" by (cases e) (auto intro!: blind_intros)
  show "blind (node_route sv q p n)" by (cases n) (auto intro!: blind_intros)
  show "blind (memory_route sv q p m)" by (cases m) (auto intro!: blind_intros split: prod.split)
  show "blind (lexi_route sv q p l)" by (cases l) (auto intro!: blind_intros)
  show "blind (vision_route sv q p v)" by (cases v) (auto intro!: blind_intros split: prod.split)
  show "blind (recovery_route sv q p i)" unfolding recovery_route_def by (intro blind_intros)
  show "blind (tools_route sv q p i)" unfolding tools_route_def by (intro blind_intros) (simp add: blind_tool_view)
qed

definition lockdown_set :: "security_state option \<Rightarrow> app \<Rightarrow> app" where
  "lockdown_set st a = put_sec (app_sec a\<lparr>sc_state := st\<rparr>) a"

lemma session_ignores_lockdown:
  "session_principal_of sv q n (lockdown_set st a) = (fst (session_principal_of sv q n a), lockdown_set st a)"
proof -
  have "live_pair u d (x\<lparr>sc_state := st\<rparr>) = live_pair u d x" for u d x
    by (simp add: live_pair_def get_user_def get_device_def)
  then have "fst (session_principal_of sv q n (lockdown_set st a)) = fst (session_principal_of sv q n a)"
    by (simp add: session_principal_of_def on_sec_def principal_from_session_token_def sec_query_def lockdown_set_def put_sec_def
        get_session_by_token_hash_def Let_def
        split: option.split)
  then show ?thesis by (simp add: prod_eq_iff)
qed

text \<open>
  C38: a lockdown does not reach the commands: for every route outside the routers of authentication and
  security, the reply is the one of a server that is not locked down and so is the effect; an agent can be
  run, a run stopped, a tool approved.
\<close>

theorem commands_ignore_lockdown:
  assumes "endpoint_permission e \<noteq> None"
  shows "serve sv q e (lockdown_set st a) = (fst (serve sv q e a), lockdown_set st (snd (serve sv q e a)))"
proof -
  have b: "blind (route sv q p e)" for p using assms by (cases e) (auto intro: blind_routes)
  have keep: "app_sec (snd (route sv q p e a)) = app_sec a" for p
  proof -
    have "route sv q p e (put_sec (app_sec a) a) = route sv q p e a" by (simp add: put_sec_def)
    then have "snd (route sv q p e a) = put_sec (app_sec a) (snd (route sv q p e a))"
      using blindD [OF b, of p "app_sec a" a] by (metis snd_conv)
    then show ?thesis by (metis app.select_convs(3) app.surjective app.update_convs(3) put_sec_def)
  qed
  have r: "route sv q p e (lockdown_set st a) = (fst (route sv q p e a), lockdown_set st (snd (route sv q p e a)))" for p
    using blindD [OF b, of p "app_sec a\<lparr>sc_state := st\<rparr>" a] by (simp add: lockdown_set_def keep)
  have c: "csrf_check sv q sp (lockdown_set st a) = (fst (csrf_check sv q sp a), lockdown_set st a)" for sp
    by (simp add: csrf_check_pair)
  obtain x where s: "session_principal_of sv q 0 a = (x, a)" by (metis prod.collapse session_snd)
  have "authenticate_request sv q e (lockdown_set st a) =
      (fst (authenticate_request sv q e a), lockdown_set st (snd (authenticate_request sv q e a)))"
    unfolding authenticate_request_def session_ignores_lockdown s
    by (auto simp: r csrf_check_pair split: sum.split exn.split)
  then show ?thesis by (simp add: serve_def split: prod.split sum.split)
qed

definition sample_lockdown :: "security_state option" where
  "sample_lockdown = Some \<lparr>ss_lockdown = LockedDown, ss_updated_at = 6\<rparr>"

theorem commands_ignore_lockdown_witness:
  "serve sample_server (sample_query (Some ''t'') None) (RemoteE (PostRun ''x'')) (lockdown_set sample_lockdown signed_in_app) =
    (fst (serve sample_server (sample_query (Some ''t'') None) (RemoteE (PostRun ''x'')) signed_in_app),
     lockdown_set sample_lockdown (snd (serve sample_server (sample_query (Some ''t'') None) (RemoteE (PostRun ''x'')) signed_in_app)))"
  by (rule commands_ignore_lockdown) simp

end
