(* ===== verification/App_Signin.thy ===== *)
theory App_Signin
  imports App_Views
begin

text \<open>Signing in: the cookie a successful authentication sets is the one later requests are recognised by.\<close>

lemma create_session_live:
  assumes "create_session cf h w u device str s = Inr (t, s')"
  obtains r d where "s' = s\<lparr>sc_sessions := sc_sessions s @ [r]\<rparr>" "get_device device s = Some d"
    "list_all (\<lambda>x. se_token_hash x \<noteq> se_token_hash r) (sc_sessions s)"
    "r = \<lparr>se_id = se_id r, se_user_id = us_id u, se_device_id = device, se_token_hash = ah_sha256 h (st_session_token t),
       se_strength = str, se_expires_at = w_now w + seconds (ac_session_ttl cf), se_last_activity_at = w_now w,
       se_step_up_at = None, se_revoked_at = None, se_created_at = w_now w\<rparr>"
    "st_principal t = auth_principal h u (se_id r) device (dv_trust d) str"
  using assms by (fastforce simp: create_session_def create_session_row_def Let_def exn_simps guard_def row_insert_Inr_iff
      get_device_def split: if_splits option.splits)

lemma session_audit_sessions:
  "session_audit w ty u t d s = Inr s' \<Longrightarrow> s' = s\<lparr>sc_audit := sc_audit s'\<rparr>"
  by (auto simp: session_audit_def create_audit_event_def Let_def exn_simps row_insert_Inr_iff)

lemma find_last: "list_all (\<lambda>x. \<not> P x) xs \<Longrightarrow> P r \<Longrightarrow> List.find P (xs @ [r]) = Some r"
  by (induction xs) auto

lemma find_session_new:
  assumes "create_session cf h w u device str s = Inr (t, s')"
  shows "\<exists>r. get_session_by_token_hash (ah_sha256 h (st_session_token t)) s' = Some r \<and> se_user_id r = us_id u \<and>
    se_device_id r = device \<and> se_strength r = str \<and> se_expires_at r = w_now w + seconds (ac_session_ttl cf) \<and>
    se_step_up_at r = None \<and> se_revoked_at r = None \<and>
    (\<exists>d. get_device device s = Some d \<and> st_principal t = auth_principal h u (se_id r) device (dv_trust d) str)"
  using assms
proof (rule create_session_live)
  fix r d
  assume s': "s' = s\<lparr>sc_sessions := sc_sessions s @ [r]\<rparr>" and d: "get_device device s = Some d"
    and new: "list_all (\<lambda>x. se_token_hash x \<noteq> se_token_hash r) (sc_sessions s)"
    and r: "r = \<lparr>se_id = se_id r, se_user_id = us_id u, se_device_id = device, se_token_hash = ah_sha256 h (st_session_token t),
       se_strength = str, se_expires_at = w_now w + seconds (ac_session_ttl cf), se_last_activity_at = w_now w,
       se_step_up_at = None, se_revoked_at = None, se_created_at = w_now w\<rparr>"
    and p: "st_principal t = auth_principal h u (se_id r) device (dv_trust d) str"
  have h: "se_token_hash r = ah_sha256 h (st_session_token t)" by (subst r) simp
  have "get_session_by_token_hash (ah_sha256 h (st_session_token t)) s' = Some r"
    using find_last [of "\<lambda>x. se_token_hash x = se_token_hash r", OF new] by (simp add: get_session_by_token_hash_def s' h)
  moreover have "se_user_id r = us_id u \<and> se_device_id r = device \<and> se_strength r = str \<and>
    se_expires_at r = w_now w + seconds (ac_session_ttl cf) \<and> se_step_up_at r = None \<and> se_revoked_at r = None"
    by (subst (1 2 3 4 5 6) r) simp
  ultimately show ?thesis using d p by blast
qed

lemma live_pair_later:
  "live_pair u d (s\<lparr>sc_sessions := x\<rparr>) = live_pair u d s" "live_pair u d (s\<lparr>sc_audit := y\<rparr>) = live_pair u d s"
  by (simp_all add: live_pair_def get_user_def get_device_def)

lemma live_pair_seen:
  assumes "live_pair u d s = Some (x, y)"
  shows "live_pair (us_id x) (dv_id y) (update_device (dv_id y) None None None t (update_passkey k c None s)) =
      Some (x, y\<lparr>dv_last_authenticated_at := opt_some t (dv_last_authenticated_at y)\<rparr>)"
    and "us_id x = u" "dv_id y = d"
proof -
  from assms have xy: "get_user u s = Some x" "get_device d s = Some y" "us_disabled_at x = None" "dv_revoked_at y = None"
    by (auto simp: live_pair_def split: option.splits if_splits)
  then show ids: "us_id x = u" "dv_id y = d" by (auto simp: get_user_def get_device_def dest: row_get_Some)
  show "live_pair (us_id x) (dv_id y) (update_device (dv_id y) None None None t (update_passkey k c None s)) =
      Some (x, y\<lparr>dv_last_authenticated_at := opt_some t (dv_last_authenticated_at y)\<rparr>)"
    using xy unfolding ids
    by (simp add: live_pair_def get_user_def get_device_def update_device_def update_passkey_def row_get_update opt_or_def
        opt_some_def)
qed

definition signed_in :: "auth_host \<Rightarrow> time \<Rightarrow> string \<Rightarrow> session_principal \<Rightarrow> sec \<Rightarrow> bool" where
  \<comment> \<open>until the given time the token is the one of a live session with this principal\<close>
  "signed_in h until token p s \<longleftrightarrow> (\<exists>r u d. get_session_by_token_hash (ah_sha256 h token) s = Some r \<and>
     se_revoked_at r = None \<and> se_step_up_at r = None \<and> se_expires_at r = until \<and>
     live_pair (se_user_id r) (se_device_id r) s = Some (u, d) \<and>
     p = auth_principal h u (se_id r) (dv_id d) (dv_trust d) (se_strength r))"

lemma authentication_signs_in:
  assumes "finish_passkey_authentication cf h w i credential s = (Inr t, s')"
  shows "signed_in h (w_now w + seconds (ac_session_ttl cf)) (st_session_token t) (st_principal t) s'"
proof -
  from assms have "\<exists>(k :: passkey_row) s1 n u d s2. live_pair (pk_user_id k) (pk_device_id k) s1 = Some (u, d) \<and>
      create_session cf h w u (dv_id d) PasskeyStrength (update_device (dv_id d) None None None (Some (w_now w))
        (update_passkey (pk_id k) (Some n) None s1)) = Inr (t, s2) \<and> session_audit w ''security.login'' u t (dv_id d) s2 = Inr s'"
    by (auto simp: finish_passkey_authentication_def sec_transact_def exn_simps split: sum.splits option.splits prod.splits) blast
  then obtain k :: passkey_row and s1 n u d s2 where
      live: "live_pair (pk_user_id k) (pk_device_id k) s1 = Some (u, d)"
    and c: "create_session cf h w u (dv_id d) PasskeyStrength
        (update_device (dv_id d) None None None (Some (w_now w)) (update_passkey (pk_id k) (Some n) None s1)) = Inr (t, s2)"
    and a: "session_audit w ''security.login'' u t (dv_id d) s2 = Inr s'"
    by blast
  let ?s = "update_device (dv_id d) None None None (Some (w_now w)) (update_passkey (pk_id k) (Some n) None s1)"
  let ?d = "d\<lparr>dv_last_authenticated_at := Some (w_now w)\<rparr>"
  from find_session_new [OF c] obtain r d' where
      r: "get_session_by_token_hash (ah_sha256 h (st_session_token t)) s2 = Some r" "se_user_id r = us_id u"
        "se_device_id r = dv_id d" "se_strength r = PasskeyStrength" "se_expires_at r = w_now w + seconds (ac_session_ttl cf)"
        "se_step_up_at r = None" "se_revoked_at r = None"
    and d': "get_device (dv_id d) ?s = Some d'" "st_principal t = auth_principal h u (se_id r) (dv_id d) (dv_trust d') PasskeyStrength"
    by blast
  have l: "live_pair (us_id u) (dv_id d) ?s = Some (u, ?d)" using live_pair_seen(1) [OF live] by (simp add: opt_some_def)
  then have "d' = ?d" using d'(1) by (auto simp: live_pair_def split: option.splits if_splits)
  moreover from a have s': "s' = s2\<lparr>sc_audit := sc_audit s'\<rparr>" by (rule session_audit_sessions)
  moreover from c obtain x where "s2 = ?s\<lparr>sc_sessions := x\<rparr>" by (rule create_session_live)
  ultimately have "live_pair (us_id u) (dv_id d) s' = Some (u, ?d)" using l by (metis live_pair_later)
  moreover have "get_session_by_token_hash (ah_sha256 h (st_session_token t)) s' = Some r"
    using r(1) by (subst s') (simp add: get_session_by_token_hash_def)
  ultimately show ?thesis using r d' \<open>d' = ?d\<close> by (auto simp: signed_in_def)
qed

lemma signed_in_recognised:
  assumes "signed_in h until token p s" "token \<noteq> []" "ac_aware cf" "w_now w < until"
  shows "principal_from_session_token cf h w (Some token) s = (Inr p, s)"
  using assms by (auto simp: signed_in_def principal_from_session_token_def sec_query_def Let_def stored_le_def ebind_def)

text \<open>
  C13: the cookie of a successful authentication is good for the session's whole life: a later request that
  carries it, before the configured time has passed and nothing else has happened, is recognised, and the
  session route answers with the principal the authentication returned.
\<close>

theorem sign_in_cookie_authenticates:
  assumes "serve sv q (AuthE PostAuthenticationVerify) a = (r, a')" "wr_cookie r = SetCookie token ttl secure"
    and "si_aware (sv_site sv)" "token \<noteq> []" "wq_cookie q' = Some token"
    and "\<And>n. n \<le> 1 \<Longrightarrow> w_now (wq_world q' n) < w_now (wq_world q 2) + seconds ttl"
  shows "serve sv q' (AuthE GetSession) a' = (reply 200 (wr_body r), a')"
proof -
  let ?cf = "auth_config_of (sv_site sv)" and ?h = "si_auth_host (sv_site sv)" and ?ac = "auth_of sv" and ?w = "wq_world q 2"
  have keep: "wr_cookie (reply_of_exn x) = KeepCookie" for x by (simp add: reply_of_exn_def reply_def split: exn.split)
  have "authenticate_request sv q (AuthE PostAuthenticationVerify) a = (Inr r, a')"
    using assms(1,2) keep by (auto simp: serve_def split: prod.splits sum.splits)
  moreover have "\<not> needs_csrf (AuthE PostAuthenticationVerify)" by (simp add: needs_csrf_def exempt_paths_def)
  ultimately have "route sv q None (AuthE PostAuthenticationVerify) a = (Inr r, a')"
    using session_snd [of sv q 0 a] by (cases "session_principal_of sv q 0 a")
      (auto simp: authenticate_request_def simp del: auth_route.simps split: sum.splits exn.splits)
  then have "auth_route sv q PostAuthenticationVerify a = (Inr r, a')" by (simp only: route.simps)
  then obtain i c t s' where f: "finish_passkey_authentication ?ac ?h ?w i c (app_sec a) = (Inr t, s')"
    and r: "r = with_session_cookie sv q t" "a' = a\<lparr>app_sec := s'\<rparr>"
    by (auto simp: read_body_def op_bind_Inr_iff op_lift_def op_map_def op_return_def op_catch_def on_sec_def auth_host_of_def
        split: prod.splits sum.splits)
  from authentication_signs_in [OF f] assms(2) r(1)
  have "signed_in ?h (w_now ?w + seconds (ac_session_ttl ?ac)) token (st_principal t) s'"
    "ttl = ac_session_ttl ?ac"
    by (auto simp: with_session_cookie_def auth_of_def auth_config_of_def Let_def)
  then have "principal_from_session_token ?cf ?h (wq_world q' n) (Some token) s' = (Inr (st_principal t), s')" if "n \<le> 1" for n
    using that assms(3,4,6) by (intro signed_in_recognised) (auto simp: auth_of_def auth_config_of_def Let_def)
  then have "session_principal_of sv q' n a' = (Inr (st_principal t), a')" if "n \<le> 1" for n
    using that assms(5) by (simp add: session_principal_of_def on_sec_def r(2))
  then show ?thesis
    by (simp add: serve_def authenticate_request_def needs_csrf_def auth_session_def op_catch_def op_map_def op_bind_def
        op_return_def r(1) with_session_cookie_def)
qed

definition sample_sign_in :: web_request where
  "sample_sign_in = sample_query None (Some (PDict [(''challenge_id'', PStr ''c''),
     (''credential'', PDict [(''rawId'', PStr ''YQ'')])]))"

lemma uuid_str_nonempty: "uuid_str u \<noteq> []"
  by (simp add: uuid_str_def Let_def)

lemma sample_credential: "base64url_decode ''YQ'' = Inr ''a''"
  by code_simp

lemma sample_finish:
  "\<exists>t s. finish_passkey_authentication (auth_config_of sample_site) (si_auth_host sample_site)
     (wq_world sample_sign_in 2) ''c'' [(''rawId'', PStr ''YQ'')] (app_sec signing_in_app) = (Inr t, s) \<and>
   st_session_token t \<noteq> []"
  by (simp add: finish_passkey_authentication_def sec_transact_def sample_sign_in_def signing_in_app_def sample_app_def
      sample_sec_def empty_sec_def sample_challenge_def pending_challenge_def get_challenge_def row_get_def stored_le_def
      usable_passkey_def dict_get_def sample_credential get_passkey_def sample_auth_host spend_challenge_def
      consume_challenge_def row_update_def guard_def live_pair_def get_user_def get_device_def update_device_def
      update_passkey_def create_session_def create_session_row_def row_insert_def get_session_def auth_principal_def
      session_audit_def create_audit_event_def Let_def ebind_def opt_some_def opt_or_def
      uuid_str_nonempty)

theorem sign_in_cookie_authenticates_witness:
  "\<exists>r a' token. serve sample_server sample_sign_in (AuthE PostAuthenticationVerify) signing_in_app = (r, a') \<and>
     wr_cookie r = SetCookie token (se_session_ttl_seconds default_settings) False \<and>
     serve sample_server (sample_query (Some token) None) (AuthE GetSession) a' = (reply 200 (wr_body r), a')"
proof -
  obtain t s where t: "finish_passkey_authentication (auth_config_of sample_site) (si_auth_host sample_site)
     (wq_world sample_sign_in 2) ''c'' [(''rawId'', PStr ''YQ'')] (app_sec signing_in_app) = (Inr t, s)"
    "st_session_token t \<noteq> []" using sample_finish by blast
  let ?r = "with_session_cookie sample_server sample_sign_in t" and ?a' = "signing_in_app\<lparr>app_sec := s\<rparr>"
  have "session_principal_of sample_server sample_sign_in 0 signing_in_app =
      (Inl (AuthenticationError ''Authentication is required''), signing_in_app)"
    by (simp add: session_principal_of_def on_sec_def principal_from_session_token_def sec_query_def Let_def sample_sign_in_def)
  then have served: "serve sample_server sample_sign_in (AuthE PostAuthenticationVerify) signing_in_app = (?r, ?a')"
    using t(1)
    by (simp add: serve_def authenticate_request_def read_body_def sample_sign_in_def read_passkey_verification_def
        op_bind_def op_lift_def op_map_def op_return_def op_catch_def on_sec_def auth_of_def auth_host_of_def accept_def
        read_strict_def read_object_def dict_keys_within_def read_field_def read_text_def ebind_def
        del: sample_world(1) sample_auth)
  have c: "wr_cookie ?r = SetCookie (st_session_token t) (se_session_ttl_seconds default_settings) False"
    by (simp add: with_session_cookie_def sample_sign_in_def)
  have later: "w_now (wq_world (sample_query (Some (st_session_token t)) None) n) <
      w_now (wq_world sample_sign_in 2) + seconds (se_session_ttl_seconds default_settings)" for n
    by (simp add: sample_sign_in_def default_settings_def seconds_def)
  have "serve sample_server (sample_query (Some (st_session_token t)) None) (AuthE GetSession) ?a' = (reply 200 (wr_body ?r), ?a')"
    by (rule sign_in_cookie_authenticates [OF served c _ t(2) _ later]) (simp_all add: sample_site_def)
  with served c show ?thesis by blast
qed

end
