(* ===== verification/Http_Legacy.thy ===== *)
theory Http_Legacy
  imports App_Props
begin

text \<open>
  \<open>api/routes.py\<close>: the first version of the interface, a router the application no longer includes. Its
  handlers call the run manager directly, for whoever asks. The property compares them with the handlers of
  \<open>api/remote.py\<close> that took their place.
\<close>

datatype legacy_endpoint =
    LHealth | LProviders | LCreateAgent | LAgents | LAgent string | LDeleteAgent string | LAgentStatus string
  | LRunAgent | LRun string | LStopRun string | LAgentRuns string

definition read_run_agent :: "pydantic \<Rightarrow> pyobj \<Rightarrow> exn + uuid \<times> string" where
  "read_run_agent pd v = ebind (read_object v) (\<lambda>d. ebind (read_field d ''agent_id'' (read_uuid pd)) (\<lambda>i.
     ebind (read_field d ''input_text'' (read_text 1 100000)) (\<lambda>s. Inr (i, s))))"

definition agent_404 :: "exn \<Rightarrow> exn" where
  "agent_404 e = (case e of AgentNotFoundError \<Rightarrow> plain_error 404 ''Agent not found'' | _ \<Rightarrow> e)"

definition run_404 :: "exn \<Rightarrow> exn" where
  "run_404 e = (case e of RunNotFoundError \<Rightarrow> plain_error 404 ''Run not found'' | _ \<Rightarrow> e)"

definition lifecycle_409 :: "exn \<Rightarrow> exn" where
  "lifecycle_409 e = (case e of LifecycleConflictError m \<Rightarrow> plain_error 409 m | _ \<Rightarrow> e)"

definition manager_call :: "server \<Rightarrow> (world \<Rightarrow> 'a op) \<Rightarrow> 'a web" where
  "manager_call sv f = on_manager (with_state (\<lambda>m. f (en_world (sv_env sv) m)))"

definition legacy_health :: "web_reply web" where
  "legacy_health = op_return (reply 200 (PDict [(''status'', PStr ''ok'')]))"

definition legacy_list_providers :: "server \<Rightarrow> web_reply web" where
  "legacy_list_providers sv = op_map (\<lambda>ps. reply 200 (PList (map provider_response ps))) (op_lift (provider_statuses (sv_router sv)))"

definition legacy_create_agent :: "server \<Rightarrow> web_request \<Rightarrow> web_reply web" where
  "legacy_create_agent sv q = op_bind (read_body q (read_create_agent (sv_pydantic sv))) (\<lambda>d.
     op_map (\<lambda>a. reply 201 (agent_response a)) (manager_call sv (\<lambda>w. create_agent (manager_config (sv_site sv)) w
       (ca_name d) (ca_description d) (ca_model_ref d) (dump_graph (ca_graph d)))))"

definition legacy_list_agents :: "web_reply web" where
  "legacy_list_agents = op_map (\<lambda>as. reply 200 (PList (map agent_response as))) (on_manager list_agents)"

definition legacy_get_agent :: "server \<Rightarrow> string \<Rightarrow> web_reply web" where
  \<comment> \<open>\<open>get_agent\<close>, and \<open>get_agent_status\<close>, which calls it\<close>
  "legacy_get_agent sv s = op_bind (read_uuid_param sv s) (\<lambda>i. op_map (\<lambda>a. reply 200 (agent_response a))
     (op_catch agent_404 (on_manager (get_agent i))))"

definition legacy_delete_agent :: "server \<Rightarrow> string \<Rightarrow> web_reply web" where
  "legacy_delete_agent sv s = op_bind (read_uuid_param sv s) (\<lambda>i. op_map (\<lambda>_. reply 204 PNone)
     (op_catch (lifecycle_409 \<circ> agent_404) (on_manager (delete_agent (manager_config (sv_site sv)) i))))"

definition legacy_run_agent :: "server \<Rightarrow> web_request \<Rightarrow> web_reply web" where
  "legacy_run_agent sv q = op_bind (read_body q (read_run_agent (sv_pydantic sv))) (\<lambda>(i, input).
     op_map (\<lambda>r. reply 202 (run_response r)) (op_catch (lifecycle_409 \<circ> agent_404)
       (manager_call sv (\<lambda>w. start_run (manager_config (sv_site sv)) w i input))))"

definition legacy_get_run :: "server \<Rightarrow> string \<Rightarrow> web_reply web" where
  "legacy_get_run sv s = op_bind (read_uuid_param sv s) (\<lambda>i. op_map (\<lambda>r. reply 200 (run_response r))
     (op_catch run_404 (on_manager (get_run i))))"

definition legacy_stop_run :: "server \<Rightarrow> string \<Rightarrow> web_reply web" where
  "legacy_stop_run sv s = op_bind (read_uuid_param sv s) (\<lambda>i. op_map (\<lambda>r. reply 200 (run_response r))
     (op_catch (lifecycle_409 \<circ> run_404) (on_manager (stop_run (manager_config (sv_site sv)) (sv_env sv) (sv_fuel sv) i))))"

definition legacy_list_agent_runs :: "server \<Rightarrow> string \<Rightarrow> web_reply web" where
  "legacy_list_agent_runs sv s = op_bind (read_uuid_param sv s) (\<lambda>i. op_map (\<lambda>rs. reply 200 (PList (map run_response rs)))
     (op_catch agent_404 (on_manager (list_runs i))))"

lemmas legacy_handlers = legacy_health_def legacy_list_providers_def legacy_create_agent_def legacy_list_agents_def
  legacy_get_agent_def legacy_delete_agent_def legacy_run_agent_def legacy_get_run_def legacy_stop_run_def
  legacy_list_agent_runs_def

fun legacy_route :: "server \<Rightarrow> web_request \<Rightarrow> legacy_endpoint \<Rightarrow> web_reply web" where
  "legacy_route sv q LHealth = legacy_health"
| "legacy_route sv q LProviders = legacy_list_providers sv"
| "legacy_route sv q LCreateAgent = legacy_create_agent sv q"
| "legacy_route sv q LAgents = legacy_list_agents"
| "legacy_route sv q (LAgent i) = legacy_get_agent sv i"
| "legacy_route sv q (LDeleteAgent i) = legacy_delete_agent sv i"
| "legacy_route sv q (LAgentStatus i) = legacy_get_agent sv i"
| "legacy_route sv q LRunAgent = legacy_run_agent sv q"
| "legacy_route sv q (LRun i) = legacy_get_run sv i"
| "legacy_route sv q (LStopRun i) = legacy_stop_run sv i"
| "legacy_route sv q (LAgentRuns i) = legacy_list_agent_runs sv i"

section \<open>The handlers that took their place\<close>

fun successor :: "legacy_endpoint \<Rightarrow> remote_endpoint option" where
  "successor LHealth = Some GetHealth"
| "successor LProviders = Some GetProviders"
| "successor LCreateAgent = Some PostAgent"
| "successor LAgents = Some GetAgents"
| "successor (LAgent i) = Some (GetAgent i)"
| "successor (LRun i) = Some (GetRun i)"
| "successor (LStopRun i) = Some (PostStop i)"
| "successor (LAgentRuns i) = Some (GetAgentRuns i)"
| "successor _ = None"

fun path_ids :: "legacy_endpoint \<Rightarrow> string list" where
  "path_ids (LAgent i) = [i]"
| "path_ids (LRun i) = [i]"
| "path_ids (LStopRun i) = [i]"
| "path_ids (LAgentRuns i) = [i]"
| "path_ids _ = []"

definition agree :: "'a web \<Rightarrow> 'a web \<Rightarrow> bool" where
  \<comment> \<open>the same effect, and the same answer when there is one\<close>
  "agree p q \<longleftrightarrow> (\<forall>a. snd (p a) = snd (q a) \<and> (\<forall>r. fst (p a) = Inr r \<longleftrightarrow> fst (q a) = Inr r))"

lemma permitted_principal: "permitted p perm \<Longrightarrow> web_principal p perm a = (Inr (the p), a)"
  by (auto simp: permitted_def web_principal_def op_catch_def op_lift_def request_principal_def require_def exn_simps)

lemma permitted_dispatch:
  "permitted p perm \<Longrightarrow> command_permission (rc_type c) = Some perm \<Longrightarrow> rc_principal c = the p \<Longrightarrow>
   dispatch cf env fuel rt str c = perform cf env fuel rt str c"
  by (auto simp: permitted_def dispatch_def require_def op_bind_def op_lift_def fun_eq_iff)

lemma command_agrees:
  assumes "permitted p perm" "command_permission ty = Some perm"
    and body: "\<And>c. rc_type c = ty \<Longrightarrow> rc_target_id c = t \<Longrightarrow> rc_payload c = pl \<Longrightarrow>
      perform (manager_config (sv_site sv)) (sv_env sv) (sv_fuel sv) (sv_router sv) (si_str (sv_site sv)) c = op_map K body"
    and "\<And>x. f (command_response (K x)) = g x"
  shows "agree (op_bind (web_principal p perm) (\<lambda>pr. op_map f (op_catch h (run_command sv q ty pr t pl))))
    (op_map g (op_catch h' (on_manager body)))"
proof -
  have d: "dispatch (manager_config (sv_site sv)) (sv_env sv) (sv_fuel sv) (sv_router sv) (si_str (sv_site sv))
      \<lparr>rc_id = i, rc_type = ty, rc_principal = the p, rc_target_id = t, rc_payload = pl\<rparr> = op_map K body" for i
    by (subst permitted_dispatch [OF assms(1)]) (simp_all add: assms(2) body)
  show ?thesis
    using assms(4)
    by (auto simp: agree_def op_bind_def permitted_principal [OF assms(1)] op_map_def op_catch_def run_command_def d
        on_manager_def op_return_def split: prod.split sum.split)
qed

lemma op_catch_id: "op_catch (\<lambda>e. e) p = p"
  by (auto simp: op_catch_def fun_eq_iff split: prod.split sum.split)

lemmas command_agrees_plain = command_agrees [where h = "\<lambda>e. e" and h' = "\<lambda>e. e", unfolded op_catch_id]
  command_agrees [where h' = "\<lambda>e. e", unfolded op_catch_id]

lemma agree_body: "(\<And>x. agree (f x) (g x)) \<Longrightarrow> agree (op_bind (read_body q r) f) (op_bind (read_body q r) g)"
  by (auto simp: agree_def op_bind_def read_body_def op_lift_def split: prod.split sum.split)

lemma uuid_param: "pd_uuid (sv_pydantic sv) (PStr s) = Some u \<Longrightarrow> op_bind (read_uuid_param sv s) f = f u"
  by (simp add: read_uuid_param_def op_bind_def op_lift_def read_uuid_def accept_def fun_eq_iff)

lemma target_bind: "uuid_parse s = Some u \<Longrightarrow> op_bind (op_lift (target_uuid (Some s))) f = f u"
  by (simp add: target_uuid_def required_def op_bind_def op_lift_def fun_eq_iff ebind_def)

lemma create_performed:
  assumes "rc_type c = CREATE_AGENT" "rc_payload c = [(''name'', PStr name), (''description'', opt_str d), (''model_ref'', PStr r),
    (''graph_definition'', PDict g)]"
  shows "perform cf env fuel rt str c = op_map AgentResult (with_state (\<lambda>m. create_agent cf (en_world env m) name d r g))"
proof -
  have "as_str (opt_str d) = d" by (cases d) (simp_all add: opt_str_def)
  then show ?thesis using assms
    by (simp add: perform_def Let_def payload_item_def text_of_def graph_argument_def dict_get_def op_map_def op_bind_def
        op_lift_def op_return_def with_state_def fun_eq_iff)
qed

text \<open>
  The versioned interface does what the first version did, behind a permission: for a caller with the
  permission the new endpoint asks for, and ids that pydantic and \<open>UUID\<close> read alike, a handler of
  \<open>api/remote.py\<close> has the same effect on the application as its predecessor in \<open>api/routes.py\<close>, and answers
  the same whenever either answers; only the errors they raise differ.
\<close>

theorem versioned_api_does_what_legacy_did:
  assumes "successor e = Some e'" "permitted p (remote_permission e')"
    and "\<forall>s \<in> set (path_ids e). \<exists>u. pd_uuid (sv_pydantic sv) (PStr s) = Some u \<and> uuid_parse s = Some u"
  shows "agree (remote_route sv q p e') (legacy_route sv q e)"
proof (cases e)
  case LHealth
  then show ?thesis using assms(1) by (auto simp: agree_def legacy_health_def)
next
  case LProviders
  have "agree (remote_route sv q p GetProviders) (op_map (\<lambda>ps. reply 200 (PList (map provider_response ps)))
      (on_manager (op_lift (provider_statuses (sv_router sv)))))"
    using assms LProviders
    by (simp, intro command_agrees_plain) (auto simp: perform_def command_response_def)
  then show ?thesis using assms(1) LProviders 
   by (auto simp: legacy_list_providers_def agree_def on_manager_def op_lift_def op_map_def op_bind_def)
next
  case LCreateAgent
  show ?thesis using assms LCreateAgent
    by (auto simp: legacy_create_agent_def manager_call_def create_performed command_response_def
        intro!: agree_body command_agrees_plain(2))
next
  case LAgents
  show ?thesis using assms LAgents
    by (auto simp: legacy_list_agents_def perform_def command_response_def intro!: command_agrees_plain(1))
next
  case (LAgent s)
  then obtain u where "pd_uuid (sv_pydantic sv) (PStr s) = Some u" "uuid_parse s = Some u" using assms(3) by auto
  then show ?thesis using assms LAgent
    by (auto simp: legacy_get_agent_def uuid_param target_bind perform_def command_response_def Let_def intro!: command_agrees)
next
  case (LRun s)
  then obtain u where "pd_uuid (sv_pydantic sv) (PStr s) = Some u" "uuid_parse s = Some u" using assms(3) by auto
  then show ?thesis using assms LRun
    by (auto simp: legacy_get_run_def uuid_param target_bind perform_def command_response_def Let_def intro!: command_agrees)
next
  case (LStopRun s)
  then obtain u where "pd_uuid (sv_pydantic sv) (PStr s) = Some u" "uuid_parse s = Some u" using assms(3) by auto
  then show ?thesis using assms LStopRun
    by (auto simp: legacy_stop_run_def uuid_param target_bind perform_def command_response_def Let_def intro!: command_agrees)
next
  case (LAgentRuns s)
  then obtain u where "pd_uuid (sv_pydantic sv) (PStr s) = Some u" "uuid_parse s = Some u" using assms(3) by auto
  then show ?thesis using assms LAgentRuns
    by (auto simp: legacy_list_agent_runs_def uuid_param target_bind perform_def command_response_def Let_def intro!: command_agrees)
qed (use assms(1) in auto)
definition sample_caller :: principal where
  "sample_caller = \<lparr>pr_identity = ''u'', pr_permissions = {EXECUTE}\<rparr>"

theorem versioned_api_does_what_legacy_did_witness:
  "agree (remote_route sample_server (sample_query None None) (Some sample_caller) PostAgent)
     (legacy_route sample_server (sample_query None None) LCreateAgent)"
  by (rule versioned_api_does_what_legacy_did) (simp_all add: permitted_def sample_caller_def)

end
