(* ===== verification/Schemas_Props.thy ===== *)
theory Schemas_Props
  imports Schemas
begin

text \<open>
  What a validated graph looks like, and that the form in which it is stored, \<open>model_dump\<close>, is a payload
  that is accepted again and read back unchanged: the client can send a graph it has received.
\<close>

section \<open>Readers that accept\<close>

lemma accept_Inr [exn_simps]: "accept x = Inr v \<longleftrightarrow> x = Some v"
  by (simp add: accept_def refuse_def split: option.split)

lemma refuse_Inr [exn_simps]: "refuse = Inr v \<longleftrightarrow> False"
  by (simp add: refuse_def)

lemma read_text_Inr [exn_simps]: "read_text lo hi v = Inr s \<longleftrightarrow> v = PStr s \<and> lo \<le> length s \<and> length s \<le> hi"
  by (auto simp: read_text_def exn_simps split: pyobj.split)

lemma read_int_Inr [exn_simps]: "read_int pd lo hi v = Inr i \<longleftrightarrow> pd_int pd v = Some i \<and> lo \<le> i \<and> i \<le> hi"
  by (auto simp: read_int_def exn_simps)

lemma read_optional_Inr [exn_simps]:
  "read_optional f v = Inr x \<longleftrightarrow> (if v = PNone then x = None else \<exists>y. f v = Inr y \<and> x = Some y)"
  by (auto simp: read_optional_def exn_simps)

lemma read_default_Inr [exn_simps]:
  "read_default d k x f = Inr y \<longleftrightarrow> (case map_of d k of None \<Rightarrow> y = x | Some v \<Rightarrow> f v = Inr y)"
  by (auto simp: read_default_def split: option.split)

lemma read_field_Inr [exn_simps]: "read_field d k f = Inr y \<longleftrightarrow> (\<exists>v. map_of d k = Some v \<and> f v = Inr y)"
  by (auto simp: read_field_def exn_simps split: option.split)

lemma read_strict_Inr [exn_simps]: "read_strict ks v = Inr d \<longleftrightarrow> v = PDict d \<and> dict_keys_within d ks"
  by (auto simp: read_strict_def read_object_def exn_simps)

lemma emap_Inr_iff: "emap f xs = Inr ys \<longleftrightarrow> list_all2 (\<lambda>x y. f x = Inr y) xs ys"
  by (induction xs arbitrary: ys) (auto simp: exn_simps list_all2_Cons1)

lemma read_list_Inr [exn_simps]:
  "read_list n f v = Inr ys \<longleftrightarrow> (\<exists>xs. v = PList xs \<and> length xs \<le> n \<and> list_all2 (\<lambda>x y. f x = Inr y) xs ys)"
  by (auto simp: read_list_def exn_simps emap_Inr_iff)

section \<open>Graphs\<close>

definition reads_back :: "pydantic \<Rightarrow> bool" where
  \<comment> \<open>pydantic reads an integer, a float and the text of a UUID as what they are\<close>
  "reads_back pd \<longleftrightarrow> (\<forall>i. pd_int pd (PInt i) = Some i) \<and> (\<forall>r. pd_float pd (PFloat r) = Some r) \<and>
     (\<forall>v u. pd_uuid pd v = Some u \<longrightarrow> pd_uuid pd (PStr (uuid_str u)) = Some u)"

definition node_shape :: "pydantic \<Rightarrow> graph_node \<Rightarrow> bool" where
  "node_shape pd n \<longleftrightarrow> 1 \<le> length (gn_id n) \<and> length (gn_id n) \<le> 100 \<and> 1 \<le> length (gn_type n) \<and> length (gn_type n) \<le> 50 \<and>
     1 \<le> length (gn_label n) \<and> length (gn_label n) \<le> 200 \<and>
     (\<forall>u. gn_agent_id n = Some u \<longrightarrow> pd_uuid pd (PStr (uuid_str u)) = Some u) \<and>
     (\<forall>s. gn_instructions n = Some s \<longrightarrow> length s \<le> 4000)"

lemma read_node_shape:
  assumes "reads_back pd" "read_graph_node pd v = Inr n"
  shows "node_shape pd n"
proof -
  have "(\<forall>u. a = Some u \<longrightarrow> pd_uuid pd (PStr (uuid_str u)) = Some u)"
    if "read_default d ''agent_id'' None (read_optional (\<lambda>v. accept (pd_uuid pd v))) = Inr a" for d a
    using that assms(1) by (auto simp: exn_simps reads_back_def split: option.splits if_splits)
  moreover have "(\<forall>s. t = Some s \<longrightarrow> length s \<le> 4000)"
    if "read_default d ''instructions'' None (read_optional (read_text 0 4000)) = Inr t" for d t
    using that by (auto simp: exn_simps split: option.splits if_splits)
  moreover have "1 \<le> length ty \<and> length ty \<le> 50" if "read_default d ''type'' ''agent'' (read_text 1 50) = Inr ty" for d ty
    using that by (auto simp: exn_simps split: option.splits)
  ultimately show ?thesis
    using assms(2) unfolding read_graph_node_def ebind_Inr_iff node_shape_def
    by (clarsimp simp: read_field_Inr read_text_Inr)
qed

lemma read_dumped_node:
  assumes "reads_back pd" "node_shape pd n"
  shows "read_graph_node pd (dump_node n) = Inr n"
  using assms unfolding read_graph_node_def dump_node_def node_shape_def reads_back_def
  by (cases "gn_agent_id n"; cases "gn_instructions n"; cases "gn_position n")
    (simp_all add: read_strict_def read_object_def accept_def drop_nones_def opt_str_def dict_keys_within_def ebind_def
      read_field_def read_default_def read_text_def read_position_def read_optional_def)

lemma read_dumped_edge:
  assumes "read_graph_edge v = Inr e"
  shows "read_graph_edge (dump_edge e) = Inr e"
proof -
  from assms have "1 \<le> length (ge_id e) \<and> length (ge_id e) \<le> 100 \<and> 1 \<le> length (ge_source e) \<and> length (ge_source e) \<le> 100 \<and>
      1 \<le> length (ge_target e) \<and> length (ge_target e) \<le> 100"
    unfolding read_graph_edge_def ebind_Inr_iff by (auto simp: read_field_Inr read_text_Inr)
  then show ?thesis
    by (simp add: read_graph_edge_def dump_edge_def read_strict_def read_object_def accept_def dict_keys_within_def
        ebind_def read_field_def read_text_def)
qed

lemma emap_dumped: "list_all2 (\<lambda>x y. f x = Inr y) xs ys \<Longrightarrow> (\<And>x y. f x = Inr y \<Longrightarrow> f (g y) = Inr y) \<Longrightarrow> emap f (map g ys) = Inr ys"
  by (induction rule: list_all2_induct) (auto simp: exn_simps ebind_def)

lemma runtime_read: "read_one_of runtime_names v = Inr r \<longleftrightarrow> v = PStr r \<and> r \<in> {''model-v1'', ''lexi-v1'', ''team-v1''}"
  by (auto simp: read_one_of_def runtime_names_def exn_simps)

text \<open>
  C29: a graph that was accepted in a request can be sent again: its stored form is accepted as it is and
  read back as the same graph.
\<close>

theorem graph_payload_round_trip:
  assumes "reads_back pd" "read_graph pd v = Inr g"
  shows "read_graph pd (PDict (dump_graph g)) = Inr g"
proof -
  have "\<exists>d. read_default d ''version'' None (read_optional (read_int pd 1 2)) = Inr (gd_version g) \<and>
      read_default d ''runtime'' None (read_optional (read_one_of runtime_names)) = Inr (gd_runtime g) \<and>
      read_default d ''nodes'' [] (read_list 100 (read_graph_node pd)) = Inr (gd_nodes g) \<and>
      read_default d ''edges'' [] (read_list 200 read_graph_edge) = Inr (gd_edges g) \<and> team_shape g"
    using assms(2) unfolding read_graph_def ebind_Inr_iff Let_def by (auto simp: refuse_Inr split: if_splits)
  then obtain d where
      version: "read_default d ''version'' None (read_optional (read_int pd 1 2)) = Inr (gd_version g)"
    and runtime: "read_default d ''runtime'' None (read_optional (read_one_of runtime_names)) = Inr (gd_runtime g)"
    and nodes: "read_default d ''nodes'' [] (read_list 100 (read_graph_node pd)) = Inr (gd_nodes g)"
    and edges: "read_default d ''edges'' [] (read_list 200 read_graph_edge) = Inr (gd_edges g)"
    and shape: "team_shape g"
    by blast
  have v: "\<forall>i. gd_version g = Some i \<longrightarrow> 1 \<le> i \<and> i \<le> 2"
    using version by (auto simp: exn_simps split: option.splits if_splits)
  have r: "\<forall>x. gd_runtime g = Some x \<longrightarrow> read_one_of runtime_names (PStr x) = Inr x"
    using runtime by (auto simp: exn_simps runtime_read split: option.splits if_splits)
  obtain xs where xs: "length xs \<le> 100" "list_all2 (\<lambda>x y. read_graph_node pd x = Inr y) xs (gd_nodes g)"
    using nodes by (cases "map_of d ''nodes''") (auto simp: exn_simps)
  obtain ys where ys: "length ys \<le> 200" "list_all2 (\<lambda>x y. read_graph_edge x = Inr y) ys (gd_edges g)"
    using edges by (cases "map_of d ''edges''") (auto simp: exn_simps)
  have "length (gd_nodes g) \<le> 100" "length (gd_edges g) \<le> 200" using xs ys by (auto dest: list_all2_lengthD)
  moreover have "emap (read_graph_node pd) (map dump_node (gd_nodes g)) = Inr (gd_nodes g)"
    using xs(2) by (rule emap_dumped) (rule read_dumped_node [OF assms(1) read_node_shape [OF assms(1)]])
  moreover have "emap read_graph_edge (map dump_edge (gd_edges g)) = Inr (gd_edges g)"
    using ys(2) by (rule emap_dumped) (rule read_dumped_edge)
  ultimately have lists: "read_list 100 (read_graph_node pd) (PList (map dump_node (gd_nodes g))) = Inr (gd_nodes g)"
    "read_list 200 read_graph_edge (PList (map dump_edge (gd_edges g))) = Inr (gd_edges g)"
    by (simp_all add: read_list_def accept_def ebind_def)
  have i: "\<forall>i. pd_int pd (PInt i) = Some i" using assms(1) by (simp add: reads_back_def)
  obtain vs rt ns es where g: "g = \<lparr>gd_version = vs, gd_runtime = rt, gd_nodes = ns, gd_edges = es\<rparr>" by (cases g)
  show ?thesis
    using v r i lists shape unfolding read_graph_def dump_graph_def g
    by (cases vs; cases rt)
      (simp_all add: read_strict_def read_object_def accept_def drop_nones_def opt_str_def opt_int_def dict_keys_within_def
        ebind_def read_default_def read_optional_def read_int_def Let_def)
qed

definition plain_pydantic :: pydantic where
  \<comment> \<open>a reading that accepts nothing but integers, floats and UUIDs in their canonical form\<close>
  "plain_pydantic = \<lparr>pd_int = (\<lambda>v. case v of PInt i \<Rightarrow> Some i | _ \<Rightarrow> None),
     pd_float = (\<lambda>v. case v of PFloat r \<Rightarrow> Some r | _ \<Rightarrow> None),
     pd_uuid = (\<lambda>v. case v of PStr s \<Rightarrow> (case uuid_parse s of
        Some u \<Rightarrow> if uuid_parse (uuid_str u) = Some u then Some u else None | None \<Rightarrow> None) | _ \<Rightarrow> None)\<rparr>"

lemma plain_reads_back: "reads_back plain_pydantic"
  by (auto simp: reads_back_def plain_pydantic_def split: pyobj.splits option.splits if_splits)

definition sample_graph :: graph_definition where
  "sample_graph = \<lparr>gd_version = Some 1, gd_runtime = Some ''model-v1'',
     gd_nodes = [\<lparr>gn_id = ''a'', gn_type = ''agent'', gn_label = ''A'', gn_position = (1, 2), gn_agent_id = None,
       gn_instructions = None\<rparr>], gd_edges = []\<rparr>"

definition sample_graph_payload :: pyobj where
  "sample_graph_payload = PDict [(''runtime'', PStr ''model-v1''), (''version'', PInt 1),
     (''nodes'', PList [PDict [(''label'', PStr ''A''), (''id'', PStr ''a''), (''position'', PList [PFloat 1, PFloat 2]),
        (''agent_id'', PNone)]])]"

theorem graph_payload_round_trip_witness:
  "read_graph plain_pydantic sample_graph_payload = Inr sample_graph \<and>
   read_graph plain_pydantic (PDict (dump_graph sample_graph)) = Inr sample_graph"
proof
  show s: "read_graph plain_pydantic sample_graph_payload = Inr sample_graph"
    by (simp add: sample_graph_payload_def sample_graph_def read_graph_def read_graph_node_def read_strict_def read_object_def
        accept_def dict_keys_within_def ebind_def read_default_def read_optional_def read_int_def read_list_def read_field_def
        read_text_def read_position_def read_one_of_def runtime_names_def plain_pydantic_def team_shape_def)
  show "read_graph plain_pydantic (PDict (dump_graph sample_graph)) = Inr sample_graph"
    by (rule graph_payload_round_trip [OF plain_reads_back s])
qed

end
