(* ===== verification/Startup.thy ===== *)
theory Startup
  imports App_Sample Recovery_Correct
begin

text \<open>
  Configuration and start-up: what holds of the router that is built from the settings, of the limits the
  settings put on the components, and of the application when its first request is served.
\<close>

section \<open>The router\<close>

lemma entries_keep_contract:
  "pv_complete (ollama_entry si base) rq = Inl e \<Longrightarrow> e = CancelledError \<or> (\<exists>c m. e = ModelRouterError c m)"
  "pv_complete (opencode_entry si oc) rq = Inl e \<Longrightarrow> e = CancelledError \<or> (\<exists>c m. e = ModelRouterError c m)"
  "pv_complete (openai_entry si oa) rq = Inl e \<Longrightarrow> e = CancelledError \<or> (\<exists>c m. e = ModelRouterError c m)"
  "pv_complete (disabled_provider pid) rq = Inl e \<Longrightarrow> e = CancelledError \<or> (\<exists>c m. e = ModelRouterError c m)"
  by (auto simp: ollama_entry_def opencode_entry_def openai_entry_def
      dest: ollama.raises_router_error opencode.raises_router_error openai.raises_router_error disabled.raises_router_error)

lemma configured_router_parts:
  assumes "configure_router si = Inr rt"
  obtains base opencode openrouter where
    "new_ollama (si_urlparse si) (se_ollama_base_url (si_settings si)) = Inr base"
    "mrt_providers rt = [(''ollama'', ollama_entry si base), (''opencode'', opencode), (''openrouter'', openrouter)]"
    "opencode = disabled_provider ''opencode'' \<or> (\<exists>oc. opencode = opencode_entry si oc \<and>
       new_opencode (si_urlparse si) (si_str si) (the (se_opencode_base_url (si_settings si)))
         (se_opencode_basic_auth_username (si_settings si)) (se_opencode_basic_auth_password (si_settings si)) = Inr oc)"
    "openrouter = disabled_provider ''openrouter'' \<or> (\<exists>oa. openrouter = openai_entry si oa \<and>
       new_openai (si_urlparse si) ''openrouter'' (the (se_openai_compatible_base_url (si_settings si)))
         (se_openai_compatible_api_key (si_settings si)) = Inr oa)"
  using assms
  by (auto simp: configure_router_def configure_providers_def new_model_router_def Let_def exn_simps split: if_splits)

lemma resolve_raises: "resolve rt s = Inl e \<Longrightarrow> \<exists>c m. e = ModelRouterError c m"
  by (auto simp: resolve_def resolve_compatibility_def parse_model_ref_def Let_def ebind_def
      split: if_splits sum.splits option.splits prod.splits)

text \<open>
  The router the server builds from its settings is safe to use: a completion either returns a response or
  raises a \<open>ModelRouterError\<close>, unless its caller is cancelled; and the local provider it talks to is on
  this machine.
\<close>

theorem configured_router_is_safe:
  assumes "configure_router si = Inr rt"
  shows "(\<forall>s ms. (\<exists>r. router_complete rt s ms = Inr r) \<or> (\<exists>c m. router_complete rt s ms = Inl (ModelRouterError c m)) \<or>
      router_complete rt s ms = Inl CancelledError) \<and>
    (\<exists>host. up_hostname (si_urlparse si (se_ollama_base_url (si_settings si))) = Some host \<and> is_loopback host)"
proof -
  from assms obtain base opencode openrouter where
      o: "new_ollama (si_urlparse si) (se_ollama_base_url (si_settings si)) = Inr base"
    and ps: "mrt_providers rt = [(''ollama'', ollama_entry si base), (''opencode'', opencode), (''openrouter'', openrouter)]"
    and oc: "opencode = disabled_provider ''opencode'' \<or> (\<exists>oc. opencode = opencode_entry si oc)"
    and oa: "openrouter = disabled_provider ''openrouter'' \<or> (\<exists>oa. openrouter = openai_entry si oa)"
    by (rule configured_router_parts) blast
  have contract: "e = CancelledError \<or> (\<exists>c m. e = ModelRouterError c m)"
    if "map_of (mrt_providers rt) k = Some p" "pv_complete p rq = Inl e" for k p rq e
    using that oc oa unfolding ps by (auto split: if_splits dest: entries_keep_contract)
  have "e = CancelledError \<or> (\<exists>c m. e = ModelRouterError c m)" if "router_complete rt s ms = Inl e" for s ms e
  proof (cases "resolve rt s")
    case (Inl x)
    then show ?thesis using that resolve_raises [OF Inl] by (simp add: router_complete_def ebind_def)
  next
    case (Inr r)
    then show ?thesis using that contract
      by (auto simp: router_complete_def ebind_def split: option.splits if_splits)
  qed
  moreover have "\<exists>host. up_hostname (si_urlparse si (se_ollama_base_url (si_settings si))) = Some host \<and> is_loopback host"
    using safe_url(2) [OF o [unfolded new_ollama_def]] by blast
  ultimately show ?thesis by (metis sum.exhaust)
qed

lemma sample_router_configured: "\<exists>rt. configure_router sample_site = Inr rt"
proof -
  have "\<not> truthy (se_opencode_base_url default_settings)" "\<not> truthy (se_openai_compatible_base_url default_settings)"
    by (simp_all add: default_settings_def truthy_def)
  then show ?thesis
    by (simp add: configure_router_def configure_providers_def new_ollama_def require_safe_base_url_def is_loopback_def
        new_model_router_def parse_model_ref_def supported_providers_def model_id_char_def Let_def ebind_def)
qed

theorem configured_router_is_safe_witness:
  "\<exists>rt. configure_router sample_site = Inr rt \<and>
     (\<forall>s ms. (\<exists>r. router_complete rt s ms = Inr r) \<or> (\<exists>c m. router_complete rt s ms = Inl (ModelRouterError c m)) \<or>
       router_complete rt s ms = Inl CancelledError)"
  using sample_router_configured configured_router_is_safe by blast

section \<open>The limits\<close>

text \<open>What the bounds of the settings give the components: the assumptions their properties make of a configuration.\<close>

lemma configured_limits:
  assumes "settings_ok (si_settings si)"
  shows "lc_max_tool_steps (lexi_config_of si) \<le> 10"
    and "0 < cf_max_workers (manager_config si)" "cf_recovery (manager_config si)"
    and "0 < mc_max_content (memory_config_of (si_settings si))" "0 < mc_max_context (memory_config_of (si_settings si))"
    and "0 < vc_max_queue (vision_config_of (si_settings si))" "0 < vc_max_scan_files (vision_config_of (si_settings si))"
    and "0 < nc_max_tasks (node_config_of si)" "0 < nc_max_messages (node_config_of si)"
    and "0 < nc_task_timeout (node_config_of si)" "nc_task_timeout (node_config_of si) \<le> 60"
    and "0 < liveness_interval (si_settings si)" "liveness_interval (si_settings si) \<le> 10"
  using assms by (simp_all add: settings_ok_def lexi_config_of_def manager_config_def memory_config_of_def
      vision_config_of_def node_config_of_def liveness_interval_def Let_def min_def nat_le_iff)

section \<open>The first request\<close>

lemma on_vision_parts:
  "app_sec (snd (on_vision p a)) = app_sec a" "app_nodes (snd (on_vision p a)) = app_nodes a"
  "mg_store (app_manager (snd (on_vision p a))) = mg_store (app_manager a)"
  "mg_registry (app_manager (snd (on_vision p a))) = mg_registry (app_manager a)"
  by (simp_all add: on_vision_def set_bus_def split: prod.split)

lemma on_nodes_parts:
  "app_sec (snd (on_nodes p a)) = app_sec a" "app_vision (snd (on_nodes p a)) = app_vision a"
  "mg_store (app_manager (snd (on_nodes p a))) = mg_store (app_manager a)"
  "mg_registry (app_manager (snd (on_nodes p a))) = mg_registry (app_manager a)"
  by (simp_all add: on_nodes_def set_bus_def split: prod.split)

lemma on_manager_parts:
  "app_sec (snd (on_manager p a)) = app_sec a" "app_vision (snd (on_manager p a)) = app_vision a"
  "app_nodes (snd (on_manager p a)) = app_nodes a" "app_manager (snd (on_manager p a)) = snd (p (app_manager a))"
  "fst (on_manager p a) = fst (p (app_manager a))"
  by (simp_all add: on_manager_def split: prod.split)

lemma recover_registry: "mg_registry (snd (recover cf w m)) = mg_registry m"
  by (simp add: recover_def transact_def emit_def op_bind_def split: sum.split prod.split)

lemma recover_runs_of:
  assumes "fst (recover cf w m) = Inr ()" "cf_recovery cf" "distinct (map run_id (st_runs (mg_store m)))"
  shows "st_runs (mg_store (snd (recover cf w m))) =
    map (\<lambda>r. if run_active r then interrupted (w_now w) r else r) (st_runs (mg_store m))"
proof (cases "recover_stale_runs (cf_host cf) w (cf_project cf) (mg_store m)")
  case (Inl e)
  then show ?thesis using assms(1,2) by (simp add: recover_def transact_def op_bind_def)
next
  case (Inr x)
  then obtain evs st where x: "recover_stale_runs (cf_host cf) w (cf_project cf) (mg_store m) = Inr (evs, st)" by (cases x) auto
  then show ?thesis using assms(2) recover_stale_runs_effect(1) [OF x assms(3)]
    by (simp add: recover_def transact_def op_bind_def emit_def)
qed

lemma restart_inactive: "\<not> run_active (if run_active r then interrupted t r else r)"
  by (simp add: run_active_def interrupted_def)

lemma core_is_online:
  assumes "fst (ensure_core w f name s) = Inr i"
  shows "\<exists>n. node_get ''core_local'' (snd (ensure_core w f name s)) = Some n \<and> nr_status n = NodeOnline"
proof (cases "node_get ''core_local'' s")
  case None
  then have get: "row_get nr_id ''core_local'' (nd_rows s) = None" by (simp add: node_get_def)
  from assms None get show ?thesis
    by (auto simp: ensure_core_def node_create_def node_get_def row_insert_def ebind_def row_get_append split: sum.splits)
next
  case (Some r)
  then have get: "row_get nr_id ''core_local'' (nd_rows s) = Some r" by (simp add: node_get_def)
  show ?thesis
    by (simp add: ensure_core_def Some Let_def node_get_def node_update_def get row_get_update node_touch_def)
      (metis node_row.select_convs(4) node_row.surjective node_row.update_convs(2,4,10))
qed

lemma core_online_after:
  assumes "on_nodes (ensure_core w f name) a = (Inr i, a')"
  shows "\<exists>n. node_get ''core_local'' (app_nodes a') = Some n \<and> nr_status n = NodeOnline"
proof -
  from assms obtain s where s: "ensure_core w f name (app_nodes a\<lparr>nd_bus := app_bus a\<rparr>) = (Inr i, s)"
    and a': "app_nodes a' = s\<lparr>nd_bus := nd_bus (app_nodes a)\<rparr>"
    by (auto simp: on_nodes_def set_bus_def split: prod.splits)
  then show ?thesis using core_is_online [of w f name "app_nodes a\<lparr>nd_bus := app_bus a\<rparr>" i] by (simp add: node_get_def)
qed

lemma failed_inactive: "\<not> analysis_active (an_status (failed_analysis t c r))"
  by (simp add: failed_analysis_def analysis_active_def)

lemma start_up_steps:
  assumes "start_up si w w' w'' a = (Inr rt, a')"
  obtains a1 a2 where
    "configure_router si = Inr rt" "on_manager (recover (manager_config si) w) a = (Inr (), a1)"
    "if se_node_role (si_settings si) = CoreRole
      then \<exists>i. on_nodes (ensure_core w' (si_facts si) (core_name (si_settings si))) a1 = (Inr i, a2)
      else a2 = a1"
    "a' = snd (on_vision (\<lambda>s. (Inr (), recover_stale_analyses w'' s)) a2)"
  using assms
  by (auto simp: start_up_def op_bind_def op_catch_def op_lift_def op_map_def op_return_def split: sum.splits prod.splits if_splits)

text \<open>
  C6: what the first request of a process finds, when start-up succeeds: every run that an earlier process
  left pending or running has become an interrupted failure and every other run is as it was, so that no
  run is active although no task exists; no image analysis is left queued or running; a core has itself
  in its node table, online; and start-up has not touched users, sessions, grants or the lockdown.
\<close>

theorem start_up_leaves_nothing_interrupted:
  assumes "start_up si w w' w'' (restarted a) = (Inr rt, a')" "distinct (map run_id (st_runs (mg_store (app_manager a))))"
  shows "st_runs (mg_store (app_manager a')) =
      map (\<lambda>r. if run_active r then interrupted (w_now w) r else r) (st_runs (mg_store (app_manager a))) \<and>
    list_all (\<lambda>r. \<not> run_active r) (st_runs (mg_store (app_manager a'))) \<and> mg_registry (app_manager a') = [] \<and>
    list_all (\<lambda>r. \<not> analysis_active (an_status r)) (vs_analyses (app_vision a')) \<and>
    (se_node_role (si_settings si) = CoreRole \<longrightarrow>
      (\<exists>n. node_get ''core_local'' (app_nodes a') = Some n \<and> nr_status n = NodeOnline)) \<and>
    app_sec a' = app_sec a"
  using assms(1)
proof (rule start_up_steps)
  fix a1 a2
  let ?p = "recover (manager_config si) w" and ?core = "ensure_core w' (si_facts si) (core_name (si_settings si))"
  assume r: "on_manager ?p (restarted a) = (Inr (), a1)"
    and c: "if se_node_role (si_settings si) = CoreRole then \<exists>i. on_nodes ?core a1 = (Inr i, a2) else a2 = a1"
    and a': "a' = snd (on_vision (\<lambda>s. (Inr (), recover_stale_analyses w'' s)) a2)"
  have ok: "fst (?p (app_manager (restarted a))) = Inr ()"
    using r on_manager_parts(5) [of ?p "restarted a"] by simp
  have a1: "app_manager a1 = snd (?p (app_manager (restarted a)))" "app_sec a1 = app_sec a"
    using r on_manager_parts(4) [of ?p "restarted a"] on_manager_parts(1) [of ?p "restarted a"]
    by (simp_all add: restarted_def)
  have a2: "mg_store (app_manager a2) = mg_store (app_manager a1)" "mg_registry (app_manager a2) = mg_registry (app_manager a1)"
      "app_sec a2 = app_sec a1"
    using c on_nodes_parts [of ?core a1] by (auto split: if_splits)
  have recovery: "cf_recovery (manager_config si)" by (simp add: manager_config_def Let_def)
  have runs: "st_runs (mg_store (app_manager a')) =
      map (\<lambda>r. if run_active r then interrupted (w_now w) r else r) (st_runs (mg_store (app_manager a)))"
    using recover_runs_of [OF ok recovery] assms(2) by (simp add: a' on_vision_parts a2 a1 restarted_def)
  moreover have "list_all (\<lambda>r. \<not> run_active r) (st_runs (mg_store (app_manager a')))"
    unfolding runs using restart_inactive by (auto simp only: list_all_iff set_map image_iff)
  moreover have "mg_registry (app_manager a') = []"
    by (simp add: a' on_vision_parts a2 a1 recover_registry) (simp add: restarted_def)
  moreover have "list_all (\<lambda>r. \<not> analysis_active (an_status r)) (vs_analyses (app_vision a'))"
    by (simp add: a' on_vision_def set_bus_def recover_stale_analyses_def list_all_iff failed_inactive)
  moreover have "app_nodes a' = app_nodes a2" unfolding a' by (rule on_vision_parts(2))
  then have "se_node_role (si_settings si) = CoreRole \<longrightarrow>
      (\<exists>n. node_get ''core_local'' (app_nodes a') = Some n \<and> nr_status n = NodeOnline)"
    using c core_online_after [of w' "si_facts si" "core_name (si_settings si)" a1] by auto
  moreover have "app_sec a' = app_sec a" by (simp add: a' on_vision_parts a2 a1)
  ultimately show ?thesis by blast
qed

definition interrupted_app :: app where
  \<comment> \<open>a process ended while a run of its only agent was waiting\<close>
  "interrupted_app = signed_in_app\<lparr>app_manager := (app_manager signed_in_app)\<lparr>mg_store := sample_store (PStr ''queued'')\<rparr>\<rparr>"

lemma sample_recovers: "\<exists>evs st'. recover_stale_runs h sample_world p (sample_store (PStr ''queued'')) = Inr (evs, st')"
proof -
  let ?st = "sample_store (PStr ''queued'')"
  have "\<exists>x. recover_runs h (w_uuid4 sample_world) 0 9 [sample_run] ?st = Inr x"
    by (rule recover_runs_total)
      (simp_all add: ids_fresh_def sample_recovery inj_def status_unhashable_def latest_row_def dict_get_def run_get_def)
  moreover have "list_stale ?st = [sample_run]"
    by (simp add: list_stale_def sample_recovery run_active_def)
  ultimately show ?thesis by (force simp: recover_stale_runs_def sample_world_def)
qed

lemma start_up_comes_up:
  assumes "configure_router si = Inr rt" "fst (recover (manager_config si) w (app_manager a)) = Inr ()"
    and "\<And>b. \<exists>i. fst (ensure_core w' (si_facts si) (core_name (si_settings si)) (app_nodes a\<lparr>nd_bus := b\<rparr>)) = Inr i"
  shows "\<exists>a'. start_up si w w' w'' a = (Inr rt, a')"
proof -
  let ?p = "recover (manager_config si) w" and ?core = "ensure_core w' (si_facts si) (core_name (si_settings si))"
  obtain a1 where a1: "on_manager ?p a = (Inr (), a1)" "app_nodes a1 = app_nodes a"
    using assms(2) on_manager_parts(5,3) [of ?p a] by (metis prod.collapse)
  have "\<exists>i a2. on_nodes ?core a1 = (Inr i, a2)"
    using assms(3) [of "app_bus a1"] by (auto simp: on_nodes_def a1(2) split_def)
  then show ?thesis
    by (auto simp: start_up_def op_bind_def op_catch_def op_lift_def op_map_def op_return_def assms(1) a1(1) on_vision_def
        split: prod.split)
qed

theorem start_up_leaves_nothing_interrupted_witness:
  "\<exists>rt a'. start_up sample_site sample_world sample_world sample_world (restarted interrupted_app) = (Inr rt, a') \<and>
     st_runs (mg_store (app_manager a')) = [interrupted 9 sample_run] \<and>
     (\<exists>n. node_get ''core_local'' (app_nodes a') = Some n \<and> nr_status n = NodeOnline) \<and> app_sec a' = app_sec interrupted_app"
proof -
  from sample_router_configured obtain rt where rt: "configure_router sample_site = Inr rt" by blast
  have store: "mg_store (app_manager (restarted interrupted_app)) = sample_store (PStr ''queued'')"
      "mg_store (app_manager interrupted_app) = sample_store (PStr ''queued'')"
    by (simp_all add: restarted_def interrupted_app_def)
  have "fst (recover (manager_config sample_site) sample_world (app_manager (restarted interrupted_app))) = Inr ()"
    using sample_recovers [of "si_host sample_site" "se_project_id default_settings"]
    by (auto simp: recover_def transact_def op_bind_def emit_def store manager_config_def Let_def)
  moreover have "\<exists>i. fst (ensure_core sample_world (si_facts sample_site) (core_name (si_settings sample_site))
      (app_nodes (restarted interrupted_app)\<lparr>nd_bus := b\<rparr>)) = Inr i" for b
    by (simp add: restarted_def interrupted_app_def signed_in_app_def sample_app_def no_nodes_def ensure_core_def node_get_def
        node_create_def row_insert_def info_of_stored_def ebind_def local_capabilities_def host_capabilities_def
        capabilities_ok_def memory_facts_def Let_def length_within_def resources_ok_def)
  ultimately obtain a' where a': "start_up sample_site sample_world sample_world sample_world (restarted interrupted_app) = (Inr rt, a')"
    using start_up_comes_up [OF rt] by blast
  have runs: "st_runs (mg_store (app_manager interrupted_app)) = [sample_run]" "run_active sample_run"
    by (simp_all add: store sample_store_def run_active_def sample_run_def new_run_def)
  from start_up_leaves_nothing_interrupted [OF a'] runs have
    "st_runs (mg_store (app_manager a')) = [interrupted 9 sample_run] \<and> app_sec a' = app_sec interrupted_app \<and>
     (se_node_role default_settings = CoreRole \<longrightarrow>
       (\<exists>n. node_get ''core_local'' (app_nodes a') = Some n \<and> nr_status n = NodeOnline))"
    by (simp add: sample_world_def)
  with a' show ?thesis by (auto simp: default_settings_def)
qed

end
