(* ===== verification/Ddl.thy ===== *)
theory Ddl
  imports Entities
begin

text \<open>
  What the migration scripts (\<open>alembic/versions\<close>) and the mapped classes (\<open>persistence/models.py\<close>) say of
  a database: declared columns and constraints (\<open>sa.Column\<close>, \<open>mapped_column\<close>), the tables they describe,
  and the statements a script issues through Alembic's \<open>op\<close>. A schema is the list of its tables in the
  order they were created; a statement the database refuses has the value \<open>None\<close>. The databases differ in
  what they refuse. Here a statement succeeds only where SQLite, PostgreSQL and the databases that ask for
  an index's table all accept it, so that a script which succeeds here does not depend on the leniency of one.

  The laws of undoing a statement are stated once for any machine (\<open>reversible\<close>) and proved for these
  statements.
\<close>

section \<open>Declarations\<close>

datatype coltype =
    SaString nat
  | SaText
  | SaEnum string "string list" \<comment> \<open>not native: text as wide as the longest value, without a check\<close>
  | SaJSON
  | SaDateTime \<comment> \<open>with time zone\<close>
  | SaInteger
  | SaFloat
  | SaBoolean
  | SaLargeBinary
  | SaNull \<comment> \<open>not given: a foreign key takes the type of the column it refers to\<close>

record sa_column =
  cl_name :: string
  cl_type :: coltype
  cl_nullable :: bool
  cl_primary_key :: bool
  cl_unique :: bool
  cl_index :: bool
  cl_references :: "(string \<times> string \<times> string) option" \<comment> \<open>table, column, \<open>ondelete\<close>\<close>

definition optional :: "string \<Rightarrow> coltype \<Rightarrow> sa_column" where
  \<comment> \<open>\<open>Column(name, type, nullable=True)\<close>\<close>
  "optional n ty = \<lparr>cl_name = n, cl_type = ty, cl_nullable = True, cl_primary_key = False, cl_unique = False,
     cl_index = False, cl_references = None\<rparr>"

definition not_null :: "string \<Rightarrow> coltype \<Rightarrow> sa_column" where
  \<comment> \<open>\<open>Column(name, type, nullable=False)\<close>\<close>
  "not_null n ty = (optional n ty)\<lparr>cl_nullable := False\<rparr>"

definition primary :: "string \<Rightarrow> coltype \<Rightarrow> sa_column" where
  \<comment> \<open>\<open>Column(name, type, primary_key=True)\<close>, which is not nullable\<close>
  "primary n ty = (not_null n ty)\<lparr>cl_primary_key := True\<rparr>"

definition unique_col :: "sa_column \<Rightarrow> sa_column" where
  "unique_col c = c\<lparr>cl_unique := True\<rparr>"

definition indexed :: "sa_column \<Rightarrow> sa_column" where
  "indexed c = c\<lparr>cl_index := True\<rparr>"

definition refers :: "string \<Rightarrow> string \<Rightarrow> string \<Rightarrow> sa_column \<Rightarrow> sa_column" where
  \<comment> \<open>\<open>ForeignKey("table.column", ondelete=...)\<close>\<close>
  "refers t k action c = c\<lparr>cl_references := Some (t, k, action)\<rparr>"

datatype table_item =
    Column sa_column
  | PrimaryKeyConstraint "string list"
  | ForeignKeyConstraint "string list" string "string list" string
  | UniqueConstraint "string list" "string option"

section \<open>Tables\<close>

record db_column =
  co_name :: string
  co_type :: coltype
  co_nullable :: bool

record foreign_key =
  fk_columns :: "string list"
  fk_table :: string
  fk_targets :: "string list"
  fk_ondelete :: string

record db_index =
  ix_name :: string
  ix_columns :: "string list"
  ix_unique :: bool
  ix_where :: "(string \<times> string list) option" \<comment> \<open>\<open>WHERE column IN (values)\<close>\<close>

record db_table =
  tb_name :: string
  tb_columns :: "db_column list"
  tb_primary_key :: "string list"
  tb_uniques :: "(string option \<times> string list) list"
  tb_foreign_keys :: "foreign_key list"
  tb_indexes :: "db_index list"

type_synonym schema = "db_table list"

definition db_column :: "sa_column \<Rightarrow> db_column" where
  "db_column c = \<lparr>co_name = cl_name c, co_type = cl_type c, co_nullable = cl_nullable c\<rparr>"

fun item_columns :: "table_item \<Rightarrow> db_column list" where
  "item_columns (Column c) = [db_column c]"
| "item_columns _ = []"

fun item_primary_key :: "table_item \<Rightarrow> string list" where
  "item_primary_key (Column c) = (if cl_primary_key c then [cl_name c] else [])"
| "item_primary_key (PrimaryKeyConstraint cs) = cs"
| "item_primary_key _ = []"

fun item_uniques :: "table_item \<Rightarrow> (string option \<times> string list) list" where
  \<comment> \<open>\<open>unique=True\<close> is a constraint, but with \<open>index=True\<close> it makes the index unique\<close>
  "item_uniques (Column c) = (if cl_unique c \<and> \<not> cl_index c then [(None, [cl_name c])] else [])"
| "item_uniques (UniqueConstraint cs n) = [(n, cs)]"
| "item_uniques _ = []"

fun item_foreign_keys :: "table_item \<Rightarrow> foreign_key list" where
  "item_foreign_keys (Column c) = (case cl_references c of None \<Rightarrow> []
     | Some (t, k, action) \<Rightarrow> [\<lparr>fk_columns = [cl_name c], fk_table = t, fk_targets = [k], fk_ondelete = action\<rparr>])"
| "item_foreign_keys (ForeignKeyConstraint cs t ks action) =
     [\<lparr>fk_columns = cs, fk_table = t, fk_targets = ks, fk_ondelete = action\<rparr>]"
| "item_foreign_keys _ = []"

fun item_indexes :: "string \<Rightarrow> table_item \<Rightarrow> db_index list" where
  \<comment> \<open>\<open>index=True\<close>, under SQLAlchemy's default name\<close>
  "item_indexes t (Column c) = (if cl_index c
     then [\<lparr>ix_name = ''ix_'' @ t @ ''_'' @ cl_name c, ix_columns = [cl_name c], ix_unique = cl_unique c, ix_where = None\<rparr>]
     else [])"
| "item_indexes t _ = []"

definition build_table :: "string \<Rightarrow> table_item list \<Rightarrow> db_table" where
  "build_table n items =
     \<lparr>tb_name = n,
      tb_columns = concat (map item_columns items),
      tb_primary_key = concat (map item_primary_key items),
      tb_uniques = concat (map item_uniques items),
      tb_foreign_keys = concat (map item_foreign_keys items),
      tb_indexes = concat (map (item_indexes n) items)\<rparr>"

definition column_names :: "db_table \<Rightarrow> string list" where
  "column_names t = map co_name (tb_columns t)"

definition index_names :: "schema \<Rightarrow> string list" where
  "index_names s = concat (map (\<lambda>t. map ix_name (tb_indexes t)) s)"

definition used_columns :: "db_table \<Rightarrow> string list" where
  \<comment> \<open>the columns a key, a constraint or an index of the table names\<close>
  "used_columns t = tb_primary_key t @ concat (map snd (tb_uniques t))
     @ concat (map fk_columns (tb_foreign_keys t)) @ concat (map ix_columns (tb_indexes t))"

definition keys_of :: "db_table \<Rightarrow> string list list" where
  "keys_of t = tb_primary_key t # map snd (tb_uniques t)"

definition table_ok :: "db_table \<Rightarrow> bool" where
  "table_ok t = (distinct (column_names t) \<and> set (used_columns t) \<subseteq> set (column_names t))"

definition schema_ok :: "schema \<Rightarrow> bool" where
  \<comment> \<open>names are unique, every name of a column means one, and foreign keys refer to tables that exist\<close>
  "schema_ok s = (distinct (map tb_name s) \<and> distinct (index_names s) \<and> list_all table_ok s
     \<and> list_all (\<lambda>t. list_all (\<lambda>f. fk_table f \<in> set (map tb_name s)) (tb_foreign_keys t)) s)"

section \<open>Statements\<close>

datatype sql =
    CREATE_UNIQUE_INDEX_WHERE string string "string list" string "string list"
    \<comment> \<open>\<open>CREATE UNIQUE INDEX i ON t (columns) WHERE column IN (values)\<close>\<close>
  | DROP_INDEX string

datatype ddl =
    Create_table string "table_item list"
  | Drop_table string
  | Add_column string sa_column
  | Drop_column string string
  | Create_index string string "string list" \<comment> \<open>not unique\<close>
  | Drop_index string string \<comment> \<open>the index and its \<open>table_name\<close>\<close>
  | Execute sql

definition refers_to_key :: "schema \<Rightarrow> foreign_key \<Rightarrow> bool" where
  "refers_to_key s f = (case row_get tb_name (fk_table f) s of None \<Rightarrow> False
     | Some t \<Rightarrow> fk_targets f \<in> set (keys_of t))"

definition referenced :: "string \<Rightarrow> schema \<Rightarrow> bool" where
  \<comment> \<open>another table's foreign key refers to the table\<close>
  "referenced n s = list_ex (\<lambda>t. tb_name t \<noteq> n \<and> list_ex (\<lambda>f. fk_table f = n) (tb_foreign_keys t)) s"

definition add_index :: "db_index \<Rightarrow> db_table \<Rightarrow> db_table" where
  "add_index i t = t\<lparr>tb_indexes := tb_indexes t @ [i]\<rparr>"

definition remove_index :: "string \<Rightarrow> db_table \<Rightarrow> db_table" where
  "remove_index i t = t\<lparr>tb_indexes := filter (\<lambda>x. ix_name x \<noteq> i) (tb_indexes t)\<rparr>"

definition has_index :: "string \<Rightarrow> db_table \<Rightarrow> bool" where
  "has_index i t = (i \<in> set (map ix_name (tb_indexes t)))"

definition add_column :: "db_column \<Rightarrow> db_table \<Rightarrow> db_table" where
  "add_column c t = t\<lparr>tb_columns := tb_columns t @ [c]\<rparr>"

definition remove_column :: "string \<Rightarrow> db_table \<Rightarrow> db_table" where
  "remove_column c t = t\<lparr>tb_columns := filter (\<lambda>x. co_name x \<noteq> c) (tb_columns t)\<rparr>"

definition index_ok :: "db_index \<Rightarrow> string \<Rightarrow> schema \<Rightarrow> bool" where
  \<comment> \<open>names of indexes are unique in the schema, and the columns are the table's\<close>
  "index_ok i n s = (ix_name i \<notin> set (index_names s) \<and>
     (case row_get tb_name n s of None \<Rightarrow> False | Some t \<Rightarrow> set (ix_columns i) \<subseteq> set (column_names t)))"

definition on_table :: "string \<Rightarrow> (db_table \<Rightarrow> bool) \<Rightarrow> (db_table \<Rightarrow> db_table) \<Rightarrow> schema \<Rightarrow> schema option" where
  \<comment> \<open>change the named table, when it exists and admits the change\<close>
  "on_table n P f s = (case row_get tb_name n s of None \<Rightarrow> None
     | Some t \<Rightarrow> if P t then Some (row_update tb_name n f s) else None)"

fun apply_ddl :: "ddl \<Rightarrow> schema \<Rightarrow> schema option" where
  "apply_ddl (Create_table n items) s = (let t = build_table n items in
     if n \<notin> set (map tb_name s) \<and> table_ok t \<and> distinct (map ix_name (tb_indexes t))
        \<and> list_all (\<lambda>i. ix_name i \<notin> set (index_names s)) (tb_indexes t)
        \<and> list_all (refers_to_key (s @ [t])) (tb_foreign_keys t)
     then Some (s @ [t]) else None)"
| "apply_ddl (Drop_table n) s =
     (if n \<in> set (map tb_name s) \<and> \<not> referenced n s then Some (row_delete tb_name n s) else None)"
| "apply_ddl (Add_column n c) s =
     \<comment> \<open>SQLite adds only columns that may be empty and are no key\<close>
     on_table n (\<lambda>t. cl_name c \<notin> set (column_names t) \<and> cl_nullable c \<and> \<not> cl_primary_key c \<and> \<not> cl_unique c
                     \<and> \<not> cl_index c \<and> cl_references c = None) (add_column (db_column c)) s"
| "apply_ddl (Drop_column n c) s =
     \<comment> \<open>and removes only columns that nothing else mentions\<close>
     on_table n (\<lambda>t. c \<in> set (column_names t) \<and> c \<notin> set (used_columns t)) (remove_column c) s"
| "apply_ddl (Create_index i n cs) s =
     (let x = \<lparr>ix_name = i, ix_columns = cs, ix_unique = False, ix_where = None\<rparr> in
      if index_ok x n s then on_table n (\<lambda>_. True) (add_index x) s else None)"
| "apply_ddl (Drop_index i n) s = on_table n (has_index i) (remove_index i) s"
| "apply_ddl (Execute (CREATE_UNIQUE_INDEX_WHERE i n cs c vs)) s =
     (let x = \<lparr>ix_name = i, ix_columns = cs, ix_unique = True, ix_where = Some (c, vs)\<rparr> in
      if index_ok x n s then on_table n (\<lambda>t. c \<in> set (column_names t)) (add_index x) s else None)"
| "apply_ddl (Execute (DROP_INDEX i)) s =
     (if list_ex (has_index i) s then Some (map (remove_index i) s) else None)"

fun run_all :: "('o \<Rightarrow> 's \<Rightarrow> 's option) \<Rightarrow> 'o list \<Rightarrow> 's \<Rightarrow> 's option" where
  \<comment> \<open>the statements of a script, one after the other\<close>
  "run_all run [] s = Some s"
| "run_all run (x # xs) s = Option.bind (run x s) (run_all run xs)"

fun pull_out :: "('o \<Rightarrow> 'o \<Rightarrow> bool) \<Rightarrow> 'o \<Rightarrow> 'o list \<Rightarrow> 'o list option" where
  \<comment> \<open>the rest after taking out the first \<open>x\<close>, when what stands before it may run after it\<close>
  "pull_out free x [] = None"
| "pull_out free x (y # ys) = (if y = x then Some ys
     else if free y x then map_option (Cons y) (pull_out free x ys) else None)"

fun rearranges :: "('o \<Rightarrow> 'o \<Rightarrow> bool) \<Rightarrow> 'o list \<Rightarrow> 'o list \<Rightarrow> bool" where
  \<comment> \<open>the second list is the first up to the order of statements that do not touch each other\<close>
  "rearranges free [] ys = (ys = [])"
| "rearranges free (x # xs) ys = (case pull_out free x ys of None \<Rightarrow> False | Some zs \<Rightarrow> rearranges free xs zs)"

section \<open>Undoing statements\<close>

lemma run_all_append: "run_all run (xs @ ys) s = Option.bind (run_all run xs s) (run_all run ys)"
  by (induction xs arbitrary: s) (auto split: bind_splits)

lemma those_map_Some_iff: "those (map f xs) = Some ys \<longleftrightarrow> list_all2 (\<lambda>x y. f x = Some y) xs ys"
  by (induction xs arbitrary: ys) (auto simp: list_all2_Cons1 split: option.splits)

locale reversible =
  fixes run :: "'o \<Rightarrow> 's \<Rightarrow> 's option"
    and good :: "'s \<Rightarrow> bool"
    and undo :: "'o \<Rightarrow> 'o option" \<comment> \<open>the statement that takes this one back\<close>
    and free :: "'o \<Rightarrow> 'o \<Rightarrow> bool" \<comment> \<open>the two do not touch each other\<close>
  assumes good_run: "good s \<Longrightarrow> run x s = Some s' \<Longrightarrow> good s'"
    and undo_run: "good s \<Longrightarrow> run x s = Some s' \<Longrightarrow> undo x = Some y \<Longrightarrow> run y s' = Some s"
    and free_run: "free x y \<Longrightarrow> Option.bind (run x s) (run y) = Option.bind (run y s) (run x)"
begin

lemma good_run_all: "good s \<Longrightarrow> run_all run xs s = Some s' \<Longrightarrow> good s'"
  by (induction xs arbitrary: s) (auto simp: bind_eq_Some_conv dest: good_run)

lemma undo_run_all:
  "good s \<Longrightarrow> run_all run xs s = Some s' \<Longrightarrow> list_all2 (\<lambda>x y. undo x = Some y) xs ys \<Longrightarrow>
   run_all run (rev ys) s' = Some s"
proof (induction xs arbitrary: s ys)
  case (Cons x xs)
  obtain y zs s1 where ys: "ys = y # zs" and u: "undo x = Some y" and r: "list_all2 (\<lambda>x y. undo x = Some y) xs zs"
    and s1: "run x s = Some s1" "run_all run xs s1 = Some s'"
    using Cons.prems(2,3) by (cases ys) (auto simp: bind_eq_Some_conv)
  have "run_all run (rev zs) s' = Some s1"
    using good_run [OF Cons.prems(1) s1(1)] s1(2) r by (rule Cons.IH)
  then show ?case
    by (simp add: ys run_all_append undo_run [OF Cons.prems(1) s1(1) u])
qed simp

lemma pull_out_run: "pull_out free x ys = Some zs \<Longrightarrow> run_all run ys s = run_all run (x # zs) s"
proof (induction ys arbitrary: s zs)
  case (Cons y ys)
  show ?case
  proof (cases "y = x")
    case False
    then obtain vs where vs: "free y x" "pull_out free x ys = Some vs" "zs = y # vs"
      using Cons.prems by (auto split: if_splits)
    have "run_all run (y # ys) s = Option.bind (Option.bind (run y s) (run x)) (run_all run vs)"
      using Cons.IH [OF vs(2)] by (cases "run y s") simp_all
    also have "\<dots> = run_all run (x # y # vs) s"
      using free_run [OF vs(1), of s] by (cases "run x s") simp_all
    finally show ?thesis
      by (simp add: vs(3))
  qed (use Cons.prems in simp)
qed simp

lemma rearranges_run: "rearranges free xs ys \<Longrightarrow> run_all run xs s = run_all run ys s"
proof (induction xs arbitrary: ys s)
  case (Cons x xs)
  then obtain zs where zs: "pull_out free x ys = Some zs" "rearranges free xs zs"
    by (auto split: option.splits)
  have "run_all run (x # xs) s = run_all run (x # zs) s"
    using Cons.IH [OF zs(2)] by (cases "run x s") simp_all
  then show ?case
    by (simp only: pull_out_run [OF zs(1)])
qed simp

lemma script_undone:
  assumes "good s" and "run_all run xs s = Some s'" and "those (map undo xs) = Some ys"
    and "rearranges free ds (rev ys)"
  shows "run_all run ds s' = Some s"
proof -
  have "list_all2 (\<lambda>x y. undo x = Some y) xs ys"
    using assms(3) by (simp add: those_map_Some_iff)
  then show ?thesis
    using undo_run_all [OF assms(1,2)] rearranges_run [OF assms(4)] by simp
qed

end

section \<open>The statements keep a schema in order\<close>

fun undo_ddl :: "ddl \<Rightarrow> ddl option" where
  "undo_ddl (Create_table n items) = Some (Drop_table n)"
| "undo_ddl (Add_column n c) = Some (Drop_column n (cl_name c))"
| "undo_ddl (Create_index i n cs) = Some (Drop_index i n)"
| "undo_ddl (Execute (CREATE_UNIQUE_INDEX_WHERE i n cs c vs)) = Some (Execute (DROP_INDEX i))"
| "undo_ddl _ = None"

fun free_ddl :: "ddl \<Rightarrow> ddl \<Rightarrow> bool" where
  "free_ddl (Drop_index i n) (Drop_index j m) = (i \<noteq> j)"
| "free_ddl (Drop_index i n) (Drop_table m) = (n \<noteq> m)"
| "free_ddl (Drop_table m) (Drop_index i n) = (n \<noteq> m)"
| "free_ddl _ _ = False"

lemma tb_name_changes [simp]:
  "tb_name (add_index i t) = tb_name t" "tb_name (remove_index j t) = tb_name t"
  "tb_name (add_column c t) = tb_name t" "tb_name (remove_column k t) = tb_name t"
  "tb_name (build_table n items) = n"
  by (simp_all add: add_index_def remove_index_def add_column_def remove_column_def build_table_def)

lemma tb_foreign_keys_changes [simp]:
  "tb_foreign_keys (add_index i t) = tb_foreign_keys t" "tb_foreign_keys (remove_index j t) = tb_foreign_keys t"
  "tb_foreign_keys (add_column c t) = tb_foreign_keys t" "tb_foreign_keys (remove_column k t) = tb_foreign_keys t"
  by (simp_all add: add_index_def remove_index_def add_column_def remove_column_def)

lemma on_table_Some_iff:
  "on_table n P f s = Some s' \<longleftrightarrow> (\<exists>t. row_get tb_name n s = Some t \<and> P t \<and> s' = row_update tb_name n f s)"
  by (auto simp: on_table_def split: option.splits)

lemma schema_okD:
  assumes "schema_ok s"
  shows "distinct (map tb_name s)" "distinct (index_names s)" "\<And>t. t \<in> set s \<Longrightarrow> table_ok t"
    "\<And>t f. t \<in> set s \<Longrightarrow> f \<in> set (tb_foreign_keys t) \<Longrightarrow> fk_table f \<in> set (map tb_name s)"
  using assms by (auto simp: schema_ok_def list_all_iff)

lemma row_update_split:
  "n \<notin> set (map tb_name l) \<Longrightarrow> n \<notin> set (map tb_name r) \<Longrightarrow> tb_name t = n \<Longrightarrow>
   row_update tb_name n f (l @ t # r) = l @ f t # r"
  by (induction l) (auto simp: row_update_def rev_image_eqI intro!: map_idI)

lemma on_table_split:
  assumes "on_table n P f s = Some s'" and "distinct (map tb_name s)"
  obtains l t r where "s = l @ t # r" "s' = l @ f t # r" "P t" "tb_name t = n"
    "n \<notin> set (map tb_name l)" "n \<notin> set (map tb_name r)"
proof -
  obtain t where t: "row_get tb_name n s = Some t" "P t" "s' = row_update tb_name n f s"
    using assms(1) by (auto simp: on_table_Some_iff)
  then have n: "t \<in> set s" "tb_name t = n"
    using row_get_Some by metis+
  then obtain l r where s: "s = l @ t # r"
    by (meson split_list)
  have "n \<notin> set (map tb_name l)" "n \<notin> set (map tb_name r)"
    using assms(2) n(2) by (auto simp: s)
  then show thesis
    using that s t(2,3) n(2) row_update_split by metis
qed

lemma on_table_join:
  "P t \<Longrightarrow> tb_name t = n \<Longrightarrow> n \<notin> set (map tb_name l) \<Longrightarrow> n \<notin> set (map tb_name r) \<Longrightarrow>
   on_table n P f (l @ t # r) = Some (l @ f t # r)"
  by (simp add: on_table_def row_update_split row_get_None_iff [THEN iffD2] split: option.splits)

lemma index_names_simps [simp]:
  "index_names [] = []" "index_names (t # s) = map ix_name (tb_indexes t) @ index_names s"
  "index_names (l @ r) = index_names l @ index_names r"
  by (simp_all add: index_names_def)

lemma schema_ok_replace:
  assumes "schema_ok (l @ t # r)" and "tb_name u = tb_name t" "tb_foreign_keys u = tb_foreign_keys t"
    and "table_ok u" "distinct (map ix_name (tb_indexes u))"
    and "set (map ix_name (tb_indexes u)) \<inter> set (index_names (l @ r)) = {}"
  shows "schema_ok (l @ u # r)"
  using assms by (auto simp: schema_ok_def)

lemma schema_ok_fewer:
  assumes "schema_ok (l @ t # r)" and "tb_name u = tb_name t" "tb_foreign_keys u = tb_foreign_keys t" "table_ok u"
    and "distinct (map ix_name (tb_indexes t)) \<Longrightarrow> distinct (map ix_name (tb_indexes u))"
    and "set (map ix_name (tb_indexes u)) \<subseteq> set (map ix_name (tb_indexes t))"
  shows "schema_ok (l @ u # r)"
proof (rule schema_ok_replace [OF assms(1-4)])
  have d: "distinct (index_names (l @ t # r))"
    using assms(1) by (rule schema_okD)
  show "distinct (map ix_name (tb_indexes u))"
    using assms(5) d by auto
  show "set (map ix_name (tb_indexes u)) \<inter> set (index_names (l @ r)) = {}"
    using assms(6) d by auto
qed

lemma has_index_iff: "has_index i t \<longleftrightarrow> i \<in> ix_name ` set (tb_indexes t)"
  by (simp add: has_index_def)

lemma index_names_iff: "i \<in> set (index_names s) \<longleftrightarrow> list_ex (has_index i) s"
  by (induction s) (auto simp: has_index_iff)

lemma table_ok_remove_index: "table_ok t \<Longrightarrow> table_ok (remove_index i t)"
  by (auto simp: table_ok_def remove_index_def column_names_def used_columns_def)

lemma remove_index_ok: "schema_ok (l @ t # r) \<Longrightarrow> schema_ok (l @ remove_index i t # r)"
  by (rule schema_ok_fewer, assumption)
    (simp_all add: table_ok_remove_index schema_okD(3), auto simp: remove_index_def distinct_map_filter)

lemma remove_index_everywhere: "schema_ok s \<Longrightarrow> schema_ok (map (remove_index i) s)"
proof -
  have "schema_ok (l @ s) \<Longrightarrow> schema_ok (l @ map (remove_index i) s)" for l
  proof (induction s arbitrary: l)
    case (Cons t s)
    then show ?case
      using Cons.IH [of "l @ [remove_index i t]"] remove_index_ok [of l t s i] by simp
  qed simp
  from this [of "[]"] show "schema_ok s \<Longrightarrow> schema_ok (map (remove_index i) s)" by simp
qed

lemma add_index_ok:
  assumes "schema_ok (l @ t # r)" and "ix_name i \<notin> set (index_names (l @ t # r))"
    and "set (ix_columns i) \<subseteq> set (column_names t)"
  shows "schema_ok (l @ add_index i t # r)"
proof (rule schema_ok_replace [OF assms(1)])
  have "distinct (index_names (l @ t # r))" "table_ok t"
    using assms(1) schema_okD by (blast, simp add: schema_okD)
  then show "distinct (map ix_name (tb_indexes (add_index i t)))"
    "set (map ix_name (tb_indexes (add_index i t))) \<inter> set (index_names (l @ r)) = {}"
    "table_ok (add_index i t)"
    using assms(2,3) by (auto simp: add_index_def table_ok_def column_names_def used_columns_def)
qed simp_all

lemma add_column_ok:
  assumes "schema_ok (l @ t # r)" and "co_name c \<notin> set (column_names t)"
  shows "schema_ok (l @ add_column c t # r)"
proof (rule schema_ok_fewer [OF assms(1)])
  have "table_ok t"
    using assms(1) by (rule schema_okD) simp
  then show "table_ok (add_column c t)"
    using assms(2) by (auto simp: add_column_def table_ok_def column_names_def used_columns_def)
qed (simp_all, simp_all add: add_column_def)

lemma remove_column_ok:
  assumes "schema_ok (l @ t # r)" and "c \<notin> set (used_columns t)"
  shows "schema_ok (l @ remove_column c t # r)"
proof (rule schema_ok_fewer [OF assms(1)])
  have "table_ok t"
    using assms(1) by (rule schema_okD) simp
  moreover have "column_names (remove_column c t) = filter (\<lambda>n. n \<noteq> c) (column_names t)"
    "used_columns (remove_column c t) = used_columns t"
    by (simp_all add: remove_column_def column_names_def used_columns_def filter_map comp_def)
  ultimately show "table_ok (remove_column c t)"
    using assms(2) by (auto simp: table_ok_def)
qed (simp_all, simp_all add: remove_column_def)

lemma create_table_ok:
  assumes "schema_ok s" and "tb_name t \<notin> set (map tb_name s)" "table_ok t" "distinct (map ix_name (tb_indexes t))"
    and "list_all (\<lambda>i. ix_name i \<notin> set (index_names s)) (tb_indexes t)"
    and "list_all (refers_to_key (s @ [t])) (tb_foreign_keys t)"
  shows "schema_ok (s @ [t])"
proof -
  have "fk_table f \<in> set (map tb_name (s @ [t]))" if "f \<in> set (tb_foreign_keys t)" for f
    using assms(6) that row_get_None_iff [of tb_name "fk_table f" "s @ [t]"]
    by (auto simp: list_all_iff refers_to_key_def simp del: row_get_append split: option.splits)
  then show ?thesis
    using assms(1-5) by (auto simp: schema_ok_def list_all_iff)
qed

lemma drop_table_ok:
  assumes "schema_ok s" and "\<not> referenced n s"
  shows "schema_ok (row_delete tb_name n s)"
proof -
  have "distinct (index_names (filter P s))" if "distinct (index_names s)" for P
    using that by (induction s) (auto simp: index_names_def)
  moreover have "fk_table f \<in> tb_name ` {u \<in> set s. tb_name u \<noteq> n}"
    if "t \<in> set s" "tb_name t \<noteq> n" "f \<in> set (tb_foreign_keys t)" for t f
    using schema_okD(4) [OF assms(1) that(1,3)] assms(2) that by (auto simp: referenced_def list_ex_iff)
  ultimately show ?thesis
    using assms(1) by (auto simp: schema_ok_def list_all_iff row_delete_def distinct_map_filter)
qed

lemma index_ok_split:
  assumes "index_ok i (tb_name t) (l @ t # r)" and "tb_name t \<notin> set (map tb_name l)"
  shows "ix_name i \<notin> set (index_names (l @ t # r))" "set (ix_columns i) \<subseteq> set (column_names t)"
  using assms row_get_None_iff [of tb_name "tb_name t" l]
  by (auto simp: index_ok_def split: option.splits)

lemma create_index_ok:
  assumes "schema_ok s" and "index_ok i n s" and "on_table n P (add_index i) s = Some s'"
  shows "schema_ok s'"
proof (rule on_table_split [OF assms(3) schema_okD(1) [OF assms(1)]])
  fix l t r
  assume t: "s = l @ t # r" "s' = l @ add_index i t # r" "tb_name t = n" "n \<notin> set (map tb_name l)"
  have "index_ok i (tb_name t) (l @ t # r)"
    using assms(2) t by simp
  then show "schema_ok s'"
    using index_ok_split [of i t l r] t assms(1) add_index_ok by metis
qed

lemma apply_ddl_ok:
  assumes "schema_ok s" and "apply_ddl x s = Some s'"
  shows "schema_ok s'"
  using assms
proof (cases "(x, s)" rule: apply_ddl.cases)
  case (1 n items s)
  then show ?thesis
    using assms create_table_ok [of s "build_table n items"] by (auto simp: Let_def split: if_splits)
next
  case (2 n s)
  then show ?thesis
    using assms by (auto simp: drop_table_ok split: if_splits)
next
  case (3 n c s)
  then show ?thesis
    using assms by (auto elim!: on_table_split dest: schema_okD(1) intro!: add_column_ok simp: db_column_def)
next
  case (4 n c s)
  then show ?thesis
    using assms by (auto elim!: on_table_split dest: schema_okD(1) intro!: remove_column_ok)
next
  case (5 i n cs s)
  then show ?thesis
    using assms create_index_ok by (auto simp: Let_def split: if_splits)
next
  case (6 i n s)
  then show ?thesis
    using assms by (auto elim!: on_table_split dest: schema_okD(1) intro!: remove_index_ok)
next
  case (7 i n cs c vs s)
  then show ?thesis
    using assms create_index_ok by (auto simp: Let_def split: if_splits)
next
  case (8 i s)
  then show ?thesis
    using assms remove_index_everywhere by (auto split: if_splits)
qed

section \<open>Undoing and reordering the statements\<close>

lemma filter_absent: "k \<notin> set (map f xs) \<Longrightarrow> filter (\<lambda>x. f x \<noteq> k) xs = xs"
  by (induction xs) auto

lemma undo_create_table:
  assumes "schema_ok s" and "tb_name t \<notin> set (map tb_name s)"
  shows "apply_ddl (Drop_table (tb_name t)) (s @ [t]) = Some s"
proof -
  have "fk_table f \<noteq> tb_name t" if "u \<in> set s" "f \<in> set (tb_foreign_keys u)" for u f
    using schema_okD(4) [OF assms(1) that] assms(2) by metis
  then have "\<not> referenced (tb_name t) (s @ [t])"
    by (auto simp: referenced_def list_ex_iff)
  moreover have "row_delete tb_name (tb_name t) (s @ [t]) = s"
    using assms(2) by (simp add: row_delete_def filter_absent)
  ultimately show ?thesis by simp
qed

lemma remove_add_index:
  assumes "i \<notin> set (map ix_name (tb_indexes t))" "ix_name x = i"
  shows "remove_index i (add_index x t) = t"
  using assms filter_absent [OF assms(1)] by (simp add: remove_index_def add_index_def)

lemma remove_index_absent: "\<not> has_index i t \<Longrightarrow> remove_index i t = t"
  by (simp add: remove_index_def has_index_def filter_absent del: set_map)

lemma remove_add_column:
  assumes "c \<notin> set (column_names t)" "co_name x = c"
  shows "remove_column c (add_column x t) = t"
  using assms filter_absent [OF assms(1) [unfolded column_names_def]] by (simp add: remove_column_def add_column_def)

lemma undo_add_index:
  assumes "schema_ok s" and "index_ok x n s" and "on_table n P (add_index x) s = Some s'"
  shows "on_table n (has_index (ix_name x)) (remove_index (ix_name x)) s' = Some s"
    "list_ex (has_index (ix_name x)) s'" "map (remove_index (ix_name x)) s' = s"
proof -
  obtain l t r where t: "s = l @ t # r" "s' = l @ add_index x t # r" "tb_name t = n"
    "n \<notin> set (map tb_name l)" "n \<notin> set (map tb_name r)"
    using on_table_split [OF assms(3) schema_okD(1) [OF assms(1)]] by metis
  have "ix_name x \<notin> set (index_names (l @ t # r))"
    using index_ok_split(1) [of x t l r] assms(2) t by simp
  then have fresh: "ix_name x \<notin> set (map ix_name (tb_indexes t))" "\<not> list_ex (has_index (ix_name x)) l"
    "\<not> list_ex (has_index (ix_name x)) r"
    by (simp_all add: index_names_iff)
  have here: "has_index (ix_name x) (add_index x t)"
    by (simp add: has_index_def add_index_def)
  show "on_table n (has_index (ix_name x)) (remove_index (ix_name x)) s' = Some s"
    using on_table_join [of "has_index (ix_name x)" "add_index x t" n l r "remove_index (ix_name x)"] here t fresh(1)
    by (simp add: remove_add_index)
  show "list_ex (has_index (ix_name x)) s'"
    using here by (simp add: t(2))
  show "map (remove_index (ix_name x)) s' = s"
    using fresh by (simp add: t(1,2) remove_add_index list_ex_iff remove_index_absent map_idI)
qed

lemma undo_ddl_correct:
  assumes "schema_ok s" and "apply_ddl x s = Some s'" and "undo_ddl x = Some y"
  shows "apply_ddl y s' = Some s"
  using assms
proof (cases x rule: undo_ddl.cases)
  case (1 n items)
  then show ?thesis
    using assms undo_create_table [of s "build_table n items"]
    by (auto simp: Let_def simp del: apply_ddl.simps(2) split: if_splits)
next
  case (2 n c)
  then have y: "y = Drop_column n (cl_name c)"
    using assms(3) by simp
  obtain l t r where t: "s = l @ t # r" "s' = l @ add_column (db_column c) t # r" "cl_name c \<notin> set (column_names t)"
    "tb_name t = n" "n \<notin> set (map tb_name l)" "n \<notin> set (map tb_name r)"
    using assms(2) 2 schema_okD(1) [OF assms(1)] by (auto elim!: on_table_split)
  have "table_ok t"
    using schema_okD(3) [OF assms(1)] t(1) by simp
  then have "cl_name c \<in> set (column_names (add_column (db_column c) t))
      \<and> cl_name c \<notin> set (used_columns (add_column (db_column c) t))"
    using t(3) by (auto simp: add_column_def column_names_def used_columns_def db_column_def table_ok_def)
  then show ?thesis
    using on_table_join [where t = "add_column (db_column c) t" and n = n and l = l and r = r
        and f = "remove_column (cl_name c)"] t remove_add_column [OF t(3), of "db_column c"]
    by (simp add: y db_column_def)
next
  case (3 i n cs)
  then show ?thesis
    using assms undo_add_index(1) by (fastforce simp: Let_def split: if_splits)
next
  case (4 i n cs c vs)
  then show ?thesis
    using assms undo_add_index(2,3) by (fastforce simp: Let_def split: if_splits)
qed simp_all

lemma remove_index_commute: "remove_index i (remove_index j t) = remove_index j (remove_index i t)"
  by (simp add: remove_index_def conj_commute)

lemma has_index_remove: "i \<noteq> j \<Longrightarrow> has_index i (remove_index j t) = has_index i t"
  by (auto simp: has_index_iff remove_index_def)

lemma row_get_update_remove [simp]:
  "row_get tb_name m (row_update tb_name n (remove_index i) s) =
     (if m = n then map_option (remove_index i) (row_get tb_name m s) else row_get tb_name m s)"
  by (simp add: row_get_update)

lemma drop_indexes_commute:
  assumes "i \<noteq> j"
  shows "Option.bind (apply_ddl (Drop_index i n) s) (apply_ddl (Drop_index j m)) =
    Option.bind (apply_ddl (Drop_index j m) s) (apply_ddl (Drop_index i n))"
proof -
  have "row_update tb_name m (remove_index j) (row_update tb_name n (remove_index i) s) =
      row_update tb_name n (remove_index i) (row_update tb_name m (remove_index j) s)"
    by (auto simp: row_update_def remove_index_commute)
  then show ?thesis
    using assms by (auto simp: on_table_def has_index_remove split: option.splits bind_splits)
qed

lemma drop_index_table_commute:
  assumes "n \<noteq> m"
  shows "Option.bind (apply_ddl (Drop_index i n) s) (apply_ddl (Drop_table m)) =
    Option.bind (apply_ddl (Drop_table m) s) (apply_ddl (Drop_index i n))"
proof -
  have "referenced m (row_update tb_name n (remove_index i) s) = referenced m s"
    by (induction s) (auto simp: referenced_def row_update_def)
  moreover have "row_delete tb_name m (row_update tb_name n (remove_index i) s) =
      row_update tb_name n (remove_index i) (row_delete tb_name m s)"
    by (induction s) (auto simp: row_delete_def row_update_def)
  moreover have "map tb_name (row_update tb_name n (remove_index i) s) = map tb_name s"
    by (rule map_key_row_update) simp
  ultimately show ?thesis
    using assms by (cases "row_get tb_name n s")
      (simp_all add: on_table_def row_get_delete del: set_map map_key_row_update)
qed

lemma free_ddl_commute:
  assumes "free_ddl x y"
  shows "Option.bind (apply_ddl x s) (apply_ddl y) = Option.bind (apply_ddl y s) (apply_ddl x)"
  using assms
proof (cases rule: free_ddl.elims(2))
  case (1 i n j m)
  show ?thesis unfolding 1(1,2) by (rule drop_indexes_commute [OF 1(3)])
next
  case (2 i n m)
  show ?thesis unfolding 2(1,2) by (rule drop_index_table_commute [OF 2(3)])
next
  case (3 m i n)
  show ?thesis unfolding 3(1,2) by (rule drop_index_table_commute [OF 3(3), symmetric])
qed

interpretation statements: reversible apply_ddl schema_ok undo_ddl free_ddl
  by unfold_locales (fact apply_ddl_ok undo_ddl_correct free_ddl_commute)+

section \<open>Scripts that only add\<close>

fun creates :: "ddl \<Rightarrow> bool" where
  "creates (Create_table n items) = True"
| "creates (Create_index i n cs) = True"
| "creates _ = False"

definition apart :: "schema \<Rightarrow> schema \<Rightarrow> bool" where
  \<comment> \<open>no name of a table or an index is in both\<close>
  "apart u s = (set (map tb_name u) \<inter> set (map tb_name s) = {} \<and> set (index_names u) \<inter> set (index_names s) = {})"

lemma row_get_apart: "k \<notin> set (map tb_name u) \<Longrightarrow> row_get tb_name k (u @ s) = row_get tb_name k s"
  using row_get_None_iff [of tb_name k u] by (simp split: option.splits)

lemma index_names_update_mono:
  "set (index_names s) \<subseteq> set (index_names (row_update tb_name n (add_index i) s))"
  by (induction s) (auto simp: row_update_def add_index_def)

lemma row_update_apart: "n \<notin> set (map tb_name u) \<Longrightarrow> row_update tb_name n f (u @ s) = u @ row_update tb_name n f s"
  by (simp add: row_update_def) (force intro: map_idI)

lemma creates_grows:
  assumes "creates x" and "apply_ddl x s = Some s'"
  shows "set (map tb_name s) \<subseteq> set (map tb_name s') \<and> set (index_names s) \<subseteq> set (index_names s')"
proof (cases x rule: creates.cases)
  case (1 n items)
  then have "s' = s @ [build_table n items]"
    using assms(2) by (simp add: Let_def split: if_splits)
  then show ?thesis by auto
next
  case (2 i n cs)
  then obtain y where "s' = row_update tb_name n (add_index y) s"
    using assms(2) by (auto simp: Let_def on_table_Some_iff split: if_splits)
  moreover have "map tb_name (row_update tb_name n (add_index y) s) = map tb_name s" for y
    by (rule map_key_row_update) simp
  ultimately show ?thesis
    using index_names_update_mono by simp
qed (use assms(1) in simp_all)

lemma creates_frame:
  assumes x: "creates x" and s': "apply_ddl x s = Some s'" and u: "apart u s'"
  shows "apply_ddl x (u @ s) = Some (u @ s')"
proof (cases x rule: creates.cases)
  case (1 n items)
  let ?t = "build_table n items"
  have s'_eq: "s' = s @ [?t]" and ok: "n \<notin> set (map tb_name s)" "table_ok ?t" "distinct (map ix_name (tb_indexes ?t))"
    "list_all (\<lambda>i. ix_name i \<notin> set (index_names s)) (tb_indexes ?t)"
    "list_all (refers_to_key (s @ [?t])) (tb_foreign_keys ?t)"
    using s' 1 by (auto simp: Let_def split: if_splits)
  have n: "n \<notin> set (map tb_name u)" "\<And>i. i \<in> set (tb_indexes ?t) \<Longrightarrow> ix_name i \<notin> set (index_names u)"
    using u by (auto simp: apart_def s'_eq)
  have "refers_to_key (u @ s @ [?t]) f" if "refers_to_key (s @ [?t]) f" for f
  proof -
    have "fk_table f \<in> set (map tb_name s')"
      using that row_get_None_iff [of tb_name "fk_table f" "s @ [?t]"]
      by (auto simp: refers_to_key_def s'_eq simp del: row_get_append split: option.splits)
    then have "fk_table f \<notin> set (map tb_name u)"
      using u by (auto simp: apart_def)
    then show ?thesis
      using that by (simp add: refers_to_key_def row_get_apart del: row_get_append set_map)
  qed
  then have "list_all (refers_to_key ((u @ s) @ [?t])) (tb_foreign_keys ?t)"
    using ok(5) by (simp add: list_all_iff)
  then show ?thesis
    using ok n by (simp add: 1 Let_def s'_eq list_all_iff del: set_map)
next
  case (2 i n cs)
  let ?x = "\<lparr>ix_name = i, ix_columns = cs, ix_unique = False, ix_where = None\<rparr>"
  have ok: "index_ok ?x n s" and upd: "on_table n (\<lambda>_. True) (add_index ?x) s = Some s'"
    using s' 2 by (auto simp: Let_def split: if_splits)
  obtain t where t: "row_get tb_name n s = Some t" "s' = row_update tb_name n (add_index ?x) s"
    using upd by (auto simp: on_table_Some_iff)
  have "n \<in> set (map tb_name s')"
    using t row_get_None_iff [of tb_name n s] by (auto simp: row_update_def)
  moreover have "i \<in> set (index_names s')"
    using row_get_Some [OF t(1)] by (auto simp: t(2) row_update_def index_names_def add_index_def intro!: bexI [of _ t])
  ultimately have "n \<notin> set (map tb_name u)" "i \<notin> set (index_names u)"
    using u by (auto simp: apart_def)
  then show ?thesis
    using ok t by (simp add: 2 Let_def index_ok_def on_table_def row_get_apart row_update_apart del: row_get_append set_map)
qed (use x in simp_all)

lemma creates_frame_all:
  "list_all creates xs \<Longrightarrow> run_all apply_ddl xs s = Some s' \<Longrightarrow> apart u s' \<Longrightarrow>
   run_all apply_ddl xs (u @ s) = Some (u @ s') \<and> apart u s"
proof (induction xs arbitrary: s)
  case (Cons x xs)
  then obtain s1 where s1: "apply_ddl x s = Some s1" "run_all apply_ddl xs s1 = Some s'"
    by (auto simp: bind_eq_Some_conv)
  then have ih: "run_all apply_ddl xs (u @ s1) = Some (u @ s')" "apart u s1"
    using Cons by auto
  have "creates x"
    using Cons.prems(1) by simp
  then show ?case
    using creates_frame [OF _ s1(1) ih(2)] creates_grows [OF _ s1(1)] ih by (auto simp: apart_def)
qed simp

end
