(* ===== verification/Migrations.thy ===== *)
theory Migrations
  imports Ddl
begin

text \<open>
  The migration scripts of \<open>alembic/versions\<close>, statement by statement, and Alembic's walk along them. A script
  names its revision and the revision it follows; the database stores the revision it is at, and one step
  runs the \<open>upgrade\<close> of the script that follows it or the \<open>downgrade\<close> of its own script. The loops of the
  second script are maps over the same tuples.

  The properties: a downgrade takes back its upgrade on any schema in which names mean one thing, although
  the scripts do not always drop things in the reverse order; and the schema of a database is determined
  by the revision it stores, whatever upgrades and downgrades it went through.
\<close>

record script =
  sc_revision :: string
  sc_down_revision :: "string option"
  sc_upgrade :: "ddl list"
  sc_downgrade :: "ddl list"

section \<open>20260811_0001: Create AgentGraph backend core tables\<close>

definition agent_status_type :: coltype where
  "agent_status_type = SaEnum ''agentstatus'' [''idle'', ''running'', ''error'']"

definition run_status_type :: coltype where
  "run_status_type = SaEnum ''runstatus'' [''queued'', ''running'', ''succeeded'', ''failed'', ''cancelled'']"

definition upgrade_0001 :: "ddl list" where
  "upgrade_0001 =
    [Create_table ''agents''
       [Column (not_null ''id'' (SaString 36)),
        Column (not_null ''name'' (SaString 200)),
        Column (optional ''description'' SaText),
        Column (not_null ''status'' agent_status_type),
        Column (not_null ''model_ref'' (SaString 500)),
        Column (not_null ''graph_definition'' SaJSON),
        Column (not_null ''created_at'' SaDateTime),
        Column (not_null ''updated_at'' SaDateTime),
        PrimaryKeyConstraint [''id'']],
     Create_table ''agent_runs''
       [Column (not_null ''id'' (SaString 36)),
        Column (not_null ''agent_id'' (SaString 36)),
        Column (not_null ''status'' run_status_type),
        Column (not_null ''input_text'' SaText),
        Column (optional ''output_text'' SaText),
        Column (optional ''error'' SaText),
        Column (not_null ''created_at'' SaDateTime),
        Column (optional ''started_at'' SaDateTime),
        Column (optional ''finished_at'' SaDateTime),
        ForeignKeyConstraint [''agent_id''] ''agents'' [''id''] ''CASCADE'',
        PrimaryKeyConstraint [''id'']],
     Create_index ''ix_agent_runs_agent_id'' ''agent_runs'' [''agent_id''],
     Create_index ''ix_agent_runs_status'' ''agent_runs'' [''status''],
     Execute (CREATE_UNIQUE_INDEX_WHERE ''uq_agent_runs_active_agent'' ''agent_runs'' [''agent_id'']
       ''status'' [''queued'', ''running''])]"

definition downgrade_0001 :: "ddl list" where
  "downgrade_0001 =
    [Execute (DROP_INDEX ''uq_agent_runs_active_agent''),
     Drop_index ''ix_agent_runs_status'' ''agent_runs'',
     Drop_index ''ix_agent_runs_agent_id'' ''agent_runs'',
     Drop_table ''agent_runs'',
     Drop_table ''agents'']"

definition script_0001 :: script where
  "script_0001 = \<lparr>sc_revision = ''20260811_0001'', sc_down_revision = None,
     sc_upgrade = upgrade_0001, sc_downgrade = downgrade_0001\<rparr>"

section \<open>20260811_0002: Add normalized model metadata to runs\<close>

definition upgrade_0002 :: "ddl list" where
  "upgrade_0002 =
    map (\<lambda>(name, ty). Add_column ''agent_runs'' (optional name ty))
        [(''provider_id'', SaString 100),
         (''model_id'', SaString 500),
         (''finish_reason'', SaString 100),
         (''input_tokens'', SaInteger),
         (''output_tokens'', SaInteger),
         (''total_tokens'', SaInteger),
         (''latency_ms'', SaInteger)]"

definition downgrade_0002 :: "ddl list" where
  "downgrade_0002 = map (Drop_column ''agent_runs'')
     [''latency_ms'', ''total_tokens'', ''output_tokens'', ''input_tokens'',
      ''finish_reason'', ''model_id'', ''provider_id'']"

definition script_0002 :: script where
  "script_0002 = \<lparr>sc_revision = ''20260811_0002'', sc_down_revision = Some ''20260811_0001'',
     sc_upgrade = upgrade_0002, sc_downgrade = downgrade_0002\<rparr>"

section \<open>20260812_0003: Add persisted vision assets, analyses, and registered folders\<close>

definition upgrade_0003 :: "ddl list" where
  "upgrade_0003 =
    [Create_table ''vision_assets''
       [Column (primary ''id'' (SaString 36)),
        Column (not_null ''filename'' (SaString 255)),
        Column (not_null ''mime_type'' (SaString 100)),
        Column (not_null ''size_bytes'' SaInteger),
        Column (unique_col (not_null ''sha256'' (SaString 64))),
        Column (not_null ''source_type'' (SaString 30)),
        Column (unique_col (not_null ''storage_locator'' (SaString 255))),
        Column (not_null ''created_at'' SaDateTime)],
     Create_index ''ix_vision_assets_sha256'' ''vision_assets'' [''sha256''],
     Create_table ''vision_analyses''
       [Column (primary ''id'' (SaString 36)),
        Column (refers ''vision_assets'' ''id'' ''CASCADE'' (not_null ''asset_id'' (SaString 36))),
        Column (not_null ''provider_id'' (SaString 100)),
        Column (not_null ''model_id'' (SaString 500)),
        Column (not_null ''mode'' (SaString 20)),
        Column (optional ''prompt'' SaText),
        Column (not_null ''status'' (SaString 20)),
        Column (optional ''raw_text'' SaText),
        Column (optional ''description'' SaText),
        Column (optional ''ocr_text'' SaText),
        Column (optional ''structured_result'' SaJSON),
        Column (optional ''latency_ms'' SaInteger),
        Column (optional ''error_code'' (SaString 100)),
        Column (not_null ''created_at'' SaDateTime),
        Column (optional ''completed_at'' SaDateTime)],
     Create_index ''ix_vision_analyses_asset_id'' ''vision_analyses'' [''asset_id''],
     Create_table ''vision_folders''
       [Column (primary ''id'' (SaString 36)),
        Column (not_null ''display_name'' (SaString 200)),
        Column (unique_col (not_null ''root'' SaText)),
        Column (not_null ''enabled'' SaBoolean),
        Column (not_null ''created_at'' SaDateTime)]]"

definition downgrade_0003 :: "ddl list" where
  "downgrade_0003 =
    [Drop_table ''vision_folders'',
     Drop_index ''ix_vision_analyses_asset_id'' ''vision_analyses'',
     Drop_table ''vision_analyses'',
     Drop_index ''ix_vision_assets_sha256'' ''vision_assets'',
     Drop_table ''vision_assets'']"

definition script_0003 :: script where
  "script_0003 = \<lparr>sc_revision = ''20260812_0003'', sc_down_revision = Some ''20260811_0002'',
     sc_upgrade = upgrade_0003, sc_downgrade = downgrade_0003\<rparr>"

section \<open>20260815_0004: Add Lexi memory, run usage links, and controlled tool history\<close>

definition upgrade_0004 :: "ddl list" where
  "upgrade_0004 =
    [Create_table ''memory_records''
       [Column (primary ''id'' (SaString 36)),
        Column (not_null ''project_id'' (SaString 100)),
        Column (refers ''agents'' ''id'' ''CASCADE'' (not_null ''agent_id'' (SaString 36))),
        Column (not_null ''kind'' (SaString 20)),
        Column (not_null ''content'' SaText),
        Column (not_null ''tags'' SaJSON),
        Column (not_null ''created_at'' SaDateTime),
        Column (not_null ''updated_at'' SaDateTime),
        Column (optional ''deleted_at'' SaDateTime)],
     Create_index ''ix_memory_records_project_id'' ''memory_records'' [''project_id''],
     Create_index ''ix_memory_records_agent_id'' ''memory_records'' [''agent_id''],
     Create_table ''run_memory_records''
       [Column (primary ''id'' (SaString 36)),
        Column (refers ''agent_runs'' ''id'' ''CASCADE'' (not_null ''run_id'' (SaString 36))),
        Column (refers ''memory_records'' ''id'' ''SET NULL'' (optional ''memory_id'' (SaString 36))),
        Column (not_null ''memory_id_snapshot'' (SaString 36)),
        Column (not_null ''rank'' SaInteger),
        Column (optional ''score'' SaFloat)],
     Create_index ''ix_run_memory_records_run_id'' ''run_memory_records'' [''run_id''],
     Create_index ''ix_run_memory_records_memory_id'' ''run_memory_records'' [''memory_id''],
     Create_table ''tool_invocations''
       [Column (primary ''id'' (SaString 36)),
        Column (refers ''agent_runs'' ''id'' ''CASCADE'' (not_null ''run_id'' (SaString 36))),
        Column (not_null ''tool_id'' (SaString 100)),
        Column (not_null ''risk'' (SaString 20)),
        Column (not_null ''status'' (SaString 30)),
        Column (optional ''approval_id'' (SaString 100)),
        Column (not_null ''input_metadata'' SaJSON),
        Column (optional ''output_metadata'' SaJSON),
        Column (optional ''error_code'' (SaString 100)),
        Column (not_null ''started_at'' SaDateTime),
        Column (optional ''finished_at'' SaDateTime),
        Column (optional ''duration_ms'' SaInteger)],
     Create_index ''ix_tool_invocations_run_id'' ''tool_invocations'' [''run_id'']]"

definition downgrade_0004 :: "ddl list" where
  "downgrade_0004 =
    [Drop_index ''ix_tool_invocations_run_id'' ''tool_invocations'',
     Drop_table ''tool_invocations'',
     Drop_index ''ix_run_memory_records_memory_id'' ''run_memory_records'',
     Drop_index ''ix_run_memory_records_run_id'' ''run_memory_records'',
     Drop_table ''run_memory_records'',
     Drop_index ''ix_memory_records_agent_id'' ''memory_records'',
     Drop_index ''ix_memory_records_project_id'' ''memory_records'',
     Drop_table ''memory_records'']"

definition script_0004 :: script where
  "script_0004 = \<lparr>sc_revision = ''20260815_0004'', sc_down_revision = Some ''20260812_0003'',
     sc_upgrade = upgrade_0004, sc_downgrade = downgrade_0004\<rparr>"

section \<open>20260816_0005: Add persistent parent-child run delegations\<close>

definition upgrade_0005 :: "ddl list" where
  "upgrade_0005 =
    [Create_table ''run_delegations''
       [Column (primary ''id'' (SaString 36)),
        Column (refers ''agent_runs'' ''id'' ''CASCADE'' (not_null ''parent_run_id'' (SaString 36))),
        Column (refers ''agent_runs'' ''id'' ''CASCADE'' (not_null ''child_run_id'' (SaString 36))),
        Column (not_null ''node_id'' (SaString 100)),
        Column (not_null ''depth'' SaInteger),
        Column (not_null ''created_at'' SaDateTime),
        UniqueConstraint [''parent_run_id'', ''node_id''] (Some ''uq_run_delegations_parent_node''),
        UniqueConstraint [''child_run_id''] None],
     Create_index ''ix_run_delegations_parent_run_id'' ''run_delegations'' [''parent_run_id''],
     Create_index ''ix_run_delegations_child_run_id'' ''run_delegations'' [''child_run_id'']]"

definition downgrade_0005 :: "ddl list" where
  "downgrade_0005 =
    [Drop_index ''ix_run_delegations_child_run_id'' ''run_delegations'',
     Drop_index ''ix_run_delegations_parent_run_id'' ''run_delegations'',
     Drop_table ''run_delegations'']"

definition script_0005 :: script where
  "script_0005 = \<lparr>sc_revision = ''20260816_0005'', sc_down_revision = Some ''20260815_0004'',
     sc_upgrade = upgrade_0005, sc_downgrade = downgrade_0005\<rparr>"

section \<open>20260817_0006: Add persistent Core-owned node registry\<close>

definition upgrade_0006 :: "ddl list" where
  "upgrade_0006 =
    [Create_table ''nodes''
       [Column (primary ''id'' (SaString 100)),
        Column (not_null ''name'' (SaString 200)),
        Column (not_null ''role'' (SaString 20)),
        Column (not_null ''status'' (SaString 20)),
        Column (not_null ''enabled'' SaBoolean),
        Column (not_null ''enrollment_hash'' (SaString 64)),
        Column (not_null ''capabilities'' SaJSON),
        Column (not_null ''created_at'' SaDateTime),
        Column (not_null ''updated_at'' SaDateTime),
        Column (optional ''last_seen_at'' SaDateTime)],
     Create_index ''ix_nodes_status'' ''nodes'' [''status'']]"

definition downgrade_0006 :: "ddl list" where
  "downgrade_0006 =
    [Drop_index ''ix_nodes_status'' ''nodes'',
     Drop_table ''nodes'']"

definition script_0006 :: script where
  "script_0006 = \<lparr>sc_revision = ''20260817_0006'', sc_down_revision = Some ''20260816_0005'',
     sc_upgrade = upgrade_0006, sc_downgrade = downgrade_0006\<rparr>"

section \<open>20260817_0007: Add durable local recovery records\<close>

definition upgrade_0007 :: "ddl list" where
  "upgrade_0007 =
    [Add_column ''agent_runs'' (optional ''execution_spec'' SaJSON),
     Create_table ''run_checkpoints''
       [Column (primary ''id'' (SaString 36)),
        Column (refers ''agent_runs'' ''id'' ''CASCADE'' (not_null ''run_id'' (SaString 36))),
        Column (not_null ''sequence'' SaInteger),
        Column (not_null ''format_version'' SaInteger),
        Column (not_null ''reason'' (SaString 20)),
        Column (not_null ''state'' SaJSON),
        Column (not_null ''checksum'' (SaString 64)),
        Column (not_null ''created_at'' SaDateTime),
        UniqueConstraint [''run_id'', ''sequence''] (Some ''uq_run_checkpoints_run_sequence'')],
     Create_index ''ix_run_checkpoints_run_id'' ''run_checkpoints'' [''run_id''],
     Create_table ''run_action_ledger_entries''
       [Column (primary ''id'' (SaString 36)),
        Column (refers ''agent_runs'' ''id'' ''CASCADE'' (not_null ''run_id'' (SaString 36))),
        Column (refers ''tool_invocations'' ''id'' ''SET NULL''
          (unique_col (optional ''tool_invocation_id'' (SaString 36)))),
        Column (not_null ''action_type'' (SaString 100)),
        Column (not_null ''risk'' (SaString 20)),
        Column (not_null ''status'' (SaString 30)),
        Column (not_null ''metadata'' SaJSON),
        Column (not_null ''rollback_status'' (SaString 30)),
        Column (not_null ''created_at'' SaDateTime),
        Column (optional ''started_at'' SaDateTime),
        Column (optional ''finished_at'' SaDateTime)],
     Create_index ''ix_run_action_ledger_entries_run_id'' ''run_action_ledger_entries'' [''run_id''],
     Create_table ''run_recovery_decisions''
       [Column (primary ''id'' (SaString 36)),
        Column (refers ''agent_runs'' ''id'' ''CASCADE'' (not_null ''run_id'' (SaString 36))),
        Column (refers ''run_checkpoints'' ''id'' ''SET NULL'' (optional ''checkpoint_id'' (SaString 36))),
        Column (not_null ''outcome'' (SaString 40)),
        Column (not_null ''details'' SaJSON),
        Column (not_null ''created_at'' SaDateTime)],
     Create_index ''ix_run_recovery_decisions_run_id'' ''run_recovery_decisions'' [''run_id'']]"

definition downgrade_0007 :: "ddl list" where
  "downgrade_0007 =
    [Drop_index ''ix_run_recovery_decisions_run_id'' ''run_recovery_decisions'',
     Drop_table ''run_recovery_decisions'',
     Drop_index ''ix_run_action_ledger_entries_run_id'' ''run_action_ledger_entries'',
     Drop_table ''run_action_ledger_entries'',
     Drop_index ''ix_run_checkpoints_run_id'' ''run_checkpoints'',
     Drop_table ''run_checkpoints'',
     Drop_column ''agent_runs'' ''execution_spec'']"

definition script_0007 :: script where
  "script_0007 = \<lparr>sc_revision = ''20260817_0007'', sc_down_revision = Some ''20260817_0006'',
     sc_upgrade = upgrade_0007, sc_downgrade = downgrade_0007\<rparr>"

section \<open>20260818_0008: Add durable security foundation records\<close>

definition upgrade_0008_accounts :: "ddl list" where
  "upgrade_0008_accounts =
    [Create_table ''users''
       [Column (primary ''id'' (SaString 36)),
        Column (unique_col (not_null ''username'' (SaString 200))),
        Column (not_null ''role'' (SaString 20)),
        Column (optional ''disabled_at'' SaDateTime),
        Column (not_null ''created_at'' SaDateTime)],
     Create_table ''security_devices''
       [Column (primary ''id'' (SaString 36)),
        Column (refers ''users'' ''id'' ''CASCADE'' (not_null ''user_id'' (SaString 36))),
        Column (not_null ''display_name'' (SaString 200)),
        Column (not_null ''trust'' (SaString 20)),
        Column (optional ''revoked_at'' SaDateTime),
        Column (optional ''last_authenticated_at'' SaDateTime),
        Column (not_null ''created_at'' SaDateTime)],
     Create_index ''ix_security_devices_user_id'' ''security_devices'' [''user_id''],
     Create_table ''auth_sessions''
       [Column (primary ''id'' (SaString 36)),
        Column (refers ''users'' ''id'' ''CASCADE'' (not_null ''user_id'' (SaString 36))),
        Column (refers ''security_devices'' ''id'' ''CASCADE'' (not_null ''device_id'' (SaString 36))),
        Column (unique_col (not_null ''token_hash'' (SaString 64))),
        Column (not_null ''strength'' (SaString 20)),
        Column (not_null ''expires_at'' SaDateTime),
        Column (not_null ''last_activity_at'' SaDateTime),
        Column (optional ''step_up_at'' SaDateTime),
        Column (optional ''revoked_at'' SaDateTime),
        Column (not_null ''created_at'' SaDateTime)],
     Create_index ''ix_auth_sessions_user_id'' ''auth_sessions'' [''user_id''],
     Create_index ''ix_auth_sessions_device_id'' ''auth_sessions'' [''device_id''],
     Create_index ''ix_auth_sessions_expires_at'' ''auth_sessions'' [''expires_at''],
     Create_table ''passkey_credentials''
       [Column (primary ''id'' (SaString 36)),
        Column (refers ''users'' ''id'' ''CASCADE'' (not_null ''user_id'' (SaString 36))),
        Column (refers ''security_devices'' ''id'' ''CASCADE'' (not_null ''device_id'' (SaString 36))),
        Column (unique_col (not_null ''credential_id'' SaLargeBinary)),
        Column (not_null ''public_key'' SaLargeBinary),
        Column (not_null ''sign_count'' SaInteger),
        Column (optional ''revoked_at'' SaDateTime),
        Column (not_null ''created_at'' SaDateTime)],
     Create_index ''ix_passkey_credentials_user_id'' ''passkey_credentials'' [''user_id''],
     Create_index ''ix_passkey_credentials_device_id'' ''passkey_credentials'' [''device_id''],
     Create_table ''auth_challenges''
       [Column (primary ''id'' (SaString 36)),
        Column (not_null ''kind'' (SaString 30)),
        Column (unique_col (not_null ''challenge'' SaLargeBinary)),
        Column (refers ''users'' ''id'' ''CASCADE'' (optional ''user_id'' (SaString 36))),
        Column (optional ''device_name'' (SaString 200)),
        Column (not_null ''expires_at'' SaDateTime),
        Column (optional ''consumed_at'' SaDateTime),
        Column (not_null ''created_at'' SaDateTime)],
     Create_index ''ix_auth_challenges_user_id'' ''auth_challenges'' [''user_id''],
     Create_table ''second_factors''
       [Column (refers ''users'' ''id'' ''CASCADE'' (primary ''user_id'' (SaString 36))),
        Column (not_null ''encrypted_secret'' SaLargeBinary),
        Column (not_null ''key_version'' SaInteger),
        Column (not_null ''enabled_at'' SaDateTime),
        Column (optional ''revoked_at'' SaDateTime)]]"

definition upgrade_0008_authority :: "ddl list" where
  "upgrade_0008_authority =
    [Create_table ''security_approvals''
       [Column (primary ''id'' (SaString 36)),
        Column (not_null ''project_id'' (SaString 100)),
        Column (not_null ''requested_by'' (SaString 200)),
        Column (not_null ''action'' (SaString 200)),
        Column (optional ''target'' (SaString 500)),
        Column (optional ''run_id'' (SaString 36)),
        Column (optional ''task_ref'' (SaString 100)),
        Column (optional ''risk'' (SaString 30)),
        Column (not_null ''reason'' SaText),
        Column (not_null ''scope'' SaJSON),
        Column (not_null ''status'' (SaString 20)),
        Column (not_null ''expires_at'' SaDateTime),
        Column (optional ''decision'' (SaString 20)),
        Column (refers ''users'' ''id'' ''SET NULL'' (optional ''decided_by_user_id'' (SaString 36))),
        Column (optional ''decided_at'' SaDateTime),
        Column (not_null ''created_at'' SaDateTime)],
     Create_table ''security_grants''
       [Column (primary ''id'' (SaString 36)),
        Column (refers ''users'' ''id'' ''CASCADE'' (not_null ''issuer_user_id'' (SaString 36))),
        Column (not_null ''subject'' (SaString 200)),
        Column (not_null ''action'' (SaString 200)),
        Column (optional ''target'' (SaString 500)),
        Column (optional ''run_id'' (SaString 36)),
        Column (optional ''task_ref'' (SaString 100)),
        Column (refers ''security_devices'' ''id'' ''SET NULL'' (optional ''device_id'' (SaString 36))),
        Column (refers ''security_approvals'' ''id'' ''SET NULL'' (optional ''source_approval_id'' (SaString 36))),
        Column (not_null ''status'' (SaString 20)),
        Column (not_null ''expires_at'' SaDateTime),
        Column (optional ''revoked_at'' SaDateTime),
        Column (not_null ''created_at'' SaDateTime)],
     Create_index ''ix_security_approvals_status_expires_at'' ''security_approvals'' [''status'', ''expires_at''],
     Create_index ''ix_security_grants_subject_action_target_run_task_expires_at'' ''security_grants''
       [''subject'', ''action'', ''target'', ''run_id'', ''task_ref'', ''expires_at''],
     Create_table ''vault_credentials''
       [Column (primary ''id'' (SaString 36)),
        Column (unique_col (not_null ''name'' (SaString 200))),
        Column (not_null ''credential_type'' (SaString 100)),
        Column (not_null ''encrypted_value'' SaLargeBinary),
        Column (not_null ''key_version'' SaInteger),
        Column (optional ''revoked_at'' SaDateTime),
        Column (refers ''users'' ''id'' ''RESTRICT'' (not_null ''created_by_user_id'' (SaString 36))),
        Column (not_null ''created_at'' SaDateTime),
        Column (not_null ''updated_at'' SaDateTime)],
     Create_table ''security_audit_events''
       [Column (primary ''id'' (SaString 36)),
        Column (not_null ''event_type'' (SaString 100)),
        Column (refers ''users'' ''id'' ''SET NULL'' (optional ''actor_user_id'' (SaString 36))),
        Column (refers ''auth_sessions'' ''id'' ''SET NULL'' (optional ''session_id'' (SaString 36))),
        Column (refers ''security_devices'' ''id'' ''SET NULL'' (optional ''device_id'' (SaString 36))),
        Column (optional ''target'' (SaString 500)),
        Column (not_null ''result'' (SaString 30)),
        Column (not_null ''metadata'' SaJSON),
        Column (not_null ''created_at'' SaDateTime)],
     Create_index ''ix_security_audit_events_event_type'' ''security_audit_events'' [''event_type''],
     Create_index ''ix_security_audit_events_created_at'' ''security_audit_events'' [''created_at''],
     Create_table ''security_state''
       [Column (primary ''id'' SaInteger),
        Column (not_null ''lockdown'' (SaString 20)),
        Column (not_null ''updated_at'' SaDateTime)]]"

definition upgrade_0008 :: "ddl list" where
  "upgrade_0008 = upgrade_0008_accounts @ upgrade_0008_authority"

definition downgrade_0008 :: "ddl list" where
  "downgrade_0008 =
    [Drop_table ''security_state'',
     Drop_index ''ix_security_audit_events_created_at'' ''security_audit_events'',
     Drop_index ''ix_security_audit_events_event_type'' ''security_audit_events'',
     Drop_table ''security_audit_events'',
     Drop_table ''vault_credentials'',
     Drop_index ''ix_security_grants_subject_action_target_run_task_expires_at'' ''security_grants'',
     Drop_table ''security_grants'',
     Drop_index ''ix_security_approvals_status_expires_at'' ''security_approvals'',
     Drop_table ''security_approvals'',
     Drop_table ''second_factors'',
     Drop_index ''ix_auth_challenges_user_id'' ''auth_challenges'',
     Drop_table ''auth_challenges'',
     Drop_index ''ix_passkey_credentials_device_id'' ''passkey_credentials'',
     Drop_index ''ix_passkey_credentials_user_id'' ''passkey_credentials'',
     Drop_table ''passkey_credentials'',
     Drop_index ''ix_auth_sessions_device_id'' ''auth_sessions'',
     Drop_index ''ix_auth_sessions_user_id'' ''auth_sessions'',
     Drop_index ''ix_auth_sessions_expires_at'' ''auth_sessions'',
     Drop_table ''auth_sessions'',
     Drop_index ''ix_security_devices_user_id'' ''security_devices'',
     Drop_table ''security_devices'',
     Drop_table ''users'']"

definition script_0008 :: script where
  "script_0008 = \<lparr>sc_revision = ''20260818_0008'', sc_down_revision = Some ''20260817_0007'',
     sc_upgrade = upgrade_0008, sc_downgrade = downgrade_0008\<rparr>"

section \<open>Walking along the scripts\<close>

definition migrations :: "script list" where
  "migrations = [script_0001, script_0002, script_0003, script_0004, script_0005, script_0006, script_0007, script_0008]"

type_synonym database = "string option \<times> schema" \<comment> \<open>\<open>alembic_version\<close> and the tables\<close>

definition empty_database :: database where
  "empty_database = (None, [])"

definition upgrade_one :: "script list \<Rightarrow> database \<Rightarrow> database option" where
  \<comment> \<open>\<open>alembic upgrade +1\<close>\<close>
  "upgrade_one ms db = (case find (\<lambda>m. sc_down_revision m = fst db) ms of None \<Rightarrow> None
     | Some m \<Rightarrow> map_option (Pair (Some (sc_revision m))) (run_all apply_ddl (sc_upgrade m) (snd db)))"

definition downgrade_one :: "script list \<Rightarrow> database \<Rightarrow> database option" where
  \<comment> \<open>\<open>alembic downgrade -1\<close>\<close>
  "downgrade_one ms db = (case find (\<lambda>m. Some (sc_revision m) = fst db) ms of None \<Rightarrow> None
     | Some m \<Rightarrow> map_option (Pair (sc_down_revision m)) (run_all apply_ddl (sc_downgrade m) (snd db)))"

fun upgrades :: "script list \<Rightarrow> nat \<Rightarrow> database \<Rightarrow> database option" where
  "upgrades ms 0 db = Some db"
| "upgrades ms (Suc n) db = Option.bind (upgrades ms n db) (upgrade_one ms)"

inductive alembic_step :: "script list \<Rightarrow> database \<Rightarrow> database \<Rightarrow> bool" for ms where
  upgraded: "upgrade_one ms db = Some db' \<Longrightarrow> alembic_step ms db db'"
| downgraded: "downgrade_one ms db = Some db' \<Longrightarrow> alembic_step ms db db'"

definition undoes :: "ddl list \<Rightarrow> ddl list \<Rightarrow> bool" where
  \<comment> \<open>the second script takes back the first, up to the order of statements that do not touch each other\<close>
  "undoes us ds = (case those (map undo_ddl us) of None \<Rightarrow> False | Some ys \<Rightarrow> rearranges free_ddl ds (rev ys))"

lemmas script_defs =
  script_0001_def script_0002_def script_0003_def script_0004_def
  script_0005_def script_0006_def script_0007_def script_0008_def

section \<open>A downgrade takes back its upgrade\<close>

lemma scripts_undone: "list_all (\<lambda>m. undoes (sc_upgrade m) (sc_downgrade m)) migrations"
  by code_simp

lemma script_undoes: "m \<in> set migrations \<Longrightarrow> undoes (sc_upgrade m) (sc_downgrade m)"
  using scripts_undone by (simp add: list_all_iff)

text \<open>
  This holds of any database in which a drop takes back its creation and drops that do not touch each other
  may change places.
\<close>

lemma downgrade_undoes_upgrade_anywhere:
  assumes "reversible run good undo_ddl free_ddl"
    and "m \<in> set migrations" and "good s" and "run_all run (sc_upgrade m) s = Some s'"
  shows "run_all run (sc_downgrade m) s' = Some s"
proof -
  obtain ys where "those (map undo_ddl (sc_upgrade m)) = Some ys" "rearranges free_ddl (sc_downgrade m) (rev ys)"
    using script_undoes [OF assms(2)] by (auto simp: undoes_def split: option.splits)
  with assms(1,3,4) show ?thesis
    by (rule reversible.script_undone)
qed

text \<open>
  C23: Whatever the schema a script of \<open>alembic/versions\<close> is applied to, when its upgrade goes through
  then its downgrade goes through as well and restores exactly that schema: every table, column,
  constraint and index, in order. No table is dropped while another one's foreign key refers to it.
\<close>

theorem downgrade_undoes_upgrade:
  assumes "m \<in> set migrations" and "schema_ok s" and "run_all apply_ddl (sc_upgrade m) s = Some s'"
  shows "run_all apply_ddl (sc_downgrade m) s' = Some s"
  using statements.reversible_axioms assms by (rule downgrade_undoes_upgrade_anywhere)

theorem downgrade_undoes_upgrade_witness:
  "\<exists>s'. run_all apply_ddl (sc_upgrade script_0001) [] = Some s' \<and> s' \<noteq> [] \<and>
     run_all apply_ddl (sc_downgrade script_0001) s' = Some []"
proof -
  have "run_all apply_ddl (sc_upgrade script_0001) [] \<noteq> None"
    and some: "run_all apply_ddl (sc_upgrade script_0001) [] \<noteq> Some []"
    by code_simp+
  then obtain s' where s': "run_all apply_ddl (sc_upgrade script_0001) [] = Some s'"
    by blast
  have "script_0001 \<in> set migrations" "schema_ok []"
    by (simp_all add: migrations_def schema_ok_def)
  then show ?thesis
    using downgrade_undoes_upgrade [of script_0001 "[]" s'] s' some by auto
qed

section \<open>The revision determines the schema\<close>

definition revision_at :: "nat \<Rightarrow> string option" where
  \<comment> \<open>the revision after the first \<open>n\<close> scripts\<close>
  "revision_at n = (if n = 0 then None else Some (sc_revision (migrations ! (n - 1))))"

lemma number_of_migrations: "length migrations = 8"
  by (simp add: migrations_def)

lemma scripts_linear:
  "distinct (map sc_revision migrations)"
  "map sc_down_revision migrations = None # map (Some \<circ> sc_revision) (butlast migrations)"
  by (simp_all add: migrations_def script_defs)

lemma find_nth:
  "distinct (map f xs) \<Longrightarrow> n < length xs \<Longrightarrow> find (\<lambda>x. f x = f (xs ! n)) xs = Some (xs ! n)"
  by (induction xs arbitrary: n) (auto simp: nth_Cons' split: if_splits)

lemma down_revision_at: "n < 8 \<Longrightarrow> sc_down_revision (migrations ! n) = revision_at n"
proof -
  assume n: "n < 8"
  then have "sc_down_revision (migrations ! n) = map sc_down_revision migrations ! n"
    by (simp add: number_of_migrations)
  also have "\<dots> = revision_at n"
    using n unfolding scripts_linear(2)
    by (cases n) (simp_all add: revision_at_def nth_butlast number_of_migrations)
  finally show ?thesis .
qed

lemma down_revisions_distinct: "distinct (map sc_down_revision migrations)"
proof -
  have "distinct (map sc_revision (butlast migrations))"
    using scripts_linear(1) by (metis distinct_butlast map_butlast)
  then show ?thesis
    unfolding scripts_linear(2) by (auto simp: distinct_map inj_on_def)
qed

lemma next_script: "n < 8 \<Longrightarrow> find (\<lambda>m. sc_down_revision m = revision_at n) migrations = Some (migrations ! n)"
  using find_nth [OF down_revisions_distinct, of n] by (simp add: down_revision_at number_of_migrations)

lemma no_next_script: "find (\<lambda>m. sc_down_revision m = revision_at 8) migrations = None"
  by (simp add: migrations_def script_defs revision_at_def)

lemma this_script:
  "n < 8 \<Longrightarrow> find (\<lambda>m. Some (sc_revision m) = revision_at (Suc n)) migrations = Some (migrations ! n)"
  using find_nth [OF scripts_linear(1), of n] by (simp add: revision_at_def number_of_migrations)

lemma no_script: "find (\<lambda>m. Some (sc_revision m) = revision_at 0) migrations = None"
  by (simp add: migrations_def revision_at_def)

lemma upgrades_Suc:
  assumes "n < 8" and "fst db = revision_at n"
  shows "upgrade_one migrations db =
    map_option (Pair (revision_at (Suc n))) (run_all apply_ddl (sc_upgrade (migrations ! n)) (snd db))"
  using next_script [OF assms(1)] assms by (simp add: upgrade_one_def revision_at_def)

lemma schema_ok_upgrades:
  assumes "upgrades migrations n empty_database = Some db"
  shows "n \<le> 8 \<and> fst db = revision_at n \<and> schema_ok (snd db)"
  using assms
proof (induction n arbitrary: db)
  case 0
  then show ?case by (auto simp: empty_database_def revision_at_def schema_ok_def)
next
  case (Suc n)
  then obtain d where d: "upgrades migrations n empty_database = Some d" "upgrade_one migrations d = Some db"
    by (auto simp: bind_eq_Some_conv)
  note ih = Suc.IH [OF d(1)]
  have "n \<noteq> 8"
    using d(2) ih no_next_script by (auto simp: upgrade_one_def)
  then have n: "n < 8" "fst d = revision_at n" "schema_ok (snd d)"
    using ih by simp_all
  then obtain s where "run_all apply_ddl (sc_upgrade (migrations ! n)) (snd d) = Some s" "db = (revision_at (Suc n), s)"
    using d(2) by (auto simp: upgrades_Suc)
  then show ?case
    using n statements.good_run_all [OF n(3)] by auto
qed

lemma downgrade_one_upgrades:
  assumes "upgrades migrations (Suc k) empty_database = Some db"
  shows "downgrade_one migrations db = upgrades migrations k empty_database"
proof -
  obtain d where d: "upgrades migrations k empty_database = Some d" "upgrade_one migrations d = Some db"
    using assms by (auto simp: bind_eq_Some_conv)
  have k: "k < 8" "fst d = revision_at k" "schema_ok (snd d)"
    using schema_ok_upgrades [OF d(1)] schema_ok_upgrades [OF assms(1)] by auto
  have up: "run_all apply_ddl (sc_upgrade (migrations ! k)) (snd d) = Some (snd db)" "fst db = revision_at (Suc k)"
    using d(2) k by (auto simp: upgrades_Suc)
  have "migrations ! k \<in> set migrations"
    using k(1) by (simp add: number_of_migrations)
  then have "run_all apply_ddl (sc_downgrade (migrations ! k)) (snd db) = Some (snd d)"
    using downgrade_undoes_upgrade_anywhere [OF statements.reversible_axioms] k(3) up(1) by blast
  then show ?thesis
    using this_script [OF k(1)] up(2) down_revision_at [OF k(1)] k(2) d(1)
    by (simp add: downgrade_one_def prod_eq_iff)
qed

lemma upgrades_pred: "upgrades ms (Suc k) db = Some d \<Longrightarrow> upgrades ms k db \<noteq> None"
  by (auto split: bind_splits)

lemma downgrade_one_empty: "downgrade_one migrations empty_database = None"
  using no_script by (simp add: empty_database_def downgrade_one_def revision_at_def)

lemma downgrade_possible:
  "upgrades migrations n empty_database = Some db \<Longrightarrow> n \<noteq> 0 \<Longrightarrow> downgrade_one migrations db \<noteq> None"
  by (cases n) (auto simp: downgrade_one_upgrades bind_eq_Some_conv simp del: upgrades.simps(2) dest!: upgrades_pred)

lemma upgrades_run:
  "n \<le> 8 \<Longrightarrow> upgrades migrations n empty_database =
     map_option (Pair (revision_at n)) (run_all apply_ddl (concat (map sc_upgrade (take n migrations))) [])"
proof (induction n)
  case 0
  show ?case by (simp add: empty_database_def revision_at_def)
next
  case (Suc n)
  then have "n < 8" by simp
  with Suc show ?case
    by (cases "run_all apply_ddl (concat (map sc_upgrade (take n migrations))) []")
      (simp_all add: take_Suc_conv_app_nth number_of_migrations run_all_append upgrades_Suc)
qed

lemma reachable_upgrades:
  assumes "(alembic_step migrations)\<^sup>*\<^sup>* empty_database db"
  shows "\<exists>n \<le> 8. fst db = revision_at n \<and> schema_ok (snd db) \<and> upgrades migrations n empty_database = Some db"
proof -
  have "\<exists>n. upgrades migrations n empty_database = Some db"
    using assms
  proof (induction rule: rtranclp_induct)
    case base
    have "upgrades migrations 0 empty_database = Some empty_database" by simp
    then show ?case by blast
  next
    case (step x y)
    obtain n where n: "upgrades migrations n empty_database = Some x"
      using step.IH by blast
    from step.hyps(2) show ?case
    proof (cases rule: alembic_step.cases)
      case upgraded
      then have "upgrades migrations (Suc n) empty_database = Some y"
        by (simp add: n)
      then show ?thesis by blast
    next
      case downgraded
      then show ?thesis
        using downgrade_one_upgrades n downgrade_one_empty by (cases n) (simp, metis)
    qed
  qed
  then show ?thesis
    using schema_ok_upgrades by blast
qed

text \<open>
  C24: However a database was migrated, by any sequence of upgrades and downgrades from the empty one, its
  schema is the one that upgrading straight to the revision it stores builds.
\<close>

theorem schema_follows_the_revision:
  assumes "(alembic_step migrations)\<^sup>*\<^sup>* empty_database db"
  shows "\<exists>n \<le> 8. fst db = revision_at n \<and> schema_ok (snd db) \<and> upgrades migrations n empty_database = Some db"
  using assms by (rule reachable_upgrades)

theorem schema_follows_the_revision_witness:
  "\<exists>x y. alembic_step migrations empty_database x \<and> snd x \<noteq> [] \<and> alembic_step migrations x y \<and>
     (\<exists>n \<le> 8. fst y = revision_at n \<and> schema_ok (snd y) \<and> upgrades migrations n empty_database = Some y)"
proof -
  have "run_all apply_ddl upgrade_0001 [] \<noteq> None" and some: "run_all apply_ddl upgrade_0001 [] \<noteq> Some []"
    by code_simp+
  then obtain s where s: "run_all apply_ddl upgrade_0001 [] = Some s" "s \<noteq> []"
    by auto
  have script: "migrations ! 0 = script_0001" "sc_upgrade script_0001 = upgrade_0001"
    "sc_downgrade script_0001 = downgrade_0001" "sc_down_revision script_0001 = None"
    by (simp_all add: migrations_def script_0001_def)
  have up: "upgrade_one migrations empty_database = Some (revision_at 1, s)"
    using upgrades_Suc [of 0 empty_database] s by (simp add: script empty_database_def revision_at_def)
  obtain ys where "those (map undo_ddl upgrade_0001) = Some ys" "rearranges free_ddl downgrade_0001 (rev ys)"
    using script_undoes [of script_0001]
    by (auto simp: undoes_def script migrations_def split: option.splits)
  then have "run_all apply_ddl downgrade_0001 s = Some []"
    using statements.script_undone [of "[]"] s(1) by (simp add: schema_ok_def)
  then have down: "downgrade_one migrations (revision_at 1, s) = Some (None, [])"
    using this_script [of 0] by (simp add: downgrade_one_def script)
  have steps: "alembic_step migrations empty_database (revision_at 1, s)" "alembic_step migrations (revision_at 1, s) (None, [])"
    using up down by (auto intro: upgraded downgraded)
  then have "(alembic_step migrations)\<^sup>*\<^sup>* empty_database (None, [])"
    by (meson converse_rtranclp_into_rtranclp r_into_rtranclp)
  from schema_follows_the_revision [OF this] show ?thesis
    using steps s(2) by fastforce
qed

end
