(* ===== verification/Orm_Schema.thy ===== *)
theory Orm_Schema
  imports Migrations Responses
begin

text \<open>
  The schema the mapped classes of \<open>persistence/models.py\<close> describe (\<open>Base.metadata\<close>), one table per class,
  compared with the one the migrations build: the application never calls \<open>create_all\<close>, so its classes run
  on tables that other files made.

  An enumerated column takes its values from the datatypes of the other theories, through the functions
  that give a member's text.
\<close>

section \<open>Enumerated columns\<close>

fun challenge_kind_value :: "challenge_kind \<Rightarrow> string" where
  "challenge_kind_value PasskeyRegistration = ''passkey_registration''"
| "challenge_kind_value PasskeyAuthentication = ''passkey_authentication''"

fun lockdown_state_value :: "lockdown_state \<Rightarrow> string" where
  "lockdown_state_value NormalState = ''normal''"
| "lockdown_state_value LockedDown = ''locked_down''"

definition sa_enum :: "string \<Rightarrow> ('e \<Rightarrow> string) \<Rightarrow> 'e list \<Rightarrow> coltype" where
  \<comment> \<open>\<open>SQLAlchemyEnum(E, native_enum=False, values_callable=enum_values)\<close>\<close>
  "sa_enum name value members = SaEnum name (map value members)"

definition agent_status_enum :: coltype where
  "agent_status_enum = sa_enum ''agentstatus'' agent_status_value [AgentIdle, AgentRunning, AgentError]"

definition run_status_enum :: coltype where
  "run_status_enum = sa_enum ''runstatus'' run_status_value all_run_statuses"

definition node_role_enum :: coltype where
  "node_role_enum = sa_enum ''noderole'' node_role_value [CoreRole, WorkerRole]"

definition node_status_enum :: coltype where
  "node_status_enum = sa_enum ''nodestatus'' node_status_value [NodeRegistered, NodeOnline, NodeOffline, NodeDisabled]"

definition checkpoint_reason_enum :: coltype where
  "checkpoint_reason_enum = sa_enum ''checkpointreason'' (\<lambda>r. r) checkpoint_reasons"

definition action_status_enum :: coltype where
  "action_status_enum = sa_enum ''actionledgerstatus'' action_status_value [INTENT_RECORDED, STARTED, CONFIRMED, FAILED, UNCERTAIN]"

definition recovery_outcome_enum :: coltype where
  "recovery_outcome_enum = sa_enum ''recoveryoutcome'' recovery_outcome_value
     [STOPPED_NO_REPLAY, BLOCKED_UNCERTAIN_ACTION, BLOCKED_CORRUPT_CHECKPOINT, BLOCKED_NO_CHECKPOINT]"

definition vision_mode_enum :: coltype where
  "vision_mode_enum = sa_enum ''visionmode'' vision_mode_value [Describe, Detailed, Ocr, Objects, Grounding, Ui, CustomMode]"

definition analysis_status_enum :: coltype where
  "analysis_status_enum = sa_enum ''visionanalysisstatus'' analysis_status_value [AnalysisQueued, AnalysisRunning, AnalysisCompleted, AnalysisFailed]"

definition user_role_enum :: coltype where
  "user_role_enum = sa_enum ''userrole'' user_role_value [OwnerRole, AdminRole, OperatorRole]"

definition device_trust_enum :: coltype where
  "device_trust_enum = sa_enum ''devicetrust'' device_trust_value [Limited, Trusted]"

definition strength_enum :: coltype where
  "strength_enum = sa_enum ''authenticationstrength'' strength_value [PasskeyStrength, PasskeyTotp, Development]"

definition challenge_kind_enum :: coltype where
  "challenge_kind_enum = sa_enum ''challengekind'' challenge_kind_value [PasskeyRegistration, PasskeyAuthentication]"

definition approval_decision_enum :: coltype where
  "approval_decision_enum = sa_enum ''securityapprovaldecision'' approval_decision_value
     [AllowOnce, AllowForTask, RejectDecision, ModifyDecision]"

definition grant_status_enum :: coltype where
  "grant_status_enum = sa_enum ''grantstatus'' grant_status_value [GrantActive, GrantConsumed, GrantRevoked, GrantExpired]"

definition lockdown_state_enum :: coltype where
  "lockdown_state_enum = sa_enum ''lockdownstate'' lockdown_state_value [NormalState, LockedDown]"

section \<open>Mapped classes\<close>

definition agents_table :: db_table where
  "agents_table = build_table ''agents''
    [Column (primary ''id'' (SaString 36)),
     Column (not_null ''name'' (SaString 200)),
     Column (optional ''description'' SaText),
     Column (not_null ''status'' agent_status_enum),
     Column (not_null ''model_ref'' (SaString 500)),
     Column (not_null ''graph_definition'' SaJSON),
     Column (not_null ''created_at'' SaDateTime),
     Column (not_null ''updated_at'' SaDateTime)]"

definition agent_runs_table :: db_table where
  "agent_runs_table = build_table ''agent_runs''
    [Column (primary ''id'' (SaString 36)),
     Column (refers ''agents'' ''id'' ''CASCADE'' (indexed (not_null ''agent_id'' SaNull))),
     Column (indexed (not_null ''status'' run_status_enum)),
     Column (not_null ''input_text'' SaText),
     Column (optional ''output_text'' SaText),
     Column (optional ''error'' SaText),
     Column (not_null ''created_at'' SaDateTime),
     Column (optional ''started_at'' SaDateTime),
     Column (optional ''finished_at'' SaDateTime),
     Column (optional ''provider_id'' (SaString 100)),
     Column (optional ''model_id'' (SaString 500)),
     Column (optional ''finish_reason'' (SaString 100)),
     Column (optional ''input_tokens'' SaInteger),
     Column (optional ''output_tokens'' SaInteger),
     Column (optional ''total_tokens'' SaInteger),
     Column (optional ''latency_ms'' SaInteger),
     Column (optional ''execution_spec'' SaJSON)]"

definition run_delegations_table :: db_table where
  "run_delegations_table = build_table ''run_delegations''
    [Column (primary ''id'' (SaString 36)),
     Column (refers ''agent_runs'' ''id'' ''CASCADE'' (indexed (not_null ''parent_run_id'' SaNull))),
     Column (refers ''agent_runs'' ''id'' ''CASCADE''
          (indexed (unique_col (not_null ''child_run_id'' SaNull)))),
     Column (not_null ''node_id'' (SaString 100)),
     Column (not_null ''depth'' SaInteger),
     Column (not_null ''created_at'' SaDateTime),
     UniqueConstraint [''parent_run_id'', ''node_id''] (Some ''uq_run_delegations_parent_node'')]"

definition nodes_table :: db_table where
  "nodes_table = build_table ''nodes''
    [Column (primary ''id'' (SaString 100)),
     Column (not_null ''name'' (SaString 200)),
     Column (not_null ''role'' node_role_enum),
     Column (indexed (not_null ''status'' node_status_enum)),
     Column (not_null ''enabled'' SaBoolean),
     Column (not_null ''enrollment_hash'' (SaString 64)),
     Column (not_null ''capabilities'' SaJSON),
     Column (not_null ''created_at'' SaDateTime),
     Column (not_null ''updated_at'' SaDateTime),
     Column (optional ''last_seen_at'' SaDateTime)]"

definition run_checkpoints_table :: db_table where
  "run_checkpoints_table = build_table ''run_checkpoints''
    [Column (primary ''id'' (SaString 36)),
     Column (refers ''agent_runs'' ''id'' ''CASCADE'' (indexed (not_null ''run_id'' SaNull))),
     Column (not_null ''sequence'' SaInteger),
     Column (not_null ''format_version'' SaInteger),
     Column (not_null ''reason'' checkpoint_reason_enum),
     Column (not_null ''state'' SaJSON),
     Column (not_null ''checksum'' (SaString 64)),
     Column (not_null ''created_at'' SaDateTime),
     UniqueConstraint [''run_id'', ''sequence''] (Some ''uq_run_checkpoints_run_sequence'')]"

definition run_action_ledger_entries_table :: db_table where
  "run_action_ledger_entries_table = build_table ''run_action_ledger_entries''
    [Column (primary ''id'' (SaString 36)),
     Column (refers ''agent_runs'' ''id'' ''CASCADE'' (indexed (not_null ''run_id'' SaNull))),
     Column (refers ''tool_invocations'' ''id'' ''SET NULL'' (unique_col (optional ''tool_invocation_id'' SaNull))),
     Column (not_null ''action_type'' (SaString 100)),
     Column (not_null ''risk'' (SaString 20)),
     Column (not_null ''status'' action_status_enum),
     Column (not_null ''metadata'' SaJSON),
     Column (not_null ''rollback_status'' (SaString 30)),
     Column (not_null ''created_at'' SaDateTime),
     Column (optional ''started_at'' SaDateTime),
     Column (optional ''finished_at'' SaDateTime)]"

definition run_recovery_decisions_table :: db_table where
  "run_recovery_decisions_table = build_table ''run_recovery_decisions''
    [Column (primary ''id'' (SaString 36)),
     Column (refers ''agent_runs'' ''id'' ''CASCADE'' (indexed (not_null ''run_id'' SaNull))),
     Column (refers ''run_checkpoints'' ''id'' ''SET NULL'' (optional ''checkpoint_id'' SaNull)),
     Column (not_null ''outcome'' recovery_outcome_enum),
     Column (not_null ''details'' SaJSON),
     Column (not_null ''created_at'' SaDateTime)]"

definition vision_assets_table :: db_table where
  "vision_assets_table = build_table ''vision_assets''
    [Column (primary ''id'' (SaString 36)),
     Column (not_null ''filename'' (SaString 255)),
     Column (not_null ''mime_type'' (SaString 100)),
     Column (not_null ''size_bytes'' SaInteger),
     Column (indexed (unique_col (not_null ''sha256'' (SaString 64)))),
     Column (not_null ''source_type'' (SaString 30)),
     Column (unique_col (not_null ''storage_locator'' (SaString 255))),
     Column (not_null ''created_at'' SaDateTime)]"

definition vision_analyses_table :: db_table where
  "vision_analyses_table = build_table ''vision_analyses''
    [Column (primary ''id'' (SaString 36)),
     Column (refers ''vision_assets'' ''id'' ''CASCADE'' (indexed (not_null ''asset_id'' SaNull))),
     Column (not_null ''provider_id'' (SaString 100)),
     Column (not_null ''model_id'' (SaString 500)),
     Column (not_null ''mode'' vision_mode_enum),
     Column (optional ''prompt'' SaText),
     Column (not_null ''status'' analysis_status_enum),
     Column (optional ''raw_text'' SaText),
     Column (optional ''description'' SaText),
     Column (optional ''ocr_text'' SaText),
     Column (optional ''structured_result'' SaJSON),
     Column (optional ''latency_ms'' SaInteger),
     Column (optional ''error_code'' (SaString 100)),
     Column (not_null ''created_at'' SaDateTime),
     Column (optional ''completed_at'' SaDateTime)]"

definition vision_folders_table :: db_table where
  "vision_folders_table = build_table ''vision_folders''
    [Column (primary ''id'' (SaString 36)),
     Column (not_null ''display_name'' (SaString 200)),
     Column (unique_col (not_null ''root'' SaText)),
     Column (not_null ''enabled'' SaBoolean),
     Column (not_null ''created_at'' SaDateTime)]"

definition memory_records_table :: db_table where
  "memory_records_table = build_table ''memory_records''
    [Column (primary ''id'' (SaString 36)),
     Column (indexed (not_null ''project_id'' (SaString 100))),
     Column (refers ''agents'' ''id'' ''CASCADE'' (indexed (not_null ''agent_id'' SaNull))),
     Column (not_null ''kind'' (SaString 20)),
     Column (not_null ''content'' SaText),
     Column (not_null ''tags'' SaJSON),
     Column (not_null ''created_at'' SaDateTime),
     Column (not_null ''updated_at'' SaDateTime),
     Column (optional ''deleted_at'' SaDateTime)]"

definition run_memory_records_table :: db_table where
  "run_memory_records_table = build_table ''run_memory_records''
    [Column (primary ''id'' (SaString 36)),
     Column (refers ''agent_runs'' ''id'' ''CASCADE'' (indexed (not_null ''run_id'' SaNull))),
     Column (refers ''memory_records'' ''id'' ''SET NULL'' (indexed (optional ''memory_id'' SaNull))),
     Column (not_null ''memory_id_snapshot'' (SaString 36)),
     Column (not_null ''rank'' SaInteger),
     Column (optional ''score'' SaFloat)]"

definition tool_invocations_table :: db_table where
  "tool_invocations_table = build_table ''tool_invocations''
    [Column (primary ''id'' (SaString 36)),
     Column (refers ''agent_runs'' ''id'' ''CASCADE'' (indexed (not_null ''run_id'' SaNull))),
     Column (not_null ''tool_id'' (SaString 100)),
     Column (not_null ''risk'' (SaString 20)),
     Column (not_null ''status'' (SaString 30)),
     Column (optional ''approval_id'' (SaString 100)),
     Column (not_null ''input_metadata'' SaJSON),
     Column (optional ''output_metadata'' SaJSON),
     Column (optional ''error_code'' (SaString 100)),
     Column (not_null ''started_at'' SaDateTime),
     Column (optional ''finished_at'' SaDateTime),
     Column (optional ''duration_ms'' SaInteger)]"

definition users_table :: db_table where
  "users_table = build_table ''users''
    [Column (primary ''id'' (SaString 36)),
     Column (unique_col (not_null ''username'' (SaString 200))),
     Column (not_null ''role'' user_role_enum),
     Column (optional ''disabled_at'' SaDateTime),
     Column (not_null ''created_at'' SaDateTime)]"

definition security_devices_table :: db_table where
  "security_devices_table = build_table ''security_devices''
    [Column (primary ''id'' (SaString 36)),
     Column (refers ''users'' ''id'' ''CASCADE'' (indexed (not_null ''user_id'' SaNull))),
     Column (not_null ''display_name'' (SaString 200)),
     Column (not_null ''trust'' device_trust_enum),
     Column (optional ''revoked_at'' SaDateTime),
     Column (optional ''last_authenticated_at'' SaDateTime),
     Column (not_null ''created_at'' SaDateTime)]"

definition auth_sessions_table :: db_table where
  "auth_sessions_table = build_table ''auth_sessions''
    [Column (primary ''id'' (SaString 36)),
     Column (refers ''users'' ''id'' ''CASCADE'' (indexed (not_null ''user_id'' SaNull))),
     Column (refers ''security_devices'' ''id'' ''CASCADE'' (indexed (not_null ''device_id'' SaNull))),
     Column (unique_col (not_null ''token_hash'' (SaString 64))),
     Column (not_null ''strength'' strength_enum),
     Column (not_null ''expires_at'' SaDateTime),
     Column (not_null ''last_activity_at'' SaDateTime),
     Column (optional ''step_up_at'' SaDateTime),
     Column (optional ''revoked_at'' SaDateTime),
     Column (not_null ''created_at'' SaDateTime)]"

definition passkey_credentials_table :: db_table where
  "passkey_credentials_table = build_table ''passkey_credentials''
    [Column (primary ''id'' (SaString 36)),
     Column (refers ''users'' ''id'' ''CASCADE'' (indexed (not_null ''user_id'' SaNull))),
     Column (refers ''security_devices'' ''id'' ''CASCADE'' (indexed (not_null ''device_id'' SaNull))),
     Column (unique_col (not_null ''credential_id'' SaLargeBinary)),
     Column (not_null ''public_key'' SaLargeBinary),
     Column (not_null ''sign_count'' SaInteger),
     Column (optional ''revoked_at'' SaDateTime),
     Column (not_null ''created_at'' SaDateTime)]"

definition auth_challenges_table :: db_table where
  "auth_challenges_table = build_table ''auth_challenges''
    [Column (primary ''id'' (SaString 36)),
     Column (not_null ''kind'' challenge_kind_enum),
     Column (unique_col (not_null ''challenge'' SaLargeBinary)),
     Column (refers ''users'' ''id'' ''CASCADE'' (indexed (optional ''user_id'' SaNull))),
     Column (optional ''device_name'' (SaString 200)),
     Column (not_null ''expires_at'' SaDateTime),
     Column (optional ''consumed_at'' SaDateTime),
     Column (not_null ''created_at'' SaDateTime)]"

definition second_factors_table :: db_table where
  "second_factors_table = build_table ''second_factors''
    [Column (refers ''users'' ''id'' ''CASCADE'' (primary ''user_id'' SaNull)),
     Column (not_null ''encrypted_secret'' SaLargeBinary),
     Column (not_null ''key_version'' SaInteger),
     Column (not_null ''enabled_at'' SaDateTime),
     Column (optional ''revoked_at'' SaDateTime)]"

definition security_approvals_table :: db_table where
  "security_approvals_table = build_table ''security_approvals''
    [Column (primary ''id'' (SaString 36)),
     Column (not_null ''project_id'' (SaString 100)),
     Column (not_null ''requested_by'' (SaString 200)),
     Column (not_null ''action'' (SaString 200)),
     Column (optional ''target'' (SaString 500)),
     Column (optional ''run_id'' (SaString 36)),
     Column (optional ''task_ref'' (SaString 100)),
     Column (optional ''risk'' (SaString 30)),
     Column (not_null ''reason'' SaText),
     Column (not_null ''scope'' SaJSON),
     Column (not_null ''status'' (SaString 20)),
     Column (not_null ''expires_at'' SaDateTime),
     Column (optional ''decision'' approval_decision_enum),
     Column (refers ''users'' ''id'' ''SET NULL'' (optional ''decided_by_user_id'' SaNull)),
     Column (optional ''decided_at'' SaDateTime),
     Column (not_null ''created_at'' SaDateTime)]"

definition security_grants_table :: db_table where
  "security_grants_table = build_table ''security_grants''
    [Column (primary ''id'' (SaString 36)),
     Column (refers ''users'' ''id'' ''CASCADE'' (not_null ''issuer_user_id'' SaNull)),
     Column (not_null ''subject'' (SaString 200)),
     Column (not_null ''action'' (SaString 200)),
     Column (optional ''target'' (SaString 500)),
     Column (optional ''run_id'' (SaString 36)),
     Column (optional ''task_ref'' (SaString 100)),
     Column (refers ''security_devices'' ''id'' ''SET NULL'' (optional ''device_id'' SaNull)),
     Column (refers ''security_approvals'' ''id'' ''SET NULL'' (optional ''source_approval_id'' SaNull)),
     Column (not_null ''status'' grant_status_enum),
     Column (not_null ''expires_at'' SaDateTime),
     Column (optional ''revoked_at'' SaDateTime),
     Column (not_null ''created_at'' SaDateTime)]"

definition vault_credentials_table :: db_table where
  "vault_credentials_table = build_table ''vault_credentials''
    [Column (primary ''id'' (SaString 36)),
     Column (unique_col (not_null ''name'' (SaString 200))),
     Column (not_null ''credential_type'' (SaString 100)),
     Column (not_null ''encrypted_value'' SaLargeBinary),
     Column (not_null ''key_version'' SaInteger),
     Column (optional ''revoked_at'' SaDateTime),
     Column (refers ''users'' ''id'' ''RESTRICT'' (not_null ''created_by_user_id'' SaNull)),
     Column (not_null ''created_at'' SaDateTime),
     Column (not_null ''updated_at'' SaDateTime)]"

definition security_audit_events_table :: db_table where
  "security_audit_events_table = build_table ''security_audit_events''
    [Column (primary ''id'' (SaString 36)),
     Column (indexed (not_null ''event_type'' (SaString 100))),
     Column (refers ''users'' ''id'' ''SET NULL'' (optional ''actor_user_id'' SaNull)),
     Column (refers ''auth_sessions'' ''id'' ''SET NULL'' (optional ''session_id'' SaNull)),
     Column (refers ''security_devices'' ''id'' ''SET NULL'' (optional ''device_id'' SaNull)),
     Column (optional ''target'' (SaString 500)),
     Column (not_null ''result'' (SaString 30)),
     Column (not_null ''metadata'' SaJSON),
     Column (not_null ''created_at'' SaDateTime)]"

definition security_state_table :: db_table where
  "security_state_table = build_table ''security_state''
    [Column (primary ''id'' SaInteger),
     Column (not_null ''lockdown'' lockdown_state_enum),
     Column (not_null ''updated_at'' SaDateTime)]"

definition metadata :: "db_table list" where
  \<comment> \<open>\<open>Base.metadata\<close>\<close>
  "metadata =
    [agents_table, agent_runs_table, run_delegations_table, nodes_table, run_checkpoints_table,
     run_action_ledger_entries_table, run_recovery_decisions_table, vision_assets_table, vision_analyses_table,
     vision_folders_table, memory_records_table, run_memory_records_table, tool_invocations_table, users_table,
     security_devices_table, auth_sessions_table, passkey_credentials_table, auth_challenges_table,
     second_factors_table, security_approvals_table, security_grants_table, vault_credentials_table,
     security_audit_events_table, security_state_table]"

section \<open>What the classes need of the database\<close>

definition primary_types :: "db_table list \<Rightarrow> ((string \<times> string) \<times> coltype) list" where
  \<comment> \<open>the type of every column of a primary key, which is what the foreign keys refer to\<close>
  "primary_types md = concat (map (\<lambda>t. map (\<lambda>c. ((tb_name t, co_name c), co_type c))
     (filter (\<lambda>c. co_name c \<in> set (tb_primary_key t)) (tb_columns t))) md)"

definition key_types :: "((string \<times> string) \<times> coltype) list" where
  "key_types = primary_types metadata"

definition resolved_type :: "db_table \<Rightarrow> db_column \<Rightarrow> coltype" where
  \<comment> \<open>a foreign key without a type has the type of the column it refers to\<close>
  "resolved_type t c = (if co_type c \<noteq> SaNull then co_type c else
     (case find (\<lambda>f. fk_columns f = [co_name c]) (tb_foreign_keys t) of None \<Rightarrow> SaNull
      | Some f \<Rightarrow> (case map_of key_types (fk_table f, hd (fk_targets f)) of None \<Rightarrow> SaNull | Some ty \<Rightarrow> ty)))"

lemma key_types_eq [code]:
  "key_types =
    [((''agents'', ''id''), SaString 36), ((''agent_runs'', ''id''), SaString 36),
     ((''run_delegations'', ''id''), SaString 36), ((''nodes'', ''id''), SaString 100),
     ((''run_checkpoints'', ''id''), SaString 36), ((''run_action_ledger_entries'', ''id''), SaString 36),
     ((''run_recovery_decisions'', ''id''), SaString 36), ((''vision_assets'', ''id''), SaString 36),
     ((''vision_analyses'', ''id''), SaString 36), ((''vision_folders'', ''id''), SaString 36),
     ((''memory_records'', ''id''), SaString 36), ((''run_memory_records'', ''id''), SaString 36),
     ((''tool_invocations'', ''id''), SaString 36), ((''users'', ''id''), SaString 36),
     ((''security_devices'', ''id''), SaString 36), ((''auth_sessions'', ''id''), SaString 36),
     ((''passkey_credentials'', ''id''), SaString 36), ((''auth_challenges'', ''id''), SaString 36),
     ((''second_factors'', ''user_id''), SaNull), ((''security_approvals'', ''id''), SaString 36),
     ((''security_grants'', ''id''), SaString 36), ((''vault_credentials'', ''id''), SaString 36),
     ((''security_audit_events'', ''id''), SaString 36), ((''security_state'', ''id''), SaInteger)]"
  by code_simp

fun fits :: "coltype \<Rightarrow> coltype \<Rightarrow> bool" where
  \<comment> \<open>the database's column stores every value the class may write\<close>
  "fits (SaEnum n vs) (SaString k) = list_all (\<lambda>v. length v \<le> k) vs"
| "fits a b = (a = b)"

definition column_serves :: "db_table \<Rightarrow> db_column \<Rightarrow> db_column \<Rightarrow> bool" where
  "column_serves m d c = (co_name d = co_name c \<and> co_nullable d = co_nullable c
     \<and> fits (resolved_type m c) (co_type d))"

definition unique_keys :: "db_table \<Rightarrow> string list list" where
  "unique_keys t = map snd (tb_uniques t)
     @ map ix_columns (filter (\<lambda>i. ix_unique i \<and> ix_where i = None) (tb_indexes t))"

definition table_serves :: "db_table \<Rightarrow> db_table \<Rightarrow> bool" where
  "table_serves d m = (tb_name d = tb_name m
     \<and> list_all2 (column_serves m) (tb_columns d) (tb_columns m)
     \<and> tb_primary_key d = tb_primary_key m
     \<and> set (tb_foreign_keys d) = set (tb_foreign_keys m)
     \<and> set (unique_keys d) = set (unique_keys m)
     \<and> set (map ix_columns (tb_indexes m)) \<subseteq> set (map ix_columns (tb_indexes d)))"

definition extra_indexes :: "db_table \<Rightarrow> db_table \<Rightarrow> db_index list" where
  \<comment> \<open>what the database has and the class does not declare\<close>
  "extra_indexes d m =
     filter (\<lambda>i. ix_where i \<noteq> None \<or> ix_columns i \<notin> set (map ix_columns (tb_indexes m))) (tb_indexes d)"

section \<open>The migrations build what the classes need\<close>

definition early_tables :: "db_table list" where
  \<comment> \<open>the classes of the tables of the first seven scripts, in the order the scripts create them\<close>
  "early_tables =
    [agents_table, agent_runs_table, vision_assets_table, vision_analyses_table, vision_folders_table,
     memory_records_table, run_memory_records_table, tool_invocations_table, run_delegations_table, nodes_table,
     run_checkpoints_table, run_action_ledger_entries_table, run_recovery_decisions_table]"

definition late_tables :: "db_table list" where
  "late_tables =
    [users_table, security_devices_table, auth_sessions_table, passkey_credentials_table, auth_challenges_table,
     second_factors_table, security_approvals_table, security_grants_table, vault_credentials_table,
     security_audit_events_table, security_state_table]"

definition migrated_order :: "db_table list" where
  "migrated_order = early_tables @ late_tables"

definition early_upgrades :: "ddl list" where
  "early_upgrades = upgrade_0001 @ upgrade_0002 @ upgrade_0003 @ upgrade_0004 @ upgrade_0005 @ upgrade_0006 @ upgrade_0007"

definition checked :: "db_table list \<Rightarrow> string list \<Rightarrow> db_index list \<Rightarrow> schema option \<Rightarrow> bool" where
  "checked ms names extra r = (case r of None \<Rightarrow> False
     | Some s \<Rightarrow> list_all2 table_serves s ms \<and> index_names s = names \<and> concat (map2 extra_indexes s ms) = extra)"

definition active_run_index :: db_index where
  "active_run_index = \<lparr>ix_name = ''uq_agent_runs_active_agent'', ix_columns = [''agent_id''], ix_unique = True,
     ix_where = Some (''status'', [run_status_value Queued, run_status_value Running])\<rparr>"

definition late_extra :: "db_index list" where
  "late_extra =
    [\<lparr>ix_name = ''ix_auth_sessions_expires_at'', ix_columns = [''expires_at''], ix_unique = False, ix_where = None\<rparr>,
     \<lparr>ix_name = ''ix_security_approvals_status_expires_at'', ix_columns = [''status'', ''expires_at''],
       ix_unique = False, ix_where = None\<rparr>,
     \<lparr>ix_name = ''ix_security_grants_subject_action_target_run_task_expires_at'',
       ix_columns = [''subject'', ''action'', ''target'', ''run_id'', ''task_ref'', ''expires_at''],
       ix_unique = False, ix_where = None\<rparr>,
     \<lparr>ix_name = ''ix_security_audit_events_created_at'', ix_columns = [''created_at''], ix_unique = False, ix_where = None\<rparr>]"

definition early_index_names :: "string list" where
  "early_index_names =
    [''ix_agent_runs_agent_id'', ''ix_agent_runs_status'', ''uq_agent_runs_active_agent'', ''ix_vision_assets_sha256'',
     ''ix_vision_analyses_asset_id'', ''ix_memory_records_project_id'', ''ix_memory_records_agent_id'',
     ''ix_run_memory_records_run_id'', ''ix_run_memory_records_memory_id'', ''ix_tool_invocations_run_id'',
     ''ix_run_delegations_parent_run_id'', ''ix_run_delegations_child_run_id'', ''ix_nodes_status'',
     ''ix_run_checkpoints_run_id'', ''ix_run_action_ledger_entries_run_id'', ''ix_run_recovery_decisions_run_id'']"

definition late_index_names :: "string list" where
  "late_index_names =
    [''ix_security_devices_user_id'', ''ix_auth_sessions_user_id'', ''ix_auth_sessions_device_id'',
     ''ix_auth_sessions_expires_at'', ''ix_passkey_credentials_user_id'', ''ix_passkey_credentials_device_id'',
     ''ix_auth_challenges_user_id'', ''ix_security_approvals_status_expires_at'',
     ''ix_security_grants_subject_action_target_run_task_expires_at'', ''ix_security_audit_events_event_type'',
     ''ix_security_audit_events_created_at'']"

lemma early_checked:
  "checked early_tables
    early_index_names
    [active_run_index] (run_all apply_ddl early_upgrades [])"
  by code_simp

lemma late_checked:
  "checked late_tables
    late_index_names
    late_extra (run_all apply_ddl upgrade_0008 [])"
  by code_simp

lemma upgrade_0008_creates: "list_all creates upgrade_0008"
  by (simp add: upgrade_0008_def upgrade_0008_accounts_def upgrade_0008_authority_def)

lemma checkedE:
  assumes "checked ms names extra r"
  obtains s where "r = Some s" "list_all2 table_serves s ms" "index_names s = names"
    "concat (map2 extra_indexes s ms) = extra"
  using assms by (auto simp: checked_def split: option.splits)

lemma table_serves_names: "list_all2 table_serves s ms \<Longrightarrow> map tb_name s = map tb_name ms"
  by (induction rule: list_all2_induct) (auto simp: table_serves_def)

lemma names_apart: "set (map tb_name early_tables) \<inter> set (map tb_name late_tables) = {}"
  by code_simp

lemma index_names_apart: "set early_index_names \<inter> set late_index_names = {}"
  by code_simp

lemma tables_of_migrated_order: "set migrated_order = set metadata"
  by (auto simp: migrated_order_def early_tables_def late_tables_def metadata_def)

lemma all_upgrades: "concat (map sc_upgrade (take 8 migrations)) = early_upgrades @ upgrade_0008"
  by (simp add: migrations_def script_defs early_upgrades_def)

lemma migrated_parts:
  obtains e l where
    "upgrades migrations 8 empty_database = Some (Some ''20260818_0008'', e @ l)"
    "list_all2 table_serves e early_tables" "concat (map2 extra_indexes e early_tables) = [active_run_index]"
    "list_all2 table_serves l late_tables" "concat (map2 extra_indexes l late_tables) = late_extra"
proof -
  obtain e where e: "run_all apply_ddl early_upgrades [] = Some e" "list_all2 table_serves e early_tables"
    "concat (map2 extra_indexes e early_tables) = [active_run_index]" "index_names e = early_index_names"
    using early_checked by (rule checkedE)
  obtain l where l: "run_all apply_ddl upgrade_0008 [] = Some l" "list_all2 table_serves l late_tables"
    "concat (map2 extra_indexes l late_tables) = late_extra" "index_names l = late_index_names"
    using late_checked by (rule checkedE)
  have "apart e l"
    using names_apart index_names_apart by (simp add: apart_def table_serves_names [OF e(2)]
      table_serves_names [OF l(2)] e(4) l(4) del: set_map)
  then have "run_all apply_ddl (early_upgrades @ upgrade_0008) [] = Some (e @ l)"
    using creates_frame_all [OF upgrade_0008_creates l(1)] e(1) by (simp add: run_all_append)
  moreover have "revision_at 8 = Some ''20260818_0008''"
    by (simp add: revision_at_def migrations_def script_0008_def)
  ultimately have "upgrades migrations 8 empty_database = Some (Some ''20260818_0008'', e @ l)"
    using upgrades_run [of 8] by (simp add: all_upgrades del: upgrades.simps)
  then show thesis
    using that e l by blast
qed

text \<open>
  C22: Upgrading an empty database to the last revision goes through and builds the tables that the classes
  of \<open>persistence/models.py\<close> describe: the same tables and columns, as nullable as declared and wide enough
  for every value of their enumerations, the same primary keys, foreign keys with their \<open>ondelete\<close>, and
  unique keys, and every declared index. What the database has beyond that are five indexes, one of them
  the unique index on an agent's active run, which no class declares.
\<close>

theorem migrations_build_the_models:
  "\<exists>s. upgrades migrations 8 empty_database = Some (Some ''20260818_0008'', s)
     \<and> list_all2 table_serves s migrated_order \<and> set migrated_order = set metadata
     \<and> concat (map2 extra_indexes s migrated_order) = active_run_index # late_extra"
proof -
  obtain e l where
    s: "upgrades migrations 8 empty_database = Some (Some ''20260818_0008'', e @ l)" and
    e: "list_all2 table_serves e early_tables" "concat (map2 extra_indexes e early_tables) = [active_run_index]" and
    l: "list_all2 table_serves l late_tables" "concat (map2 extra_indexes l late_tables) = late_extra"
    by (rule migrated_parts)
  have "list_all2 table_serves (e @ l) migrated_order"
    using e(1) l(1) by (simp add: migrated_order_def list_all2_appendI)
  moreover have "concat (map2 extra_indexes (e @ l) migrated_order) = active_run_index # late_extra"
    using e(2) l(2) list_all2_lengthD [OF e(1)] by (simp add: migrated_order_def zip_append)
  ultimately show ?thesis
    using s tables_of_migrated_order by blast
qed

section \<open>No database gets stuck\<close>

lemma upgrades_prefix: "upgrades ms (n + k) db \<noteq> None \<Longrightarrow> upgrades ms n db \<noteq> None"
  by (induction k) (auto split: bind_splits)

lemma upgrades_succeed: "n \<le> 8 \<Longrightarrow> upgrades migrations n empty_database \<noteq> None"
proof -
  assume "n \<le> 8"
  then have "n + (8 - n) = 8" by simp
  moreover obtain s where "upgrades migrations 8 empty_database = Some s"
    using migrated_parts by blast
  ultimately show ?thesis
    using upgrades_prefix [of migrations n "8 - n"] by (metis option.distinct(1))
qed

text \<open>
  From every database that upgrades and downgrades can reach, the next upgrade and the last downgrade go
  through, unless there is none.
\<close>

theorem migrations_never_stuck:
  assumes "(alembic_step migrations)\<^sup>*\<^sup>* empty_database db"
  shows "(fst db = revision_at 8 \<or> upgrade_one migrations db \<noteq> None)
    \<and> (fst db = None \<or> downgrade_one migrations db \<noteq> None)"
proof -
  obtain n where n: "n \<le> 8" "fst db = revision_at n" "upgrades migrations n empty_database = Some db"
    using reachable_upgrades [OF assms] by blast
  have "upgrade_one migrations db \<noteq> None" if "n \<noteq> 8"
    using upgrades_succeed [of "Suc n"] n that by simp
  moreover have "downgrade_one migrations db \<noteq> None" if "n \<noteq> 0"
    using downgrade_possible [OF n(3)] that by simp
  moreover have "revision_at 0 = None"
    by (simp add: revision_at_def)
  ultimately show ?thesis
    using n(2) by metis
qed

section \<open>The unique index of the active run\<close>

text \<open>
  The guard of \<open>run_create\<close> is the index that only the first migration declares: a second row with the same
  key among those its \<open>WHERE\<close> admits.
\<close>

definition in_index :: "db_index \<Rightarrow> run \<Rightarrow> bool" where
  \<comment> \<open>the row is one of those the index covers\<close>
  "in_index i r = (case ix_where i of None \<Rightarrow> True
     | Some (c, vs) \<Rightarrow> c = ''status'' \<and> run_status_value (run_status r) \<in> set vs)"

lemma active_run_index_is_the_guard:
  "has_active a st \<longleftrightarrow> (\<exists>r \<in> set (st_runs st). in_index active_run_index r \<and> run_agent_id r = a)"
proof -
  have "in_index active_run_index r \<longleftrightarrow> run_active r" for r
    by (cases "run_status r") (simp_all add: in_index_def active_run_index_def run_active_def)
  then show ?thesis
    by (auto simp: has_active_def list_ex_iff)
qed

end
