(* ===== verification/Database.thy ===== *)
theory Database
  imports Settings
begin

text \<open>
  Which database is migrated and which is opened: the URL that \<open>alembic/env.py\<close> chooses, and the engine that
  \<open>persistence/database.py\<close> makes of the URL in the settings. What \<open>create_async_engine\<close> does with its
  arguments is SQLAlchemy's; an engine is what it was asked for.
\<close>

definition python_or :: "string option \<Rightarrow> string option \<Rightarrow> string option" where
  \<comment> \<open>\<open>a or b\<close>: an empty string counts as no value\<close>
  "python_or a b = (case a of None \<Rightarrow> b | Some s \<Rightarrow> if s = [] then b else Some s)"

definition migration_url :: "string option \<Rightarrow> string option \<Rightarrow> settings \<Rightarrow> string option" where
  \<comment> \<open>\<open>database_url\<close> of \<open>env.py\<close>: the variable \<open>AGENTGRAPH_DATABASE_URL\<close> of the process, the entry
     \<open>sqlalchemy.url\<close> of \<open>alembic.ini\<close>, and the settings, which also read \<open>.env\<close>\<close>
  "migration_url env ini s = python_or env (python_or ini (Some (se_database_url s)))"

definition alembic_ini_url :: string where
  "alembic_ini_url = ''sqlite+aiosqlite:///./agentgraph.db''"

record engine =
  en_url :: string
  en_timeout :: "rat option" \<comment> \<open>\<open>connect_args\<close>, in seconds\<close>
  en_on_connect :: "string list" \<comment> \<open>what every new connection executes\<close>

definition is_sqlite :: "string \<Rightarrow> bool" where
  "is_sqlite url = (take 6 url = ''sqlite'')"

definition configure_sqlite :: "engine \<Rightarrow> engine" where
  "configure_sqlite e = e\<lparr>en_on_connect := en_on_connect e @
     [''PRAGMA foreign_keys=ON'', ''PRAGMA journal_mode=WAL'', ''PRAGMA busy_timeout=5000'']\<rparr>"

definition create_database_engine :: "string \<Rightarrow> engine" where
  "create_database_engine url =
     (let e = \<lparr>en_url = url, en_timeout = (if is_sqlite url then Some 5 else None), en_on_connect = []\<rparr> in
      if is_sqlite url then configure_sqlite e else e)"

lemma engine_url [simp]: "en_url (create_database_engine url) = url"
  by (simp add: create_database_engine_def configure_sqlite_def Let_def)

lemma migrates_what_is_opened:
  "env \<noteq> Some [] \<Longrightarrow> se_database_url s = (case env of None \<Rightarrow> alembic_ini_url | Some u \<Rightarrow> u) \<Longrightarrow>
   migration_url env (Some alembic_ini_url) s = Some (en_url (create_database_engine (se_database_url s)))"
  by (auto simp: migration_url_def python_or_def alembic_ini_url_def split: option.splits)

text \<open>
  The entry in \<open>alembic.ini\<close> is never empty, so the settings are not asked: a URL that is set only in \<open>.env\<close>
  is the one the server opens, and the scripts migrate another database.
\<close>

theorem url_of_the_env_file_is_not_migrated:
  assumes "se_database_url s \<noteq> alembic_ini_url"
  shows "migration_url None (Some alembic_ini_url) s \<noteq> Some (en_url (create_database_engine (se_database_url s)))"
  using assms by (auto simp: migration_url_def python_or_def alembic_ini_url_def)

theorem url_of_the_env_file_is_not_migrated_witness:
  "migration_url None (Some alembic_ini_url) (default_settings\<lparr>se_database_url := ''postgresql+asyncpg://db''\<rparr>) \<noteq>
     Some (en_url (create_database_engine ''postgresql+asyncpg://db''))"
  using url_of_the_env_file_is_not_migrated [of "default_settings\<lparr>se_database_url := ''postgresql+asyncpg://db''\<rparr>"]
  by (simp add: alembic_ini_url_def)

end
