(* ===== verification/Worker_Socket.thy ===== *)
theory Worker_Socket
  imports Nodes_Props
begin

text \<open>
  The loop of the worker socket, \<open>_serve_worker_socket\<close> of \<open>api/workers.py\<close>, over the operations of \<open>Nodes\<close>.
  A turn of the loop waits until the websocket has a text (or fails) or the session's queue has a
  command, while other tasks act on the service; what arrives, in which order the two finished tasks are
  looked at, whether a send fails, and what the others do is given turn by turn. When the turns are used
  up the server cancels the socket. The first text is read the same way. The call that closes a refused
  socket is taken to succeed: it is the last thing before the \<open>finally\<close> block. No cancellation enters the
  shielded scopes.
\<close>

datatype fault = Disconnected \<comment> \<open>\<open>WebSocketDisconnect\<close>\<close> | Raises exn

datatype received = Text string
  | Fault fault \<comment> \<open>\<open>receive_text\<close> raises: a binary frame, for one, is a \<open>KeyError\<close>\<close>

datatype socket_end =
    PolicyViolation \<comment> \<open>closed with code 1008\<close>
  | HungUp
  | SocketCancelled
  | Failed exn \<comment> \<open>leaves the endpoint\<close>

record socket_turn =
  tu_others :: "node_action list" \<comment> \<open>what other tasks do while the socket waits\<close>
  tu_received :: "received option" \<comment> \<open>the finished \<open>receive\<close> task\<close>
  tu_gets :: bool \<comment> \<open>whether \<open>queue.get()\<close> ran before the wait ended\<close>
  tu_text_first :: bool \<comment> \<open>the order of the set \<open>done\<close>\<close>
  tu_between :: "node_action list" \<comment> \<open>what other tasks do between the two\<close>
  tu_send :: "fault option" \<comment> \<open>what sending the command raises\<close>
  tu_world :: world

record socket_io =
  io_hello :: received \<comment> \<open>the first text\<close>
  io_cut :: bool \<comment> \<open>cancelled while it waits for the lock of \<open>connect\<close>\<close>
  io_ack :: "fault option" \<comment> \<open>what sending the acknowledgement raises\<close>

fun refused :: "exn \<Rightarrow> bool" where
  \<comment> \<open>\<open>except (NodeDisabledError, NodeError, ValidationError, ValueError)\<close>, with the subclasses of \<open>NodeError\<close>\<close>
  "refused (NodeError m) = True"
| "refused (NodeNotFoundError m) = True"
| "refused (NodeDisabledError m) = True"
| "refused (NodeUnavailableError m) = True"
| "refused (NodeControlError m) = True"
| "refused (NodeTaskTimeoutError m) = True"
| "refused (NodeTaskDisconnectedError m) = True"
| "refused (NodeTaskDuplicateError m) = True"
| "refused (ValueError m) = True"
| "refused e = False"

definition socket_error :: "exn \<Rightarrow> socket_end" where
  \<comment> \<open>\<open>worker_socket\<close> swallows a cancellation\<close>
  "socket_error e = (if refused e then PolicyViolation else if e = CancelledError then SocketCancelled else Failed e)"

fun fault_end :: "fault \<Rightarrow> socket_end" where
  "fault_end Disconnected = HungUp"
| "fault_end (Raises e) = socket_error e"

definition on_text :: "node_config \<Rightarrow> (string \<Rightarrow> message option) \<Rightarrow> world \<Rightarrow> string \<Rightarrow> received option \<Rightarrow> nodes \<Rightarrow>
    socket_end option \<times> nodes" where
  \<comment> \<open>the result of the \<open>receive\<close> task\<close>
  "on_text cf decode w i r s = (case r of None \<Rightarrow> (None, s)
     | Some (Fault f) \<Rightarrow> (Some (fault_end f), s)
     | Some (Text raw) \<Rightarrow> (case handle_text cf decode w i raw s of
         (Inl e, s) \<Rightarrow> (Some (socket_error e), s)
       | (Inr _, s) \<Rightarrow> (None, s)))"

definition take_command :: "bool \<Rightarrow> nat \<Rightarrow> nodes \<Rightarrow> message option \<times> nodes" where
  \<comment> \<open>the \<open>send\<close> task: cancelled while it waits, it takes nothing\<close>
  "take_command gets n s = (if gets then next_command n s else (None, s))"

definition on_command :: "fault option \<Rightarrow> message option \<Rightarrow> socket_end option \<times> message list" where
  \<comment> \<open>the result of the \<open>send\<close> task: what ends the socket, and what is sent\<close>
  "on_command f c = (case Option.bind c sent_to_worker of
       None \<Rightarrow> (None, [])
     | Some m \<Rightarrow> (case f of None \<Rightarrow> (None, [m]) | Some x \<Rightarrow> (Some (fault_end x), [])))"

definition socket_turn :: "node_config \<Rightarrow> (string \<Rightarrow> message option) \<Rightarrow> string \<Rightarrow> nat \<Rightarrow> socket_turn \<Rightarrow> nodes \<Rightarrow>
    socket_end option \<times> message list \<times> nodes" where
  \<comment> \<open>an error in the first of two finished tasks leaves the other unread\<close>
  "socket_turn cf decode i n t s =
     (let (c, s) = take_command (tu_gets t) n (fold (node_do cf) (tu_others t) s);
          text = on_text cf decode (tu_world t) i (tu_received t);
          others = fold (node_do cf) (tu_between t)
      in if tu_text_first t
         then (case text s of
             (Some end, s) \<Rightarrow> (Some end, [], s)
           | (None, s) \<Rightarrow> (case on_command (tu_send t) c of (end, sent) \<Rightarrow> (end, sent, others s)))
         else (case on_command (tu_send t) c of
             (Some end, sent) \<Rightarrow> (Some end, sent, s)
           | (None, sent) \<Rightarrow> (case text (others s) of (end, s) \<Rightarrow> (end, sent, s))))"

fun socket_loop :: "node_config \<Rightarrow> (string \<Rightarrow> message option) \<Rightarrow> string \<Rightarrow> nat \<Rightarrow> socket_turn list \<Rightarrow> nodes \<Rightarrow>
    socket_end \<times> message list \<times> nodes" where
  "socket_loop cf decode i n [] s = (SocketCancelled, [], s)"
| "socket_loop cf decode i n (t # ts) s = (case socket_turn cf decode i n t s of
     (Some end, sent, s) \<Rightarrow> (end, sent, s)
   | (None, sent, s) \<Rightarrow> (let (end, more, s) = socket_loop cf decode i n ts s in (end, sent @ more, s)))"

definition attend_worker :: "node_config \<Rightarrow> (string \<Rightarrow> message option) \<Rightarrow> socket_io \<Rightarrow> node_info \<Rightarrow> socket_turn list \<Rightarrow> nodes \<Rightarrow>
    socket_end \<times> message list \<times> nodes" where
  \<comment> \<open>from the enrollment to the end of the loop\<close>
  "attend_worker cf decode io info turns s =
     (if io_cut io then (SocketCancelled, [], s)
      else case connect cf (ni_node_id info) s of
        (Inl e, s) \<Rightarrow> (socket_error e, [], s)
      | (Inr n, s) \<Rightarrow> (case io_ack io of
          Some f \<Rightarrow> (fault_end f, [], s)
        | None \<Rightarrow> (let (end, sent, s) = socket_loop cf decode (ni_node_id info) n turns s
            in (end, WorkerRegistered (ni_node_id info) (ni_status info) # sent, s))))"

definition serve_worker_socket :: "node_config \<Rightarrow> (string \<Rightarrow> message option) \<Rightarrow> world \<Rightarrow> world \<Rightarrow> string option \<Rightarrow>
    socket_io \<Rightarrow> socket_turn list \<Rightarrow> nodes \<Rightarrow> socket_end \<times> message list \<times> nodes" where
  "serve_worker_socket cf decode w w' worker_proof io turns s =
     (if nc_role cf \<noteq> CoreRole then (PolicyViolation, [], s)
      else case io_hello io of
        Fault f \<Rightarrow> (fault_end f, [], s)
      | Text raw \<Rightarrow> (case greet_worker cf decode w worker_proof raw s of
          (Inl e, s) \<Rightarrow> (socket_error e, [], s)
        | (Inr info, s) \<Rightarrow> (let (end, sent, s) = attend_worker cf decode io info turns s
            in (end, sent, close_socket cf w' (ni_node_id info) s))))"

section \<open>A socket is a sequence of the service's steps\<close>

definition node_steps :: "node_config \<Rightarrow> nodes \<Rightarrow> nodes \<Rightarrow> bool" where
  "node_steps cf s s' = (\<exists>acts. s' = fold (node_do cf) acts s)"

lemma node_steps_refl [intro!, simp]: "node_steps cf s s"
  unfolding node_steps_def by (rule exI [of _ "[]"]) simp

lemma node_steps_trans [trans]: "node_steps cf s t \<Longrightarrow> node_steps cf t u \<Longrightarrow> node_steps cf s u"
  unfolding node_steps_def by (metis fold_append comp_apply)

lemma node_steps_do: "node_steps cf s (node_do cf a s)"
  unfolding node_steps_def by (rule exI [of _ "[a]"]) simp

lemma node_steps_fold: "node_steps cf s (fold (node_do cf) acts s)"
  unfolding node_steps_def by blast

lemma node_steps_disconnect: "node_steps cf s (disconnect cf w k i s)"
  unfolding node_steps_def disconnect_def by (rule exI [of _ "[Drop i, SetOffline w k i]"]) simp

lemma node_steps_take: "take_command gets n s = (c, s') \<Longrightarrow> node_steps cf s s'"
  using node_steps_do [of cf s "NextCommand n"] by (auto simp: take_command_def split: if_splits)

lemma node_steps_inv: "nodes_inv cf s \<Longrightarrow> node_steps cf s s' \<Longrightarrow> nodes_inv cf s'"
  by (auto simp: node_steps_def nodes_inv_run)

definition nop_steps :: "node_config \<Rightarrow> 'a nop \<Rightarrow> bool" where
  "nop_steps cf p = (\<forall>s. node_steps cf s (snd (p s)))"

lemma nop_steps_bind: "nop_steps cf p \<Longrightarrow> (\<And>x. nop_steps cf (f x)) \<Longrightarrow> nop_steps cf (op_bind p f)"
  unfolding nop_steps_def
proof
  fix s
  assume p: "\<forall>s. node_steps cf s (snd (p s))" and f: "\<And>x. \<forall>s. node_steps cf s (snd (f x s))"
  obtain r s1 where r: "p s = (r, s1)" by (cases "p s")
  with p have "node_steps cf s s1" by (metis snd_conv)
  then show "node_steps cf s (snd (op_bind p f s))"
    using f node_steps_trans by (cases r) (auto simp: op_bind_def r)
qed

lemma nop_steps_pure [simp]: "nop_steps cf (op_lift x)" "nop_steps cf (op_return y)" "nop_steps cf (op_raise e)"
  by (simp_all add: nop_steps_def op_lift_def op_return_def op_raise_def)

lemma nop_steps_do: "(\<And>s. snd (p s) = node_do cf a s) \<Longrightarrow> nop_steps cf p"
  by (simp add: nop_steps_def node_steps_do)

lemma nop_steps_actions:
  "nop_steps cf (heartbeat w i caps)" "nop_steps cf (enroll cf w i name c worker_proof)"
  "nop_steps cf (\<lambda>s. (Inr (), receive_result cf w i m s))"
proof -
  show "nop_steps cf (heartbeat w i caps)"
    by (rule nop_steps_do [of _ _ "Heartbeat w i caps"]) simp
  show "nop_steps cf (enroll cf w i name c worker_proof)"
    by (rule nop_steps_do [of _ _ "Enroll w i name c worker_proof"]) simp
  show "nop_steps cf (\<lambda>s. (Inr (), receive_result cf w i m s))"
    by (rule nop_steps_do [of _ _ "Receive w i m"]) simp
qed

lemma nop_steps_handle: "nop_steps cf (handle_text cf decode w i raw)"
  unfolding handle_text_def
  by (rule nop_steps_bind) (auto simp: nop_steps_actions split: message.split)

lemma nop_steps_greet: "nop_steps cf (greet_worker cf decode w worker_proof raw)"
  unfolding greet_worker_def
  by (auto intro!: nop_steps_bind nop_steps_actions split: message.split)

lemma node_steps_connect: "connect cf i s = (r, s') \<Longrightarrow> node_steps cf s s'"
  using node_steps_do [of cf s "Connect i"] by simp

lemma nop_steps_open: "nop_steps cf (open_socket cf decode w worker_proof raw)"
proof -
  have "nop_steps cf (connect cf i)" for i by (rule nop_steps_do [of _ _ "Connect i"]) simp
  then show ?thesis unfolding open_socket_def by (intro nop_steps_bind nop_steps_greet) simp_all
qed

lemma node_steps_text: "on_text cf decode w i r s = (e, s') \<Longrightarrow> node_steps cf s s'"
  using nop_steps_handle [of cf decode w i] unfolding nop_steps_def on_text_def
  by (auto split: option.splits received.splits prod.splits sum.splits) (metis snd_conv)+

lemma node_steps_turn:
  assumes "socket_turn cf decode i n t s = (e, sent, s')"
  shows "node_steps cf s s'"
proof -
  obtain c s1 where c: "take_command (tu_gets t) n (fold (node_do cf) (tu_others t) s) = (c, s1)" by fastforce
  have s1: "node_steps cf s s1" using node_steps_fold node_steps_take [OF c] by (rule node_steps_trans)
  have reads: "node_steps cf u v" if "on_text cf decode (tu_world t) i (tu_received t) u = (x, v)" for u v x
    using that by (rule node_steps_text)
  have others: "node_steps cf u (fold (node_do cf) (tu_between t) u)" for u by (rule node_steps_fold)
  have "node_steps cf s1 s'"
    using assms c reads others node_steps_trans
    by (auto simp: socket_turn_def Let_def split: prod.splits option.splits if_splits) blast+
  with s1 show ?thesis by (rule node_steps_trans)
qed

lemma node_steps_loop: "socket_loop cf decode i n ts s = (e, sent, s') \<Longrightarrow> node_steps cf s s'"
proof (induction ts arbitrary: s e sent s')
  case (Cons t ts)
  obtain e1 sent1 s1 where t: "socket_turn cf decode i n t s = (e1, sent1, s1)"
    by (metis prod_cases3)
  have "node_steps cf s1 s'"
    using Cons t by (cases e1) (auto simp: Let_def split: prod.splits)
  with node_steps_turn [OF t] show ?case
    by (rule node_steps_trans)
qed simp

lemma sent_to_worker_same: "sent_to_worker m = Some m' \<Longrightarrow> m' = m"
  by (cases m) auto

lemma on_command_sends: "on_command f c = (e, sent) \<Longrightarrow> list_all (\<lambda>m. sent_to_worker m = Some m) sent"
  by (cases c) (auto simp: on_command_def split: option.splits, frule sent_to_worker_same, simp)

lemma socket_loop_sends: "socket_loop cf decode i n ts s = (e, sent, s') \<Longrightarrow> list_all (\<lambda>m. sent_to_worker m = Some m) sent"
proof (induction ts arbitrary: s e sent s')
  case (Cons t ts)
  have "list_all (\<lambda>m. sent_to_worker m = Some m) sent1" if "socket_turn cf decode i n t s = (e1, sent1, s1)" for e1 sent1 s1
    using that on_command_sends
    by (auto simp: socket_turn_def Let_def split: prod.splits if_splits option.splits)
  then show ?case
    using Cons by (fastforce simp: Let_def split: prod.splits option.splits)
qed simp

lemma attend_worker_steps:
  assumes "attend_worker cf decode io info turns s = (e, sent, s')"
  shows "node_steps cf s s'"
proof (cases "io_cut io")
  case False
  obtain r s1 where c: "connect cf (ni_node_id info) s = (r, s1)" by fastforce
  have "node_steps cf s1 s'"
    using assms False c node_steps_loop
    by (auto simp: attend_worker_def Let_def split: sum.splits option.splits prod.splits)
  with node_steps_connect [OF c] show ?thesis by (rule node_steps_trans)
qed (use assms in \<open>simp add: attend_worker_def\<close>)

lemma attend_worker_sends:
  assumes "attend_worker cf decode io info turns s = (e, sent, s')"
  shows "sent = [] \<or> (\<exists>rest. sent = WorkerRegistered (ni_node_id info) (ni_status info) # rest \<and>
    list_all (\<lambda>m. sent_to_worker m = Some m) rest)"
  using assms socket_loop_sends
  by (fastforce simp: attend_worker_def Let_def split: if_splits sum.splits option.splits prod.splits)

lemma greet_worker_Inl: "greet_worker cf decode w worker_proof raw s = (Inl e, s1) \<Longrightarrow> s1 = s"
proof -
  have "s1 = s" if e: "enroll cf w i name caps worker_proof s = (Inl e, s1)" for i name caps
  proof (cases "enroll_row cf w i name caps worker_proof s")
    case (Inr p)
    obtain ty s2 where p: "p = (ty, s2)" by fastforce
    from Inr p have "enroll_row cf w i name caps worker_proof s = Inr (ty, s2)" by simp
    then have "node_get i s2 \<noteq> None"
    proof (cases rule: enroll_row_Inr)
      case new
      then show ?thesis by (auto simp: node_create_def node_get_def new_worker_def exn_simps row_insert_Inr_iff)
    next
      case (known r)
      then show ?thesis by (simp add: node_get_update)
    qed
    with e Inr p show ?thesis by (auto simp: enroll_def info_of_stored_def)
  qed (use e in \<open>simp add: enroll_def\<close>)
  moreover assume "greet_worker cf decode w worker_proof raw s = (Inl e, s1)"
  ultimately show ?thesis
    by (auto simp: greet_worker_def op_bind_def op_lift_def op_raise_def split: sum.splits message.splits)
qed

section \<open>Sample sockets\<close>

definition sample_hello :: message where
  "sample_hello = WorkerHello ''worker_1'' ''n'' sample_capabilities"

definition sample_reads :: "string \<Rightarrow> message option" where
  \<comment> \<open>the empty text is the hello, any other a heartbeat\<close>
  "sample_reads raw = Some (if raw = [] then sample_hello else WorkerHeartbeat (wc_resources sample_capabilities))"

lemma sample_reads_hello: "receive_message sample_reads [] = Inr sample_hello"
  by (simp add: sample_reads_def sample_hello_def receive_message_def validate_json_def construct_def utf8_length_def
      opaque_id_def length_within_def id_char_def capabilities_ok_def resources_ok_def sample_capabilities_def)

lemma sample_reads_beat: "receive_message sample_reads ''b'' = Inr (WorkerHeartbeat (wc_resources sample_capabilities))"
  by (simp add: sample_reads_def receive_message_def validate_json_def construct_def utf8_length_def
      MAX_MESSAGE_BYTES_def resources_ok_def sample_capabilities_def)

lemma sample_greeted:
  "\<exists>info s1. greet_worker sample_node_config sample_reads sample_world (Some ''kworker_1'') [] (no_nodes (new_bus 5)) = (Inr info, s1) \<and>
     ni_node_id info = ''worker_1'' \<and> connect sample_node_config ''worker_1'' s1 = (Inr 0, sample_idle)"
proof -
  let ?e = "enroll sample_node_config sample_world ''worker_1'' ''n'' sample_capabilities (Some ''kworker_1'') (no_nodes (new_bus 5))"
  have g: "greet_worker sample_node_config sample_reads sample_world (Some ''kworker_1'') [] (no_nodes (new_bus 5)) = ?e"
    unfolding greet_worker_def op_bind_def op_lift_def sample_reads_hello sample_hello_def by simp
  have "\<exists>info. fst ?e = Inr info \<and> ni_node_id info = ''worker_1''"
    by (simp add: enroll_def sample_enrolled info_of_stored_def node_get_def new_worker_def node_info_of_def)
  then obtain info where e: "?e = (Inr info, snd ?e)" "ni_node_id info = ''worker_1''" by (metis prod.collapse)
  have "nd_connections (no_nodes b) = []" "nd_next_session (no_nodes b) = 0" for b by (simp_all add: no_nodes_def)
  then have "nd_connections (snd ?e) = []" "nd_next_session (snd ?e) = 0"
    by (simp_all add: enroll_def sample_enrolled node_publish_def)
  then have "fst (connect sample_node_config ''worker_1'' (snd ?e)) = Inr 0"
    by (simp add: connect_def sample_node_config_def close_session_def Let_def)
  moreover have "snd (connect sample_node_config ''worker_1'' (snd ?e)) = sample_idle" by (simp add: sample_idle_def)
  ultimately have "connect sample_node_config ''worker_1'' (snd ?e) = (Inr 0, sample_idle)" by (metis prod.collapse)
  with g e show ?thesis by metis
qed

lemma sample_opened:
  "\<exists>ack. open_socket sample_node_config sample_reads sample_world (Some ''kworker_1'') [] (no_nodes (new_bus 5)) =
     (Inr (''worker_1'', 0, ack), sample_idle)"
  using sample_greeted by (auto simp: open_socket_def op_bind_def op_return_def)

lemma connect_next: "connect cf i s = (Inr n, s') \<Longrightarrow> nd_next_session s' = Suc n"
  by (auto simp: connect_def Let_def split: if_splits)

lemma sample_reopened:
  "\<exists>ack s3. open_socket sample_node_config sample_reads sample_world (Some ''kworker_1'') [] sample_idle =
     (Inr (''worker_1'', 1, ack), s3) \<and> nd_recent s3 = []"
proof -
  let ?e = "enroll sample_node_config sample_world ''worker_1'' ''n'' sample_capabilities (Some ''kworker_1'') sample_idle"
  have g: "greet_worker sample_node_config sample_reads sample_world (Some ''kworker_1'') [] sample_idle = ?e"
    unfolding greet_worker_def op_bind_def op_lift_def sample_reads_hello sample_hello_def by simp
  have row: "node_get ''worker_1'' sample_idle =
      Some (new_worker sample_node_config sample_world ''worker_1'' ''n'' sample_capabilities)"
    by (simp add: node_get_def sample_idle_state new_worker_def)
  have "fst ?e = Inr info \<Longrightarrow> ni_node_id info = ''worker_1''" for info
    using enroll_enabled by (metis prod.collapse)
  moreover have "\<exists>info. fst ?e = Inr info"
    by (simp add: enroll_def enroll_row_def verify_enrollment_def falsy_def compare_digest_def ascii_def enrollment_proof_def
        row enroll_known_def new_worker_def sample_node_config_def info_of_stored_def node_get_update)
  ultimately obtain info s1 where e: "?e = (Inr info, s1)" "ni_node_id info = ''worker_1''" by (metis prod.collapse)
  have "nd_next_session sample_idle = 1" using sample_greeted connect_next by force
  then have s: "nd_connections s1 = [(''worker_1'', 0)]" "nd_next_session s1 = 1" "nd_recent s1 = []"
    using same_sessions_enroll [of sample_idle sample_node_config sample_world "''worker_1''" "''n''" sample_capabilities
        "Some ''kworker_1''"] e(1) by (simp_all add: same_sessions_def sample_idle_state)
  then obtain s3 where c: "connect sample_node_config ''worker_1'' s1 = (Inr 1, s3)" "nd_recent s3 = []"
    by (simp add: connect_def Let_def close_session_parts)
  have "open_socket sample_node_config sample_reads sample_world (Some ''kworker_1'') [] sample_idle =
      (Inr (''worker_1'', 1, WorkerRegistered ''worker_1'' (ni_status info)), s3)"
    by (simp add: open_socket_def op_bind_def op_return_def g e c)
  with c(2) show ?thesis by blast
qed

lemma sample_request_sent:
  "\<exists>s. socket_loop sample_node_config sample_reads ''worker_1'' 0
       [\<lparr>tu_others = [Register ''worker_1'' ''task_0001'' 10], tu_received = None, tu_gets = True, tu_text_first = False,
         tu_between = [], tu_send = None, tu_world = sample_world\<rparr>] sample_idle =
     (SocketCancelled, [TaskRequest ''task_0001'' 10], s)"
proof -
  have "wk_queue (nd_sessions sample_nodes 0) = [TaskRequest ''task_0001'' 10]"
    unfolding sample_nodes_registered
    by (simp add: sample_idle_state register_probe_def Let_def sample_request put_nowait_def dict_put_def
        sample_node_config_def [THEN arg_cong [of _ _ nc_max_tasks]] sample_node_config_def [THEN arg_cong [of _ _ nc_max_messages]])
  then have "\<exists>s. next_command 0 (snd (register_probe sample_node_config ''worker_1'' ''task_0001'' 10 sample_idle)) =
      (Some (TaskRequest ''task_0001'' 10), s)"
    unfolding sample_nodes_registered by (simp add: next_command_def)
  then show ?thesis by (auto simp: socket_turn_def take_command_def on_command_def on_text_def)
qed

section \<open>Properties\<close>

text \<open>
  C19: a socket changes the service or sends anything only for a worker that has enrolled on it: its
  first text is a hello, its proof is the HMAC of the hello's node id under the configured secret, and
  the node's row, if it has one, is enabled and holds that proof. The acknowledgement is then the first
  message, only probe requests and registrations follow, everything the socket does is a sequence of the
  service's atomic operations, and however it ends (an error of the worker, a failing send or receive, a
  hang-up, a cancellation at any point after the enrollment) the node has no connection left.
\<close>

theorem worker_socket_serves_enrolled_workers:
  assumes "serve_worker_socket cf decode w w' worker_proof io turns s = (end, sent, s')"
    and "sent \<noteq> [] \<or> s' \<noteq> s"
  shows "\<exists>raw i name caps secret. nc_role cf = CoreRole \<and> io_hello io = Text raw \<and>
    receive_message decode raw = Inr (WorkerHello i name caps) \<and>
    nc_secret cf = Some secret \<and> secret \<noteq> [] \<and> worker_proof = Some (nc_proof cf secret i) \<and>
    (\<forall>r. node_get i s = Some r \<longrightarrow> nr_enabled r \<and> nr_enrollment_hash r = nc_proof cf secret i) \<and>
    (sent = [] \<or> (\<exists>st rest. sent = WorkerRegistered i st # rest \<and> list_all (\<lambda>m. sent_to_worker m = Some m) rest)) \<and>
    node_steps cf s s' \<and> map_of (nd_connections s') i = None"
proof -
  from assms have core: "nc_role cf = CoreRole" by (auto simp: serve_worker_socket_def split: if_splits)
  obtain raw where hello: "io_hello io = Text raw"
    using assms core by (cases "io_hello io") (auto simp: serve_worker_socket_def)
  obtain r s1 where g: "greet_worker cf decode w worker_proof raw s = (r, s1)" by fastforce
  with assms core hello greet_worker_Inl obtain info where r: "r = Inr info"
    by (cases r) (fastforce simp: serve_worker_socket_def)+
  note g = g [unfolded r]
  obtain s2 where att: "attend_worker cf decode io info turns s1 = (end, sent, s2)"
    and s': "s' = close_socket cf w' (ni_node_id info) s2"
    using assms(1) core hello g by (auto simp: serve_worker_socket_def Let_def split: prod.splits)
  from g obtain name caps secret where en: "receive_message decode raw = Inr (WorkerHello (ni_node_id info) name caps)"
    "nc_secret cf = Some secret" "secret \<noteq> []" "worker_proof = Some (nc_proof cf secret (ni_node_id info))"
    "\<forall>r. node_get (ni_node_id info) s = Some r \<longrightarrow> nr_enabled r \<and>
       nr_enrollment_hash r = nc_proof cf secret (ni_node_id info)"
    by (rule greet_worker_result)
  have "node_steps cf s s1" using nop_steps_greet [of cf decode w worker_proof raw] g unfolding nop_steps_def by (metis snd_conv)
  also have "node_steps cf s1 s2" by (rule attend_worker_steps [OF att])
  also have "node_steps cf s2 s'" unfolding s' close_socket_def by (rule node_steps_disconnect)
  finally have "node_steps cf s s'" .
  moreover have "map_of (nd_connections s') (ni_node_id info) = None" unfolding s' close_socket_def by (rule disconnect_closes)
  moreover have "sent = [] \<or> (\<exists>st rest. sent = WorkerRegistered (ni_node_id info) st # rest \<and>
      list_all (\<lambda>m. sent_to_worker m = Some m) rest)"
    using attend_worker_sends [OF att] by blast
  ultimately show ?thesis using core hello en by blast
qed

theorem worker_socket_serves_enrolled_workers_witness:
  "\<exists>end st s'. serve_worker_socket sample_node_config sample_reads sample_world sample_world (Some ''kworker_1'')
       \<lparr>io_hello = Text [], io_cut = False, io_ack = None\<rparr>
       [\<lparr>tu_others = [Register ''worker_1'' ''task_0001'' 10], tu_received = None, tu_gets = True, tu_text_first = False,
         tu_between = [], tu_send = None, tu_world = sample_world\<rparr>] (no_nodes (new_bus 5)) =
       (end, [WorkerRegistered ''worker_1'' st, TaskRequest ''task_0001'' 10], s') \<and>
     map_of (nd_connections s') ''worker_1'' = None \<and> nc_proof sample_node_config ''k'' ''worker_1'' = ''kworker_1''"
proof -
  let ?io = "\<lparr>io_hello = Text [], io_cut = False, io_ack = None\<rparr>"
  let ?turns = "[\<lparr>tu_others = [Register ''worker_1'' ''task_0001'' 10], tu_received = None, tu_gets = True, tu_text_first = False,
         tu_between = [], tu_send = None, tu_world = sample_world\<rparr>]"
  obtain info s1 where g: "greet_worker sample_node_config sample_reads sample_world (Some ''kworker_1'') [] (no_nodes (new_bus 5)) =
      (Inr info, s1)" "ni_node_id info = ''worker_1''" "connect sample_node_config ''worker_1'' s1 = (Inr 0, sample_idle)"
    using sample_greeted by blast
  obtain s2 where l: "socket_loop sample_node_config sample_reads ''worker_1'' 0 ?turns sample_idle =
      (SocketCancelled, [TaskRequest ''task_0001'' 10], s2)" using sample_request_sent by blast
  have "attend_worker sample_node_config sample_reads ?io info ?turns s1 =
      (SocketCancelled, [WorkerRegistered ''worker_1'' (ni_status info), TaskRequest ''task_0001'' 10], s2)"
    by (simp add: attend_worker_def g(2,3) l del: socket_loop.simps)
  then have served: "serve_worker_socket sample_node_config sample_reads sample_world sample_world (Some ''kworker_1'') ?io ?turns
      (no_nodes (new_bus 5)) = (SocketCancelled, [WorkerRegistered ''worker_1'' (ni_status info), TaskRequest ''task_0001'' 10],
        close_socket sample_node_config sample_world ''worker_1'' s2)"
    by (simp add: serve_worker_socket_def g(1,2) sample_node_config_def [THEN arg_cong [of _ _ nc_role]])
  from worker_socket_serves_enrolled_workers [OF served] served show ?thesis
    by (auto simp: sample_reads_hello sample_hello_def sample_node_config_def [THEN arg_cong [of _ _ nc_proof]])
qed

text \<open>
  C39: a worker that reconnects before the core has noticed the end of its old socket loses its new
  session: the cleanup of the old socket disconnects by node id, not by session. The new socket's loop
  goes on, and the next heartbeat on it makes the node's row online again, but no session is left, so
  every probe of a fresh task id is refused as unavailable.
\<close>

theorem replaced_socket_closes_its_successor:
  fixes cf :: node_config and acts between :: "node_action list" and b :: bus
  defines "s0 \<equiv> fold (node_do cf) acts (no_nodes b)"
  assumes old: "open_socket cf decode w0 proof0 raw0 s0 = (Inr (i, n0, ack0), s1)"
    and still: "s2 = fold (node_do cf) between s1" "map_of (nd_connections s2) i = Some n0"
    and new: "open_socket cf decode w1 proof1 raw1 s2 = (Inr (i, n1, ack1), s3)"
    and cleanup: "s4 = close_socket cf w2 i s3"
    and beat: "receive_message decode raw = Inr (WorkerHeartbeat r)" "on_text cf decode w3 i (Some (Text raw)) s4 = (ended, s5)"
  shows "n1 \<noteq> n0 \<and> map_of (nd_connections s3) i = Some n1 \<and> map_of (nd_connections s4) i = None \<and>
    ended = None \<and> (\<exists>r. node_get i s5 = Some r \<and> nr_status r = NodeOnline) \<and>
    (\<forall>task timeout. map_of (nd_recent s5) task = None \<longrightarrow>
       register_probe cf i task timeout s5 = (Inl (NodeUnavailableError ''Worker is unavailable''), s5))"
proof -
  have inv0: "nodes_inv cf s0" unfolding s0_def by (rule nodes_inv_run [OF nodes_inv_empty])
  have "node_steps cf s0 s1" using nop_steps_open [of cf decode w0 proof0 raw0] old unfolding nop_steps_def by (metis snd_conv)
  from node_steps_inv [OF inv0 this] have inv2: "nodes_inv cf s2" unfolding still(1) by (rule nodes_inv_run)
  obtain info sa where g: "greet_worker cf decode w1 proof1 raw1 s2 = (Inr info, sa)"
    and c: "connect cf i sa = (Inr n1, s3)" "i = ni_node_id info"
    using new by (auto simp: open_socket_def op_bind_Inr_iff op_return_def)
  from g obtain name caps where "enroll cf w1 (ni_node_id info) name caps proof1 s2 = (Inr info, sa)"
    by (rule greet_worker_result)
  then have "same_sessions s2 sa" using same_sessions_enroll by (metis snd_conv)
  with inv2 still(2) have "n0 < nd_next_session sa"
    by (auto simp: nodes_inv_def same_sessions_def dest!: map_of_SomeD)
  moreover have "n1 = nd_next_session sa"
    using c(1) by (auto simp: connect_def Let_def close_session_parts split: if_splits)
  ultimately have "n1 \<noteq> n0" by simp
  note o = open_socket_result [OF new]
  then obtain r3 where "node_get i s3 = Some r3" "nr_enabled r3" by blast
  from disconnect_enabled [OF this] obtain r4 where r4: "node_get i s4 = Some r4" "nr_enabled r4"
    unfolding cleanup close_socket_def by blast
  have gone: "map_of (nd_connections s4) i = None" unfolding cleanup close_socket_def by (rule disconnect_closes)
  have "handle_text cf decode w3 i raw s4 = heartbeat w3 i None s4"
    by (simp add: handle_text_def op_bind_def op_lift_def beat(1))
  moreover have "fst (heartbeat w3 i None s4) = Inr ()" using r4 by (simp add: heartbeat_def)
  ultimately have five: "ended = None" "s5 = snd (heartbeat w3 i None s4)"
    using beat(2) by (auto simp: on_text_def split: prod.splits)
  have "map_of (nd_connections s5) i = None"
    using gone same_sessions_row_ops(1) [of s4 w3 i None] by (simp add: five(2) same_sessions_def)
  then have "map_of (nd_recent s5) task = None \<longrightarrow>
      register_probe cf i task timeout s5 = (Inl (NodeUnavailableError ''Worker is unavailable''), s5)" for task timeout
    by (simp add: register_probe_def)
  with \<open>n1 \<noteq> n0\<close> o gone five heartbeat_online [OF r4] show ?thesis by blast
qed

theorem replaced_socket_closes_its_successor_witness:
  "\<exists>ack0 ack1 s3 s5. open_socket sample_node_config sample_reads sample_world (Some ''kworker_1'') [] (no_nodes (new_bus 5)) =
       (Inr (''worker_1'', 0, ack0), sample_idle) \<and>
     open_socket sample_node_config sample_reads sample_world (Some ''kworker_1'') [] sample_idle =
       (Inr (''worker_1'', 1, ack1), s3) \<and>
     on_text sample_node_config sample_reads sample_world ''worker_1'' (Some (Text ''b''))
       (close_socket sample_node_config sample_world ''worker_1'' s3) = (None, s5) \<and>
     fst (register_probe sample_node_config ''worker_1'' ''task_0001'' 10 s5) =
       Inl (NodeUnavailableError ''Worker is unavailable'')"
proof -
  obtain ack0 where old: "open_socket sample_node_config sample_reads sample_world (Some ''kworker_1'') []
      (fold (node_do sample_node_config) [] (no_nodes (new_bus 5))) = (Inr (''worker_1'', 0, ack0), sample_idle)"
    using sample_opened by auto
  have still: "sample_idle = fold (node_do sample_node_config) [] sample_idle" "map_of (nd_connections sample_idle) ''worker_1'' = Some 0"
    by (simp_all add: sample_idle_state)
  obtain ack1 s3 where new: "open_socket sample_node_config sample_reads sample_world (Some ''kworker_1'') [] sample_idle =
      (Inr (''worker_1'', 1, ack1), s3)" and recent: "nd_recent s3 = []" using sample_reopened by blast
  let ?s4 = "close_socket sample_node_config sample_world ''worker_1'' s3"
  obtain ended s5 where beat: "on_text sample_node_config sample_reads sample_world ''worker_1'' (Some (Text ''b'')) ?s4 = (ended, s5)"
    by fastforce
  note r = replaced_socket_closes_its_successor [OF old still new refl sample_reads_beat beat]
  have "nd_recent ?s4 = []"
    using recent by (simp add: close_socket_def disconnect_def drop_session_def set_status_if_enabled_def close_session_parts
        node_publish_def node_update_def split: option.split)
  then have "nd_recent (snd (heartbeat sample_world ''worker_1'' None ?s4)) = []"
    using same_sessions_row_ops(1) [of ?s4 sample_world "''worker_1''" None] by (simp add: same_sessions_def)
  moreover have "s5 = snd (heartbeat sample_world ''worker_1'' None ?s4)"
    using beat by (auto simp: on_text_def handle_text_def op_bind_def op_lift_def sample_reads_beat split: prod.splits sum.splits)
  ultimately have "nd_recent s5 = []" by simp
  with r have "fst (register_probe sample_node_config ''worker_1'' ''task_0001'' 10 s5) =
      Inl (NodeUnavailableError ''Worker is unavailable'')" by simp
  with r old new beat show ?thesis by auto
qed

end
