(* ===== verification/Spec2Isabelle.thy ===== *)
theory Spec2Isabelle
  imports Manager_Props Team_Correct Nodes_Props Security_Props Vault Memory Worker_Loop Workflow Vision_Props App_Signin Http_Legacy Schemas_Props Startup Orm_Schema Database Worker_Socket
begin

text \<open>
  A model of the backend of AgentGraph OS (\<open>src/backend/agentgraph\<close>): a local server that keeps agents,
  runs them against language models, lets a run delegate work to other agents, guards the tools, approvals
  and credentials it holds behind passkey authentication, and talks to worker nodes. This theory imports
  all others; the properties stand in the theories named below.

  \<^bold>\<open>The program and its parts.\<close> A request enters \<open>app.py\<close>: the middleware finds the session the cookie
  belongs to and checks its CSRF token, and the matched route of \<open>api/\<close> checks a permission, calls a
  service and renders the result. \<open>services/manager.py\<close> is the centre: it starts a run in a transaction
  (\<open>repositories/\<close>), executes it in a task through a runtime (\<open>runtime/\<close>), and ends it. The runtime is
  chosen from the agent's stored graph: a single model call, the assistant (which reads memories and may
  ask for tools) or a team, whose scheduler starts child runs through the manager again. Models are
  reached through the router of \<open>models/\<close> and the clients of \<open>providers/\<close>. Everything of note is published on
  the event bus. After a restart \<open>services/recovery.py\<close> ends what was interrupted.

  \<^bold>\<open>Where to find what.\<close>
  Values, exceptions, strings, UUIDs and the two shared interfaces (\<open>row_table\<close>, \<open>status_machine\<close>): \<open>Prelude\<close>.
  \<open>domain/entities.py\<close>, \<open>runtime/execution.py\<close>: \<open>Entities\<close>. The lifecycle tables and their repositories: \<open>Store\<close>.
  \<open>domain/orchestration.py\<close>: \<open>Orchestration\<close>. \<open>models/\<close>: \<open>Models\<close>; \<open>providers/\<close>: \<open>Providers\<close>, \<open>Provider_Props\<close>.
  \<open>runtime/team.py\<close>: \<open>Team\<close>, \<open>Team_Correct\<close>; its port to the manager: \<open>Delegation\<close>.
  \<open>runtime/events.py\<close>, \<open>domain/remote.py\<close>: \<open>Events\<close>. \<open>services/recovery.py\<close>: \<open>Recovery\<close>, \<open>Recovery_Correct\<close>.
  \<open>services/manager.py\<close>, \<open>runtime/registry.py\<close>: \<open>Manager\<close>, \<open>Manager_Inv\<close>, \<open>Manager_Steps\<close>, \<open>Manager_Tree\<close>,
  \<open>Manager_Props\<close>. \<open>services/remote.py\<close>: \<open>Approvals\<close>, \<open>Remote\<close>. \<open>services/tools.py\<close>: \<open>Tools\<close>.
  \<open>runtime/graph.py\<close>, \<open>runtime/lexi.py\<close>, \<open>runtime/selector.py\<close>, \<open>services/lexi.py\<close>: \<open>Workflow\<close>.
  \<open>services/memory.py\<close>: \<open>Memory\<close>. \<open>services/vision.py\<close>: \<open>Vision\<close>, \<open>Vision_Correct\<close>, \<open>Vision_Props\<close>.
  \<open>repositories/security.py\<close>: \<open>Security_Store\<close>; \<open>services/security.py\<close>, \<open>services/auth.py\<close>: \<open>Security\<close>, \<open>Auth\<close>,
  \<open>Security_Frame\<close>, \<open>Security_Correct\<close>, \<open>Security_Props\<close>; \<open>services/vault.py\<close>: \<open>Vault\<close>.
  \<open>domain/distributed.py\<close>, \<open>services/nodes.py\<close>, \<open>api/workers.py\<close>: \<open>Distributed\<close>, \<open>Nodes\<close>, \<open>Nodes_Correct\<close>,
  \<open>Nodes_Props\<close>, the socket's loop \<open>Worker_Socket\<close>; \<open>worker.py\<close>: \<open>Worker\<close>, \<open>Worker_Loop\<close>. \<open>settings.py\<close>: \<open>Settings\<close>. \<open>api/schemas.py\<close>: \<open>Schemas\<close>, \<open>Schemas_Props\<close>,
  \<open>Responses\<close>. The handlers of \<open>api/\<close>: \<open>Http\<close>, \<open>Http_Remote\<close>, \<open>Http_Vision\<close>, \<open>Http_Security\<close>, and the router
  the application leaves out: \<open>Http_Legacy\<close>. \<open>app.py\<close>: \<open>Wiring\<close> (what each service takes from the settings)
  and \<open>App\<close>; its properties: \<open>App_Sample\<close>, \<open>App_Props\<close>, \<open>App_Views\<close>, \<open>App_Signin\<close>, \<open>Startup\<close>.
  \<open>alembic/versions\<close>: \<open>Ddl\<close> (tables and the statements on them), \<open>Migrations\<close>; the tables the classes of
  \<open>persistence/models.py\<close> declare: \<open>Orm_Schema\<close>; \<open>alembic/env.py\<close>, \<open>persistence/database.py\<close>: \<open>Database\<close>.

  \<^bold>\<open>How state and operations correspond.\<close> A class becomes a record, an enumeration a datatype with the
  source's members, a table a list of rows addressed by its primary key (unique columns and foreign keys are
  guards of the repository functions, their violation is \<open>IntegrityError\<close>), a dictionary an association list
  where its order is visible, otherwise a map. An operation of a service is a function from the service's
  state to a result and the new state (\<open>op\<close>, \<open>sop\<close>, \<open>nop\<close>, \<open>vop\<close>, \<open>web\<close>); a result is \<open>exn + 'a\<close>, whose left
  values are the exceptions of the code, so that every raise and every \<open>except\<close> is visible. A transaction
  keeps the old tables when it raises. What an operation reads from outside is an argument: the clock and
  the ids it draws (\<open>world\<close>), and the functions of the libraries (hashing, Fernet, WebAuthn, TOTP, the image
  library, the HTTP client, JSON parsing, \<open>urlparse\<close>, pydantic's reading of numbers). The application's
  state, \<open>app\<close>, holds the components side by side; the bus they share is the manager's.

  \<^bold>\<open>What the lemmas show.\<close> The lifecycle tables satisfy their invariant in every state the manager can
  reach under any interleaving of its atomic operations (\<open>mg_step\<close>), the operations made of several
  transactions are sequences of such steps (also when a cancellation cuts them short), and finished runs, decided approvals, ended challenges and
  finished analyses never change (\<open>status_machine\<close>). Starting is all or nothing; a task that has
  begun ends its run unless the database refuses that or a cancellation arrives while the end is recorded, and
  stopping and shutting down end those runs too; delegations form a forest, so the recursions over them end. Tools launch only what the
  allow list and an approval admit, and the ledger accounts for it, with the
  two ways in which an entry stays in doubt stated. For security: a lockdown leaves no
  grant, revoked devices authenticate nobody, challenges are used once. For nodes: the bounds of the
  queues and of the probes that wait, that a probe is answered by the worker it was sent to and ends with
  its session, and that a socket serves only a worker that has proved itself. Image files agree with their rows. The providers keep the contract the router relies on.
  Over HTTP: nothing changes without the permission and the CSRF token the endpoint asks for, strangers
  learn nothing, reading requests change nothing, signing in makes the cookie work, and after start-up
  nothing is left that was interrupted. The migrations build the
  tables the classes need, each downgrade takes back its upgrade, and the stored revision determines the
  schema. The interfaces between components are locales (\<open>row_table\<close>, \<open>status_machine\<close>, the delegation port,
  the model provider, the sessions that preserve a predicate, statements that can be taken back), each
  interpreted on the definitions that implement it.

  \<^bold>\<open>Bounds and fuel.\<close> Integers are Python's and unbounded; the settings' bounds are part of \<open>settings_ok\<close>.
  The assistant's graph runs under LangGraph's limit of 25 nodes, modelled as such; with at most ten tool
  steps, the largest the settings admit, it visits fewer nodes and the limit is never reached. \<open>stop_run\<close>
  and the loops that collect a run tree take fuel; the number of runs in the table always suffices, because
  the rank of a run falls along every delegation. The waves of a team end because every wave finishes
  a node. All other functions recurse on their data or on a measure.

  \<^bold>\<open>Abstractions.\<close> Tasks interleave between the atomic operations, which are the stretches between two
  \<open>await\<close> that matter: a transaction is one step, and so are an upload, a deletion and a scan. A request's
  middleware and handler are one step as well, with a world for each of its calls. Waiting for a child run,
  an approval, the launcher, a probe or the model is an environment that says how the others moved on; while
  \<open>RunRegistry.cancel\<close> and \<open>cancel_all\<close> wait, only the cancelled tasks move. A cancellation reaches a run's
  task, the closing of a tool's execution, an analysis, a worker's socket and the worker's own loop at the
  points their theories name; a request itself is not cancelled, and shielded scopes are taken at their word.
  Times are integers of microseconds, characters code points below 256, floats rationals, so that
  infinities and NaN, which pydantic admits for a node's position, are left out. A query
  without an order returns the rows in the order of their insertion. A reply of the HTTP client is a status and
  perhaps a JSON value, a time-out, a transport error or a cancellation: a body that cannot be parsed, for
  whatever reason, is the \<open>ValueError\<close> of a parser, and the client raises nothing else.

  \<^bold>\<open>Not modelled.\<close> What SQLAlchemy, Alembic, the ASGI server and the websocket libraries do themselves: sessions
  and drivers, running scripts offline, timing, the framework's routing and decoding. The inspection of a
  runtime's signature in \<open>_invoke_runtime\<close> and file modes. What remains of the backend is object construction,
  imports and logging. The TypeScript client, tests and scripts are another language or not the program.
\<close>

end
